(* ===== verification/Prelude.thy ===== *)
theory Prelude
  imports Complex_Main "HOL-Library.AList"
begin

text \<open>
  Shared vocabulary of the development: the names of the model's basic types, the Python
  idioms the services use (truthiness of optional strings, \<^verbatim>\<open>upper\<close>, \<^verbatim>\<open>strip\<close>,
  dictionaries in insertion order), the result type of code that may raise, and the loop
  combinator for a \<^verbatim>\<open>for\<close> statement whose body may raise.

  Identifiers (\<^verbatim>\<open>uuid.UUID\<close> and its \<^verbatim>\<open>str\<close>) are strings in canonical form; times are
  integers (microseconds since some origin); \<^verbatim>\<open>Decimal\<close> and the decimal value a
  \<^verbatim>\<open>float\<close> column prints are rationals. Strings are ASCII.
\<close>

type_synonym uuid = string
type_synonym time = int
type_synonym money = rat

named_theorems res_simps "inversion of the result combinators"
named_theorems py_simps "evaluation of the Python idioms"

section \<open>Python strings and optional values\<close>

definition falsy :: "string option \<Rightarrow> bool" where
  "falsy s = (case s of None \<Rightarrow> True | Some x \<Rightarrow> x = [])"

definition py_or :: "string option \<Rightarrow> string option \<Rightarrow> string option" where
  "py_or a b = (if falsy a then b else a)"

definition upper_char :: "char \<Rightarrow> char" where
  "upper_char c = (if 97 \<le> (of_char c :: nat) \<and> (of_char c :: nat) \<le> 122
     then char_of ((of_char c :: nat) - 32) else c)"

definition lower_char :: "char \<Rightarrow> char" where
  "lower_char c = (if 65 \<le> (of_char c :: nat) \<and> (of_char c :: nat) \<le> 90
     then char_of ((of_char c :: nat) + 32) else c)"

definition py_upper :: "string \<Rightarrow> string" where
  "py_upper s = map upper_char s"

definition py_lower :: "string \<Rightarrow> string" where
  "py_lower s = map lower_char s"

definition py_space :: "char \<Rightarrow> bool" where
  "py_space c = ((of_char c :: nat) = 32 \<or> 9 \<le> (of_char c :: nat) \<and> (of_char c :: nat) \<le> 13
     \<or> 28 \<le> (of_char c :: nat) \<and> (of_char c :: nat) \<le> 31)"

definition py_strip :: "string \<Rightarrow> string" where
  "py_strip s = rev (dropWhile py_space (rev (dropWhile py_space s)))"

lemma falsy_simps [simp]:
  "falsy None" "falsy (Some []) = True" "falsy (Some (c # cs)) = False"
  by (simp_all add: falsy_def)

lemma not_falsyE: "\<not> falsy s \<Longrightarrow> (\<And>x. s = Some x \<Longrightarrow> x \<noteq> [] \<Longrightarrow> P) \<Longrightarrow> P"
  by (cases s) (auto simp: falsy_def)

lemma falsy_Some [simp]: "falsy (Some x) = (x = [])"
  by (simp add: falsy_def)

lemma upper_char_idem [simp]: "upper_char (upper_char c) = upper_char c"
proof (cases "97 \<le> (of_char c :: nat) \<and> (of_char c :: nat) \<le> 122")
  case True
  then have "(of_char (upper_char c) :: nat) < 97"
    by (simp add: upper_char_def) linarith
  then show ?thesis by (simp add: upper_char_def [of "upper_char c"])
next
  case False
  then show ?thesis by (auto simp: upper_char_def)
qed

lemma py_upper_idem [simp]: "py_upper (py_upper s) = py_upper s"
  by (simp add: py_upper_def)

lemma py_strip_Nil [simp]: "py_strip [] = []"
  by (simp add: py_strip_def)

lemma py_upper_Nil_iff [simp]: "py_upper s = [] \<longleftrightarrow> s = []"
  by (simp add: py_upper_def)

section \<open>Lists\<close>

lemma take_nat_length:
  "\<not> int (length (take (nat q) xs)) < q \<Longrightarrow> 0 \<le> q \<Longrightarrow> length (take (nat q) xs) = nat q"
  by auto

lemma find_SomeD: "find P xs = Some x \<Longrightarrow> x \<in> set xs \<and> P x"
  by (auto simp: find_Some_iff)

lemma map_eq_on: "(\<And>x. x \<in> set xs \<Longrightarrow> f x = g x) \<Longrightarrow> map f xs = map g xs"
  by simp

text \<open>A sum over a list whose terms are all non-negative is zero only if every term is.\<close>

lemma sum_list_zero_iff_int:
  fixes f :: "'a \<Rightarrow> int"
  assumes "\<And>x. x \<in> set xs \<Longrightarrow> 0 \<le> f x"
  shows "sum_list (map f xs) = 0 \<longleftrightarrow> (\<forall>x \<in> set xs. f x = 0)"
  using assms
proof (induction xs)
  case Nil
  then show ?case by simp
next
  case (Cons x xs)
  have "0 \<le> sum_list (map f xs)"
    using Cons.prems by (intro sum_list_nonneg) auto
  moreover have "0 \<le> f x" using Cons.prems by simp
  moreover have "sum_list (map f xs) = 0 \<longleftrightarrow> (\<forall>x \<in> set xs. f x = 0)"
    using Cons.prems by (intro Cons.IH) auto
  ultimately show ?case by auto
qed

section \<open>Dictionaries in insertion order\<close>

text \<open>
  A Python dictionary is an association list; \<^verbatim>\<open>d[k] = v\<close> is \<^const>\<open>AList.update\<close>, which keeps
  the position of an existing key, as Python does.
\<close>

definition dict_get :: "('k \<times> 'v) list \<Rightarrow> 'k \<Rightarrow> 'v \<Rightarrow> 'v" where
  "dict_get d k dflt = (case map_of d k of None \<Rightarrow> dflt | Some v \<Rightarrow> v)"

lemma dict_get_update [simp]:
  "dict_get (AList.update k v d) k' dflt = (if k = k' then v else dict_get d k' dflt)"
  by (simp add: dict_get_def update_conv')

lemma dict_get_Nil [simp]: "dict_get [] k dflt = dflt"
  by (simp add: dict_get_def)

section \<open>Code that may raise\<close>

definition bindr :: "'e + 'a \<Rightarrow> ('a \<Rightarrow> 'e + 'b) \<Rightarrow> 'e + 'b" where
  "bindr m f = (case m of Inl e \<Rightarrow> Inl e | Inr x \<Rightarrow> f x)"

text \<open>\<open>require ok e\<close> is \<^verbatim>\<open>if not ok: raise e\<close>.\<close>

definition require :: "bool \<Rightarrow> 'e \<Rightarrow> 'e + unit" where
  "require ok e = (if ok then Inr () else Inl e)"

lemma bindr_simps [simp]: "bindr (Inl e) f = Inl e" "bindr (Inr x) f = f x"
  by (simp_all add: bindr_def)

lemma bindr_Inr_iff [res_simps]:
  "bindr m f = Inr y \<longleftrightarrow> (\<exists>x. m = Inr x \<and> f x = Inr y)"
  by (cases m) auto

lemma bindr_Inl_iff [res_simps]:
  "bindr m f = Inl e \<longleftrightarrow> m = Inl e \<or> (\<exists>x. m = Inr x \<and> f x = Inl e)"
  by (cases m) auto

lemma require_Inr_iff [res_simps]: "require ok e = Inr u \<longleftrightarrow> ok"
  by (cases u) (simp add: require_def)

lemma require_Inl_iff [res_simps]: "require ok e = Inl e' \<longleftrightarrow> \<not> ok \<and> e' = e"
  by (auto simp: require_def)

lemma require_simps [simp]: "require True e = Inr ()" "require False e = Inl e"
  by (simp_all add: require_def)

lemma bindr_cong [fundef_cong]:
  "m = m' \<Longrightarrow> (\<And>x. m' = Inr x \<Longrightarrow> f x = f' x) \<Longrightarrow> bindr m f = bindr m' f'"
  by (cases m') auto

lemma find_result_iff:
  "(\<exists>d. (case find P xs of None \<Rightarrow> Inl e | Some d \<Rightarrow> Inr d) = Inr d) \<longleftrightarrow> (\<exists>x \<in> set xs. P x)"
proof (cases "find P xs")
  case None
  then show ?thesis using find_None_iff [of P xs] by auto
next
  case (Some x)
  then have "x \<in> set xs \<and> P x" by (auto simp: find_Some_iff)
  with Some show ?thesis by auto
qed

text \<open>A loop over a list: the body maps the state to a new state, or raises.\<close>

fun for_each :: "('s \<Rightarrow> 'a \<Rightarrow> 'e + 's) \<Rightarrow> 's \<Rightarrow> 'a list \<Rightarrow> 'e + 's" where
  "for_each f s [] = Inr s"
| "for_each f s (x # xs) = bindr (f s x) (\<lambda>s'. for_each f s' xs)"

lemma for_each_append:
  "for_each f s (xs @ ys) = bindr (for_each f s xs) (\<lambda>s'. for_each f s' ys)"
proof (induction xs arbitrary: s)
  case (Cons x xs)
  then show ?case by (cases "f s x") auto
qed simp

text \<open>An invariant that the body keeps holds after the loop.\<close>

lemma for_each_inv:
  assumes "for_each f s xs = Inr s'" and "I s"
    and "\<And>s x s1. x \<in> set xs \<Longrightarrow> I s \<Longrightarrow> f s x = Inr s1 \<Longrightarrow> I s1"
  shows "I s'"
  using assms
proof (induction xs arbitrary: s)
  case (Cons x xs)
  from Cons.prems(1) obtain s1 where s1: "f s x = Inr s1" and rest: "for_each f s1 xs = Inr s'"
    by (auto simp: res_simps)
  have "I s1" using Cons.prems(2,3) s1 by auto
  with rest Cons.IH Cons.prems(3) show ?case by (meson list.set_intros(2))
qed simp

text \<open>What every round that returns needs of its element holds of all elements.\<close>

lemma for_each_all:
  assumes "for_each f s xs = Inr s'" and "\<And>s x s1. x \<in> set xs \<Longrightarrow> f s x = Inr s1 \<Longrightarrow> P x"
  shows "\<forall>x \<in> set xs. P x"
  using assms
proof (induction xs arbitrary: s)
  case (Cons x xs)
  from Cons.prems(1) obtain s1 where s1: "f s x = Inr s1" and rest: "for_each f s1 xs = Inr s'"
    by (auto simp: res_simps)
  have "\<forall>x \<in> set xs. P x" using Cons.IH [OF rest] Cons.prems(2) by (meson list.set_intros(2))
  moreover have "P x" using Cons.prems(2) s1 by (meson list.set_intros(1))
  ultimately show ?case by simp
qed simp

text \<open>The round of one element, with what ran before and what runs after it.\<close>

lemma for_each_split:
  assumes "for_each f s xs = Inr s'" and "x \<in> set xs"
  obtains as bs s1 s2 where "xs = as @ x # bs" "for_each f s as = Inr s1" "f s1 x = Inr s2"
    "for_each f s2 bs = Inr s'"
proof -
  obtain as bs where xs: "xs = as @ x # bs" using assms(2) by (auto dest: split_list)
  with assms(1) show thesis by (auto simp: for_each_append bindr_Inr_iff intro!: that [OF xs])
qed

text \<open>A quantity that every round of the loop adds to grows by the sum over the rounds.\<close>

lemma for_each_sum:
  fixes q :: "'s \<Rightarrow> int"
  assumes "for_each f s xs = Inr s'"
    and "\<And>s x s1. x \<in> set xs \<Longrightarrow> f s x = Inr s1 \<Longrightarrow> q s1 = q s + d x"
  shows "q s' = q s + sum_list (map d xs)"
  using assms
proof (induction xs arbitrary: s)
  case (Cons x xs)
  from Cons.prems(1) obtain s1 where s1: "f s x = Inr s1" and rest: "for_each f s1 xs = Inr s'"
    by (auto simp: res_simps)
  have "q s1 = q s + d x" using Cons.prems(2) s1 by auto
  moreover have "q s' = q s1 + sum_list (map d xs)"
    using rest Cons.IH Cons.prems(2) by (meson list.set_intros(2))
  ultimately show ?case by simp
qed simp

end
