(* ===== verification/Errors.thy ===== *)
theory Errors
  imports Prelude
begin

text \<open>
  The error catalogue (\<^verbatim>\<open>core/error_catalog.py\<close>), \<^verbatim>\<open>AppError\<close>, and the part of the exception
  handler of \<^verbatim>\<open>core/errors.py\<close> that decides the code and the HTTP status of a reply. An
  \<^verbatim>\<open>AppError\<close> carries its catalogue entry and the \<^verbatim>\<open>message\<close> of its \<^verbatim>\<open>details\<close>
  (\<open>None\<close> when it is raised without details); the other detail fields only repeat
  inputs and are not kept.
\<close>

datatype error_code =
    INVALID_TOKEN | INVALID_CREDENTIALS | USER_INACTIVE | PERMISSION_DENIED
  | CURRENT_PASSWORD_INVALID | PASSWORD_TOO_SHORT | PASSWORD_MUST_DIFFER | PASSWORD_COMPLEXITY
  | TENANT_SCOPE_REQUIRED | CROSS_TENANT_ACCESS_DENIED | STORE_SCOPE_REQUIRED
  | STORE_SCOPE_MISMATCH | TENANT_STORE_MISMATCH | STORE_NOT_FOUND | DB_UNAVAILABLE
  | AI_SERVICE_TIMEOUT | AI_SERVICE_UNAVAILABLE | AI_AUTH_FAILED | AI_RATE_LIMITED
  | AI_BAD_RESPONSE | AI_REQUEST_INVALID | AI_RESPONSE_INVALID | AI_INVALID_MODEL
  | LOCK_TIMEOUT | VALIDATION_ERROR | RESOURCE_NOT_FOUND | BUSINESS_CONFLICT | INTERNAL_ERROR
  | IDEMPOTENCY_KEY_REQUIRED | IDEMPOTENCY_KEY_REUSED_WITH_DIFFERENT_PAYLOAD
  | IDEMPOTENCY_REQUEST_IN_PROGRESS | IDEMPOTENCY_REPLAY
  | TENANT_ID_REQUIRED_FOR_SUPERADMIN | SUPERADMIN_REQUIRES_TENANT_ID_FOR_VARIANT_FIELDS
  | TENANT_SCOPE_MISMATCH | TENANT_NOT_FOUND

text \<open>The \<^verbatim>\<open>status_code\<close> of each catalogue entry.\<close>

fun status_code :: "error_code \<Rightarrow> int" where
  "status_code INVALID_TOKEN = 401"
| "status_code INVALID_CREDENTIALS = 401"
| "status_code USER_INACTIVE = 403"
| "status_code PERMISSION_DENIED = 403"
| "status_code CURRENT_PASSWORD_INVALID = 400"
| "status_code PASSWORD_TOO_SHORT = 400"
| "status_code PASSWORD_MUST_DIFFER = 400"
| "status_code PASSWORD_COMPLEXITY = 400"
| "status_code TENANT_SCOPE_REQUIRED = 403"
| "status_code CROSS_TENANT_ACCESS_DENIED = 403"
| "status_code STORE_SCOPE_REQUIRED = 403"
| "status_code STORE_SCOPE_MISMATCH = 403"
| "status_code TENANT_STORE_MISMATCH = 403"
| "status_code STORE_NOT_FOUND = 404"
| "status_code DB_UNAVAILABLE = 503"
| "status_code AI_SERVICE_TIMEOUT = 504"
| "status_code AI_SERVICE_UNAVAILABLE = 503"
| "status_code AI_AUTH_FAILED = 401"
| "status_code AI_RATE_LIMITED = 429"
| "status_code AI_BAD_RESPONSE = 502"
| "status_code AI_REQUEST_INVALID = 422"
| "status_code AI_RESPONSE_INVALID = 502"
| "status_code AI_INVALID_MODEL = 422"
| "status_code LOCK_TIMEOUT = 409"
| "status_code VALIDATION_ERROR = 422"
| "status_code RESOURCE_NOT_FOUND = 404"
| "status_code BUSINESS_CONFLICT = 409"
| "status_code INTERNAL_ERROR = 500"
| "status_code IDEMPOTENCY_KEY_REQUIRED = 400"
| "status_code IDEMPOTENCY_KEY_REUSED_WITH_DIFFERENT_PAYLOAD = 409"
| "status_code IDEMPOTENCY_REQUEST_IN_PROGRESS = 409"
| "status_code IDEMPOTENCY_REPLAY = 200"
| "status_code TENANT_ID_REQUIRED_FOR_SUPERADMIN = 422"
| "status_code SUPERADMIN_REQUIRES_TENANT_ID_FOR_VARIANT_FIELDS = 400"
| "status_code TENANT_SCOPE_MISMATCH = 403"
| "status_code TENANT_NOT_FOUND = 404"

datatype app_error = AppError (error: error_code) (message: "string option")

type_synonym 'a res = "app_error + 'a"

abbreviation raise0 :: "error_code \<Rightarrow> app_error" where
  "raise0 c \<equiv> AppError c None"

abbreviation raise1 :: "error_code \<Rightarrow> string \<Rightarrow> app_error" where
  "raise1 c m \<equiv> AppError c (Some m)"

text \<open>
  The reply to an \<^verbatim>\<open>AppError\<close>: the status is the catalogue's; every 404 is reported under
  the code \<^verbatim>\<open>RESOURCE_NOT_FOUND\<close>; a 404 or 409 raised without details gets a default
  reason, a \<^verbatim>\<open>VALIDATION_ERROR\<close> without details an \<^verbatim>\<open>errors\<close> list of one entry.
\<close>

datatype reply_details =
    NoDetails
  | Message string
  | DefaultReason string
  | ErrorList

record error_reply =
  er_status :: int
  er_code :: error_code
  er_details :: reply_details

definition app_error_handler :: "app_error \<Rightarrow> error_reply" where
  "app_error_handler e =
    (let st = status_code (error e);
         code = (if st = 404 then RESOURCE_NOT_FOUND else error e);
         details0 = (case message e of None \<Rightarrow> NoDetails | Some m \<Rightarrow> Message m);
         details1 = (if details0 = NoDetails \<and> (st = 404 \<or> st = 409)
           then DefaultReason (if st = 404 then ''resource does not exist''
                               else ''business validation conflict'')
           else details0);
         details2 = (if st = 422 \<and> code = VALIDATION_ERROR \<and> details1 = NoDetails
           then ErrorList else details1)
     in \<lparr>er_status = st, er_code = code, er_details = details2\<rparr>)"

lemma app_error_handler_status [simp]: "er_status (app_error_handler e) = status_code (error e)"
  by (simp add: app_error_handler_def Let_def)

text \<open>Every reply to an error is an error status, except the catalogue's replay entry.\<close>

lemma status_code_error: "c \<noteq> IDEMPOTENCY_REPLAY \<Longrightarrow> 400 \<le> status_code c \<and> status_code c < 600"
  by (cases c) auto

end
