(* ===== verification/Scope.thy ===== *)
theory Scope
  imports Errors
begin

text \<open>
  Who is asking, and for what: the token and request context of a request, the tenants, stores
  and users it is checked against, and the scope rules of \<^verbatim>\<open>core/scope.py\<close>,
  \<^verbatim>\<open>core/deps.py\<close>, \<^verbatim>\<open>services/active_state.py\<close> and the POS routers. The lemmas show
  that a request that passes the store scope check never reaches another tenant's store, nor
  another store when its user is bound to one.
\<close>

section \<open>Data\<close>

record token_data =
  td_sub :: uuid
  td_tenant_id :: "uuid option"
  td_store_id :: "uuid option"
  td_role :: string
  td_status :: string
  td_is_active :: bool
  td_must_change_password :: bool
  td_email :: string
  td_username :: string

record request_context =
  rc_user_id :: "uuid option"
  rc_tenant_id :: "uuid option"
  rc_store_id :: "uuid option"
  rc_role :: "string option"
  rc_trace_id :: string

record tenant =
  tn_id :: uuid
  tn_name :: string
  tn_status :: string

record store =
  st_id :: uuid
  st_tenant_id :: uuid
  st_name :: string

record user =
  us_id :: uuid
  us_tenant_id :: uuid
  us_store_id :: "uuid option"
  us_username :: string
  us_email :: string
  us_role :: string
  us_status :: string
  us_must_change_password :: bool
  us_is_active :: bool

record directory =
  tenants :: "tenant list"
  stores :: "store list"
  users :: "user list"

section \<open>core/scope.py\<close>

definition SUPERADMIN_ROLES :: "string list" where
  "SUPERADMIN_ROLES = [''SUPERADMIN'', ''PLATFORM_ADMIN'']"

definition TENANT_ADMIN_ROLES :: "string list" where
  "TENANT_ADMIN_ROLES = [''ADMIN'']"

definition DEFAULT_BROAD_STORE_ROLES :: "string list" where
  "DEFAULT_BROAD_STORE_ROLES = [''SUPERADMIN'', ''ADMIN'']"

definition normalize_role :: "string option \<Rightarrow> string" where
  "normalize_role r = py_upper (case r of None \<Rightarrow> [] | Some x \<Rightarrow> x)"

definition is_superadmin :: "string option \<Rightarrow> bool" where
  "is_superadmin r = (normalize_role r \<in> set SUPERADMIN_ROLES)"

definition is_tenant_admin :: "string option \<Rightarrow> bool" where
  "is_tenant_admin r = (normalize_role r \<in> set TENANT_ADMIN_ROLES)"

definition can_write_stock_or_assets :: "string option \<Rightarrow> bool" where
  "can_write_stock_or_assets r =
    (normalize_role r \<in> set SUPERADMIN_ROLES \<union> set TENANT_ADMIN_ROLES)"

text \<open>\<^verbatim>\<open>broader_store_roles or DEFAULT_BROAD_STORE_ROLES\<close>: no list and an empty list both
  give the default.\<close>

definition allowed_roles :: "string list option \<Rightarrow> string list" where
  "allowed_roles broader =
    map py_upper (case broader of None \<Rightarrow> DEFAULT_BROAD_STORE_ROLES
      | Some rs \<Rightarrow> if rs = [] then DEFAULT_BROAD_STORE_ROLES else rs)"

definition can_read_tenant_scope :: "string option \<Rightarrow> string list option \<Rightarrow> bool" where
  "can_read_tenant_scope r broader = (normalize_role r \<in> set (allowed_roles broader))"

definition enforce_tenant_scope :: "token_data \<Rightarrow> string option \<Rightarrow> bool \<Rightarrow> unit res" where
  "enforce_tenant_scope td tenant_id allow_superadmin =
    (if falsy tenant_id \<or> falsy (td_tenant_id td) then Inl (raise0 TENANT_SCOPE_REQUIRED)
     else if td_tenant_id td \<noteq> tenant_id then
       (if allow_superadmin \<and> is_superadmin (Some (td_role td)) then Inr ()
        else Inl (raise0 CROSS_TENANT_ACCESS_DENIED))
     else Inr ())"

definition enforce_store_scope ::
    "token_data \<Rightarrow> string option \<Rightarrow> store list \<Rightarrow> bool \<Rightarrow> string list option \<Rightarrow> store res" where
  "enforce_store_scope td store_id sts allow_superadmin broader =
    (if falsy store_id then Inl (raise0 STORE_SCOPE_REQUIRED)
     else if falsy (td_tenant_id td) then Inl (raise0 TENANT_SCOPE_REQUIRED)
     else (case find (\<lambda>s. Some (st_id s) = store_id) sts of
         None \<Rightarrow> Inl (raise0 STORE_SCOPE_MISMATCH)
       | Some s \<Rightarrow>
           if Some (st_tenant_id s) \<noteq> td_tenant_id td then
             (if allow_superadmin \<and> is_superadmin (Some (td_role td)) then Inr s
              else Inl (raise0 STORE_SCOPE_MISMATCH))
           else if \<not> falsy (td_store_id td)
             \<and> normalize_role (Some (td_role td)) \<notin> set (allowed_roles broader)
             \<and> td_store_id td \<noteq> store_id then Inl (raise0 STORE_SCOPE_MISMATCH)
           else Inr s))"

section \<open>Tenant and store of a POS request\<close>

text \<open>\<^verbatim>\<open>_resolve_tenant_id\<close> of the POS routers: a superadmin must name the tenant.\<close>

definition pos_resolve_tenant_id :: "token_data \<Rightarrow> string option \<Rightarrow> uuid res" where
  "pos_resolve_tenant_id td tenant_id =
    (if is_superadmin (Some (td_role td)) then
       (if falsy tenant_id then Inl (raise0 TENANT_SCOPE_REQUIRED) else Inr (the tenant_id))
     else if falsy (td_tenant_id td) then Inl (raise0 TENANT_SCOPE_REQUIRED)
     else if \<not> falsy tenant_id \<and> tenant_id \<noteq> td_tenant_id td
       then Inl (raise0 CROSS_TENANT_ACCESS_DENIED)
     else Inr (the (td_tenant_id td)))"

text \<open>\<^verbatim>\<open>_resolve_store_id\<close> of the cash and advances routers.\<close>

definition pos_resolve_store_id :: "token_data \<Rightarrow> string option \<Rightarrow> uuid res" where
  "pos_resolve_store_id td requested =
    (if \<not> falsy (td_store_id td)
        \<and> py_upper (td_role td) \<notin> set (map py_upper DEFAULT_BROAD_STORE_ROLES) then
       (if \<not> falsy requested \<and> requested \<noteq> td_store_id td
        then Inl (raise0 STORE_SCOPE_MISMATCH) else Inr (the (td_store_id td)))
     else if \<not> falsy requested then Inr (the requested)
     else if \<not> falsy (td_store_id td) then Inr (the (td_store_id td))
     else Inl (raise0 STORE_SCOPE_REQUIRED))"

text \<open>\<^verbatim>\<open>_resolve_store_id\<close> of the sales router and of the returns service: a broad-store user
  without a store is told that \<^verbatim>\<open>store_id\<close> is required.\<close>

definition sales_resolve_store_id :: "token_data \<Rightarrow> string option \<Rightarrow> uuid res" where
  "sales_resolve_store_id td requested =
    (let broad = (py_upper (td_role td) \<in> set (map py_upper DEFAULT_BROAD_STORE_ROLES))
     in if \<not> falsy (td_store_id td) \<and> \<not> broad then
       (if \<not> falsy requested \<and> requested \<noteq> td_store_id td
        then Inl (raise0 STORE_SCOPE_MISMATCH) else Inr (the (td_store_id td)))
     else if \<not> falsy requested then Inr (the requested)
     else if \<not> falsy (td_store_id td) then Inr (the (td_store_id td))
     else if broad then Inl (raise1 VALIDATION_ERROR ''store_id is required for broad-store users'')
     else Inl (raise0 STORE_SCOPE_REQUIRED))"

section \<open>services/active_state.py and core/deps.py\<close>

datatype auth_reason = MissingUser | UserIsActiveFalse | UserStatusNotActive | TenantInactive

definition normalize_status :: "string option \<Rightarrow> string" where
  "normalize_status s = py_upper (py_strip (case s of None \<Rightarrow> [] | Some x \<Rightarrow> x))"

definition is_status_active :: "string option \<Rightarrow> bool" where
  "is_status_active s = (normalize_status s = ''ACTIVE'')"

definition is_tenant_active :: "tenant option \<Rightarrow> bool" where
  "is_tenant_active t = (case t of None \<Rightarrow> False
     | Some x \<Rightarrow> normalize_status (Some (tn_status x)) = ''ACTIVE'')"

text \<open>\<open>None\<close> is \<^verbatim>\<open>allowed=True\<close>; \<open>Some r\<close> is a refusal with its reason.\<close>

definition evaluate_auth_eligibility :: "user option \<Rightarrow> tenant option \<Rightarrow> auth_reason option" where
  "evaluate_auth_eligibility u t = (case u of
     None \<Rightarrow> Some MissingUser
   | Some x \<Rightarrow>
       if \<not> us_is_active x then Some UserIsActiveFalse
       else if \<not> is_status_active (Some (us_status x)) then Some UserStatusNotActive
       else if \<not> is_tenant_active t then Some TenantInactive
       else None)"

definition ensure_user_can_authenticate :: "directory \<Rightarrow> user \<Rightarrow> unit res" where
  "ensure_user_can_authenticate d u =
    (let t = (if us_tenant_id u \<noteq> [] then find (\<lambda>t. tn_id t = us_tenant_id u) (tenants d) else None)
     in if evaluate_auth_eligibility (Some u) t = None then Inr ()
        else Inl (raise0 USER_INACTIVE))"

definition get_current_user :: "directory \<Rightarrow> token_data \<Rightarrow> user res" where
  "get_current_user d td =
    (if td_sub td = [] then Inl (raise0 INVALID_TOKEN)
     else (case find (\<lambda>u. us_id u = td_sub td) (users d) of
         None \<Rightarrow> Inl (raise0 INVALID_TOKEN) | Some u \<Rightarrow> Inr u))"

definition require_active_user :: "directory \<Rightarrow> token_data \<Rightarrow> user res" where
  "require_active_user d td =
    bindr (get_current_user d td) (\<lambda>u.
    bindr (ensure_user_can_authenticate d u) (\<lambda>_. Inr u))"

definition require_request_context :: "token_data \<Rightarrow> string \<Rightarrow> request_context" where
  "require_request_context td trace_id =
    \<lparr>rc_user_id = Some (td_sub td), rc_tenant_id = td_tenant_id td, rc_store_id = td_store_id td,
     rc_role = Some (td_role td), rc_trace_id = trace_id\<rparr>"

section \<open>services/sale_statuses.py\<close>

definition FINALIZED_SALE_STATUSES :: "string list" where
  "FINALIZED_SALE_STATUSES = [''PAID'', ''COMPLETED'', ''CLOSED'', ''FINALIZED'']"

definition is_finalized_sale_status :: "string option \<Rightarrow> bool" where
  "is_finalized_sale_status s =
    (py_upper (case s of None \<Rightarrow> [] | Some x \<Rightarrow> x) \<in> set FINALIZED_SALE_STATUSES)"

section \<open>What the checks guarantee\<close>

lemma enforce_tenant_scope_Inr:
  "enforce_tenant_scope td t allow = Inr u \<Longrightarrow>
    \<not> falsy t \<and> (td_tenant_id td = t \<or> allow \<and> is_superadmin (Some (td_role td)))"
  by (auto simp: enforce_tenant_scope_def split: if_splits)

lemma enforce_store_scope_Inr:
  assumes "enforce_store_scope td sid sts allow broader = Inr s"
  shows "s \<in> set sts" "sid = Some (st_id s)"
    "td_tenant_id td = Some (st_tenant_id s) \<or> allow \<and> is_superadmin (Some (td_role td))"
    "td_tenant_id td = Some (st_tenant_id s) \<Longrightarrow>
       falsy (td_store_id td) \<or> normalize_role (Some (td_role td)) \<in> set (allowed_roles broader)
       \<or> td_store_id td = sid"
  using assms
  by (auto simp: enforce_store_scope_def find_Some_iff split: if_splits option.splits)

lemma pos_resolve_store_id_bound:
  assumes "pos_resolve_store_id td req = Inr s"
    and "\<not> falsy (td_store_id td)" and "normalize_role (Some (td_role td)) \<notin> set (allowed_roles None)"
  shows "td_store_id td = Some s"
  using assms
  by (auto simp: pos_resolve_store_id_def normalize_role_def allowed_roles_def split: if_splits
      elim: not_falsyE)

lemma require_active_user_Inr:
  assumes "require_active_user d td = Inr u"
  shows "u \<in> set (users d)" "us_id u = td_sub td" "us_is_active u"
    "is_status_active (Some (us_status u))"
    "\<exists>t \<in> set (tenants d). tn_id t = us_tenant_id u \<and> is_status_active (Some (tn_status t))"
  using assms
  by (auto simp: require_active_user_def get_current_user_def ensure_user_can_authenticate_def
      evaluate_auth_eligibility_def is_tenant_active_def is_status_active_def Let_def res_simps
      find_Some_iff split: if_splits option.splits)

end
