(* ===== verification/Interfaces.thy ===== *)
theory Interfaces
  imports Prelude
begin

text \<open>
  The interfaces between components, as locales. A provider interprets them on its own
  definitions; the clients' lemmas are proved once, here, from the laws.
\<close>

section \<open>A memoised oracle\<close>

text \<open>
  A service that answers questions and memoises parts of the answer: the routers ask it
  several times in one request and pass its cache along. The law is that an answer does not
  depend on what a good cache holds, and that asking keeps the cache good.
\<close>

fun ask_all :: "('c \<Rightarrow> 'k \<Rightarrow> 'd \<times> 'c) \<Rightarrow> 'c \<Rightarrow> 'k list \<Rightarrow> 'd list \<times> 'c" where
  "ask_all ask c [] = ([], c)"
| "ask_all ask c (k # ks) =
    (let (d, c') = ask c k; (ds, c'') = ask_all ask c' ks in (d # ds, c''))"

fun ask_first :: "('c \<Rightarrow> 'k \<Rightarrow> 'd \<times> 'c) \<Rightarrow> ('d \<Rightarrow> bool) \<Rightarrow> 'c \<Rightarrow> 'k list \<Rightarrow> 'd option" where
  "ask_first ask good c [] = None"
| "ask_first ask good c (k # ks) =
    (let (d, c') = ask c k in if good d then Some d else ask_first ask good c' ks)"

locale cached_oracle =
  fixes ask :: "'c \<Rightarrow> 'k \<Rightarrow> 'd \<times> 'c"
    and ok :: "'c \<Rightarrow> bool"
    and answer :: "'k \<Rightarrow> 'd"
  assumes ask_answer: "ok c \<Longrightarrow> fst (ask c k) = answer k"
    and ask_ok: "ok c \<Longrightarrow> ok (snd (ask c k))"
begin

lemma ask_eq: "ok c \<Longrightarrow> \<exists>c'. ask c k = (answer k, c') \<and> ok c'"
  using ask_answer [of c k] ask_ok [of c k] by (cases "ask c k") auto

lemma ask_all_answers:
  "ok c \<Longrightarrow> fst (ask_all ask c ks) = map answer ks \<and> ok (snd (ask_all ask c ks))"
proof (induction ks arbitrary: c)
  case (Cons k ks)
  obtain c' where c': "ask c k = (answer k, c')" "ok c'" using ask_eq Cons.prems by blast
  then show ?case using Cons.IH [OF c'(2)] by (auto split: prod.splits)
qed simp

lemma ask_first_answer: "ok c \<Longrightarrow> ask_first ask good c ks = find good (map answer ks)"
proof (induction ks arbitrary: c)
  case (Cons k ks)
  obtain c' where c': "ask c k = (answer k, c')" "ok c'" using ask_eq Cons.prems by blast
  then show ?case using Cons.IH [OF c'(2)] by auto
qed simp

end

section \<open>Requests that may be sent again\<close>

text \<open>
  A guarded endpoint: a client that got no reply sends its request again, between any other
  requests. The laws are that a request nobody sent before settles on its reply, that a settled
  request is answered from what was recorded, and that no request unsettles another.
\<close>

fun send_all :: "('q \<Rightarrow> 'w \<Rightarrow> 'r \<times> 'w) \<Rightarrow> 'q list \<Rightarrow> 'w \<Rightarrow> 'r list \<times> 'w" where
  "send_all send [] w = ([], w)"
| "send_all send (q # qs) w =
    (let (r, w') = send q w; (rs, w'') = send_all send qs w' in (r # rs, w''))"

locale replayed_requests =
  fixes send :: "'q \<Rightarrow> 'w \<Rightarrow> 'r \<times> 'w"
    and unsent :: "'q \<Rightarrow> 'w \<Rightarrow> bool"
    and settled :: "'q \<Rightarrow> 'r \<Rightarrow> 'w \<Rightarrow> bool"
  assumes settles: "unsent q w \<Longrightarrow> settled q (fst (send q w)) (snd (send q w))"
    and settled_reply: "settled q r w \<Longrightarrow> send q w = (r, w)"
    and settled_keep: "settled q r w \<Longrightarrow> settled q r (snd (send q' w))"
begin

lemma settled_send_all: "settled q r w \<Longrightarrow> settled q r (snd (send_all send qs w))"
proof (induction qs arbitrary: w)
  case (Cons q' qs)
  have "settled q r (snd (send q' w))" using Cons.prems by (rule settled_keep)
  from Cons.IH [OF this] show ?case by (auto split: prod.splits)
qed simp

lemma retry_is_replay:
  assumes "unsent q w" and "send q w = (r, w1)" and "send_all send qs w1 = (rs, w2)"
  shows "send q w2 = (r, w2)"
proof -
  have "settled q r w1" using settles [OF assms(1)] assms(2) by simp
  then have "settled q r w2" using settled_send_all [of q r w1 qs] assms(3) by simp
  then show ?thesis by (rule settled_reply)
qed

end

section \<open>A program that simulates a specification\<close>

text \<open>
  The steps of the code, from good states, are steps of a simpler specification that keeps the
  states good. The laws are checked one step at a time; they give the refinement of whole runs
  and the invariant of every reachable state.
\<close>

locale simulated_steps =
  fixes start :: "'s \<Rightarrow> bool"
    and code_step :: "'s \<Rightarrow> 's \<Rightarrow> bool"
    and spec_step :: "'s \<Rightarrow> 's \<Rightarrow> bool"
    and inv :: "'s \<Rightarrow> bool"
  assumes start_inv: "start s \<Longrightarrow> inv s"
    and simulates: "code_step s t \<Longrightarrow> inv s \<Longrightarrow> spec_step s t"
    and spec_keeps: "spec_step s t \<Longrightarrow> inv s \<Longrightarrow> inv t"
begin

lemma code_keeps: "code_step s t \<Longrightarrow> inv s \<Longrightarrow> inv t"
  using simulates spec_keeps by blast

lemma run_simulates:
  assumes "code_step\<^sup>*\<^sup>* s t" and "inv s" shows "inv t \<and> spec_step\<^sup>*\<^sup>* s t"
  using assms
proof (induction rule: rtranclp_induct)
  case (step t u)
  then show ?case by (meson code_keeps simulates rtranclp.rtrancl_into_rtrancl)
qed simp

lemma reachable_inv: "start s \<Longrightarrow> code_step\<^sup>*\<^sup>* s t \<Longrightarrow> inv t"
  using start_inv run_simulates by blast

lemma refines: "start s \<Longrightarrow> code_step\<^sup>*\<^sup>* s t \<Longrightarrow> spec_step\<^sup>*\<^sup>* s t"
  using start_inv run_simulates by blast

end

end
