(* ===== verification/Access_Control.thy ===== *)
theory Access_Control
  imports Scope Interfaces "HOL-Library.List_Lexorder" "HOL-Library.Char_ord"
begin

text \<open>
  Permission evaluation: \<^verbatim>\<open>services/access_control.py\<close> with the queries of
  \<^verbatim>\<open>repos/access_control.py\<close> and \<^verbatim>\<open>repos/rbac.py\<close> it reads, and the two FastAPI
  dependencies of \<^verbatim>\<open>core/deps.py\<close> that enforce it. The per-request cache is state passed
  through the calls, keyed by the same strings as the code's dictionary.
\<close>

section \<open>Tables\<close>

record permission_catalog =
  pc_id :: uuid
  pc_code :: string

record role_template =
  rt_id :: uuid
  rt_tenant_id :: "uuid option"
  rt_name :: string

record role_template_permission =
  rtp_role_template_id :: uuid
  rtp_permission_id :: uuid

record tenant_role_policy =
  trp_tenant_id :: "uuid option"
  trp_role_name :: string
  trp_permission_code :: string
  trp_effect :: string

record store_role_policy =
  srp_tenant_id :: uuid
  srp_store_id :: uuid
  srp_role_name :: string
  srp_permission_code :: string
  srp_effect :: string

record user_permission_override =
  upo_tenant_id :: uuid
  upo_user_id :: uuid
  upo_permission_code :: string
  upo_effect :: string

record ac_db =
  catalog :: "permission_catalog list"
  role_templates :: "role_template list"
  role_template_permissions :: "role_template_permission list"
  tenant_role_policies :: "tenant_role_policy list"
  store_role_policies :: "store_role_policy list"
  user_overrides :: "user_permission_override list"

section \<open>Queries\<close>

definition list_permission_catalog :: "ac_db \<Rightarrow> permission_catalog list" where
  "list_permission_catalog db = sort_key pc_code (catalog db)"

definition list_permissions_for_role :: "ac_db \<Rightarrow> string \<Rightarrow> uuid option \<Rightarrow> string list" where
  "list_permissions_for_role db role tenant_id =
    [pc_code p. rt \<leftarrow> role_templates db, rt_name rt = role \<and> rt_tenant_id rt = tenant_id,
       rp \<leftarrow> role_template_permissions db, rtp_role_template_id rp = rt_id rt,
       p \<leftarrow> catalog db, pc_id p = rtp_permission_id rp]"

definition list_tenant_role_policies ::
    "ac_db \<Rightarrow> uuid option \<Rightarrow> string \<Rightarrow> tenant_role_policy list" where
  "list_tenant_role_policies db tenant_id role =
    filter (\<lambda>p. trp_role_name p = role \<and> trp_tenant_id p = tenant_id) (tenant_role_policies db)"

definition list_store_role_policies ::
    "ac_db \<Rightarrow> uuid \<Rightarrow> uuid \<Rightarrow> string \<Rightarrow> store_role_policy list" where
  "list_store_role_policies db tenant_id store_id role =
    filter (\<lambda>p. srp_role_name p = role \<and> srp_tenant_id p = tenant_id \<and> srp_store_id p = store_id)
      (store_role_policies db)"

definition list_user_overrides :: "ac_db \<Rightarrow> uuid \<Rightarrow> uuid \<Rightarrow> user_permission_override list" where
  "list_user_overrides db tenant_id user_id =
    filter (\<lambda>p. upo_tenant_id p = tenant_id \<and> upo_user_id p = user_id) (user_overrides db)"

text \<open>The loop that sorts policy rows into \<^verbatim>\<open>allow\<close> and \<^verbatim>\<open>deny\<close>: every effect that is not
  \<^verbatim>\<open>deny\<close>, in whatever case, allows.\<close>

fun partition_entries :: "(string \<times> string) list \<Rightarrow> string set \<times> string set" where
  "partition_entries [] = ({}, {})"
| "partition_entries ((code, effect) # es) =
    (let (allow, deny) = partition_entries es
     in if py_lower effect = ''deny'' then (allow, insert code deny) else (insert code allow, deny))"

lemma partition_entries_sets:
  "partition_entries es =
    ({c. \<exists>e. (c, e) \<in> set es \<and> py_lower e \<noteq> ''deny''}, {c. \<exists>e. (c, e) \<in> set es \<and> py_lower e = ''deny''})"
proof (induction es)
  case (Cons x es)
  then show ?case by (cases x) (auto simp: Let_def)
qed simp

section \<open>The service\<close>

datatype decision_source =
    Unknown_permission | Explicit_deny | User_override_deny | Store_policy_deny
  | Tenant_policy_deny | User_override_allow | Store_policy_allow | Tenant_policy_allow
  | Role_template | Default_deny

record permission_decision =
  pd_key :: string
  pd_allowed :: bool
  pd_source :: decision_source

record permission_trace =
  template_allow :: "string set"
  tenant_allow :: "string set"
  tenant_deny :: "string set"
  store_allow :: "string set"
  store_deny :: "string set"
  user_allow :: "string set"
  user_deny :: "string set"

abbreviation decision :: "string \<Rightarrow> bool \<Rightarrow> decision_source \<Rightarrow> permission_decision" where
  "decision k a s \<equiv> \<lparr>pd_key = k, pd_allowed = a, pd_source = s\<rparr>"

text \<open>A cache entry is a set of codes or an allow/deny pair.\<close>

datatype cache_value = Codes "string set" | Policy "string set \<times> string set"

type_synonym cache = "(string \<times> cache_value) list"

text \<open>\<^verbatim>\<open>f"{x}"\<close> of an optional string.\<close>

definition fmt :: "string option \<Rightarrow> string" where
  "fmt x = (case x of None \<Rightarrow> ''None'' | Some s \<Rightarrow> s)"

text \<open>\<^verbatim>\<open>if key in self.cache: return self.cache[key]\<close>, and otherwise compute and store. The
  keys of the two kinds of entries are different strings, so an entry of the other kind is never
  found under a key.\<close>

definition cached_codes :: "cache \<Rightarrow> string \<Rightarrow> string set \<Rightarrow> string set \<times> cache" where
  "cached_codes c k v = (case map_of c k of
     Some (Codes s) \<Rightarrow> (s, c) | _ \<Rightarrow> (v, AList.update k (Codes v) c))"

definition cached_policy ::
    "cache \<Rightarrow> string \<Rightarrow> string set \<times> string set \<Rightarrow> (string set \<times> string set) \<times> cache" where
  "cached_policy c k v = (case map_of c k of
     Some (Policy p) \<Rightarrow> (p, c) | _ \<Rightarrow> (v, AList.update k (Policy v) c))"

definition catalog_codes :: "ac_db \<Rightarrow> string set" where
  "catalog_codes db = set (map pc_code (list_permission_catalog db))"

definition get_catalog_permissions :: "ac_db \<Rightarrow> cache \<Rightarrow> string set \<times> cache" where
  "get_catalog_permissions db c = cached_codes c ''catalog_permissions'' (catalog_codes db)"

definition allowed_permissions :: "ac_db \<Rightarrow> string \<Rightarrow> uuid option \<Rightarrow> string set" where
  "allowed_permissions db role tenant_id =
    (let ps = set (list_permissions_for_role db role tenant_id)
     in if ps = {} \<and> tenant_id \<noteq> None then set (list_permissions_for_role db role None) else ps)"

definition get_allowed_permissions ::
    "ac_db \<Rightarrow> cache \<Rightarrow> string \<Rightarrow> uuid option \<Rightarrow> string set \<times> cache" where
  "get_allowed_permissions db c role tenant_id =
    cached_codes c (''role_permissions:'' @ fmt tenant_id @ '':'' @ role)
      (allowed_permissions db role tenant_id)"

definition get_denied_permissions ::
    "(request_context \<Rightarrow> string list) list \<Rightarrow> request_context \<Rightarrow> string set" where
  "get_denied_permissions resolvers ctx = (\<Union>r \<in> set resolvers. set (r ctx))"

definition tenant_entries :: "ac_db \<Rightarrow> uuid option \<Rightarrow> string \<Rightarrow> (string \<times> string) list" where
  "tenant_entries db tenant_id role =
    map (\<lambda>p. (trp_permission_code p, trp_effect p)) (list_tenant_role_policies db tenant_id role)"

definition store_entries :: "ac_db \<Rightarrow> uuid \<Rightarrow> uuid \<Rightarrow> string \<Rightarrow> (string \<times> string) list" where
  "store_entries db tenant_id store_id role =
    map (\<lambda>p. (srp_permission_code p, srp_effect p))
      (list_store_role_policies db tenant_id store_id role)"

definition user_entries :: "ac_db \<Rightarrow> uuid \<Rightarrow> uuid \<Rightarrow> (string \<times> string) list" where
  "user_entries db tenant_id user_id =
    map (\<lambda>p. (upo_permission_code p, upo_effect p)) (list_user_overrides db tenant_id user_id)"

definition get_tenant_role_policy ::
    "ac_db \<Rightarrow> cache \<Rightarrow> uuid option \<Rightarrow> string option \<Rightarrow> (string set \<times> string set) \<times> cache" where
  "get_tenant_role_policy db c tenant_id role =
    (if falsy role then (({}, {}), c)
     else cached_policy c (''tenant_policy:'' @ fmt tenant_id @ '':'' @ the role)
       (partition_entries (tenant_entries db tenant_id (the role))))"

definition get_user_overrides ::
    "ac_db \<Rightarrow> cache \<Rightarrow> uuid option \<Rightarrow> uuid option \<Rightarrow> (string set \<times> string set) \<times> cache" where
  "get_user_overrides db c tenant_id user_id =
    (if falsy tenant_id \<or> falsy user_id then (({}, {}), c)
     else cached_policy c (''user_overrides:'' @ the tenant_id @ '':'' @ the user_id)
       (partition_entries (user_entries db (the tenant_id) (the user_id))))"

definition get_store_role_policy ::
    "ac_db \<Rightarrow> cache \<Rightarrow> uuid option \<Rightarrow> uuid option \<Rightarrow> string option
      \<Rightarrow> (string set \<times> string set) \<times> cache" where
  "get_store_role_policy db c tenant_id store_id role =
    (if falsy tenant_id \<or> falsy store_id \<or> falsy role then (({}, {}), c)
     else cached_policy c
       (''store_policy:'' @ the tenant_id @ '':'' @ the store_id @ '':'' @ the role)
       (partition_entries (store_entries db (the tenant_id) (the store_id) (the role))))"

definition resolve_role_scope ::
    "request_context \<Rightarrow> token_data option \<Rightarrow> string option \<times> uuid option \<times> uuid option" where
  "resolve_role_scope ctx td =
    (let raw = py_upper (fmt (if \<not> falsy (rc_role ctx) then rc_role ctx
           else (case td of None \<Rightarrow> Some [] | Some t \<Rightarrow> Some (td_role t))));
         role = (if raw = [] then None else Some raw);
         tenant_id = py_or (rc_tenant_id ctx) (case td of None \<Rightarrow> None | Some t \<Rightarrow> td_tenant_id t);
         store_id = py_or (rc_store_id ctx) (case td of None \<Rightarrow> None | Some t \<Rightarrow> td_store_id t)
     in (role, tenant_id, store_id))"

definition evaluate_permission ::
    "ac_db \<Rightarrow> (request_context \<Rightarrow> string list) list \<Rightarrow> cache \<Rightarrow> string
      \<Rightarrow> request_context \<Rightarrow> token_data option \<Rightarrow> permission_decision \<times> cache" where
  "evaluate_permission db resolvers c0 permission_key ctx td =
    (let k = py_strip permission_key; (cat, c1) = get_catalog_permissions db c0
     in if k \<notin> cat then (decision k False Unknown_permission, c1)
     else (let (role, tenant_id, store_id) = resolve_role_scope ctx td
     in case role of None \<Rightarrow> (decision k False Default_deny, c1)
     | Some r \<Rightarrow>
       (let (base_allowed, c2) = get_allowed_permissions db c1 r tenant_id;
            ((t_allow, t_deny), c3) = get_tenant_role_policy db c2 tenant_id role;
            ((s_allow, s_deny), c4) = get_store_role_policy db c3 tenant_id store_id role;
            ((u_allow, u_deny), c5) = get_user_overrides db c4 tenant_id (rc_user_id ctx);
            denied = get_denied_permissions resolvers ctx
        in (if k \<in> denied then decision k False Explicit_deny
            else if k \<in> u_deny then decision k False User_override_deny
            else if k \<in> s_deny then decision k False Store_policy_deny
            else if k \<in> t_deny then decision k False Tenant_policy_deny
            else if k \<in> u_allow then decision k True User_override_allow
            else if k \<in> s_allow then decision k True Store_policy_allow
            else if k \<in> t_allow then decision k True Tenant_policy_allow
            else if k \<in> base_allowed then decision k True Role_template
            else decision k False Default_deny, c5))))"

text \<open>The loop of \<^verbatim>\<open>_build_decisions\<close>: one decision per catalogue key, in the same order of
  precedence, written out a second time in the code.\<close>

fun build_decisions :: "string list \<Rightarrow> string set \<Rightarrow> permission_trace \<Rightarrow> permission_decision list" where
  "build_decisions [] denied tr = []"
| "build_decisions (k # ks) denied tr =
    (if k \<in> denied then decision k False Explicit_deny
     else if k \<in> user_deny tr then decision k False User_override_deny
     else if k \<in> store_deny tr then decision k False Store_policy_deny
     else if k \<in> tenant_deny tr then decision k False Tenant_policy_deny
     else if k \<in> user_allow tr then decision k True User_override_allow
     else if k \<in> store_allow tr then decision k True Store_policy_allow
     else if k \<in> tenant_allow tr then decision k True Tenant_policy_allow
     else if k \<in> template_allow tr then decision k True Role_template
     else decision k False Default_deny) # build_decisions ks denied tr"

definition build_effective_permissions_with_trace ::
    "ac_db \<Rightarrow> (request_context \<Rightarrow> string list) list \<Rightarrow> cache
      \<Rightarrow> request_context \<Rightarrow> token_data option
      \<Rightarrow> permission_decision list \<times> permission_trace \<times> cache" where
  "build_effective_permissions_with_trace db resolvers c0 ctx td =
    (let (role, tenant_id, store_id) = resolve_role_scope ctx td;
         (cat, c1) = get_catalog_permissions db c0;
         denied = get_denied_permissions resolvers ctx;
         (base_allowed, c2) = (case role of None \<Rightarrow> ({}, c1)
           | Some r \<Rightarrow> get_allowed_permissions db c1 r tenant_id);
         ((t_allow, t_deny), c3) = (case role of None \<Rightarrow> (({}, {}), c2)
           | Some r \<Rightarrow> get_tenant_role_policy db c2 tenant_id role);
         ((s_allow, s_deny), c4) = (case role of None \<Rightarrow> (({}, {}), c3)
           | Some r \<Rightarrow> get_store_role_policy db c3 tenant_id store_id role);
         ((u_allow, u_deny), c5) = get_user_overrides db c4 tenant_id (rc_user_id ctx);
         trace = \<lparr>template_allow = base_allowed, tenant_allow = t_allow, tenant_deny = t_deny,
           store_allow = s_allow, store_deny = s_deny, user_allow = u_allow, user_deny = u_deny\<rparr>
     in (build_decisions (sorted_list_of_set cat) denied trace, trace, c5))"

section \<open>core/deps.py\<close>

definition require_permission ::
    "ac_db \<Rightarrow> cache \<Rightarrow> string \<Rightarrow> request_context \<Rightarrow> token_data \<Rightarrow> permission_decision res" where
  "require_permission db c permission_key ctx td =
    (let d = fst (evaluate_permission db [] c permission_key ctx (Some td))
     in if pd_allowed d then Inr d else Inl (raise0 PERMISSION_DENIED))"

fun first_allowed ::
    "ac_db \<Rightarrow> cache \<Rightarrow> string list \<Rightarrow> request_context \<Rightarrow> token_data \<Rightarrow> permission_decision res" where
  "first_allowed db c [] ctx td = Inl (raise0 PERMISSION_DENIED)"
| "first_allowed db c (k # ks) ctx td =
    (let (d, c') = evaluate_permission db [] c k ctx (Some td)
     in if pd_allowed d then Inr d else first_allowed db c' ks ctx td)"

definition require_any_permission ::
    "ac_db \<Rightarrow> cache \<Rightarrow> string list \<Rightarrow> request_context \<Rightarrow> token_data \<Rightarrow> permission_decision res" where
  "require_any_permission db c permission_keys ctx td =
    first_allowed db c (map py_strip (filter (\<lambda>k. k \<noteq> [] \<and> py_strip k \<noteq> []) permission_keys)) ctx td"

section \<open>The cache is transparent\<close>

text \<open>The layers a request is judged by, without the cache.\<close>

definition permission_layers ::
    "ac_db \<Rightarrow> request_context \<Rightarrow> token_data option \<Rightarrow> permission_trace" where
  "permission_layers db ctx td =
    (let (role, tenant_id, store_id) = resolve_role_scope ctx td;
         tp = (if falsy role then ({}, {})
           else partition_entries (tenant_entries db tenant_id (the role)));
         sp = (if falsy tenant_id \<or> falsy store_id \<or> falsy role then ({}, {})
           else partition_entries (store_entries db (the tenant_id) (the store_id) (the role)));
         up = (if falsy tenant_id \<or> falsy (rc_user_id ctx) then ({}, {})
           else partition_entries (user_entries db (the tenant_id) (the (rc_user_id ctx))))
     in \<lparr>template_allow = (case role of None \<Rightarrow> {} | Some r \<Rightarrow> allowed_permissions db r tenant_id),
         tenant_allow = fst tp, tenant_deny = snd tp, store_allow = fst sp, store_deny = snd sp,
         user_allow = fst up, user_deny = snd up\<rparr>)"

text \<open>The decision on one key: the specification both loops of the service implement.\<close>

definition decide :: "string set \<Rightarrow> permission_trace \<Rightarrow> string \<Rightarrow> permission_decision" where
  "decide denied tr k = hd (build_decisions [k] denied tr)"

definition permission_answer ::
    "ac_db \<Rightarrow> (request_context \<Rightarrow> string list) list \<Rightarrow> request_context \<Rightarrow> token_data option
      \<Rightarrow> string \<Rightarrow> permission_decision" where
  "permission_answer db resolvers ctx td key =
    (let k = py_strip key
     in if k \<notin> catalog_codes db then decision k False Unknown_permission
        else if fst (resolve_role_scope ctx td) = None then decision k False Default_deny
        else decide (get_denied_permissions resolvers ctx) (permission_layers db ctx td) k)"

text \<open>A cache is coherent for a request when each entry the request can read holds what the
  tables hold.\<close>

definition holds :: "cache \<Rightarrow> string \<Rightarrow> cache_value \<Rightarrow> bool" where
  "holds c k v \<longleftrightarrow> map_of c k = None \<or> map_of c k = Some v"

definition cache_coherent ::
    "ac_db \<Rightarrow> request_context \<Rightarrow> token_data option \<Rightarrow> cache \<Rightarrow> bool" where
  "cache_coherent db ctx td c =
    (let (role, tenant_id, store_id) = resolve_role_scope ctx td
     in holds c ''catalog_permissions'' (Codes (catalog_codes db))
      \<and> holds c (''role_permissions:'' @ fmt tenant_id @ '':'' @ the role)
          (Codes (allowed_permissions db (the role) tenant_id))
      \<and> holds c (''tenant_policy:'' @ fmt tenant_id @ '':'' @ the role)
          (Policy (partition_entries (tenant_entries db tenant_id (the role))))
      \<and> holds c (''store_policy:'' @ the tenant_id @ '':'' @ the store_id @ '':'' @ the role)
          (Policy (partition_entries (store_entries db (the tenant_id) (the store_id) (the role))))
      \<and> holds c (''user_overrides:'' @ the tenant_id @ '':'' @ the (rc_user_id ctx))
          (Policy (partition_entries (user_entries db (the tenant_id) (the (rc_user_id ctx))))))"

lemma cache_coherent_Nil [simp]: "cache_coherent db ctx td []"
  by (simp add: cache_coherent_def holds_def split: prod.split)

lemma holds_update: "holds (AList.update k v c) k' w \<longleftrightarrow> (if k = k' then v = w else holds c k' w)"
  by (simp add: holds_def update_conv')

lemma cached_codes_holds:
  "holds c k (Codes v) \<Longrightarrow> cached_codes c k v = (v, c) \<or>
     cached_codes c k v = (v, AList.update k (Codes v) c)"
  by (auto simp: cached_codes_def holds_def)

lemma cached_policy_holds:
  "holds c k (Policy v) \<Longrightarrow> cached_policy c k v = (v, c) \<or>
     cached_policy c k v = (v, AList.update k (Policy v) c)"
  by (auto simp: cached_policy_def holds_def)

lemma get_catalog_coherent:
  assumes "cache_coherent db ctx td c"
  obtains c' where "get_catalog_permissions db c = (catalog_codes db, c')"
    "cache_coherent db ctx td c'"
proof -
  from assms have h: "holds c ''catalog_permissions'' (Codes (catalog_codes db))"
    by (simp add: cache_coherent_def split: prod.splits)
  show thesis
    using cached_codes_holds [OF h] that assms
    by (auto simp: get_catalog_permissions_def cache_coherent_def holds_update split: prod.splits)
qed

lemma get_allowed_coherent:
  assumes "cache_coherent db ctx td c" and "resolve_role_scope ctx td = (Some r, t, s)"
  obtains c' where "get_allowed_permissions db c r t = (allowed_permissions db r t, c')"
    "cache_coherent db ctx td c'"
proof -
  from assms have h: "holds c (''role_permissions:'' @ fmt t @ '':'' @ r)
      (Codes (allowed_permissions db r t))"
    by (simp add: cache_coherent_def)
  show thesis
    using cached_codes_holds [OF h] that assms
    by (auto simp: get_allowed_permissions_def cache_coherent_def holds_update)
qed

lemma get_tenant_coherent:
  assumes "cache_coherent db ctx td c" and "resolve_role_scope ctx td = (role, t, s)"
  obtains c' where "get_tenant_role_policy db c t role =
      ((tenant_allow (permission_layers db ctx td), tenant_deny (permission_layers db ctx td)), c')"
    "cache_coherent db ctx td c'"
proof (cases "falsy role")
  case True
  then show thesis
    using that assms by (simp add: get_tenant_role_policy_def permission_layers_def Let_def)
next
  case False
  from assms have h: "holds c (''tenant_policy:'' @ fmt t @ '':'' @ the role)
      (Policy (partition_entries (tenant_entries db t (the role))))"
    by (simp add: cache_coherent_def)
  show thesis
    using cached_policy_holds [OF h] that assms False
    by (auto simp: get_tenant_role_policy_def permission_layers_def Let_def cache_coherent_def
        holds_update)
qed

lemma get_store_coherent:
  assumes "cache_coherent db ctx td c" and "resolve_role_scope ctx td = (role, t, s)"
  obtains c' where "get_store_role_policy db c t s role =
      ((store_allow (permission_layers db ctx td), store_deny (permission_layers db ctx td)), c')"
    "cache_coherent db ctx td c'"
proof (cases "falsy t \<or> falsy s \<or> falsy role")
  case True
  then show thesis
    using that assms by (simp add: get_store_role_policy_def permission_layers_def Let_def)
next
  case False
  from assms have h: "holds c (''store_policy:'' @ the t @ '':'' @ the s @ '':'' @ the role)
      (Policy (partition_entries (store_entries db (the t) (the s) (the role))))"
    by (simp add: cache_coherent_def)
  show thesis
    using cached_policy_holds [OF h] that assms False
    by (auto simp: get_store_role_policy_def permission_layers_def Let_def cache_coherent_def
        holds_update)
qed

lemma get_user_coherent:
  assumes "cache_coherent db ctx td c" and "resolve_role_scope ctx td = (role, t, s)"
  obtains c' where "get_user_overrides db c t (rc_user_id ctx) =
      ((user_allow (permission_layers db ctx td), user_deny (permission_layers db ctx td)), c')"
    "cache_coherent db ctx td c'"
proof (cases "falsy t \<or> falsy (rc_user_id ctx)")
  case True
  then show thesis
    using that assms by (simp add: get_user_overrides_def permission_layers_def Let_def)
next
  case False
  from assms have h: "holds c (''user_overrides:'' @ the t @ '':'' @ the (rc_user_id ctx))
      (Policy (partition_entries (user_entries db (the t) (the (rc_user_id ctx)))))"
    by (simp add: cache_coherent_def)
  show thesis
    using cached_policy_holds [OF h] that assms False
    by (auto simp: get_user_overrides_def permission_layers_def Let_def cache_coherent_def
        holds_update)
qed

lemma evaluate_permission_coherent:
  assumes coh: "cache_coherent db ctx td c"
  shows "fst (evaluate_permission db resolvers c key ctx td) = permission_answer db resolvers ctx td key"
    and "cache_coherent db ctx td (snd (evaluate_permission db resolvers c key ctx td))"
proof -
  obtain c1 where c1: "get_catalog_permissions db c = (catalog_codes db, c1)"
    "cache_coherent db ctx td c1" using get_catalog_coherent [OF coh] .
  obtain role t s where rs: "resolve_role_scope ctx td = (role, t, s)"
    by (cases "resolve_role_scope ctx td") auto
  have "fst (evaluate_permission db resolvers c key ctx td) = permission_answer db resolvers ctx td key
    \<and> cache_coherent db ctx td (snd (evaluate_permission db resolvers c key ctx td))"
  proof (cases role)
    case None
    then show ?thesis using c1 rs
      by (simp add: evaluate_permission_def permission_answer_def Let_def)
  next
    case (Some r)
    obtain c2 where c2: "get_allowed_permissions db c1 r t = (allowed_permissions db r t, c2)"
      "cache_coherent db ctx td c2" using get_allowed_coherent c1(2) rs Some by blast
    obtain c3 where c3: "get_tenant_role_policy db c2 t role =
        ((tenant_allow (permission_layers db ctx td), tenant_deny (permission_layers db ctx td)), c3)"
      "cache_coherent db ctx td c3" using get_tenant_coherent c2(2) rs by blast
    obtain c4 where c4: "get_store_role_policy db c3 t s role =
        ((store_allow (permission_layers db ctx td), store_deny (permission_layers db ctx td)), c4)"
      "cache_coherent db ctx td c4" using get_store_coherent c3(2) rs by blast
    obtain c5 where c5: "get_user_overrides db c4 t (rc_user_id ctx) =
        ((user_allow (permission_layers db ctx td), user_deny (permission_layers db ctx td)), c5)"
      "cache_coherent db ctx td c5" using get_user_coherent c4(2) rs by blast
    have ta: "template_allow (permission_layers db ctx td) = allowed_permissions db r t"
      using rs Some by (simp add: permission_layers_def Let_def)
    show ?thesis using c1 c2 c3 c4 c5 rs Some ta
      by (simp add: evaluate_permission_def permission_answer_def decide_def Let_def)
  qed
  then show "fst (evaluate_permission db resolvers c key ctx td) =
      permission_answer db resolvers ctx td key"
    and "cache_coherent db ctx td (snd (evaluate_permission db resolvers c key ctx td))" by auto
qed

interpretation perm: cached_oracle
  "\<lambda>c k. evaluate_permission db resolvers c k ctx td" "cache_coherent db ctx td"
  "permission_answer db resolvers ctx td" for db resolvers ctx td
  by unfold_locales (simp_all add: evaluate_permission_coherent)

lemma first_allowed_ask_first:
  "first_allowed db c ks ctx td =
    (case ask_first (\<lambda>c k. evaluate_permission db [] c k ctx (Some td)) pd_allowed c ks of
       None \<Rightarrow> Inl (raise0 PERMISSION_DENIED) | Some d \<Rightarrow> Inr d)"
  by (induction ks arbitrary: c) (auto split: prod.splits)

lemma first_allowed_coherent:
  assumes "cache_coherent db ctx (Some td) c"
  shows "first_allowed db c ks ctx td =
    (case find pd_allowed (map (permission_answer db [] ctx (Some td)) ks) of
       None \<Rightarrow> Inl (raise0 PERMISSION_DENIED) | Some d \<Rightarrow> Inr d)"
  using perm.ask_first_answer [OF assms] by (simp add: first_allowed_ask_first)

section \<open>The two loops agree\<close>

lemma build_decisions_map: "build_decisions ks denied tr = map (decide denied tr) ks"
  by (induction ks) (simp_all add: decide_def)

lemma decide_key [simp]: "pd_key (decide denied tr k) = k"
  by (simp add: decide_def)

lemma decide_allowed_iff:
  "pd_allowed (decide denied tr k) \<longleftrightarrow>
     k \<notin> denied \<union> user_deny tr \<union> store_deny tr \<union> tenant_deny tr
     \<and> k \<in> user_allow tr \<union> store_allow tr \<union> tenant_allow tr \<union> template_allow tr"
  by (auto simp: decide_def)

lemma trace_eta:
  "\<lparr>template_allow = template_allow tr, tenant_allow = tenant_allow tr, tenant_deny = tenant_deny tr,
    store_allow = store_allow tr, store_deny = store_deny tr,
    user_allow = user_allow tr, user_deny = user_deny tr\<rparr> = tr"
  by simp

lemma effective_permissions_decide:
  "fst (build_effective_permissions_with_trace db resolvers [] ctx td) =
    map (decide (get_denied_permissions resolvers ctx) (permission_layers db ctx td))
      (sorted_list_of_set (catalog_codes db))"
proof -
  obtain role t s where rs: "resolve_role_scope ctx td = (role, t, s)"
    by (cases "resolve_role_scope ctx td") auto
  obtain c1 where c1: "get_catalog_permissions db [] = (catalog_codes db, c1)"
    "cache_coherent db ctx td c1" using get_catalog_coherent [OF cache_coherent_Nil] .
  define a where "a = (case role of None \<Rightarrow> ({}, c1) | Some r \<Rightarrow> get_allowed_permissions db c1 r t)"
  obtain c2 where c2: "a = (template_allow (permission_layers db ctx td), c2)"
    "cache_coherent db ctx td c2"
  proof (cases role)
    case None
    then show ?thesis using that [of c1] c1 rs by (simp add: a_def permission_layers_def Let_def)
  next
    case (Some r)
    then obtain c2 where "get_allowed_permissions db c1 r t = (allowed_permissions db r t, c2)"
      "cache_coherent db ctx td c2" using get_allowed_coherent c1(2) rs by blast
    then show ?thesis using that Some rs by (simp add: a_def permission_layers_def Let_def)
  qed
  obtain c3 where c3: "(case role of None \<Rightarrow> (({}, {}), c2)
      | Some r \<Rightarrow> get_tenant_role_policy db c2 t role) =
      ((tenant_allow (permission_layers db ctx td), tenant_deny (permission_layers db ctx td)), c3)"
    "cache_coherent db ctx td c3"
  proof -
    obtain c' where "get_tenant_role_policy db c2 t role =
        ((tenant_allow (permission_layers db ctx td), tenant_deny (permission_layers db ctx td)), c')"
      "cache_coherent db ctx td c'" using get_tenant_coherent [OF c2(2) rs] .
    then show ?thesis
      using that by (cases "role") (auto simp: get_tenant_role_policy_def)
  qed
  obtain c4 where c4: "(case role of None \<Rightarrow> (({}, {}), c3)
      | Some r \<Rightarrow> get_store_role_policy db c3 t s role) =
      ((store_allow (permission_layers db ctx td), store_deny (permission_layers db ctx td)), c4)"
    "cache_coherent db ctx td c4"
  proof -
    obtain c' where "get_store_role_policy db c3 t s role =
        ((store_allow (permission_layers db ctx td), store_deny (permission_layers db ctx td)), c')"
      "cache_coherent db ctx td c'" using get_store_coherent [OF c3(2) rs] .
    then show ?thesis
      using that by (cases "role") (auto simp: get_store_role_policy_def)
  qed
  obtain c5 where c5: "get_user_overrides db c4 t (rc_user_id ctx) =
      ((user_allow (permission_layers db ctx td), user_deny (permission_layers db ctx td)), c5)"
    using get_user_coherent c4(2) rs by blast
  show ?thesis
    using rs c1(1) c2(1) c3(1) c4(1) c5
    by (simp add: build_effective_permissions_with_trace_def a_def build_decisions_map Let_def trace_eta)
qed

lemma finite_catalog_codes [simp]: "finite (catalog_codes db)"
  by (simp add: catalog_codes_def)

lemma filter_eq_distinct:
  "distinct xs \<Longrightarrow> k \<in> set xs \<Longrightarrow> filter (\<lambda>x. x = k) xs = [k]"
proof (induction xs)
  case (Cons x xs)
  then show ?case by (cases "x = k") (auto intro: filter_False)
qed simp

section \<open>Properties\<close>

text \<open>The permission check and the effective-permissions report agree. For a request
  with a role and a permission of the catalogue, the decision the check returns, from any
  coherent cache, is the one decision the report lists for that permission.\<close>

theorem evaluate_matches_effective:
  assumes "cache_coherent db ctx td c"
    and "fst (resolve_role_scope ctx td) \<noteq> None"
    and "py_strip key \<in> catalog_codes db"
  shows "filter (\<lambda>d. pd_key d = py_strip key)
      (fst (build_effective_permissions_with_trace db resolvers [] ctx td)) =
    [fst (evaluate_permission db resolvers c key ctx td)]"
proof -
  let ?f = "decide (get_denied_permissions resolvers ctx) (permission_layers db ctx td)"
  have "filter (\<lambda>d. pd_key d = py_strip key)
      (fst (build_effective_permissions_with_trace db resolvers [] ctx td)) =
    map ?f (filter (\<lambda>k. k = py_strip key) (sorted_list_of_set (catalog_codes db)))"
    by (simp add: effective_permissions_decide filter_map comp_def)
  also have "\<dots> = [?f (py_strip key)]"
    using assms(3) by (subst filter_eq_distinct) auto
  also have "\<dots> = [fst (evaluate_permission db resolvers c key ctx td)]"
    using assms(2,3) by (auto simp: evaluate_permission_coherent(1) [OF assms(1)]
        permission_answer_def Let_def)
  finally show ?thesis .
qed

definition demo_ac :: ac_db where
  "demo_ac = \<lparr>catalog = [\<lparr>pc_id = ''p1'', pc_code = ''TRANSFER_VIEW''\<rparr>,
       \<lparr>pc_id = ''p2'', pc_code = ''TRANSFER_MANAGE''\<rparr>],
     role_templates = [\<lparr>rt_id = ''r1'', rt_tenant_id = None, rt_name = ''USER''\<rparr>],
     role_template_permissions = [\<lparr>rtp_role_template_id = ''r1'', rtp_permission_id = ''p2''\<rparr>],
     tenant_role_policies = [\<lparr>trp_tenant_id = Some ''t1'', trp_role_name = ''USER'',
       trp_permission_code = ''TRANSFER_MANAGE'', trp_effect = ''DENY''\<rparr>],
     store_role_policies = [],
     user_overrides = [\<lparr>upo_tenant_id = ''t1'', upo_user_id = ''u1'',
       upo_permission_code = ''TRANSFER_VIEW'', upo_effect = ''allow''\<rparr>]\<rparr>"

definition demo_ctx :: "string option \<Rightarrow> request_context" where
  "demo_ctx role = \<lparr>rc_user_id = Some ''u1'', rc_tenant_id = Some ''t1'', rc_store_id = None,
     rc_role = role, rc_trace_id = []\<rparr>"

lemmas demo_access_simps = demo_ac_def demo_ctx_def resolve_role_scope_def py_or_def fmt_def
  py_upper_def upper_char_def py_lower_def lower_char_def py_strip_def py_space_def char_of_def bit_0
  catalog_codes_def list_permission_catalog_def Let_def

theorem evaluate_matches_effective_witness:
  "filter (\<lambda>d. pd_key d = py_strip ''TRANSFER_VIEW '')
      (fst (build_effective_permissions_with_trace demo_ac [] [] (demo_ctx (Some ''user'')) None)) =
    [fst (evaluate_permission demo_ac [] [] ''TRANSFER_VIEW '' (demo_ctx (Some ''user'')) None)]"
  by (rule evaluate_matches_effective)
    (simp_all add: demo_access_simps)


definition demo_store_ctx :: request_context where
  "demo_store_ctx = (demo_ctx (Some ''user''))\<lparr>rc_store_id := Some ''s1''\<rparr>"


text \<open>a route that accepts any of several permissions grants the request exactly when
  one of them, on its own, would be granted: neither the order of the keys nor what earlier
  checks of the request left in the cache matters.\<close>

theorem require_any_permission_iff:
  assumes "cache_coherent db ctx (Some td) c"
  shows "(\<exists>d. require_any_permission db c keys ctx td = Inr d) \<longleftrightarrow>
    (\<exists>k \<in> set keys. py_strip k \<noteq> [] \<and>
      (\<exists>d. require_permission db [] (py_strip k) ctx td = Inr d))"
proof -
  have ans: "fst (evaluate_permission db [] [] k ctx (Some td)) =
      permission_answer db [] ctx (Some td) k" for k
    by (rule evaluate_permission_coherent(1)) simp
  have "(\<exists>d. require_any_permission db c keys ctx td = Inr d) \<longleftrightarrow>
    (\<exists>k \<in> set keys. k \<noteq> [] \<and> py_strip k \<noteq> [] \<and>
      pd_allowed (permission_answer db [] ctx (Some td) (py_strip k)))"
    by (auto simp: require_any_permission_def first_allowed_coherent [OF assms] find_result_iff)
  also have "\<dots> \<longleftrightarrow> (\<exists>k \<in> set keys. py_strip k \<noteq> [] \<and>
      (\<exists>d. require_permission db [] (py_strip k) ctx td = Inr d))"
    by (auto simp: require_permission_def ans Let_def) (metis py_strip_Nil)
  finally show ?thesis .
qed

definition demo_token :: token_data where
  "demo_token = \<lparr>td_sub = ''u1'', td_tenant_id = Some ''t1'', td_store_id = Some ''s1'',
     td_role = ''user'', td_status = ''active'', td_is_active = True,
     td_must_change_password = False, td_email = ''e'', td_username = ''n''\<rparr>"

theorem require_any_permission_iff_witness:
  "(\<exists>d. require_any_permission demo_ac [] [''transfers.read'', ''TRANSFER_VIEW'']
      demo_store_ctx demo_token = Inr d) \<longleftrightarrow>
    (\<exists>k \<in> set [''transfers.read'', ''TRANSFER_VIEW'']. py_strip k \<noteq> [] \<and>
      (\<exists>d. require_permission demo_ac [] (py_strip k) demo_store_ctx demo_token = Inr d))"
  by (rule require_any_permission_iff) simp

text \<open>without a role the check and the report disagree. The report still applies the
  user's overrides, so it lists as granted a permission that the check, which stops at the
  missing role, refuses.\<close>

theorem roleless_report_differs:
  "\<exists>db ctx. fst (resolve_role_scope ctx None) = None
    \<and> decision ''TRANSFER_VIEW'' True User_override_allow
        \<in> set (fst (build_effective_permissions_with_trace db [] [] ctx None))
    \<and> fst (evaluate_permission db [] [] ''TRANSFER_VIEW'' ctx None)
        = decision ''TRANSFER_VIEW'' False Default_deny"
proof (intro exI conjI)
  let ?ctx = "demo_ctx None"
  have r: "resolve_role_scope ?ctx None = (None, Some ''t1'', None)"
    by (simp add: demo_access_simps)
  have k: "''TRANSFER_VIEW'' \<in> catalog_codes demo_ac" "py_strip ''TRANSFER_VIEW'' = ''TRANSFER_VIEW''"
    by (simp_all add: demo_access_simps)
  have ue: "user_entries demo_ac ''t1'' ''u1'' = [(''TRANSFER_VIEW'', ''allow'')]"
    by (simp add: user_entries_def list_user_overrides_def demo_ac_def)
  have u: "rc_user_id ?ctx = Some ''u1''" by (simp add: demo_ctx_def)
  have low: "py_lower ''allow'' = ''allow''" by (simp add: demo_access_simps)
  show "fst (resolve_role_scope ?ctx None) = None" using r by simp
  have d: "decide {} (permission_layers demo_ac ?ctx None) ''TRANSFER_VIEW'' =
      decision ''TRANSFER_VIEW'' True User_override_allow"
    using r ue u low by (simp add: decide_def permission_layers_def Let_def)
  show "decision ''TRANSFER_VIEW'' True User_override_allow
      \<in> set (fst (build_effective_permissions_with_trace demo_ac [] [] ?ctx None))"
    using k(1) d by (force simp: effective_permissions_decide get_denied_permissions_def)
  show "fst (evaluate_permission demo_ac [] [] ''TRANSFER_VIEW'' ?ctx None) =
      decision ''TRANSFER_VIEW'' False Default_deny"
    using r k by (simp add: evaluate_permission_coherent(1) permission_answer_def Let_def)
qed

end
