(* ===== verification/Access_Policies.thy ===== *)
theory Access_Policies
  imports Access_Control
begin

text \<open>
  The administration of the policies that permission evaluation reads:
  \<^verbatim>\<open>services/access_control_policies.py\<close> with the \<^verbatim>\<open>replace_*\<close> operations of
  \<^verbatim>\<open>repos/access_control.py\<close> and \<^verbatim>\<open>repos/rbac.py\<close>. An operation that returns commits the new
  tables; one that raises leaves them as they were. The lemmas show what a replacement does to
  the layers of a later permission check.
\<close>

section \<open>Snapshots and queries\<close>

record policy_snapshot =
  ps_allow :: "string list"
  ps_deny :: "string list"

text \<open>\<^verbatim>\<open>sorted(set(xs))\<close>\<close>

definition sorted_set :: "string list \<Rightarrow> string list" where
  "sorted_set xs = sorted_list_of_set (set xs)"

definition get_role_template_row :: "ac_db \<Rightarrow> string \<Rightarrow> uuid option \<Rightarrow> role_template option" where
  "get_role_template_row db role tenant_id =
    find (\<lambda>rt. rt_name rt = role \<and> rt_tenant_id rt = tenant_id) (role_templates db)"

definition list_permissions_for_role_template :: "ac_db \<Rightarrow> uuid \<Rightarrow> string list" where
  "list_permissions_for_role_template db tid =
    [pc_code p. rp \<leftarrow> role_template_permissions db, rtp_role_template_id rp = tid,
       p \<leftarrow> catalog db, pc_id p = rtp_permission_id rp]"

definition get_role_template :: "ac_db \<Rightarrow> uuid option \<Rightarrow> string \<Rightarrow> string list res" where
  "get_role_template db tenant_id role =
    (case get_role_template_row db role tenant_id of
       None \<Rightarrow> Inl (raise1 VALIDATION_ERROR ''Role template not found'')
     | Some rt \<Rightarrow> Inr (sorted_set (list_permissions_for_role_template db (rt_id rt))))"

definition snapshot_of :: "string set \<times> string set \<Rightarrow> policy_snapshot" where
  "snapshot_of p = \<lparr>ps_allow = sorted_list_of_set (fst p), ps_deny = sorted_list_of_set (snd p)\<rparr>"

definition tenant_policy_snapshot :: "ac_db \<Rightarrow> uuid option \<Rightarrow> string \<Rightarrow> policy_snapshot" where
  "tenant_policy_snapshot db tenant_id role =
    snapshot_of (partition_entries (tenant_entries db tenant_id role))"

definition store_policy_snapshot :: "ac_db \<Rightarrow> uuid \<Rightarrow> uuid \<Rightarrow> string \<Rightarrow> policy_snapshot" where
  "store_policy_snapshot db tenant_id store_id role =
    snapshot_of (partition_entries (store_entries db tenant_id store_id role))"

definition user_overrides_snapshot :: "ac_db \<Rightarrow> uuid \<Rightarrow> uuid \<Rightarrow> policy_snapshot" where
  "user_overrides_snapshot db tenant_id user_id =
    snapshot_of (partition_entries (user_entries db tenant_id user_id))"

section \<open>Validation\<close>

definition ALLOWED_ROLE_POLICIES :: "string list" where
  "ALLOWED_ROLE_POLICIES = [''MANAGER'', ''USER'']"

definition validate_codes :: "string list \<Rightarrow> string set \<Rightarrow> unit res" where
  "validate_codes codes cat =
    (if \<exists>c \<in> set codes. c \<notin> cat then Inl (raise1 VALIDATION_ERROR ''Unknown permission code'')
     else Inr ())"

definition validate_allow_deny :: "string list \<Rightarrow> string list \<Rightarrow> unit res" where
  "validate_allow_deny allow deny =
    (if set allow \<inter> set deny \<noteq> {}
     then Inl (raise1 VALIDATION_ERROR ''Permission in both allow and deny'') else Inr ())"

definition validate_role_policy_role :: "string \<Rightarrow> unit res" where
  "validate_role_policy_role role =
    (if py_upper role \<notin> set ALLOWED_ROLE_POLICIES
     then Inl (raise1 VALIDATION_ERROR ''Role policies limited to MANAGER and USER'') else Inr ())"

definition tenant_admin_ceiling :: "ac_db \<Rightarrow> uuid option \<Rightarrow> string set" where
  "tenant_admin_ceiling db tenant_id =
    (let ps = set (list_permissions_for_role db ''ADMIN'' tenant_id)
     in if ps = {} \<and> tenant_id \<noteq> None then set (list_permissions_for_role db ''ADMIN'' None) else ps)"

definition check_ceiling :: "ac_db \<Rightarrow> uuid option \<Rightarrow> bool \<Rightarrow> string list \<Rightarrow> unit res" where
  "check_ceiling db tenant_id enforce allow =
    (if enforce \<and> \<not> set allow \<subseteq> tenant_admin_ceiling db tenant_id
     then Inl (raise1 PERMISSION_DENIED ''ADMIN ceiling exceeded'') else Inr ())"

section \<open>Replacement\<close>

definition build_tenant_role_entries ::
    "uuid option \<Rightarrow> string \<Rightarrow> string list \<Rightarrow> string list \<Rightarrow> tenant_role_policy list" where
  "build_tenant_role_entries tenant_id role allow deny =
    map (\<lambda>c. \<lparr>trp_tenant_id = tenant_id, trp_role_name = role, trp_permission_code = c,
      trp_effect = ''allow''\<rparr>) (sorted_set allow)
    @ map (\<lambda>c. \<lparr>trp_tenant_id = tenant_id, trp_role_name = role, trp_permission_code = c,
      trp_effect = ''deny''\<rparr>) (sorted_set deny)"

definition build_store_role_entries ::
    "uuid \<Rightarrow> uuid \<Rightarrow> string \<Rightarrow> string list \<Rightarrow> string list \<Rightarrow> store_role_policy list" where
  "build_store_role_entries tenant_id store_id role allow deny =
    map (\<lambda>c. \<lparr>srp_tenant_id = tenant_id, srp_store_id = store_id, srp_role_name = role,
      srp_permission_code = c, srp_effect = ''allow''\<rparr>) (sorted_set allow)
    @ map (\<lambda>c. \<lparr>srp_tenant_id = tenant_id, srp_store_id = store_id, srp_role_name = role,
      srp_permission_code = c, srp_effect = ''deny''\<rparr>) (sorted_set deny)"

definition build_user_override_entries ::
    "uuid \<Rightarrow> uuid \<Rightarrow> string list \<Rightarrow> string list \<Rightarrow> user_permission_override list" where
  "build_user_override_entries tenant_id user_id allow deny =
    map (\<lambda>c. \<lparr>upo_tenant_id = tenant_id, upo_user_id = user_id, upo_permission_code = c,
      upo_effect = ''allow''\<rparr>) (sorted_set allow)
    @ map (\<lambda>c. \<lparr>upo_tenant_id = tenant_id, upo_user_id = user_id, upo_permission_code = c,
      upo_effect = ''deny''\<rparr>) (sorted_set deny)"

text \<open>The repositories' \<^verbatim>\<open>replace_*\<close>: delete the rows of the scope, add the new ones.\<close>

definition replace_tenant_role_policies ::
    "uuid option \<Rightarrow> string \<Rightarrow> tenant_role_policy list \<Rightarrow> ac_db \<Rightarrow> ac_db" where
  "replace_tenant_role_policies tenant_id role es db =
    db\<lparr>tenant_role_policies :=
      filter (\<lambda>p. \<not> (trp_role_name p = role \<and> trp_tenant_id p = tenant_id)) (tenant_role_policies db)
      @ es\<rparr>"

definition replace_store_role_policies ::
    "uuid \<Rightarrow> uuid \<Rightarrow> string \<Rightarrow> store_role_policy list \<Rightarrow> ac_db \<Rightarrow> ac_db" where
  "replace_store_role_policies tenant_id store_id role es db =
    db\<lparr>store_role_policies :=
      filter (\<lambda>p. \<not> (srp_role_name p = role \<and> srp_tenant_id p = tenant_id
        \<and> srp_store_id p = store_id)) (store_role_policies db) @ es\<rparr>"

definition replace_user_override_rows ::
    "uuid \<Rightarrow> uuid \<Rightarrow> user_permission_override list \<Rightarrow> ac_db \<Rightarrow> ac_db" where
  "replace_user_override_rows tenant_id user_id es db =
    db\<lparr>user_overrides :=
      filter (\<lambda>p. \<not> (upo_tenant_id p = tenant_id \<and> upo_user_id p = user_id)) (user_overrides db)
      @ es\<rparr>"

definition after_snapshot :: "string list \<Rightarrow> string list \<Rightarrow> policy_snapshot" where
  "after_snapshot allow deny = \<lparr>ps_allow = sorted_set allow, ps_deny = sorted_set deny\<rparr>"

definition replace_tenant_role_policy ::
    "ac_db \<Rightarrow> uuid option \<Rightarrow> string \<Rightarrow> string list \<Rightarrow> string list \<Rightarrow> bool
      \<Rightarrow> (policy_snapshot \<times> policy_snapshot \<times> ac_db) res" where
  "replace_tenant_role_policy db tenant_id role allow deny enforce =
    bindr (validate_role_policy_role role) (\<lambda>_.
    bindr (validate_allow_deny allow deny) (\<lambda>_.
    bindr (validate_codes (allow @ deny) (catalog_codes db)) (\<lambda>_.
    bindr (check_ceiling db tenant_id enforce allow) (\<lambda>_.
      let before = tenant_policy_snapshot db tenant_id role;
          es = build_tenant_role_entries tenant_id role allow deny
      in Inr (before, after_snapshot allow deny,
           replace_tenant_role_policies tenant_id role es db)))))"

definition replace_store_role_policy ::
    "ac_db \<Rightarrow> uuid \<Rightarrow> uuid \<Rightarrow> string \<Rightarrow> string list \<Rightarrow> string list \<Rightarrow> bool
      \<Rightarrow> (policy_snapshot \<times> policy_snapshot \<times> ac_db) res" where
  "replace_store_role_policy db tenant_id store_id role allow deny enforce =
    bindr (validate_role_policy_role role) (\<lambda>_.
    bindr (validate_allow_deny allow deny) (\<lambda>_.
    bindr (validate_codes (allow @ deny) (catalog_codes db)) (\<lambda>_.
    bindr (check_ceiling db (Some tenant_id) enforce allow) (\<lambda>_.
      let before = store_policy_snapshot db tenant_id store_id role;
          es = build_store_role_entries tenant_id store_id role allow deny
      in Inr (before, after_snapshot allow deny,
           replace_store_role_policies tenant_id store_id role es db)))))"

definition replace_user_overrides ::
    "ac_db \<Rightarrow> uuid \<Rightarrow> uuid \<Rightarrow> string list \<Rightarrow> string list \<Rightarrow> bool
      \<Rightarrow> (policy_snapshot \<times> policy_snapshot \<times> ac_db) res" where
  "replace_user_overrides db tenant_id user_id allow deny enforce =
    bindr (validate_allow_deny allow deny) (\<lambda>_.
    bindr (validate_codes (allow @ deny) (catalog_codes db)) (\<lambda>_.
    bindr (check_ceiling db (Some tenant_id) enforce allow) (\<lambda>_.
      let before = user_overrides_snapshot db tenant_id user_id;
          es = build_user_override_entries tenant_id user_id allow deny
      in Inr (before, after_snapshot allow deny,
           replace_user_override_rows tenant_id user_id es db))))"

text \<open>\<^verbatim>\<open>repos/rbac.py\<close>: the permissions of a role template are looked up by code in the catalogue;
  a code the catalogue lacks is skipped.\<close>

definition replace_template_permission_rows :: "uuid \<Rightarrow> string list \<Rightarrow> ac_db \<Rightarrow> ac_db" where
  "replace_template_permission_rows tid codes db =
    db\<lparr>role_template_permissions :=
      filter (\<lambda>rp. rtp_role_template_id rp \<noteq> tid) (role_template_permissions db)
      @ [\<lparr>rtp_role_template_id = tid, rtp_permission_id = pc_id p\<rparr>. c \<leftarrow> sorted_set codes,
           p \<leftarrow> (case find (\<lambda>p. pc_code p = c) (catalog db) of None \<Rightarrow> [] | Some p \<Rightarrow> [p])]\<rparr>"

definition replace_role_template_permissions ::
    "ac_db \<Rightarrow> uuid option \<Rightarrow> string \<Rightarrow> string list \<Rightarrow> (string list \<times> string list \<times> ac_db) res" where
  "replace_role_template_permissions db tenant_id role permissions =
    bindr (validate_codes permissions (catalog_codes db)) (\<lambda>_.
    case get_role_template_row db role tenant_id of
      None \<Rightarrow> Inl (raise1 VALIDATION_ERROR ''Role template not found'')
    | Some rt \<Rightarrow>
        bindr (get_role_template db tenant_id role) (\<lambda>before.
          Inr (before, sorted_set permissions,
            replace_template_permission_rows (rt_id rt) permissions db)))"

section \<open>What a replacement leaves in the tables\<close>

lemma set_sorted_set [simp]: "set (sorted_set xs) = set xs"
  by (simp add: sorted_set_def)

lemma lower_effects [simp]: "py_lower ''deny'' = ''deny''" "py_lower ''allow'' = ''allow''"
  by (simp_all add: py_lower_def lower_char_def)

lemma tenant_entries_replace:
  "tenant_entries (replace_tenant_role_policies t r (build_tenant_role_entries t r allow deny) db) t' r' =
    (if t' = t \<and> r' = r
     then map (\<lambda>c. (c, ''allow'')) (sorted_set allow) @ map (\<lambda>c. (c, ''deny'')) (sorted_set deny)
     else tenant_entries db t' r')"
  by (auto simp: tenant_entries_def list_tenant_role_policies_def replace_tenant_role_policies_def
      build_tenant_role_entries_def filter_map comp_def filter_empty_conv intro!: arg_cong [of _ _ "map _"] filter_cong)

lemma store_entries_replace:
  "store_entries (replace_store_role_policies t s r (build_store_role_entries t s r allow deny) db) t' s' r' =
    (if t' = t \<and> s' = s \<and> r' = r
     then map (\<lambda>c. (c, ''allow'')) (sorted_set allow) @ map (\<lambda>c. (c, ''deny'')) (sorted_set deny)
     else store_entries db t' s' r')"
  by (auto simp: store_entries_def list_store_role_policies_def replace_store_role_policies_def
      build_store_role_entries_def filter_map comp_def filter_empty_conv intro!: arg_cong [of _ _ "map _"] filter_cong)

lemma user_entries_replace:
  "user_entries (replace_user_override_rows t u (build_user_override_entries t u allow deny) db) t' u' =
    (if t' = t \<and> u' = u
     then map (\<lambda>c. (c, ''allow'')) (sorted_set allow) @ map (\<lambda>c. (c, ''deny'')) (sorted_set deny)
     else user_entries db t' u')"
  by (auto simp: user_entries_def list_user_overrides_def replace_user_override_rows_def
      build_user_override_entries_def filter_map comp_def filter_empty_conv intro!: arg_cong [of _ _ "map _"] filter_cong)

lemma partition_rows:
  "partition_entries (map (\<lambda>c. (c, ''allow'')) xs @ map (\<lambda>c. (c, ''deny'')) ys) = (set xs, set ys)"
  by (auto simp: partition_entries_sets)

lemma template_tables_replace:
  "catalog (replace_tenant_role_policies t r es db) = catalog db"
  "catalog (replace_store_role_policies t' s r es' db) = catalog db"
  "catalog (replace_user_override_rows t' u es'' db) = catalog db"
  "role_templates (replace_tenant_role_policies t r es db) = role_templates db"
  "role_templates (replace_store_role_policies t' s r es' db) = role_templates db"
  "role_templates (replace_user_override_rows t' u es'' db) = role_templates db"
  "role_template_permissions (replace_tenant_role_policies t r es db) = role_template_permissions db"
  "role_template_permissions (replace_store_role_policies t' s r es' db) = role_template_permissions db"
  "role_template_permissions (replace_user_override_rows t' u es'' db) = role_template_permissions db"
  by (simp_all add: replace_tenant_role_policies_def replace_store_role_policies_def
    replace_user_override_rows_def)

lemma list_permissions_for_role_replace [simp]:
  "list_permissions_for_role (replace_tenant_role_policies t r es db) = list_permissions_for_role db"
  "list_permissions_for_role (replace_store_role_policies t' s r es' db) = list_permissions_for_role db"
  "list_permissions_for_role (replace_user_override_rows t' u es'' db) = list_permissions_for_role db"
  unfolding list_permissions_for_role_def fun_eq_iff template_tables_replace by (rule refl allI)+

lemma allowed_permissions_replace [simp]:
  "allowed_permissions (replace_tenant_role_policies t r es db) = allowed_permissions db"
  "allowed_permissions (replace_store_role_policies t' s r es' db) = allowed_permissions db"
  "allowed_permissions (replace_user_override_rows t' u es'' db) = allowed_permissions db"
  by (simp_all add: fun_eq_iff allowed_permissions_def)

lemma catalog_codes_replace [simp]:
  "catalog_codes (replace_tenant_role_policies t r es db) = catalog_codes db"
  "catalog_codes (replace_store_role_policies t' s r es' db) = catalog_codes db"
  "catalog_codes (replace_user_override_rows t' u es'' db) = catalog_codes db"
  by (simp_all add: replace_tenant_role_policies_def replace_store_role_policies_def
    replace_user_override_rows_def catalog_codes_def list_permission_catalog_def)

lemma entries_replace_other [simp]:
  "store_entries (replace_tenant_role_policies t r es db) = store_entries db"
  "user_entries (replace_tenant_role_policies t r es db) = user_entries db"
  "tenant_entries (replace_store_role_policies t' s r es' db) = tenant_entries db"
  "user_entries (replace_store_role_policies t' s r es' db) = user_entries db"
  "store_entries (replace_user_override_rows t' u es'' db) = store_entries db"
  "tenant_entries (replace_user_override_rows t' u es'' db) = tenant_entries db"
  by (simp_all add: fun_eq_iff replace_tenant_role_policies_def replace_store_role_policies_def
    replace_user_override_rows_def store_entries_def list_store_role_policies_def
    user_entries_def list_user_overrides_def tenant_entries_def list_tenant_role_policies_def)

lemmas replace_inversion = replace_tenant_role_policy_def replace_store_role_policy_def
  replace_user_overrides_def validate_role_policy_role_def validate_allow_deny_def
  validate_codes_def check_ceiling_def

lemma sorted_set_eq_snapshot: "after_snapshot allow deny = snapshot_of (set allow, set deny)"
  by (simp add: after_snapshot_def snapshot_of_def sorted_set_def)

lemmas policy_lookup = tenant_entries_replace store_entries_replace user_entries_replace partition_rows

section \<open>Properties\<close>

text \<open>replacing a role's policy is a round trip with a frame. When it succeeds, the
  policy read back for that tenant and role is the one returned as \<^verbatim>\<open>after\<close>, the one returned
  as \<^verbatim>\<open>before\<close> is what was read before, no code is both allowed and denied, and the policy of
  every other tenant or role, every store policy and every user override reads as before.\<close>

theorem replace_tenant_role_policy_roundtrip:
  assumes "replace_tenant_role_policy db t r allow deny enforce = Inr (before, after, db')"
  shows "tenant_policy_snapshot db' t r = after \<and> before = tenant_policy_snapshot db t r
    \<and> set (ps_allow after) \<inter> set (ps_deny after) = {}
    \<and> (\<forall>t' r'. (t', r') = (t, r) \<or> tenant_policy_snapshot db' t' r' = tenant_policy_snapshot db t' r')
    \<and> store_policy_snapshot db' = store_policy_snapshot db
    \<and> user_overrides_snapshot db' = user_overrides_snapshot db"
  using assms
  by (auto simp: replace_inversion res_simps Let_def tenant_policy_snapshot_def policy_lookup
      sorted_set_eq_snapshot store_policy_snapshot_def user_overrides_snapshot_def fun_eq_iff
      snapshot_of_def split: if_splits)

lemma decide_layers_cong:
  assumes "permission_layers db ctx td = permission_layers db' ctx td"
    and "catalog_codes db = catalog_codes db'"
  shows "permission_answer db resolvers ctx td key = permission_answer db' resolvers ctx td key"
  unfolding permission_answer_def assms ..

lemma replace_user_overrides_db:
  assumes "replace_user_overrides db t u allow deny enforce = Inr (before, after, db')"
  shows "db' = replace_user_override_rows t u (build_user_override_entries t u allow deny) db"
    and "set allow \<inter> set deny = {}"
    and "enforce \<Longrightarrow> set allow \<subseteq> tenant_admin_ceiling db (Some t)"
  using assms by (auto simp: replace_inversion res_simps Let_def split: if_splits)

lemma replace_user_overrides_layers:
  assumes "replace_user_overrides db t u allow deny enforce = Inr (before, after, db')"
    and rs: "resolve_role_scope ctx td = (r, Some t, s)" "rc_user_id ctx = Some u"
      "t \<noteq> []" "u \<noteq> []"
  shows "permission_layers db' ctx td =
    (permission_layers db ctx td)\<lparr>user_allow := set allow, user_deny := set deny\<rparr>"
  using rs unfolding replace_user_overrides_db(1) [OF assms(1)] permission_layers_def
    allowed_permissions_replace entries_replace_other
  by (simp add: policy_lookup Let_def)

text \<open>No escalation through user overrides. When an administrator who is held to the
  ceiling replaces a user's overrides, every permission that the user's requests are then
  granted was granted before, or would be by the other layers alone, or belongs to the
  tenant's ADMIN role; and no denied permission is granted.\<close>

theorem user_overrides_respect_ceiling:
  assumes "replace_user_overrides db t u allow deny True = Inr (before, after, db')"
    and "resolve_role_scope ctx td = (r, Some t, s)" and "rc_user_id ctx = Some u"
    and "t \<noteq> []" and "u \<noteq> []"
    and "pd_allowed (permission_answer db' resolvers ctx td key)"
  shows "py_strip key \<notin> set deny
    \<and> (py_strip key \<in> tenant_admin_ceiling db (Some t)
       \<or> (let tr = permission_layers db ctx td in
            py_strip key \<in> store_allow tr \<union> tenant_allow tr \<union> template_allow tr))"
proof -
  have sub: "set allow \<subseteq> tenant_admin_ceiling db (Some t)"
    using replace_user_overrides_db(3) [OF assms(1)] by simp
  from assms(6) have
    "pd_allowed (decide (get_denied_permissions resolvers ctx) (permission_layers db' ctx td) (py_strip key))"
    by (auto simp: permission_answer_def Let_def split: if_splits)
  then show ?thesis
    using sub by (auto simp: decide_allowed_iff Let_def
        replace_user_overrides_layers [OF assms(1-5)])
qed

definition demo_ac_admin :: ac_db where
  "demo_ac_admin = demo_ac\<lparr>
     role_templates := [\<lparr>rt_id = ''r0'', rt_tenant_id = None, rt_name = ''ADMIN''\<rparr>],
     role_template_permissions := [\<lparr>rtp_role_template_id = ''r0'', rtp_permission_id = ''p1''\<rparr>],
     tenant_role_policies := [], user_overrides := []\<rparr>"

lemma demo_replace_override:
  "replace_user_overrides demo_ac_admin ''t1'' ''u1'' [''TRANSFER_VIEW''] [] True =
    Inr (user_overrides_snapshot demo_ac_admin ''t1'' ''u1'', after_snapshot [''TRANSFER_VIEW''] [],
      replace_user_override_rows ''t1'' ''u1''
        (build_user_override_entries ''t1'' ''u1'' [''TRANSFER_VIEW''] []) demo_ac_admin)"
proof -
  have "tenant_admin_ceiling demo_ac_admin (Some ''t1'') = {''TRANSFER_VIEW''}"
    by (simp add: tenant_admin_ceiling_def list_permissions_for_role_def demo_ac_admin_def demo_ac_def)
  moreover have "''TRANSFER_VIEW'' \<in> catalog_codes demo_ac_admin"
    by (simp add: demo_ac_admin_def demo_access_simps)
  ultimately show ?thesis
    by (simp add: replace_user_overrides_def validate_allow_deny_def validate_codes_def check_ceiling_def)
qed

theorem user_overrides_respect_ceiling_witness:
  "\<exists>db'. ''TRANSFER_VIEW'' \<notin> set []
    \<and> pd_allowed (permission_answer db' [] (demo_ctx (Some ''user'')) None ''TRANSFER_VIEW'')
    \<and> (''TRANSFER_VIEW'' \<in> tenant_admin_ceiling demo_ac_admin (Some ''t1'')
       \<or> (let tr = permission_layers demo_ac_admin (demo_ctx (Some ''user'')) None in
            ''TRANSFER_VIEW'' \<in> store_allow tr \<union> tenant_allow tr \<union> template_allow tr))"
proof -
  let ?db' = "replace_user_override_rows ''t1'' ''u1''
    (build_user_override_entries ''t1'' ''u1'' [''TRANSFER_VIEW''] []) demo_ac_admin"
  let ?ctx = "demo_ctx (Some ''user'')"
  have r: "resolve_role_scope ?ctx None = (Some ''USER'', Some ''t1'', None)"
    by (simp add: demo_access_simps)
  have u: "rc_user_id ?ctx = Some ''u1''" by (simp add: demo_ctx_def)
  have k: "py_strip ''TRANSFER_VIEW'' = ''TRANSFER_VIEW''" by (simp add: demo_access_simps)
  have "''TRANSFER_VIEW'' \<in> catalog_codes demo_ac_admin"
    by (simp add: demo_ac_admin_def demo_access_simps)
  then have c: "''TRANSFER_VIEW'' \<in> catalog_codes ?db'" by simp
  have L: "permission_layers ?db' ?ctx None = (permission_layers demo_ac_admin ?ctx None)
      \<lparr>user_allow := {''TRANSFER_VIEW''}, user_deny := {}\<rparr>"
    using replace_user_overrides_layers [OF demo_replace_override r u] by simp
  have N: "tenant_deny (permission_layers demo_ac_admin ?ctx None) = {}"
    "store_deny (permission_layers demo_ac_admin ?ctx None) = {}"
    using r by (simp_all add: permission_layers_def Let_def tenant_entries_def
        list_tenant_role_policies_def demo_ac_admin_def demo_ac_def)
  have a: "pd_allowed (permission_answer ?db' [] ?ctx None ''TRANSFER_VIEW'')"
    using c k r L N
    by (simp add: permission_answer_def Let_def decide_allowed_iff get_denied_permissions_def)
  show ?thesis
    using user_overrides_respect_ceiling [OF demo_replace_override r u _ _ a] a k by auto
qed

text \<open>a platform-wide role policy is never consulted for a request that has a tenant:
  replacing the policy stored under no tenant changes no decision on such a request.\<close>

theorem platform_policy_inert:
  assumes "replace_tenant_role_policy db None r allow deny enforce = Inr (before, after, db')"
    and "fst (snd (resolve_role_scope ctx td)) \<noteq> None"
  shows "permission_answer db' resolvers ctx td key = permission_answer db resolvers ctx td key"
proof -
  from assms(1) have db': "db' = replace_tenant_role_policies None r
      (build_tenant_role_entries None r allow deny) db"
    by (auto simp: replace_inversion res_simps Let_def split: if_splits)
  show ?thesis
    unfolding db'
  proof (rule decide_layers_cong)
    obtain role t s where rs: "resolve_role_scope ctx td = (role, t, s)"
      by (cases "resolve_role_scope ctx td") auto
    show "permission_layers (replace_tenant_role_policies None r
        (build_tenant_role_entries None r allow deny) db) ctx td = permission_layers db ctx td"
      using assms(2) rs unfolding permission_layers_def allowed_permissions_replace
        entries_replace_other by (cases t) (simp_all add: policy_lookup)
  qed simp
qed

lemma demo_replace_platform:
  "replace_tenant_role_policy demo_ac None ''USER'' [''TRANSFER_MANAGE''] [''TRANSFER_VIEW''] False =
    Inr (tenant_policy_snapshot demo_ac None ''USER'',
      after_snapshot [''TRANSFER_MANAGE''] [''TRANSFER_VIEW''],
      replace_tenant_role_policies None ''USER''
        (build_tenant_role_entries None ''USER'' [''TRANSFER_MANAGE''] [''TRANSFER_VIEW'']) demo_ac)"
  by (simp add: replace_inversion ALLOWED_ROLE_POLICIES_def demo_access_simps)

theorem replace_tenant_role_policy_roundtrip_witness:
  "\<exists>db'. tenant_policy_snapshot db' None ''USER'' =
      after_snapshot [''TRANSFER_MANAGE''] [''TRANSFER_VIEW'']
    \<and> store_policy_snapshot db' = store_policy_snapshot demo_ac"
  using replace_tenant_role_policy_roundtrip [OF demo_replace_platform] by blast

theorem platform_policy_inert_witness:
  "\<exists>db'. tenant_policy_snapshot db' None ''USER'' \<noteq> tenant_policy_snapshot demo_ac None ''USER''
    \<and> permission_answer db' [] (demo_ctx (Some ''user'')) None ''TRANSFER_VIEW'' =
      permission_answer demo_ac [] (demo_ctx (Some ''user'')) None ''TRANSFER_VIEW''"
proof (intro exI conjI)
  let ?db' = "replace_tenant_role_policies None ''USER''
    (build_tenant_role_entries None ''USER'' [''TRANSFER_MANAGE''] [''TRANSFER_VIEW'']) demo_ac"
  show "tenant_policy_snapshot ?db' None ''USER'' \<noteq> tenant_policy_snapshot demo_ac None ''USER''"
    unfolding tenant_policy_snapshot_def tenant_entries_replace
    by (simp add: partition_rows snapshot_of_def tenant_entries_def list_tenant_role_policies_def
        demo_ac_def)
  show "permission_answer ?db' [] (demo_ctx (Some ''user'')) None ''TRANSFER_VIEW'' =
      permission_answer demo_ac [] (demo_ctx (Some ''user'')) None ''TRANSFER_VIEW''"
    by (rule platform_policy_inert [OF demo_replace_platform]) (simp add: demo_access_simps)
qed



end
