(* ===== verification/Idempotency.thy ===== *)
theory Idempotency
  imports Errors Interfaces
begin

text \<open>
  Requests that carry an idempotency key: \<^verbatim>\<open>services/idempotency.py\<close> with
  \<^verbatim>\<open>repos/idempotency.py\<close>, and the way an endpoint uses it. A record is created and committed
  before the handler runs; \<^verbatim>\<open>record_success\<close> commits it with the handler's rows; an
  \<^verbatim>\<open>AppError\<close> closes the session, which discards the handler's rows, and the exception handler
  then commits the failure. The primary key of a record is not kept: the unique constraint on
  tenant, endpoint, method and key identifies the row. A reply is its status and its JSON text.
\<close>

declare split_paired_All [simp del] split_paired_Ex [simp del]

section \<open>Records\<close>

datatype idempotency_state = In_progress | Succeeded | Failed

type_synonym idem_key = "uuid \<times> string \<times> string \<times> string"
type_synonym reply = "int \<times> string"

record idempotency_record =
  ir_tenant_id :: uuid
  ir_endpoint :: string
  ir_method :: string
  ir_idempotency_key :: string
  ir_request_hash :: string
  ir_state :: idempotency_state
  ir_status_code :: "int option"
  ir_response_body :: "string option"

type_synonym idem_table = "idempotency_record list"

definition ir_key :: "idempotency_record \<Rightarrow> idem_key" where
  "ir_key r = (ir_tenant_id r, ir_endpoint r, ir_method r, ir_idempotency_key r)"

definition get_by_key :: "idem_table \<Rightarrow> idem_key \<Rightarrow> idempotency_record option" where
  "get_by_key tbl k = find (\<lambda>r. ir_key r = k) tbl"

text \<open>\<^verbatim>\<open>create\<close>; \<open>None\<close> is the \<^verbatim>\<open>IntegrityError\<close> of the unique constraint.\<close>

definition create_record :: "idempotency_record \<Rightarrow> idem_table \<Rightarrow> idem_table option" where
  "create_record r tbl = (if ir_key r \<in> ir_key ` set tbl then None else Some (tbl @ [r]))"

definition update_record ::
    "idem_key \<Rightarrow> (idempotency_record \<Rightarrow> idempotency_record) \<Rightarrow> idem_table \<Rightarrow> idem_table" where
  "update_record k f tbl = map (\<lambda>r. if ir_key r = k then f r else r) tbl"

definition record_success :: "reply \<Rightarrow> idempotency_record \<Rightarrow> idempotency_record" where
  "record_success rep r = r\<lparr>ir_status_code := Some (fst rep), ir_response_body := Some (snd rep),
     ir_state := Succeeded\<rparr>"

definition record_failure :: "reply \<Rightarrow> idempotency_record \<Rightarrow> idempotency_record" where
  "record_failure rep r = r\<lparr>ir_status_code := Some (fst rep), ir_response_body := Some (snd rep),
     ir_state := Failed\<rparr>"

section \<open>The service\<close>

text \<open>The error's details hold a list of field errors and no message: \<open>Some []\<close>.\<close>

definition extract_idempotency_key ::
    "string option \<Rightarrow> string option \<Rightarrow> bool \<Rightarrow> string option res" where
  "extract_idempotency_key header legacy required =
    (let key = py_or header legacy
     in if falsy key \<and> required then Inl (raise1 IDEMPOTENCY_KEY_REQUIRED []) else Inr key)"

fun handle_existing :: "idempotency_record option \<Rightarrow> string \<Rightarrow> reply res" where
  "handle_existing None h = Inl (raise0 IDEMPOTENCY_REQUEST_IN_PROGRESS)"
| "handle_existing (Some r) h =
    (if ir_request_hash r \<noteq> h then Inl (raise0 IDEMPOTENCY_KEY_REUSED_WITH_DIFFERENT_PAYLOAD)
     else if ir_state r = In_progress then Inl (raise0 IDEMPOTENCY_REQUEST_IN_PROGRESS)
     else (case (ir_response_body r, ir_status_code r) of
         (Some b, Some st) \<Rightarrow> Inr (st, b)
       | _ \<Rightarrow> Inl (raise0 IDEMPOTENCY_REQUEST_IN_PROGRESS)))"

fun new_record :: "idem_key \<Rightarrow> string \<Rightarrow> idempotency_record" where
  "new_record (t, e, m, k) h =
    \<lparr>ir_tenant_id = t, ir_endpoint = e, ir_method = m, ir_idempotency_key = k,
     ir_request_hash = h, ir_state = In_progress, ir_status_code = None, ir_response_body = None\<rparr>"

datatype started = Context idem_table | Replay reply

text \<open>\<^verbatim>\<open>start\<close> reads the table, and creates the record in a later transaction: \<open>tbl\<close> is the
  table as the first query sees it, \<open>tbl'\<close> as the insertion and the second query see it.\<close>

definition start :: "idem_table \<Rightarrow> idem_table \<Rightarrow> idem_key \<Rightarrow> string \<Rightarrow> started res" where
  "start tbl tbl' k h =
    (case get_by_key tbl k of
       Some r \<Rightarrow> bindr (handle_existing (Some r) h) (\<lambda>rep. Inr (Replay rep))
     | None \<Rightarrow>
         (case create_record (new_record k h) tbl' of
            Some tbl'' \<Rightarrow> Inr (Context tbl'')
          | None \<Rightarrow> bindr (handle_existing (get_by_key tbl' k) h) (\<lambda>rep. Inr (Replay rep))))"

section \<open>An endpoint behind the service\<close>

text \<open>A handler maps the stored rows to new rows, a status and a body, or raises.\<close>

type_synonym 's handler = "'s \<Rightarrow> ('s \<times> reply) res"

definition error_reply_of :: "(app_error \<Rightarrow> string) \<Rightarrow> app_error \<Rightarrow> reply" where
  "error_reply_of dump e = (er_status (app_error_handler e), dump e)"

definition idempotent_request ::
    "(app_error \<Rightarrow> string) \<Rightarrow> idem_key \<times> string \<times> 's handler \<Rightarrow> idem_table \<times> 's
      \<Rightarrow> reply \<times> idem_table \<times> 's" where
  "idempotent_request dump q w =
    (case (q, w) of ((k, h, handler), (tbl, s)) \<Rightarrow>
      (case start tbl tbl k h of
         Inl e \<Rightarrow> (error_reply_of dump e, tbl, s)
       | Inr (Replay rep) \<Rightarrow> (rep, tbl, s)
       | Inr (Context tbl') \<Rightarrow>
           (case handler s of
              Inr (s', rep) \<Rightarrow> (rep, update_record k (record_success rep) tbl', s')
            | Inl e \<Rightarrow>
                (let rep = error_reply_of dump e
                 in (rep, update_record k (record_failure rep) tbl', s)))))"

definition key_unsent :: "idem_key \<times> string \<times> 's handler \<Rightarrow> idem_table \<times> 's \<Rightarrow> bool" where
  "key_unsent q w = (get_by_key (fst w) (fst q) = None)"

definition request_settled ::
    "idem_key \<times> string \<times> 's handler \<Rightarrow> reply \<Rightarrow> idem_table \<times> 's \<Rightarrow> bool" where
  "request_settled q rep w =
    (case get_by_key (fst w) (fst q) of None \<Rightarrow> False
     | Some r \<Rightarrow> ir_request_hash r = fst (snd q) \<and> ir_state r \<noteq> In_progress
         \<and> ir_status_code r = Some (fst rep) \<and> ir_response_body r = Some (snd rep))"

section \<open>Lemmas on the table\<close>

lemma ir_key_new_record [simp]: "ir_key (new_record k h) = k"
  by (cases k) (simp add: ir_key_def)

lemma record_outcome_key [simp]:
  "ir_key (record_success rep r) = ir_key r" "ir_key (record_failure rep r) = ir_key r"
  by (simp_all add: ir_key_def record_success_def record_failure_def)

lemma new_record_fields [simp]:
  "ir_request_hash (new_record k h) = h" "ir_state (new_record k h) = In_progress"
  by (cases k; simp)+

declare new_record.simps [simp del]

lemma record_outcome_fields [simp]:
  "ir_request_hash (record_success rep r) = ir_request_hash r"
  "ir_request_hash (record_failure rep r) = ir_request_hash r"
  "ir_state (record_success rep r) = Succeeded" "ir_state (record_failure rep r) = Failed"
  "ir_status_code (record_success rep r) = Some (fst rep)"
  "ir_status_code (record_failure rep r) = Some (fst rep)"
  "ir_response_body (record_success rep r) = Some (snd rep)"
  "ir_response_body (record_failure rep r) = Some (snd rep)"
  by (simp_all add: record_success_def record_failure_def)

lemma get_by_key_None_iff: "get_by_key tbl k = None \<longleftrightarrow> k \<notin> ir_key ` set tbl"
  by (auto simp: get_by_key_def find_None_iff)

lemma get_by_key_update:
  assumes "\<And>r. ir_key (f r) = ir_key r"
  shows "get_by_key (update_record k f tbl) k' =
    (if k = k' then map_option f (get_by_key tbl k') else get_by_key tbl k')"
  by (induction tbl) (auto simp: update_record_def get_by_key_def assms)

lemma get_by_key_append:
  "get_by_key (tbl @ [r]) k =
    (case get_by_key tbl k of Some x \<Rightarrow> Some x | None \<Rightarrow> if ir_key r = k then Some r else None)"
  by (induction tbl) (auto simp: get_by_key_def)

lemma start_same_table:
  "start tbl tbl k h = (case get_by_key tbl k of
      None \<Rightarrow> Inr (Context (tbl @ [new_record k h]))
    | Some r \<Rightarrow> bindr (handle_existing (Some r) h) (\<lambda>rep. Inr (Replay rep)))"
proof (cases "get_by_key tbl k")
  case None
  then have "k \<notin> ir_key ` set tbl" by (simp add: get_by_key_None_iff)
  then show ?thesis using None by (simp add: start_def create_record_def)
qed (simp add: start_def)

lemma handle_existing_Inr:
  "handle_existing (Some r) h = Inr rep \<longleftrightarrow> ir_request_hash r = h \<and> ir_state r \<noteq> In_progress
    \<and> ir_status_code r = Some (fst rep) \<and> ir_response_body r = Some (snd rep)"
  by (cases rep) (auto split: option.splits)

lemma idempotent_request_existing:
  assumes "get_by_key tbl k = Some r"
  shows "idempotent_request dump (k, h, f) (tbl, s) =
    (case handle_existing (Some r) h of Inl e \<Rightarrow> error_reply_of dump e | Inr rep \<Rightarrow> rep, tbl, s)"
  using assms
  by (cases "handle_existing (Some r) h") (auto simp: idempotent_request_def start_same_table)

lemma idempotent_request_fresh:
  assumes "get_by_key tbl k = None"
  shows "idempotent_request dump (k, h, f) (tbl, s) =
    (case f s of
       Inr (s', rep) \<Rightarrow> (rep, update_record k (record_success rep) (tbl @ [new_record k h]), s')
     | Inl e \<Rightarrow> (error_reply_of dump e,
         update_record k (record_failure (error_reply_of dump e)) (tbl @ [new_record k h]), s))"
  using assms by (simp add: idempotent_request_def start_same_table Let_def split: sum.splits)

lemmas table_simps = get_by_key_update get_by_key_append

interpretation idem: replayed_requests "idempotent_request dump" key_unsent request_settled
  for dump
proof
  fix q q' :: "idem_key \<times> string \<times> 's handler" and rep and w :: "idem_table \<times> 's"
  obtain k h f where q: "q = (k, h, f)" by (cases q)
  obtain tbl s where w: "w = (tbl, s)" by (cases w)
  show "key_unsent q w \<Longrightarrow> request_settled q (fst (idempotent_request dump q w))
      (snd (idempotent_request dump q w))"
    by (auto simp: q w key_unsent_def idempotent_request_fresh request_settled_def table_simps
        split: sum.splits prod.splits)
  show "request_settled q rep w \<Longrightarrow> idempotent_request dump q w = (rep, w)"
    by (auto simp: q w request_settled_def idempotent_request_existing split: option.splits)
  obtain k' h' f' where q': "q' = (k', h', f')" by (cases q')
  show "request_settled q rep w \<Longrightarrow> request_settled q rep (snd (idempotent_request dump q' w))"
  proof (cases "get_by_key tbl k'")
    case (Some r)
    then show "request_settled q rep w \<Longrightarrow> ?thesis"
      by (simp add: q' w idempotent_request_existing)
  next
    case None
    assume s: "request_settled q rep w"
    then have "k \<noteq> k'" using None by (auto simp: request_settled_def q w)
    then show ?thesis using None s
      by (auto simp: q q' w idempotent_request_fresh request_settled_def table_simps
          split: sum.splits prod.splits option.splits)
  qed
qed

section \<open>Requests in parallel\<close>

text \<open>
  Several workers share the table; each serves one request in the phases the code has between
  its transactions: the query of \<^verbatim>\<open>start\<close>, the insertion, the handler with
  \<^verbatim>\<open>record_success\<close> or \<^verbatim>\<open>record_failure\<close>. A worker may die at any time. \<open>runs\<close> counts, for
  each key, the handlers that were started.
\<close>

datatype phase = Arrived | Missed | Running | Answered "reply res" | Dead

record idem_system =
  sys_table :: idem_table
  sys_phase :: "nat \<Rightarrow> phase"
  sys_runs :: "idem_key \<Rightarrow> nat"

inductive idem_step ::
    "(nat \<Rightarrow> idem_key \<times> string) \<Rightarrow> idem_system \<Rightarrow> idem_system \<Rightarrow> bool" for job where
  found: "sys_phase \<sigma> w = Arrived \<Longrightarrow> get_by_key (sys_table \<sigma>) (fst (job w)) = Some r \<Longrightarrow>
    idem_step job \<sigma> (\<sigma>\<lparr>sys_phase := (sys_phase \<sigma>)(w := Answered (handle_existing (Some r) (snd (job w))))\<rparr>)"
| missed: "sys_phase \<sigma> w = Arrived \<Longrightarrow> get_by_key (sys_table \<sigma>) (fst (job w)) = None \<Longrightarrow>
    idem_step job \<sigma> (\<sigma>\<lparr>sys_phase := (sys_phase \<sigma>)(w := Missed)\<rparr>)"
| created: "sys_phase \<sigma> w = Missed \<Longrightarrow>
    create_record (new_record (fst (job w)) (snd (job w))) (sys_table \<sigma>) = Some tbl \<Longrightarrow>
    idem_step job \<sigma> (\<sigma>\<lparr>sys_table := tbl, sys_phase := (sys_phase \<sigma>)(w := Running),
      sys_runs := (sys_runs \<sigma>)(fst (job w) := Suc (sys_runs \<sigma> (fst (job w))))\<rparr>)"
| lost_race: "sys_phase \<sigma> w = Missed \<Longrightarrow>
    create_record (new_record (fst (job w)) (snd (job w))) (sys_table \<sigma>) = None \<Longrightarrow>
    idem_step job \<sigma> (\<sigma>\<lparr>sys_phase := (sys_phase \<sigma>)(w := Answered
      (handle_existing (get_by_key (sys_table \<sigma>) (fst (job w))) (snd (job w))))\<rparr>)"
| succeeded: "sys_phase \<sigma> w = Running \<Longrightarrow>
    idem_step job \<sigma> (\<sigma>\<lparr>sys_table := update_record (fst (job w)) (record_success rep) (sys_table \<sigma>),
      sys_phase := (sys_phase \<sigma>)(w := Answered (Inr rep))\<rparr>)"
| failed: "sys_phase \<sigma> w = Running \<Longrightarrow>
    idem_step job \<sigma> (\<sigma>\<lparr>sys_table := update_record (fst (job w)) (record_failure rep) (sys_table \<sigma>),
      sys_phase := (sys_phase \<sigma>)(w := Answered (Inr rep))\<rparr>)"
| died: "idem_step job \<sigma> (\<sigma>\<lparr>sys_phase := (sys_phase \<sigma>)(w := Dead)\<rparr>)"

inductive idem_reachable :: "(nat \<Rightarrow> idem_key \<times> string) \<Rightarrow> idem_system \<Rightarrow> bool" for job where
  start: "idem_reachable job \<lparr>sys_table = [], sys_phase = (\<lambda>_. Arrived), sys_runs = (\<lambda>_. 0)\<rparr>"
| step: "idem_reachable job \<sigma> \<Longrightarrow> idem_step job \<sigma> \<sigma>' \<Longrightarrow> idem_reachable job \<sigma>'"

definition idem_invariant :: "(nat \<Rightarrow> idem_key \<times> string) \<Rightarrow> idem_system \<Rightarrow> bool" where
  "idem_invariant job \<sigma> \<longleftrightarrow>
    distinct (map ir_key (sys_table \<sigma>))
    \<and> (\<forall>k. sys_runs \<sigma> k = (if k \<in> ir_key ` set (sys_table \<sigma>) then 1 else 0))
    \<and> (\<forall>w. sys_phase \<sigma> w = Running \<longrightarrow>
        (\<exists>r \<in> set (sys_table \<sigma>). ir_key r = fst (job w) \<and> ir_state r = In_progress))
    \<and> (\<forall>v w. sys_phase \<sigma> v = Running \<and> sys_phase \<sigma> w = Running \<and> fst (job v) = fst (job w) \<longrightarrow> v = w)"

lemma update_record_keys [simp]:
  assumes "\<And>r. ir_key (f r) = ir_key r"
  shows "map ir_key (update_record k f tbl) = map ir_key tbl"
    "ir_key ` set (update_record k f tbl) = ir_key ` set tbl"
proof -
  show eq: "map ir_key (update_record k f tbl) = map ir_key tbl"
    by (simp add: update_record_def assms)
  show "ir_key ` set (update_record k f tbl) = ir_key ` set tbl"
    using arg_cong [OF eq, of set] by simp
qed

lemma update_record_other:
  "r \<in> set tbl \<Longrightarrow> ir_key r \<noteq> k \<Longrightarrow> r \<in> set (update_record k f tbl)"
  by (auto simp: update_record_def image_iff)

lemma create_record_Some:
  "create_record r tbl = Some tbl' \<longleftrightarrow> ir_key r \<notin> ir_key ` set tbl \<and> tbl' = tbl @ [r]"
  by (auto simp: create_record_def)

lemma idem_finish_invariant:
  assumes I: "idem_invariant job \<sigma>" and w: "sys_phase \<sigma> w = Running"
    and f: "\<And>r. ir_key (f r) = ir_key r"
  shows "idem_invariant job (\<sigma>\<lparr>sys_table := update_record (fst (job w)) f (sys_table \<sigma>),
    sys_phase := (sys_phase \<sigma>)(w := Answered x)\<rparr>)"
proof -
  let ?tbl = "update_record (fst (job w)) f (sys_table \<sigma>)"
  have "\<exists>r \<in> set ?tbl. ir_key r = fst (job v) \<and> ir_state r = In_progress"
    if v: "v \<noteq> w" "sys_phase \<sigma> v = Running" for v
  proof -
    have "fst (job v) \<noteq> fst (job w)" using I w v by (auto simp: idem_invariant_def)
    moreover obtain r where "r \<in> set (sys_table \<sigma>)" "ir_key r = fst (job v)" "ir_state r = In_progress"
      using I v by (auto simp: idem_invariant_def)
    ultimately show ?thesis using update_record_other by metis
  qed
  then show ?thesis using I by (simp add: idem_invariant_def f)
qed

lemma idem_create_invariant:
  assumes I: "idem_invariant job \<sigma>"
    and c: "create_record (new_record (fst (job w)) (snd (job w))) (sys_table \<sigma>) = Some tbl"
  shows "idem_invariant job (\<sigma>\<lparr>sys_table := tbl, sys_phase := (sys_phase \<sigma>)(w := Running),
      sys_runs := (sys_runs \<sigma>)(fst (job w) := Suc (sys_runs \<sigma> (fst (job w))))\<rparr>)"
proof -
  from c have new: "fst (job w) \<notin> ir_key ` set (sys_table \<sigma>)"
    and tbl: "tbl = sys_table \<sigma> @ [new_record (fst (job w)) (snd (job w))]"
    by (simp_all add: create_record_Some)
  have other: "fst (job v) \<noteq> fst (job w)" if "sys_phase \<sigma> v = Running" for v
    using I that new by (force simp: idem_invariant_def)
  have runs: "sys_runs \<sigma> (fst (job w)) = 0"
    using I new by (simp add: idem_invariant_def)
  have "distinct (map ir_key tbl)" using I new by (auto simp: idem_invariant_def tbl)
  moreover have "\<exists>r \<in> set tbl. ir_key r = fst (job v) \<and> ir_state r = In_progress"
    if "v = w \<or> sys_phase \<sigma> v = Running" for v
    using that I by (auto simp: idem_invariant_def tbl)
  ultimately show ?thesis
    using I runs other other [symmetric] unfolding idem_invariant_def by (simp add: tbl)
qed

lemma idem_invariant_phase:
  assumes "idem_invariant job \<sigma>" and "p \<noteq> Running"
  shows "idem_invariant job (\<sigma>\<lparr>sys_phase := (sys_phase \<sigma>)(w := p)\<rparr>)"
  using assms by (auto simp: idem_invariant_def)

lemma idem_step_invariant:
  "idem_step job \<sigma> \<sigma>' \<Longrightarrow> idem_invariant job \<sigma> \<Longrightarrow> idem_invariant job \<sigma>'"
  by (induction rule: idem_step.induct)
    (simp_all add: idem_invariant_phase idem_create_invariant idem_finish_invariant)

lemma idem_reachable_invariant: "idem_reachable job \<sigma> \<Longrightarrow> idem_invariant job \<sigma>"
proof (induction rule: idem_reachable.induct)
  case start
  then show ?case by (simp add: idem_invariant_def)
next
  case (step \<sigma> \<sigma>')
  then show ?case by (blast intro: idem_step_invariant)
qed

inductive_simps idem_step_simps: "idem_step job \<sigma> \<sigma>'"
inductive_cases idem_stepE: "idem_step job \<sigma> \<sigma>'"

section \<open>Properties\<close>

text \<open>C1: at most one execution per key, whatever the interleaving. In every state that any
  number of concurrent requests can reach, some of them dying on the way, a key's handler was
  started at most once, the records' keys are distinct, and no two requests of one key are in
  their handlers at the same time.\<close>

theorem at_most_one_execution:
  assumes "idem_reachable job \<sigma>"
  shows "sys_runs \<sigma> k \<le> 1 \<and> distinct (map ir_key (sys_table \<sigma>))
    \<and> (\<forall>v w. sys_phase \<sigma> v = Running \<and> sys_phase \<sigma> w = Running \<and> fst (job v) = fst (job w) \<longrightarrow> v = w)"
proof -
  have I: "idem_invariant job \<sigma>" by (rule idem_reachable_invariant [OF assms])
  then have "sys_runs \<sigma> k = (if k \<in> ir_key ` set (sys_table \<sigma>) then 1 else 0)"
    unfolding idem_invariant_def by blast
  then show ?thesis using I unfolding idem_invariant_def by auto
qed

definition demo_job :: "nat \<Rightarrow> idem_key \<times> string" where
  "demo_job w = ((''t1'', ''/aris3/transfers'', ''POST'', ''key-1''), ''hash'')"

text \<open>Two workers miss the key, one creates the record, the other loses the race.\<close>

theorem at_most_one_execution_witness:
  "\<exists>\<sigma>::idem_system. sys_runs \<sigma> (fst (demo_job 0)) = 1 \<and> sys_phase \<sigma> 0 = Running
    \<and> sys_phase \<sigma> 1 = Answered (Inl (raise0 IDEMPOTENCY_REQUEST_IN_PROGRESS))
    \<and> sys_runs \<sigma> (fst (demo_job 0)) \<le> 1"
proof -
  let ?k = "(''t1'', ''/aris3/transfers'', ''POST'', ''key-1'')"
  let ?r = "new_record ?k ''hash''"
  have job: "fst (demo_job w) = ?k" "snd (demo_job w) = ''hash''" for w
    by (simp_all add: demo_job_def)
  let ?n = "\<lambda>_::idem_key. 0::nat" and ?p = "\<lambda>_::nat. Arrived"
  let ?lost = "Answered (handle_existing (get_by_key [?r] (fst (demo_job 1))) (snd (demo_job 1)))"
  have 1: "idem_reachable demo_job \<lparr>sys_table = [], sys_phase = ?p, sys_runs = ?n\<rparr>"
    by (rule idem_reachable.start)
  have 2: "idem_reachable demo_job \<lparr>sys_table = [], sys_phase = ?p(0 := Missed), sys_runs = ?n\<rparr>"
    using idem_reachable.step [OF 1 missed [of _ 0]] by (simp add: get_by_key_def)
  have 3: "idem_reachable demo_job
      \<lparr>sys_table = [], sys_phase = ?p(0 := Missed, 1 := Missed), sys_runs = ?n\<rparr>"
    using idem_reachable.step [OF 2 missed [of _ 1]] by (simp add: get_by_key_def)
  have 4: "idem_reachable demo_job \<lparr>sys_table = [?r],
      sys_phase = ?p(0 := Missed, 1 := Missed, 0 := Running), sys_runs = ?n(?k := 1)\<rparr>"
    using idem_reachable.step [OF 3 created [of _ 0 demo_job "[?r]"]]
    by (simp add: create_record_def job)
  have 5: "idem_reachable demo_job \<lparr>sys_table = [?r],
      sys_phase = ?p(0 := Missed, 1 := Missed, 0 := Running, 1 := ?lost), sys_runs = ?n(?k := 1)\<rparr>"
    using idem_reachable.step [OF 4 lost_race [of _ 1]] by (simp add: create_record_def job)
  have "?lost = Answered (Inl (raise0 IDEMPOTENCY_REQUEST_IN_PROGRESS))"
    by (simp add: get_by_key_def job)
  then show ?thesis
    using at_most_one_execution [OF 5, of ?k]
    by (intro exI [of _ "\<lparr>sys_table = [?r], sys_phase = ?p(0 := Missed, 1 := Missed, 0 := Running,
      1 := ?lost), sys_runs = ?n(?k := 1)\<rparr>"]) (simp add: job)
qed

text \<open>C19: a retry is a replay. When a key was new and its request got the reply \<open>rep\<close>, success
  or error, then after any other requests through the service the same request gets \<open>rep\<close>
  again, and neither the rows nor the records change. This holds for errors too: a request that
  failed because of the state of the rows keeps failing under its key after the rows changed.\<close>

theorem retry_returns_first_reply:
  assumes "get_by_key tbl k = None"
    and "idempotent_request dump (k, h, f) (tbl, s) = (rep, w1)"
    and "send_all (idempotent_request dump) qs w1 = (reps, w2)"
  shows "idempotent_request dump (k, h, f) w2 = (rep, w2)"
  by (rule idem.retry_is_replay [OF _ assms(2,3)]) (simp add: key_unsent_def assms(1))

definition demo_count :: "nat handler" where
  "demo_count s = (if s < 1 then Inr (Suc s, (200, ''ok'')) else Inl (raise0 BUSINESS_CONFLICT))"

theorem retry_returns_first_reply_witness:
  "let k = (''t1'', ''/p'', ''POST'', ''a''); k' = (''t1'', ''/p'', ''POST'', ''b'');
       dump = (\<lambda>_. ''error'');
       (rep, w1) = idempotent_request dump (k, ''h'', demo_count) ([], 0);
       (reps, w2) = send_all (idempotent_request dump) [(k', ''h'', demo_count)] w1
   in rep = (200, ''ok'') \<and> reps = [(409, ''error'')] \<and> snd w2 = 1
      \<and> idempotent_request dump (k, ''h'', demo_count) w2 = (rep, w2)"
proof -
  let ?k = "(''t1'', ''/p'', ''POST'', ''a'')" and ?k' = "(''t1'', ''/p'', ''POST'', ''b'')"
  let ?d = "\<lambda>_. ''error''"
  obtain rep w1 where 1: "idempotent_request ?d (?k, ''h'', demo_count) ([], 0) = (rep, w1)"
    by (cases "idempotent_request ?d (?k, ''h'', demo_count) ([], 0)") auto
  obtain reps w2 where 2: "send_all (idempotent_request ?d) [(?k', ''h'', demo_count)] w1 = (reps, w2)"
    by (cases "send_all (idempotent_request ?d) [(?k', ''h'', demo_count)] w1") auto
  have r1: "rep = (200, ''ok'')" "w1 = ([record_success (200, ''ok'') (new_record ?k ''h'')], 1)"
    using 1 by (auto simp: idempotent_request_def start_same_table get_by_key_def demo_count_def
        update_record_def)
  have "reps = [(409, ''error'')]" "snd w2 = 1"
    using 2 unfolding r1 by (auto simp: idempotent_request_def start_same_table get_by_key_def
        demo_count_def Let_def error_reply_of_def)
  with retry_returns_first_reply [OF _ 1 2] r1(1) 1 2 show ?thesis
    by (simp add: get_by_key_def)
qed

text \<open>A key used again with another payload has no effect. Whatever the handler would do,
  the request is refused as a conflict and neither rows nor records change.\<close>

theorem reused_key_refused:
  assumes "get_by_key tbl k = Some r" and "ir_request_hash r \<noteq> h"
  shows "idempotent_request dump (k, h, f) (tbl, s) =
    ((409, dump (raise0 IDEMPOTENCY_KEY_REUSED_WITH_DIFFERENT_PAYLOAD)), (tbl, s))"
  using assms by (simp add: idempotent_request_existing error_reply_of_def)

theorem reused_key_refused_witness:
  "let r = new_record (''t1'', ''/p'', ''POST'', ''a'') ''h1'' in
   idempotent_request (\<lambda>_. ''error'') ((''t1'', ''/p'', ''POST'', ''a''), ''h2'', demo_count) ([r], 0) =
    ((409, ''error''), ([r], 0))"
  unfolding Let_def
  by (rule reused_key_refused [where r = "new_record (''t1'', ''/p'', ''POST'', ''a'') ''h1''"])
    (simp_all add: get_by_key_def)

end
