(* ===== verification/Orm_Session.thy ===== *)
theory Orm_Session
  imports Prelude
begin

text \<open>
  What the services rely on of a SQLAlchemy session with \<^verbatim>\<open>autoflush=False\<close>
  (\<^verbatim>\<open>db/session.py\<close>), for one table. A query is decided on the rows of the database and
  returns the session's objects: a row the request has changed but not flushed is selected by
  its old values and read with its new ones. A row the request deleted is selected until the
  flush. \<^verbatim>\<open>commit\<close> writes the changes. The primary key is the parameter \<open>key\<close>.
\<close>

record 'r session =
  ses_base :: "'r list"
  ses_dirty :: "(uuid \<times> 'r) list"
  ses_gone :: "uuid list"

definition open_session :: "'r list \<Rightarrow> 'r session" where
  "open_session tbl = \<lparr>ses_base = tbl, ses_dirty = [], ses_gone = []\<rparr>"

definition identity :: "('r \<Rightarrow> uuid) \<Rightarrow> 'r session \<Rightarrow> 'r \<Rightarrow> 'r" where
  "identity key s r = (case map_of (ses_dirty s) (key r) of None \<Rightarrow> r | Some r' \<Rightarrow> r')"

definition select_rows :: "('r \<Rightarrow> uuid) \<Rightarrow> ('r \<Rightarrow> bool) \<Rightarrow> 'r session \<Rightarrow> 'r list" where
  "select_rows key P s = map (identity key s) (filter P (ses_base s))"

definition select_oldest ::
    "('r \<Rightarrow> uuid) \<Rightarrow> ('r \<Rightarrow> time) \<Rightarrow> ('r \<Rightarrow> bool) \<Rightarrow> int \<Rightarrow> 'r session \<Rightarrow> 'r list" where
  "select_oldest key created P n s =
    map (identity key s) (take (nat n) (sort_key created (filter P (ses_base s))))"

definition select_first :: "('r \<Rightarrow> uuid) \<Rightarrow> ('r \<Rightarrow> bool) \<Rightarrow> 'r session \<Rightarrow> 'r option" where
  "select_first key P s = map_option (identity key s) (find P (ses_base s))"

text \<open>\<^verbatim>\<open>row.column = value\<close> on the session's object for a row.\<close>

definition modify :: "('r \<Rightarrow> uuid) \<Rightarrow> ('r \<Rightarrow> 'r) \<Rightarrow> 'r \<Rightarrow> 'r session \<Rightarrow> 'r session" where
  "modify key f r s = s\<lparr>ses_dirty := AList.update (key r) (f (identity key s r)) (ses_dirty s)\<rparr>"

fun modify_all :: "('r \<Rightarrow> uuid) \<Rightarrow> ('r \<Rightarrow> 'r) \<Rightarrow> 'r list \<Rightarrow> 'r session \<Rightarrow> 'r session" where
  "modify_all key f [] s = s"
| "modify_all key f (r # rs) s = modify_all key f rs (modify key f r s)"

definition delete_row :: "('r \<Rightarrow> uuid) \<Rightarrow> 'r \<Rightarrow> 'r session \<Rightarrow> 'r session" where
  "delete_row key r s = s\<lparr>ses_gone := key r # ses_gone s\<rparr>"

fun delete_all :: "('r \<Rightarrow> uuid) \<Rightarrow> 'r list \<Rightarrow> 'r session \<Rightarrow> 'r session" where
  "delete_all key [] s = s"
| "delete_all key (r # rs) s = delete_all key rs (delete_row key r s)"

definition commit :: "('r \<Rightarrow> uuid) \<Rightarrow> 'r session \<Rightarrow> 'r list" where
  "commit key s = map (identity key s) (filter (\<lambda>r. key r \<notin> set (ses_gone s)) (ses_base s))"

section \<open>Lemmas\<close>

lemma open_session_simps [simp]:
  "ses_base (open_session tbl) = tbl" "ses_gone (open_session tbl) = []"
  "identity key (open_session tbl) r = r" "commit key (open_session tbl) = tbl"
  by (simp_all add: open_session_def identity_def commit_def map_idI)

lemma modify_simps [simp]:
  "ses_base (modify key f r s) = ses_base s" "ses_gone (modify key f r s) = ses_gone s"
  by (simp_all add: modify_def)

lemma modify_all_simps [simp]:
  "ses_base (modify_all key f rs s) = ses_base s" "ses_gone (modify_all key f rs s) = ses_gone s"
  by (induction rs arbitrary: s) simp_all

lemma delete_all_simps [simp]:
  "ses_base (delete_all key rs s) = ses_base s" "ses_dirty (delete_all key rs s) = ses_dirty s"
  "set (ses_gone (delete_all key rs s)) = key ` set rs \<union> set (ses_gone s)"
  by (induction rs arbitrary: s) (auto simp: delete_row_def)

lemma delete_row_simps [simp]:
  "ses_base (delete_row key r s) = ses_base s" "ses_dirty (delete_row key r s) = ses_dirty s"
  "ses_gone (delete_row key r s) = key r # ses_gone s"
  by (simp_all add: delete_row_def)

lemma identity_deleted [simp]:
  "identity key (delete_row key x s) r = identity key s r"
  "identity key (delete_all key xs s) r = identity key s r"
  by (simp_all add: identity_def)

lemma identity_modify:
  "identity key (modify key f r s) r' =
    (if key r' = key r then f (identity key s r) else identity key s r')"
  by (simp add: identity_def modify_def update_conv')

section \<open>Edits that keep a row's key and core\<close>

text \<open>The session is kept when every object has the key and the core of its row.\<close>

definition kept :: "('r \<Rightarrow> uuid) \<Rightarrow> ('r \<Rightarrow> 'c) \<Rightarrow> 'r session \<Rightarrow> bool" where
  "kept key core s \<longleftrightarrow> distinct (map key (ses_base s)) \<and>
    (\<forall>r \<in> set (ses_base s). key (identity key s r) = key r \<and> core (identity key s r) = core r)"

lemma key_unique:
  "distinct (map key xs) \<Longrightarrow> x \<in> set xs \<Longrightarrow> y \<in> set xs \<Longrightarrow> key x = key y \<Longrightarrow> x = y"
  by (auto simp: distinct_map inj_on_def)

lemma filter_key_unique:
  assumes "distinct (map key xs)" and "x \<in> set xs"
  shows "filter (\<lambda>y. key y = key x) xs = [x]"
  using assms by (induction xs) (auto simp: filter_empty_conv rev_image_eqI)

locale row_edits =
  fixes key :: "'r \<Rightarrow> uuid" and core :: "'r \<Rightarrow> 'c" and edit :: "'e \<Rightarrow> 'r \<Rightarrow> 'r"
  assumes key_edit: "key (edit e r) = key r" and core_edit: "core (edit e r) = core r"
begin

lemma kept_open: "distinct (map key tbl) \<Longrightarrow> kept key core (open_session tbl)"
  by (simp add: kept_def)

lemma identity_live:
  assumes "kept key core s" and "r \<in> set (ses_base s)"
  shows "identity key s (identity key s r) = identity key s r"
  using assms by (cases "map_of (ses_dirty s) (key r)") (auto simp: kept_def identity_def)

lemma kept_modify:
  assumes k: "kept key core s" and r: "r \<in> set (ses_base s)"
  shows "kept key core (modify key (edit e) (identity key s r) s)"
  using assms key_unique [of key "ses_base s"]
  by (auto simp: kept_def identity_modify identity_live [OF assms] key_edit core_edit)

lemma kept_modify_all:
  assumes "kept key core s" and "set rs \<subseteq> identity key s ` set (ses_base s)"
    and "distinct (map key rs)"
  shows "kept key core (modify_all key (edit e) rs s)"
  using assms
proof (induction rs arbitrary: s)
  case (Cons x rs)
  from Cons.prems obtain r where r: "r \<in> set (ses_base s)" "x = identity key s r" by auto
  let ?s = "modify key (edit e) x s"
  have k: "kept key core ?s" unfolding r(2) by (rule kept_modify [OF Cons.prems(1) r(1)])
  have "set rs \<subseteq> identity key ?s ` set (ses_base ?s)"
  proof
    fix y assume y: "y \<in> set rs"
    then obtain r' where r': "r' \<in> set (ses_base s)" "y = identity key s r'" using Cons.prems by auto
    have "key y \<noteq> key x" using Cons.prems(3) y by (metis distinct.simps(2) image_eqI list.set_map list.simps(9))
    then have "identity key ?s r' = y"
      using r' Cons.prems(1) by (simp add: identity_modify kept_def)
    then show "y \<in> identity key ?s ` set (ses_base ?s)"
      using r' by (metis image_eqI modify_simps(1))
  qed
  then show ?case using Cons.IH [OF k] Cons.prems(3) by simp
qed simp

lemma kept_delete_all: "kept key core s \<Longrightarrow> kept key core (delete_all key rs s)"
  by (simp add: kept_def)

lemma kept_delete_row: "kept key core s \<Longrightarrow> kept key core (delete_row key r s)"
  by (simp add: kept_def)

lemma commit_core:
  assumes "kept key core s"
  shows "map core (commit key s) = map core (filter (\<lambda>r. key r \<notin> set (ses_gone s)) (ses_base s))"
    and "map key (commit key s) = map key (filter (\<lambda>r. key r \<notin> set (ses_gone s)) (ses_base s))"
  using assms by (auto simp: commit_def kept_def)

lemma commit_distinct: "kept key core s \<Longrightarrow> distinct (map key (commit key s))"
  by (simp add: commit_core(2)) (simp add: kept_def distinct_map_filter)

lemma commit_keeps_core:
  assumes "kept key core s" and "ses_gone s = []"
  shows "map core (commit key s) = map core (ses_base s)"
  by (simp add: commit_core(1) [OF assms(1)] assms(2))

lemma select_first_kept:
  assumes "kept key core s" and "select_first key P s = Some x"
  obtains r where "r \<in> set (ses_base s)" "P r" "x = identity key s r" "key x = key r" "core x = core r"
  using assms by (auto simp: select_first_def kept_def dest!: find_SomeD)

lemma select_oldest_kept:
  assumes "kept key core s"
  shows "set (select_oldest key created P n s) \<subseteq> identity key s ` {r \<in> set (ses_base s). P r}"
    and "distinct (map key (select_oldest key created P n s))"
proof -
  have sub: "set (take (nat n) (sort_key created (filter P (ses_base s)))) \<subseteq>
      {r \<in> set (ses_base s). P r}"
    using set_take_subset [of "nat n" "sort_key created (filter P (ses_base s))"] by auto
  then show "set (select_oldest key created P n s) \<subseteq> identity key s ` {r \<in> set (ses_base s). P r}"
    by (auto simp: select_oldest_def)
  have "map key (select_oldest key created P n s) =
      map key (take (nat n) (sort_key created (filter P (ses_base s))))"
    using sub assms by (auto simp: select_oldest_def kept_def)
  moreover have "distinct (map key (sort_key created (filter P (ses_base s))))"
    using assms by (simp add: kept_def distinct_map inj_on_def)
  ultimately show "distinct (map key (select_oldest key created P n s))"
    by (simp add: take_map [symmetric])
qed

end

end
