(* ===== verification/Stock.thy ===== *)
theory Stock
  imports Scope Orm_Session
begin

text \<open>
  Stock: the \<^verbatim>\<open>StockItem\<close> rows, the operational rules of \<^verbatim>\<open>services/stock_rules.py\<close>
  with the meaning their SQL filters have (a comparison with \<^verbatim>\<open>NULL\<close> does not match), and the
  edits that move a row between locations. A move keeps what the row is: its identity, product
  data, status and prices.
\<close>

section \<open>Rows\<close>

record stock_item =
  si_id :: uuid
  si_item_uid :: uuid
  si_tenant_id :: uuid
  si_store_id :: "uuid option"
  si_catalog_product_id :: "uuid option"
  si_sku :: "string option"
  si_description :: "string option"
  si_var1_value :: "string option"
  si_var2_value :: "string option"
  si_epc :: "string option"
  si_location_code :: "string option"
  si_pool :: "string option"
  si_status :: "string option"
  si_item_status :: string
  si_epc_status :: string
  si_observation :: "string option"
  si_print_status :: string
  si_issue_state :: "string option"
  si_location_is_vendible :: bool
  si_image_asset_id :: "uuid option"
  si_image_url :: "string option"
  si_image_thumb_url :: "string option"
  si_image_source :: "string option"
  si_image_updated_at :: "time option"
  si_cost_price :: "money option"
  si_suggested_price :: "money option"
  si_sale_price :: "money option"
  si_created_at :: time
  si_updated_at :: "time option"

section \<open>services/stock_rules.py\<close>

datatype operational_mode = EPC_mode | SKU_mode | NONE_mode

record stock_operational_state =
  so_available_for_sale :: bool
  so_available_for_transfer :: bool
  so_sale_mode :: operational_mode
  so_transfer_mode :: operational_mode
  so_is_historical :: bool

definition or_empty :: "string option \<Rightarrow> string" where
  "or_empty s = (case s of None \<Rightarrow> [] | Some x \<Rightarrow> x)"

definition is_historical_status :: "string option \<Rightarrow> bool" where
  "is_historical_status s = (py_upper (or_empty s) = ''SOLD'')"

definition compute_operational_state :: "stock_item \<Rightarrow> stock_operational_state" where
  "compute_operational_state item =
    (let status = py_upper (or_empty (si_status item)); epc = py_strip (or_empty (si_epc item))
     in if status = ''SOLD'' then
          \<lparr>so_available_for_sale = False, so_available_for_transfer = False,
           so_sale_mode = NONE_mode, so_transfer_mode = NONE_mode, so_is_historical = True\<rparr>
        else if epc \<noteq> [] then
          \<lparr>so_available_for_sale = True, so_available_for_transfer = True,
           so_sale_mode = EPC_mode, so_transfer_mode = EPC_mode, so_is_historical = False\<rparr>
        else
          \<lparr>so_available_for_sale = True, so_available_for_transfer = True,
           so_sale_mode = SKU_mode, so_transfer_mode = SKU_mode, so_is_historical = False\<rparr>)"

text \<open>\<^verbatim>\<open>StockItem.status != "SOLD"\<close> is not true of a row without a status.\<close>

definition sql_not_sold :: "stock_item \<Rightarrow> bool" where
  "sql_not_sold r = (si_status r \<noteq> None \<and> si_status r \<noteq> Some ''SOLD'')"

definition sale_epc_filters :: "uuid \<Rightarrow> uuid \<Rightarrow> string \<Rightarrow> stock_item \<Rightarrow> bool" where
  "sale_epc_filters tenant_id store_id epc r =
    (si_tenant_id r = tenant_id \<and> si_store_id r = Some store_id \<and> si_epc r = Some epc
     \<and> sql_not_sold r)"

definition sale_sku_filters :: "uuid \<Rightarrow> uuid \<Rightarrow> string \<Rightarrow> stock_item \<Rightarrow> bool" where
  "sale_sku_filters tenant_id store_id sku r =
    (si_tenant_id r = tenant_id \<and> si_store_id r = Some store_id \<and> si_sku r = Some sku
     \<and> si_epc r = None \<and> sql_not_sold r)"

definition transfer_epc_filters :: "uuid \<Rightarrow> uuid \<Rightarrow> string \<Rightarrow> stock_item \<Rightarrow> bool" where
  "transfer_epc_filters tenant_id origin_store_id epc r =
    (si_tenant_id r = tenant_id \<and> si_store_id r = Some origin_store_id \<and> si_epc r = Some epc
     \<and> sql_not_sold r)"

definition TRANSFER_SKU_ALLOWED_STATUSES :: "string list" where
  "TRANSFER_SKU_ALLOWED_STATUSES = [''PENDING'', ''RFID'']"

definition sku_status_allowed :: "string option \<Rightarrow> bool" where
  "sku_status_allowed s = (case s of None \<Rightarrow> False | Some x \<Rightarrow> x \<in> set TRANSFER_SKU_ALLOWED_STATUSES)"

definition transfer_sku_filters ::
    "uuid \<Rightarrow> uuid \<Rightarrow> string option \<Rightarrow> string option \<Rightarrow> string option \<Rightarrow> stock_item \<Rightarrow> bool" where
  "transfer_sku_filters tenant_id origin_store_id sku location_code pool r =
    (si_tenant_id r = tenant_id \<and> si_store_id r = Some origin_store_id \<and> si_epc r = None
     \<and> sku_status_allowed (si_status r) \<and> si_sku r = sku
     \<and> (location_code \<noteq> None \<longrightarrow> si_location_code r = location_code)
     \<and> (pool \<noteq> None \<longrightarrow> si_pool r = pool))"

section \<open>Moves\<close>

text \<open>What a move may change: the store, the location, and the time of the change.\<close>

record stock_move =
  mo_store_id :: "uuid option option"
  mo_place :: "(string option \<times> string option \<times> bool) option"
  mo_now :: time

fun apply_move :: "stock_move \<Rightarrow> stock_item \<Rightarrow> stock_item" where
  "apply_move m r = r\<lparr>
     si_store_id := (case mo_store_id m of None \<Rightarrow> si_store_id r | Some s \<Rightarrow> s),
     si_location_code := (case mo_place m of None \<Rightarrow> si_location_code r | Some (l, p, v) \<Rightarrow> l),
     si_pool := (case mo_place m of None \<Rightarrow> si_pool r | Some (l, p, v) \<Rightarrow> p),
     si_location_is_vendible :=
       (case mo_place m of None \<Rightarrow> si_location_is_vendible r | Some (l, p, v) \<Rightarrow> v),
     si_updated_at := Some (mo_now m)\<rparr>"

text \<open>What a row is, whatever its place.\<close>

definition stock_identity :: "stock_item \<Rightarrow> stock_item" where
  "stock_identity r = r\<lparr>si_store_id := None, si_location_code := None, si_pool := None,
     si_location_is_vendible := False, si_updated_at := None\<rparr>"

interpretation moves: row_edits si_id stock_identity apply_move
  by unfold_locales (simp_all add: stock_identity_def)

lemma stock_identity_select [simp]:
  "si_id (stock_identity r) = si_id r"
  "si_tenant_id (stock_identity r) = si_tenant_id r"
  "si_sku (stock_identity r) = si_sku r"
  "si_epc (stock_identity r) = si_epc r"
  "si_status (stock_identity r) = si_status r"
  "si_description (stock_identity r) = si_description r"
  "si_var1_value (stock_identity r) = si_var1_value r"
  "si_var2_value (stock_identity r) = si_var2_value r"
  "si_created_at (stock_identity r) = si_created_at r"
  by (simp_all add: stock_identity_def)

lemma stock_identity_fields:
  assumes "stock_identity r = stock_identity r'"
  shows "si_id r = si_id r'"
    "si_tenant_id r = si_tenant_id r'"
    "si_sku r = si_sku r'"
    "si_epc r = si_epc r'"
    "si_status r = si_status r'"
    "si_description r = si_description r'"
    "si_var1_value r = si_var1_value r'"
    "si_var2_value r = si_var2_value r'"
    "si_created_at r = si_created_at r'"
  using arg_cong [OF assms, of si_id]
    arg_cong [OF assms, of si_tenant_id]
    arg_cong [OF assms, of si_sku]
    arg_cong [OF assms, of si_epc]
    arg_cong [OF assms, of si_status]
    arg_cong [OF assms, of si_description]
    arg_cong [OF assms, of si_var1_value]
    arg_cong [OF assms, of si_var2_value]
    arg_cong [OF assms, of si_created_at]
  by simp_all

section \<open>Properties\<close>

text \<open>the rules agree. For a row whose status is written in upper case, the state the
  catalogue shows as available for sale is the state the sale's SQL filters accept: a row is
  available exactly when a sale in its store would find it, by its EPC and in EPC mode for a row
  with an EPC, by its SKU and in SKU mode for a row without.\<close>

theorem operational_state_matches_filters:
  assumes "si_status r = Some st" and "py_upper st = st"
    and "si_store_id r = Some store" and "si_sku r = Some sku"
    and "\<And>e. si_epc r = Some e \<Longrightarrow> py_strip e \<noteq> []"
  shows "so_available_for_sale (compute_operational_state r) \<longleftrightarrow>
      (case si_epc r of Some e \<Rightarrow> sale_epc_filters (si_tenant_id r) store e r
         \<and> so_sale_mode (compute_operational_state r) = EPC_mode
       | None \<Rightarrow> sale_sku_filters (si_tenant_id r) store sku r
         \<and> so_sale_mode (compute_operational_state r) = SKU_mode)"
  using assms
  by (auto simp: compute_operational_state_def Let_def sale_epc_filters_def sale_sku_filters_def
      sql_not_sold_def or_empty_def split: option.splits)

definition demo_item :: "uuid \<Rightarrow> string option \<Rightarrow> string option \<Rightarrow> stock_item" where
  "demo_item i epc status =
    \<lparr>si_id = i, si_item_uid = i, si_tenant_id = ''t1'', si_store_id = Some ''s1'',
     si_catalog_product_id = None, si_sku = Some ''SKU-1'', si_description = Some ''Jacket'',
     si_var1_value = None, si_var2_value = None, si_epc = epc, si_location_code = Some ''WH'',
     si_pool = Some ''BODEGA'', si_status = status, si_item_status = ''PENDING'',
     si_epc_status = ''AVAILABLE'', si_observation = None, si_print_status = ''NOT_REQUESTED'',
     si_issue_state = None, si_location_is_vendible = True, si_image_asset_id = None,
     si_image_url = None, si_image_thumb_url = None, si_image_source = None,
     si_image_updated_at = None, si_cost_price = None, si_suggested_price = None,
     si_sale_price = Some 10, si_created_at = 0, si_updated_at = None\<rparr>"

lemmas text_simps = py_upper_def upper_char_def py_strip_def py_space_def char_of_def bit_0

theorem operational_state_matches_filters_witness:
  "so_available_for_sale (compute_operational_state (demo_item ''i1'' (Some ''E1'') (Some ''RFID'')))
   \<and> sale_epc_filters ''t1'' ''s1'' ''E1'' (demo_item ''i1'' (Some ''E1'') (Some ''RFID''))"
proof -
  have "so_available_for_sale (compute_operational_state (demo_item ''i1'' (Some ''E1'') (Some ''RFID'')))"
    by (simp add: compute_operational_state_def or_empty_def demo_item_def text_simps)
  with operational_state_matches_filters
      [of "demo_item ''i1'' (Some ''E1'') (Some ''RFID'')" "''RFID''" "''s1''" "''SKU-1''"]
  show ?thesis by (simp add: demo_item_def text_simps)
qed

text \<open>where the rules disagree. A row without a status is shown as available for sale,
  but no sale can find it; a row whose status is \<^verbatim>\<open>sold\<close> in lower case is shown as historical,
  but a sale finds it and a transfer too.\<close>

theorem status_spelling_gap:
  "so_available_for_sale (compute_operational_state (demo_item i (Some ''E1'') None))
   \<and> \<not> sale_epc_filters t s e (demo_item i (Some ''E1'') None)
   \<and> \<not> sale_sku_filters t s sku (demo_item i (Some ''E1'') None)
   \<and> so_is_historical (compute_operational_state (demo_item i (Some ''E1'') (Some ''sold'')))
   \<and> sale_epc_filters ''t1'' ''s1'' ''E1'' (demo_item i (Some ''E1'') (Some ''sold''))
   \<and> transfer_epc_filters ''t1'' ''s1'' ''E1'' (demo_item i (Some ''E1'') (Some ''sold''))"
  by (simp add: compute_operational_state_def or_empty_def demo_item_def text_simps
      sale_epc_filters_def sale_sku_filters_def transfer_epc_filters_def sql_not_sold_def)

end
