(* ===== verification/Transfer_Model.thy ===== *)
theory Transfer_Model
  imports Stock Access_Control
begin

text \<open>
  Transfers, the data and the checks of \<^verbatim>\<open>routers/transfers.py\<close> and \<^verbatim>\<open>repos/transfers.py\<close>:
  the rows, the movement ledger and its totals, the status a line is shown with, the validation
  of lines against the stock. The seventeen product columns of a line are one record. The
  primary key and the creation time of a movement, which no code reads, are not kept.
\<close>

section \<open>Rows\<close>

datatype transfer_status = DRAFT | DISPATCHED | PARTIAL_RECEIVED | RECEIVED | CANCELED

datatype line_type = EPC_line | SKU_line

datatype movement_action =
    DISPATCH | RECEIVE | SHORTAGE_REPORTED | SHORTAGE_RESOLVED_FOUND_AND_RESEND
  | SHORTAGE_RESOLVED_LOST_IN_ROUTE

record line_snapshot =
  sn_sku :: "string option"
  sn_description :: "string option"
  sn_var1_value :: "string option"
  sn_var2_value :: "string option"
  sn_cost_price :: "money option"
  sn_suggested_price :: "money option"
  sn_sale_price :: "money option"
  sn_epc :: "string option"
  sn_location_code :: "string option"
  sn_pool :: "string option"
  sn_status :: "string option"
  sn_location_is_vendible :: bool
  sn_image_asset_id :: "uuid option"
  sn_image_url :: "string option"
  sn_image_thumb_url :: "string option"
  sn_image_source :: "string option"
  sn_image_updated_at :: "time option"

record transfer =
  tr_id :: uuid
  tr_tenant_id :: uuid
  tr_origin_store_id :: uuid
  tr_destination_store_id :: uuid
  tr_status :: transfer_status
  tr_created_by_user_id :: "uuid option"
  tr_updated_by_user_id :: "uuid option"
  tr_dispatched_by_user_id :: "uuid option"
  tr_canceled_by_user_id :: "uuid option"
  tr_dispatched_at :: "time option"
  tr_canceled_at :: "time option"
  tr_received_at :: "time option"
  tr_created_at :: time
  tr_updated_at :: "time option"

record transfer_line =
  tl_id :: uuid
  tl_transfer_id :: uuid
  tl_tenant_id :: uuid
  tl_line_type :: line_type
  tl_qty :: int
  tl_snapshot :: line_snapshot
  tl_created_at :: time

datatype movement_snapshot =
    Line_snapshot line_snapshot
  | Receive_snapshot line_snapshot string string bool
  | Shortage_snapshot line_snapshot string "string option"
  | Resolution_snapshot line_snapshot string

record transfer_movement =
  tm_tenant_id :: uuid
  tm_transfer_id :: uuid
  tm_transfer_line_id :: uuid
  tm_action :: movement_action
  tm_from_location_code :: "string option"
  tm_from_pool :: "string option"
  tm_to_location_code :: "string option"
  tm_to_pool :: "string option"
  tm_status :: "string option"
  tm_qty :: int
  tm_snapshot :: movement_snapshot

record transfer_db =
  t_stores :: "store list"
  t_stock :: "stock_item list"
  t_transfers :: "transfer list"
  t_lines :: "transfer_line list"
  t_movements :: "transfer_movement list"

record transfer_line_create =
  lc_line_type :: line_type
  lc_qty :: int
  lc_snapshot :: line_snapshot

text \<open>The life cycle orders the statuses.\<close>

fun status_rank :: "transfer_status \<Rightarrow> nat" where
  "status_rank DRAFT = 0"
| "status_rank DISPATCHED = 1"
| "status_rank PARTIAL_RECEIVED = 2"
| "status_rank RECEIVED = 3"
| "status_rank CANCELED = 4"

lemma status_rank_inj: "status_rank a = status_rank b \<Longrightarrow> a = b"
  by (cases a; cases b) auto

instantiation transfer_status :: linorder
begin

definition less_eq_transfer_status :: "transfer_status \<Rightarrow> transfer_status \<Rightarrow> bool" where
  "less_eq_transfer_status a b = (status_rank a \<le> status_rank b)"

definition less_transfer_status :: "transfer_status \<Rightarrow> transfer_status \<Rightarrow> bool" where
  "less_transfer_status a b = (status_rank a < status_rank b)"

instance
  by standard (auto simp: less_eq_transfer_status_def less_transfer_status_def intro: status_rank_inj)

end

section \<open>Queries\<close>

definition get_transfer :: "transfer_db \<Rightarrow> uuid \<Rightarrow> uuid \<Rightarrow> transfer option" where
  "get_transfer db transfer_id tenant_id =
    find (\<lambda>t. tr_id t = transfer_id \<and> tr_tenant_id t = tenant_id) (t_transfers db)"

definition get_lines :: "transfer_db \<Rightarrow> uuid \<Rightarrow> transfer_line list" where
  "get_lines db transfer_id = filter (\<lambda>l. tl_transfer_id l = transfer_id) (t_lines db)"

definition get_movements :: "transfer_db \<Rightarrow> uuid \<Rightarrow> transfer_movement list" where
  "get_movements db transfer_id = filter (\<lambda>m. tm_transfer_id m = transfer_id) (t_movements db)"

definition count_dispatched :: "transfer_db \<Rightarrow> uuid \<Rightarrow> int \<times> int" where
  "count_dispatched db transfer_id =
    (let ms = filter (\<lambda>m. tm_action m = DISPATCH) (get_movements db transfer_id)
     in (int (length ms), sum_list (map tm_qty ms)))"

text \<open>The totals: per line, per action, the sum of the quantities. The query groups the
  movements; the loop fills a dictionary of dictionaries.\<close>

type_synonym totals = "(movement_action \<times> int) list"
type_synonym movement_totals = "(uuid \<times> totals) list"

definition group_rows :: "transfer_movement list \<Rightarrow> (uuid \<times> movement_action \<times> int) list" where
  "group_rows ms = map (\<lambda>(l, a). (l, a,
      sum_list (map tm_qty (filter (\<lambda>m. tm_transfer_line_id m = l \<and> tm_action m = a) ms))))
    (remdups (map (\<lambda>m. (tm_transfer_line_id m, tm_action m)) ms))"

fun fill_totals :: "movement_totals \<Rightarrow> (uuid \<times> movement_action \<times> int) list \<Rightarrow> movement_totals" where
  "fill_totals d [] = d"
| "fill_totals d ((l, a, q) # rows) =
    fill_totals (AList.update l (AList.update a q (dict_get d l [])) d) rows"

definition get_movement_totals :: "transfer_db \<Rightarrow> uuid \<Rightarrow> movement_totals" where
  "get_movement_totals db transfer_id = fill_totals [] (group_rows (get_movements db transfer_id))"

text \<open>\<^verbatim>\<open>movement_totals.get(line_id, {}).get(action, 0)\<close>\<close>

definition total_of :: "movement_totals \<Rightarrow> uuid \<Rightarrow> movement_action \<Rightarrow> int" where
  "total_of d l a = dict_get (dict_get d l []) a 0"

definition outstanding_of :: "totals \<Rightarrow> int" where
  "outstanding_of ts = dict_get ts DISPATCH 0 - dict_get ts RECEIVE 0
     - dict_get ts SHORTAGE_RESOLVED_LOST_IN_ROUTE 0"

definition outstanding_total :: "movement_totals \<Rightarrow> int" where
  "outstanding_total d = sum_list (map (\<lambda>(l, ts). max (outstanding_of ts) 0) d)"

text \<open>The loops that add a request's quantities to the totals they have read.\<close>

fun add_totals :: "movement_action \<Rightarrow> movement_totals \<Rightarrow> (uuid \<times> int) list \<Rightarrow> movement_totals" where
  "add_totals a d [] = d"
| "add_totals a d ((l, q) # rest) =
    (let ts = dict_get d l []
     in add_totals a (AList.update l (AList.update a (dict_get ts a 0 + q) ts) d) rest)"

section \<open>The status of a line\<close>

datatype shortage_status = NONE_shortage | REPORTED | RESOLVED

datatype resolution_status =
    NONE_resolution | PARTIAL | MIXED | FOUND_AND_RESEND | LOST_IN_ROUTE

record line_status =
  ls_received_qty :: int
  ls_outstanding_qty :: int
  ls_shortage_status :: shortage_status
  ls_resolution_status :: resolution_status

definition line_status_from_totals :: "transfer_line \<Rightarrow> totals \<Rightarrow> line_status" where
  "line_status_from_totals line ts =
    (let dispatched = dict_get ts DISPATCH 0; received = dict_get ts RECEIVE 0;
         lost = dict_get ts SHORTAGE_RESOLVED_LOST_IN_ROUTE 0;
         reported = dict_get ts SHORTAGE_REPORTED 0;
         found = dict_get ts SHORTAGE_RESOLVED_FOUND_AND_RESEND 0;
         baseline = (if dispatched > 0 then dispatched else tl_qty line);
         outstanding = max (baseline - received - lost) 0;
         remaining = max (reported - found - lost) 0
     in \<lparr>ls_received_qty = received, ls_outstanding_qty = outstanding,
         ls_shortage_status = (if reported = 0 then NONE_shortage
           else if remaining > 0 then REPORTED else RESOLVED),
         ls_resolution_status =
           (if found \<noteq> 0 \<or> lost \<noteq> 0 then
              (if remaining = 0 \<and> reported > 0 then
                 (if found \<noteq> 0 \<and> lost \<noteq> 0 then MIXED
                  else if found \<noteq> 0 then FOUND_AND_RESEND else LOST_IN_ROUTE)
               else PARTIAL)
            else NONE_resolution)\<rparr>)"

record transfer_line_response =
  lr_id :: uuid
  lr_line_type :: line_type
  lr_qty :: int
  lr_status :: line_status
  lr_snapshot :: line_snapshot
  lr_created_at :: time

record movement_summary_response =
  ms_dispatched_lines :: int
  ms_dispatched_qty :: int
  ms_pending_reception :: bool
  ms_shortages_possible :: bool

record transfer_response =
  re_header :: transfer
  re_lines :: "transfer_line_response list"
  re_summary :: movement_summary_response

definition transfer_line_response_of :: "movement_totals \<Rightarrow> transfer_line \<Rightarrow> transfer_line_response" where
  "transfer_line_response_of d line =
    \<lparr>lr_id = tl_id line, lr_line_type = tl_line_type line, lr_qty = tl_qty line,
     lr_status = line_status_from_totals line (dict_get d (tl_id line) []),
     lr_snapshot = tl_snapshot line, lr_created_at = tl_created_at line\<rparr>"

definition movement_summary :: "transfer_db \<Rightarrow> transfer \<Rightarrow> movement_totals \<Rightarrow> movement_summary_response" where
  "movement_summary db t d =
    (let (n, q) = count_dispatched db (tr_id t);
         pending = (outstanding_total d > 0 \<and> tr_status t \<in> {DISPATCHED, PARTIAL_RECEIVED})
     in \<lparr>ms_dispatched_lines = n, ms_dispatched_qty = q, ms_pending_reception = pending,
         ms_shortages_possible = pending\<rparr>)"

definition transfer_response_of :: "transfer_db \<Rightarrow> transfer \<Rightarrow> transfer_line list \<Rightarrow> transfer_response" where
  "transfer_response_of db t lines =
    (let d = get_movement_totals db (tr_id t)
     in \<lparr>re_header = t, re_lines = map (transfer_line_response_of d) lines,
         re_summary = movement_summary db t d\<rparr>)"

end
