(* ===== verification/Request.thy ===== *)
theory Request
  imports Access_Control Idempotency
begin

text \<open>
  What a handler knows of its request, and the shape every mutating endpoint has: the
  FastAPI dependencies and the checks before \<^verbatim>\<open>IdempotencyService.start\<close>, whose errors leave
  no record, then the body behind the idempotency record. The clock is read once per request;
  \<open>rq_fresh\<close> is the sequence of the request's \<^verbatim>\<open>uuid4\<close> values; \<open>rq_cache\<close> is the permission
  cache as the dependencies left it.
\<close>

record request_env =
  rq_token :: token_data
  rq_context :: request_context
  rq_directory :: directory
  rq_ac :: ac_db
  rq_cache :: cache
  rq_path :: string
  rq_method :: string
  rq_key :: "string option"
  rq_legacy_key :: "string option"
  rq_hash :: string
  rq_now :: time
  rq_fresh :: "nat \<Rightarrow> uuid"

text \<open>\<^verbatim>\<open>Depends(require_active_user)\<close> and \<^verbatim>\<open>Depends(require_any_permission(...))\<close>.\<close>

definition route_user :: "request_env \<Rightarrow> string list \<Rightarrow> user res" where
  "route_user env keys =
    bindr (require_active_user (rq_directory env) (rq_token env)) (\<lambda>u.
    bindr (require_any_permission (rq_ac env) [] keys (rq_context env) (rq_token env)) (\<lambda>_. Inr u))"

text \<open>\<^verbatim>\<open>Depends(require_active_user)\<close> and \<^verbatim>\<open>Depends(require_permission(...))\<close>.\<close>

definition permitted_user :: "request_env \<Rightarrow> string \<Rightarrow> user res" where
  "permitted_user env key =
    bindr (require_active_user (rq_directory env) (rq_token env)) (\<lambda>u.
    bindr (require_permission (rq_ac env) [] key (rq_context env) (rq_token env)) (\<lambda>_. Inr u))"

text \<open>The check every mutating router has of its own.\<close>

definition require_transaction_id :: "string option \<Rightarrow> unit res" where
  "require_transaction_id t =
    (if falsy t then Inl (raise1 VALIDATION_ERROR ''transaction_id is required'') else Inr ())"

definition idempotency_key_of :: "request_env \<Rightarrow> string res" where
  "idempotency_key_of env =
    bindr (extract_idempotency_key (rq_key env) (rq_legacy_key env) True) (\<lambda>k. Inr (the k))"

text \<open>The body's response becomes a reply: its status and its JSON text, as recorded.\<close>

definition replying :: "int \<Rightarrow> ('a \<Rightarrow> string) \<Rightarrow> ('s \<times> 'a) res \<Rightarrow> ('s \<times> reply) res" where
  "replying st dump x = bindr x (\<lambda>(db, a). Inr (db, (st, dump a)))"

text \<open>\<open>before\<close> gives the tenant the record is kept under and what the body needs.\<close>

definition guarded_endpoint ::
    "request_env \<Rightarrow> (app_error \<Rightarrow> string) \<Rightarrow> ('s \<Rightarrow> (uuid \<times> 'a) res) \<Rightarrow> (uuid \<Rightarrow> 'a \<Rightarrow> 's handler)
      \<Rightarrow> idem_table \<times> 's \<Rightarrow> reply \<times> idem_table \<times> 's" where
  "guarded_endpoint env dump_err before body w =
    (case bindr (before (snd w)) (\<lambda>(tenant, x). bindr (idempotency_key_of env) (\<lambda>k. Inr (tenant, x, k))) of
       Inl e \<Rightarrow> (error_reply_of dump_err e, w)
     | Inr (tenant, x, k) \<Rightarrow>
         idempotent_request dump_err ((tenant, rq_path env, rq_method env, k), rq_hash env, body tenant x) w)"

text \<open>The rows after an endpoint are the rows before it, or the rows its body returned.\<close>

lemma idempotent_request_rows:
  assumes "idempotent_request dump (k, h, f) w = (rep, w')"
  shows "snd w' = snd w \<or> (\<exists>rep'. f (snd w) = Inr (snd w', rep'))"
proof (cases "get_by_key (fst w) k")
  case None
  then show ?thesis
    using assms idempotent_request_fresh [of "fst w" k dump h f "snd w"]
    by (cases "f (snd w)") auto
next
  case (Some r)
  then show ?thesis
    using assms idempotent_request_existing [of "fst w" k r dump h f "snd w"] by auto
qed

lemma guarded_endpoint_rows:
  assumes "guarded_endpoint env dump before body w = (rep, w')"
  shows "snd w' = snd w \<or> (\<exists>tenant x rep'. before (snd w) = Inr (tenant, x)
    \<and> body tenant x (snd w) = Inr (snd w', rep'))"
proof (cases "bindr (before (snd w)) (\<lambda>(tenant, x).
    bindr (idempotency_key_of env) (\<lambda>k. Inr (tenant, x, k)))")
  case (Inl e)
  then show ?thesis using assms by (simp add: guarded_endpoint_def)
next
  case (Inr b)
  obtain tenant x k where b: "b = (tenant, x, k)" by (cases b)
  then have "before (snd w) = Inr (tenant, x)" using Inr by (auto simp: bindr_Inr_iff)
  moreover have "idempotent_request dump
      ((tenant, rq_path env, rq_method env, k), rq_hash env, body tenant x) w = (rep, w')"
    using assms Inr b by (simp add: guarded_endpoint_def)
  ultimately show ?thesis using idempotent_request_rows by blast
qed

end
