(* ===== verification/Transfer_Checks.thy ===== *)
theory Transfer_Checks
  imports Transfer_Model Request
begin

text \<open>
  Transfers, the checks that come before an operation: the store scope of the user, the
  permission of the action, the tenant's stores, and the validation of lines against the stock
  (\<^verbatim>\<open>_validate_*\<close>, \<^verbatim>\<open>_normalize_*\<close>, \<^verbatim>\<open>_revalidate_*\<close> of \<^verbatim>\<open>routers/transfers.py\<close>). A
  validation may give a row without a store to the origin store; that change is pending in the
  session until the operation commits.
\<close>

section \<open>Scope\<close>

definition IN_TRANSIT_CODE :: string where "IN_TRANSIT_CODE = ''IN_TRANSIT''"
definition DEFAULT_RECEIVE_POOL :: string where "DEFAULT_RECEIVE_POOL = ''SALE''"

definition BROAD_ACCESS_ROLES :: "string list" where
  "BROAD_ACCESS_ROLES = [''SUPERADMIN'', ''PLATFORM_ADMIN'', ''ADMIN'']"

definition ACTIVE_TRANSFER_STATUSES :: "transfer_status list" where
  "ACTIVE_TRANSFER_STATUSES = [DRAFT, DISPATCHED, PARTIAL_RECEIVED]"

definition has_broad_transfer_scope :: "token_data \<Rightarrow> bool" where
  "has_broad_transfer_scope td = (py_upper (td_role td) \<in> set BROAD_ACCESS_ROLES)"

definition enforce_origin_store_scope :: "token_data \<Rightarrow> uuid \<Rightarrow> unit res" where
  "enforce_origin_store_scope td origin =
    (if has_broad_transfer_scope td then Inr ()
     else if falsy (td_store_id td) \<or> td_store_id td \<noteq> Some origin
     then Inl (raise1 STORE_SCOPE_MISMATCH ''origin store is outside user scope'') else Inr ())"

definition enforce_destination_store_scope :: "token_data \<Rightarrow> uuid \<Rightarrow> unit res" where
  "enforce_destination_store_scope td destination =
    (if has_broad_transfer_scope td then Inr ()
     else if falsy (td_store_id td) \<or> td_store_id td \<noteq> Some destination
     then Inl (raise1 STORE_SCOPE_MISMATCH ''destination store is outside user scope'') else Inr ())"

definition is_visible_transfer :: "token_data \<Rightarrow> transfer \<Rightarrow> bool" where
  "is_visible_transfer td t =
    (if has_broad_transfer_scope td then True
     else if falsy (td_store_id td) then False
     else the (td_store_id td) \<in> {tr_origin_store_id t, tr_destination_store_id t})"

definition visible_store_ids :: "token_data \<Rightarrow> uuid list option" where
  "visible_store_ids td =
    (if has_broad_transfer_scope td then None
     else if falsy (td_store_id td) then Some [] else Some [the (td_store_id td)])"

text \<open>Not the POS routers' function of that name: a superadmin is held to the token's tenant.\<close>

definition resolve_tenant_id :: "token_data \<Rightarrow> string option \<Rightarrow> uuid res" where
  "resolve_tenant_id td tenant_id =
    (if falsy (td_tenant_id td) then Inl (raise0 TENANT_SCOPE_REQUIRED)
     else if \<not> falsy tenant_id \<and> tenant_id \<noteq> td_tenant_id td
     then Inl (raise0 CROSS_TENANT_ACCESS_DENIED) else Inr (the (td_tenant_id td)))"

definition require_action_permission ::
    "ac_db \<Rightarrow> cache \<Rightarrow> string \<Rightarrow> request_context \<Rightarrow> token_data \<Rightarrow> unit res" where
  "require_action_permission ac c key ctx td =
    (case ask_first (\<lambda>c k. evaluate_permission ac [] c k ctx (Some td)) pd_allowed c
        [key, ''TRANSFER_MANAGE''] of
       None \<Rightarrow> Inl (raise0 PERMISSION_DENIED) | Some _ \<Rightarrow> Inr ())"

definition ensure_store_tenant :: "transfer_db \<Rightarrow> uuid \<Rightarrow> uuid \<Rightarrow> string \<Rightarrow> unit res" where
  "ensure_store_tenant db tenant_id store_id field_name =
    (if \<exists>s \<in> set (t_stores db). st_id s = store_id \<and> st_tenant_id s = tenant_id then Inr ()
     else Inl (raise1 VALIDATION_ERROR (field_name @ '' must belong to tenant_id'')))"

section \<open>Snapshots\<close>

definition stock_snapshot_from_item :: "stock_item \<Rightarrow> line_snapshot" where
  "stock_snapshot_from_item r =
    \<lparr>sn_sku = si_sku r, sn_description = si_description r, sn_var1_value = si_var1_value r,
     sn_var2_value = si_var2_value r, sn_cost_price = si_cost_price r,
     sn_suggested_price = si_suggested_price r, sn_sale_price = si_sale_price r,
     sn_epc = si_epc r, sn_location_code = si_location_code r, sn_pool = si_pool r,
     sn_status = si_status r, sn_location_is_vendible = si_location_is_vendible r,
     sn_image_asset_id = si_image_asset_id r, sn_image_url = si_image_url r,
     sn_image_thumb_url = si_image_thumb_url r, sn_image_source = si_image_source r,
     sn_image_updated_at = si_image_updated_at r\<rparr>"

section \<open>Conflicts\<close>

text \<open>The rows are ordered by the transfer's creation time; a draft of another origin store than
  the item's current one is stale and does not block.\<close>

definition get_transfer_conflict_for_epc ::
    "transfer_db \<Rightarrow> uuid \<Rightarrow> string \<Rightarrow> uuid option \<Rightarrow> uuid option \<Rightarrow> transfer option" where
  "get_transfer_conflict_for_epc db tenant_id epc current_store_id exclude =
    (let rows = sort_key tr_created_at
       [t. l \<leftarrow> t_lines db, tl_tenant_id l = tenant_id \<and> sn_epc (tl_snapshot l) = Some epc,
           t \<leftarrow> t_transfers db, tr_id t = tl_transfer_id l \<and> tr_tenant_id t = tenant_id
             \<and> tr_status t \<in> set ACTIVE_TRANSFER_STATUSES
             \<and> (falsy exclude \<or> Some (tr_id t) \<noteq> exclude)]
     in find (\<lambda>t. \<not> (tr_status t = DRAFT \<and> \<not> falsy current_store_id
          \<and> Some (tr_origin_store_id t) \<noteq> current_store_id)) rows)"

text \<open>This query selects a column, so it reads the database and not the session's objects.\<close>

definition assert_draft_line_not_stale ::
    "stock_item session \<Rightarrow> uuid \<Rightarrow> uuid \<Rightarrow> string \<Rightarrow> unit res" where
  "assert_draft_line_not_stale s tenant_id origin epc =
    (case find (\<lambda>r. si_tenant_id r = tenant_id \<and> si_epc r = Some epc) (ses_base s) of
       None \<Rightarrow> Inr ()
     | Some r \<Rightarrow>
         if si_store_id r \<noteq> None \<and> si_store_id r \<noteq> Some origin
         then Inl (raise1 BUSINESS_CONFLICT
           ''draft transfer line is stale: epc no longer belongs to draft origin_store_id'')
         else Inr ())"

section \<open>Validation against the stock\<close>

definition claim_move :: "uuid \<Rightarrow> time \<Rightarrow> stock_move" where
  "claim_move origin now = \<lparr>mo_store_id = Some (Some origin), mo_place = None, mo_now = now\<rparr>"

definition stock_modify :: "stock_move \<Rightarrow> stock_item \<Rightarrow> stock_item session \<Rightarrow> stock_item session" where
  "stock_modify m = modify si_id (apply_move m)"

definition validate_transferable_epc_stock ::
    "time \<Rightarrow> uuid \<Rightarrow> uuid \<Rightarrow> string \<Rightarrow> string option \<Rightarrow> string option \<Rightarrow> stock_item session
      \<Rightarrow> (stock_item \<times> stock_item session) res" where
  "validate_transferable_epc_stock now tenant_id origin epc expected_location expected_pool s =
    (case select_first si_id (\<lambda>r. si_tenant_id r = tenant_id \<and> si_epc r = Some epc) s of
       None \<Rightarrow> Inl (raise1 VALIDATION_ERROR ''epc is not available in origin_store_id'')
     | Some row0 \<Rightarrow>
         let s' = (if si_store_id row0 = None then stock_modify (claim_move origin now) row0 s else s);
             row = identity si_id s' row0
         in if si_store_id row \<noteq> Some origin
            then Inl (raise1 BUSINESS_CONFLICT ''epc is not available in origin_store_id'')
            else if si_status row = Some ''SOLD''
            then Inl (raise1 VALIDATION_ERROR ''stock is not transferable'')
            else if \<not> falsy expected_location \<and> si_location_code row \<noteq> expected_location
            then Inl (raise1 BUSINESS_CONFLICT ''stock location changed since draft snapshot'')
            else if \<not> falsy expected_pool \<and> si_pool row \<noteq> expected_pool
            then Inl (raise1 BUSINESS_CONFLICT ''stock pool changed since draft snapshot'')
            else Inr (row, s'))"

definition validate_transferable_sku_stock ::
    "uuid \<Rightarrow> uuid \<Rightarrow> transfer_line_create \<Rightarrow> string option \<Rightarrow> string option \<Rightarrow> stock_item session
      \<Rightarrow> stock_item list res" where
  "validate_transferable_sku_stock tenant_id origin line expected_location expected_pool s =
    (let sn = lc_snapshot line in
     if falsy (sn_sku sn) then Inl (raise1 VALIDATION_ERROR ''sku is required for SKU lines'')
     else
       let rows = select_oldest si_id si_created_at
             (transfer_sku_filters tenant_id origin (sn_sku sn)
               (py_or expected_location (sn_location_code sn)) (py_or expected_pool (sn_pool sn)))
             (lc_qty line) s
       in if int (length rows) < lc_qty line
          then Inl (raise1 BUSINESS_CONFLICT ''insufficient sku stock in origin_store_id'')
          else Inr rows)"

definition validate_transfer_snapshot :: "transfer_line_create \<Rightarrow> unit res" where
  "validate_transfer_snapshot line =
    (let sn = lc_snapshot line in
     bindr (require (lc_qty line \<ge> 1) (raise1 VALIDATION_ERROR ''qty must be at least 1'')) (\<lambda>_.
     bindr (if lc_line_type line = EPC_line then
         bindr (require (lc_qty line = 1) (raise1 VALIDATION_ERROR ''qty must be 1 for EPC lines''))
           (\<lambda>_. require (\<not> falsy (sn_epc sn)) (raise1 VALIDATION_ERROR ''epc is required for EPC lines''))
       else Inr ()) (\<lambda>_.
     bindr (if lc_line_type line = SKU_line then
         bindr (require (falsy (sn_epc sn)) (raise1 VALIDATION_ERROR ''epc must be empty for SKU lines''))
           (\<lambda>_. bindr (require (\<not> falsy (sn_sku sn)) (raise1 VALIDATION_ERROR ''sku is required for SKU lines''))
           (\<lambda>_. require (falsy (sn_status sn) \<or> sku_status_allowed (sn_status sn))
             (raise1 VALIDATION_ERROR ''SKU lines require PENDING or RFID status'')))
       else Inr ()) (\<lambda>_.
     require (\<not> falsy (sn_location_code sn) \<and> \<not> falsy (sn_pool sn))
       (raise1 VALIDATION_ERROR ''location_code and pool are required in line snapshot'')))))"

record normalized_line =
  nl_line_type :: line_type
  nl_qty :: int
  nl_snapshot :: line_snapshot

definition normalize_transfer_line ::
    "transfer_db \<Rightarrow> time \<Rightarrow> uuid \<Rightarrow> uuid \<Rightarrow> uuid option \<Rightarrow> transfer_line_create \<Rightarrow> stock_item session
      \<Rightarrow> (normalized_line \<times> stock_item session) res" where
  "normalize_transfer_line db now tenant_id origin exclude line s =
    bindr (validate_transfer_snapshot line) (\<lambda>_.
    if lc_line_type line = SKU_line then
      bindr (validate_transferable_sku_stock tenant_id origin line None None s) (\<lambda>rows.
        Inr (\<lparr>nl_line_type = lc_line_type line, nl_qty = lc_qty line,
             nl_snapshot = (stock_snapshot_from_item (hd rows))\<lparr>sn_epc := None\<rparr>\<rparr>, s))
    else
      bindr (validate_transferable_epc_stock now tenant_id origin (the (sn_epc (lc_snapshot line)))
          None None s) (\<lambda>(row, s').
      case get_transfer_conflict_for_epc db tenant_id (the (sn_epc (lc_snapshot line)))
          (si_store_id row) exclude of
        Some _ \<Rightarrow> Inl (raise1 BUSINESS_CONFLICT ''epc is reserved by a valid active transfer'')
      | None \<Rightarrow> Inr (\<lparr>nl_line_type = lc_line_type line, nl_qty = lc_qty line,
             nl_snapshot = stock_snapshot_from_item row\<rparr>, s')))"

fun normalize_transfer_lines ::
    "transfer_db \<Rightarrow> time \<Rightarrow> uuid \<Rightarrow> uuid \<Rightarrow> uuid option \<Rightarrow> string set \<Rightarrow> transfer_line_create list
      \<Rightarrow> stock_item session \<Rightarrow> (normalized_line list \<times> stock_item session) res" where
  "normalize_transfer_lines db now tenant_id origin exclude seen [] s = Inr ([], s)"
| "normalize_transfer_lines db now tenant_id origin exclude seen (line # rest) s =
    (let e = py_strip (or_empty (sn_epc (lc_snapshot line)));
         epc = (lc_line_type line = EPC_line)
     in if epc \<and> e \<in> seen
        then Inl (raise1 VALIDATION_ERROR ''duplicate epc in transfer lines'')
        else bindr (normalize_transfer_line db now tenant_id origin exclude line s) (\<lambda>(n, s').
          bindr (normalize_transfer_lines db now tenant_id origin exclude
              (if epc then insert e seen else seen) rest s') (\<lambda>(ns, s'').
            Inr (n # ns, s''))))"

text \<open>The request line that a stored SKU line stands for.\<close>

definition sku_request_of :: "transfer_line \<Rightarrow> transfer_line_create" where
  "sku_request_of line = \<lparr>lc_line_type = SKU_line, lc_qty = tl_qty line,
     lc_snapshot = (tl_snapshot line)\<lparr>sn_epc := None\<rparr>\<rparr>"

definition sku_rows_of_line ::
    "uuid \<Rightarrow> uuid \<Rightarrow> transfer_line \<Rightarrow> stock_item session \<Rightarrow> stock_item list res" where
  "sku_rows_of_line tenant_id origin line s =
    validate_transferable_sku_stock tenant_id origin (sku_request_of line)
      (sn_location_code (tl_snapshot line)) (sn_pool (tl_snapshot line)) s"

definition revalidate_line ::
    "transfer_db \<Rightarrow> time \<Rightarrow> uuid \<Rightarrow> uuid \<Rightarrow> uuid \<Rightarrow> stock_item session \<Rightarrow> transfer_line
      \<Rightarrow> stock_item session res" where
  "revalidate_line db now tenant_id origin transfer_id s line =
    (if tl_line_type line = SKU_line then
       bindr (sku_rows_of_line tenant_id origin line s) (\<lambda>_. Inr s)
     else if falsy (sn_epc (tl_snapshot line)) then
       Inl (raise1 VALIDATION_ERROR ''epc is required for EPC lines'')
     else
       let epc = the (sn_epc (tl_snapshot line)) in
       bindr (assert_draft_line_not_stale s tenant_id origin epc) (\<lambda>_.
       bindr (validate_transferable_epc_stock now tenant_id origin epc
           (sn_location_code (tl_snapshot line)) (sn_pool (tl_snapshot line)) s) (\<lambda>(row, s').
       case get_transfer_conflict_for_epc db tenant_id epc (Some origin) (Some transfer_id) of
         Some _ \<Rightarrow> Inl (raise1 BUSINESS_CONFLICT ''epc is reserved by a valid active transfer'')
       | None \<Rightarrow> Inr s')))"

definition revalidate_existing_draft_lines ::
    "transfer_db \<Rightarrow> time \<Rightarrow> uuid \<Rightarrow> uuid \<Rightarrow> uuid \<Rightarrow> transfer_line list \<Rightarrow> stock_item session
      \<Rightarrow> stock_item session res" where
  "revalidate_existing_draft_lines db now tenant_id origin transfer_id lines s =
    for_each (revalidate_line db now tenant_id origin transfer_id) s lines"

end
