(* ===== verification/Transfer_Actions.thy ===== *)
theory Transfer_Actions
  imports Transfer_Checks
begin

text \<open>
  Transfers, the operations of \<^verbatim>\<open>routers/transfers.py\<close>: create, update, the five actions, list
  and detail. An operation that returns gives the rows after its commit and the response; one
  that raises leaves the rows as they were, since its session is closed uncommitted. Audit
  events are not modelled.
\<close>

section \<open>Requests\<close>

record transfer_create_request =
  cr_transaction_id :: "string option"
  cr_tenant_id :: "string option"
  cr_origin_store_id :: uuid
  cr_destination_store_id :: uuid
  cr_lines :: "transfer_line_create list"

record transfer_update_request =
  up_transaction_id :: "string option"
  up_tenant_id :: "string option"
  up_origin_store_id :: "uuid option"
  up_destination_store_id :: "uuid option"
  up_lines :: "transfer_line_create list option"

record receive_line =
  rl_line_id :: uuid
  rl_qty :: int
  rl_location_code :: "string option"
  rl_pool :: "string option"
  rl_location_is_vendible :: "bool option"

record shortage_line =
  sl_line_id :: uuid
  sl_qty :: int
  sl_reason_code :: string
  sl_notes :: "string option"

record resolution_line =
  ol_line_id :: uuid
  ol_qty :: int

datatype resolution_type = Found_and_resend | Lost_in_route

record shortage_resolution =
  rs_resolution :: resolution_type
  rs_lines :: "resolution_line list"

datatype transfer_action =
    Dispatch
  | Receive "receive_line list option"
  | Report_shortages "shortage_line list option"
  | Resolve_shortages "shortage_resolution option"
  | Cancel

record transfer_action_request =
  ar_transaction_id :: "string option"
  ar_tenant_id :: "string option"
  ar_action :: transfer_action

section \<open>Rows of an operation\<close>

definition set_transfer :: "transfer \<Rightarrow> transfer_db \<Rightarrow> transfer_db" where
  "set_transfer t db =
    db\<lparr>t_transfers := map (\<lambda>x. if tr_id x = tr_id t then t else x) (t_transfers db)\<rparr>"

definition set_stock :: "stock_item session \<Rightarrow> transfer_db \<Rightarrow> transfer_db" where
  "set_stock s db = db\<lparr>t_stock := commit si_id s\<rparr>"

definition add_movements :: "transfer_movement list \<Rightarrow> transfer_db \<Rightarrow> transfer_db" where
  "add_movements ms db = db\<lparr>t_movements := t_movements db @ ms\<rparr>"

definition touch :: "request_env \<Rightarrow> user \<Rightarrow> transfer \<Rightarrow> transfer" where
  "touch env u t = t\<lparr>tr_updated_at := Some (rq_now env), tr_updated_by_user_id := Some (us_id u)\<rparr>"

text \<open>Build the new lines of a transfer; the first fresh identifier is the transfer's.\<close>

fun build_lines ::
    "(nat \<Rightarrow> uuid) \<Rightarrow> nat \<Rightarrow> uuid \<Rightarrow> uuid \<Rightarrow> time \<Rightarrow> normalized_line list \<Rightarrow> transfer_line list" where
  "build_lines fresh i tid tenant_id now [] = []"
| "build_lines fresh i tid tenant_id now (n # ns) =
    \<lparr>tl_id = fresh i, tl_transfer_id = tid, tl_tenant_id = tenant_id,
     tl_line_type = nl_line_type n, tl_qty = nl_qty n, tl_snapshot = nl_snapshot n,
     tl_created_at = now\<rparr> # build_lines fresh (Suc i) tid tenant_id now ns"

type_synonym transfer_result = "(transfer_db \<times> transfer_response) res"

definition respond :: "transfer_db \<Rightarrow> transfer \<Rightarrow> transfer_result" where
  "respond db t = Inr (db, transfer_response_of db t (get_lines db (tr_id t)))"

section \<open>Create and update\<close>

definition create_transfer_before ::
    "request_env \<Rightarrow> transfer_create_request \<Rightarrow> transfer_db \<Rightarrow> (uuid \<times> user) res" where
  "create_transfer_before env p db =
    bindr (route_user env [''transfers.create'', ''TRANSFER_MANAGE'']) (\<lambda>u.
    bindr (require_transaction_id (cr_transaction_id p)) (\<lambda>_.
    bindr (resolve_tenant_id (rq_token env) (cr_tenant_id p)) (\<lambda>tenant_id.
    bindr (require (cr_origin_store_id p \<noteq> cr_destination_store_id p)
      (raise1 VALIDATION_ERROR ''origin_store_id and destination_store_id must differ'')) (\<lambda>_.
    bindr (ensure_store_tenant db tenant_id (cr_origin_store_id p) ''origin_store_id'') (\<lambda>_.
    bindr (ensure_store_tenant db tenant_id (cr_destination_store_id p) ''destination_store_id'') (\<lambda>_.
    bindr (enforce_origin_store_scope (rq_token env) (cr_origin_store_id p)) (\<lambda>_.
      Inr (tenant_id, u))))))))"

definition create_transfer_body ::
    "request_env \<Rightarrow> transfer_create_request \<Rightarrow> uuid \<Rightarrow> user \<Rightarrow> transfer_db \<Rightarrow> transfer_result" where
  "create_transfer_body env p tenant_id u db =
    bindr (require (cr_lines p \<noteq> []) (raise1 VALIDATION_ERROR ''lines must not be empty'')) (\<lambda>_.
    bindr (normalize_transfer_lines db (rq_now env) tenant_id (cr_origin_store_id p) None {}
        (cr_lines p) (open_session (t_stock db))) (\<lambda>(ns, s).
      let t = \<lparr>tr_id = rq_fresh env 0, tr_tenant_id = tenant_id,
            tr_origin_store_id = cr_origin_store_id p,
            tr_destination_store_id = cr_destination_store_id p, tr_status = DRAFT,
            tr_created_by_user_id = Some (us_id u), tr_updated_by_user_id = Some (us_id u),
            tr_dispatched_by_user_id = None, tr_canceled_by_user_id = None,
            tr_dispatched_at = None, tr_canceled_at = None, tr_received_at = None,
            tr_created_at = rq_now env, tr_updated_at = None\<rparr>;
          lines = build_lines (rq_fresh env) 1 (tr_id t) tenant_id (rq_now env) ns;
          db' = (set_stock s db)\<lparr>t_transfers := t_transfers db @ [t], t_lines := t_lines db @ lines\<rparr>
      in Inr (db', transfer_response_of db' t lines)))"

text \<open>The transfer an operation works on, locked.\<close>

definition find_transfer :: "transfer_db \<Rightarrow> uuid \<Rightarrow> uuid \<Rightarrow> transfer res" where
  "find_transfer db transfer_id tenant_id =
    (case get_transfer db transfer_id tenant_id of
       None \<Rightarrow> Inl (raise1 VALIDATION_ERROR ''transfer not found'') | Some t \<Rightarrow> Inr t)"

definition update_transfer_before ::
    "request_env \<Rightarrow> transfer_update_request \<Rightarrow> transfer_db \<Rightarrow> (uuid \<times> user) res" where
  "update_transfer_before env p db =
    bindr (route_user env [''transfers.update'', ''TRANSFER_MANAGE'']) (\<lambda>u.
    bindr (require_transaction_id (up_transaction_id p)) (\<lambda>_.
    bindr (resolve_tenant_id (rq_token env) (up_tenant_id p)) (\<lambda>tenant_id. Inr (tenant_id, u))))"

definition update_transfer_body ::
    "request_env \<Rightarrow> uuid \<Rightarrow> transfer_update_request \<Rightarrow> uuid \<Rightarrow> user \<Rightarrow> transfer_db \<Rightarrow> transfer_result" where
  "update_transfer_body env transfer_id p tenant_id u db =
    bindr (find_transfer db transfer_id tenant_id) (\<lambda>t.
    bindr (require (tr_status t = DRAFT)
      (raise1 VALIDATION_ERROR ''only draft transfers can be updated'')) (\<lambda>_.
    let origin = the (py_or (up_origin_store_id p) (Some (tr_origin_store_id t)));
        destination = the (py_or (up_destination_store_id p) (Some (tr_destination_store_id t)))
    in
    bindr (require (origin \<noteq> destination)
      (raise1 VALIDATION_ERROR ''origin_store_id and destination_store_id must differ'')) (\<lambda>_.
    bindr (ensure_store_tenant db tenant_id origin ''origin_store_id'') (\<lambda>_.
    bindr (ensure_store_tenant db tenant_id destination ''destination_store_id'') (\<lambda>_.
    bindr (enforce_origin_store_scope (rq_token env) origin) (\<lambda>_.
    let t' = touch env u (t\<lparr>tr_origin_store_id := origin, tr_destination_store_id := destination\<rparr>)
    in
    case up_lines p of
      Some ls \<Rightarrow>
        bindr (require (ls \<noteq> []) (raise1 VALIDATION_ERROR ''lines must not be empty'')) (\<lambda>_.
        bindr (normalize_transfer_lines db (rq_now env) tenant_id origin (Some transfer_id) {} ls
            (open_session (t_stock db))) (\<lambda>(ns, s).
          respond ((set_transfer t' (set_stock s db))\<lparr>t_lines :=
            filter (\<lambda>l. tl_transfer_id l \<noteq> tr_id t) (t_lines db)
            @ build_lines (rq_fresh env) 0 (tr_id t) tenant_id (rq_now env) ns\<rparr>) t'))
    | None \<Rightarrow>
        bindr (revalidate_existing_draft_lines db (rq_now env) tenant_id origin (tr_id t)
            (get_lines db (tr_id t)) (open_session (t_stock db))) (\<lambda>s.
          respond (set_transfer t' (set_stock s db)) t')))))))"

section \<open>Dispatch\<close>

definition transit_move :: "uuid option option \<Rightarrow> time \<Rightarrow> stock_move" where
  "transit_move store now = \<lparr>mo_store_id = store,
     mo_place = Some (Some IN_TRANSIT_CODE, Some IN_TRANSIT_CODE, False), mo_now = now\<rparr>"

definition dispatch_movement :: "transfer \<Rightarrow> uuid \<Rightarrow> transfer_line \<Rightarrow> int \<Rightarrow> transfer_movement" where
  "dispatch_movement t tenant_id line q =
    \<lparr>tm_tenant_id = tenant_id, tm_transfer_id = tr_id t, tm_transfer_line_id = tl_id line,
     tm_action = DISPATCH, tm_from_location_code = sn_location_code (tl_snapshot line),
     tm_from_pool = sn_pool (tl_snapshot line), tm_to_location_code = Some IN_TRANSIT_CODE,
     tm_to_pool = Some IN_TRANSIT_CODE, tm_status = sn_status (tl_snapshot line), tm_qty = q,
     tm_snapshot = Line_snapshot (tl_snapshot line)\<rparr>"

definition dispatch_line ::
    "time \<Rightarrow> uuid \<Rightarrow> transfer \<Rightarrow> stock_item session \<times> transfer_movement list \<Rightarrow> transfer_line
      \<Rightarrow> (stock_item session \<times> transfer_movement list) res" where
  "dispatch_line now tenant_id t st line =
    (case st of (s, ms) \<Rightarrow>
     if tl_line_type line \<noteq> EPC_line then
       bindr (sku_rows_of_line tenant_id (tr_origin_store_id t) line s) (\<lambda>rows.
         Inr (modify_all si_id (apply_move (transit_move None now)) rows s,
           ms @ [dispatch_movement t tenant_id line (tl_qty line)]))
     else if falsy (sn_epc (tl_snapshot line)) then
       Inl (raise1 VALIDATION_ERROR ''epc is required for EPC dispatch'')
     else
       bindr (validate_transferable_epc_stock now tenant_id (tr_origin_store_id t)
           (the (sn_epc (tl_snapshot line))) (sn_location_code (tl_snapshot line))
           (sn_pool (tl_snapshot line)) s) (\<lambda>(row, s').
         Inr (stock_modify (transit_move (Some (Some (tr_origin_store_id t))) now) row s',
           ms @ [dispatch_movement t tenant_id line 1])))"

definition dispatch_action ::
    "request_env \<Rightarrow> uuid \<Rightarrow> user \<Rightarrow> transfer \<Rightarrow> transfer_db \<Rightarrow> transfer_result" where
  "dispatch_action env tenant_id u t db =
    bindr (require_action_permission (rq_ac env) (rq_cache env) ''transfers.dispatch''
      (rq_context env) (rq_token env)) (\<lambda>_.
    bindr (enforce_origin_store_scope (rq_token env) (tr_origin_store_id t)) (\<lambda>_.
    bindr (require (tr_status t = DRAFT)
      (raise1 VALIDATION_ERROR ''only draft transfers can be dispatched'')) (\<lambda>_.
    let lines = get_lines db (tr_id t) in
    bindr (require (lines \<noteq> []) (raise1 VALIDATION_ERROR ''transfer has no lines'')) (\<lambda>_.
    bindr (revalidate_existing_draft_lines db (rq_now env) tenant_id (tr_origin_store_id t) (tr_id t)
      lines (open_session (t_stock db))) (\<lambda>s.
    bindr (for_each (dispatch_line (rq_now env) tenant_id t) (s, []) lines) (\<lambda>(s', ms).
      let t' = touch env u (t\<lparr>tr_status := DISPATCHED,
            tr_dispatched_by_user_id := Some (us_id u), tr_dispatched_at := Some (rq_now env)\<rparr>)
      in respond (add_movements ms (set_transfer t' (set_stock s' db))) t'))))))"

section \<open>Receive\<close>

definition movement_of ::
    "transfer \<Rightarrow> uuid \<Rightarrow> transfer_line \<Rightarrow> movement_action \<Rightarrow> string option \<times> string option
      \<Rightarrow> string option \<times> string option \<Rightarrow> int \<Rightarrow> movement_snapshot \<Rightarrow> transfer_movement" where
  "movement_of t tenant_id line a src dst q sn =
    \<lparr>tm_tenant_id = tenant_id, tm_transfer_id = tr_id t, tm_transfer_line_id = tl_id line,
     tm_action = a, tm_from_location_code = fst src, tm_from_pool = snd src,
     tm_to_location_code = fst dst, tm_to_pool = snd dst,
     tm_status = sn_status (tl_snapshot line), tm_qty = q, tm_snapshot = sn\<rparr>"

abbreviation in_transit_place :: "string option \<times> string option" where
  "in_transit_place \<equiv> (Some IN_TRANSIT_CODE, Some IN_TRANSIT_CODE)"

definition resolve_receive_destination :: "receive_line \<Rightarrow> transfer \<Rightarrow> string \<times> string \<times> bool" where
  "resolve_receive_destination rl t =
    (the (py_or (rl_location_code rl) (Some (''STORE-'' @ tr_destination_store_id t))),
     the (py_or (rl_pool rl) (Some DEFAULT_RECEIVE_POOL)),
     (case rl_location_is_vendible rl of None \<Rightarrow> True | Some b \<Rightarrow> b))"

definition at_transit :: "stock_item \<Rightarrow> bool" where
  "at_transit r = (si_location_code r = Some IN_TRANSIT_CODE \<and> si_pool r = Some IN_TRANSIT_CODE)"

text \<open>Rows in transit without an EPC that match a SKU line; the store condition differs.\<close>

definition in_transit_sku :: "uuid \<Rightarrow> (uuid option \<Rightarrow> bool) \<Rightarrow> transfer_line \<Rightarrow> stock_item \<Rightarrow> bool" where
  "in_transit_sku tenant_id store_ok line r =
    (let sn = tl_snapshot line in
     si_tenant_id r = tenant_id \<and> store_ok (si_store_id r) \<and> si_epc r = None
     \<and> si_sku r = sn_sku sn \<and> si_description r = sn_description sn
     \<and> si_var1_value r = sn_var1_value sn \<and> si_var2_value r = sn_var2_value sn
     \<and> at_transit r \<and> sku_status_allowed (si_status r))"

definition find_line :: "transfer_line list \<Rightarrow> uuid \<Rightarrow> transfer_line res" where
  "find_line lines i = (case find (\<lambda>l. tl_id l = i) (rev lines) of
     None \<Rightarrow> Inl (raise1 VALIDATION_ERROR ''transfer line not found'') | Some l \<Rightarrow> Inr l)"

definition receive_move :: "uuid \<Rightarrow> string \<times> string \<times> bool \<Rightarrow> time \<Rightarrow> stock_move" where
  "receive_move store dst now = (case dst of (loc, pool, vend) \<Rightarrow>
     \<lparr>mo_store_id = Some (Some store), mo_place = Some (Some loc, Some pool, vend), mo_now = now\<rparr>)"

definition receive_movement ::
    "transfer \<Rightarrow> uuid \<Rightarrow> transfer_line \<Rightarrow> string \<times> string \<times> bool \<Rightarrow> int \<Rightarrow> transfer_movement" where
  "receive_movement t tenant_id line dst q = (case dst of (loc, pool, vend) \<Rightarrow>
     movement_of t tenant_id line RECEIVE in_transit_place (Some loc, Some pool) q
       (Receive_snapshot (tl_snapshot line) loc pool vend))"

definition receive_one ::
    "time \<Rightarrow> uuid \<Rightarrow> transfer \<Rightarrow> transfer_line list \<Rightarrow> movement_totals
      \<Rightarrow> stock_item session \<times> transfer_movement list \<Rightarrow> receive_line
      \<Rightarrow> (stock_item session \<times> transfer_movement list) res" where
  "receive_one now tenant_id t lines d st rl =
    (case st of (s, ms) \<Rightarrow>
     bindr (find_line lines (rl_line_id rl)) (\<lambda>line.
     bindr (require (rl_qty rl \<ge> 1) (raise1 VALIDATION_ERROR ''receive qty must be at least 1'')) (\<lambda>_.
     bindr (require (rl_qty rl \<le> outstanding_of (dict_get d (rl_line_id rl) []))
       (raise1 VALIDATION_ERROR ''receive qty exceeds outstanding'')) (\<lambda>_.
     let dst = resolve_receive_destination rl t;
         mv = receive_move (tr_destination_store_id t) dst now;
         m = receive_movement t tenant_id line dst (rl_qty rl)
     in
     if tl_line_type line \<noteq> EPC_line then
       (let rows = select_oldest si_id si_created_at
              (in_transit_sku tenant_id (\<lambda>x. x = Some (tr_origin_store_id t)) line) (rl_qty rl) s
        in bindr (require (\<not> int (length rows) < rl_qty rl)
             (raise1 VALIDATION_ERROR ''insufficient in-transit sku stock'')) (\<lambda>_.
           Inr (modify_all si_id (apply_move mv) rows s, ms @ [m])))
     else
       bindr (require (rl_qty rl = 1)
         (raise1 VALIDATION_ERROR ''receive qty must be 1 for EPC lines'')) (\<lambda>_.
       bindr (require (\<not> falsy (sn_epc (tl_snapshot line)))
         (raise1 VALIDATION_ERROR ''epc is required for EPC receive'')) (\<lambda>_.
       case select_first si_id (\<lambda>r. si_tenant_id r = tenant_id \<and> si_epc r = sn_epc (tl_snapshot line)
            \<and> (si_store_id r = Some (tr_origin_store_id t) \<or> si_store_id r = None)
            \<and> at_transit r) s of
         None \<Rightarrow> Inl (raise1 VALIDATION_ERROR ''epc item not in transit'')
       | Some row \<Rightarrow> Inr (stock_modify mv row s, ms @ [m])))))))"

definition receivable :: "transfer_status \<Rightarrow> bool" where
  "receivable st = (st \<in> {DISPATCHED, PARTIAL_RECEIVED})"

definition receive_action ::
    "request_env \<Rightarrow> uuid \<Rightarrow> user \<Rightarrow> transfer \<Rightarrow> receive_line list option \<Rightarrow> transfer_db \<Rightarrow> transfer_result" where
  "receive_action env tenant_id u t rls db =
    bindr (require_action_permission (rq_ac env) (rq_cache env) ''transfers.receive''
      (rq_context env) (rq_token env)) (\<lambda>_.
    bindr (enforce_destination_store_scope (rq_token env) (tr_destination_store_id t)) (\<lambda>_.
    bindr (require (receivable (tr_status t))
      (raise1 VALIDATION_ERROR ''transfer cannot be received from this state'')) (\<lambda>_.
    bindr (require (rls \<noteq> None \<and> rls \<noteq> Some [])
      (raise1 VALIDATION_ERROR ''receive_lines must not be empty'')) (\<lambda>_.
    let lines = get_lines db (tr_id t); d = get_movement_totals db (tr_id t) in
    bindr (for_each (receive_one (rq_now env) tenant_id t lines d) (open_session (t_stock db), [])
      (the rls)) (\<lambda>(s, ms).
      let d' = add_totals RECEIVE d (map (\<lambda>rl. (rl_line_id rl, rl_qty rl)) (the rls));
          t' = touch env u (if outstanding_total d' = 0
            then t\<lparr>tr_status := RECEIVED, tr_received_at := Some (rq_now env)\<rparr>
            else t\<lparr>tr_status := PARTIAL_RECEIVED\<rparr>)
      in respond (add_movements ms (set_transfer t' (set_stock s db))) t')))))"

section \<open>Shortages\<close>

definition report_one ::
    "uuid \<Rightarrow> transfer \<Rightarrow> transfer_line list \<Rightarrow> movement_totals
      \<Rightarrow> transfer_movement list \<Rightarrow> shortage_line \<Rightarrow> transfer_movement list res" where
  "report_one tenant_id t lines d ms sl =
    bindr (find_line lines (sl_line_id sl)) (\<lambda>line.
    bindr (require (sl_qty sl \<ge> 1) (raise1 VALIDATION_ERROR ''shortage qty must be at least 1'')) (\<lambda>_.
    bindr (require (\<not> (tl_line_type line = EPC_line \<and> sl_qty sl \<noteq> 1))
      (raise1 VALIDATION_ERROR ''shortage qty must be 1 for EPC lines'')) (\<lambda>_.
    bindr (require (\<not> sl_qty sl + total_of d (sl_line_id sl) SHORTAGE_REPORTED
        > max (outstanding_of (dict_get d (sl_line_id sl) [])) 0)
      (raise1 VALIDATION_ERROR ''shortage qty exceeds outstanding'')) (\<lambda>_.
    Inr (ms @ [movement_of t tenant_id line SHORTAGE_REPORTED in_transit_place in_transit_place
      (sl_qty sl) (Shortage_snapshot (tl_snapshot line) (sl_reason_code sl) (sl_notes sl))])))))"

definition report_shortages_action ::
    "request_env \<Rightarrow> uuid \<Rightarrow> user \<Rightarrow> transfer \<Rightarrow> shortage_line list option \<Rightarrow> transfer_db \<Rightarrow> transfer_result" where
  "report_shortages_action env tenant_id u t sls db =
    bindr (require_action_permission (rq_ac env) (rq_cache env) ''transfers.resolve''
      (rq_context env) (rq_token env)) (\<lambda>_.
    bindr (enforce_destination_store_scope (rq_token env) (tr_destination_store_id t)) (\<lambda>_.
    bindr (require (receivable (tr_status t))
      (raise1 VALIDATION_ERROR ''shortages cannot be reported from this state'')) (\<lambda>_.
    bindr (require (sls \<noteq> None \<and> sls \<noteq> Some [])
      (raise1 VALIDATION_ERROR ''shortages must not be empty'')) (\<lambda>_.
    let lines = get_lines db (tr_id t); d = get_movement_totals db (tr_id t) in
    bindr (require (\<not> outstanding_total d \<le> 0)
      (raise1 VALIDATION_ERROR ''no outstanding quantities to report shortages'')) (\<lambda>_.
    bindr (for_each (report_one tenant_id t lines d) [] (the sls)) (\<lambda>ms.
      respond (add_movements ms (set_transfer (touch env u t) db)) (touch env u t)))))))"

definition resolution_name :: "resolution_type \<Rightarrow> string" where
  "resolution_name r = (case r of Found_and_resend \<Rightarrow> ''FOUND_AND_RESEND''
     | Lost_in_route \<Rightarrow> ''LOST_IN_ROUTE'')"

definition resolution_action :: "resolution_type \<Rightarrow> movement_action" where
  "resolution_action r = (case r of Found_and_resend \<Rightarrow> SHORTAGE_RESOLVED_FOUND_AND_RESEND
     | Lost_in_route \<Rightarrow> SHORTAGE_RESOLVED_LOST_IN_ROUTE)"

text \<open>The rows a loss removes.\<close>

definition lose_rows ::
    "uuid \<Rightarrow> transfer \<Rightarrow> transfer_line \<Rightarrow> int \<Rightarrow> stock_item session \<Rightarrow> stock_item session res" where
  "lose_rows tenant_id t line q s =
    (if tl_line_type line = EPC_line then
       (case select_first si_id (\<lambda>r. si_tenant_id r = tenant_id
            \<and> si_epc r = sn_epc (tl_snapshot line) \<and> at_transit r) s of
         None \<Rightarrow> Inl (raise1 VALIDATION_ERROR ''epc item not in transit'')
       | Some row \<Rightarrow> Inr (delete_row si_id row s))
     else
       let rows = select_oldest si_id si_created_at (in_transit_sku tenant_id
             (\<lambda>x. x = Some (tr_origin_store_id t) \<or> x = None) line) q s
       in bindr (require (\<not> int (length rows) < q)
            (raise1 VALIDATION_ERROR ''insufficient in-transit stock for loss'')) (\<lambda>_.
          Inr (delete_all si_id rows s)))"

definition resolve_one ::
    "uuid \<Rightarrow> transfer \<Rightarrow> transfer_line list \<Rightarrow> movement_totals \<Rightarrow> resolution_type
      \<Rightarrow> stock_item session \<times> transfer_movement list \<Rightarrow> resolution_line
      \<Rightarrow> (stock_item session \<times> transfer_movement list) res" where
  "resolve_one tenant_id t lines d r st ol =
    (case st of (s, ms) \<Rightarrow>
     bindr (find_line lines (ol_line_id ol)) (\<lambda>line.
     bindr (require (ol_qty ol \<ge> 1) (raise1 VALIDATION_ERROR ''resolution qty must be at least 1'')) (\<lambda>_.
     bindr (require (\<not> (tl_line_type line = EPC_line \<and> ol_qty ol \<noteq> 1))
       (raise1 VALIDATION_ERROR ''resolution qty must be 1 for EPC lines'')) (\<lambda>_.
     bindr (require (\<not> ol_qty ol > max (total_of d (ol_line_id ol) SHORTAGE_REPORTED
           - total_of d (ol_line_id ol) SHORTAGE_RESOLVED_FOUND_AND_RESEND
           - total_of d (ol_line_id ol) SHORTAGE_RESOLVED_LOST_IN_ROUTE) 0)
       (raise1 VALIDATION_ERROR ''resolution qty exceeds shortage remaining'')) (\<lambda>_.
     let sn = Resolution_snapshot (tl_snapshot line) (resolution_name r) in
     case r of
       Found_and_resend \<Rightarrow>
         Inr (s, ms @ [movement_of t tenant_id line SHORTAGE_RESOLVED_FOUND_AND_RESEND
           (sn_location_code (tl_snapshot line), sn_pool (tl_snapshot line)) in_transit_place
           (ol_qty ol) sn])
     | Lost_in_route \<Rightarrow>
         bindr (lose_rows tenant_id t line (ol_qty ol) s) (\<lambda>s'.
           Inr (s', ms @ [movement_of t tenant_id line SHORTAGE_RESOLVED_LOST_IN_ROUTE
             in_transit_place (Some ''LOST_IN_ROUTE'', Some ''LOST_IN_ROUTE'') (ol_qty ol) sn])))))))"

definition resolve_shortages_action ::
    "request_env \<Rightarrow> uuid \<Rightarrow> user \<Rightarrow> transfer \<Rightarrow> shortage_resolution option \<Rightarrow> transfer_db \<Rightarrow> transfer_result" where
  "resolve_shortages_action env tenant_id u t rs db =
    bindr (require_action_permission (rq_ac env) (rq_cache env) ''transfers.resolve''
      (rq_context env) (rq_token env)) (\<lambda>_.
    bindr (enforce_destination_store_scope (rq_token env) (tr_destination_store_id t)) (\<lambda>_.
    bindr (require (receivable (tr_status t))
      (raise1 VALIDATION_ERROR ''shortages cannot be resolved from this state'')) (\<lambda>_.
    bindr (require (rs \<noteq> None \<and> rs_lines (the rs) \<noteq> [])
      (raise1 VALIDATION_ERROR ''resolution lines must not be empty'')) (\<lambda>_.
    let r = rs_resolution (the rs); ols = rs_lines (the rs);
        lines = get_lines db (tr_id t); d = get_movement_totals db (tr_id t) in
    bindr (require (r = Lost_in_route \<longrightarrow> is_superadmin (Some (td_role (rq_token env)))
        \<or> td_role (rq_token env) \<in> {''MANAGER'', ''ADMIN''}) (raise0 PERMISSION_DENIED)) (\<lambda>_.
    bindr (for_each (resolve_one tenant_id t lines d r) (open_session (t_stock db), []) ols) (\<lambda>(s, ms).
      let d' = add_totals (resolution_action r) d (map (\<lambda>ol. (ol_line_id ol, ol_qty ol)) ols);
          t' = touch env u (if outstanding_total d' = 0 \<and> receivable (tr_status t)
            then t\<lparr>tr_status := RECEIVED, tr_received_at := Some (rq_now env)\<rparr> else t)
      in respond (add_movements ms (set_transfer t' (set_stock s db))) t'))))))"

section \<open>Cancel\<close>

definition cancel_move :: "transfer_line \<Rightarrow> time \<Rightarrow> stock_move" where
  "cancel_move line now = \<lparr>mo_store_id = None, mo_place = Some (sn_location_code (tl_snapshot line),
     sn_pool (tl_snapshot line), sn_location_is_vendible (tl_snapshot line)), mo_now = now\<rparr>"

definition cancel_line ::
    "time \<Rightarrow> uuid \<Rightarrow> transfer \<Rightarrow> stock_item session \<Rightarrow> transfer_line \<Rightarrow> stock_item session res" where
  "cancel_line now tenant_id t s line =
    (if tl_line_type line \<noteq> EPC_line then
       let rows = select_oldest si_id si_created_at
             (in_transit_sku tenant_id (\<lambda>x. x = Some (tr_origin_store_id t)) line) (tl_qty line) s
       in bindr (require (\<not> int (length rows) < tl_qty line)
            (raise1 BUSINESS_CONFLICT ''sku stock not in transit for cancel'')) (\<lambda>_.
          Inr (modify_all si_id (apply_move (cancel_move line now)) rows s))
     else if falsy (sn_epc (tl_snapshot line)) then
       Inl (raise1 VALIDATION_ERROR ''epc is required for EPC cancel'')
     else
       (case select_first si_id (\<lambda>r. si_tenant_id r = tenant_id \<and> si_epc r = sn_epc (tl_snapshot line)
            \<and> si_store_id r = Some (tr_origin_store_id t) \<and> at_transit r) s of
         None \<Rightarrow> Inl (raise1 BUSINESS_CONFLICT ''epc item not in transit for cancel'')
       | Some row \<Rightarrow> Inr (stock_modify (cancel_move line now) row s)))"

definition cancel_action ::
    "request_env \<Rightarrow> uuid \<Rightarrow> user \<Rightarrow> transfer \<Rightarrow> transfer_db \<Rightarrow> transfer_result" where
  "cancel_action env tenant_id u t db =
    bindr (require_action_permission (rq_ac env) (rq_cache env) ''transfers.cancel''
      (rq_context env) (rq_token env)) (\<lambda>_.
    bindr (require (\<not> (tr_status t = DISPATCHED \<and> tr_received_at t \<noteq> None))
      (raise1 VALIDATION_ERROR ''dispatched transfers with receptions cannot be cancelled'')) (\<lambda>_.
    bindr (require (tr_status t \<in> {DRAFT, DISPATCHED})
      (raise1 VALIDATION_ERROR ''transfer cannot be cancelled from this state'')) (\<lambda>_.
    bindr (if tr_status t = DISPATCHED
           then for_each (cancel_line (rq_now env) tenant_id t) (open_session (t_stock db))
             (get_lines db (tr_id t))
           else Inr (open_session (t_stock db))) (\<lambda>s.
      let t' = touch env u (t\<lparr>tr_status := CANCELED, tr_canceled_by_user_id := Some (us_id u),
            tr_canceled_at := Some (rq_now env)\<rparr>)
      in respond (set_transfer t' (set_stock s db)) t'))))"

section \<open>The endpoints\<close>

definition transfer_actions_body ::
    "request_env \<Rightarrow> uuid \<Rightarrow> transfer_action \<Rightarrow> uuid \<Rightarrow> user \<Rightarrow> transfer_db \<Rightarrow> transfer_result" where
  "transfer_actions_body env transfer_id a tenant_id u db =
    bindr (find_transfer db transfer_id tenant_id) (\<lambda>t.
    case a of
      Dispatch \<Rightarrow> dispatch_action env tenant_id u t db
    | Receive rls \<Rightarrow> receive_action env tenant_id u t rls db
    | Report_shortages sls \<Rightarrow> report_shortages_action env tenant_id u t sls db
    | Resolve_shortages rs \<Rightarrow> resolve_shortages_action env tenant_id u t rs db
    | Cancel \<Rightarrow> cancel_action env tenant_id u t db)"

definition transfer_actions_before ::
    "request_env \<Rightarrow> transfer_action_request \<Rightarrow> transfer_db \<Rightarrow> (uuid \<times> user) res" where
  "transfer_actions_before env p db =
    bindr (route_user env [''transfers.dispatch'', ''transfers.receive'', ''transfers.cancel'',
      ''transfers.resolve'', ''TRANSFER_MANAGE'']) (\<lambda>u.
    bindr (require_transaction_id (ar_transaction_id p)) (\<lambda>_.
    bindr (resolve_tenant_id (rq_token env) (ar_tenant_id p)) (\<lambda>tenant_id. Inr (tenant_id, u))))"

datatype transfer_call =
    Create transfer_create_request
  | Update uuid transfer_update_request
  | Action uuid transfer_action_request

definition transfer_body ::
    "request_env \<Rightarrow> transfer_call \<Rightarrow> uuid \<Rightarrow> user \<Rightarrow> transfer_db \<Rightarrow> transfer_result" where
  "transfer_body env c tenant_id u db = (case c of
     Create p \<Rightarrow> create_transfer_body env p tenant_id u db
   | Update i p \<Rightarrow> update_transfer_body env i p tenant_id u db
   | Action i p \<Rightarrow> transfer_actions_body env i (ar_action p) tenant_id u db)"

definition transfer_before ::
    "request_env \<Rightarrow> transfer_call \<Rightarrow> transfer_db \<Rightarrow> (uuid \<times> user) res" where
  "transfer_before env c db = (case c of
     Create p \<Rightarrow> create_transfer_before env p db
   | Update i p \<Rightarrow> update_transfer_before env p db
   | Action i p \<Rightarrow> transfer_actions_before env p db)"

definition transfer_endpoint ::
    "(app_error \<Rightarrow> string) \<Rightarrow> (transfer_response \<Rightarrow> string) \<Rightarrow> request_env \<Rightarrow> transfer_call
      \<Rightarrow> idem_table \<times> transfer_db \<Rightarrow> reply \<times> idem_table \<times> transfer_db" where
  "transfer_endpoint dump_err dump env c =
    guarded_endpoint env dump_err (transfer_before env c)
      (\<lambda>tenant_id u db. replying (case c of Create _ \<Rightarrow> 201 | _ \<Rightarrow> 200) dump
        (transfer_body env c tenant_id u db))"

section \<open>List and detail\<close>

record transfer_query =
  tq_status :: "string option"
  tq_origin_store_id :: "uuid option"
  tq_destination_store_id :: "uuid option"
  tq_page :: int
  tq_page_size :: int
  tq_sort_by :: string
  tq_sort_dir :: string

fun status_name :: "transfer_status \<Rightarrow> string" where
  "status_name DRAFT = ''DRAFT''"
| "status_name DISPATCHED = ''DISPATCHED''"
| "status_name PARTIAL_RECEIVED = ''PARTIAL_RECEIVED''"
| "status_name RECEIVED = ''RECEIVED''"
| "status_name CANCELED = ''CANCELED''"

definition transfer_matches :: "uuid \<Rightarrow> uuid list option \<Rightarrow> transfer_query \<Rightarrow> transfer \<Rightarrow> bool" where
  "transfer_matches tenant_id visible q t =
    (tr_tenant_id t = tenant_id
     \<and> (case visible of None \<Rightarrow> True
        | Some vs \<Rightarrow> tr_origin_store_id t \<in> set vs \<or> tr_destination_store_id t \<in> set vs)
     \<and> (falsy (tq_status q) \<or> Some (status_name (tr_status t)) = tq_status q)
     \<and> (falsy (tq_origin_store_id q) \<or> Some (tr_origin_store_id t) = tq_origin_store_id q)
     \<and> (falsy (tq_destination_store_id q)
        \<or> Some (tr_destination_store_id t) = tq_destination_store_id q))"

text \<open>The order of the \<^verbatim>\<open>NULL\<close> update times is the database's: the parameter \<open>nulls\<close>.\<close>

definition sort_transfers :: "time \<Rightarrow> transfer_query \<Rightarrow> transfer list \<Rightarrow> transfer list" where
  "sort_transfers nulls q ts =
    (let key = (\<lambda>t. if tq_sort_by q = ''created_at'' then tr_created_at t
           else (case tr_updated_at t of None \<Rightarrow> nulls | Some x \<Rightarrow> x))
     in if tq_sort_dir q = ''asc'' then sort_key key ts else sort_key (\<lambda>t. - key t) ts)"

definition repo_list_transfers ::
    "time \<Rightarrow> transfer_db \<Rightarrow> uuid \<Rightarrow> uuid list option \<Rightarrow> transfer_query \<Rightarrow> transfer list \<times> int" where
  "repo_list_transfers nulls db tenant_id visible q =
    (if visible = Some [] then ([], 0)
     else
       let ts = filter (transfer_matches tenant_id visible q) (t_transfers db);
           offset = (max (tq_page q) 1 - 1) * max (tq_page_size q) 1
       in (take (nat (max (tq_page_size q) 1)) (drop (nat offset) (sort_transfers nulls q ts)),
           int (length ts)))"

definition list_transfers ::
    "time \<Rightarrow> request_env \<Rightarrow> string option \<Rightarrow> transfer_query \<Rightarrow> transfer_db
      \<Rightarrow> (transfer_response list \<times> int) res" where
  "list_transfers nulls env tenant_id q db =
    bindr (route_user env [''transfers.read'', ''TRANSFER_VIEW'']) (\<lambda>_.
    bindr (resolve_tenant_id (rq_token env) tenant_id) (\<lambda>scoped.
    bindr (require (tq_sort_by q \<in> {''created_at'', ''updated_at''})
      (raise1 VALIDATION_ERROR ''invalid sort_by'')) (\<lambda>_.
    bindr (require (tq_sort_dir q \<in> {''asc'', ''desc''})
      (raise1 VALIDATION_ERROR ''invalid sort_dir'')) (\<lambda>_.
    let (rows, total) = repo_list_transfers nulls db scoped (visible_store_ids (rq_token env)) q
    in Inr (map (\<lambda>t. transfer_response_of db t (get_lines db (tr_id t))) rows, total)))))"

definition get_transfer_detail :: "request_env \<Rightarrow> uuid \<Rightarrow> transfer_db \<Rightarrow> transfer_response res" where
  "get_transfer_detail env transfer_id db =
    bindr (route_user env [''transfers.read'', ''TRANSFER_VIEW'']) (\<lambda>_.
    bindr (resolve_tenant_id (rq_token env) (td_tenant_id (rq_token env))) (\<lambda>scoped.
    case get_transfer db transfer_id scoped of
      None \<Rightarrow> Inl (raise1 VALIDATION_ERROR ''transfer not found'')
    | Some t \<Rightarrow>
        bindr (require (is_visible_transfer (rq_token env) t)
          (raise1 VALIDATION_ERROR ''transfer not found'')) (\<lambda>_.
        let lines = get_lines db transfer_id in
        bindr (if tr_status t = DRAFT
               then revalidate_existing_draft_lines db (rq_now env) scoped (tr_origin_store_id t)
                 transfer_id lines (open_session (t_stock db))
               else Inr (open_session (t_stock db))) (\<lambda>_.
        Inr (transfer_response_of db t lines)))))"

text \<open>\<^verbatim>\<open>GET /aris3/stores\<close>: the stores a transfer may name, by name.\<close>

definition list_tenant_stores :: "request_env \<Rightarrow> transfer_db \<Rightarrow> store list res" where
  "list_tenant_stores env db =
    bindr (route_user env [''transfers.read'', ''TRANSFER_VIEW'']) (\<lambda>_.
    bindr (resolve_tenant_id (rq_token env) (td_tenant_id (rq_token env))) (\<lambda>scoped.
    let ss = filter (\<lambda>s. st_tenant_id s = scoped) (t_stores db) in
    Inr (case visible_store_ids (rq_token env) of
       None \<Rightarrow> sort_key st_name ss
     | Some vs \<Rightarrow> if vs = [] then [] else sort_key st_name (filter (\<lambda>s. st_id s \<in> set vs) ss))))"

end
