(* ===== verification/Transfer_Ledger.thy ===== *)
theory Transfer_Ledger
  imports Transfer_Actions
begin

text \<open>
  Transfers, the movement ledger: the totals the code reads from the database are sums over the
  movements, adding a request's quantities to them gives the totals after the commit, and the
  outstanding total is zero exactly when no line has anything outstanding. Then the line status
  in terms of the totals.
\<close>

section \<open>Totals are sums over the movements\<close>

definition ledger_of :: "transfer_movement list \<Rightarrow> uuid \<Rightarrow> movement_action \<Rightarrow> int" where
  "ledger_of ms l a =
    sum_list (map tm_qty (filter (\<lambda>m. tm_transfer_line_id m = l \<and> tm_action m = a) ms))"

definition ledger :: "transfer_db \<Rightarrow> uuid \<Rightarrow> uuid \<Rightarrow> movement_action \<Rightarrow> int" where
  "ledger db tid = ledger_of (get_movements db tid)"

lemma ledger_of_append [simp]: "ledger_of (ms @ ms') l a = ledger_of ms l a + ledger_of ms' l a"
  by (simp add: ledger_of_def)

lemma ledger_of_Nil [simp]: "ledger_of [] l a = 0"
  by (simp add: ledger_of_def)

lemma ledger_of_Cons [simp]: "ledger_of (m # ms) l a =
    (if tm_transfer_line_id m = l \<and> tm_action m = a then tm_qty m else 0) + ledger_of ms l a"
  by (simp add: ledger_of_def)

lemma total_of_update:
  "total_of (AList.update l (AList.update a q (dict_get d l [])) d) l' a' =
    (if l = l' \<and> a = a' then q else total_of d l' a')"
  by (simp add: total_of_def)

lemma total_of_Nil [simp]: "total_of [] l a = 0"
  by (simp add: total_of_def)

lemma fill_totals_total:
  "distinct (map (\<lambda>(l, a, q). (l, a)) rows) \<Longrightarrow>
   total_of (fill_totals d rows) l a =
    (case map_of (map (\<lambda>(l, a, q). ((l, a), q)) rows) (l, a) of None \<Rightarrow> total_of d l a | Some q \<Rightarrow> q)"
proof (induction d rows rule: fill_totals.induct)
  case (2 d l' a' q rows)
  have "(l', a') \<notin> fst ` set (map (\<lambda>(l, a, q). ((l, a), q)) rows)"
    using 2(2) by (force simp: image_iff)
  then have "map_of (map (\<lambda>(l, a, q). ((l, a), q)) rows) (l', a') = None"
    by (simp add: map_of_eq_None_iff)
  with 2 show ?case by (auto simp: total_of_update split: option.splits)
qed simp

lemma group_rows_keys:
  "map (\<lambda>(l, a, q). (l, a)) (group_rows ms) =
    remdups (map (\<lambda>m. (tm_transfer_line_id m, tm_action m)) ms)"
  by (simp add: group_rows_def comp_def case_prod_beta)

lemma map_of_map_graph: "map_of (map (\<lambda>k. (k, f k)) ks) x = (if x \<in> set ks then Some (f x) else None)"
  by (induction ks) auto

lemma group_rows_map_of:
  "map_of (map (\<lambda>(l, a, q). ((l, a), q)) (group_rows ms)) (l, a) =
    (if \<exists>m \<in> set ms. tm_transfer_line_id m = l \<and> tm_action m = a then Some (ledger_of ms l a) else None)"
proof -
  have "map (\<lambda>(l, a, q). ((l, a), q)) (group_rows ms) = map (\<lambda>k. (k, ledger_of ms (fst k) (snd k)))
      (remdups (map (\<lambda>m. (tm_transfer_line_id m, tm_action m)) ms))"
    by (simp add: group_rows_def ledger_of_def comp_def case_prod_beta)
  then show ?thesis by (auto simp: map_of_map_graph image_iff)
qed

theorem get_movement_totals_ledger: "total_of (get_movement_totals db tid) l a = ledger db tid l a"
proof -
  have "ledger_of ms l a = 0" if "\<not> (\<exists>m \<in> set ms. tm_transfer_line_id m = l \<and> tm_action m = a)" for ms
    using that by (auto simp: ledger_of_def filter_empty_conv)
  then show ?thesis
    by (simp add: get_movement_totals_def ledger_def fill_totals_total group_rows_keys group_rows_map_of
        split: option.splits)
qed

lemma fill_totals_keys:
  "distinct (map fst d) \<Longrightarrow> distinct (map fst (fill_totals d rows)) \<and>
   fst ` set (fill_totals d rows) = fst ` set d \<union> fst ` set rows"
proof (induction d rows rule: fill_totals.induct)
  case (2 d l a q rows)
  then show ?case by (auto simp: distinct_update dom_update)
qed simp

lemma movement_totals_keys:
  "distinct (map fst (get_movement_totals db tid))"
  "fst ` set (get_movement_totals db tid) = tm_transfer_line_id ` set (get_movements db tid)"
proof -
  have "fst ` set (group_rows ms) = tm_transfer_line_id ` set ms" for ms
    by (force simp: group_rows_def image_iff)
  then show "distinct (map fst (get_movement_totals db tid))"
    "fst ` set (get_movement_totals db tid) = tm_transfer_line_id ` set (get_movements db tid)"
    using fill_totals_keys [of "[]" "group_rows (get_movements db tid)"]
    by (simp_all add: get_movement_totals_def)
qed

lemma add_totals_total:
  "total_of (add_totals a d xs) l b =
    total_of d l b + (if a = b then sum_list (map snd (filter (\<lambda>(l', q). l' = l) xs)) else 0)"
proof (induction a d xs rule: add_totals.induct)
  case (2 a d l' q rest)
  then show ?case by (auto simp: Let_def total_of_update) (simp_all add: total_of_def)
qed simp

lemma add_totals_keys:
  "distinct (map fst d) \<Longrightarrow> distinct (map fst (add_totals a d xs)) \<and>
   fst ` set (add_totals a d xs) = fst ` set d \<union> fst ` set xs"
proof (induction a d xs rule: add_totals.induct)
  case (2 a d l q rest)
  then show ?case by (auto simp: Let_def distinct_update dom_update)
qed simp

section \<open>The outstanding total\<close>

lemma outstanding_of_total:
  "outstanding_of (dict_get d l []) =
    total_of d l DISPATCH - total_of d l RECEIVE - total_of d l SHORTAGE_RESOLVED_LOST_IN_ROUTE"
  by (simp add: outstanding_of_def total_of_def)

lemma outstanding_total_nonneg: "0 \<le> outstanding_total d"
  unfolding outstanding_total_def by (rule sum_list_nonneg) auto

lemma outstanding_total_zero_iff:
  assumes "distinct (map fst d)"
  shows "outstanding_total d = 0 \<longleftrightarrow> (\<forall>l \<in> fst ` set d. outstanding_of (dict_get d l []) \<le> 0)"
proof -
  have "outstanding_total d = 0 \<longleftrightarrow> (\<forall>x \<in> set d. (case x of (l, ts) \<Rightarrow> max (outstanding_of ts) 0) = 0)"
    unfolding outstanding_total_def by (rule sum_list_zero_iff_int) auto
  also have "\<dots> \<longleftrightarrow> (\<forall>(l, ts) \<in> set d. outstanding_of ts \<le> 0)" by (force simp: max_def split: if_splits)
  also have "\<dots> \<longleftrightarrow> (\<forall>l \<in> fst ` set d. outstanding_of (dict_get d l []) \<le> 0)"
  proof -
    have "dict_get d l [] = ts" if "(l, ts) \<in> set d" for l ts
      using that assms by (simp add: dict_get_def)
    then show ?thesis by fastforce
  qed
  finally show ?thesis .
qed

definition ledger_outstanding :: "transfer_db \<Rightarrow> uuid \<Rightarrow> uuid \<Rightarrow> int" where
  "ledger_outstanding db tid l =
    ledger db tid l DISPATCH - ledger db tid l RECEIVE - ledger db tid l SHORTAGE_RESOLVED_LOST_IN_ROUTE"

lemma outstanding_total_ledger:
  "outstanding_total (get_movement_totals db tid) = 0 \<longleftrightarrow>
    (\<forall>m \<in> set (get_movements db tid). ledger_outstanding db tid (tm_transfer_line_id m) \<le> 0)"
  by (simp add: outstanding_total_zero_iff movement_totals_keys outstanding_of_total
      get_movement_totals_ledger ledger_outstanding_def)

section \<open>The status of a line\<close>

text \<open>the status a line is shown with is consistent. For totals that are not negative,
  the outstanding quantity lies between zero and what was dispatched (or planned); a shortage is
  shown as resolved exactly when one was reported and what was found and lost covers it; a final
  resolution is shown only for a resolved shortage, and it names what was recorded.\<close>

theorem line_status_consistent:
  assumes "\<And>a. 0 \<le> dict_get ts a 0" and "0 \<le> tl_qty line"
  shows "let st = line_status_from_totals line ts;
             base = (if dict_get ts DISPATCH 0 > 0 then dict_get ts DISPATCH 0 else tl_qty line);
             reported = dict_get ts SHORTAGE_REPORTED 0;
             found = dict_get ts SHORTAGE_RESOLVED_FOUND_AND_RESEND 0;
             lost = dict_get ts SHORTAGE_RESOLVED_LOST_IN_ROUTE 0
    in 0 \<le> ls_outstanding_qty st \<and> ls_outstanding_qty st \<le> base
     \<and> (ls_shortage_status st = RESOLVED \<longleftrightarrow> 0 < reported \<and> reported \<le> found + lost)
     \<and> (ls_resolution_status st \<in> {MIXED, FOUND_AND_RESEND, LOST_IN_ROUTE}
         \<longrightarrow> ls_shortage_status st = RESOLVED)
     \<and> (ls_resolution_status st = LOST_IN_ROUTE \<longrightarrow> found = 0 \<and> reported \<le> lost)
     \<and> (ls_resolution_status st = FOUND_AND_RESEND \<longrightarrow> lost = 0 \<and> reported \<le> found)
     \<and> (ls_resolution_status st = NONE_resolution \<longleftrightarrow> found + lost = 0)"
  using assms(1) [of DISPATCH] assms(1) [of RECEIVE] assms(1) [of SHORTAGE_REPORTED]
    assms(1) [of SHORTAGE_RESOLVED_FOUND_AND_RESEND] assms(1) [of SHORTAGE_RESOLVED_LOST_IN_ROUTE] assms(2)
  by (auto simp: line_status_from_totals_def Let_def)

definition demo_snapshot :: line_snapshot where
  "demo_snapshot = (stock_snapshot_from_item (demo_item ''i1'' None (Some ''PENDING'')))"

definition demo_line :: "uuid \<Rightarrow> uuid \<Rightarrow> int \<Rightarrow> transfer_line" where
  "demo_line i tid q = \<lparr>tl_id = i, tl_transfer_id = tid, tl_tenant_id = ''t1'',
     tl_line_type = SKU_line, tl_qty = q, tl_snapshot = demo_snapshot, tl_created_at = 0\<rparr>"

theorem line_status_consistent_witness:
  "ls_resolution_status (line_status_from_totals (demo_line ''l1'' ''x1'' 3)
      [(DISPATCH, 3), (RECEIVE, 1), (SHORTAGE_REPORTED, 2), (SHORTAGE_RESOLVED_LOST_IN_ROUTE, 2)])
    = LOST_IN_ROUTE
   \<and> ls_shortage_status (line_status_from_totals (demo_line ''l1'' ''x1'' 3)
      [(DISPATCH, 3), (RECEIVE, 1), (SHORTAGE_REPORTED, 2), (SHORTAGE_RESOLVED_LOST_IN_ROUTE, 2)])
    = RESOLVED"
proof -
  let ?ts = "[(DISPATCH, 3), (RECEIVE, 1), (SHORTAGE_REPORTED, 2),
    (SHORTAGE_RESOLVED_LOST_IN_ROUTE, 2)]"
  have nonneg: "(0::int) \<le> dict_get ?ts a 0" for a by (cases a) (simp_all add: dict_get_def)
  have "ls_resolution_status (line_status_from_totals (demo_line ''l1'' ''x1'' 3) ?ts) = LOST_IN_ROUTE"
    by (simp add: line_status_from_totals_def dict_get_def demo_line_def)
  with line_status_consistent [of ?ts "demo_line ''l1'' ''x1'' 3", OF nonneg]
  show ?thesis by (simp add: Let_def demo_line_def)
qed

end
