(* ===== verification/Transfer_Steps.thy ===== *)
theory Transfer_Steps
  imports Transfer_Ledger
begin

text \<open>
  Transfers, the transition system: a step is a body that returned, under any user, tenant and
  time, or any change of the stock and the stores by other components. First what the loops of
  the operations add to the ledger, and what each operation does to the rows; then the steps
  and the invariants of every reachable state.
\<close>

section \<open>What the loops record\<close>

definition records_for :: "transfer \<Rightarrow> transfer_line list \<Rightarrow> transfer_movement list \<Rightarrow> bool" where
  "records_for t lines ms \<longleftrightarrow> (\<forall>m \<in> set ms. tm_transfer_id m = tr_id t \<and> 1 \<le> tm_qty m
     \<and> tm_transfer_line_id m \<in> tl_id ` set lines)"

definition requested :: "('a \<Rightarrow> uuid) \<Rightarrow> ('a \<Rightarrow> int) \<Rightarrow> 'a list \<Rightarrow> uuid \<Rightarrow> int" where
  "requested line qty xs l = sum_list (map (\<lambda>x. if line x = l then qty x else 0) xs)"

lemma records_for_simps [simp]:
  "records_for t lines []" "records_for t lines (ms @ ms') = (records_for t lines ms \<and> records_for t lines ms')"
  by (auto simp: records_for_def)

lemma find_line_Inr: "find_line lines i = Inr l \<Longrightarrow> l \<in> set lines \<and> tl_id l = i"
  by (auto simp: find_line_def split: option.splits dest: find_SomeD)

lemma find_line_id: "find_line lines i = Inr l \<Longrightarrow> i \<in> tl_id ` set lines"
  by (auto dest!: find_line_Inr)

lemma find_line_unique:
  assumes "distinct (map tl_id lines)" and "l \<in> set lines"
  shows "find_line lines (tl_id l) = Inr l"
proof -
  obtain l' where l': "find (\<lambda>x. tl_id x = tl_id l) (rev lines) = Some l'"
    using assms(2) by (cases "find (\<lambda>x. tl_id x = tl_id l) (rev lines)") (auto simp: find_None_iff)
  then have "l' = l" using assms key_unique [of tl_id lines l' l] by (auto dest: find_SomeD)
  with l' show ?thesis by (simp add: find_line_def)
qed

lemma movement_fields [simp]:
  "tm_transfer_id (dispatch_movement t tn l q) = tr_id t"
  "tm_transfer_line_id (dispatch_movement t tn l q) = tl_id l"
  "tm_action (dispatch_movement t tn l q) = DISPATCH" "tm_qty (dispatch_movement t tn l q) = q"
  "tm_transfer_id (movement_of t tn l a src dst q sn) = tr_id t"
  "tm_transfer_line_id (movement_of t tn l a src dst q sn) = tl_id l"
  "tm_action (movement_of t tn l a src dst q sn) = a" "tm_qty (movement_of t tn l a src dst q sn) = q"
  "tm_transfer_id (receive_movement t tn l p q) = tr_id t"
  "tm_transfer_line_id (receive_movement t tn l p q) = tl_id l"
  "tm_action (receive_movement t tn l p q) = RECEIVE" "tm_qty (receive_movement t tn l p q) = q"
  by (simp_all add: dispatch_movement_def movement_of_def receive_movement_def split: prod.splits)

lemma dispatch_line_Inr:
  assumes "dispatch_line now tn t (s, ms) l = Inr (s', ms')"
  shows "ms' = ms @ [dispatch_movement t tn l (if tl_line_type l = EPC_line then 1 else tl_qty l)]"
  using assms by (auto simp: dispatch_line_def Let_def res_simps split: if_splits)

lemma receive_one_Inr:
  assumes "receive_one now tn t lines d (s, ms) rl = Inr (s', ms')"
  obtains line where "find_line lines (rl_line_id rl) = Inr line" "1 \<le> rl_qty rl"
    "rl_qty rl \<le> outstanding_of (dict_get d (rl_line_id rl) [])"
    "ms' = ms @ [receive_movement t tn line (resolve_receive_destination rl t) (rl_qty rl)]"
  using assms by (auto simp: receive_one_def Let_def res_simps split: if_splits option.splits)

lemma report_one_Inr:
  assumes "report_one tn t lines d ms sl = Inr ms'"
  obtains line where "find_line lines (sl_line_id sl) = Inr line" "1 \<le> sl_qty sl"
    "sl_qty sl + total_of d (sl_line_id sl) SHORTAGE_REPORTED \<le>
      max (outstanding_of (dict_get d (sl_line_id sl) [])) 0"
    "ms' = ms @ [movement_of t tn line SHORTAGE_REPORTED in_transit_place in_transit_place
      (sl_qty sl) (Shortage_snapshot (tl_snapshot line) (sl_reason_code sl) (sl_notes sl))]"
  using assms by (auto simp: report_one_def res_simps)

lemma resolve_one_Inr:
  assumes "resolve_one tn t lines d r (s, ms) ol = Inr (s', ms')"
  obtains line m where "find_line lines (ol_line_id ol) = Inr line" "1 \<le> ol_qty ol"
    "ol_qty ol \<le> max (total_of d (ol_line_id ol) SHORTAGE_REPORTED
       - total_of d (ol_line_id ol) SHORTAGE_RESOLVED_FOUND_AND_RESEND
       - total_of d (ol_line_id ol) SHORTAGE_RESOLVED_LOST_IN_ROUTE) 0"
    "ms' = ms @ [m]" "tm_transfer_id m = tr_id t" "tm_transfer_line_id m = ol_line_id ol"
    "tm_action m = resolution_action r" "tm_qty m = ol_qty ol"
    "r = Found_and_resend \<Longrightarrow> s' = s"
    "r = Lost_in_route \<Longrightarrow> lose_rows tn t line (ol_qty ol) s = Inr s'"
proof -
  from assms obtain line where l: "find_line lines (ol_line_id ol) = Inr line"
    by (auto simp: resolve_one_def res_simps)
  then have "tl_id line = ol_line_id ol" by (auto dest: find_line_Inr)
  with assms l show thesis
    by (cases r) (auto simp: resolve_one_def Let_def res_simps resolution_action_def intro!: that)
qed

text \<open>A loop that records one movement per round leaves the movements of its requests.\<close>

definition profile :: "transfer_movement \<Rightarrow> uuid \<times> uuid \<times> movement_action \<times> int" where
  "profile m = (tm_transfer_id m, tm_transfer_line_id m, tm_action m, tm_qty m)"

lemma recording_loop:
  assumes "for_each f st xs = Inr st'"
    and "\<And>st x st'. x \<in> set xs \<Longrightarrow> f st x = Inr st' \<Longrightarrow>
      (\<exists>m. mv st' = mv st @ [m] \<and> profile m = g x) \<and> P x"
  shows "\<exists>ms. mv st' = mv st @ ms \<and> map profile ms = map g xs \<and> (\<forall>x \<in> set xs. P x)"
  using assms
proof (induction xs arbitrary: st)
  case (Cons x xs)
  from Cons.prems(1) obtain st1 where 1: "f st x = Inr st1" "for_each f st1 xs = Inr st'"
    by (auto simp: res_simps)
  obtain m where m: "mv st1 = mv st @ [m]" "profile m = g x" "P x"
    using Cons.prems(2) [OF _ 1(1)] by auto
  obtain ms where "mv st' = mv st1 @ ms" "map profile ms = map g xs" "\<forall>x \<in> set xs. P x"
    using Cons.IH [OF 1(2)] Cons.prems(2) by (meson list.set_intros(2))
  with m show ?case by (intro exI [of _ "m # ms"]) simp
qed simp

lemma profile_ledger:
  "map profile ms = map (\<lambda>x. (i, line x, a0, qty x)) xs \<Longrightarrow>
    ledger_of ms l a = (if a = a0 then requested line qty xs l else 0)"
proof (induction xs arbitrary: ms)
  case (Cons x xs)
  then obtain m ms' where ms: "ms = m # ms'" by (cases ms) auto
  with Cons show ?case by (auto simp: requested_def profile_def)
qed (simp add: requested_def)

lemma profile_records:
  assumes "map profile ms = map (\<lambda>x. (tr_id t, line x, a0, qty x)) xs"
    and "\<forall>x \<in> set xs. 1 \<le> qty x \<and> line x \<in> tl_id ` set lines"
  shows "records_for t lines ms"
  unfolding records_for_def
proof
  fix m assume "m \<in> set ms"
  then have "profile m \<in> set (map (\<lambda>x. (tr_id t, line x, a0, qty x)) xs)"
    using assms(1) [symmetric] by simp
  with assms(2) show "tm_transfer_id m = tr_id t \<and> 1 \<le> tm_qty m
      \<and> tm_transfer_line_id m \<in> tl_id ` set lines"
    by (auto simp: profile_def)
qed

lemma dispatch_loop:
  assumes "for_each (dispatch_line now tn t) (s, []) lines = Inr (s', ms)"
  shows "map profile ms = map (\<lambda>l. (tr_id t, tl_id l, DISPATCH,
    if tl_line_type l = EPC_line then 1 else tl_qty l)) lines"
proof -
  let ?g = "\<lambda>l. (tr_id t, tl_id l, DISPATCH, if tl_line_type l = EPC_line then 1 else tl_qty l)"
  have "(\<exists>m. snd st' = snd st @ [m] \<and> profile m = ?g x) \<and> True"
    if r: "dispatch_line now tn t st x = Inr st'" for st st' x
  proof -
    obtain s0 ms0 s1 ms1 where st: "st = (s0, ms0)" "st' = (s1, ms1)" by fastforce
    from dispatch_line_Inr [OF r [unfolded st]] show ?thesis by (simp add: st profile_def)
  qed
  from recording_loop [OF assms, of snd ?g "\<lambda>_. True"] this show ?thesis by auto
qed

lemma receive_loop:
  assumes "for_each (receive_one now tn t lines d) (s, []) rls = Inr (s', ms)"
  shows "map profile ms = map (\<lambda>x. (tr_id t, rl_line_id x, RECEIVE, rl_qty x)) rls"
    and "\<forall>rl \<in> set rls. 1 \<le> rl_qty rl \<and> rl_line_id rl \<in> tl_id ` set lines
      \<and> rl_qty rl \<le> outstanding_of (dict_get d (rl_line_id rl) [])"
proof -
  let ?g = "\<lambda>x. (tr_id t, rl_line_id x, RECEIVE, rl_qty x)"
  let ?P = "\<lambda>rl. 1 \<le> rl_qty rl \<and> rl_line_id rl \<in> tl_id ` set lines
      \<and> rl_qty rl \<le> outstanding_of (dict_get d (rl_line_id rl) [])"
  have "(\<exists>m. snd st' = snd st @ [m] \<and> profile m = ?g x) \<and> ?P x"
    if r: "receive_one now tn t lines d st x = Inr st'" for st st' x
  proof -
    obtain s0 ms0 s1 ms1 where st: "st = (s0, ms0)" "st' = (s1, ms1)" by fastforce
    from r [unfolded st] show ?thesis
      by (rule receive_one_Inr) (auto simp: st profile_def find_line_id dest: find_line_Inr)
  qed
  from recording_loop [OF assms, of snd ?g ?P] this
  show "map profile ms = map ?g rls" "\<forall>rl \<in> set rls. ?P rl" by auto
qed

lemma report_loop:
  assumes "for_each (report_one tn t lines d) [] sls = Inr ms"
  shows "map profile ms = map (\<lambda>x. (tr_id t, sl_line_id x, SHORTAGE_REPORTED, sl_qty x)) sls"
    and "\<forall>sl \<in> set sls. 1 \<le> sl_qty sl \<and> sl_line_id sl \<in> tl_id ` set lines
      \<and> sl_qty sl + total_of d (sl_line_id sl) SHORTAGE_REPORTED \<le>
        max (outstanding_of (dict_get d (sl_line_id sl) [])) 0"
proof -
  let ?g = "\<lambda>x. (tr_id t, sl_line_id x, SHORTAGE_REPORTED, sl_qty x)"
  let ?P = "\<lambda>sl. 1 \<le> sl_qty sl \<and> sl_line_id sl \<in> tl_id ` set lines
      \<and> sl_qty sl + total_of d (sl_line_id sl) SHORTAGE_REPORTED \<le>
        max (outstanding_of (dict_get d (sl_line_id sl) [])) 0"
  have "(\<exists>m. ms' = ms @ [m] \<and> profile m = ?g x) \<and> ?P x"
    if "report_one tn t lines d ms x = Inr ms'" for ms ms' x
    using that by (rule report_one_Inr) (auto simp: profile_def find_line_id dest: find_line_Inr)
  from recording_loop [OF assms, of "\<lambda>x. x" ?g ?P] this
  show "map profile ms = map ?g sls" "\<forall>sl \<in> set sls. ?P sl" by auto
qed

lemma resolve_loop:
  assumes "for_each (resolve_one tn t lines d r) (s, []) ols = Inr (s', ms)"
  shows "map profile ms = map (\<lambda>x. (tr_id t, ol_line_id x, resolution_action r, ol_qty x)) ols"
    and "\<forall>ol \<in> set ols. 1 \<le> ol_qty ol \<and> ol_line_id ol \<in> tl_id ` set lines
      \<and> ol_qty ol \<le> max (total_of d (ol_line_id ol) SHORTAGE_REPORTED
         - total_of d (ol_line_id ol) SHORTAGE_RESOLVED_FOUND_AND_RESEND
         - total_of d (ol_line_id ol) SHORTAGE_RESOLVED_LOST_IN_ROUTE) 0"
proof -
  let ?g = "\<lambda>x. (tr_id t, ol_line_id x, resolution_action r, ol_qty x)"
  let ?P = "\<lambda>ol. 1 \<le> ol_qty ol \<and> ol_line_id ol \<in> tl_id ` set lines
      \<and> ol_qty ol \<le> max (total_of d (ol_line_id ol) SHORTAGE_REPORTED
         - total_of d (ol_line_id ol) SHORTAGE_RESOLVED_FOUND_AND_RESEND
         - total_of d (ol_line_id ol) SHORTAGE_RESOLVED_LOST_IN_ROUTE) 0"
  have "(\<exists>m. snd st' = snd st @ [m] \<and> profile m = ?g x) \<and> ?P x"
    if r: "resolve_one tn t lines d r st x = Inr st'" for st st' x
  proof -
    obtain s0 ms0 s1 ms1 where st: "st = (s0, ms0)" "st' = (s1, ms1)" by fastforce
    from r [unfolded st] show ?thesis
      by (rule resolve_one_Inr) (auto simp: st profile_def find_line_id dest: find_line_Inr)
  qed
  from recording_loop [OF assms, of snd ?g ?P] this
  show "map profile ms = map ?g ols" "\<forall>ol \<in> set ols. ?P ol" by auto
qed

section \<open>What each operation does to the rows\<close>

text \<open>The five actions share one shape: the transfer is replaced, the stock session is
  committed, movements are appended.\<close>

definition act :: "transfer \<Rightarrow> stock_item session \<Rightarrow> transfer_movement list \<Rightarrow> transfer_db \<Rightarrow> transfer_db" where
  "act t' s ms db = add_movements ms (set_transfer t' (set_stock s db))"

lemma set_stock_open [simp]: "set_stock (open_session (t_stock db)) db = db"
  by (simp add: set_stock_def)

lemma add_movements_Nil [simp]: "add_movements [] db = db"
  by (simp add: add_movements_def)

lemma act_fields [simp]:
  "t_stores (act t' s ms db) = t_stores db" "t_stock (act t' s ms db) = commit si_id s"
  "t_transfers (act t' s ms db) = map (\<lambda>x. if tr_id x = tr_id t' then t' else x) (t_transfers db)"
  "t_lines (act t' s ms db) = t_lines db" "t_movements (act t' s ms db) = t_movements db @ ms"
  by (simp_all add: act_def add_movements_def set_transfer_def set_stock_def)

lemma dispatch_effect:
  assumes "dispatch_action env tn u t db = Inr (db', re)"
  obtains s s' ms where "tr_status t = DRAFT" "get_lines db (tr_id t) \<noteq> []"
    "revalidate_existing_draft_lines db (rq_now env) tn (tr_origin_store_id t) (tr_id t)
      (get_lines db (tr_id t)) (open_session (t_stock db)) = Inr s"
    "for_each (dispatch_line (rq_now env) tn t) (s, []) (get_lines db (tr_id t)) = Inr (s', ms)"
    "db' = act (touch env u (t\<lparr>tr_status := DISPATCHED, tr_dispatched_by_user_id := Some (us_id u),
      tr_dispatched_at := Some (rq_now env)\<rparr>)) s' ms db"
  using assms by (auto simp: dispatch_action_def respond_def Let_def res_simps act_def)

lemma receive_effect:
  assumes "receive_action env tn u t rls db = Inr (db', re)"
  obtains xs s ms t' where "rls = Some xs" "xs \<noteq> []" "receivable (tr_status t)"
    "for_each (receive_one (rq_now env) tn t (get_lines db (tr_id t))
      (get_movement_totals db (tr_id t))) (open_session (t_stock db), []) xs = Inr (s, ms)"
    "t' = touch env u (if outstanding_total (add_totals RECEIVE (get_movement_totals db (tr_id t))
        (map (\<lambda>rl. (rl_line_id rl, rl_qty rl)) xs)) = 0
      then t\<lparr>tr_status := RECEIVED, tr_received_at := Some (rq_now env)\<rparr>
      else t\<lparr>tr_status := PARTIAL_RECEIVED\<rparr>)"
    "db' = act t' s ms db"
proof -
  from assms obtain xs where "rls = Some xs" "xs \<noteq> []"
    by (cases rls) (auto simp: receive_action_def bindr_Inr_iff require_Inr_iff)
  with assms show thesis
    by (auto simp: receive_action_def respond_def Let_def res_simps act_def intro!: that)
qed

lemma report_effect:
  assumes "report_shortages_action env tn u t sls db = Inr (db', re)"
  obtains xs ms where "sls = Some xs" "xs \<noteq> []" "receivable (tr_status t)"
    "for_each (report_one tn t (get_lines db (tr_id t)) (get_movement_totals db (tr_id t))) [] xs
      = Inr ms"
    "db' = act (touch env u t) (open_session (t_stock db)) ms db"
proof -
  from assms obtain xs where "sls = Some xs" "xs \<noteq> []"
    by (cases sls) (auto simp: report_shortages_action_def bindr_Inr_iff require_Inr_iff)
  with assms show thesis
    by (auto simp: report_shortages_action_def respond_def Let_def res_simps act_def intro!: that)
qed

lemma resolve_effect:
  assumes "resolve_shortages_action env tn u t rs db = Inr (db', re)"
  obtains r xs s ms t' where "rs = Some \<lparr>rs_resolution = r, rs_lines = xs\<rparr>" "xs \<noteq> []"
    "receivable (tr_status t)"
    "for_each (resolve_one tn t (get_lines db (tr_id t)) (get_movement_totals db (tr_id t)) r)
      (open_session (t_stock db), []) xs = Inr (s, ms)"
    "t' = touch env u (if outstanding_total (add_totals (resolution_action r)
        (get_movement_totals db (tr_id t)) (map (\<lambda>ol. (ol_line_id ol, ol_qty ol)) xs)) = 0
      then t\<lparr>tr_status := RECEIVED, tr_received_at := Some (rq_now env)\<rparr> else t)"
    "db' = act t' s ms db"
proof -
  from assms obtain y where y: "rs = Some y"
    by (auto simp: resolve_shortages_action_def res_simps)
  obtain r xs where "y = \<lparr>rs_resolution = r, rs_lines = xs\<rparr>" by (cases y) auto
  with y assms show thesis
    by (auto simp: resolve_shortages_action_def respond_def Let_def res_simps act_def intro!: that)
qed

lemma cancel_effect:
  assumes "cancel_action env tn u t db = Inr (db', re)"
  obtains s where "tr_status t = DRAFT \<or> tr_status t = DISPATCHED"
    "tr_status t = DRAFT \<Longrightarrow> s = open_session (t_stock db)"
    "tr_status t = DISPATCHED \<Longrightarrow> for_each (cancel_line (rq_now env) tn t)
      (open_session (t_stock db)) (get_lines db (tr_id t)) = Inr s"
    "db' = act (touch env u (t\<lparr>tr_status := CANCELED, tr_canceled_by_user_id := Some (us_id u),
      tr_canceled_at := Some (rq_now env)\<rparr>)) s [] db"
  using assms by (auto simp: cancel_action_def respond_def Let_def res_simps act_def split: if_splits)

lemma find_transfer_Inr:
  "find_transfer db i tn = Inr t \<Longrightarrow> t \<in> set (t_transfers db) \<and> tr_id t = i \<and> tr_tenant_id t = tn"
  by (auto simp: find_transfer_def get_transfer_def split: option.splits dest: find_SomeD)

text \<open>Every action is one \<^const>\<open>act\<close> on a transfer of the tenant.\<close>

lemma action_effect:
  assumes "transfer_actions_body env i a tn u db = Inr (db', re)"
  obtains t where "t \<in> set (t_transfers db)" "tr_id t = i" "tr_tenant_id t = tn"
    "case a of Dispatch \<Rightarrow> dispatch_action env tn u t db = Inr (db', re)
     | Receive rls \<Rightarrow> receive_action env tn u t rls db = Inr (db', re)
     | Report_shortages sls \<Rightarrow> report_shortages_action env tn u t sls db = Inr (db', re)
     | Resolve_shortages rs \<Rightarrow> resolve_shortages_action env tn u t rs db = Inr (db', re)
     | Cancel \<Rightarrow> cancel_action env tn u t db = Inr (db', re)"
proof -
  from assms obtain t where t: "find_transfer db i tn = Inr t"
    by (auto simp: transfer_actions_body_def bindr_Inr_iff)
  with assms have "case a of Dispatch \<Rightarrow> dispatch_action env tn u t db = Inr (db', re)
     | Receive rls \<Rightarrow> receive_action env tn u t rls db = Inr (db', re)
     | Report_shortages sls \<Rightarrow> report_shortages_action env tn u t sls db = Inr (db', re)
     | Resolve_shortages rs \<Rightarrow> resolve_shortages_action env tn u t rs db = Inr (db', re)
     | Cancel \<Rightarrow> cancel_action env tn u t db = Inr (db', re)"
    by (cases a) (simp_all add: transfer_actions_body_def)
  with find_transfer_Inr [OF t] show thesis by (intro that) auto
qed

lemma build_lines_fields:
  "l \<in> set (build_lines fresh i tid tn now ns) \<Longrightarrow>
    tl_transfer_id l = tid \<and> tl_tenant_id l = tn \<and> (\<exists>j\<ge>i. tl_id l = fresh j) \<and>
    (\<exists>n \<in> set ns. tl_line_type l = nl_line_type n \<and> tl_qty l = nl_qty n \<and> tl_snapshot l = nl_snapshot n)"
proof (induction ns arbitrary: i)
  case (Cons n ns)
  show ?case
  proof (cases "l \<in> set (build_lines fresh (Suc i) tid tn now ns)")
    case True
    then show ?thesis using Cons.IH [of "Suc i"] by (auto dest: Suc_leD)
  next
    case False
    then show ?thesis using Cons.prems by auto
  qed
qed simp

lemma build_lines_distinct:
  "inj fresh \<Longrightarrow> distinct (map tl_id (build_lines fresh i tid tn now ns))"
proof (induction ns arbitrary: i)
  case (Cons n ns)
  have "fresh i \<notin> tl_id ` set (build_lines fresh (Suc i) tid tn now ns)"
  proof
    assume "fresh i \<in> tl_id ` set (build_lines fresh (Suc i) tid tn now ns)"
    then obtain j where "Suc i \<le> j" "fresh i = fresh j" by (auto dest: build_lines_fields)
    with Cons.prems show False by (auto simp: inj_eq)
  qed
  with Cons show ?case by simp
qed simp

text \<open>What validation guarantees of the lines it returns.\<close>

definition valid_line :: "line_type \<Rightarrow> int \<Rightarrow> line_snapshot \<Rightarrow> bool" where
  "valid_line ty q sn \<longleftrightarrow> 1 \<le> q \<and> (ty = EPC_line \<longrightarrow> q = 1 \<and> \<not> falsy (sn_epc sn))
     \<and> (ty = SKU_line \<longrightarrow> sn_epc sn = None)"

lemma identity_select_first:
  assumes "select_first key P s = Some x" "kept key core s"
  shows "identity key s x = x"
  using assms
  by (auto simp: select_first_def identity_def kept_def split: option.splits dest!: find_SomeD)

abbreviation stock_kept :: "stock_item session \<Rightarrow> bool" where
  "stock_kept \<equiv> kept si_id stock_identity"

lemma stock_modify_simps [simp]:
  "ses_base (stock_modify m r s) = ses_base s" "ses_gone (stock_modify m r s) = ses_gone s"
  by (simp_all add: stock_modify_def)

lemma validate_epc_Inr:
  assumes "validate_transferable_epc_stock now tn origin epc loc pool s = Inr (row, s')"
    and k: "stock_kept s"
  obtains r where "r \<in> set (ses_base s)" "si_tenant_id r = tn" "si_epc r = Some epc"
    "row = identity si_id s' r" "stock_kept s'" "ses_base s' = ses_base s" "ses_gone s' = ses_gone s"
    "stock_identity row = stock_identity r" "si_store_id row = Some origin"
    "si_status row \<noteq> Some ''SOLD''" "falsy loc \<or> si_location_code row = loc"
    "falsy pool \<or> si_pool row = pool"
    "\<And>r'. si_id r' \<noteq> si_id r \<Longrightarrow> identity si_id s' r' = identity si_id s r'"
    "si_location_code row = si_location_code (identity si_id s r)"
    "si_pool row = si_pool (identity si_id s r)"
    "si_location_is_vendible row = si_location_is_vendible (identity si_id s r)"
    "si_store_id (identity si_id s r) \<in> {None, Some origin}"
proof -
  from assms(1) obtain row0 where row0: "select_first si_id
      (\<lambda>r. si_tenant_id r = tn \<and> si_epc r = Some epc) s = Some row0"
    by (auto simp: validate_transferable_epc_stock_def split: option.splits)
  obtain r where r: "r \<in> set (ses_base s)" "si_tenant_id r = tn" "si_epc r = Some epc"
    "row0 = identity si_id s r" "si_id row0 = si_id r"
    "stock_identity row0 = stock_identity r"
    using moves.select_first_kept [OF k row0] by auto
  define s1 where "s1 = (if si_store_id row0 = None then stock_modify (claim_move origin now) row0 s else s)"
  have row: "row = identity si_id s1 row0" "s' = s1"
    using assms(1) row0 by (auto simp: validate_transferable_epc_stock_def Let_def s1_def split: if_splits)
  have k1: "stock_kept s1"
    using moves.kept_modify [OF k r(1)] k r(4) by (simp add: s1_def stock_modify_def)
  have same: "identity si_id s1 row0 = identity si_id s1 r"
    using r(5) moves.identity_live [OF k r(1)]
    by (auto simp: s1_def stock_modify_def identity_modify r(4))
  have "identity si_id s1 r' = identity si_id s r'" if "si_id r' \<noteq> si_id r" for r'
    using that r(5) by (simp add: s1_def stock_modify_def identity_modify)
  moreover have "stock_identity row = stock_identity r"
    using k1 r(1) row same by (simp add: kept_def s1_def split: if_splits)
  moreover have "si_location_code row = si_location_code (identity si_id s r)"
    "si_pool row = si_pool (identity si_id s r)"
    "si_location_is_vendible row = si_location_is_vendible (identity si_id s r)"
    using row same r(5) moves.identity_live [OF k r(1)]
    by (simp_all add: s1_def stock_modify_def identity_modify claim_move_def r(4))
  moreover have "si_store_id (identity si_id s r) \<in> {None, Some origin}"
    using assms(1) row0 r(4) moves.identity_live [OF k r(1)] by (auto simp: validate_transferable_epc_stock_def Let_def split: if_splits)
  moreover have "si_store_id row = Some origin" "si_status row \<noteq> Some ''SOLD''"
    "falsy loc \<or> si_location_code row = loc" "falsy pool \<or> si_pool row = pool"
    using assms(1) row0 by (auto simp: validate_transferable_epc_stock_def Let_def split: if_splits)
  moreover have "ses_base s1 = ses_base s" "ses_gone s1 = ses_gone s"
    by (simp_all add: s1_def)
  ultimately show thesis using that [OF r(1-3)] row same k1 by simp
qed

lemma sku_rows_Inr:
  assumes "validate_transferable_sku_stock tn origin line loc pool s = Inr rows" and "stock_kept s"
  shows "set rows \<subseteq> identity si_id s ` {r \<in> set (ses_base s). transfer_sku_filters tn origin
      (sn_sku (lc_snapshot line)) (py_or loc (sn_location_code (lc_snapshot line)))
      (py_or pool (sn_pool (lc_snapshot line))) r}"
    and "distinct (map si_id rows)" and "1 \<le> lc_qty line \<Longrightarrow> int (length rows) = lc_qty line"
    and "1 \<le> lc_qty line \<Longrightarrow> rows \<noteq> []"
proof -
  have rows: "rows = select_oldest si_id si_created_at (transfer_sku_filters tn origin
      (sn_sku (lc_snapshot line)) (py_or loc (sn_location_code (lc_snapshot line)))
      (py_or pool (sn_pool (lc_snapshot line)))) (lc_qty line) s"
    and len: "\<not> int (length rows) < lc_qty line"
    using assms(1) by (auto simp: validate_transferable_sku_stock_def Let_def split: if_splits)
  show "set rows \<subseteq> identity si_id s ` {r \<in> set (ses_base s). transfer_sku_filters tn origin
      (sn_sku (lc_snapshot line)) (py_or loc (sn_location_code (lc_snapshot line)))
      (py_or pool (sn_pool (lc_snapshot line))) r}" "distinct (map si_id rows)"
    unfolding rows by (rule moves.select_oldest_kept [OF assms(2)])+
  have "int (length rows) \<le> max (lc_qty line) 0"
    unfolding rows by (simp add: select_oldest_def)
  with len show "1 \<le> lc_qty line \<Longrightarrow> int (length rows) = lc_qty line" by simp
  then show "1 \<le> lc_qty line \<Longrightarrow> rows \<noteq> []" by auto
qed

lemma normalize_line_Inr:
  assumes "normalize_transfer_line db now tn origin exclude line s = Inr (n, s')" and "stock_kept s"
  shows "stock_kept s'" "ses_base s' = ses_base s" "ses_gone s' = ses_gone s"
    "valid_line (nl_line_type n) (nl_qty n) (nl_snapshot n)"
    "nl_line_type n = lc_line_type line" "nl_qty n = lc_qty line"
    "nl_line_type n = EPC_line \<Longrightarrow> sn_epc (nl_snapshot n) = sn_epc (lc_snapshot line)"
proof -
  have v: "validate_transfer_snapshot line = Inr ()"
    using assms(1) by (auto simp: normalize_transfer_line_def bindr_Inr_iff)
  have q: "1 \<le> lc_qty line"
    "lc_line_type line = EPC_line \<Longrightarrow> lc_qty line = 1 \<and> \<not> falsy (sn_epc (lc_snapshot line))"
    using v by (auto simp: validate_transfer_snapshot_def Let_def bindr_Inr_iff require_Inr_iff)
  have all: "stock_kept s' \<and> ses_base s' = ses_base s \<and> ses_gone s' = ses_gone s
    \<and> valid_line (nl_line_type n) (nl_qty n) (nl_snapshot n)
    \<and> nl_line_type n = lc_line_type line \<and> nl_qty n = lc_qty line
    \<and> (nl_line_type n = EPC_line \<longrightarrow> sn_epc (nl_snapshot n) = sn_epc (lc_snapshot line))"
  proof (cases "lc_line_type line")
    case SKU_line
    then show ?thesis using assms v q by (auto simp: normalize_transfer_line_def bindr_Inr_iff valid_line_def)
  next
    case EPC_line
    then obtain epc where e: "sn_epc (lc_snapshot line) = Some epc" "epc \<noteq> []"
      using q(2) by (auto elim: not_falsyE)
    from assms(1) EPC_line v e obtain row where row:
      "validate_transferable_epc_stock now tn origin epc None None s = Inr (row, s')"
      "n = \<lparr>nl_line_type = EPC_line, nl_qty = lc_qty line, nl_snapshot = stock_snapshot_from_item row\<rparr>"
      by (auto simp: normalize_transfer_line_def bindr_Inr_iff split: option.splits)
    from row(1) assms(2) obtain r where "si_epc r = Some epc" "stock_kept s'"
      "ses_base s' = ses_base s" "ses_gone s' = ses_gone s" "stock_identity row = stock_identity r"
      by (rule validate_epc_Inr)
    moreover from this have "si_epc row = Some epc" using stock_identity_fields(4) by metis
    ultimately show ?thesis using row(2) q EPC_line e
      by (simp add: valid_line_def stock_snapshot_from_item_def)
  qed
  then show "stock_kept s'" "ses_base s' = ses_base s" "ses_gone s' = ses_gone s"
    "valid_line (nl_line_type n) (nl_qty n) (nl_snapshot n)"
    "nl_line_type n = lc_line_type line" "nl_qty n = lc_qty line"
    "nl_line_type n = EPC_line \<Longrightarrow> sn_epc (nl_snapshot n) = sn_epc (lc_snapshot line)"
    by blast+
qed

text \<open>The EPCs of a list of lines, in order.\<close>

definition epcs_of :: "(line_type \<times> line_snapshot) list \<Rightarrow> string list" where
  "epcs_of xs = [the (sn_epc sn). (ty, sn) \<leftarrow> xs, ty = EPC_line]"

lemma normalize_lines_Inr:
  assumes "normalize_transfer_lines db now tn origin exclude seen lines s = Inr (ns, s')"
    and "stock_kept s"
  shows "stock_kept s' \<and> ses_base s' = ses_base s \<and> ses_gone s' = ses_gone s
    \<and> (\<forall>n \<in> set ns. valid_line (nl_line_type n) (nl_qty n) (nl_snapshot n))
    \<and> length ns = length lines
    \<and> distinct (epcs_of (map (\<lambda>n. (nl_line_type n, nl_snapshot n)) ns))
    \<and> py_strip ` set (epcs_of (map (\<lambda>n. (nl_line_type n, nl_snapshot n)) ns)) \<inter> seen = {}"
  using assms
proof (induction lines arbitrary: seen s ns)
  case Nil
  then show ?case by (simp add: epcs_of_def)
next
  case (Cons line rest)
  let ?e = "py_strip (or_empty (sn_epc (lc_snapshot line)))"
  let ?seen = "if lc_line_type line = EPC_line then insert ?e seen else seen"
  from Cons.prems(1) obtain n s1 ns1 where
    ns: "ns = n # ns1" and
    n: "normalize_transfer_line db now tn origin exclude line s = Inr (n, s1)" and
    rest: "normalize_transfer_lines db now tn origin exclude ?seen rest s1 = Inr (ns1, s')" and
    fresh: "\<not> (lc_line_type line = EPC_line \<and> ?e \<in> seen)"
    by (auto simp: Let_def res_simps split: if_splits)
  note N = normalize_line_Inr [OF n Cons.prems(2)]
  have IH: "stock_kept s' \<and> ses_base s' = ses_base s1 \<and> ses_gone s' = ses_gone s1
    \<and> (\<forall>n \<in> set ns1. valid_line (nl_line_type n) (nl_qty n) (nl_snapshot n))
    \<and> length ns1 = length rest
    \<and> distinct (epcs_of (map (\<lambda>n. (nl_line_type n, nl_snapshot n)) ns1))
    \<and> py_strip ` set (epcs_of (map (\<lambda>n. (nl_line_type n, nl_snapshot n)) ns1)) \<inter> ?seen = {}"
    by (rule Cons.IH [OF rest N(1)])
  show ?case
  proof (cases "nl_line_type n")
    case SKU_line
    then show ?thesis using IH N ns by (auto simp: epcs_of_def)
  next
    case EPC_line
    then have "sn_epc (nl_snapshot n) = Some (or_empty (sn_epc (lc_snapshot line)))"
      using N(4,7) by (auto simp: valid_line_def or_empty_def elim: not_falsyE)
    then have "epcs_of (map (\<lambda>n. (nl_line_type n, nl_snapshot n)) ns) =
        or_empty (sn_epc (lc_snapshot line)) # epcs_of (map (\<lambda>n. (nl_line_type n, nl_snapshot n)) ns1)"
      using EPC_line ns by (simp add: epcs_of_def)
    then show ?thesis using IH N ns fresh EPC_line by auto
  qed
qed

lemma revalidate_Inr:
  assumes "revalidate_existing_draft_lines db now tn origin tid lines s = Inr s'" and "stock_kept s"
  shows "stock_kept s' \<and> ses_base s' = ses_base s \<and> ses_gone s' = ses_gone s"
proof (rule for_each_inv [OF assms(1) [unfolded revalidate_existing_draft_lines_def],
    of "\<lambda>s1. stock_kept s1 \<and> ses_base s1 = ses_base s \<and> ses_gone s1 = ses_gone s"])
  fix s0 line s1 assume I: "stock_kept s0 \<and> ses_base s0 = ses_base s \<and> ses_gone s0 = ses_gone s"
    and r: "revalidate_line db now tn origin tid s0 line = Inr s1"
  show "stock_kept s1 \<and> ses_base s1 = ses_base s \<and> ses_gone s1 = ses_gone s"
  proof (cases "tl_line_type line")
    case SKU_line
    then show ?thesis using r I by (auto simp: revalidate_line_def bindr_Inr_iff)
  next
    case EPC_line
    then obtain row where "validate_transferable_epc_stock now tn origin
        (the (sn_epc (tl_snapshot line))) (sn_location_code (tl_snapshot line))
        (sn_pool (tl_snapshot line)) s0 = Inr (row, s1)"
      using r by (auto simp: revalidate_line_def Let_def res_simps split: if_splits option.splits)
    then show ?thesis using I by (auto elim!: validate_epc_Inr)
  qed
qed (simp add: assms(2))

end
