(* ===== verification/Transfer_Invariants.thy ===== *)
theory Transfer_Invariants
  imports Transfer_Steps
begin

text \<open>
  Transfers, the steps and the invariants of every reachable state: well-formed tables, the
  books of each transfer (its status against the movement ledger), and that an EPC is in flight
  in one transfer only.
\<close>

section \<open>Steps\<close>

text \<open>\<^verbatim>\<open>uuid4\<close> values are new, distinct and not empty.\<close>

definition fresh_ids :: "request_env \<Rightarrow> transfer_db \<Rightarrow> bool" where
  "fresh_ids env db \<longleftrightarrow> inj (rq_fresh env) \<and> [] \<notin> range (rq_fresh env)
    \<and> range (rq_fresh env) \<inter> (tr_id ` set (t_transfers db) \<union> tl_id ` set (t_lines db)) = {}"

text \<open>The predicate \<open>ok\<close> restricts the calls; other components change the stock and the stores
  at will.\<close>

inductive transfer_step ::
    "(transfer_call \<Rightarrow> bool) \<Rightarrow> transfer_db \<Rightarrow> transfer_db \<Rightarrow> bool" for ok where
  call: "ok c \<Longrightarrow> fresh_ids env db \<Longrightarrow> transfer_body env c tn u db = Inr (db', re) \<Longrightarrow>
    transfer_step ok db db'"
| other: "distinct (map si_id stk) \<Longrightarrow> transfer_step ok db (db\<lparr>t_stock := stk, t_stores := sts\<rparr>)"

inductive transfer_reachable :: "(transfer_call \<Rightarrow> bool) \<Rightarrow> transfer_db \<Rightarrow> bool" for ok where
  start: "distinct (map si_id stk) \<Longrightarrow> transfer_reachable ok
    \<lparr>t_stores = sts, t_stock = stk, t_transfers = [], t_lines = [], t_movements = []\<rparr>"
| step: "transfer_reachable ok db \<Longrightarrow> transfer_step ok db db' \<Longrightarrow> transfer_reachable ok db'"

section \<open>The invariants\<close>

definition books :: "transfer_db \<Rightarrow> transfer \<Rightarrow> bool" where
  "books db t \<longleftrightarrow>
    (tr_status t = DRAFT \<longrightarrow> get_movements db (tr_id t) = [])
    \<and> (tr_received_at t \<noteq> None \<longleftrightarrow> tr_status t = RECEIVED)
    \<and> (tr_status t \<in> {DISPATCHED, PARTIAL_RECEIVED, RECEIVED} \<longrightarrow>
        (\<forall>l \<in> set (get_lines db (tr_id t)). ledger db (tr_id t) (tl_id l) DISPATCH = tl_qty l))
    \<and> (tr_status t = RECEIVED \<longrightarrow>
        (\<forall>l \<in> set (get_lines db (tr_id t)). ledger_outstanding db (tr_id t) (tl_id l) \<le> 0))
    \<and> (receivable (tr_status t) \<longrightarrow>
        (\<exists>l \<in> set (get_lines db (tr_id t)). 0 < ledger_outstanding db (tr_id t) (tl_id l)))
    \<and> (tr_status t = DISPATCHED \<longrightarrow> (\<forall>l. ledger db (tr_id t) l RECEIVE = 0))"

definition line_tables :: "transfer_db \<Rightarrow> bool" where
  "line_tables db \<longleftrightarrow>
    distinct (map si_id (t_stock db)) \<and> distinct (map tr_id (t_transfers db))
    \<and> distinct (map tl_id (t_lines db)) \<and> [] \<notin> tr_id ` set (t_transfers db)
    \<and> (\<forall>l \<in> set (t_lines db). \<exists>t \<in> set (t_transfers db).
        tr_id t = tl_transfer_id l \<and> tr_tenant_id t = tl_tenant_id l)
    \<and> (\<forall>l \<in> set (t_lines db). valid_line (tl_line_type l) (tl_qty l) (tl_snapshot l))
    \<and> (\<forall>m \<in> set (t_movements db). 1 \<le> tm_qty m \<and> (\<exists>l \<in> set (t_lines db).
        tl_id l = tm_transfer_line_id m \<and> tl_transfer_id l = tm_transfer_id m))
    \<and> (\<forall>t \<in> set (t_transfers db). distinct (epcs_of
        (map (\<lambda>l. (tl_line_type l, tl_snapshot l)) (get_lines db (tr_id t)))))"

definition transfer_inv :: "transfer_db \<Rightarrow> bool" where
  "transfer_inv db \<longleftrightarrow> line_tables db \<and> (\<forall>t \<in> set (t_transfers db). books db t)"

lemma transfer_inv_simps:
  assumes "transfer_inv db"
  shows "distinct (map si_id (t_stock db))" "distinct (map tr_id (t_transfers db))"
    "distinct (map tl_id (t_lines db))"
    "t \<in> set (t_transfers db) \<Longrightarrow> books db t"
    "stock_kept (open_session (t_stock db))"
    "l \<in> set (t_lines db) \<Longrightarrow> valid_line (tl_line_type l) (tl_qty l) (tl_snapshot l)"
  using assms by (auto simp: transfer_inv_def line_tables_def intro: moves.kept_open)

section \<open>Frames\<close>

lemma get_lines_act [simp]: "get_lines (act t' s ms db) i = get_lines db i"
  by (simp add: get_lines_def)

lemma get_movements_act:
  assumes "records_for t lines ms"
  shows "get_movements (act t' s ms db) i =
    get_movements db i @ (if i = tr_id t then ms else [])"
  using assms by (auto simp: get_movements_def records_for_def filter_empty_conv intro: filter_True)

lemma ledger_act:
  "records_for t lines ms \<Longrightarrow> ledger (act t' s ms db) i l a =
    ledger db i l a + (if i = tr_id t then ledger_of ms l a else 0)"
  by (auto simp: ledger_def get_movements_act)

lemma books_cong:
  assumes "get_lines db' (tr_id t) = get_lines db (tr_id t)"
    and "get_movements db' (tr_id t) = get_movements db (tr_id t)"
  shows "books db' t = books db t"
  using assms by (simp add: books_def ledger_def ledger_outstanding_def)

lemma act_transfer_ids [simp]:
  "tr_id t' = tr_id t \<Longrightarrow> map tr_id (t_transfers (act t' s ms db)) = map tr_id (t_transfers db)"
  by simp

lemma records_for_line:
  assumes "records_for t (get_lines db (tr_id t)) ms" and "m \<in> set ms"
  shows "1 \<le> tm_qty m \<and> (\<exists>l \<in> set (t_lines db). tl_id l = tm_transfer_line_id m
    \<and> tl_transfer_id l = tm_transfer_id m)"
proof -
  have "tm_transfer_line_id m \<in> tl_id ` set (get_lines db (tr_id t))"
    and "tm_transfer_id m = tr_id t" "1 \<le> tm_qty m"
    using assms by (simp_all add: records_for_def)
  then show ?thesis by (auto simp: get_lines_def)
qed

lemma act_inv:
  assumes I: "transfer_inv db" and t: "t \<in> set (t_transfers db)"
    and t': "tr_id t' = tr_id t" "tr_tenant_id t' = tr_tenant_id t"
    and ms: "records_for t (get_lines db (tr_id t)) ms"
    and s: "stock_kept s" "ses_base s = t_stock db"
    and b: "books (act t' s ms db) t'"
  shows "transfer_inv (act t' s ms db)"
proof -
  have L: "line_tables db" and B: "\<forall>x \<in> set (t_transfers db). books db x"
    using I by (auto simp: transfer_inv_def)
  have tables: "line_tables (act t' s ms db)"
    unfolding line_tables_def
  proof (intro conjI)
    show "distinct (map si_id (t_stock (act t' s ms db)))"
      using moves.commit_distinct [OF s(1)] by simp
    have ids: "map tr_id (t_transfers (act t' s ms db)) = map tr_id (t_transfers db)"
      by (auto simp: t')
    show "distinct (map tr_id (t_transfers (act t' s ms db)))"
      unfolding ids using L by (simp add: line_tables_def)
    have "tr_id ` set (t_transfers (act t' s ms db)) = tr_id ` set (t_transfers db)"
      using arg_cong [OF ids, of set] by (simp only: list.set_map)
    then show "[] \<notin> tr_id ` set (t_transfers (act t' s ms db))"
      using L by (simp add: line_tables_def)
    show "distinct (map tl_id (t_lines (act t' s ms db)))" using L by (simp add: line_tables_def)
    show "\<forall>l \<in> set (t_lines (act t' s ms db)). \<exists>x \<in> set (t_transfers (act t' s ms db)).
        tr_id x = tl_transfer_id l \<and> tr_tenant_id x = tl_tenant_id l"
    proof
      fix l assume "l \<in> set (t_lines (act t' s ms db))"
      then obtain x where x: "x \<in> set (t_transfers db)" "tr_id x = tl_transfer_id l"
        "tr_tenant_id x = tl_tenant_id l" using L by (auto simp: line_tables_def)
      show "\<exists>x \<in> set (t_transfers (act t' s ms db)).
          tr_id x = tl_transfer_id l \<and> tr_tenant_id x = tl_tenant_id l"
      proof (cases "tr_id x = tr_id t")
        case True
        then have "x = t" using key_unique [of tr_id "t_transfers db" x t] x(1) t L
          by (simp add: line_tables_def)
        then show ?thesis using x t t' by (intro bexI [of _ t']) auto
      next
        case False
        then show ?thesis using x t' by (intro bexI [of _ x]) (auto simp: image_iff)
      qed
    qed
    show "\<forall>l \<in> set (t_lines (act t' s ms db)). valid_line (tl_line_type l) (tl_qty l) (tl_snapshot l)"
      using L by (simp add: line_tables_def)
    show "\<forall>m \<in> set (t_movements (act t' s ms db)). 1 \<le> tm_qty m \<and> (\<exists>l \<in> set (t_lines (act t' s ms db)).
        tl_id l = tm_transfer_line_id m \<and> tl_transfer_id l = tm_transfer_id m)"
      using L records_for_line [OF ms] by (simp add: line_tables_def) blast
    show "\<forall>x \<in> set (t_transfers (act t' s ms db)). distinct (epcs_of
        (map (\<lambda>l. (tl_line_type l, tl_snapshot l)) (get_lines (act t' s ms db) (tr_id x))))"
      using L t t' by (auto simp: line_tables_def)
  qed
  have "books (act t' s ms db) x" if x: "x \<in> set (t_transfers db)" "tr_id x \<noteq> tr_id t" for x
  proof -
    have "books (act t' s ms db) x = books db x"
      by (rule books_cong) (simp_all add: get_movements_act [OF ms] x(2))
    with x B show ?thesis by simp
  qed
  with tables b t' show ?thesis by (auto simp: transfer_inv_def)
qed

section \<open>The sessions of the actions\<close>

definition session_ok :: "transfer_db \<Rightarrow> stock_item session \<Rightarrow> bool" where
  "session_ok db s \<longleftrightarrow> stock_kept s \<and> ses_base s = t_stock db"

lemma session_ok_modify:
  "session_ok db s \<Longrightarrow> r \<in> set (ses_base s) \<Longrightarrow> session_ok db (stock_modify m (identity si_id s r) s)"
  by (simp add: session_ok_def stock_modify_def moves.kept_modify)

lemma session_ok_move_oldest:
  "session_ok db s \<Longrightarrow>
    session_ok db (modify_all si_id (apply_move m) (select_oldest si_id si_created_at P n s) s)"
  using moves.select_oldest_kept [of s si_created_at P n]
  by (auto simp: session_ok_def intro!: moves.kept_modify_all)

lemma session_ok_move_first:
  assumes "session_ok db s" and "select_first si_id P s = Some row"
  shows "session_ok db (stock_modify m row s)"
  using moves.select_first_kept [of s P row] assms session_ok_modify
  by (metis session_ok_def)

lemma sku_rows_of_line_oldest:
  "sku_rows_of_line tn origin line s = Inr rows \<Longrightarrow>
    \<exists>P. rows = select_oldest si_id si_created_at P (tl_qty line) s"
  by (auto simp: sku_rows_of_line_def validate_transferable_sku_stock_def Let_def sku_request_of_def
      split: if_splits)

lemma dispatch_line_session:
  assumes "dispatch_line now tn t (s, ms) line = Inr (s', ms')" and "session_ok db s"
  shows "session_ok db s' \<and> ses_gone s' = ses_gone s"
proof (cases "tl_line_type line")
  case SKU_line
  then obtain rows where "sku_rows_of_line tn (tr_origin_store_id t) line s = Inr rows"
    "s' = modify_all si_id (apply_move (transit_move None now)) rows s"
    using assms(1) by (auto simp: dispatch_line_def bindr_Inr_iff)
  then show ?thesis using sku_rows_of_line_oldest session_ok_move_oldest [OF assms(2)] by fastforce
next
  case EPC_line
  then obtain row s1 where v: "validate_transferable_epc_stock now tn (tr_origin_store_id t)
      (the (sn_epc (tl_snapshot line))) (sn_location_code (tl_snapshot line))
      (sn_pool (tl_snapshot line)) s = Inr (row, s1)"
    and s': "s' = stock_modify (transit_move (Some (Some (tr_origin_store_id t))) now) row s1"
    using assms(1) by (auto simp: dispatch_line_def bindr_Inr_iff split: if_splits)
  have k: "stock_kept s" using assms(2) by (simp add: session_ok_def)
  from v k show ?thesis
  proof (rule validate_epc_Inr)
    fix r assume r: "r \<in> set (ses_base s)" "row = identity si_id s1 r" "stock_kept s1"
      "ses_base s1 = ses_base s" "ses_gone s1 = ses_gone s"
    then have "session_ok db s1" using assms(2) by (simp add: session_ok_def)
    then show ?thesis using r s' session_ok_modify by simp
  qed
qed

lemma receive_one_session:
  assumes "receive_one now tn t lines d (s, ms) rl = Inr (s', ms')" and "session_ok db s"
  shows "session_ok db s' \<and> ses_gone s' = ses_gone s"
  using assms session_ok_move_oldest [OF assms(2)] session_ok_move_first [OF assms(2)]
  by (auto simp: receive_one_def Let_def res_simps split: if_splits option.splits)

lemma cancel_line_session:
  assumes "cancel_line now tn t s line = Inr s'" and "session_ok db s"
  shows "session_ok db s' \<and> ses_gone s' = ses_gone s"
  using assms session_ok_move_oldest [OF assms(2)] session_ok_move_first [OF assms(2)]
  by (auto simp: cancel_line_def Let_def res_simps split: if_splits option.splits)

lemma lose_rows_session:
  assumes "lose_rows tn t line q s = Inr s'" and "session_ok db s"
  shows "session_ok db s' \<and> ses_dirty s' = ses_dirty s"
  using assms
  by (auto simp: lose_rows_def Let_def res_simps session_ok_def moves.kept_delete_all
      moves.kept_delete_row split: if_splits option.splits)

lemma resolve_one_session:
  assumes "resolve_one tn t lines d r (s, ms) ol = Inr (s', ms')" and "session_ok db s"
  shows "session_ok db s' \<and> ses_dirty s' = ses_dirty s"
  using assms(1)
proof (rule resolve_one_Inr)
  fix line assume "r = Found_and_resend \<Longrightarrow> s' = s"
    "r = Lost_in_route \<Longrightarrow> lose_rows tn t line (ol_qty ol) s = Inr s'"
  then show ?thesis using assms(2) lose_rows_session by (cases r) auto
qed

lemma session_loop:
  assumes "for_each f (s, ms) xs = Inr (s', ms')" and "session_ok db s"
    and "\<And>s ms x s' ms'. f (s, ms) x = Inr (s', ms') \<Longrightarrow> session_ok db s \<Longrightarrow>
      session_ok db s' \<and> g s' = g s"
  shows "session_ok db s' \<and> g s' = g s"
proof -
  have "(\<lambda>(s1, ms1). session_ok db s1 \<and> g s1 = g s) (s', ms')"
    by (rule for_each_inv [OF assms(1)]) (use assms(2,3) in \<open>auto split: prod.splits\<close>)
  then show ?thesis by simp
qed

lemma cancel_session_loop:
  assumes "for_each (cancel_line now tn t) s lines = Inr s'" and "session_ok db s"
  shows "session_ok db s' \<and> ses_gone s' = ses_gone s"
  by (rule for_each_inv [OF assms(1)]) (use assms(2) cancel_line_session in auto)

lemma session_ok_open: "transfer_inv db \<Longrightarrow> session_ok db (open_session (t_stock db))"
  by (simp add: session_ok_def transfer_inv_simps)

lemma revalidate_session:
  assumes "revalidate_existing_draft_lines db now tn origin tid lines (open_session (t_stock db)) = Inr s"
    and "transfer_inv db"
  shows "session_ok db s \<and> ses_gone s = []"
  using revalidate_Inr [OF assms(1)] transfer_inv_simps(5) [OF assms(2)] by (simp add: session_ok_def)

section \<open>Each operation keeps the invariant\<close>

lemma requested_other: "l \<notin> line ` set xs \<Longrightarrow> requested line qty xs l = 0"
  by (induction xs) (auto simp: requested_def)

lemma requested_self:
  "distinct (map tl_id lines) \<Longrightarrow> l \<in> set lines \<Longrightarrow> requested tl_id f lines (tl_id l) = f l"
proof (induction lines)
  case (Cons x lines)
  have zero: "requested tl_id f lines (tl_id x) = 0"
    using Cons.prems(1) by (intro requested_other) simp
  show ?case
  proof (cases "l = x")
    case True
    then show ?thesis using zero by (simp add: requested_def)
  next
    case False
    then have "l \<in> set lines" "tl_id x \<noteq> tl_id l" using Cons.prems by auto
    then show ?thesis using Cons by (simp add: requested_def)
  qed
qed simp

lemma requested_pairs:
  "sum_list (map snd (filter (\<lambda>(l', q). l' = l) (map (\<lambda>x. (line x, qty x)) xs))) = requested line qty xs l"
  by (induction xs) (auto simp: requested_def)

lemma lines_distinct: "transfer_inv db \<Longrightarrow> distinct (map tl_id (get_lines db i))"
  using transfer_inv_simps(3) by (auto simp: get_lines_def intro: distinct_map_filter)

lemma line_valid:
  "transfer_inv db \<Longrightarrow> l \<in> set (get_lines db i) \<Longrightarrow> valid_line (tl_line_type l) (tl_qty l) (tl_snapshot l)"
  by (auto simp: get_lines_def intro: transfer_inv_simps(6))

lemma ledger_zero_no_movement:
  "ledger db i l a \<noteq> 0 \<Longrightarrow> l \<in> tm_transfer_line_id ` set (get_movements db i)"
proof (rule ccontr)
  assume nz: "ledger db i l a \<noteq> 0" and "l \<notin> tm_transfer_line_id ` set (get_movements db i)"
  then have "filter (\<lambda>m. tm_transfer_line_id m = l \<and> tm_action m = a) (get_movements db i) = []"
    by (auto simp: filter_empty_conv)
  with nz show False by (simp add: ledger_def ledger_of_def)
qed

text \<open>After the loops have added a request's quantities to the totals they read, the
  outstanding total is zero exactly when no line of the transfer has anything outstanding in the
  ledger as committed.\<close>

lemma movement_line_id:
  assumes "transfer_inv db" and "m \<in> set (get_movements db i)"
  shows "tm_transfer_line_id m \<in> tl_id ` set (get_lines db i)"
proof -
  have "m \<in> set (t_movements db)" "tm_transfer_id m = i"
    using assms(2) by (auto simp: get_movements_def)
  then obtain l where "l \<in> set (t_lines db)" "tl_id l = tm_transfer_line_id m" "tl_transfer_id l = i"
    using assms(1) by (auto simp: transfer_inv_def line_tables_def)
  then show ?thesis by (force simp: get_lines_def)
qed

lemma books_dispatched:
  "books db t \<Longrightarrow> receivable (tr_status t) \<Longrightarrow> l \<in> set (get_lines db (tr_id t)) \<Longrightarrow>
    ledger db (tr_id t) (tl_id l) DISPATCH = tl_qty l"
  unfolding books_def receivable_def by blast

lemma books_not_received: "books db t \<Longrightarrow> receivable (tr_status t) \<Longrightarrow> tr_received_at t = None"
  by (auto simp: books_def receivable_def)

lemma outstanding_after:
  fixes line :: "'x \<Rightarrow> uuid"
  assumes I: "transfer_inv db" and t: "t \<in> set (t_transfers db)" and st: "receivable (tr_status t)"
    and ms: "map profile ms = map (\<lambda>x. (tr_id t, line x, a, qty x)) xs"
    and xs: "\<forall>x \<in> set xs. 1 \<le> qty x \<and> line x \<in> tl_id ` set (get_lines db (tr_id t))"
  shows "outstanding_total (add_totals a (get_movement_totals db (tr_id t)) (map (\<lambda>x. (line x, qty x)) xs)) = 0
    \<longleftrightarrow> (\<forall>l \<in> set (get_lines db (tr_id t)). ledger_outstanding (act t' s ms db) (tr_id t) (tl_id l) \<le> 0)"
proof -
  let ?d = "get_movement_totals db (tr_id t)" and ?xs = "map (\<lambda>x. (line x, qty x)) xs"
  let ?d' = "add_totals a ?d ?xs"
  have rec: "records_for t (get_lines db (tr_id t)) ms" by (rule profile_records [OF ms xs])
  have dist: "distinct (map fst ?d')" and keys: "fst ` set ?d' = fst ` set ?d \<union> line ` set xs"
    using add_totals_keys [OF movement_totals_keys(1), of a db "tr_id t" ?xs] by (auto simp: image_image)
  have tot: "total_of ?d' l b = ledger (act t' s ms db) (tr_id t) l b" for l b
    by (simp add: add_totals_total get_movement_totals_ledger ledger_act [OF rec]
        profile_ledger [OF ms] requested_pairs)
  have D: "ledger db (tr_id t) (tl_id l) DISPATCH \<noteq> 0" if "l \<in> set (get_lines db (tr_id t))" for l
  proof -
    have "ledger db (tr_id t) (tl_id l) DISPATCH = tl_qty l"
      by (rule books_dispatched [OF transfer_inv_simps(4) [OF I t] st that])
    moreover have "1 \<le> tl_qty l" using line_valid [OF I that] by (simp add: valid_line_def)
    ultimately show ?thesis by simp
  qed
  have "fst ` set ?d' = tl_id ` set (get_lines db (tr_id t))"
  proof
    show "fst ` set ?d' \<subseteq> tl_id ` set (get_lines db (tr_id t))"
      using xs movement_line_id [OF I] unfolding keys movement_totals_keys(2) by auto
    show "tl_id ` set (get_lines db (tr_id t)) \<subseteq> fst ` set ?d'"
      unfolding keys movement_totals_keys(2) using D ledger_zero_no_movement by blast
  qed
  then show ?thesis
    by (simp add: outstanding_total_zero_iff [OF dist] outstanding_of_total tot ledger_outstanding_def)
qed

lemma books_active:
  assumes "receivable (tr_status t)" and "tr_received_at t = None"
    and "\<And>l. l \<in> set (get_lines db (tr_id t)) \<Longrightarrow> ledger db (tr_id t) (tl_id l) DISPATCH = tl_qty l"
    and "\<exists>l \<in> set (get_lines db (tr_id t)). 0 < ledger_outstanding db (tr_id t) (tl_id l)"
    and "\<And>l. tr_status t = DISPATCHED \<Longrightarrow> ledger db (tr_id t) l RECEIVE = 0"
  shows "books db t"
  using assms by (auto simp: books_def receivable_def)

lemma books_received:
  assumes "tr_status t = RECEIVED" and "tr_received_at t \<noteq> None"
    and "\<And>l. l \<in> set (get_lines db (tr_id t)) \<Longrightarrow> ledger db (tr_id t) (tl_id l) DISPATCH = tl_qty l"
    and "\<And>l. l \<in> set (get_lines db (tr_id t)) \<Longrightarrow> ledger_outstanding db (tr_id t) (tl_id l) \<le> 0"
  shows "books db t"
  using assms by (auto simp: books_def receivable_def)

lemma dispatch_inv:
  assumes I: "transfer_inv db" and t: "t \<in> set (t_transfers db)"
    and d: "dispatch_action env tn u t db = Inr (db', re)"
  shows "transfer_inv db'"
  using d
proof (rule dispatch_effect)
  fix s s' ms
  let ?lines = "get_lines db (tr_id t)"
  let ?t' = "touch env u (t\<lparr>tr_status := DISPATCHED, tr_dispatched_by_user_id := Some (us_id u),
      tr_dispatched_at := Some (rq_now env)\<rparr>)"
  let ?q = "\<lambda>l. if tl_line_type l = EPC_line then 1 else tl_qty l"
  assume draft: "tr_status t = DRAFT" and ne: "?lines \<noteq> []"
    and v: "revalidate_existing_draft_lines db (rq_now env) tn (tr_origin_store_id t) (tr_id t)
      ?lines (open_session (t_stock db)) = Inr s"
    and l: "for_each (dispatch_line (rq_now env) tn t) (s, []) ?lines = Inr (s', ms)"
    and db': "db' = act ?t' s' ms db"
  note ms = dispatch_loop [OF l]
  have q: "\<forall>x \<in> set ?lines. 1 \<le> ?q x \<and> tl_id x \<in> tl_id ` set ?lines" and qty: "\<And>x. x \<in> set ?lines \<Longrightarrow> ?q x = tl_qty x"
    using line_valid [OF I] by (auto simp: valid_line_def)
  have rec: "records_for t ?lines ms" by (rule profile_records [OF ms q])
  have s': "session_ok db s'"
    using session_loop [OF l, of db ses_gone] revalidate_session [OF v I] dispatch_line_session by blast
  have b0: "books db t" using transfer_inv_simps(4) [OF I t] .
  have led: "ledger db' (tr_id t) k a = (if a = DISPATCH then requested tl_id ?q ?lines k else 0)" for k a
    using b0 draft by (simp add: db' ledger_act [OF rec] profile_ledger [OF ms] books_def)
      (simp add: ledger_def)
  have D: "ledger db' (tr_id t) (tl_id x) DISPATCH = tl_qty x" if "x \<in> set ?lines" for x
    using that qty requested_self [OF lines_distinct [OF I]] by (simp add: led)
  have gl: "get_lines db' (tr_id t) = ?lines" by (simp add: db')
  have t': "tr_id ?t' = tr_id t" "tr_tenant_id ?t' = tr_tenant_id t" "tr_status ?t' = DISPATCHED"
    "tr_received_at ?t' = tr_received_at t" by (simp_all add: touch_def)
  have h: "hd ?lines \<in> set ?lines" using ne by simp
  then have "1 \<le> tl_qty (hd ?lines)" using line_valid [OF I] by (auto simp: valid_line_def)
  then have out: "0 < ledger_outstanding db' (tr_id t) (tl_id (hd ?lines))"
    using D [OF h] led [of _ RECEIVE] led [of _ SHORTAGE_RESOLVED_LOST_IN_ROUTE]
    by (simp add: ledger_outstanding_def)
  have "books db' ?t'"
  proof (rule books_active; unfold t' gl)
    show "receivable DISPATCHED" by (simp add: receivable_def)
    show "tr_received_at t = None" using b0 draft by (simp add: books_def)
    show "\<exists>l \<in> set ?lines. 0 < ledger_outstanding db' (tr_id t) (tl_id l)" using h out by blast
  qed (use D led in simp_all)
  then show ?thesis
    unfolding db' using s' t' by (intro act_inv [OF I t _ _ rec]) (simp_all add: session_ok_def)
qed

text \<open>The three actions on a dispatched transfer.\<close>

lemma progress_inv:
  fixes line :: "'x \<Rightarrow> uuid"
  assumes I: "transfer_inv db" and t: "t \<in> set (t_transfers db)" and st: "receivable (tr_status t)"
    and ms: "map profile ms = map (\<lambda>x. (tr_id t, line x, a, qty x)) xs" and a: "a \<noteq> DISPATCH"
    and xs: "\<forall>x \<in> set xs. 1 \<le> qty x \<and> line x \<in> tl_id ` set (get_lines db (tr_id t))"
    and s: "session_ok db s"
    and t': "tr_id t' = tr_id t" "tr_tenant_id t' = tr_tenant_id t"
    and cases: "(tr_status t' = RECEIVED \<and> tr_received_at t' \<noteq> None
        \<and> outstanding_total (add_totals a (get_movement_totals db (tr_id t)) (map (\<lambda>x. (line x, qty x)) xs)) = 0)
      \<or> (tr_received_at t' = tr_received_at t
        \<and> (tr_status t' = PARTIAL_RECEIVED \<or> a \<noteq> RECEIVE \<and> tr_status t' = tr_status t)
        \<and> (outstanding_total (add_totals a (get_movement_totals db (tr_id t)) (map (\<lambda>x. (line x, qty x)) xs)) \<noteq> 0
           \<or> a \<noteq> SHORTAGE_RESOLVED_LOST_IN_ROUTE \<and> a \<noteq> RECEIVE))"
  shows "transfer_inv (act t' s ms db)"
proof (rule act_inv [OF I t t'])
  let ?lines = "get_lines db (tr_id t)" and ?db' = "act t' s ms db"
  show rec: "records_for t ?lines ms" by (rule profile_records [OF ms xs])
  show "stock_kept s" "ses_base s = t_stock db" using s by (simp_all add: session_ok_def)
  have b: "books db t" using transfer_inv_simps(4) [OF I t] .
  have led: "ledger ?db' (tr_id t) l b = ledger db (tr_id t) l b
      + (if b = a then requested line qty xs l else 0)" for l b
    by (simp add: ledger_act [OF rec] profile_ledger [OF ms])
  have D: "ledger ?db' (tr_id t) (tl_id l) DISPATCH = tl_qty l" if "l \<in> set ?lines" for l
    using books_dispatched [OF b st that] a by (simp add: led)
  note after = outstanding_after [OF I t st ms xs, of t' s]
  have gl: "get_lines ?db' (tr_id t) = ?lines" by simp
  from cases show "books ?db' t'"
  proof (elim disjE)
    assume c: "tr_status t' = RECEIVED \<and> tr_received_at t' \<noteq> None
      \<and> outstanding_total (add_totals a (get_movement_totals db (tr_id t)) (map (\<lambda>x. (line x, qty x)) xs)) = 0"
    show ?thesis
    proof (rule books_received)
      show "ledger_outstanding ?db' (tr_id t') (tl_id l) \<le> 0"
        if "l \<in> set (get_lines ?db' (tr_id t'))" for l
        using that c after unfolding t' gl by blast
    qed (use c D t' in auto)
  next
    assume c: "tr_received_at t' = tr_received_at t
        \<and> (tr_status t' = PARTIAL_RECEIVED \<or> a \<noteq> RECEIVE \<and> tr_status t' = tr_status t)
        \<and> (outstanding_total (add_totals a (get_movement_totals db (tr_id t)) (map (\<lambda>x. (line x, qty x)) xs)) \<noteq> 0
           \<or> a \<noteq> SHORTAGE_RESOLVED_LOST_IN_ROUTE \<and> a \<noteq> RECEIVE)"
    have out: "\<exists>l \<in> set ?lines. 0 < ledger_outstanding ?db' (tr_id t) (tl_id l)"
    proof (cases "a \<noteq> SHORTAGE_RESOLVED_LOST_IN_ROUTE \<and> a \<noteq> RECEIVE")
      case True
      then have "ledger_outstanding ?db' (tr_id t) l = ledger_outstanding db (tr_id t) l" for l
        using a by (auto simp: ledger_outstanding_def led)
      then show ?thesis using b st unfolding books_def by metis
    next
      case False
      then show ?thesis using c after by (auto simp: not_le)
    qed
    show ?thesis
    proof (rule books_active)
      show "receivable (tr_status t')" using c st by (auto simp: receivable_def)
      show "tr_received_at t' = None" using c books_not_received [OF b st] by simp
      show "ledger ?db' (tr_id t') l RECEIVE = 0" if "tr_status t' = DISPATCHED" for l
        unfolding t' using that c b by (auto simp: led books_def)
      show "\<exists>l \<in> set (get_lines ?db' (tr_id t')). 0 < ledger_outstanding ?db' (tr_id t') (tl_id l)"
        using out unfolding t' gl .
    qed (use D t' in auto)
  qed
qed

lemma receive_inv:
  assumes I: "transfer_inv db" and t: "t \<in> set (t_transfers db)"
    and d: "receive_action env tn u t rls db = Inr (db', re)"
  shows "transfer_inv db'"
  using d
proof (rule receive_effect)
  fix xs s ms t'
  assume st: "receivable (tr_status t)"
    and l: "for_each (receive_one (rq_now env) tn t (get_lines db (tr_id t))
      (get_movement_totals db (tr_id t))) (open_session (t_stock db), []) xs = Inr (s, ms)"
    and t': "t' = touch env u (if outstanding_total (add_totals RECEIVE (get_movement_totals db (tr_id t))
        (map (\<lambda>rl. (rl_line_id rl, rl_qty rl)) xs)) = 0
      then t\<lparr>tr_status := RECEIVED, tr_received_at := Some (rq_now env)\<rparr>
      else t\<lparr>tr_status := PARTIAL_RECEIVED\<rparr>)"
    and db': "db' = act t' s ms db"
  have "session_ok db s"
    using session_loop [OF l, of db ses_gone] session_ok_open [OF I] receive_one_session by blast
  then show ?thesis
    unfolding db' using receive_loop(2) [OF l]
    by (intro progress_inv [OF I t st receive_loop(1) [OF l]]) (auto simp: t' touch_def)
qed

lemma report_inv:
  assumes I: "transfer_inv db" and t: "t \<in> set (t_transfers db)"
    and d: "report_shortages_action env tn u t sls db = Inr (db', re)"
  shows "transfer_inv db'"
  using d
proof (rule report_effect)
  fix xs ms
  assume st: "receivable (tr_status t)"
    and l: "for_each (report_one tn t (get_lines db (tr_id t)) (get_movement_totals db (tr_id t))) [] xs
      = Inr ms"
    and db': "db' = act (touch env u t) (open_session (t_stock db)) ms db"
  show ?thesis
    unfolding db' using report_loop(2) [OF l] session_ok_open [OF I]
    by (intro progress_inv [OF I t st report_loop(1) [OF l]]) (auto simp: touch_def)
qed

lemma resolve_inv:
  assumes I: "transfer_inv db" and t: "t \<in> set (t_transfers db)"
    and d: "resolve_shortages_action env tn u t rs db = Inr (db', re)"
  shows "transfer_inv db'"
  using d
proof (rule resolve_effect)
  fix r xs s ms t'
  assume st: "receivable (tr_status t)"
    and l: "for_each (resolve_one tn t (get_lines db (tr_id t)) (get_movement_totals db (tr_id t)) r)
      (open_session (t_stock db), []) xs = Inr (s, ms)"
    and t': "t' = touch env u (if outstanding_total (add_totals (resolution_action r)
        (get_movement_totals db (tr_id t)) (map (\<lambda>ol. (ol_line_id ol, ol_qty ol)) xs)) = 0
      then t\<lparr>tr_status := RECEIVED, tr_received_at := Some (rq_now env)\<rparr> else t)"
    and db': "db' = act t' s ms db"
  have "session_ok db s"
    using session_loop [OF l, of db ses_dirty] session_ok_open [OF I] resolve_one_session by blast
  moreover have "resolution_action r \<noteq> DISPATCH" "resolution_action r \<noteq> RECEIVE"
    by (cases r; simp add: resolution_action_def)+
  ultimately show ?thesis
    unfolding db' using resolve_loop(2) [OF l]
    by (intro progress_inv [OF I t st resolve_loop(1) [OF l]]) (auto simp: t' touch_def)
qed

lemma cancel_inv:
  assumes I: "transfer_inv db" and t: "t \<in> set (t_transfers db)"
    and d: "cancel_action env tn u t db = Inr (db', re)"
  shows "transfer_inv db'"
  using d
proof (rule cancel_effect)
  fix s
  assume st: "tr_status t = DRAFT \<or> tr_status t = DISPATCHED"
    and s1: "tr_status t = DRAFT \<Longrightarrow> s = open_session (t_stock db)"
    and s2: "tr_status t = DISPATCHED \<Longrightarrow> for_each (cancel_line (rq_now env) tn t)
      (open_session (t_stock db)) (get_lines db (tr_id t)) = Inr s"
    and db': "db' = act (touch env u (t\<lparr>tr_status := CANCELED, tr_canceled_by_user_id := Some (us_id u),
      tr_canceled_at := Some (rq_now env)\<rparr>)) s [] db"
  have "session_ok db s"
    using st s1 cancel_session_loop [OF s2 session_ok_open [OF I]] session_ok_open [OF I] by auto
  moreover have "tr_received_at t = None"
    using st transfer_inv_simps(4) [OF I t] by (auto simp: books_def)
  ultimately show ?thesis
    unfolding db' by (intro act_inv [OF I t]) (auto simp: session_ok_def touch_def books_def receivable_def)
qed

text \<open>Lines replaced or added for one transfer, whose movements are none.\<close>

lemma new_lines_inv:
  assumes I: "transfer_inv db" and f: "fresh_ids env db"
    and none: "get_movements db (tr_id t') = []" and draft: "tr_status t' = DRAFT" "tr_received_at t' = None"
    and idt: "tr_id t' \<noteq> []" and s: "stock_kept s"
    and ids: "distinct (map tr_id ts)" "[] \<notin> tr_id ` set ts" "t' \<in> set ts"
      "\<And>x. x \<in> set ts \<Longrightarrow> tr_id x \<noteq> tr_id t' \<Longrightarrow> x \<in> set (t_transfers db)"
      "\<And>x. x \<in> set (t_transfers db) \<Longrightarrow> tr_id x \<noteq> tr_id t' \<Longrightarrow> x \<in> set ts"
    and ns: "\<forall>n \<in> set ns. valid_line (nl_line_type n) (nl_qty n) (nl_snapshot n)"
      "distinct (epcs_of (map (\<lambda>n. (nl_line_type n, nl_snapshot n)) ns))"
    and db': "db' = \<lparr>t_stores = t_stores db, t_stock = commit si_id s, t_transfers = ts,
      t_lines = filter (\<lambda>l. tl_transfer_id l \<noteq> tr_id t') (t_lines db)
        @ build_lines (rq_fresh env) k (tr_id t') (tr_tenant_id t') now ns,
      t_movements = t_movements db\<rparr>"
  shows "transfer_inv db'"
proof -
  let ?new = "build_lines (rq_fresh env) k (tr_id t') (tr_tenant_id t') now ns"
  have L: "line_tables db" and B: "\<forall>x \<in> set (t_transfers db). books db x"
    using I by (auto simp: transfer_inv_def)
  have inj: "inj (rq_fresh env)" using f by (simp add: fresh_ids_def)
  have new: "tl_transfer_id l = tr_id t' \<and> tl_tenant_id l = tr_tenant_id t' \<and> tl_id l \<in> range (rq_fresh env)
      \<and> valid_line (tl_line_type l) (tl_qty l) (tl_snapshot l)" if "l \<in> set ?new" for l
    using build_lines_fields [OF that] ns(1) by auto
  have gm: "get_movements db' i = get_movements db i" for i by (simp add: get_movements_def db')
  have gl_new: "get_lines db' (tr_id t') = ?new"
    using new by (auto simp: get_lines_def db' filter_empty_conv intro: filter_True)
  have gl: "get_lines db' i = get_lines db i" if "i \<noteq> tr_id t'" for i
    using that new by (auto simp: get_lines_def db' filter_empty_conv intro!: filter_cong)
  have "map (\<lambda>l. (tl_line_type l, tl_snapshot l)) (build_lines (rq_fresh env) k i tn now ns) =
      map (\<lambda>n. (nl_line_type n, nl_snapshot n)) ns" for i tn
    by (induction ns arbitrary: k) simp_all
  then have epcs: "distinct (epcs_of (map (\<lambda>l. (tl_line_type l, tl_snapshot l)) ?new))"
    using ns(2) by simp
  have tables: "line_tables db'"
    unfolding line_tables_def
  proof (intro conjI)
    show "distinct (map si_id (t_stock db'))" using moves.commit_distinct [OF s] by (simp add: db')
    show "distinct (map tr_id (t_transfers db'))" "[] \<notin> tr_id ` set (t_transfers db')"
      using ids(1,2) by (simp_all add: db')
    have "distinct (map tl_id (filter (\<lambda>l. tl_transfer_id l \<noteq> tr_id t') (t_lines db)))"
      using L by (simp add: line_tables_def distinct_map_filter)
    moreover have "tl_id ` set ?new \<inter> tl_id ` set (t_lines db) = {}"
      using new f by (fastforce simp: fresh_ids_def)
    ultimately show "distinct (map tl_id (t_lines db'))"
      using build_lines_distinct [OF inj] by (auto simp: db')
    show "\<forall>l \<in> set (t_lines db'). \<exists>x \<in> set (t_transfers db').
        tr_id x = tl_transfer_id l \<and> tr_tenant_id x = tl_tenant_id l"
    proof
      fix l assume "l \<in> set (t_lines db')"
      then consider "l \<in> set ?new" | "l \<in> set (t_lines db)" "tl_transfer_id l \<noteq> tr_id t'"
        by (auto simp: db')
      then show "\<exists>x \<in> set (t_transfers db'). tr_id x = tl_transfer_id l \<and> tr_tenant_id x = tl_tenant_id l"
      proof cases
        case 1
        then show ?thesis using new ids(3) by (intro bexI [of _ t']) (auto simp: db')
      next
        case 2
        then obtain x where "x \<in> set (t_transfers db)" "tr_id x = tl_transfer_id l"
          "tr_tenant_id x = tl_tenant_id l" using L by (auto simp: line_tables_def)
        then show ?thesis using 2 ids(5) by (intro bexI [of _ x]) (auto simp: db')
      qed
    qed
    show "\<forall>l \<in> set (t_lines db'). valid_line (tl_line_type l) (tl_qty l) (tl_snapshot l)"
      using L new by (auto simp: line_tables_def db')
    show "\<forall>m \<in> set (t_movements db'). 1 \<le> tm_qty m \<and> (\<exists>l \<in> set (t_lines db').
        tl_id l = tm_transfer_line_id m \<and> tl_transfer_id l = tm_transfer_id m)"
    proof
      fix m assume m: "m \<in> set (t_movements db')"
      then have "tm_transfer_id m \<noteq> tr_id t'"
        using none by (auto simp: get_movements_def filter_empty_conv db')
      moreover obtain l where "l \<in> set (t_lines db)" "tl_id l = tm_transfer_line_id m"
        "tl_transfer_id l = tm_transfer_id m" "1 \<le> tm_qty m"
        using L m by (auto simp: line_tables_def db')
      ultimately show "1 \<le> tm_qty m \<and> (\<exists>l \<in> set (t_lines db').
          tl_id l = tm_transfer_line_id m \<and> tl_transfer_id l = tm_transfer_id m)"
        by (auto simp: db')
    qed
    show "\<forall>x \<in> set (t_transfers db'). distinct (epcs_of
        (map (\<lambda>l. (tl_line_type l, tl_snapshot l)) (get_lines db' (tr_id x))))"
    proof
      fix x assume x: "x \<in> set (t_transfers db')"
      show "distinct (epcs_of (map (\<lambda>l. (tl_line_type l, tl_snapshot l)) (get_lines db' (tr_id x))))"
      proof (cases "tr_id x = tr_id t'")
        case True
        then show ?thesis using gl_new epcs by simp
      next
        case False
        then have "x \<in> set (t_transfers db)" using x ids(4) by (simp add: db')
        then show ?thesis using L False gl by (simp add: line_tables_def)
      qed
    qed
  qed
  have "books db' x" if x: "x \<in> set ts" for x
  proof (cases "tr_id x = tr_id t'")
    case True
    then have "x = t'" using key_unique [OF ids(1) x ids(3)] by simp
    then show ?thesis using none draft gm by (simp add: books_def receivable_def)
  next
    case False
    then have "books db x" using B x ids(4) by blast
    then show ?thesis using books_cong [of db' x db] gl gm False by simp
  qed
  with tables show ?thesis by (simp add: transfer_inv_def db')
qed

lemma create_inv:
  assumes I: "transfer_inv db" and f: "fresh_ids env db"
    and c: "create_transfer_body env p tn u db = Inr (db', re)"
  shows "transfer_inv db'"
proof -
  from c obtain ns s where ns: "normalize_transfer_lines db (rq_now env) tn (cr_origin_store_id p) None {}
      (cr_lines p) (open_session (t_stock db)) = Inr (ns, s)"
    by (auto simp: create_transfer_body_def Let_def res_simps)
  note N = normalize_lines_Inr [OF ns transfer_inv_simps(5) [OF I]]
  let ?i = "rq_fresh env 0"
  have new: "?i \<notin> tr_id ` set (t_transfers db)" "?i \<noteq> []"
    using f by (auto simp: fresh_ids_def) (metis rangeI)
  have L: "line_tables db" using I by (simp add: transfer_inv_def)
  have lines: "tl_transfer_id l \<noteq> ?i" if "l \<in> set (t_lines db)" for l
  proof -
    have "tl_transfer_id l \<in> tr_id ` set (t_transfers db)"
      using that L unfolding line_tables_def by (metis image_eqI)
    then show ?thesis using new(1) by metis
  qed
  then have same: "filter (\<lambda>l. tl_transfer_id l \<noteq> ?i) (t_lines db) = t_lines db" by simp
  have "tm_transfer_id m \<noteq> ?i" if "m \<in> set (t_movements db)" for m
    using that L lines unfolding line_tables_def by metis
  then have none: "get_movements db ?i = []" by (auto simp: get_movements_def filter_empty_conv)
  define t where "t = \<lparr>tr_id = ?i, tr_tenant_id = tn, tr_origin_store_id = cr_origin_store_id p,
      tr_destination_store_id = cr_destination_store_id p, tr_status = DRAFT,
      tr_created_by_user_id = Some (us_id u), tr_updated_by_user_id = Some (us_id u),
      tr_dispatched_by_user_id = None, tr_canceled_by_user_id = None, tr_dispatched_at = None,
      tr_canceled_at = None, tr_received_at = None, tr_created_at = rq_now env, tr_updated_at = None\<rparr>"
  have ft: "tr_id t = ?i" "tr_tenant_id t = tn" "tr_status t = DRAFT" "tr_received_at t = None"
    by (simp_all add: t_def)
  have db': "db' = \<lparr>t_stores = t_stores db, t_stock = commit si_id s, t_transfers = t_transfers db @ [t],
      t_lines = filter (\<lambda>l. tl_transfer_id l \<noteq> tr_id t) (t_lines db)
        @ build_lines (rq_fresh env) 1 (tr_id t) (tr_tenant_id t) (rq_now env) ns,
      t_movements = t_movements db\<rparr>"
    using c ns same by (auto simp: create_transfer_body_def Let_def res_simps set_stock_def t_def)
  show ?thesis
  proof (rule new_lines_inv [OF I f _ _ _ _ _ _ _ _ _ _ _ _ db'])
    show "distinct (map tr_id (t_transfers db @ [t]))"
      using transfer_inv_simps(2) [OF I] new ft by simp
    show "[] \<notin> tr_id ` set (t_transfers db @ [t])" using L new ft by (auto simp: line_tables_def)
  qed (use N none new ft in auto)
qed

lemma update_effect:
  assumes "update_transfer_body env i p tn u db = Inr (db', re)"
  obtains t t' where "t \<in> set (t_transfers db)" "tr_id t = i" "tr_tenant_id t = tn" "tr_status t = DRAFT"
    "tr_id t' = i" "tr_tenant_id t' = tn" "tr_status t' = DRAFT" "tr_received_at t' = tr_received_at t"
    "tr_created_at t' = tr_created_at t" "tr_created_by_user_id t' = tr_created_by_user_id t"
    "(\<exists>ns s. normalize_transfer_lines db (rq_now env) tn (tr_origin_store_id t') (Some i) {} (the (up_lines p))
        (open_session (t_stock db)) = Inr (ns, s)
      \<and> db' = (set_transfer t' (set_stock s db))\<lparr>t_lines :=
            filter (\<lambda>l. tl_transfer_id l \<noteq> i) (t_lines db)
            @ build_lines (rq_fresh env) 0 i tn (rq_now env) ns\<rparr>)
     \<or> (\<exists>s. revalidate_existing_draft_lines db (rq_now env) tn (tr_origin_store_id t') i
            (get_lines db i) (open_session (t_stock db)) = Inr s
        \<and> db' = act t' s [] db)"
proof -
  from assms obtain t where t: "find_transfer db i tn = Inr t"
    by (auto simp: update_transfer_body_def bindr_Inr_iff)
  let ?o = "the (py_or (up_origin_store_id p) (Some (tr_origin_store_id t)))"
  let ?d = "the (py_or (up_destination_store_id p) (Some (tr_destination_store_id t)))"
  let ?t' = "touch env u (t\<lparr>tr_origin_store_id := ?o, tr_destination_store_id := ?d\<rparr>)"
  have F: "t \<in> set (t_transfers db)" "tr_id t = i" "tr_tenant_id t = tn" using find_transfer_Inr [OF t] by auto
  have draft: "tr_status t = DRAFT"
    using assms t by (auto simp: update_transfer_body_def res_simps)
  have T: "tr_id ?t' = i" "tr_tenant_id ?t' = tn" "tr_status ?t' = DRAFT"
    "tr_received_at ?t' = tr_received_at t" "tr_created_at ?t' = tr_created_at t"
    "tr_created_by_user_id ?t' = tr_created_by_user_id t" "tr_origin_store_id ?t' = ?o"
    using F draft by (simp_all add: touch_def)
  show thesis
  proof (cases "up_lines p")
    case None
    then obtain s where "revalidate_existing_draft_lines db (rq_now env) tn ?o i (get_lines db i)
        (open_session (t_stock db)) = Inr s" "db' = act ?t' s [] db"
      using assms t F by (auto simp: update_transfer_body_def Let_def res_simps respond_def act_def)
    then show thesis using that [of t ?t', OF F draft T(1-6)] unfolding T(7) by blast
  next
    case (Some ls)
    then obtain ns s where "normalize_transfer_lines db (rq_now env) tn ?o (Some i) {} ls
        (open_session (t_stock db)) = Inr (ns, s)"
      "db' = (set_transfer ?t' (set_stock s db))\<lparr>t_lines := filter (\<lambda>l. tl_transfer_id l \<noteq> i) (t_lines db)
        @ build_lines (rq_fresh env) 0 i tn (rq_now env) ns\<rparr>"
      using assms t F by (auto simp: update_transfer_body_def Let_def res_simps respond_def)
    then show thesis using that [of t ?t', OF F draft T(1-6)] Some unfolding T(7) by auto
  qed
qed

lemma update_inv:
  assumes I: "transfer_inv db" and f: "fresh_ids env db"
    and c: "update_transfer_body env i p tn u db = Inr (db', re)"
  shows "transfer_inv db'"
  using c
proof (rule update_effect)
  fix t t'
  assume t: "t \<in> set (t_transfers db)" "tr_id t = i" "tr_tenant_id t = tn" "tr_status t = DRAFT"
    and t': "tr_id t' = i" "tr_tenant_id t' = tn" "tr_status t' = DRAFT"
      "tr_received_at t' = tr_received_at t"
    and cases: "(\<exists>ns s. normalize_transfer_lines db (rq_now env) tn (tr_origin_store_id t') (Some i) {}
        (the (up_lines p)) (open_session (t_stock db)) = Inr (ns, s)
      \<and> db' = (set_transfer t' (set_stock s db))\<lparr>t_lines :=
            filter (\<lambda>l. tl_transfer_id l \<noteq> i) (t_lines db)
            @ build_lines (rq_fresh env) 0 i tn (rq_now env) ns\<rparr>)
     \<or> (\<exists>s. revalidate_existing_draft_lines db (rq_now env) tn (tr_origin_store_id t') i
            (get_lines db i) (open_session (t_stock db)) = Inr s
        \<and> db' = act t' s [] db)"
  have L: "line_tables db" using I by (simp add: transfer_inv_def)
  have b: "books db t" using transfer_inv_simps(4) [OF I t(1)] .
  then have none: "get_movements db i = []" and rec: "tr_received_at t = None"
    using t by (auto simp: books_def)
  have uniq: "x = t" if "x \<in> set (t_transfers db)" "tr_id x = i" for x
    using key_unique [OF transfer_inv_simps(2) [OF I] that(1) t(1)] that t by simp
  from cases show "transfer_inv db'"
  proof (elim disjE exE conjE)
    fix ns s assume ns: "normalize_transfer_lines db (rq_now env) tn (tr_origin_store_id t') (Some i) {}
        (the (up_lines p)) (open_session (t_stock db)) = Inr (ns, s)"
      and "db' = (set_transfer t' (set_stock s db))\<lparr>t_lines :=
            filter (\<lambda>l. tl_transfer_id l \<noteq> i) (t_lines db)
            @ build_lines (rq_fresh env) 0 i tn (rq_now env) ns\<rparr>"
    then have db': "db' = \<lparr>t_stores = t_stores db, t_stock = commit si_id s,
        t_transfers = map (\<lambda>x. if tr_id x = tr_id t' then t' else x) (t_transfers db),
        t_lines = filter (\<lambda>l. tl_transfer_id l \<noteq> tr_id t') (t_lines db)
          @ build_lines (rq_fresh env) 0 (tr_id t') (tr_tenant_id t') (rq_now env) ns,
        t_movements = t_movements db\<rparr>"
      using t' by (simp add: set_transfer_def set_stock_def)
    note N = normalize_lines_Inr [OF ns transfer_inv_simps(5) [OF I]]
    have ids: "map tr_id (map (\<lambda>x. if tr_id x = tr_id t' then t' else x) (t_transfers db)) =
        map tr_id (t_transfers db)" by simp
    show ?thesis
    proof (rule new_lines_inv [OF I f _ _ _ _ _ _ _ _ _ _ _ _ db'])
      show "distinct (map tr_id (map (\<lambda>x. if tr_id x = tr_id t' then t' else x) (t_transfers db)))"
        unfolding ids by (rule transfer_inv_simps(2) [OF I])
      show "[] \<notin> tr_id ` set (map (\<lambda>x. if tr_id x = tr_id t' then t' else x) (t_transfers db))"
        using L arg_cong [OF ids, of set] unfolding line_tables_def list.set_map [symmetric] by simp
      show "t' \<in> set (map (\<lambda>x. if tr_id x = tr_id t' then t' else x) (t_transfers db))"
        using t t' by force
      have "tr_id t \<in> tr_id ` set (t_transfers db)" using t(1) by (rule imageI)
      then show "tr_id t' \<noteq> []" using L t(2) t'(1) unfolding line_tables_def by metis
    qed (use N none rec t' in auto)
  next
    fix s assume r: "revalidate_existing_draft_lines db (rq_now env) tn (tr_origin_store_id t') i
            (get_lines db i) (open_session (t_stock db)) = Inr s" and db': "db' = act t' s [] db"
    have "session_ok db s" using revalidate_session [OF r I] by simp
    then show ?thesis
      unfolding db' using t t' none rec
      by (intro act_inv [OF I t(1)]) (auto simp: session_ok_def books_def receivable_def get_movements_def)
  qed
qed

lemma actions_inv:
  assumes I: "transfer_inv db" and c: "transfer_actions_body env i a tn u db = Inr (db', re)"
  shows "transfer_inv db'"
  using c
proof (rule action_effect)
  fix t assume t: "t \<in> set (t_transfers db)"
    and a: "case a of Dispatch \<Rightarrow> dispatch_action env tn u t db = Inr (db', re)
     | Receive rls \<Rightarrow> receive_action env tn u t rls db = Inr (db', re)
     | Report_shortages sls \<Rightarrow> report_shortages_action env tn u t sls db = Inr (db', re)
     | Resolve_shortages rs \<Rightarrow> resolve_shortages_action env tn u t rs db = Inr (db', re)
     | Cancel \<Rightarrow> cancel_action env tn u t db = Inr (db', re)"
  then show ?thesis
    using dispatch_inv [OF I t] receive_inv [OF I t] report_inv [OF I t] resolve_inv [OF I t]
      cancel_inv [OF I t] by (cases a) auto
qed

lemma transfer_step_inv: "transfer_step ok db db' \<Longrightarrow> transfer_inv db \<Longrightarrow> transfer_inv db'"
proof (induction rule: transfer_step.induct)
  case (call c env db tn u db' re)
  show ?case
  proof (cases c)
    case (Create p)
    with call show ?thesis using create_inv by (simp add: transfer_body_def)
  next
    case (Update i p)
    with call show ?thesis using update_inv by (simp add: transfer_body_def)
  next
    case (Action i p)
    with call show ?thesis using actions_inv by (simp add: transfer_body_def)
  qed
next
  case (other stk db sts)
  have "get_lines (db\<lparr>t_stock := stk, t_stores := sts\<rparr>) i = get_lines db i"
    "get_movements (db\<lparr>t_stock := stk, t_stores := sts\<rparr>) i = get_movements db i" for i
    by (simp_all add: get_lines_def get_movements_def)
  then have "books (db\<lparr>t_stock := stk, t_stores := sts\<rparr>) t = books db t" for t by (intro books_cong)
  with other show ?case by (simp add: transfer_inv_def line_tables_def get_lines_def)
qed

lemma transfer_reachable_inv: "transfer_reachable ok db \<Longrightarrow> transfer_inv db"
proof (induction rule: transfer_reachable.induct)
  case (start stk sts)
  then show ?case by (simp add: transfer_inv_def line_tables_def)
next
  case (step db db')
  then show ?case by (blast intro: transfer_step_inv)
qed

inductive_simps transfer_step_simps: "transfer_step ok db db'"
inductive_cases transfer_stepE: "transfer_step ok db db'"

end
