(* ===== verification/Transfer_Lifecycle.thy ===== *)
theory Transfer_Lifecycle
  imports Transfer_Invariants
begin

text \<open>
  Transfers, the properties of the transition system: the life cycle, the books of a reachable
  state, the bounds of the ledger for requests that name a line once, and the EPCs in flight.
\<close>

section \<open>The life cycle\<close>

text \<open>What a step may do to a transfer it finds.\<close>

definition advances :: "transfer \<Rightarrow> transfer \<Rightarrow> bool" where
  "advances t t' \<longleftrightarrow> tr_id t' = tr_id t \<and> tr_tenant_id t' = tr_tenant_id t
    \<and> tr_created_at t' = tr_created_at t \<and> tr_created_by_user_id t' = tr_created_by_user_id t
    \<and> tr_status t \<le> tr_status t' \<and> (tr_status t \<in> {RECEIVED, CANCELED} \<longrightarrow> t' = t)
    \<and> (tr_status t \<noteq> DRAFT \<longrightarrow> tr_origin_store_id t' = tr_origin_store_id t
        \<and> tr_destination_store_id t' = tr_destination_store_id t)"

lemma advances_refl [simp]: "advances t t"
  by (simp add: advances_def)

lemma act_advances:
  assumes "distinct (map tr_id (t_transfers db))" and "t \<in> set (t_transfers db)"
    and "advances t t'" and "x \<in> set (t_transfers db)"
  shows "\<exists>x' \<in> set (t_transfers (act t' s ms db)). advances x x'"
proof (cases "tr_id x = tr_id t")
  case True
  then have "x = t" using key_unique [OF assms(1) assms(4,2)] by simp
  then show ?thesis using assms by (auto simp: advances_def intro!: bexI [of _ t'])
next
  case False
  then show ?thesis using assms by (auto simp: advances_def intro!: bexI [of _ x])
qed

lemma status_order [simp]:
  "DRAFT \<le> st" "DISPATCHED \<le> RECEIVED" "DISPATCHED \<le> PARTIAL_RECEIVED" "DISPATCHED \<le> CANCELED"
  "PARTIAL_RECEIVED \<le> RECEIVED"
  by (simp_all add: less_eq_transfer_status_def)

lemma action_advances:
  assumes "transfer_actions_body env i a tn u db = Inr (db', re)"
  obtains t t' s ms where "t \<in> set (t_transfers db)" "advances t t'" "db' = act t' s ms db"
  using assms
proof (rule action_effect)
  fix t assume t: "t \<in> set (t_transfers db)"
    and a: "case a of Dispatch \<Rightarrow> dispatch_action env tn u t db = Inr (db', re)
     | Receive rls \<Rightarrow> receive_action env tn u t rls db = Inr (db', re)
     | Report_shortages sls \<Rightarrow> report_shortages_action env tn u t sls db = Inr (db', re)
     | Resolve_shortages rs \<Rightarrow> resolve_shortages_action env tn u t rs db = Inr (db', re)
     | Cancel \<Rightarrow> cancel_action env tn u t db = Inr (db', re)"
  show thesis
  proof (cases a)
    case Dispatch
    with a have "dispatch_action env tn u t db = Inr (db', re)" by simp
    then show thesis by (rule dispatch_effect) (rule that [OF t]; auto simp: advances_def touch_def)
  next
    case (Receive rls)
    with a have "receive_action env tn u t rls db = Inr (db', re)" by simp
    then show thesis
      by (rule receive_effect) (rule that [OF t]; auto simp: advances_def touch_def receivable_def)
  next
    case (Report_shortages sls)
    with a have "report_shortages_action env tn u t sls db = Inr (db', re)" by simp
    then show thesis
      by (rule report_effect) (rule that [OF t]; auto simp: advances_def touch_def receivable_def)
  next
    case (Resolve_shortages rs)
    with a have "resolve_shortages_action env tn u t rs db = Inr (db', re)" by simp
    then show thesis
      by (rule resolve_effect) (rule that [OF t]; auto simp: advances_def touch_def receivable_def)
  next
    case Cancel
    with a have "cancel_action env tn u t db = Inr (db', re)" by simp
    then show thesis by (rule cancel_effect) (rule that [OF t]; auto simp: advances_def touch_def)
  qed
qed

lemma body_advances:
  assumes "transfer_body env c tn u db = Inr (db', re)" and I: "transfer_inv db"
    and x: "x \<in> set (t_transfers db)"
  shows "\<exists>x' \<in> set (t_transfers db'). advances x x'"
proof (cases c)
  case (Create p)
  then have "set (t_transfers db) \<subseteq> set (t_transfers db')"
    using assms(1) by (auto simp: transfer_body_def create_transfer_body_def Let_def res_simps)
  then show ?thesis using x by (meson advances_refl subsetD)
next
  case (Update i p)
  then have "update_transfer_body env i p tn u db = Inr (db', re)"
    using assms(1) by (simp add: transfer_body_def)
  then show ?thesis
  proof (rule update_effect)
    fix t t' assume t: "t \<in> set (t_transfers db)" "tr_id t = i" "tr_tenant_id t = tn"
        "tr_status t = DRAFT" "tr_id t' = i" "tr_tenant_id t' = tn" "tr_status t' = DRAFT"
        "tr_created_at t' = tr_created_at t" "tr_created_by_user_id t' = tr_created_by_user_id t"
      and c: "(\<exists>ns s. normalize_transfer_lines db (rq_now env) tn (tr_origin_store_id t') (Some i) {}
          (the (up_lines p)) (open_session (t_stock db)) = Inr (ns, s)
        \<and> db' = (set_transfer t' (set_stock s db))\<lparr>t_lines :=
              filter (\<lambda>l. tl_transfer_id l \<noteq> i) (t_lines db)
              @ build_lines (rq_fresh env) 0 i tn (rq_now env) ns\<rparr>)
       \<or> (\<exists>s. revalidate_existing_draft_lines db (rq_now env) tn (tr_origin_store_id t') i
              (get_lines db i) (open_session (t_stock db)) = Inr s
          \<and> db' = act t' s [] db)"
    have adv: "advances t t'" using t by (simp add: advances_def)
    from c have "t_transfers db' = t_transfers (act t' (open_session []) [] db)"
      by (auto simp: set_transfer_def set_stock_def)
    then show ?thesis
      using act_advances [OF transfer_inv_simps(2) [OF I] t(1) adv x] by simp
  qed
next
  case (Action i p)
  then have "transfer_actions_body env i (ar_action p) tn u db = Inr (db', re)"
    using assms(1) by (simp add: transfer_body_def)
  then show ?thesis
    by (rule action_advances) (use act_advances [OF transfer_inv_simps(2) [OF I] _ _ x] in metis)
qed

text \<open>C5: the life cycle of a transfer. No operation, on whatever transfer and by whatever
  user, deletes a transfer or moves its status back in the order draft, dispatched, partially
  received, received, canceled; a received or canceled transfer is never changed again; the
  tenant and the author are fixed at creation, the stores at dispatch.\<close>

theorem transfer_lifecycle:
  assumes "transfer_reachable ok db" and "transfer_step ok db db'" and "x \<in> set (t_transfers db)"
  shows "\<exists>x' \<in> set (t_transfers db'). tr_id x' = tr_id x \<and> tr_tenant_id x' = tr_tenant_id x
    \<and> tr_created_at x' = tr_created_at x \<and> tr_created_by_user_id x' = tr_created_by_user_id x
    \<and> tr_status x \<le> tr_status x' \<and> (tr_status x \<in> {RECEIVED, CANCELED} \<longrightarrow> x' = x)
    \<and> (tr_status x \<noteq> DRAFT \<longrightarrow> tr_origin_store_id x' = tr_origin_store_id x
        \<and> tr_destination_store_id x' = tr_destination_store_id x)"
  using assms(2)
proof (cases rule: transfer_step.cases)
  case (call c env tn u re)
  then show ?thesis
    using body_advances [OF _ transfer_reachable_inv [OF assms(1)] assms(3)]
    unfolding advances_def by blast
next
  case (other stk sts)
  then show ?thesis using assms(3) by (intro bexI [of _ x]) auto
qed

text \<open>C4: the books balance in every reachable state. A draft has no movements; a
  dispatched transfer dispatched exactly the quantity of each line; it is marked received, with
  a reception time, when and only when every line is received or lost in full; and every
  movement is a positive quantity of a line of its own transfer.\<close>

theorem transfer_books:
  assumes "transfer_reachable ok db" and "t \<in> set (t_transfers db)"
  shows "(tr_status t = DRAFT \<longrightarrow> get_movements db (tr_id t) = [])
    \<and> (tr_status t \<in> {DISPATCHED, PARTIAL_RECEIVED, RECEIVED} \<longrightarrow>
        (\<forall>l \<in> set (get_lines db (tr_id t)). ledger db (tr_id t) (tl_id l) DISPATCH = tl_qty l)
        \<and> (tr_status t = RECEIVED \<longleftrightarrow> (\<forall>l \<in> set (get_lines db (tr_id t)).
            tl_qty l \<le> ledger db (tr_id t) (tl_id l) RECEIVE
              + ledger db (tr_id t) (tl_id l) SHORTAGE_RESOLVED_LOST_IN_ROUTE)))
    \<and> (tr_received_at t \<noteq> None \<longleftrightarrow> tr_status t = RECEIVED)
    \<and> (\<forall>m \<in> set (get_movements db (tr_id t)). 1 \<le> tm_qty m
        \<and> tm_transfer_line_id m \<in> tl_id ` set (get_lines db (tr_id t)))"
proof -
  have I: "transfer_inv db" by (rule transfer_reachable_inv [OF assms(1)])
  then have b: "books db t" and L: "line_tables db"
    using assms(2) by (auto simp: transfer_inv_def)
  have D: "\<forall>l \<in> set (get_lines db (tr_id t)). ledger db (tr_id t) (tl_id l) DISPATCH = tl_qty l"
    if "tr_status t \<in> {DISPATCHED, PARTIAL_RECEIVED, RECEIVED}"
    using b that unfolding books_def by blast
  have out: "tr_status t = RECEIVED \<longleftrightarrow> (\<forall>l \<in> set (get_lines db (tr_id t)).
            tl_qty l \<le> ledger db (tr_id t) (tl_id l) RECEIVE
              + ledger db (tr_id t) (tl_id l) SHORTAGE_RESOLVED_LOST_IN_ROUTE)"
    if st: "tr_status t \<in> {DISPATCHED, PARTIAL_RECEIVED, RECEIVED}"
  proof
    assume r: "tr_status t = RECEIVED"
    then have "\<forall>l \<in> set (get_lines db (tr_id t)). ledger_outstanding db (tr_id t) (tl_id l) \<le> 0"
      using b unfolding books_def by blast
    then show "\<forall>l \<in> set (get_lines db (tr_id t)). tl_qty l \<le> ledger db (tr_id t) (tl_id l) RECEIVE
              + ledger db (tr_id t) (tl_id l) SHORTAGE_RESOLVED_LOST_IN_ROUTE"
      using D [OF st] by (fastforce simp: ledger_outstanding_def)
  next
    assume all: "\<forall>l \<in> set (get_lines db (tr_id t)). tl_qty l \<le> ledger db (tr_id t) (tl_id l) RECEIVE
              + ledger db (tr_id t) (tl_id l) SHORTAGE_RESOLVED_LOST_IN_ROUTE"
    show "tr_status t = RECEIVED"
    proof (rule ccontr)
      assume "tr_status t \<noteq> RECEIVED"
      then have "receivable (tr_status t)" using st by (auto simp: receivable_def)
      then obtain l where l: "l \<in> set (get_lines db (tr_id t))"
        "0 < ledger_outstanding db (tr_id t) (tl_id l)"
        using b unfolding books_def by blast
      with all D [OF st] show False by (fastforce simp: ledger_outstanding_def)
    qed
  qed
  have "1 \<le> tm_qty m" if "m \<in> set (get_movements db (tr_id t))" for m
    using that L by (simp add: get_movements_def line_tables_def)
  then show ?thesis
    using b D out movement_line_id [OF I] unfolding books_def by blast
qed

section \<open>The ledger of requests that name a line once\<close>

fun each_line_once :: "transfer_call \<Rightarrow> bool" where
  "each_line_once (Action i p) = (case ar_action p of
     Receive (Some rls) \<Rightarrow> distinct (map rl_line_id rls)
   | Report_shortages (Some sls) \<Rightarrow> distinct (map sl_line_id sls)
   | Resolve_shortages (Some rs) \<Rightarrow> distinct (map ol_line_id (rs_lines rs))
   | _ \<Rightarrow> True)"
| "each_line_once _ = True"

definition line_ledger_ok :: "transfer_db \<Rightarrow> uuid \<Rightarrow> uuid \<Rightarrow> bool" where
  "line_ledger_ok db i l \<longleftrightarrow>
    ledger db i l RECEIVE \<le> ledger db i l DISPATCH
    \<and> ledger db i l SHORTAGE_RESOLVED_FOUND_AND_RESEND + ledger db i l SHORTAGE_RESOLVED_LOST_IN_ROUTE
        \<le> ledger db i l SHORTAGE_REPORTED
    \<and> ledger db i l SHORTAGE_REPORTED \<le> ledger db i l DISPATCH"

lemma ledger_nonneg: "transfer_inv db \<Longrightarrow> 0 \<le> ledger db i l a"
  unfolding ledger_def ledger_of_def
  by (rule sum_list_nonneg) (force simp: get_movements_def transfer_inv_def line_tables_def)

lemma requested_once:
  "distinct (map line xs) \<Longrightarrow> requested line qty xs l = 0
     \<or> (\<exists>x \<in> set xs. line x = l \<and> requested line qty xs l = qty x)"
proof (induction xs)
  case (Cons x xs)
  show ?case
  proof (cases "line x = l")
    case True
    then have "requested line qty xs l = 0" using Cons.prems by (intro requested_other) auto
    then show ?thesis using True by (simp add: requested_def)
  next
    case False
    then have "requested line qty (x # xs) l = requested line qty xs l" by (simp add: requested_def)
    then show ?thesis using Cons by auto
  qed
qed (simp add: requested_def)

lemma act_ledger_ok:
  fixes t :: transfer
  assumes ms: "map profile ms = map (\<lambda>x. (tr_id t, line x, a, qty x)) xs"
    and xs: "\<forall>x \<in> set xs. 1 \<le> qty x \<and> line x \<in> tl_id ` set (get_lines db (tr_id t))"
    and old: "line_ledger_ok db i l"
    and new: "\<And>x. x \<in> set xs \<Longrightarrow> line x = l \<Longrightarrow> i = tr_id t \<Longrightarrow> distinct (map line xs) \<Longrightarrow>
      line_ledger_ok db i l \<Longrightarrow> ledger (act t' s ms db) i l a = ledger db i l a + qty x \<Longrightarrow>
      (\<And>b. b \<noteq> a \<Longrightarrow> ledger (act t' s ms db) i l b = ledger db i l b) \<Longrightarrow>
      line_ledger_ok (act t' s ms db) i l"
    and once: "distinct (map line xs)"
  shows "line_ledger_ok (act t' s ms db) i l"
proof -
  have rec: "records_for t (get_lines db (tr_id t)) ms" by (rule profile_records [OF ms xs])
  have led: "ledger (act t' s ms db) i l b = ledger db i l b
      + (if i = tr_id t \<and> b = a then requested line qty xs l else 0)" for b
    by (simp add: ledger_act [OF rec] profile_ledger [OF ms])
  consider (same) "i \<noteq> tr_id t \<or> requested line qty xs l = 0"
    | (one) x where "i = tr_id t" "x \<in> set xs" "line x = l" "requested line qty xs l = qty x"
    using requested_once [OF once, of qty l] by auto
  then show ?thesis
  proof cases
    case same
    then have "ledger (act t' s ms db) i l b = ledger db i l b" for b using led by auto
    then show ?thesis using old by (simp add: line_ledger_ok_def)
  next
    case one
    then show ?thesis using led by (intro new [OF one(2,3,1) once old]) simp_all
  qed
qed

lemma no_movements_ledger_ok:
  "get_movements db' i = get_movements db i \<Longrightarrow> line_ledger_ok db i l \<Longrightarrow> line_ledger_ok db' i l"
  by (simp add: line_ledger_ok_def ledger_def)

lemma actions_ledger_ok:
  assumes I: "transfer_inv db" and ok: "each_line_once (Action j p)"
    and c: "transfer_actions_body env j (ar_action p) tn u db = Inr (db', re)"
    and old: "line_ledger_ok db i l"
  shows "line_ledger_ok db' i l"
  using c
proof (rule action_effect)
  fix t assume t: "t \<in> set (t_transfers db)"
    and a: "case ar_action p of Dispatch \<Rightarrow> dispatch_action env tn u t db = Inr (db', re)
     | Receive rls \<Rightarrow> receive_action env tn u t rls db = Inr (db', re)
     | Report_shortages sls \<Rightarrow> report_shortages_action env tn u t sls db = Inr (db', re)
     | Resolve_shortages rs \<Rightarrow> resolve_shortages_action env tn u t rs db = Inr (db', re)
     | Cancel \<Rightarrow> cancel_action env tn u t db = Inr (db', re)"
  note nn = ledger_nonneg [OF I]
  show ?thesis
  proof (cases "ar_action p")
    case Dispatch
    with a have "dispatch_action env tn u t db = Inr (db', re)" by simp
    then show ?thesis
    proof (rule dispatch_effect)
      fix s s' ms
      assume loop: "for_each (dispatch_line (rq_now env) tn t) (s, []) (get_lines db (tr_id t)) = Inr (s', ms)"
        and db': "db' = act (touch env u (t\<lparr>tr_status := DISPATCHED,
          tr_dispatched_by_user_id := Some (us_id u), tr_dispatched_at := Some (rq_now env)\<rparr>)) s' ms db"
      show ?thesis unfolding db'
      proof (rule act_ledger_ok [OF dispatch_loop [OF loop] _ old _ lines_distinct [OF I]])
        show "\<forall>x \<in> set (get_lines db (tr_id t)). 1 \<le> (if tl_line_type x = EPC_line then 1 else tl_qty x)
            \<and> tl_id x \<in> tl_id ` set (get_lines db (tr_id t))"
          using line_valid [OF I] by (auto simp: valid_line_def)
      next
        fix x assume "x \<in> set (get_lines db (tr_id t))"
        then have "1 \<le> (if tl_line_type x = EPC_line then 1 else tl_qty x)"
          using line_valid [OF I] by (auto simp: valid_line_def)
        then show "line_ledger_ok (act t' s' ms db) i l"
          if "line_ledger_ok db i l" "ledger (act t' s' ms db) i l DISPATCH = ledger db i l DISPATCH
              + (if tl_line_type x = EPC_line then 1 else tl_qty x)"
            "\<And>b. b \<noteq> DISPATCH \<Longrightarrow> ledger (act t' s' ms db) i l b = ledger db i l b" for t'
          using that by (simp add: line_ledger_ok_def)
      qed
    qed
  next
    case (Receive rls)
    with a have "receive_action env tn u t rls db = Inr (db', re)" by simp
    then show ?thesis
    proof (rule receive_effect)
      fix xs s ms t'
      assume rls: "rls = Some xs" and db': "db' = act t' s ms db"
        and loop: "for_each (receive_one (rq_now env) tn t (get_lines db (tr_id t))
          (get_movement_totals db (tr_id t))) (open_session (t_stock db), []) xs = Inr (s, ms)"
      have once: "distinct (map rl_line_id xs)" using ok Receive rls by simp
      show ?thesis unfolding db'
      proof (rule act_ledger_ok [OF receive_loop(1) [OF loop] _ old _ once])
        fix x assume "x \<in> set xs" "rl_line_id x = l" "i = tr_id t"
        then have "rl_qty x \<le> ledger db i l DISPATCH - ledger db i l RECEIVE
            - ledger db i l SHORTAGE_RESOLVED_LOST_IN_ROUTE"
          using receive_loop(2) [OF loop] by (auto simp: outstanding_of_total get_movement_totals_ledger)
        then show "line_ledger_ok (act t' s ms db) i l" if "line_ledger_ok db i l"
          "ledger (act t' s ms db) i l RECEIVE = ledger db i l RECEIVE + rl_qty x"
          "\<And>b. b \<noteq> RECEIVE \<Longrightarrow> ledger (act t' s ms db) i l b = ledger db i l b"
          using that nn [of i l SHORTAGE_RESOLVED_LOST_IN_ROUTE] by (simp add: line_ledger_ok_def)
      qed (use receive_loop(2) [OF loop] in blast)
    qed
  next
    case (Report_shortages sls)
    with a have "report_shortages_action env tn u t sls db = Inr (db', re)" by simp
    then show ?thesis
    proof (rule report_effect)
      fix xs ms
      assume sls: "sls = Some xs" and db': "db' = act (touch env u t) (open_session (t_stock db)) ms db"
        and loop: "for_each (report_one tn t (get_lines db (tr_id t)) (get_movement_totals db (tr_id t))) [] xs
          = Inr ms"
      have once: "distinct (map sl_line_id xs)" using ok Report_shortages sls by simp
      show ?thesis unfolding db'
      proof (rule act_ledger_ok [OF report_loop(1) [OF loop] _ old _ once])
        fix x assume x: "x \<in> set xs" "sl_line_id x = l" "i = tr_id t"
        then have "sl_qty x + ledger db i l SHORTAGE_REPORTED \<le> max (ledger db i l DISPATCH
            - ledger db i l RECEIVE - ledger db i l SHORTAGE_RESOLVED_LOST_IN_ROUTE) 0" "1 \<le> sl_qty x"
          using report_loop(2) [OF loop] by (auto simp: outstanding_of_total get_movement_totals_ledger)
        then show "line_ledger_ok (act (touch env u t) (open_session (t_stock db)) ms db) i l"
          if "line_ledger_ok db i l"
          "ledger (act (touch env u t) (open_session (t_stock db)) ms db) i l SHORTAGE_REPORTED
            = ledger db i l SHORTAGE_REPORTED + sl_qty x"
          "\<And>b. b \<noteq> SHORTAGE_REPORTED \<Longrightarrow>
            ledger (act (touch env u t) (open_session (t_stock db)) ms db) i l b = ledger db i l b"
          using that nn [of i l SHORTAGE_RESOLVED_LOST_IN_ROUTE] nn [of i l RECEIVE]
            nn [of i l SHORTAGE_REPORTED]
          by (simp add: line_ledger_ok_def max_def split: if_splits)
      qed (use report_loop(2) [OF loop] in blast)
    qed
  next
    case (Resolve_shortages rs)
    with a have "resolve_shortages_action env tn u t rs db = Inr (db', re)" by simp
    then show ?thesis
    proof (rule resolve_effect)
      fix r xs s ms t'
      assume rs: "rs = Some \<lparr>rs_resolution = r, rs_lines = xs\<rparr>" and db': "db' = act t' s ms db"
        and loop: "for_each (resolve_one tn t (get_lines db (tr_id t)) (get_movement_totals db (tr_id t)) r)
          (open_session (t_stock db), []) xs = Inr (s, ms)"
      have once: "distinct (map ol_line_id xs)" using ok Resolve_shortages rs by simp
      have ra: "resolution_action r = SHORTAGE_RESOLVED_FOUND_AND_RESEND
          \<or> resolution_action r = SHORTAGE_RESOLVED_LOST_IN_ROUTE"
        by (cases r) (simp_all add: resolution_action_def)
      show ?thesis unfolding db'
      proof (rule act_ledger_ok [OF resolve_loop(1) [OF loop] _ old _ once])
        fix x assume x: "x \<in> set xs" "ol_line_id x = l" "i = tr_id t"
        then have "ol_qty x \<le> ledger db i l SHORTAGE_REPORTED
            - ledger db i l SHORTAGE_RESOLVED_FOUND_AND_RESEND
            - ledger db i l SHORTAGE_RESOLVED_LOST_IN_ROUTE"
          using resolve_loop(2) [OF loop] by (auto simp: get_movement_totals_ledger max_def split: if_splits)
        then show "line_ledger_ok (act t' s ms db) i l" if "line_ledger_ok db i l"
          "ledger (act t' s ms db) i l (resolution_action r) = ledger db i l (resolution_action r) + ol_qty x"
          "\<And>b. b \<noteq> resolution_action r \<Longrightarrow> ledger (act t' s ms db) i l b = ledger db i l b"
          using that ra by (auto simp: line_ledger_ok_def)
      qed (use resolve_loop(2) [OF loop] in blast)
    qed
  next
    case Cancel
    with a have "cancel_action env tn u t db = Inr (db', re)" by simp
    then show ?thesis
      by (rule cancel_effect) (auto intro!: no_movements_ledger_ok [OF _ old] simp: get_movements_def)
  qed
qed

lemma step_ledger_ok:
  assumes "transfer_step each_line_once db db'" and I: "transfer_inv db" and old: "line_ledger_ok db i l"
  shows "line_ledger_ok db' i l"
  using assms(1)
proof (cases rule: transfer_step.cases)
  case (call c env tn u re)
  show ?thesis
  proof (cases c)
    case (Create p)
    with call have "t_movements db' = t_movements db"
      by (auto simp: transfer_body_def create_transfer_body_def Let_def res_simps set_stock_def)
    then show ?thesis by (intro no_movements_ledger_ok [OF _ old]) (simp add: get_movements_def)
  next
    case (Update j p)
    with call have "update_transfer_body env j p tn u db = Inr (db', re)" by (simp add: transfer_body_def)
    then have "t_movements db' = t_movements db"
      by (rule update_effect) (auto simp: set_transfer_def set_stock_def)
    then show ?thesis by (intro no_movements_ledger_ok [OF _ old]) (simp add: get_movements_def)
  next
    case (Action j p)
    with call show ?thesis using actions_ledger_ok [OF I _ _ old] by (simp add: transfer_body_def)
  qed
next
  case (other stk sts)
  then show ?thesis by (intro no_movements_ledger_ok [OF _ old]) (simp add: get_movements_def)
qed

lemma reachable_ledger_ok: "transfer_reachable each_line_once db \<Longrightarrow> line_ledger_ok db i l"
proof (induction rule: transfer_reachable.induct)
  case (start stk sts)
  then show ?case by (simp add: line_ledger_ok_def ledger_def get_movements_def)
next
  case (step db db')
  then show ?case using step_ledger_ok transfer_reachable_inv by blast
qed

text \<open>C3: nothing is received twice and no shortage is resolved twice, as long as a request
  names each line at most once. In every state such requests reach, for every line, what was
  received is at most what was dispatched, what was reported short is at most what was
  dispatched, and what was found and lost is at most what was reported short.\<close>

theorem ledger_bounds:
  assumes "transfer_reachable each_line_once db"
  shows "0 \<le> ledger db i l RECEIVE \<and> ledger db i l RECEIVE \<le> ledger db i l DISPATCH
    \<and> ledger db i l SHORTAGE_RESOLVED_FOUND_AND_RESEND + ledger db i l SHORTAGE_RESOLVED_LOST_IN_ROUTE
        \<le> ledger db i l SHORTAGE_REPORTED
    \<and> ledger db i l SHORTAGE_REPORTED \<le> ledger db i l DISPATCH"
  using reachable_ledger_ok [OF assms, of i l] ledger_nonneg [OF transfer_reachable_inv [OF assms]]
  by (simp add: line_ledger_ok_def)

section \<open>EPCs in flight\<close>

lemma epcs_of_unique:
  assumes "distinct (epcs_of (map f ls))" and "x \<in> set ls" "y \<in> set ls"
    and "f x = (EPC_line, sx)" "f y = (EPC_line, sy)" "the (sn_epc sx) = the (sn_epc sy)"
  shows "x = y"
  using assms
proof (induction ls)
  case (Cons z ls)
  have tail: "distinct (epcs_of (map f ls))"
    and head: "\<And>sn. f z = (EPC_line, sn) \<Longrightarrow> the (sn_epc sn) \<notin> set (epcs_of (map f ls))"
    using Cons.prems(1) by (auto simp: epcs_of_def)
  have mem: "the (sn_epc sn) \<in> set (epcs_of (map f ls))" if "w \<in> set ls" "f w = (EPC_line, sn)" for w sn
  proof -
    have "(EPC_line, sn) \<in> f ` set ls" using that by (metis image_eqI)
    then show ?thesis by (force simp: epcs_of_def)
  qed
  from Cons.prems(2,3) consider "x \<in> set ls" "y \<in> set ls" | "x = z" "y = z"
    | "x = z" "y \<in> set ls" | "x \<in> set ls" "y = z" by auto
  then show ?case
  proof cases
    case 1
    then show ?thesis using Cons.IH [OF tail] Cons.prems(4-6) by blast
  next
    case 3
    then show ?thesis using head mem Cons.prems(4-6) by metis
  next
    case 4
    then show ?thesis using head mem Cons.prems(4-6) by metis
  qed simp
qed simp

lemma no_conflict:
  assumes "get_transfer_conflict_for_epc db tn epc (Some origin) (Some tid) = None" and "tid \<noteq> []"
    and "l \<in> set (t_lines db)" "tl_tenant_id l = tn" "sn_epc (tl_snapshot l) = Some epc"
    and "x \<in> set (t_transfers db)" "tr_id x = tl_transfer_id l" "tr_tenant_id x = tn"
    and "receivable (tr_status x)" "tr_id x \<noteq> tid"
  shows False
proof -
  let ?rows = "[t. l \<leftarrow> t_lines db, tl_tenant_id l = tn \<and> sn_epc (tl_snapshot l) = Some epc,
           t \<leftarrow> t_transfers db, tr_id t = tl_transfer_id l \<and> tr_tenant_id t = tn
             \<and> tr_status t \<in> set ACTIVE_TRANSFER_STATUSES
             \<and> (falsy (Some tid) \<or> Some (tr_id t) \<noteq> Some tid)]"
  have "x \<in> set ?rows"
    using assms by (fastforce simp: ACTIVE_TRANSFER_STATUSES_def receivable_def)
  moreover have "\<not> (tr_status x = DRAFT \<and> \<not> falsy (Some origin) \<and> Some (tr_origin_store_id x) \<noteq> Some origin)"
    using assms(9) by (auto simp: receivable_def)
  ultimately show False
    using assms(1) unfolding get_transfer_conflict_for_epc_def Let_def find_None_iff set_sort by blast
qed

lemma revalidate_no_conflict:
  assumes "revalidate_existing_draft_lines db now tn origin tid lines s = Inr s'"
    and "l \<in> set lines" "tl_line_type l = EPC_line" "sn_epc (tl_snapshot l) = Some epc"
  shows "get_transfer_conflict_for_epc db tn epc (Some origin) (Some tid) = None"
proof -
  have "\<forall>l \<in> set lines. tl_line_type l = EPC_line \<longrightarrow> get_transfer_conflict_for_epc db tn
      (the (sn_epc (tl_snapshot l))) (Some origin) (Some tid) = None"
    by (rule for_each_all [OF assms(1) [unfolded revalidate_existing_draft_lines_def]])
      (auto simp: revalidate_line_def Let_def res_simps split: if_splits option.splits)
  with assms(2-4) show ?thesis by (metis option.sel)
qed

text \<open>Which transfers hold an EPC in flight.\<close>

definition holds_epc :: "transfer_db \<Rightarrow> uuid \<Rightarrow> string \<Rightarrow> transfer \<Rightarrow> transfer_line \<Rightarrow> bool" where
  "holds_epc db tn epc t l \<longleftrightarrow> t \<in> set (t_transfers db) \<and> tr_tenant_id t = tn \<and> receivable (tr_status t)
     \<and> l \<in> set (get_lines db (tr_id t)) \<and> tl_line_type l = EPC_line \<and> sn_epc (tl_snapshot l) = Some epc"

definition epcs_unshared :: "transfer_db \<Rightarrow> bool" where
  "epcs_unshared db \<longleftrightarrow> (\<forall>tn epc t1 l1 t2 l2. holds_epc db tn epc t1 l1 \<longrightarrow> holds_epc db tn epc t2 l2 \<longrightarrow>
     tr_id t1 = tr_id t2)"

lemma epcs_unshared_mono:
  assumes "epcs_unshared db"
    and "\<And>tn epc x l. holds_epc db' tn epc x l \<Longrightarrow> \<exists>x0 l0. tr_id x0 = tr_id x \<and> holds_epc db tn epc x0 l0"
  shows "epcs_unshared db'"
  using assms unfolding epcs_unshared_def by metis

lemma act_holds_epc:
  assumes h: "holds_epc (act t' s ms db) tn epc x l" and t: "t \<in> set (t_transfers db)" "tr_id t' = tr_id t"
    "tr_tenant_id t' = tr_tenant_id t" and st: "receivable (tr_status t') \<Longrightarrow> receivable (tr_status t)"
  shows "\<exists>x0 l0. tr_id x0 = tr_id x \<and> holds_epc db tn epc x0 l0"
proof (cases "x = t'")
  case True
  then show ?thesis using h t st by (auto simp: holds_epc_def intro!: exI [of _ t] exI [of _ l])
next
  case False
  then have "x \<in> set (t_transfers db)" using h by (auto simp: holds_epc_def split: if_splits)
  then show ?thesis using h by (auto simp: holds_epc_def intro!: exI [of _ x] exI [of _ l])
qed

lemma dispatch_unshared:
  assumes I: "transfer_inv db" and U: "epcs_unshared db" and t: "t \<in> set (t_transfers db)" "tr_tenant_id t = tn"
    and d: "dispatch_action env tn u t db = Inr (db', re)"
  shows "epcs_unshared db'"
  using d
proof (rule dispatch_effect)
  fix s s' ms
  let ?t' = "touch env u (t\<lparr>tr_status := DISPATCHED, tr_dispatched_by_user_id := Some (us_id u),
      tr_dispatched_at := Some (rq_now env)\<rparr>)"
  assume draft: "tr_status t = DRAFT"
    and v: "revalidate_existing_draft_lines db (rq_now env) tn (tr_origin_store_id t) (tr_id t)
      (get_lines db (tr_id t)) (open_session (t_stock db)) = Inr s"
    and db': "db' = act ?t' s' ms db"
  have t': "tr_id ?t' = tr_id t" "tr_tenant_id ?t' = tr_tenant_id t" by (simp_all add: touch_def)
  have L: "line_tables db" using I by (simp add: transfer_inv_def)
  have id_ne: "tr_id t \<noteq> []"
    using L t(1) unfolding line_tables_def by (metis image_eqI)
  have old: "x \<in> set (t_transfers db)" if "holds_epc db' k e x l" "tr_id x \<noteq> tr_id t" for k e x l
    using that t' by (auto simp: holds_epc_def db' split: if_splits)
  have before: "holds_epc db k e x l" if "holds_epc db' k e x l" "tr_id x \<noteq> tr_id t" for k e x l
    using that(1) old [OF that] by (simp add: holds_epc_def db')
  have clash: False if h1: "holds_epc db' k e x1 l1" and h2: "holds_epc db' k e x2 l2"
    and x1: "tr_id x1 = tr_id t" and x2: "tr_id x2 \<noteq> tr_id t" for k e x1 l1 x2 l2
  proof -
    have x1t: "x1 = ?t'"
      using h1 x1 t' key_unique [OF transfer_inv_simps(2) [OF I]]
      by (auto simp: holds_epc_def db' split: if_splits)
    then have k: "k = tn" using h1 t t' by (simp add: holds_epc_def)
    have l1: "l1 \<in> set (get_lines db (tr_id t))" "tl_line_type l1 = EPC_line"
      "sn_epc (tl_snapshot l1) = Some e"
      using h1 x1 by (simp_all add: holds_epc_def db')
    note none = revalidate_no_conflict [OF v l1]
    have l2: "l2 \<in> set (t_lines db)" "tl_transfer_id l2 = tr_id x2" "sn_epc (tl_snapshot l2) = Some e"
      using h2 by (auto simp: holds_epc_def db' get_lines_def)
    obtain y where y: "y \<in> set (t_transfers db)" "tr_id y = tl_transfer_id l2" "tr_tenant_id y = tl_tenant_id l2"
      using L l2(1) unfolding line_tables_def by blast
    have x2m: "x2 \<in> set (t_transfers db)" by (rule old [OF h2 x2])
    then have "y = x2" using key_unique [OF transfer_inv_simps(2) [OF I] y(1)] y(2) l2(2) by simp
    then show False
      using no_conflict [OF none id_ne l2(1) _ l2(3) x2m] h2 k x2 y l2 by (simp add: holds_epc_def)
  qed
  show ?thesis unfolding epcs_unshared_def
  proof (intro allI impI)
    fix k e x1 l1 x2 l2 assume h: "holds_epc db' k e x1 l1" "holds_epc db' k e x2 l2"
    consider "tr_id x1 = tr_id t" | "tr_id x2 = tr_id t" | "tr_id x1 \<noteq> tr_id t" "tr_id x2 \<noteq> tr_id t" by blast
    then show "tr_id x1 = tr_id x2"
    proof cases
      case 1
      then show ?thesis using clash h by metis
    next
      case 2
      then show ?thesis using clash h by metis
    next
      case 3
      then have "holds_epc db k e x1 l1" "holds_epc db k e x2 l2"
        using h before by blast+
      then show ?thesis using U unfolding epcs_unshared_def by blast
    qed
  qed
qed

lemma actions_unshared:
  assumes I: "transfer_inv db" and U: "epcs_unshared db"
    and c: "transfer_actions_body env i a tn u db = Inr (db', re)"
  shows "epcs_unshared db'"
  using c
proof (rule action_effect)
  fix t assume t: "t \<in> set (t_transfers db)" "tr_tenant_id t = tn"
    and a: "case a of Dispatch \<Rightarrow> dispatch_action env tn u t db = Inr (db', re)
     | Receive rls \<Rightarrow> receive_action env tn u t rls db = Inr (db', re)
     | Report_shortages sls \<Rightarrow> report_shortages_action env tn u t sls db = Inr (db', re)
     | Resolve_shortages rs \<Rightarrow> resolve_shortages_action env tn u t rs db = Inr (db', re)
     | Cancel \<Rightarrow> cancel_action env tn u t db = Inr (db', re)"
  have keep: "epcs_unshared db'" if "db' = act t' s ms db" "tr_id t' = tr_id t" "tr_tenant_id t' = tr_tenant_id t"
    "receivable (tr_status t') \<Longrightarrow> receivable (tr_status t)" for t' s ms
    using epcs_unshared_mono [OF U] act_holds_epc [OF _ t(1) that(2,3,4)] that(1) by blast
  show ?thesis
  proof (cases a)
    case Dispatch
    with a show ?thesis using dispatch_unshared [OF I U t] by simp
  next
    case (Receive rls)
    with a have "receive_action env tn u t rls db = Inr (db', re)" by simp
    then show ?thesis by (rule receive_effect) (erule keep; auto simp: touch_def)
  next
    case (Report_shortages sls)
    with a have "report_shortages_action env tn u t sls db = Inr (db', re)" by simp
    then show ?thesis by (rule report_effect) (erule keep; auto simp: touch_def)
  next
    case (Resolve_shortages rs)
    with a have "resolve_shortages_action env tn u t rs db = Inr (db', re)" by simp
    then show ?thesis by (rule resolve_effect) (erule keep; auto simp: touch_def)
  next
    case Cancel
    with a have "cancel_action env tn u t db = Inr (db', re)" by simp
    then show ?thesis by (rule cancel_effect) (erule keep; auto simp: touch_def receivable_def)
  qed
qed

lemma update_unshared:
  assumes I: "transfer_inv db" and U: "epcs_unshared db"
    and c: "update_transfer_body env i p tn u db = Inr (db', re)"
  shows "epcs_unshared db'"
  using c
proof (rule update_effect)
  fix t t'
  assume t: "t \<in> set (t_transfers db)" "tr_id t = i" "tr_tenant_id t = tn" "tr_status t = DRAFT"
      "tr_id t' = i" "tr_tenant_id t' = tn" "tr_status t' = DRAFT"
    and c: "(\<exists>ns s. normalize_transfer_lines db (rq_now env) tn (tr_origin_store_id t') (Some i) {}
        (the (up_lines p)) (open_session (t_stock db)) = Inr (ns, s)
      \<and> db' = (set_transfer t' (set_stock s db))\<lparr>t_lines :=
            filter (\<lambda>l. tl_transfer_id l \<noteq> i) (t_lines db)
            @ build_lines (rq_fresh env) 0 i tn (rq_now env) ns\<rparr>)
     \<or> (\<exists>s. revalidate_existing_draft_lines db (rq_now env) tn (tr_origin_store_id t') i
            (get_lines db i) (open_session (t_stock db)) = Inr s
        \<and> db' = act t' s [] db)"
  have ts: "set (t_transfers db') \<subseteq> insert t' {x \<in> set (t_transfers db). tr_id x \<noteq> i}"
    using c t by (auto simp: set_transfer_def set_stock_def)
  have gl: "get_lines db' k = get_lines db k" if "k \<noteq> i" for k
  proof -
    have new: "filter (\<lambda>l. tl_transfer_id l = k) (build_lines (rq_fresh env) 0 i tn (rq_now env) ns) = []" for ns
      using that build_lines_fields by (fastforce simp: filter_empty_conv)
    have "filter (\<lambda>l. tl_transfer_id l \<noteq> i \<and> tl_transfer_id l = k) ls =
        filter (\<lambda>l. tl_transfer_id l = k) ls" for ls
      using that by (intro filter_cong) auto
    then show ?thesis using c
      by (auto simp: get_lines_def set_transfer_def set_stock_def new)
  qed
  show ?thesis
  proof (rule epcs_unshared_mono [OF U])
    fix k e x l assume h: "holds_epc db' k e x l"
    then have "x \<noteq> t'" using t by (auto simp: holds_epc_def receivable_def)
    then have "x \<in> set (t_transfers db)" "tr_id x \<noteq> i" using h ts by (auto simp: holds_epc_def)
    then show "\<exists>x0 l0. tr_id x0 = tr_id x \<and> holds_epc db k e x0 l0"
      using h gl by (auto simp: holds_epc_def)
  qed
qed

lemma create_unshared:
  assumes I: "transfer_inv db" and f: "fresh_ids env db" and U: "epcs_unshared db"
    and c: "create_transfer_body env p tn u db = Inr (db', re)"
  shows "epcs_unshared db'"
proof (rule epcs_unshared_mono [OF U])
  fix k e x l assume h: "holds_epc db' k e x l"
  obtain ns t s where t: "tr_status t = DRAFT" "tr_id t = rq_fresh env 0"
    and db': "db' = (set_stock s db)\<lparr>t_transfers := t_transfers db @ [t],
      t_lines := t_lines db @ build_lines (rq_fresh env) 1 (rq_fresh env 0) tn (rq_now env) ns\<rparr>"
  proof -
    from c obtain ns s where "normalize_transfer_lines db (rq_now env) tn (cr_origin_store_id p) None {}
        (cr_lines p) (open_session (t_stock db)) = Inr (ns, s)"
      by (auto simp: create_transfer_body_def Let_def res_simps)
    with c show thesis by (intro that [rotated 2]) (auto simp: create_transfer_body_def Let_def res_simps)
  qed
  from h t db' have x: "x \<in> set (t_transfers db)" by (auto simp: holds_epc_def receivable_def)
  then have ne: "tr_id x \<noteq> rq_fresh env 0" using f by (auto simp: fresh_ids_def)
  then have "l \<notin> set (build_lines (rq_fresh env) 1 (rq_fresh env 0) tn (rq_now env) ns)"
    using h build_lines_fields by (fastforce simp: holds_epc_def get_lines_def)
  then have "l \<in> set (get_lines db (tr_id x))" using h db' by (auto simp: holds_epc_def get_lines_def)
  then show "\<exists>x0 l0. tr_id x0 = tr_id x \<and> holds_epc db k e x0 l0"
    using h x by (auto simp: holds_epc_def)
qed

lemma step_unshared:
  assumes "transfer_step ok db db'" and I: "transfer_inv db" and U: "epcs_unshared db"
  shows "epcs_unshared db'"
  using assms(1)
proof (cases rule: transfer_step.cases)
  case (call c env tn u re)
  show ?thesis
  proof (cases c)
    case (Create p)
    with call show ?thesis using create_unshared [OF I _ U] by (simp add: transfer_body_def)
  next
    case (Update j p)
    with call show ?thesis using update_unshared [OF I U] by (simp add: transfer_body_def)
  next
    case (Action j p)
    with call show ?thesis using actions_unshared [OF I U] by (simp add: transfer_body_def)
  qed
next
  case (other stk sts)
  then show ?thesis using U by (simp add: epcs_unshared_def holds_epc_def get_lines_def)
qed

lemma reachable_unshared: "transfer_reachable ok db \<Longrightarrow> epcs_unshared db"
proof (induction rule: transfer_reachable.induct)
  case (start stk sts)
  then show ?case by (simp add: epcs_unshared_def holds_epc_def)
next
  case (step db db')
  then show ?case using step_unshared transfer_reachable_inv by blast
qed

text \<open>C2: an EPC is in flight at most once. In every reachable state no two dispatched, not
  yet closed transfers of a tenant have a line for the same EPC, and no transfer has two: a tag
  is never promised to two destinations.\<close>

theorem epc_in_flight_once:
  assumes "transfer_reachable ok db"
    and "holds_epc db tn epc t1 l1" and "holds_epc db tn epc t2 l2"
  shows "t1 = t2 \<and> l1 = l2"
proof -
  have I: "transfer_inv db" by (rule transfer_reachable_inv [OF assms(1)])
  have "tr_id t1 = tr_id t2"
    using reachable_unshared [OF assms(1)] assms(2,3) unfolding epcs_unshared_def by blast
  then have t: "t1 = t2"
    using key_unique [OF transfer_inv_simps(2) [OF I]] assms(2,3) by (simp add: holds_epc_def)
  have "distinct (epcs_of (map (\<lambda>l. (tl_line_type l, tl_snapshot l)) (get_lines db (tr_id t1))))"
    using I assms(2) by (simp add: transfer_inv_def line_tables_def holds_epc_def)
  from epcs_of_unique [OF this, of l1 l2] t assms(2,3) show ?thesis by (simp add: holds_epc_def)
qed

end
