(* ===== verification/Transfer_Effects.thy ===== *)
theory Transfer_Effects
  imports Transfer_Lifecycle
begin

text \<open>
  Transfers, what the operations do to the stock: no operation creates a row, only a loss
  removes rows, every other change is a move; the rows of other tenants are not touched; a
  dispatch puts exactly the transfer's tags in transit, and a cancellation puts them back.
\<close>

section \<open>Which rows a session has touched\<close>

definition touches :: "(stock_item \<Rightarrow> bool) \<Rightarrow> stock_item session \<Rightarrow> bool" where
  "touches P s \<longleftrightarrow> (\<forall>r \<in> set (ses_base s). \<not> P r \<longrightarrow>
     identity si_id s r = r \<and> si_id r \<notin> set (ses_gone s))"

lemma touches_open [simp]: "touches P (open_session tbl)"
  by (simp add: touches_def)

lemma touches_modify:
  assumes "stock_kept s" and "touches P s" and "r0 \<in> set (ses_base s)" and "P r0"
  shows "touches P (stock_modify m (identity si_id s r0) s)"
  unfolding touches_def
proof (intro ballI impI)
  fix r assume r: "r \<in> set (ses_base (stock_modify m (identity si_id s r0) s))" "\<not> P r"
  then have "si_id r \<noteq> si_id (identity si_id s r0)"
    using assms key_unique [of si_id "ses_base s" r r0] by (auto simp: kept_def)
  then show "identity si_id (stock_modify m (identity si_id s r0) s) r = r
      \<and> si_id r \<notin> set (ses_gone (stock_modify m (identity si_id s r0) s))"
    using r assms(2) by (simp add: stock_modify_def identity_modify touches_def)
qed

lemma identity_modify_all_other:
  "si_id r \<notin> si_id ` set rows \<Longrightarrow>
    identity si_id (modify_all si_id f rows s) r = identity si_id s r"
  by (induction rows arbitrary: s) (auto simp: identity_modify)

lemma oldest_rows:
  assumes "stock_kept s" and "x \<in> set (select_oldest si_id si_created_at P n s)"
  obtains r where "r \<in> set (ses_base s)" "P r" "x = identity si_id s r" "si_id x = si_id r"
  using moves.select_oldest_kept(1) [OF assms(1), of si_created_at P n] assms
  by (auto simp: kept_def)

lemma touches_oldest:
  assumes "stock_kept s" and "touches P s" and "\<And>r. Q r \<Longrightarrow> P r"
  shows "touches P (modify_all si_id (apply_move m) (select_oldest si_id si_created_at Q n s) s)"
    and "touches P (delete_all si_id (select_oldest si_id si_created_at Q n s) s)"
proof -
  let ?rows = "select_oldest si_id si_created_at Q n s"
  have other: "si_id r \<notin> si_id ` set ?rows" if "r \<in> set (ses_base s)" "\<not> P r" for r
  proof
    assume "si_id r \<in> si_id ` set ?rows"
    then obtain x where x: "x \<in> set ?rows" "si_id x = si_id r" by auto
    obtain r' where "r' \<in> set (ses_base s)" "Q r'" "si_id x = si_id r'"
      using oldest_rows [OF assms(1) x(1)] by blast
    then have "r' = r" using x that assms(1) key_unique [of si_id "ses_base s" r' r] by (simp add: kept_def)
    then show False using \<open>Q r'\<close> assms(3) that by blast
  qed
  show "touches P (modify_all si_id (apply_move m) ?rows s)"
    using assms(2) other by (simp add: touches_def identity_modify_all_other)
  show "touches P (delete_all si_id ?rows s)"
    using assms(2) other by (auto simp: touches_def)
qed

lemma touches_first:
  assumes "stock_kept s" and "touches P s" and "\<And>r. Q r \<Longrightarrow> P r"
    and "select_first si_id Q s = Some row"
  shows "touches P (stock_modify m row s)" and "touches P (delete_row si_id row s)"
proof -
  from assms(1,4) obtain r where r: "r \<in> set (ses_base s)" "Q r" "row = identity si_id s r" "si_id row = si_id r"
    by (rule moves.select_first_kept)
  show "touches P (stock_modify m row s)"
    unfolding r(3) by (rule touches_modify [OF assms(1,2) r(1)]) (rule assms(3) [OF r(2)])
  have "si_id x \<noteq> si_id row" if "x \<in> set (ses_base s)" "\<not> P x" for x
    using that r assms(1,3) key_unique [of si_id "ses_base s" x r] by (auto simp: kept_def)
  then show "touches P (delete_row si_id row s)" using assms(2) by (auto simp: touches_def)
qed

lemma touches_commit:
  assumes "touches P s" and "stock_kept s" and "\<And>r r'. stock_identity r = stock_identity r' \<Longrightarrow> P r = P r'"
  shows "filter (\<lambda>r. \<not> P r) (commit si_id s) = filter (\<lambda>r. \<not> P r) (ses_base s)"
proof -
  have "stock_identity (identity si_id s r) = stock_identity r" if "r \<in> set (ses_base s)" for r
    using that assms(2) by (simp add: kept_def)
  then have P: "P (identity si_id s r) = P r" if "r \<in> set (ses_base s)" for r
    using that assms(3) by blast
  have "filter (\<lambda>r. \<not> P r) (commit si_id s) =
      map (identity si_id s) (filter (\<lambda>r. si_id r \<notin> set (ses_gone s) \<and> \<not> P r) (ses_base s))"
    using P by (auto simp: commit_def filter_map comp_def conj_commute intro!: arg_cong [of _ _ "map _"] filter_cong)
  also have "\<dots> = map (identity si_id s) (filter (\<lambda>r. \<not> P r) (ses_base s))"
    using assms(1) by (auto simp: touches_def intro!: arg_cong [of _ _ "map _"] filter_cong)
  also have "\<dots> = filter (\<lambda>r. \<not> P r) (ses_base s)"
    using assms(1) by (auto simp: touches_def intro!: map_idI)
  finally show ?thesis .
qed

section \<open>Every operation stays within its tenant\<close>

abbreviation of_tenant :: "uuid \<Rightarrow> stock_item \<Rightarrow> bool" where
  "of_tenant tn \<equiv> (\<lambda>r. si_tenant_id r = tn)"

definition session_of :: "uuid \<Rightarrow> transfer_db \<Rightarrow> stock_item session \<Rightarrow> bool" where
  "session_of tn db s \<longleftrightarrow> session_ok db s \<and> touches (of_tenant tn) s"

lemma session_of_open: "transfer_inv db \<Longrightarrow> session_of tn db (open_session (t_stock db))"
  by (simp add: session_of_def session_ok_open)

lemma validate_epc_session_of:
  assumes "validate_transferable_epc_stock now tn origin epc loc pool s = Inr (row, s')"
    and "session_of tn db s"
  shows "session_of tn db s'" and "session_of tn db (stock_modify m row s')"
proof -
  have k: "stock_kept s" "ses_base s = t_stock db" "touches (of_tenant tn) s"
    using assms(2) by (simp_all add: session_of_def session_ok_def)
  from assms(1) k(1) show 1: "session_of tn db s'"
  proof (rule validate_epc_Inr)
    fix r assume r: "r \<in> set (ses_base s)" "si_tenant_id r = tn" "stock_kept s'" "ses_base s' = ses_base s"
      "ses_gone s' = ses_gone s"
      "\<And>r'. si_id r' \<noteq> si_id r \<Longrightarrow> identity si_id s' r' = identity si_id s r'"
    have "touches (of_tenant tn) s'"
      unfolding touches_def
    proof (intro ballI impI)
      fix x assume x: "x \<in> set (ses_base s')" "si_tenant_id x \<noteq> tn"
      then have "si_id x \<noteq> si_id r" using r k(1) key_unique [of si_id "ses_base s" x r] by (auto simp: kept_def)
      then show "identity si_id s' x = x \<and> si_id x \<notin> set (ses_gone s')"
        using x r k(3) by (simp add: touches_def)
    qed
    with r k show ?thesis by (simp add: session_of_def session_ok_def)
  qed
  from assms(1) k(1) show "session_of tn db (stock_modify m row s')"
  proof (rule validate_epc_Inr)
    fix r assume r: "r \<in> set (ses_base s)" "si_tenant_id r = tn" "row = identity si_id s' r" "stock_kept s'"
      "ses_base s' = ses_base s"
    show ?thesis
      using 1 r touches_modify [of s' "of_tenant tn" r m] session_ok_modify [of db s' r m]
      by (simp add: session_of_def)
  qed
qed

lemma session_of_oldest:
  assumes "session_of tn db s" and "\<And>r. Q r \<Longrightarrow> si_tenant_id r = tn"
  shows "session_of tn db (modify_all si_id (apply_move m) (select_oldest si_id si_created_at Q n s) s)"
  using assms touches_oldest(1) [of s "of_tenant tn" Q m n] session_ok_move_oldest [of db s m Q n]
  by (simp add: session_of_def session_ok_def)

lemma session_of_first:
  assumes "session_of tn db s" and "\<And>r. Q r \<Longrightarrow> si_tenant_id r = tn"
    and "select_first si_id Q s = Some row"
  shows "session_of tn db (stock_modify m row s)"
  using assms touches_first(1) [of s "of_tenant tn" Q row m] session_ok_move_first [of db s Q row m]
  by (simp add: session_of_def session_ok_def)

lemmas session_of_first_tenant =
  session_of_first [of tn db s "\<lambda>r. si_tenant_id r = tn \<and> R r" row m for tn db s R row m, simplified]

lemma dispatch_line_session_of:
  assumes "dispatch_line now tn t (s, ms) line = Inr (s', ms')" and "session_of tn db s"
  shows "session_of tn db s'"
proof (cases "tl_line_type line")
  case SKU_line
  then show ?thesis
    using assms(1) session_of_oldest [OF assms(2), of "transfer_sku_filters tn _ _ _ _"]
    by (auto simp: dispatch_line_def res_simps sku_rows_of_line_def validate_transferable_sku_stock_def
        Let_def transfer_sku_filters_def split: if_splits)
next
  case EPC_line
  then show ?thesis
    using assms validate_epc_session_of(2) by (fastforce simp: dispatch_line_def res_simps split: if_splits)
qed

lemma receive_one_session_of:
  assumes "receive_one now tn t lines d (s, ms) rl = Inr (s', ms')" and "session_of tn db s"
  shows "session_of tn db s'"
  using assms(1) session_of_oldest [OF assms(2), of "in_transit_sku tn _ _"]
    session_of_first_tenant [OF assms(2)]
  by (auto simp: receive_one_def Let_def res_simps in_transit_sku_def split: if_splits option.splits)

lemma cancel_line_session_of:
  assumes "cancel_line now tn t s line = Inr s'" and "session_of tn db s"
  shows "session_of tn db s'"
  using assms(1) session_of_oldest [OF assms(2), of "in_transit_sku tn _ _"]
    session_of_first_tenant [OF assms(2)]
  by (auto simp: cancel_line_def Let_def res_simps in_transit_sku_def split: if_splits option.splits)

lemma lose_rows_session_of:
  assumes "lose_rows tn t line q s = Inr s'" and s: "session_of tn db s"
  shows "session_of tn db s'"
proof -
  have k: "stock_kept s" "touches (of_tenant tn) s" using s by (simp_all add: session_of_def session_ok_def)
  have "touches (of_tenant tn) s'"
    using assms(1) touches_oldest(2) [OF k, of "in_transit_sku tn _ _"] touches_first(2) [OF k, of "\<lambda>r. si_tenant_id r = tn \<and> _ r"]
    by (auto simp: lose_rows_def Let_def res_simps in_transit_sku_def split: if_splits option.splits)
  then show ?thesis using lose_rows_session [OF assms(1)] s by (simp add: session_of_def)
qed

lemma resolve_one_session_of:
  assumes "resolve_one tn t lines d r (s, ms) ol = Inr (s', ms')" and "session_of tn db s"
  shows "session_of tn db s'"
  using assms(1)
proof (rule resolve_one_Inr)
  fix line assume "r = Found_and_resend \<Longrightarrow> s' = s"
    "r = Lost_in_route \<Longrightarrow> lose_rows tn t line (ol_qty ol) s = Inr s'"
  then show ?thesis using assms(2) lose_rows_session_of by (cases r) auto
qed

lemma session_of_loop:
  assumes "for_each f (s, ms) xs = Inr (s', ms')" and "session_of tn db s"
    and "\<And>s ms x s' ms'. f (s, ms) x = Inr (s', ms') \<Longrightarrow> session_of tn db s \<Longrightarrow> session_of tn db s'"
  shows "session_of tn db s'"
proof -
  have "(\<lambda>(s1, ms1). session_of tn db s1) (s', ms')"
    by (rule for_each_inv [OF assms(1)]) (use assms(2,3) in \<open>auto split: prod.splits\<close>)
  then show ?thesis by simp
qed

lemma revalidate_session_of:
  assumes "revalidate_existing_draft_lines db now tn origin tid lines s = Inr s'" and "session_of tn db s"
  shows "session_of tn db s'"
proof (rule for_each_inv [OF assms(1) [unfolded revalidate_existing_draft_lines_def],
    of "session_of tn db", OF assms(2)])
  fix s0 line s1 assume "session_of tn db s0" "revalidate_line db now tn origin tid s0 line = Inr s1"
  then show "session_of tn db s1"
    using validate_epc_session_of(1)
    by (fastforce simp: revalidate_line_def Let_def res_simps split: if_splits option.splits)
qed

lemma normalize_session_of:
  assumes "normalize_transfer_lines db now tn origin exclude seen lines s = Inr (ns, s')" and "session_of tn db s"
  shows "session_of tn db s'"
  using assms
proof (induction lines arbitrary: seen s ns)
  case (Cons line rest)
  from Cons.prems(1) obtain n s1 seen' ns1 where
    n: "normalize_transfer_line db now tn origin exclude line s = Inr (n, s1)" and
    rest: "normalize_transfer_lines db now tn origin exclude seen' rest s1 = Inr (ns1, s')"
    by (auto simp: Let_def res_simps split: if_splits)
  have "session_of tn db s1"
    using n Cons.prems(2) validate_epc_session_of(1)
    by (fastforce simp: normalize_transfer_line_def res_simps split: if_splits option.splits)
  with rest show ?case by (rule Cons.IH)
qed simp

section \<open>What an operation does to the stock\<close>

fun lost_lines :: "transfer_call \<Rightarrow> resolution_line list" where
  "lost_lines (Action i p) = (case ar_action p of
     Resolve_shortages (Some rs) \<Rightarrow>
       (case rs_resolution rs of Lost_in_route \<Rightarrow> rs_lines rs | Found_and_resend \<Rightarrow> [])
   | _ \<Rightarrow> [])"
| "lost_lines _ = []"

text \<open>The rows a session deletes: in transit, of the tenant, unmodified, at most \<open>n\<close>.\<close>

definition losing :: "uuid \<Rightarrow> int \<Rightarrow> stock_item session \<Rightarrow> bool" where
  "losing tn n s \<longleftrightarrow> ses_dirty s = [] \<and> int (card (set (ses_gone s))) \<le> n
     \<and> (\<forall>i \<in> set (ses_gone s). \<exists>r \<in> set (ses_base s). si_id r = i \<and> si_tenant_id r = tn \<and> at_transit r)"

lemma identity_clean [simp]: "ses_dirty s = [] \<Longrightarrow> identity key s r = r"
  by (simp add: identity_def)

lemma losing_add:
  assumes "losing tn n s" and "int (length rows) \<le> q" and "ses_base s' = ses_base s" "ses_dirty s' = ses_dirty s"
    and "set (ses_gone s') = si_id ` set rows \<union> set (ses_gone s)"
    and "set rows \<subseteq> {r \<in> set (ses_base s). si_tenant_id r = tn \<and> at_transit r}"
  shows "losing tn (n + q) s'"
proof -
  have "card (set (ses_gone s')) \<le> card (si_id ` set rows) + card (set (ses_gone s))"
    unfolding assms(5) by (rule card_Un_le)
  moreover have "card (si_id ` set rows) \<le> length rows"
    using card_image_le [of "set rows" si_id] card_length [of rows] by simp
  ultimately have "int (card (set (ses_gone s'))) \<le> n + q" using assms(1,2) by (simp add: losing_def)
  then show ?thesis using assms by (auto simp: losing_def)
qed

lemma lose_rows_losing:
  assumes "lose_rows tn t line q s = Inr s'" and "losing tn n s" and "1 \<le> q"
  shows "losing tn (n + q) s'"
proof (cases "tl_line_type line")
  case EPC_line
  then obtain row where row: "select_first si_id (\<lambda>r. si_tenant_id r = tn
      \<and> si_epc r = sn_epc (tl_snapshot line) \<and> at_transit r) s = Some row" "s' = delete_row si_id row s"
    using assms(1) by (auto simp: lose_rows_def res_simps split: if_splits option.splits)
  then have "row \<in> set (ses_base s)" "si_tenant_id row = tn" "at_transit row"
    using assms(2) by (auto simp: select_first_def losing_def dest!: find_SomeD)
  then show ?thesis using row assms by (intro losing_add [of tn n s "[row]"]) auto
next
  case SKU_line
  let ?rows = "select_oldest si_id si_created_at (in_transit_sku tn
             (\<lambda>x. x = Some (tr_origin_store_id t) \<or> x = None) line) q s"
  have s': "s' = delete_all si_id ?rows s"
    using SKU_line assms(1) by (auto simp: lose_rows_def Let_def res_simps split: if_splits)
  have "set ?rows \<subseteq> {r \<in> set (ses_base s). in_transit_sku tn
             (\<lambda>x. x = Some (tr_origin_store_id t) \<or> x = None) line r}"
    using assms(2) by (auto simp: select_oldest_def losing_def dest!: in_set_takeD)
  then have "set ?rows \<subseteq> {r \<in> set (ses_base s). si_tenant_id r = tn \<and> at_transit r}"
    by (auto simp: in_transit_sku_def Let_def)
  moreover have "int (length ?rows) \<le> q" using assms(3) by (simp add: select_oldest_def)
  ultimately show ?thesis using assms(2) unfolding s' by (intro losing_add [of tn n s ?rows]) auto
qed

lemma resolve_losing:
  assumes "for_each (resolve_one tn t lines d r) (s, ms) ols = Inr (s', ms')" and "losing tn n s"
  shows "losing tn (n + (if r = Lost_in_route then sum_list (map ol_qty ols) else 0)) s'"
  using assms
proof (induction ols arbitrary: s ms n)
  case (Cons ol ols)
  then obtain s1 ms1 where 1: "resolve_one tn t lines d r (s, ms) ol = Inr (s1, ms1)"
    "for_each (resolve_one tn t lines d r) (s1, ms1) ols = Inr (s', ms')"
    by (auto simp: res_simps)
  have "losing tn (n + (if r = Lost_in_route then ol_qty ol else 0)) s1"
    using 1(1)
  proof (rule resolve_one_Inr)
    fix line assume "1 \<le> ol_qty ol" "r = Found_and_resend \<Longrightarrow> s1 = s"
      "r = Lost_in_route \<Longrightarrow> lose_rows tn t line (ol_qty ol) s = Inr s1"
    then show ?thesis using Cons.prems(2) lose_rows_losing by (cases r) auto
  qed
  from Cons.IH [OF 1(2) this] show ?case by (auto simp: algebra_simps split: if_splits)
qed simp

text \<open>One session carries every operation; without a loss it deletes nothing.\<close>

definition stock_session :: "uuid \<Rightarrow> transfer_call \<Rightarrow> transfer_db \<Rightarrow> transfer_db \<Rightarrow> stock_item session \<Rightarrow> bool" where
  "stock_session tn c db db' s \<longleftrightarrow> session_of tn db s \<and> t_stock db' = commit si_id s
     \<and> t_stores db' = t_stores db \<and> (lost_lines c = [] \<longrightarrow> ses_gone s = [])
     \<and> (lost_lines c \<noteq> [] \<longrightarrow> losing tn (sum_list (map ol_qty (lost_lines c))) s)"

lemma stock_session_act:
  "db' = act t' s ms db \<Longrightarrow> session_of tn db s \<Longrightarrow> ses_gone s = [] \<Longrightarrow> lost_lines c = [] \<Longrightarrow>
    stock_session tn c db db' s"
  by (simp add: stock_session_def)

lemma session_of_ok: "session_of tn db s \<Longrightarrow> session_ok db s"
  by (simp add: session_of_def)

lemma lines_stock:
  assumes I: "transfer_inv db" and n: "normalize_transfer_lines db now tn origin exclude {} ls
      (open_session (t_stock db)) = Inr (ns, s)" and c: "lost_lines c = []"
    and db': "t_stock db' = commit si_id s" "t_stores db' = t_stores db"
  shows "stock_session tn c db db' s"
  using normalize_session_of [OF n session_of_open [OF I]] normalize_lines_Inr [OF n]
    transfer_inv_simps(5) [OF I] c db' by (simp add: stock_session_def)

lemma dispatch_stock:
  assumes "dispatch_action env tn u t db = Inr (db', re)" and I: "transfer_inv db" and c: "lost_lines c = []"
  shows "\<exists>s. stock_session tn c db db' s"
  using assms(1)
proof (rule dispatch_effect)
  fix s s' ms assume r: "revalidate_existing_draft_lines db (rq_now env) tn (tr_origin_store_id t) (tr_id t)
      (get_lines db (tr_id t)) (open_session (t_stock db)) = Inr s"
    and l: "for_each (dispatch_line (rq_now env) tn t) (s, []) (get_lines db (tr_id t)) = Inr (s', ms)"
    and d: "db' = act (touch env u (t\<lparr>tr_status := DISPATCHED, tr_dispatched_by_user_id := Some (us_id u),
      tr_dispatched_at := Some (rq_now env)\<rparr>)) s' ms db"
  have s: "session_of tn db s" by (rule revalidate_session_of [OF r session_of_open [OF I]])
  have "ses_gone s' = ses_gone s"
    using session_loop [OF l session_of_ok [OF s], of ses_gone] dispatch_line_session by blast
  moreover have "session_of tn db s'"
    by (rule session_of_loop [OF l s]) (rule dispatch_line_session_of)
  ultimately show ?thesis using stock_session_act [OF d _ _ c] revalidate_session [OF r I] by auto
qed

lemma receive_stock:
  assumes "receive_action env tn u t rls db = Inr (db', re)" and I: "transfer_inv db" and c: "lost_lines c = []"
  shows "\<exists>s. stock_session tn c db db' s"
  using assms(1)
proof (rule receive_effect)
  fix xs s ms t' assume l: "for_each (receive_one (rq_now env) tn t (get_lines db (tr_id t))
      (get_movement_totals db (tr_id t))) (open_session (t_stock db), []) xs = Inr (s, ms)"
    and d: "db' = act t' s ms db"
  note o = session_of_open [OF I]
  have "ses_gone s = ses_gone (open_session (t_stock db))"
    using session_loop [OF l session_of_ok [OF o], of ses_gone] receive_one_session by blast
  moreover have "session_of tn db s" by (rule session_of_loop [OF l o]) (rule receive_one_session_of)
  ultimately show ?thesis using stock_session_act [OF d _ _ c] by auto
qed

lemma cancel_stock:
  assumes "cancel_action env tn u t db = Inr (db', re)" and I: "transfer_inv db" and c: "lost_lines c = []"
  shows "\<exists>s. stock_session tn c db db' s"
  using assms(1)
proof (rule cancel_effect)
  fix s assume st: "tr_status t = DRAFT \<or> tr_status t = DISPATCHED"
    "tr_status t = DRAFT \<Longrightarrow> s = open_session (t_stock db)"
    "tr_status t = DISPATCHED \<Longrightarrow> for_each (cancel_line (rq_now env) tn t)
      (open_session (t_stock db)) (get_lines db (tr_id t)) = Inr s"
    and d: "db' = act (touch env u (t\<lparr>tr_status := CANCELED, tr_canceled_by_user_id := Some (us_id u),
      tr_canceled_at := Some (rq_now env)\<rparr>)) s [] db"
  note o = session_of_open [OF I]
  have "session_of tn db s \<and> ses_gone s = []"
  proof (cases "tr_status t = DRAFT")
    case False
    then have l: "for_each (cancel_line (rq_now env) tn t)
      (open_session (t_stock db)) (get_lines db (tr_id t)) = Inr s" using st by blast
    have "session_of tn db s" by (rule for_each_inv [OF l]) (use o cancel_line_session_of in auto)
    then show ?thesis using cancel_session_loop [OF l session_of_ok [OF o]] by simp
  qed (use st o in simp)
  then show ?thesis using stock_session_act [OF d _ _ c] by blast
qed

lemma resolve_stock:
  assumes a: "resolve_shortages_action env tn u t rs db = Inr (db', re)" and I: "transfer_inv db"
    and c: "ar_action p = Resolve_shortages rs"
  shows "\<exists>s. stock_session tn (Action i p) db db' s"
  using a
proof (rule resolve_effect)
  fix r xs s ms t' assume rs: "rs = Some \<lparr>rs_resolution = r, rs_lines = xs\<rparr>" "xs \<noteq> []"
    and l: "for_each (resolve_one tn t (get_lines db (tr_id t)) (get_movement_totals db (tr_id t)) r)
      (open_session (t_stock db), []) xs = Inr (s, ms)"
    and d: "db' = act t' s ms db"
  note o = session_of_open [OF I]
  have s: "session_of tn db s" by (rule session_of_loop [OF l o resolve_one_session_of])
  have "losing tn 0 (open_session (t_stock db))" by (simp add: losing_def open_session_def)
  from resolve_losing [OF l this]
  have "losing tn (if r = Lost_in_route then sum_list (map ol_qty xs) else 0) s" by simp
  then show ?thesis using s d rs c by (cases r) (auto simp: stock_session_def losing_def)
qed

lemma body_stock:
  assumes I: "transfer_inv db" and b: "transfer_body env c tn u db = Inr (db', re)"
  shows "\<exists>s. stock_session tn c db db' s"
proof (cases c)
  case (Create p)
  with b obtain ns s where "normalize_transfer_lines db (rq_now env) tn (cr_origin_store_id p) None {}
      (cr_lines p) (open_session (t_stock db)) = Inr (ns, s)"
    "t_stock db' = commit si_id s" "t_stores db' = t_stores db"
    by (auto simp: transfer_body_def create_transfer_body_def Let_def res_simps set_stock_def)
  then show ?thesis using lines_stock [OF I] Create by (metis lost_lines.simps(2))
next
  case (Update i p)
  with b have "update_transfer_body env i p tn u db = Inr (db', re)" by (simp add: transfer_body_def)
  then show ?thesis
  proof (rule update_effect, elim disjE exE conjE)
    fix t' ns s assume "normalize_transfer_lines db (rq_now env) tn (tr_origin_store_id t') (Some i) {}
        (the (up_lines p)) (open_session (t_stock db)) = Inr (ns, s)"
      and "db' = (set_transfer t' (set_stock s db))\<lparr>t_lines :=
            filter (\<lambda>l. tl_transfer_id l \<noteq> i) (t_lines db)
            @ build_lines (rq_fresh env) 0 i tn (rq_now env) ns\<rparr>"
    then have "stock_session tn c db db' s"
      by (intro lines_stock [OF I]) (auto simp: Update set_transfer_def set_stock_def)
    then show ?thesis by blast
  next
    fix t' s assume r: "revalidate_existing_draft_lines db (rq_now env) tn (tr_origin_store_id t') i
        (get_lines db i) (open_session (t_stock db)) = Inr s" and d: "db' = act t' s [] db"
    then show ?thesis
      using stock_session_act [OF d revalidate_session_of [OF r session_of_open [OF I]], of c]
        revalidate_session [OF r I] Update by auto
  qed
next
  case (Action i p)
  then have "transfer_actions_body env i (ar_action p) tn u db = Inr (db', re)"
    using b by (simp add: transfer_body_def)
  then show ?thesis
  proof (rule action_effect)
    fix t assume a: "case ar_action p of Dispatch \<Rightarrow> dispatch_action env tn u t db = Inr (db', re)
     | Receive rls \<Rightarrow> receive_action env tn u t rls db = Inr (db', re)
     | Report_shortages sls \<Rightarrow> report_shortages_action env tn u t sls db = Inr (db', re)
     | Resolve_shortages rs \<Rightarrow> resolve_shortages_action env tn u t rs db = Inr (db', re)
     | Cancel \<Rightarrow> cancel_action env tn u t db = Inr (db', re)"
    show ?thesis
    proof (cases "ar_action p")
      case Dispatch
      then show ?thesis using a dispatch_stock [OF _ I, of env tn u t db' re c] Action by simp
    next
      case (Receive rls)
      then show ?thesis using a receive_stock [OF _ I, of env tn u t rls db' re c] Action by simp
    next
      case (Report_shortages sls)
      with a have "report_shortages_action env tn u t sls db = Inr (db', re)" by simp
      then show ?thesis
        by (rule report_effect)
          (use Action Report_shortages in \<open>auto intro!: exI stock_session_act session_of_open [OF I]\<close>)
    next
      case (Resolve_shortages rs)
      then show ?thesis using a resolve_stock [OF _ I Resolve_shortages] Action by simp
    next
      case Cancel
      then show ?thesis using a cancel_stock [OF _ I, of env tn u t db' re c] Action by simp
    qed
  qed
qed

text \<open>C7: stock is conserved. Whatever operation returns, no stock row is created, and every
  row that stays keeps its identity, tenant, product data, tag, status and prices; the places
  alone change. Rows disappear only when a shortage is resolved as lost in route: then the rows
  that stay are unchanged, and those removed were of the tenant, in transit, and no more than
  the quantity that was declared lost.\<close>

theorem stock_conservation:
  assumes "transfer_reachable ok db" and "transfer_body env c tn u db = Inr (db', re)"
  shows "(lost_lines c = [] \<longrightarrow> map stock_identity (t_stock db') = map stock_identity (t_stock db))
    \<and> (lost_lines c \<noteq> [] \<longrightarrow> (\<exists>lost. t_stock db' = filter (\<lambda>r. si_id r \<notin> lost) (t_stock db)
        \<and> (\<forall>i \<in> lost. \<exists>r \<in> set (t_stock db). si_id r = i \<and> si_tenant_id r = tn \<and> at_transit r)
        \<and> int (card lost) \<le> sum_list (map ol_qty (lost_lines c))))"
proof -
  obtain s where s: "stock_session tn c db db' s"
    using body_stock [OF transfer_reachable_inv [OF assms(1)] assms(2)] by blast
  then have k: "stock_kept s" "ses_base s = t_stock db"
    by (simp_all add: stock_session_def session_of_def session_ok_def)
  have "\<exists>lost. t_stock db' = filter (\<lambda>r. si_id r \<notin> lost) (t_stock db)
        \<and> (\<forall>i \<in> lost. \<exists>r \<in> set (t_stock db). si_id r = i \<and> si_tenant_id r = tn \<and> at_transit r)
        \<and> int (card lost) \<le> sum_list (map ol_qty (lost_lines c))" if "lost_lines c \<noteq> []"
    using s k(2) that
    by (intro exI [of _ "set (ses_gone s)"]) (simp add: stock_session_def losing_def commit_def map_idI)
  then show ?thesis using s k moves.commit_keeps_core [OF k(1)] by (simp add: stock_session_def)
qed

section \<open>The rows of other tenants\<close>

definition foreign_rows ::
    "uuid \<Rightarrow> transfer_db
      \<Rightarrow> store list \<times> stock_item list \<times> transfer list \<times> transfer_line list \<times> transfer_movement list" where
  "foreign_rows tn db = (t_stores db, filter (\<lambda>r. si_tenant_id r \<noteq> tn) (t_stock db),
     filter (\<lambda>t. tr_tenant_id t \<noteq> tn) (t_transfers db),
     filter (\<lambda>l. tl_tenant_id l \<noteq> tn) (t_lines db),
     filter (\<lambda>m. tm_tenant_id m \<noteq> tn) (t_movements db))"

lemma foreign_stock:
  assumes "stock_session tn c db db' s"
  shows "filter (\<lambda>r. si_tenant_id r \<noteq> tn) (t_stock db') = filter (\<lambda>r. si_tenant_id r \<noteq> tn) (t_stock db)"
proof -
  have "touches (of_tenant tn) s" "stock_kept s" "ses_base s = t_stock db" "t_stock db' = commit si_id s"
    using assms by (simp_all add: stock_session_def session_of_def session_ok_def)
  then show ?thesis using touches_commit [of "of_tenant tn" s] by (metis stock_identity_fields(2))
qed

lemma foreign_replace:
  assumes "distinct (map tr_id ts)" and "t \<in> set ts" "tr_tenant_id t = tn" "tr_id t' = tr_id t" "tr_tenant_id t' = tn"
  shows "filter (\<lambda>t. tr_tenant_id t \<noteq> tn) (map (\<lambda>x. if tr_id x = tr_id t' then t' else x) ts) =
    filter (\<lambda>t. tr_tenant_id t \<noteq> tn) ts"
proof -
  have "filter (\<lambda>t. tr_tenant_id t \<noteq> tn) (map (\<lambda>x. if tr_id x = tr_id t' then t' else x) xs) =
    filter (\<lambda>t. tr_tenant_id t \<noteq> tn) xs" if "set xs \<subseteq> set ts" for xs
    using that assms key_unique [OF assms(1) _ assms(2)] by (induction xs) auto
  then show ?thesis by simp
qed

definition own_movements :: "uuid \<Rightarrow> transfer_movement list \<Rightarrow> bool" where
  "own_movements tn ms \<longleftrightarrow> (\<forall>m \<in> set ms. tm_tenant_id m = tn)"

lemma own_movements_simps [simp]:
  "own_movements tn []" "own_movements tn (ms @ ms') = (own_movements tn ms \<and> own_movements tn ms')"
  "own_movements tn (m # ms) = (tm_tenant_id m = tn \<and> own_movements tn ms)"
  by (auto simp: own_movements_def)

lemma movement_tenants [simp]:
  "tm_tenant_id (dispatch_movement t tn l q) = tn" "tm_tenant_id (movement_of t tn l a src dst q sn) = tn"
  "tm_tenant_id (receive_movement t tn l p q) = tn"
  by (simp_all add: dispatch_movement_def movement_of_def receive_movement_def split: prod.splits)

lemma own_loop:
  assumes "for_each f (s, []) xs = Inr (s', ms')"
    and "\<And>s ms x s' ms'. f (s, ms) x = Inr (s', ms') \<Longrightarrow> own_movements tn ms \<Longrightarrow> own_movements tn ms'"
  shows "own_movements tn ms'"
proof -
  have "(\<lambda>(s1, ms1). own_movements tn ms1) (s', ms')"
    by (rule for_each_inv [OF assms(1)]) (use assms(2) in \<open>auto split: prod.splits\<close>)
  then show ?thesis by simp
qed

lemma resolve_one_own:
  assumes "resolve_one tn t lines d r (s, ms) ol = Inr (s', ms')" and "own_movements tn ms"
  shows "own_movements tn ms'"
  using assms by (cases r) (auto simp: resolve_one_def Let_def res_simps)

lemma action_own:
  assumes "transfer_actions_body env i a tn u db = Inr (db', re)"
  shows "\<exists>t t' s ms. t \<in> set (t_transfers db) \<and> tr_tenant_id t = tn \<and> tr_id t' = tr_id t
    \<and> tr_tenant_id t' = tn \<and> db' = act t' s ms db \<and> own_movements tn ms"
  using assms
proof (rule action_effect)
  fix t assume t: "t \<in> set (t_transfers db)" "tr_tenant_id t = tn"
    and a: "case a of Dispatch \<Rightarrow> dispatch_action env tn u t db = Inr (db', re)
     | Receive rls \<Rightarrow> receive_action env tn u t rls db = Inr (db', re)
     | Report_shortages sls \<Rightarrow> report_shortages_action env tn u t sls db = Inr (db', re)
     | Resolve_shortages rs \<Rightarrow> resolve_shortages_action env tn u t rs db = Inr (db', re)
     | Cancel \<Rightarrow> cancel_action env tn u t db = Inr (db', re)"
  have keep: "\<exists>t t' s ms. t \<in> set (t_transfers db) \<and> tr_tenant_id t = tn \<and> tr_id t' = tr_id t
      \<and> tr_tenant_id t' = tn \<and> db' = act t' s ms db \<and> own_movements tn ms"
    if "db' = act t' s ms db" "own_movements tn ms" "tr_id t' = tr_id t" "tr_tenant_id t' = tr_tenant_id t"
    for t' s ms using that t by metis
  show ?thesis
  proof (cases a)
    case Dispatch
    with a have "dispatch_action env tn u t db = Inr (db', re)" by simp
    then show ?thesis
    proof (rule dispatch_effect)
      fix s s' ms assume l: "for_each (dispatch_line (rq_now env) tn t) (s, []) (get_lines db (tr_id t)) = Inr (s', ms)"
        and d: "db' = act (touch env u (t\<lparr>tr_status := DISPATCHED, tr_dispatched_by_user_id := Some (us_id u),
          tr_dispatched_at := Some (rq_now env)\<rparr>)) s' ms db"
      from l have "own_movements tn ms" by (rule own_loop) (auto dest: dispatch_line_Inr)
      with d show ?thesis by (rule keep) (simp_all add: touch_def)
    qed
  next
    case (Receive rls)
    with a have "receive_action env tn u t rls db = Inr (db', re)" by simp
    then show ?thesis
    proof (rule receive_effect)
      fix xs s ms t' assume l: "for_each (receive_one (rq_now env) tn t (get_lines db (tr_id t))
          (get_movement_totals db (tr_id t))) (open_session (t_stock db), []) xs = Inr (s, ms)"
        and d: "t' = touch env u (if outstanding_total (add_totals RECEIVE (get_movement_totals db (tr_id t))
            (map (\<lambda>rl. (rl_line_id rl, rl_qty rl)) xs)) = 0
          then t\<lparr>tr_status := RECEIVED, tr_received_at := Some (rq_now env)\<rparr>
          else t\<lparr>tr_status := PARTIAL_RECEIVED\<rparr>)" "db' = act t' s ms db"
      from l have "own_movements tn ms" by (rule own_loop) (auto elim!: receive_one_Inr)
      with d(2) show ?thesis by (rule keep) (simp_all add: touch_def d(1))
    qed
  next
    case (Report_shortages sls)
    with a have "report_shortages_action env tn u t sls db = Inr (db', re)" by simp
    then show ?thesis
    proof (rule report_effect)
      fix xs ms assume l: "for_each (report_one tn t (get_lines db (tr_id t)) (get_movement_totals db (tr_id t)))
          [] xs = Inr ms"
        and d: "db' = act (touch env u t) (open_session (t_stock db)) ms db"
      have "own_movements tn ms" by (rule for_each_inv [OF l]) (auto elim!: report_one_Inr)
      with d show ?thesis by (rule keep) (simp_all add: touch_def)
    qed
  next
    case (Resolve_shortages rs)
    with a have "resolve_shortages_action env tn u t rs db = Inr (db', re)" by simp
    then show ?thesis
    proof (rule resolve_effect)
      fix r xs s ms t' assume l: "for_each (resolve_one tn t (get_lines db (tr_id t))
          (get_movement_totals db (tr_id t)) r) (open_session (t_stock db), []) xs = Inr (s, ms)"
        and d: "t' = touch env u (if outstanding_total (add_totals (resolution_action r)
            (get_movement_totals db (tr_id t)) (map (\<lambda>ol. (ol_line_id ol, ol_qty ol)) xs)) = 0
          then t\<lparr>tr_status := RECEIVED, tr_received_at := Some (rq_now env)\<rparr> else t)" "db' = act t' s ms db"
      from l have "own_movements tn ms" by (rule own_loop) (rule resolve_one_own)
      with d(2) show ?thesis by (rule keep) (simp_all add: touch_def d(1))
    qed
  next
    case Cancel
    with a have "cancel_action env tn u t db = Inr (db', re)" by simp
    then show ?thesis by (rule cancel_effect) (erule keep; simp add: touch_def)
  qed
qed

lemma body_foreign:
  assumes I: "transfer_inv db" and b: "transfer_body env c tn u db = Inr (db', re)"
  shows "foreign_rows tn db' = foreign_rows tn db"
proof -
  obtain s where s: "stock_session tn c db db' s" using body_stock [OF I b] by blast
  note fs = foreign_stock [OF s]
  have stores: "t_stores db' = t_stores db" using s by (simp add: stock_session_def)
  have built: "filter (\<lambda>l. tl_tenant_id l \<noteq> tn) (build_lines fr j i tn now ns) = []" for fr j i now ns
    using build_lines_fields by (fastforce simp: filter_empty_conv)
  have lines: "filter (\<lambda>l. tl_transfer_id l \<noteq> i \<and> tl_tenant_id l \<noteq> tn) (t_lines db) =
      filter (\<lambda>l. tl_tenant_id l \<noteq> tn) (t_lines db)"
    if "t \<in> set (t_transfers db)" "tr_id t = i" "tr_tenant_id t = tn" for t i
  proof (rule filter_cong)
    fix l assume "l \<in> set (t_lines db)"
    then obtain t0 where "t0 \<in> set (t_transfers db)" "tr_id t0 = tl_transfer_id l" "tr_tenant_id t0 = tl_tenant_id l"
      using I unfolding transfer_inv_def line_tables_def by blast
    then show "(tl_transfer_id l \<noteq> i \<and> tl_tenant_id l \<noteq> tn) = (tl_tenant_id l \<noteq> tn)"
      using that key_unique [OF transfer_inv_simps(2) [OF I], of t0 t] by auto
  qed simp
  show ?thesis
  proof (cases c)
    case (Create p)
    with b show ?thesis using fs stores built
      by (auto simp: transfer_body_def create_transfer_body_def Let_def res_simps set_stock_def foreign_rows_def)
  next
    case (Update i p)
    with b have "update_transfer_body env i p tn u db = Inr (db', re)" by (simp add: transfer_body_def)
    then show ?thesis
    proof (rule update_effect)
      fix t t' assume t: "t \<in> set (t_transfers db)" "tr_id t = i" "tr_tenant_id t = tn"
          "tr_id t' = i" "tr_tenant_id t' = tn"
        and d: "(\<exists>ns s. normalize_transfer_lines db (rq_now env) tn (tr_origin_store_id t') (Some i) {}
            (the (up_lines p)) (open_session (t_stock db)) = Inr (ns, s)
          \<and> db' = (set_transfer t' (set_stock s db))\<lparr>t_lines :=
                filter (\<lambda>l. tl_transfer_id l \<noteq> i) (t_lines db)
                @ build_lines (rq_fresh env) 0 i tn (rq_now env) ns\<rparr>)
         \<or> (\<exists>s. revalidate_existing_draft_lines db (rq_now env) tn (tr_origin_store_id t') i
                (get_lines db i) (open_session (t_stock db)) = Inr s
            \<and> db' = act t' s [] db)"
      note rep = foreign_replace [OF transfer_inv_simps(2) [OF I] t(1,3) _ t(5)]
      from d fs stores show ?thesis
        using rep t built lines [OF t(1-3)]
        by (auto simp: foreign_rows_def set_transfer_def set_stock_def conj_commute)
    qed
  next
    case (Action i p)
    with b have "transfer_actions_body env i (ar_action p) tn u db = Inr (db', re)" by (simp add: transfer_body_def)
    then obtain t t' s ms where t: "t \<in> set (t_transfers db)" "tr_tenant_id t = tn" "tr_id t' = tr_id t"
      "tr_tenant_id t' = tn" and d: "db' = act t' s ms db" "own_movements tn ms"
      using action_own by metis
    have "filter (\<lambda>m. tm_tenant_id m \<noteq> tn) ms = []" using d(2) by (auto simp: own_movements_def filter_empty_conv)
    then show ?thesis
      using fs stores d foreign_replace [OF transfer_inv_simps(2) [OF I] t(1,2,3,4)]
      by (simp add: foreign_rows_def)
  qed
qed

lemma transfer_before_tenant:
  "transfer_before env c db = Inr (tn, u) \<Longrightarrow> td_tenant_id (rq_token env) = Some tn"
  by (cases c)
    (auto simp: transfer_before_def create_transfer_before_def update_transfer_before_def
      transfer_actions_before_def resolve_tenant_id_def res_simps elim!: not_falsyE split: if_splits)

text \<open>C6: tenants are isolated. A request to any transfer endpoint, whatever it answers, leaves
  every store and every stock row, transfer, line and movement of the other tenants as it was.\<close>

theorem tenant_isolation:
  assumes "transfer_reachable ok db" and "td_tenant_id (rq_token env) = Some tn"
    and "transfer_endpoint dump_err dump env c (tbl, db) = (rep, tbl', db')"
  shows "foreign_rows tn db' = foreign_rows tn db"
proof -
  have "db' = db \<or> (\<exists>tn' u rep'. transfer_before env c db = Inr (tn', u)
      \<and> replying (case c of Create _ \<Rightarrow> 201 | _ \<Rightarrow> 200) dump (transfer_body env c tn' u db) = Inr (db', rep'))"
    using guarded_endpoint_rows [OF assms(3) [unfolded transfer_endpoint_def]] by simp
  then show ?thesis
  proof (elim disjE exE conjE)
    fix tn' u rep' assume b: "transfer_before env c db = Inr (tn', u)"
      "replying (case c of Create _ \<Rightarrow> 201 | _ \<Rightarrow> 200) dump (transfer_body env c tn' u db) = Inr (db', rep')"
    then have "tn' = tn" using transfer_before_tenant assms(2) by fastforce
    then show ?thesis using b(2) body_foreign [OF transfer_reachable_inv [OF assms(1)]]
      by (auto simp: replying_def res_simps)
  qed simp
qed

end
