(* ===== verification/Transfer_Places.thy ===== *)
theory Transfer_Places
  imports Transfer_Effects
begin

text \<open>
  Transfers, where a tag is: a dispatch puts the row of every EPC line in transit, a reception
  puts it in the destination store, a cancellation puts it back where the dispatch found it.
\<close>

section \<open>Tagged rows\<close>

text \<open>The table's unique constraint \<^verbatim>\<open>uq_stock_items_tenant_epc\<close>.\<close>

definition epc_unique :: "stock_item list \<Rightarrow> bool" where
  "epc_unique stk \<longleftrightarrow> (\<forall>r \<in> set stk. \<forall>r' \<in> set stk. si_epc r \<noteq> None \<and> si_epc r = si_epc r'
     \<and> si_tenant_id r = si_tenant_id r' \<longrightarrow> r = r')"

abbreviation tagged :: "uuid \<Rightarrow> string \<Rightarrow> stock_item \<Rightarrow> bool" where
  "tagged tn e r \<equiv> si_tenant_id r = tn \<and> si_epc r = Some e"

lemma epc_uniqueD:
  "epc_unique stk \<Longrightarrow> r \<in> set stk \<Longrightarrow> r' \<in> set stk \<Longrightarrow> tagged tn e r \<Longrightarrow> tagged tn e r' \<Longrightarrow> r' = r"
  unfolding epc_unique_def by (metis option.distinct(1))

lemma oldest_untagged:
  assumes "session_ok db s" and "r \<in> set (t_stock db)" "si_epc r \<noteq> None"
    and "\<And>x. Q x \<Longrightarrow> si_epc x = None"
  shows "identity si_id (modify_all si_id (apply_move m) (select_oldest si_id si_created_at Q n s) s) r
    = identity si_id s r"
proof (rule identity_modify_all_other)
  have k: "stock_kept s" "ses_base s = t_stock db" using assms(1) by (simp_all add: session_ok_def)
  show "si_id r \<notin> si_id ` set (select_oldest si_id si_created_at Q n s)"
  proof
    assume "si_id r \<in> si_id ` set (select_oldest si_id si_created_at Q n s)"
    then obtain x where x: "x \<in> set (select_oldest si_id si_created_at Q n s)" "si_id x = si_id r" by auto
    obtain r' where "r' \<in> set (ses_base s)" "Q r'" "si_id x = si_id r'" by (rule oldest_rows [OF k(1) x(1)])
    then have "r' = r" using x(2) k assms(2) key_unique [of si_id "ses_base s" r' r] by (simp add: kept_def)
    then show False using assms(4) [OF \<open>Q r'\<close>] assms(3) by simp
  qed
qed

lemma modify_other:
  "session_ok db s \<Longrightarrow> r \<in> set (t_stock db) \<Longrightarrow> r0 \<in> set (t_stock db) \<Longrightarrow> si_epc r0 \<noteq> si_epc r \<Longrightarrow>
    identity si_id (stock_modify m (identity si_id s r0) s) r = identity si_id s r"
  using key_unique [of si_id "t_stock db" r r0]
  by (auto simp: stock_modify_def identity_modify session_ok_def kept_def)

lemma modify_self:
  "session_ok db s \<Longrightarrow> r \<in> set (t_stock db) \<Longrightarrow>
    identity si_id (stock_modify m (identity si_id s r) s) r = apply_move m (identity si_id s r)"
  using moves.identity_live [of s r]
  by (simp add: stock_modify_def identity_modify session_ok_def del: apply_move.simps) (simp add: kept_def)

lemma first_tagged:
  assumes "session_ok db s" and "select_first si_id (\<lambda>r. si_tenant_id r = tn \<and> si_epc r = Some e \<and> R r) s = Some row"
  obtains r0 where "r0 \<in> set (t_stock db)" "tagged tn e r0" "R r0" "row = identity si_id s r0"
proof -
  have k: "stock_kept s" "ses_base s = t_stock db" using assms(1) by (simp_all add: session_ok_def)
  from k(1) assms(2) show thesis by (rule moves.select_first_kept) (use that k(2) in auto)
qed

text \<open>A line of another tag leaves the row alone.\<close>

definition other_line :: "string \<Rightarrow> transfer_line \<Rightarrow> bool" where
  "other_line e line \<longleftrightarrow> (tl_line_type line = EPC_line \<longrightarrow> sn_epc (tl_snapshot line) \<noteq> Some e)"

lemma validate_epc_session_ok:
  assumes "validate_transferable_epc_stock now tn origin epc loc pool s = Inr (row, s')" and "session_ok db s"
  shows "session_ok db s'"
proof -
  have "stock_kept s" using assms(2) by (simp add: session_ok_def)
  with assms(1) show ?thesis
    by (rule validate_epc_Inr) (use assms(2) in \<open>simp add: session_ok_def\<close>)
qed

lemma dispatch_line_other:
  assumes "dispatch_line now tn t (s, ms) line = Inr (s', ms')" and s: "session_ok db s"
    and r: "r \<in> set (t_stock db)" "si_epc r = Some e" and o: "other_line e line"
  shows "identity si_id s' r = identity si_id s r"
proof (cases "tl_line_type line")
  case SKU_line
  then show ?thesis
    using assms(1) oldest_untagged [OF s r(1), of "transfer_sku_filters tn _ _ _ _"] r
    by (auto simp: dispatch_line_def res_simps sku_rows_of_line_def validate_transferable_sku_stock_def
        Let_def transfer_sku_filters_def split: if_splits)
next
  case EPC_line
  then obtain row s1 where v: "validate_transferable_epc_stock now tn (tr_origin_store_id t)
      (the (sn_epc (tl_snapshot line))) (sn_location_code (tl_snapshot line)) (sn_pool (tl_snapshot line)) s
      = Inr (row, s1)" and f: "\<not> falsy (sn_epc (tl_snapshot line))"
    and s': "s' = stock_modify (transit_move (Some (Some (tr_origin_store_id t))) now) row s1"
    using assms(1) by (auto simp: dispatch_line_def res_simps split: if_splits)
  have k: "stock_kept s" "ses_base s = t_stock db" using s by (simp_all add: session_ok_def)
  note s1 = validate_epc_session_ok [OF v s]
  from v k(1) show ?thesis
  proof (rule validate_epc_Inr)
    fix r0 assume r0: "r0 \<in> set (ses_base s)" "si_epc r0 = Some (the (sn_epc (tl_snapshot line)))"
        "row = identity si_id s1 r0"
      and keep: "\<And>r'. si_id r' \<noteq> si_id r0 \<Longrightarrow> identity si_id s1 r' = identity si_id s r'"
    have ne: "si_epc r0 \<noteq> si_epc r"
      using r0(2) r(2) o EPC_line f by (auto simp: other_line_def elim: not_falsyE)
    then have "si_id r \<noteq> si_id r0" using key_unique [of si_id "t_stock db" r r0] k r(1) r0(1) by (auto simp: kept_def)
    then show ?thesis
      using modify_other [OF s1 r(1), of r0] r0 k ne keep [of r] by (simp add: s')
  qed
qed

lemma receive_one_other:
  assumes "receive_one now tn t lines d (s, ms) rl = Inr (s', ms')" and s: "session_ok db s"
    and r: "r \<in> set (t_stock db)" "si_epc r = Some e"
    and o: "\<And>line. find_line lines (rl_line_id rl) = Inr line \<Longrightarrow> other_line e line"
  shows "identity si_id s' r = identity si_id s r"
proof -
  obtain line where line: "find_line lines (rl_line_id rl) = Inr line"
    using assms(1) by (rule receive_one_Inr)
  show ?thesis
  proof (cases "tl_line_type line")
    case SKU_line
    then show ?thesis
      using assms(1) line oldest_untagged [OF s r(1), of "in_transit_sku tn _ _"] r
      by (auto simp: receive_one_def res_simps in_transit_sku_def Let_def split: if_splits)
  next
    case EPC_line
    with assms(1) line obtain e' row m where e': "sn_epc (tl_snapshot line) = Some e'" and
      sel: "select_first si_id (\<lambda>r. si_tenant_id r = tn \<and> si_epc r = Some e'
        \<and> ((si_store_id r = Some (tr_origin_store_id t) \<or> si_store_id r = None) \<and> at_transit r)) s = Some row"
      and s': "s' = stock_modify m row s"
      by (auto simp: receive_one_def res_simps Let_def elim!: not_falsyE split: if_splits option.splits)
    obtain r0 where "r0 \<in> set (t_stock db)" "tagged tn e' r0" "row = identity si_id s r0"
      by (rule first_tagged [OF s sel])
    then show ?thesis
      using modify_other [OF s r(1), of r0] s' e' o [OF line] EPC_line r(2) by (auto simp: other_line_def)
  qed
qed

lemma cancel_line_other:
  assumes "cancel_line now tn t s line = Inr s'" and s: "session_ok db s"
    and r: "r \<in> set (t_stock db)" "si_epc r = Some e" and o: "other_line e line"
  shows "identity si_id s' r = identity si_id s r"
proof (cases "tl_line_type line")
  case SKU_line
  then show ?thesis
    using assms(1) oldest_untagged [OF s r(1), of "in_transit_sku tn _ _"] r
    by (auto simp: cancel_line_def res_simps in_transit_sku_def Let_def split: if_splits)
next
  case EPC_line
  with assms(1) obtain e' row m where e': "sn_epc (tl_snapshot line) = Some e'" and
    sel: "select_first si_id (\<lambda>r. si_tenant_id r = tn \<and> si_epc r = Some e'
      \<and> (si_store_id r = Some (tr_origin_store_id t) \<and> at_transit r)) s = Some row"
    and s': "s' = stock_modify m row s"
    by (auto simp: cancel_line_def res_simps elim!: not_falsyE split: if_splits option.splits)
  obtain r0 where "r0 \<in> set (t_stock db)" "tagged tn e' r0" "row = identity si_id s r0"
    by (rule first_tagged [OF s sel])
  then show ?thesis
    using modify_other [OF s r(1), of r0] s' e' o EPC_line r(2) by (auto simp: other_line_def)
qed

section \<open>The line of the tag\<close>

definition tag_line :: "string \<Rightarrow> transfer_line \<Rightarrow> bool" where
  "tag_line e line \<longleftrightarrow> tl_line_type line = EPC_line \<and> sn_epc (tl_snapshot line) = Some e"

text \<open>The row is in transit, held by the origin store.\<close>

definition in_transit_at :: "uuid \<Rightarrow> stock_item \<Rightarrow> bool" where
  "in_transit_at origin r \<longleftrightarrow> at_transit r \<and> si_store_id r = Some origin \<and> \<not> si_location_is_vendible r"

text \<open>The row is where the line says, in the origin store or in none, and not sold.\<close>

definition transferable_at :: "uuid \<Rightarrow> transfer_line \<Rightarrow> stock_item \<Rightarrow> bool" where
  "transferable_at origin line r \<longleftrightarrow> si_store_id r \<in> {None, Some origin} \<and> si_status r \<noteq> Some ''SOLD''
     \<and> (falsy (sn_location_code (tl_snapshot line)) \<or> si_location_code r = sn_location_code (tl_snapshot line))
     \<and> (falsy (sn_pool (tl_snapshot line)) \<or> si_pool r = sn_pool (tl_snapshot line))"

lemma validate_epc_self:
  assumes v: "validate_transferable_epc_stock now tn origin e (sn_location_code (tl_snapshot line))
      (sn_pool (tl_snapshot line)) s = Inr (row, s1)" and s: "session_ok db s"
    and u: "epc_unique (t_stock db)" and r: "r \<in> set (t_stock db)" "tagged tn e r"
  shows "transferable_at origin line (identity si_id s r)" and "row = identity si_id s1 r"
proof -
  have k: "stock_kept s" "ses_base s = t_stock db" using s by (simp_all add: session_ok_def)
  have status: "si_status row = si_status r \<and> si_status (identity si_id s r) = si_status r"
    if "stock_identity row = stock_identity r"
    using stock_identity_fields(5) [OF that] k r(1) stock_identity_fields(5) [of "identity si_id s r" r]
    by (simp add: kept_def)
  from v k(1) show "transferable_at origin line (identity si_id s r)"
  proof (rule validate_epc_Inr)
    fix r0 assume r0: "r0 \<in> set (ses_base s)" "si_tenant_id r0 = tn" "si_epc r0 = Some e"
      and f: "stock_identity row = stock_identity r0" "si_status row \<noteq> Some ''SOLD''"
        "falsy (sn_location_code (tl_snapshot line)) \<or> si_location_code row = sn_location_code (tl_snapshot line)"
        "falsy (sn_pool (tl_snapshot line)) \<or> si_pool row = sn_pool (tl_snapshot line)"
        "si_location_code row = si_location_code (identity si_id s r0)"
        "si_pool row = si_pool (identity si_id s r0)"
        "si_store_id (identity si_id s r0) \<in> {None, Some origin}"
    have "r0 = r" using epc_uniqueD [OF u r(1) _ r(2), of r0] r0 k(2) by simp
    then show ?thesis using f status by (simp add: transferable_at_def)
  qed
  from v k(1) show "row = identity si_id s1 r"
  proof (rule validate_epc_Inr)
    fix r0 assume r0: "r0 \<in> set (ses_base s)" "si_tenant_id r0 = tn" "si_epc r0 = Some e"
      and row: "row = identity si_id s1 r0"
    have "r0 = r" using epc_uniqueD [OF u r(1) _ r(2), of r0] r0 k(2) by simp
    with row show ?thesis by simp
  qed
qed

lemma dispatch_line_self:
  assumes d: "dispatch_line now tn t (s, ms) line = Inr (s', ms')" and s: "session_ok db s"
    and u: "epc_unique (t_stock db)" and r: "r \<in> set (t_stock db)" "tagged tn e r" and l: "tag_line e line"
  shows "transferable_at (tr_origin_store_id t) line (identity si_id s r)"
    and "in_transit_at (tr_origin_store_id t) (identity si_id s' r)"
proof -
  from d l obtain row s1 where v: "validate_transferable_epc_stock now tn (tr_origin_store_id t) e
      (sn_location_code (tl_snapshot line)) (sn_pool (tl_snapshot line)) s = Inr (row, s1)"
    and s': "s' = stock_modify (transit_move (Some (Some (tr_origin_store_id t))) now) row s1"
    by (auto simp: dispatch_line_def res_simps tag_line_def split: if_splits)
  note self = validate_epc_self [OF v s u r]
  show "transferable_at (tr_origin_store_id t) line (identity si_id s r)" by (rule self(1))
  show "in_transit_at (tr_origin_store_id t) (identity si_id s' r)"
    using modify_self [OF validate_epc_session_ok [OF v s] r(1)]
    by (simp add: s' self(2) in_transit_at_def at_transit_def transit_move_def)
qed

lemma receive_one_self:
  assumes d: "receive_one now tn t lines dd (s, ms) rl = Inr (s', ms')" and s: "session_ok db s"
    and u: "epc_unique (t_stock db)" and r: "r \<in> set (t_stock db)" "tagged tn e r"
    and l: "find_line lines (rl_line_id rl) = Inr line" "tag_line e line"
  shows "at_transit r"
    and "identity si_id s' r = apply_move
      (receive_move (tr_destination_store_id t) (resolve_receive_destination rl t) now) (identity si_id s r)"
proof -
  from d l obtain row where sel: "select_first si_id (\<lambda>r. si_tenant_id r = tn \<and> si_epc r = Some e
        \<and> ((si_store_id r = Some (tr_origin_store_id t) \<or> si_store_id r = None) \<and> at_transit r)) s = Some row"
    and s': "s' = stock_modify
      (receive_move (tr_destination_store_id t) (resolve_receive_destination rl t) now) row s"
    by (auto simp: receive_one_def res_simps Let_def tag_line_def split: if_splits option.splits)
  obtain r0 where r0: "r0 \<in> set (t_stock db)" "tagged tn e r0"
      "(si_store_id r0 = Some (tr_origin_store_id t) \<or> si_store_id r0 = None) \<and> at_transit r0"
      "row = identity si_id s r0"
    by (rule first_tagged [OF s sel])
  then have "r0 = r" using epc_uniqueD [OF u r(1) _ r(2)] by blast
  with r0 show "at_transit r" by simp
  show "identity si_id s' r = apply_move
      (receive_move (tr_destination_store_id t) (resolve_receive_destination rl t) now) (identity si_id s r)"
    unfolding s' r0(4) \<open>r0 = r\<close> by (rule modify_self [OF s r(1)])
qed

lemma cancel_line_self:
  assumes d: "cancel_line now tn t s line = Inr s'" and s: "session_ok db s"
    and u: "epc_unique (t_stock db)" and r: "r \<in> set (t_stock db)" "tagged tn e r" and l: "tag_line e line"
  shows "identity si_id s' r = apply_move (cancel_move line now) (identity si_id s r)"
proof -
  from d l obtain row where sel: "select_first si_id (\<lambda>r. si_tenant_id r = tn \<and> si_epc r = Some e
        \<and> (si_store_id r = Some (tr_origin_store_id t) \<and> at_transit r)) s = Some row"
    and s': "s' = stock_modify (cancel_move line now) row s"
    by (auto simp: cancel_line_def res_simps tag_line_def split: if_splits option.splits)
  obtain r0 where r0: "r0 \<in> set (t_stock db)" "tagged tn e r0" "row = identity si_id s r0"
    by (rule first_tagged [OF s sel])
  then have "r0 = r" using epc_uniqueD [OF u r(1) _ r(2)] by blast
  then show ?thesis unfolding s' r0(3) using modify_self [OF s r(1)] by simp
qed

section \<open>The whole operation\<close>

text \<open>A loop in which one round concerns the row: nothing before or after it touches the row.\<close>

lemma loop_row:
  assumes "for_each f st xs = Inr st'" and "x \<in> set xs" and s: "session_ok db (ses st)"
    and ok: "\<And>st y st'. f st y = Inr st' \<Longrightarrow> session_ok db (ses st) \<Longrightarrow> session_ok db (ses st')"
    and other: "\<And>st y st'. f st y = Inr st' \<Longrightarrow> session_ok db (ses st) \<Longrightarrow> y \<in> set xs \<Longrightarrow> P y \<Longrightarrow>
      identity si_id (ses st') r = identity si_id (ses st) r"
    and once: "\<And>as bs y. xs = as @ x # bs \<Longrightarrow> y \<in> set as \<union> set bs \<Longrightarrow> P y"
  obtains s1 s2 where "f s1 x = Inr s2" "session_ok db (ses s1)"
    "identity si_id (ses s1) r = identity si_id (ses st) r" "identity si_id (ses st') r = identity si_id (ses s2) r"
proof -
  obtain as bs s1 s2 where sp: "xs = as @ x # bs" "for_each f st as = Inr s1" "f s1 x = Inr s2"
    "for_each f s2 bs = Inr st'"
    by (rule for_each_split [OF assms(1,2)])
  have run: "session_ok db (ses s') \<and> identity si_id (ses s') r = identity si_id (ses s0) r"
    if "for_each f s0 ys = Inr s'" "session_ok db (ses s0)" "set ys \<subseteq> set as \<union> set bs" for s0 ys s'
  proof (rule for_each_inv [OF that(1),
      of "\<lambda>s. session_ok db (ses s) \<and> identity si_id (ses s) r = identity si_id (ses s0) r"])
    fix sa y sb assume y: "y \<in> set ys" and I: "session_ok db (ses sa) \<and> identity si_id (ses sa) r = identity si_id (ses s0) r"
      and f: "f sa y = Inr sb"
    have "y \<in> set as \<union> set bs" using y that(3) by blast
    then have "P y" "y \<in> set xs" using once [OF sp(1)] sp(1) by auto
    then show "session_ok db (ses sb) \<and> identity si_id (ses sb) r = identity si_id (ses s0) r"
      using I ok [OF f] other [OF f] by simp
  qed (use that(2) in simp)
  have 1: "session_ok db (ses s1)" "identity si_id (ses s1) r = identity si_id (ses st) r"
    using run [OF sp(2) s] by auto
  show thesis by (rule that [OF sp(3) 1]) (use run [OF sp(4) ok [OF sp(3) 1(1)]] in simp)
qed

lemma other_lines:
  assumes "transfer_inv db" and t: "t \<in> set (t_transfers db)"
    and l: "l \<in> set (get_lines db (tr_id t))" "tag_line e l"
    and y: "y \<in> set (get_lines db (tr_id t))" "y \<noteq> l"
  shows "other_line e y"
proof -
  have "distinct (epcs_of (map (\<lambda>l. (tl_line_type l, tl_snapshot l)) (get_lines db (tr_id t))))"
    using assms(1) t by (simp add: transfer_inv_def line_tables_def)
  from epcs_of_unique [OF this y(1) l(1)] y(2) l(2) show ?thesis
    by (auto simp: other_line_def tag_line_def)
qed

lemma distinct_other:
  "distinct (map f (as @ x # bs)) \<Longrightarrow> y \<in> set as \<union> set bs \<Longrightarrow> f y \<noteq> f x"
  by (auto simp: image_iff)

lemma line_once:
  assumes I: "transfer_inv db" and t: "t \<in> set (t_transfers db)"
    and l: "l \<in> set (get_lines db (tr_id t))" "tag_line e l"
    and sp: "get_lines db (tr_id t) = as @ l # bs" "y \<in> set as \<union> set bs"
  shows "other_line e y"
proof -
  have "y \<noteq> l" using lines_distinct [OF I, of "tr_id t"] sp by auto
  then show ?thesis using other_lines [OF I t l] sp by auto
qed

lemma revalidate_line_validates:
  assumes "revalidate_line db now tn origin tid s line = Inr s'" and "tl_line_type line = EPC_line"
  obtains row where "validate_transferable_epc_stock now tn origin (the (sn_epc (tl_snapshot line)))
    (sn_location_code (tl_snapshot line)) (sn_pool (tl_snapshot line)) s = Inr (row, s')"
    "\<not> falsy (sn_epc (tl_snapshot line))"
  using assms by (auto simp: revalidate_line_def Let_def res_simps split: if_splits option.splits)

lemma revalidate_line_other:
  assumes v: "revalidate_line db now tn origin tid s line = Inr s'" and s: "session_ok db s"
    and r: "r \<in> set (t_stock db)" "si_epc r = Some e" and o: "other_line e line"
  shows "session_ok db s' \<and> identity si_id s' r = identity si_id s r"
proof (cases "tl_line_type line")
  case SKU_line
  then show ?thesis using v s by (auto simp: revalidate_line_def bindr_Inr_iff)
next
  case EPC_line
  from v EPC_line obtain row where v: "validate_transferable_epc_stock now tn origin
      (the (sn_epc (tl_snapshot line))) (sn_location_code (tl_snapshot line)) (sn_pool (tl_snapshot line)) s
      = Inr (row, s')" and f: "\<not> falsy (sn_epc (tl_snapshot line))"
    by (rule revalidate_line_validates)
  have k: "stock_kept s" "ses_base s = t_stock db" using s by (simp_all add: session_ok_def)
  from v k(1) show ?thesis
  proof (rule validate_epc_Inr)
    fix r0 assume r0: "r0 \<in> set (ses_base s)" "si_epc r0 = Some (the (sn_epc (tl_snapshot line)))"
      and keep: "\<And>r'. si_id r' \<noteq> si_id r0 \<Longrightarrow> identity si_id s' r' = identity si_id s r'"
    have "si_epc r0 \<noteq> si_epc r" using r0(2) r(2) o EPC_line f by (auto simp: other_line_def elim: not_falsyE)
    then have "si_id r \<noteq> si_id r0" using key_unique [of si_id "t_stock db" r r0] k r(1) r0(1) by (auto simp: kept_def)
    then show ?thesis using keep validate_epc_session_ok [OF v s] by simp
  qed
qed

lemma revalidate_line_ok:
  assumes "revalidate_line db0 now tn origin tid s line = Inr s'" and "session_ok db s"
  shows "session_ok db s'"
proof (cases "tl_line_type line")
  case SKU_line
  then show ?thesis using assms by (auto simp: revalidate_line_def bindr_Inr_iff)
next
  case EPC_line
  with assms(1) show ?thesis by (rule revalidate_line_validates) (rule validate_epc_session_ok [OF _ assms(2)])
qed

lemma revalidate_tag:
  assumes I: "transfer_inv db" and t: "t \<in> set (t_transfers db)" and u: "epc_unique (t_stock db)"
    and v: "revalidate_existing_draft_lines db now tn (tr_origin_store_id t) (tr_id t)
      (get_lines db (tr_id t)) (open_session (t_stock db)) = Inr s"
    and r: "r \<in> set (t_stock db)" "tagged tn e r" and l: "l \<in> set (get_lines db (tr_id t))" "tag_line e l"
  shows "transferable_at (tr_origin_store_id t) l r"
proof (rule loop_row [where ses = "\<lambda>s. s" and P = "other_line e",
    OF v [unfolded revalidate_existing_draft_lines_def] l(1) session_ok_open [OF I]])
  fix s1 s2 assume v: "revalidate_line db now tn (tr_origin_store_id t) (tr_id t) s1 l = Inr s2"
    and s1: "session_ok db s1" "identity si_id s1 r = identity si_id (open_session (t_stock db)) r"
  from v have "tl_line_type l = EPC_line \<Longrightarrow> transferable_at (tr_origin_store_id t) l (identity si_id s1 r)"
    by (rule revalidate_line_validates)
      (use l(2) validate_epc_self(1) [OF _ s1(1) u r] in \<open>auto simp: tag_line_def\<close>)
  then show ?thesis using l(2) s1(2) by (simp add: tag_line_def)
next
  fix sa y sb assume y: "revalidate_line db now tn (tr_origin_store_id t) (tr_id t) sa y = Inr sb" "session_ok db sa"
  then show "session_ok db sb" by (rule revalidate_line_ok)
  show "other_line e y \<Longrightarrow> identity si_id sb r = identity si_id sa r"
    using revalidate_line_other [OF y r(1)] r(2) by simp
next
  fix as bs y assume "get_lines db (tr_id t) = as @ l # bs" "y \<in> set as \<union> set bs"
  then show "other_line e y" by (rule line_once [OF I t l])
qed

lemma committed_row:
  assumes "session_ok db s" and "ses_gone s = []" and "r \<in> set (t_stock db)"
  shows "identity si_id s r \<in> set (commit si_id s) \<and> stock_identity (identity si_id s r) = stock_identity r"
  using assms by (simp add: commit_def session_ok_def kept_def)

lemma dispatch_tag:
  assumes d: "dispatch_action env tn u t db = Inr (db', re)"
    and I: "transfer_inv db" and t: "t \<in> set (t_transfers db)" and un: "epc_unique (t_stock db)"
    and r: "r \<in> set (t_stock db)" "tagged tn e r" and l: "l \<in> set (get_lines db (tr_id t))" "tag_line e l"
  shows "transferable_at (tr_origin_store_id t) l r
    \<and> (\<exists>r' \<in> set (t_stock db'). stock_identity r' = stock_identity r \<and> in_transit_at (tr_origin_store_id t) r')"
  using d
proof (rule dispatch_effect)
  fix s s' ms
  assume v: "revalidate_existing_draft_lines db (rq_now env) tn (tr_origin_store_id t) (tr_id t)
      (get_lines db (tr_id t)) (open_session (t_stock db)) = Inr s"
    and loop: "for_each (dispatch_line (rq_now env) tn t) (s, []) (get_lines db (tr_id t)) = Inr (s', ms)"
    and db': "db' = act (touch env u (t\<lparr>tr_status := DISPATCHED, tr_dispatched_by_user_id := Some (us_id u),
      tr_dispatched_at := Some (rq_now env)\<rparr>)) s' ms db"
  have s: "session_ok db s" "ses_gone s = []" using revalidate_session [OF v I] by auto
  have s': "session_ok db s' \<and> ses_gone s' = ses_gone s"
    by (rule session_loop [OF loop s(1)]) (rule dispatch_line_session)
  have "in_transit_at (tr_origin_store_id t) (identity si_id s' r)"
  proof (rule loop_row [where ses = fst and P = "other_line e" and db = db and r = r, OF loop l(1)])
    fix s1 s2 assume 1: "dispatch_line (rq_now env) tn t s1 l = Inr s2" "session_ok db (fst s1)"
      and 2: "identity si_id (fst (s', ms)) r = identity si_id (fst s2) r"
    show ?thesis
      using dispatch_line_self(2) [OF _ 1(2) un r l(2), of "rq_now env" t "snd s1" "fst s2" "snd s2"] 1(1) 2 by simp
  next
    fix sa y sb assume "dispatch_line (rq_now env) tn t sa y = Inr sb" "session_ok db (fst sa)"
    then show "session_ok db (fst sb)" using dispatch_line_session by (metis prod.collapse)
  next
    fix sa y sb assume "dispatch_line (rq_now env) tn t sa y = Inr sb" "session_ok db (fst sa)" "other_line e y"
    then show "identity si_id (fst sb) r = identity si_id (fst sa) r"
      using dispatch_line_other r by (metis prod.collapse)
  qed (use s line_once [OF I t l] in auto)
  then show ?thesis
    using revalidate_tag [OF I t un v r l] committed_row [of db s' r] s s' r(1) by (auto simp: db')
qed

lemma cancel_tag:
  assumes d: "cancel_action env tn u t db = Inr (db', re)" and st: "tr_status t = DISPATCHED"
    and I: "transfer_inv db" and t: "t \<in> set (t_transfers db)" and un: "epc_unique (t_stock db)"
    and r: "r \<in> set (t_stock db)" "tagged tn e r" and l: "l \<in> set (get_lines db (tr_id t))" "tag_line e l"
  shows "apply_move (cancel_move l (rq_now env)) r \<in> set (t_stock db')"
  using d
proof (rule cancel_effect)
  fix s
  assume "tr_status t = DISPATCHED \<Longrightarrow> for_each (cancel_line (rq_now env) tn t)
      (open_session (t_stock db)) (get_lines db (tr_id t)) = Inr s"
    and db': "db' = act (touch env u (t\<lparr>tr_status := CANCELED, tr_canceled_by_user_id := Some (us_id u),
      tr_canceled_at := Some (rq_now env)\<rparr>)) s [] db"
  then have loop: "for_each (cancel_line (rq_now env) tn t) (open_session (t_stock db)) (get_lines db (tr_id t)) = Inr s"
    using st by blast
  note o = session_ok_open [OF I]
  have s: "session_ok db s \<and> ses_gone s = []" using cancel_session_loop [OF loop o] by simp
  have "identity si_id s r = apply_move (cancel_move l (rq_now env)) r"
  proof (rule loop_row [where ses = "\<lambda>s. s" and P = "other_line e" and db = db and r = r, OF loop l(1) o])
    fix s1 s2 assume 1: "cancel_line (rq_now env) tn t s1 l = Inr s2" "session_ok db s1"
      "identity si_id s1 r = identity si_id (open_session (t_stock db)) r" "identity si_id s r = identity si_id s2 r"
    show ?thesis using cancel_line_self [OF 1(1,2) un r l(2)] 1(3,4) by (simp del: apply_move.simps)
  next
    fix sa y sb assume y: "cancel_line (rq_now env) tn t sa y = Inr sb" "session_ok db sa"
    then show "session_ok db sb" using cancel_line_session by blast
    show "other_line e y \<Longrightarrow> identity si_id sb r = identity si_id sa r"
      using cancel_line_other [OF y r(1)] r(2) by simp
  next
    fix as bs y assume "get_lines db (tr_id t) = as @ l # bs" "y \<in> set as \<union> set bs"
    then show "other_line e y" by (rule line_once [OF I t l])
  qed
  then show ?thesis using committed_row [of db s r] s r(1) by (simp add: db' del: apply_move.simps)
qed

lemma receive_tag:
  assumes d: "receive_action env tn u t rls db = Inr (db', re)"
    and I: "transfer_inv db" and t: "t \<in> set (t_transfers db)" and un: "epc_unique (t_stock db)"
    and r: "r \<in> set (t_stock db)" "tagged tn e r" and l: "l \<in> set (get_lines db (tr_id t))" "tag_line e l"
    and rl: "rls = Some xs" "rl \<in> set xs" "rl_line_id rl = tl_id l" "distinct (map rl_line_id xs)"
  shows "at_transit r \<and> apply_move (receive_move (tr_destination_store_id t)
    (resolve_receive_destination rl t) (rq_now env)) r \<in> set (t_stock db')"
  using d
proof (rule receive_effect)
  let ?lines = "get_lines db (tr_id t)" and ?d = "get_movement_totals db (tr_id t)"
  fix xs' s ms t'
  assume xs': "rls = Some xs'" and l1: "for_each (receive_one (rq_now env) tn t ?lines ?d)
      (open_session (t_stock db), []) xs' = Inr (s, ms)" and db': "db' = act t' s ms db"
  then have loop: "for_each (receive_one (rq_now env) tn t ?lines ?d)
      (open_session (t_stock db), []) xs = Inr (s, ms)" using rl(1) by simp
  note o = session_ok_open [OF I]
  have s: "session_ok db s \<and> ses_gone s = []"
    using session_loop [OF loop o, of ses_gone] receive_one_session by auto
  have fl: "find_line ?lines (rl_line_id rl) = Inr l"
    using find_line_unique [OF lines_distinct [OF I] l(1)] rl(3) by simp
  have "at_transit r \<and> identity si_id s r = apply_move (receive_move (tr_destination_store_id t)
    (resolve_receive_destination rl t) (rq_now env)) r"
  proof (rule loop_row [where ses = fst and P = "\<lambda>y. rl_line_id y \<noteq> tl_id l" and db = db and r = r, OF loop rl(2)])
    fix s1 s2 assume 1: "receive_one (rq_now env) tn t ?lines ?d s1 rl = Inr s2" "session_ok db (fst s1)"
      and 2: "identity si_id (fst s1) r = identity si_id (fst (open_session (t_stock db), [])) r"
        "identity si_id (fst (s, ms)) r = identity si_id (fst s2) r"
    show ?thesis
      using receive_one_self [OF _ 1(2) un r fl l(2), of "rq_now env" t ?d "snd s1" "fst s2" "snd s2"] 1(1) 2
      by (simp del: apply_move.simps)
  next
    fix sa y sb assume "receive_one (rq_now env) tn t ?lines ?d sa y = Inr sb" "session_ok db (fst sa)"
    then show "session_ok db (fst sb)" using receive_one_session by (metis prod.collapse)
  next
    fix sa y sb assume y: "receive_one (rq_now env) tn t ?lines ?d sa y = Inr sb" "session_ok db (fst sa)"
      "rl_line_id y \<noteq> tl_id l"
    have o: "other_line e line" if f: "find_line ?lines (rl_line_id y) = Inr line" for line
    proof -
      have "line \<in> set ?lines" "line \<noteq> l" using find_line_Inr [OF f] y(3) by auto
      then show ?thesis by (rule other_lines [OF I t l])
    qed
    have "receive_one (rq_now env) tn t ?lines ?d (fst sa, snd sa) y = Inr (fst sb, snd sb)" using y(1) by simp
    from receive_one_other [OF this y(2) r(1) _ o] r(2)
    show "identity si_id (fst sb) r = identity si_id (fst sa) r" by blast
  next
    fix as bs y assume "xs = as @ rl # bs" "y \<in> set as \<union> set bs"
    then show "rl_line_id y \<noteq> tl_id l" using distinct_other [of rl_line_id as rl bs y] rl(3,4) by simp
  qed (use o in simp)
  then show ?thesis using committed_row [of db s r] s r(1) by (simp add: db' del: apply_move.simps)
qed

lemma epc_unique_conserved:
  assumes "map stock_identity stk' = map stock_identity stk" and "epc_unique stk" and "distinct (map si_id stk')"
  shows "epc_unique stk'"
  unfolding epc_unique_def
proof (intro ballI impI)
  fix r r' assume m: "r \<in> set stk'" "r' \<in> set stk'"
    and e: "si_epc r \<noteq> None \<and> si_epc r = si_epc r' \<and> si_tenant_id r = si_tenant_id r'"
  have sets: "stock_identity ` set stk' = stock_identity ` set stk" using arg_cong [OF assms(1), of set] by simp
  obtain r0 where r0: "r0 \<in> set stk" "stock_identity r = stock_identity r0" using m(1) sets by blast
  obtain r1 where r1: "r1 \<in> set stk" "stock_identity r' = stock_identity r1" using m(2) sets by blast
  have "r0 = r1"
    using assms(2) r0(1) r1(1) e stock_identity_fields(2,4) [OF r0(2)] stock_identity_fields(2,4) [OF r1(2)]
    unfolding epc_unique_def by metis
  then have "si_id r = si_id r'" using stock_identity_fields(1) [OF r0(2)] stock_identity_fields(1) [OF r1(2)] by simp
  then show "r = r'" using key_unique [OF assms(3) m] by blast
qed

lemma action_identities:
  assumes I: "transfer_inv db" and c: "transfer_actions_body env i a tn u db = Inr (db', re)"
    and a: "a = Dispatch \<or> a = Cancel \<or> (\<exists>rls. a = Receive rls)"
  shows "map stock_identity (t_stock db') = map stock_identity (t_stock db)"
proof -
  let ?c = "Action i \<lparr>ar_transaction_id = None, ar_tenant_id = None, ar_action = a\<rparr>"
  have "transfer_body env ?c tn u db = Inr (db', re)" using c by (simp add: transfer_body_def)
  then obtain s where "stock_session tn ?c db db' s" using body_stock [OF I] by blast
  moreover have "lost_lines ?c = []" using a by auto
  ultimately show ?thesis
    using moves.commit_keeps_core [of s] by (simp add: stock_session_def session_of_def session_ok_def)
qed

lemma dispatch_of_body:
  "transfer_actions_body env i Dispatch tn u db = Inr (db', re) \<Longrightarrow>
    \<exists>t \<in> set (t_transfers db). tr_id t = i \<and> dispatch_action env tn u t db = Inr (db', re)"
  by (erule action_effect) auto

lemma cancel_of_body:
  "transfer_actions_body env i Cancel tn u db = Inr (db', re) \<Longrightarrow>
    \<exists>t \<in> set (t_transfers db). tr_id t = i \<and> cancel_action env tn u t db = Inr (db', re)"
  by (erule action_effect) auto

lemma receive_of_body:
  "transfer_actions_body env i (Receive rls) tn u db = Inr (db', re) \<Longrightarrow>
    \<exists>t \<in> set (t_transfers db). tr_id t = i \<and> receive_action env tn u t rls db = Inr (db', re)"
  by (erule action_effect) auto

lemma dispatched_transfer:
  "dispatch_action env tn u t db = Inr (db', re) \<Longrightarrow> t1 \<in> set (t_transfers db') \<Longrightarrow> tr_id t1 = tr_id t \<Longrightarrow>
    tr_status t1 = DISPATCHED \<and> get_lines db' i = get_lines db i"
  by (erule dispatch_effect) (auto simp: touch_def split: if_splits)

text \<open>C8: a dispatch and its cancellation are a round trip. When a draft is dispatched, the
  tagged row of each EPC line was unsold, in the origin store or in none, and at the place its
  line recorded; after the dispatch it is in transit, out of sale, still the origin store's;
  after the cancellation it is back in the origin store, at the location and in the pool it had
  before, with its identity, status and prices unchanged throughout.\<close>

theorem dispatch_cancel_roundtrip:
  assumes "transfer_reachable ok db" and "epc_unique (t_stock db)"
    and "transfer_actions_body env i Dispatch tn u db = Inr (db1, re1)"
    and "transfer_actions_body env' i Cancel tn u' db1 = Inr (db2, re2)"
    and "l \<in> set (get_lines db i)" and "tag_line e l"
    and "\<not> falsy (sn_location_code (tl_snapshot l))" and "\<not> falsy (sn_pool (tl_snapshot l))"
    and "r \<in> set (t_stock db)" and "si_tenant_id r = tn" and "si_epc r = Some e"
  shows "\<exists>t \<in> set (t_transfers db). tr_id t = i \<and> transferable_at (tr_origin_store_id t) l r
    \<and> (\<exists>r1 \<in> set (t_stock db1). stock_identity r1 = stock_identity r
        \<and> in_transit_at (tr_origin_store_id t) r1)
    \<and> (\<exists>r2 \<in> set (t_stock db2). stock_identity r2 = stock_identity r
        \<and> si_store_id r2 = Some (tr_origin_store_id t)
        \<and> si_location_code r2 = si_location_code r \<and> si_pool r2 = si_pool r
        \<and> si_location_is_vendible r2 = sn_location_is_vendible (tl_snapshot l))"
proof -
  note I = transfer_reachable_inv [OF assms(1)]
  have I1: "transfer_inv db1" by (rule actions_inv [OF I assms(3)])
  have same: "map stock_identity (t_stock db1) = map stock_identity (t_stock db)"
    by (rule action_identities [OF I assms(3)]) simp
  have u1: "epc_unique (t_stock db1)"
    by (rule epc_unique_conserved [OF same assms(2) transfer_inv_simps(1) [OF I1]])
  obtain t where t: "t \<in> set (t_transfers db)" "tr_id t = i" and d: "dispatch_action env tn u t db = Inr (db1, re1)"
    using dispatch_of_body [OF assms(3)] by blast
  have l: "l \<in> set (get_lines db (tr_id t))" using assms(5) t(2) by simp
  obtain r1 where T: "transferable_at (tr_origin_store_id t) l r"
    and r1: "r1 \<in> set (t_stock db1)" "stock_identity r1 = stock_identity r" "in_transit_at (tr_origin_store_id t) r1"
    using dispatch_tag [OF d I t(1) assms(2,9) _ l assms(6)] assms(10,11) by blast
  have tag1: "tagged tn e r1" using stock_identity_fields(2,4) [OF r1(2)] assms(10,11) by simp
  obtain t1 where t1: "t1 \<in> set (t_transfers db1)" "tr_id t1 = i"
    and c: "cancel_action env' tn u' t1 db1 = Inr (db2, re2)"
    using cancel_of_body [OF assms(4)] by blast
  have st: "tr_status t1 = DISPATCHED" "l \<in> set (get_lines db1 (tr_id t1))"
    using dispatched_transfer [OF d t1(1)] t t1(2) l by simp_all
  let ?r2 = "apply_move (cancel_move l (rq_now env')) r1"
  have "?r2 \<in> set (t_stock db2)"
    by (rule cancel_tag [OF c st(1) I1 t1(1) u1 r1(1) tag1 st(2) assms(6)])
  moreover have "stock_identity ?r2 = stock_identity r" using r1(2) moves.core_edit by metis
  moreover have "si_store_id ?r2 = Some (tr_origin_store_id t) \<and> si_location_code ?r2 = si_location_code r
      \<and> si_pool ?r2 = si_pool r \<and> si_location_is_vendible ?r2 = sn_location_is_vendible (tl_snapshot l)"
    using T r1(3) assms(7,8) by (simp add: cancel_move_def in_transit_at_def transferable_at_def)
  ultimately show ?thesis using t T r1 by blast
qed

text \<open>a reception delivers. When a request that names a line once receives an EPC line,
  the tagged row was in transit and is now in the destination store, at the location, in the
  pool and with the sale flag the request gives, or else the store's default location, the sale
  pool and for sale; what the row is has not changed.\<close>

theorem receive_delivers:
  assumes "transfer_reachable ok db" and "epc_unique (t_stock db)"
    and "transfer_actions_body env i (Receive (Some xs)) tn u db = Inr (db', re)"
    and "rl \<in> set xs" and "rl_line_id rl = tl_id l" and "distinct (map rl_line_id xs)"
    and "l \<in> set (get_lines db i)" and "tag_line e l"
    and "r \<in> set (t_stock db)" and "si_tenant_id r = tn" and "si_epc r = Some e"
  shows "at_transit r \<and> (\<exists>t \<in> set (t_transfers db). tr_id t = i \<and> (\<exists>r' \<in> set (t_stock db').
    stock_identity r' = stock_identity r \<and> si_store_id r' = Some (tr_destination_store_id t)
    \<and> (case resolve_receive_destination rl t of (loc, pool, vend) \<Rightarrow> si_location_code r' = Some loc
         \<and> si_pool r' = Some pool \<and> si_location_is_vendible r' = vend)))"
proof -
  note I = transfer_reachable_inv [OF assms(1)]
  obtain t where t: "t \<in> set (t_transfers db)" "tr_id t = i"
    and d: "receive_action env tn u t (Some xs) db = Inr (db', re)"
    using receive_of_body [OF assms(3)] by blast
  have l: "l \<in> set (get_lines db (tr_id t))" using assms(7) t(2) by simp
  let ?r' = "apply_move (receive_move (tr_destination_store_id t) (resolve_receive_destination rl t) (rq_now env)) r"
  have m: "at_transit r \<and> ?r' \<in> set (t_stock db')"
    using receive_tag [OF d I t(1) assms(2,9) _ l assms(8) refl assms(4,5,6)] assms(10,11) by blast
  have "stock_identity ?r' = stock_identity r" by (rule moves.core_edit)
  moreover have "si_store_id ?r' = Some (tr_destination_store_id t)
      \<and> (case resolve_receive_destination rl t of (loc, pool, vend) \<Rightarrow> si_location_code ?r' = Some loc
         \<and> si_pool ?r' = Some pool \<and> si_location_is_vendible ?r' = vend)"
    by (simp add: receive_move_def split: prod.splits)
  ultimately show ?thesis using m t by (intro conjI bexI [of _ t] bexI [of _ ?r']) simp_all
qed

end
