(* ===== verification/Transfer_Demo.thy ===== *)
theory Transfer_Demo
  imports Transfer_Places
begin

text \<open>
  Transfers, a concrete run: two stores of a tenant, a tagged row and two untagged ones, an
  administrator who may manage transfers. The witnesses of the transfer properties are taken on
  it, and so are the theorems on requests that name a line twice.
\<close>

section \<open>The world\<close>

definition mover_ac :: ac_db where
  "mover_ac = \<lparr>catalog = [\<lparr>pc_id = ''p2'', pc_code = ''TRANSFER_MANAGE''\<rparr>],
     role_templates = [\<lparr>rt_id = ''r1'', rt_tenant_id = None, rt_name = ''ADMIN''\<rparr>],
     role_template_permissions = [\<lparr>rtp_role_template_id = ''r1'', rtp_permission_id = ''p2''\<rparr>],
     tenant_role_policies = [], store_role_policies = [], user_overrides = []\<rparr>"

definition mover_token :: token_data where
  "mover_token = \<lparr>td_sub = ''u1'', td_tenant_id = Some ''t1'', td_store_id = None,
     td_role = ''ADMIN'', td_status = ''active'', td_is_active = True,
     td_must_change_password = False, td_email = ''e'', td_username = ''n''\<rparr>"

definition mover :: user where
  "mover = \<lparr>us_id = ''u1'', us_tenant_id = ''t1'', us_store_id = None, us_username = ''n'',
     us_email = ''e'', us_role = ''ADMIN'', us_status = ''active'', us_must_change_password = False,
     us_is_active = True\<rparr>"

definition mover_env :: "char \<Rightarrow> request_env" where
  "mover_env c = \<lparr>rq_token = mover_token, rq_context = demo_ctx (Some ''ADMIN''),
     rq_directory = \<lparr>tenants = [\<lparr>tn_id = ''t1'', tn_name = ''T'', tn_status = ''active''\<rparr>], stores = [],
       users = [mover]\<rparr>,
     rq_ac = mover_ac, rq_cache = [], rq_path = ''p'', rq_method = ''POST'', rq_key = Some [c],
     rq_legacy_key = None, rq_hash = ''h'', rq_now = 5, rq_fresh = (\<lambda>i. replicate (Suc i) c)\<rparr>"

definition demo_world :: transfer_db where
  "demo_world = \<lparr>t_stores = [\<lparr>st_id = ''s1'', st_tenant_id = ''t1'', st_name = ''A''\<rparr>,
       \<lparr>st_id = ''s2'', st_tenant_id = ''t1'', st_name = ''B''\<rparr>],
     t_stock = [demo_item ''i1'' (Some ''E1'') (Some ''RFID''), demo_item ''i2'' None (Some ''PENDING''),
       demo_item ''i3'' None (Some ''PENDING'')],
     t_transfers = [], t_lines = [], t_movements = []\<rparr>"

definition demo_create :: transfer_call where
  "demo_create = Create \<lparr>cr_transaction_id = Some ''tx'', cr_tenant_id = None,
     cr_origin_store_id = ''s1'', cr_destination_store_id = ''s2'',
     cr_lines = [\<lparr>lc_line_type = EPC_line, lc_qty = 1, lc_snapshot = demo_snapshot\<lparr>sn_epc := Some ''E1''\<rparr>\<rparr>,
       \<lparr>lc_line_type = SKU_line, lc_qty = 2, lc_snapshot = demo_snapshot\<rparr>]\<rparr>"

definition demo_action :: "transfer_action \<Rightarrow> transfer_call" where
  "demo_action a = Action ''x'' \<lparr>ar_transaction_id = Some ''tx'', ar_tenant_id = None, ar_action = a\<rparr>"

definition run :: "char \<Rightarrow> transfer_call \<Rightarrow> transfer_db \<Rightarrow> transfer_db" where
  "run c call db = (case transfer_body (mover_env c) call ''t1'' mover db of Inl e \<Rightarrow> db | Inr (db', _) \<Rightarrow> db')"


definition demo_drafted :: transfer_db where "demo_drafted = run CHR ''x'' demo_create demo_world"
definition demo_dispatched :: transfer_db where
  "demo_dispatched = run CHR ''y'' (demo_action Dispatch) demo_drafted"

definition demo_receive :: transfer_action where
  "demo_receive = Receive (Some [\<lparr>rl_line_id = ''xx'', rl_qty = 1, rl_location_code = None, rl_pool = None,
     rl_location_is_vendible = None\<rparr>])"

definition demo_received :: transfer_db where
  "demo_received = run CHR ''z'' (demo_action demo_receive) demo_dispatched"

lemma demo_statuses:
  "map tr_status (t_transfers demo_drafted) = [DRAFT]"
  "map tr_status (t_transfers demo_dispatched) = [DISPATCHED]"
  "map tr_status (t_transfers demo_received) = [PARTIAL_RECEIVED]"
  by code_simp+

lemma demo_runs:
  "\<not> isl (transfer_body (mover_env CHR ''x'') demo_create ''t1'' mover demo_world)"
  "\<not> isl (transfer_body (mover_env CHR ''y'') (demo_action Dispatch) ''t1'' mover demo_drafted)"
  "\<not> isl (transfer_body (mover_env CHR ''z'') (demo_action demo_receive) ''t1'' mover demo_dispatched)"
  "\<not> isl (transfer_body (mover_env CHR ''z'') (demo_action Cancel) ''t1'' mover demo_dispatched)"
  by code_simp+

section \<open>The run is reachable\<close>

lemma demo_start: "transfer_reachable ok demo_world"
proof -
  have "distinct (map si_id (t_stock demo_world))" by (simp add: demo_world_def demo_item_def)
  from transfer_reachable.start [OF this, of ok "t_stores demo_world"] show ?thesis
    by (simp add: demo_world_def)
qed

text \<open>No identifier of the rows starts with the letter of the request.\<close>

definition ids_avoid :: "char \<Rightarrow> transfer_db \<Rightarrow> bool" where
  "ids_avoid c db \<longleftrightarrow> list_all (\<lambda>i. i \<noteq> [] \<and> hd i \<noteq> c) (map tr_id (t_transfers db) @ map tl_id (t_lines db))"

lemma demo_fresh:
  assumes "ids_avoid c db"
  shows "fresh_ids (mover_env c) db"
proof -
  have f: "rq_fresh (mover_env c) = (\<lambda>i. replicate (Suc i) c)" by (simp add: mover_env_def)
  have "inj (\<lambda>i. replicate (Suc i) c)" by (rule injI) (metis length_replicate nat.inject)
  moreover have "i \<noteq> [] \<and> hd i \<noteq> c" if "i \<in> tr_id ` set (t_transfers db) \<union> tl_id ` set (t_lines db)" for i
    using assms that by (auto simp: ids_avoid_def list_all_iff)
  moreover have "hd i = c \<and> i \<noteq> []" if "i \<in> range (\<lambda>i. replicate (Suc i) c)" for i
    using that by auto
  ultimately show ?thesis unfolding fresh_ids_def f by blast
qed

lemma run_step:
  assumes "ids_avoid c db" and "ok call" and "\<not> isl (transfer_body (mover_env c) call ''t1'' mover db)"
  shows "transfer_step ok db (run c call db)"
    and "\<exists>re. transfer_body (mover_env c) call ''t1'' mover db = Inr (run c call db, re)"
proof -
  obtain db' re where b: "transfer_body (mover_env c) call ''t1'' mover db = Inr (db', re)"
    using assms(3) by (cases "transfer_body (mover_env c) call ''t1'' mover db") auto
  then have r: "run c call db = db'" by (simp add: run_def)
  show "transfer_step ok db (run c call db)"
    unfolding r using assms(2) demo_fresh [OF assms(1)] b by (blast intro: transfer_step.call)
  show "\<exists>re. transfer_body (mover_env c) call ''t1'' mover db = Inr (run c call db, re)"
    using b r by auto
qed

lemma demo_ids:
  "ids_avoid CHR ''x'' demo_world" "ids_avoid CHR ''y'' demo_drafted" "ids_avoid CHR ''z'' demo_dispatched"
  by code_simp+

lemma demo_calls_once:
  "each_line_once demo_create" "each_line_once (demo_action Dispatch)" "each_line_once (demo_action demo_receive)"
  by (simp_all add: demo_create_def demo_action_def demo_receive_def)

lemma demo_reachable:
  assumes "\<And>c. each_line_once c \<Longrightarrow> ok c"
  shows "transfer_reachable ok demo_drafted" "transfer_reachable ok demo_dispatched"
    "transfer_reachable ok demo_received"
proof -
  note ok = demo_calls_once [THEN assms]
  show 1: "transfer_reachable ok demo_drafted"
    unfolding demo_drafted_def
    by (rule transfer_reachable.step [OF demo_start run_step(1) [of _ _ ok, OF demo_ids(1) ok(1) demo_runs(1)]])
  show 2: "transfer_reachable ok demo_dispatched"
    unfolding demo_dispatched_def
    by (rule transfer_reachable.step [OF 1 run_step(1) [of _ _ ok, OF demo_ids(2) ok(2) demo_runs(2)]])
  show "transfer_reachable ok demo_received"
    unfolding demo_received_def
    by (rule transfer_reachable.step [OF 2 run_step(1) [of _ _ ok, OF demo_ids(3) ok(3) demo_runs(3)]])
qed

section \<open>The witnesses\<close>

theorem transfer_lifecycle_witness:
  "\<exists>x' \<in> set (t_transfers demo_dispatched). tr_id x' = ''x'' \<and> DRAFT \<le> tr_status x'"
proof -
  obtain x where x: "x \<in> set (t_transfers demo_drafted)" "tr_id x = ''x''"
  proof -
    have "list_ex (\<lambda>x. tr_id x = ''x'') (t_transfers demo_drafted)" by code_simp
    then show thesis using that by (auto simp: list_ex_iff)
  qed
  show ?thesis
    using transfer_lifecycle [OF demo_reachable(1) [of "\<lambda>_. True"] run_step(1) [of _ _ "\<lambda>_. True", OF demo_ids(2) TrueI demo_runs(2)] x(1)] x(2)
    by (auto simp: demo_dispatched_def)
qed

lemma demo_transfer:
  "list_ex (\<lambda>t. tr_id t = ''x'' \<and> tr_status t = PARTIAL_RECEIVED) (t_transfers demo_received)"
  by code_simp

theorem transfer_books_witness:
  "map (\<lambda>l. ledger demo_received ''x'' (tl_id l) DISPATCH) (get_lines demo_received ''x'')
    = map tl_qty (get_lines demo_received ''x'')"
proof -
  obtain t where "t \<in> set (t_transfers demo_received)" "tr_id t = ''x''" "tr_status t = PARTIAL_RECEIVED"
    using demo_transfer by (auto simp: list_ex_iff)
  then show ?thesis using transfer_books [OF demo_reachable(3) [of "\<lambda>_. True"], of t] by (intro map_cong) auto
qed

theorem ledger_bounds_witness:
  "ledger demo_received ''x'' ''xx'' RECEIVE = 1
   \<and> ledger demo_received ''x'' ''xx'' RECEIVE \<le> ledger demo_received ''x'' ''xx'' DISPATCH"
proof -
  have "ledger demo_received ''x'' ''xx'' RECEIVE = 1" by code_simp
  then show ?thesis using ledger_bounds [OF demo_reachable(3), of "''x''" "''xx''"] by simp
qed

theorem epc_in_flight_once_witness:
  "\<exists>t l t' l'. holds_epc demo_dispatched ''t1'' ''E1'' t l \<and> holds_epc demo_dispatched ''t1'' ''E1'' t' l'
     \<and> t = t' \<and> l = l'"
proof -
  have "list_ex (\<lambda>t. list_ex (\<lambda>l. tr_tenant_id t = ''t1'' \<and> receivable (tr_status t) \<and> tl_line_type l = EPC_line
      \<and> sn_epc (tl_snapshot l) = Some ''E1'') (get_lines demo_dispatched (tr_id t))) (t_transfers demo_dispatched)"
    by code_simp
  then obtain t l where h: "holds_epc demo_dispatched ''t1'' ''E1'' t l"
    unfolding list_ex_iff holds_epc_def by blast
  then show ?thesis
    using epc_in_flight_once [OF demo_reachable(2) [of "\<lambda>_. True"] h h] h by blast
qed

theorem stock_conservation_witness:
  "map stock_identity (t_stock demo_dispatched) = map stock_identity (t_stock demo_drafted)"
proof -
  obtain re where "transfer_body (mover_env CHR ''y'') (demo_action Dispatch) ''t1'' mover demo_drafted
      = Inr (demo_dispatched, re)"
    using run_step(2) [of _ _ "\<lambda>_. True", OF demo_ids(2) TrueI demo_runs(2)] by (auto simp: demo_dispatched_def)
  from stock_conservation [OF demo_reachable(1) [of "\<lambda>_. True"] this] show ?thesis
    by (simp add: demo_action_def)
qed

theorem tenant_isolation_witness:
  "foreign_rows ''t1'' (snd (snd (transfer_endpoint (\<lambda>e. []) (\<lambda>r. []) (mover_env CHR ''y'') (demo_action Dispatch)
     ([], demo_drafted)))) = foreign_rows ''t1'' demo_drafted"
proof -
  obtain rep tbl db' where e: "transfer_endpoint (\<lambda>e. []) (\<lambda>r. []) (mover_env CHR ''y'') (demo_action Dispatch)
     ([], demo_drafted) = (rep, tbl, db')"
    by (metis prod.exhaust_sel)
  have "td_tenant_id (rq_token (mover_env CHR ''y'')) = Some ''t1''" by (simp add: mover_env_def mover_token_def)
  from tenant_isolation [OF demo_reachable(1) [of "\<lambda>_. True"] this e] e show ?thesis by simp
qed

lemma demo_tagged:
  "list_ex (tagged ''t1'' ''E1'') (t_stock demo_drafted)" "list_ex (tagged ''t1'' ''E1'') (t_stock demo_dispatched)"
  "list_ex (\<lambda>l. tag_line ''E1'' l \<and> tl_id l = ''xx'' \<and> \<not> falsy (sn_location_code (tl_snapshot l))
    \<and> \<not> falsy (sn_pool (tl_snapshot l))) (get_lines demo_drafted ''x'')"
  "list_ex (\<lambda>l. tag_line ''E1'' l \<and> tl_id l = ''xx'') (get_lines demo_dispatched ''x'')"
  by code_simp+

lemma demo_unique: "epc_unique (t_stock demo_drafted)" "epc_unique (t_stock demo_dispatched)"
  by code_simp+

definition demo_canceled :: transfer_db where
  "demo_canceled = run CHR ''z'' (demo_action Cancel) demo_dispatched"

lemma demo_body:
  assumes "\<not> isl (transfer_body (mover_env c) (demo_action a) ''t1'' mover db)" and "ids_avoid c db"
  obtains re where "transfer_actions_body (mover_env c) ''x'' a ''t1'' mover db = Inr (run c (demo_action a) db, re)"
  using run_step(2) [of c db "\<lambda>_. True", OF assms(2) TrueI assms(1)]
  by (auto simp: demo_action_def transfer_body_def)

theorem dispatch_cancel_roundtrip_witness:
  "\<exists>r \<in> set (t_stock demo_drafted). \<exists>r2 \<in> set (t_stock demo_canceled). si_epc r = Some ''E1''
     \<and> stock_identity r2 = stock_identity r \<and> si_location_code r2 = si_location_code r \<and> si_pool r2 = si_pool r"
proof -
  obtain r where r: "r \<in> set (t_stock demo_drafted)" "tagged ''t1'' ''E1'' r"
    using demo_tagged(1) by (auto simp: list_ex_iff)
  obtain l where l: "l \<in> set (get_lines demo_drafted ''x'')" "tag_line ''E1'' l"
    "\<not> falsy (sn_location_code (tl_snapshot l))" "\<not> falsy (sn_pool (tl_snapshot l))"
    using demo_tagged(3) by (auto simp: list_ex_iff)
  obtain re1 where d: "transfer_actions_body (mover_env CHR ''y'') ''x'' Dispatch ''t1'' mover demo_drafted
      = Inr (demo_dispatched, re1)"
    using demo_body [OF demo_runs(2) demo_ids(2)] unfolding demo_dispatched_def .
  obtain re2 where c: "transfer_actions_body (mover_env CHR ''z'') ''x'' Cancel ''t1'' mover demo_dispatched
      = Inr (demo_canceled, re2)"
    using demo_body [OF demo_runs(4) demo_ids(3)] unfolding demo_canceled_def .
  show ?thesis
    using dispatch_cancel_roundtrip [OF demo_reachable(1) [of "\<lambda>_. True"] demo_unique(1) d c l r(1)] r by blast
qed

theorem receive_delivers_witness:
  "\<exists>r' \<in> set (t_stock demo_received). si_epc r' = Some ''E1'' \<and> si_pool r' = Some ''SALE''
     \<and> si_store_id r' \<noteq> None \<and> si_location_is_vendible r'"
proof -
  obtain r where r: "r \<in> set (t_stock demo_dispatched)" "tagged ''t1'' ''E1'' r"
    using demo_tagged(2) by (auto simp: list_ex_iff)
  obtain l where l: "l \<in> set (get_lines demo_dispatched ''x'')" "tag_line ''E1'' l" "tl_id l = ''xx''"
    using demo_tagged(4) by (auto simp: list_ex_iff)
  let ?rl = "\<lparr>rl_line_id = ''xx'', rl_qty = 1, rl_location_code = None, rl_pool = None,
     rl_location_is_vendible = None\<rparr>"
  obtain re where d: "transfer_actions_body (mover_env CHR ''z'') ''x'' (Receive (Some [?rl])) ''t1'' mover
      demo_dispatched = Inr (demo_received, re)"
    using demo_body [OF demo_runs(3) demo_ids(3)] unfolding demo_received_def demo_receive_def .
  obtain t r' where "r' \<in> set (t_stock demo_received)" "stock_identity r' = stock_identity r"
    "si_store_id r' = Some (tr_destination_store_id t)"
    "case resolve_receive_destination ?rl t of (loc, pool, vend) \<Rightarrow> si_location_code r' = Some loc
      \<and> si_pool r' = Some pool \<and> si_location_is_vendible r' = vend"
    using receive_delivers [OF demo_reachable(2) [of "\<lambda>_. True"] demo_unique(2) d, where rl = ?rl and l = l and r = r and e = "''E1''"] l r by auto
  then show ?thesis
    using stock_identity_fields(4) [of r' r] r by (auto simp: resolve_receive_destination_def py_or_def DEFAULT_RECEIVE_POOL_def)
qed

section \<open>Requests that name a line twice\<close>

definition receive_of :: "uuid \<Rightarrow> receive_line" where
  "receive_of i = \<lparr>rl_line_id = i, rl_qty = 1, rl_location_code = None, rl_pool = None,
     rl_location_is_vendible = None\<rparr>"

definition demo_split :: transfer_db where
  "demo_split = run CHR ''z'' (demo_action (Receive (Some [receive_of ''xx'', receive_of ''xxx'', receive_of ''xxx''])))
     demo_dispatched"

definition demo_doubled :: transfer_db where
  "demo_doubled = run CHR ''z'' (demo_action (Receive (Some [receive_of ''xx'', receive_of ''xx'']))) demo_dispatched"

lemma doubled_runs:
  "\<not> isl (transfer_body (mover_env CHR ''z'') (demo_action (Receive (Some [receive_of ''xx'', receive_of ''xx''])))
     ''t1'' mover demo_dispatched)"
  "\<not> isl (transfer_body (mover_env CHR ''z'')
     (demo_action (Receive (Some [receive_of ''xx'', receive_of ''xxx'', receive_of ''xxx'']))) ''t1'' mover demo_dispatched)"
  by code_simp+

text \<open>the bound on receptions needs its hypothesis. Every line of a reception is checked
  against the totals read before the request, so a request that names a one-piece line twice
  is accepted, and the books then show two pieces received of the one dispatched.\<close>

theorem duplicate_receive_overcounts:
  "transfer_reachable (\<lambda>_. True) demo_doubled
   \<and> ledger demo_doubled ''x'' ''xx'' DISPATCH = 1 \<and> ledger demo_doubled ''x'' ''xx'' RECEIVE = 2"
proof -
  have "transfer_reachable (\<lambda>_. True) demo_doubled"
    unfolding demo_doubled_def
    by (rule transfer_reachable.step [OF demo_reachable(2)
        run_step(1) [of _ _ "\<lambda>_. True", OF demo_ids(3) TrueI doubled_runs(1)]]) simp
  moreover have "ledger demo_doubled ''x'' ''xx'' DISPATCH = 1" "ledger demo_doubled ''x'' ''xx'' RECEIVE = 2"
    by code_simp+
  ultimately show ?thesis by blast
qed

text \<open>a split reception strands stock. A two-piece line received in one request as one
  piece and one piece is marked received in full, but both rounds select the same oldest row
  (nothing is flushed between them), so one piece stays in transit for good: a received transfer
  is never changed again.\<close>

theorem split_receive_strands_stock:
  "transfer_reachable (\<lambda>_. True) demo_split
   \<and> (\<exists>t \<in> set (t_transfers demo_split). tr_status t = RECEIVED)
   \<and> (\<exists>r \<in> set (t_stock demo_split). at_transit r)"
proof -
  have "transfer_reachable (\<lambda>_. True) demo_split"
    unfolding demo_split_def
    by (rule transfer_reachable.step [OF demo_reachable(2)
        run_step(1) [of _ _ "\<lambda>_. True", OF demo_ids(3) TrueI doubled_runs(2)]]) simp
  moreover have "list_ex (\<lambda>t. tr_status t = RECEIVED) (t_transfers demo_split)"
    "list_ex at_transit (t_stock demo_split)"
    by code_simp+
  ultimately show ?thesis by (auto simp: list_ex_iff)
qed

end
