(* ===== verification/Cash_Model.thy ===== *)
theory Cash_Model
  imports Request
begin

text \<open>
  Cash, the data of \<^verbatim>\<open>routers/pos_cash.py\<close>: sessions, movements, day closes and cuts, the
  queries on them, and the posting of a movement that the sales and advances routers share
  (\<^verbatim>\<open>_record_cash_movement\<close> of \<^verbatim>\<open>routers/pos_sales.py\<close>). Dates are days, as integers.
\<close>

section \<open>Rows\<close>

datatype session_status = OPEN | CLOSED

record cash_session =
  cs_id :: uuid
  cs_tenant_id :: uuid
  cs_store_id :: uuid
  cs_cashier_user_id :: uuid
  cs_status :: session_status
  cs_business_date :: int
  cs_timezone :: string
  cs_opening_amount :: money
  cs_expected_cash :: money
  cs_counted_cash :: "money option"
  cs_difference :: "money option"
  cs_opened_at :: time
  cs_closed_at :: "time option"
  cs_created_at :: time

record cash_movement =
  cm_id :: uuid
  cm_tenant_id :: uuid
  cm_store_id :: uuid
  cm_cash_session_id :: "uuid option"
  cm_cashier_user_id :: uuid
  cm_actor_user_id :: "uuid option"
  cm_business_date :: int
  cm_timezone :: string
  cm_sale_id :: "uuid option"
  cm_action :: string
  cm_amount :: money
  cm_expected_balance_before :: "money option"
  cm_expected_balance_after :: "money option"
  cm_transaction_id :: "string option"
  cm_reason :: "string option"
  cm_trace_id :: string
  cm_occurred_at :: time
  cm_created_at :: time

record day_close =
  dc_id :: uuid
  dc_tenant_id :: uuid
  dc_store_id :: uuid
  dc_business_date :: int
  dc_timezone :: string
  dc_status :: session_status
  dc_force_close :: bool
  dc_reason :: "string option"
  dc_expected_cash :: money
  dc_counted_cash :: "money option"
  dc_difference_amount :: "money option"
  dc_difference_type :: "string option"
  dc_net_cash_sales :: money
  dc_cash_refunds :: money
  dc_net_cash_movement :: money
  dc_day_close_difference :: "money option"
  dc_closed_by_user_id :: uuid
  dc_closed_at :: time
  dc_created_at :: time

datatype cut_type = PARTIAL_cut | SHIFT_HANDOFF | BANK_DEPOSIT

datatype cut_status = OPEN_cut | COMPLETED_cut | VOID_cut

record cash_cut =
  cc_id :: uuid
  cc_tenant_id :: uuid
  cc_store_id :: uuid
  cc_cash_session_id :: uuid
  cc_cut_number :: int
  cc_cut_type :: cut_type
  cc_from_at :: time
  cc_to_at :: time
  cc_timezone :: string
  cc_opening_amount_snapshot :: money
  cc_cash_sales_total :: money
  cc_card_sales_total :: money
  cc_transfer_sales_total :: money
  cc_mixed_cash_component_total :: money
  cc_mixed_card_component_total :: money
  cc_mixed_transfer_component_total :: money
  cc_cash_in_total :: money
  cc_cash_out_total :: money
  cc_cash_refunds_total :: money
  cc_expected_cash :: money
  cc_counted_cash :: "money option"
  cc_difference :: "money option"
  cc_deposit_removed_amount :: "money option"
  cc_deposit_cash_movement_id :: "uuid option"
  cc_notes :: "string option"
  cc_status :: cut_status
  cc_created_by_user_id :: uuid
  cc_created_at :: time
  cc_completed_at :: "time option"

text \<open>What a cut reads of a sale: the sale and its payments, by method.\<close>

datatype payment_method = CASH | CARD | TRANSFER | ADVANCE

record sale_payments =
  sp_sale_id :: uuid
  sp_tenant_id :: uuid
  sp_store_id :: uuid
  sp_status :: string
  sp_checked_out_at :: "time option"
  sp_payments :: "(payment_method \<times> money) list"

record cash_db =
  c_stores :: "store list"
  c_sessions :: "cash_session list"
  c_movements :: "cash_movement list"
  c_closes :: "day_close list"
  c_cuts :: "cash_cut list"
  c_sales :: "sale_payments list"

section \<open>Checks and queries\<close>

definition MOVEMENT_TYPE_MAP :: "(string \<times> string) list" where
  "MOVEMENT_TYPE_MAP = [(''OPEN'', ''OPENING''), (''OPENING'', ''OPENING''), (''CASH_IN'', ''CASH_IN''),
     (''CASH_OUT'', ''CASH_OUT''), (''SALE'', ''SALE_CASH_IN''), (''SALE_CASH_IN'', ''SALE_CASH_IN''),
     (''CASH_OUT_REFUND'', ''CASH_OUT_REFUND''), (''CLOSE'', ''CLOSE_ADJUSTMENT''),
     (''CLOSE_ADJUSTMENT'', ''CLOSE_ADJUSTMENT''), (''DAY_CLOSE'', ''DAY_CLOSE'')]"

definition normalize_movement_type :: "string \<Rightarrow> string" where
  "normalize_movement_type action = dict_get MOVEMENT_TYPE_MAP action action"

definition difference_type :: "money option \<Rightarrow> string option" where
  "difference_type d = (case d of None \<Rightarrow> None
     | Some x \<Rightarrow> Some (if x > 0 then ''OVER'' else if x < 0 then ''SHORT'' else ''EVEN''))"

definition find_day_close :: "cash_db \<Rightarrow> uuid \<Rightarrow> uuid \<Rightarrow> int \<Rightarrow> day_close option" where
  "find_day_close db tenant_id store_id d =
    find (\<lambda>c. dc_tenant_id c = tenant_id \<and> dc_store_id c = store_id \<and> dc_business_date c = d) (c_closes db)"

definition ensure_not_closed :: "cash_db \<Rightarrow> uuid \<Rightarrow> uuid \<Rightarrow> int \<Rightarrow> unit res" where
  "ensure_not_closed db tenant_id store_id d =
    require (find_day_close db tenant_id store_id d = None)
      (raise1 VALIDATION_ERROR ''day close already finalized for business_date'')"

definition day_close_exists :: "cash_db \<Rightarrow> cash_session \<Rightarrow> bool" where
  "day_close_exists db s =
    list_ex (\<lambda>c. dc_tenant_id c = cs_tenant_id s \<and> dc_store_id c = cs_store_id s
      \<and> dc_business_date c = cs_business_date s \<and> dc_status c = CLOSED) (c_closes db)"

text \<open>\<^verbatim>\<open>.order_by(opened_at.desc(), created_at.desc()) ... .first()\<close>\<close>

definition latest_session :: "cash_session list \<Rightarrow> cash_session option" where
  "latest_session ss = (case sort_key (\<lambda>s. - cs_opened_at s) (sort_key (\<lambda>s. - cs_created_at s) ss) of
     [] \<Rightarrow> None | s # _ \<Rightarrow> Some s)"

definition open_session_query :: "cash_db \<Rightarrow> uuid \<Rightarrow> uuid \<Rightarrow> uuid \<Rightarrow> cash_session option" where
  "open_session_query db tenant_id store_id cashier = latest_session
    (filter (\<lambda>s. cs_tenant_id s = tenant_id \<and> cs_store_id s = store_id \<and> cs_cashier_user_id s = cashier
       \<and> cs_status s = OPEN \<and> cs_closed_at s = None \<and> \<not> day_close_exists db s) (c_sessions db))"

definition resolve_active_session ::
    "cash_db \<Rightarrow> uuid \<Rightarrow> uuid \<Rightarrow> uuid \<Rightarrow> uuid option \<Rightarrow> cash_session option" where
  "resolve_active_session db tenant_id store_id cashier session_id =
    (if falsy session_id then open_session_query db tenant_id store_id cashier
     else find (\<lambda>s. Some (cs_id s) = session_id \<and> cs_tenant_id s = tenant_id \<and> cs_store_id s = store_id
       \<and> cs_cashier_user_id s = cashier \<and> cs_status s = OPEN \<and> cs_closed_at s = None) (c_sessions db))"

definition ensure_positive_amount :: "money option \<Rightarrow> string \<Rightarrow> money res" where
  "ensure_positive_amount v field = (case v of
     None \<Rightarrow> Inl (raise1 VALIDATION_ERROR (field @ '' is required''))
   | Some x \<Rightarrow> if x \<le> 0 then Inl (raise1 VALIDATION_ERROR (field @ '' must be greater than 0''))
       else Inr x)"

definition ensure_non_negative_balance :: "money \<Rightarrow> unit res" where
  "ensure_non_negative_balance b =
    require (\<not> b < 0) (raise1 VALIDATION_ERROR ''cash_out would result in negative expected balance'')"

section \<open>Changes\<close>

definition set_session :: "cash_session \<Rightarrow> cash_db \<Rightarrow> cash_db" where
  "set_session s db =
    db\<lparr>c_sessions := map (\<lambda>x. if cs_id x = cs_id s then s else x) (c_sessions db)\<rparr>"

definition add_movement :: "cash_movement \<Rightarrow> cash_db \<Rightarrow> cash_db" where
  "add_movement m db = db\<lparr>c_movements := c_movements db @ [m]\<rparr>"

text \<open>A movement of a session.\<close>

definition session_movement ::
    "uuid \<Rightarrow> uuid \<Rightarrow> uuid \<Rightarrow> cash_session \<Rightarrow> uuid option \<Rightarrow> uuid option \<Rightarrow> string \<Rightarrow> money \<Rightarrow> money \<Rightarrow> money
      \<Rightarrow> string option \<Rightarrow> string option \<Rightarrow> string \<Rightarrow> time \<Rightarrow> cash_movement" where
  "session_movement i tenant_id store_id s actor sale action amount before after tx reason trace now =
    \<lparr>cm_id = i, cm_tenant_id = tenant_id, cm_store_id = store_id, cm_cash_session_id = Some (cs_id s),
     cm_cashier_user_id = cs_cashier_user_id s, cm_actor_user_id = actor,
     cm_business_date = cs_business_date s, cm_timezone = cs_timezone s, cm_sale_id = sale,
     cm_action = action, cm_amount = amount, cm_expected_balance_before = Some before,
     cm_expected_balance_after = Some after, cm_transaction_id = tx, cm_reason = reason,
     cm_trace_id = trace, cm_occurred_at = now, cm_created_at = now\<rparr>"

text \<open>\<^verbatim>\<open>_record_cash_movement\<close>: a sale, a refund or a voucher moves cash of a session.\<close>

definition record_cash_movement ::
    "uuid \<Rightarrow> cash_session \<Rightarrow> uuid \<Rightarrow> uuid \<Rightarrow> uuid option \<Rightarrow> string \<Rightarrow> money \<Rightarrow> string option \<Rightarrow> uuid option
      \<Rightarrow> string \<Rightarrow> time \<Rightarrow> cash_db \<Rightarrow> cash_db res" where
  "record_cash_movement i s tenant_id store_id sale action amount tx actor trace now db =
    bindr (require (\<not> amount \<le> 0)
      (raise1 VALIDATION_ERROR ''cash movement amount must be greater than 0'')) (\<lambda>_.
    bindr (require (find_day_close db tenant_id store_id (cs_business_date s) = None)
      (raise1 VALIDATION_ERROR ''cash movements are locked after day close'')) (\<lambda>_.
    let before = cs_expected_cash s;
        after = (if action \<in> {''SALE'', ''CASH_IN''} then before + amount else before - amount)
    in bindr (require (\<not> after < 0)
         (raise1 VALIDATION_ERROR ''cash_out would result in negative expected balance'')) (\<lambda>_.
       Inr (add_movement
         (session_movement i tenant_id store_id s actor sale action amount before after tx None trace now)
         (set_session (s\<lparr>cs_expected_cash := after\<rparr>) db)))))"

section \<open>Reconciliation\<close>

definition RECONCILIATION_ACTIONS :: "string list" where
  "RECONCILIATION_ACTIONS = [''OPENING'', ''CASH_IN'', ''CASH_OUT'', ''SALE_CASH_IN'', ''CASH_OUT_REFUND'']"

text \<open>\<^verbatim>\<open>select(action, sum(amount), count()) ... group_by(action)\<close>\<close>

definition group_by_action :: "cash_movement list \<Rightarrow> (string \<times> money \<times> int) list" where
  "group_by_action ms = map (\<lambda>a. (a, sum_list (map cm_amount (filter (\<lambda>m. cm_action m = a) ms)),
      int (length (filter (\<lambda>m. cm_action m = a) ms)))) (remdups (map cm_action ms))"

fun roll :: "(string \<times> money) list \<times> (string \<times> int) list \<Rightarrow> (string \<times> money \<times> int) list
    \<Rightarrow> (string \<times> money) list \<times> (string \<times> int) list" where
  "roll (totals, counts) [] = (totals, counts)"
| "roll (totals, counts) ((action, amt, n) # rows) =
    (let k = normalize_movement_type action
     in roll (if map_of totals k \<noteq> None then AList.update k (dict_get totals k 0 + amt) totals else totals,
          AList.update k (dict_get counts k 0 + n) counts) rows)"

record rollup =
  ru_opening_amount :: money
  ru_cash_in :: money
  ru_cash_out :: money
  ru_net_cash_movement :: money
  ru_net_cash_sales :: money
  ru_cash_refunds :: money
  ru_expected_cash :: money
  ru_movement_counts :: "(string \<times> int) list"

definition day_movements :: "cash_db \<Rightarrow> uuid \<Rightarrow> uuid \<Rightarrow> int \<Rightarrow> cash_movement list" where
  "day_movements db tenant_id store_id d =
    filter (\<lambda>m. cm_tenant_id m = tenant_id \<and> cm_store_id m = store_id \<and> cm_business_date m = d) (c_movements db)"

definition reconciliation_rollup :: "cash_db \<Rightarrow> uuid \<Rightarrow> uuid \<Rightarrow> int \<Rightarrow> rollup" where
  "reconciliation_rollup db tenant_id store_id d =
    (let (totals, counts) = roll (map (\<lambda>k. (k, 0)) RECONCILIATION_ACTIONS, [])
           (group_by_action (day_movements db tenant_id store_id d));
         opening = dict_get totals ''OPENING'' 0; cash_in = dict_get totals ''CASH_IN'' 0;
         cash_out = dict_get totals ''CASH_OUT'' 0; sales = dict_get totals ''SALE_CASH_IN'' 0;
         refunds = dict_get totals ''CASH_OUT_REFUND'' 0
     in \<lparr>ru_opening_amount = opening, ru_cash_in = cash_in, ru_cash_out = cash_out,
         ru_net_cash_movement = cash_in - cash_out, ru_net_cash_sales = sales, ru_cash_refunds = refunds,
         ru_expected_cash = opening + cash_in - cash_out + sales - refunds,
         ru_movement_counts = counts\<rparr>)"

end
