(* ===== verification/Cash_Sessions.thy ===== *)
theory Cash_Sessions
  imports Cash_Model
begin

text \<open>
  Cash, the sessions and the day close of \<^verbatim>\<open>routers/pos_cash.py\<close>: the four session actions, the
  close of a business date, and the queries. A body that returns gives the rows after its
  commit and the row it replies with; the response classes only copy the row's columns. Audit
  events are not modelled.
\<close>

section \<open>Scope of a request\<close>

text \<open>The checks that the mutating endpoints make between the dependencies and the idempotency
  record; the answer is the tenant and the store.\<close>

definition cash_scope ::
    "request_env \<Rightarrow> string option \<Rightarrow> string option \<Rightarrow> cash_db \<Rightarrow> (uuid \<times> uuid) res" where
  "cash_scope env tenant_id store_id db =
    bindr (pos_resolve_tenant_id (rq_token env) tenant_id) (\<lambda>tn.
    bindr (enforce_tenant_scope (rq_token env) (Some tn) True) (\<lambda>_.
    bindr (pos_resolve_store_id (rq_token env) store_id) (\<lambda>sid.
    bindr (enforce_store_scope (rq_token env) (Some sid) (c_stores db) True None) (\<lambda>_.
      Inr (tn, sid)))))"

text \<open>The read endpoints do not compare the tenant with the token a second time.\<close>

definition cash_read_scope ::
    "request_env \<Rightarrow> string option \<Rightarrow> string option \<Rightarrow> cash_db \<Rightarrow> (uuid \<times> uuid \<times> user) res" where
  "cash_read_scope env tenant_id store_id db =
    bindr (permitted_user env ''POS_CASH_VIEW'') (\<lambda>u.
    bindr (pos_resolve_tenant_id (rq_token env) tenant_id) (\<lambda>tn.
    bindr (pos_resolve_store_id (rq_token env) store_id) (\<lambda>sid.
    bindr (enforce_store_scope (rq_token env) (Some sid) (c_stores db) True None) (\<lambda>_.
      Inr (tn, sid, u)))))"

section \<open>Session actions\<close>

datatype session_action =
    Open_session (sa_opening_amount: money) (sa_business_date: int) (sa_timezone: string)
  | Cash_in money
  | Cash_out money
  | Close_session (sa_counted_cash: "money option")

record session_request =
  sq_transaction_id :: "string option"
  sq_tenant_id :: "string option"
  sq_store_id :: "string option"
  sq_action :: session_action
  sq_reason :: "string option"

text \<open>What an endpoint hands from its checks to its body.\<close>

type_synonym cash_arg = "uuid \<times> user"

type_synonym 'a cash_result = "(cash_db \<times> 'a) res"

definition cash_session_before ::
    "request_env \<Rightarrow> session_request \<Rightarrow> cash_db \<Rightarrow> (uuid \<times> cash_arg) res" where
  "cash_session_before env p db =
    bindr (permitted_user env ''POS_CASH_MANAGE'') (\<lambda>u.
    bindr (require_transaction_id (sq_transaction_id p)) (\<lambda>_.
    bindr (cash_scope env (sq_tenant_id p) (sq_store_id p) db) (\<lambda>(tn, sid). Inr (tn, sid, u))))"

definition open_cash_session ::
    "request_env \<Rightarrow> session_request \<Rightarrow> uuid \<Rightarrow> uuid \<Rightarrow> user \<Rightarrow> money \<Rightarrow> int \<Rightarrow> string \<Rightarrow> cash_db
      \<Rightarrow> cash_session cash_result" where
  "open_cash_session env p tn sid u amt d tz db =
    bindr (ensure_positive_amount (Some amt) ''opening_amount'') (\<lambda>opening.
    bindr (require (tz \<noteq> [])
      (raise1 VALIDATION_ERROR ''business_date and timezone are required'')) (\<lambda>_.
    bindr (ensure_not_closed db tn sid d) (\<lambda>_.
    bindr (require (open_session_query db tn sid (us_id u) = None)
      (raise1 BUSINESS_CONFLICT ''open cash session already exists'')) (\<lambda>_.
    let s = \<lparr>cs_id = rq_fresh env 0, cs_tenant_id = tn, cs_store_id = sid,
          cs_cashier_user_id = us_id u, cs_status = OPEN, cs_business_date = d, cs_timezone = tz,
          cs_opening_amount = opening, cs_expected_cash = opening, cs_counted_cash = None,
          cs_difference = None, cs_opened_at = rq_now env, cs_closed_at = None,
          cs_created_at = rq_now env\<rparr>
    in Inr (add_movement
          (session_movement (rq_fresh env 1) tn sid s (Some (us_id u)) None ''OPEN'' opening 0 opening
            (sq_transaction_id p) (sq_reason p) (rc_trace_id (rq_context env)) (rq_now env))
          (db\<lparr>c_sessions := c_sessions db @ [s]\<rparr>), s)))))"

text \<open>What the other three actions do to the session: its new row, the movement's action and
  amount, and the expected cash after it.\<close>

definition session_change ::
    "time \<Rightarrow> session_action \<Rightarrow> cash_session \<Rightarrow> (cash_session \<times> string \<times> money \<times> money) res" where
  "session_change now a s = (case a of
     Cash_in amt \<Rightarrow>
       bindr (ensure_positive_amount (Some amt) ''amount'') (\<lambda>amt.
         let after = cs_expected_cash s + amt
         in Inr (s\<lparr>cs_expected_cash := after\<rparr>, ''CASH_IN'', amt, after))
   | Cash_out amt \<Rightarrow>
       bindr (ensure_positive_amount (Some amt) ''amount'') (\<lambda>amt.
         let after = cs_expected_cash s - amt
         in bindr (ensure_non_negative_balance after) (\<lambda>_.
           Inr (s\<lparr>cs_expected_cash := after\<rparr>, ''CASH_OUT'', amt, after)))
   | Close_session counted \<Rightarrow>
       (case counted of
          None \<Rightarrow> Inl (raise1 VALIDATION_ERROR ''counted_cash is required'')
        | Some c \<Rightarrow> Inr (s\<lparr>cs_counted_cash := Some c, cs_difference := Some (c - cs_expected_cash s),
            cs_status := CLOSED, cs_closed_at := Some now\<rparr>, ''CLOSE'', 0, cs_expected_cash s))
   | Open_session _ _ _ \<Rightarrow> Inl (raise1 VALIDATION_ERROR ''unsupported action''))"

definition cash_session_body ::
    "request_env \<Rightarrow> session_request \<Rightarrow> uuid \<Rightarrow> cash_arg \<Rightarrow> cash_db \<Rightarrow> cash_session cash_result" where
  "cash_session_body env p tn arg db = (case arg of (sid, u) \<Rightarrow>
    (case sq_action p of
       Open_session amt d tz \<Rightarrow> open_cash_session env p tn sid u amt d tz db
     | a \<Rightarrow>
       (case open_session_query db tn sid (us_id u) of
          None \<Rightarrow> Inl (raise1 BUSINESS_CONFLICT ''open cash session required'')
        | Some s \<Rightarrow>
          bindr (ensure_not_closed db tn sid (cs_business_date s)) (\<lambda>_.
          bindr (require (cs_status s = OPEN)
            (raise1 VALIDATION_ERROR ''cash session is not open'')) (\<lambda>_.
          bindr (session_change (rq_now env) a s) (\<lambda>(s', action, amt, after).
            Inr (add_movement
              (session_movement (rq_fresh env 0) tn sid s (Some (us_id u)) None action amt
                (cs_expected_cash s) after (sq_transaction_id p) (sq_reason p)
                (rc_trace_id (rq_context env)) (rq_now env))
              (set_session s' db), s')))))))"

section \<open>Day close\<close>

record day_close_request =
  dq_transaction_id :: "string option"
  dq_tenant_id :: "string option"
  dq_store_id :: "string option"
  dq_business_date :: int
  dq_timezone :: string
  dq_force_if_open_sessions :: "bool option"
  dq_reason :: "string option"
  dq_counted_cash :: "money option"

definition close_day_before ::
    "request_env \<Rightarrow> day_close_request \<Rightarrow> cash_db \<Rightarrow> (uuid \<times> cash_arg) res" where
  "close_day_before env p db =
    bindr (permitted_user env ''POS_CASH_DAY_CLOSE'') (\<lambda>u.
    bindr (require_transaction_id (dq_transaction_id p)) (\<lambda>_.
    bindr (cash_scope env (dq_tenant_id p) (dq_store_id p) db) (\<lambda>(tn, sid). Inr (tn, sid, u))))"

definition FORCE_CLOSE_ROLES :: "string list" where
  "FORCE_CLOSE_ROLES = [''MANAGER'', ''ADMIN'', ''SUPERADMIN'', ''PLATFORM_ADMIN'']"

definition open_sessions_of :: "cash_db \<Rightarrow> uuid \<Rightarrow> uuid \<Rightarrow> int \<Rightarrow> cash_session list" where
  "open_sessions_of db tn sid d =
    filter (\<lambda>s. cs_tenant_id s = tn \<and> cs_store_id s = sid \<and> cs_business_date s = d
      \<and> cs_status s = OPEN) (c_sessions db)"

text \<open>Closing the sessions that are still open needs a manager's role and a reason.\<close>

definition force_close_check ::
    "request_env \<Rightarrow> day_close_request \<Rightarrow> cash_session list \<Rightarrow> unit res" where
  "force_close_check env p open_sessions =
    (let force = (dq_force_if_open_sessions p = Some True)
     in if open_sessions \<noteq> [] \<and> \<not> force
        then Inl (raise1 VALIDATION_ERROR ''open cash sessions exist for business_date'')
        else if open_sessions \<noteq> [] then
          bindr (require (py_upper (td_role (rq_token env)) \<in> set FORCE_CLOSE_ROLES)
            (raise0 PERMISSION_DENIED)) (\<lambda>_.
          require (\<not> falsy (dq_reason p))
            (raise1 VALIDATION_ERROR ''reason is required for force day close''))
        else Inr ())"

definition close_sessions :: "time \<Rightarrow> cash_session list \<Rightarrow> cash_db \<Rightarrow> cash_db" where
  "close_sessions now ss db =
    fold (\<lambda>s. set_session (s\<lparr>cs_status := CLOSED, cs_closed_at := Some now\<rparr>)) ss db"

text \<open>The commit, where the table's unique constraint is decided: a concurrent request may have
  committed its own close since this one read the table.\<close>

definition commit_day_close :: "day_close \<Rightarrow> cash_db \<Rightarrow> cash_db res" where
  "commit_day_close r db =
    bindr (require (find_day_close db (dc_tenant_id r) (dc_store_id r) (dc_business_date r) = None)
      (raise1 VALIDATION_ERROR ''day close already exists'')) (\<lambda>_.
    Inr (db\<lparr>c_closes := c_closes db @ [r]\<rparr>))"

definition day_close_row ::
    "request_env \<Rightarrow> day_close_request \<Rightarrow> uuid \<Rightarrow> uuid \<Rightarrow> user \<Rightarrow> rollup \<Rightarrow> day_close" where
  "day_close_row env p tn sid u r =
    (let diff = map_option (\<lambda>c. c - ru_expected_cash r) (dq_counted_cash p)
     in \<lparr>dc_id = rq_fresh env 0, dc_tenant_id = tn, dc_store_id = sid,
         dc_business_date = dq_business_date p, dc_timezone = dq_timezone p, dc_status = CLOSED,
         dc_force_close = (dq_force_if_open_sessions p = Some True), dc_reason = dq_reason p,
         dc_expected_cash = ru_expected_cash r, dc_counted_cash = dq_counted_cash p,
         dc_difference_amount = diff, dc_difference_type = difference_type diff,
         dc_net_cash_sales = ru_net_cash_sales r, dc_cash_refunds = ru_cash_refunds r,
         dc_net_cash_movement = ru_net_cash_movement r, dc_day_close_difference = diff,
         dc_closed_by_user_id = us_id u, dc_closed_at = rq_now env, dc_created_at = rq_now env\<rparr>)"

definition day_close_movement ::
    "request_env \<Rightarrow> day_close_request \<Rightarrow> uuid \<Rightarrow> uuid \<Rightarrow> user \<Rightarrow> cash_movement" where
  "day_close_movement env p tn sid u =
    \<lparr>cm_id = rq_fresh env 1, cm_tenant_id = tn, cm_store_id = sid, cm_cash_session_id = None,
     cm_cashier_user_id = us_id u, cm_actor_user_id = Some (us_id u),
     cm_business_date = dq_business_date p, cm_timezone = dq_timezone p, cm_sale_id = None,
     cm_action = ''DAY_CLOSE'', cm_amount = 0, cm_expected_balance_before = None,
     cm_expected_balance_after = None, cm_transaction_id = dq_transaction_id p,
     cm_reason = dq_reason p, cm_trace_id = rc_trace_id (rq_context env),
     cm_occurred_at = rq_now env, cm_created_at = rq_now env\<rparr>"

definition close_day_body ::
    "request_env \<Rightarrow> day_close_request \<Rightarrow> uuid \<Rightarrow> cash_arg \<Rightarrow> cash_db \<Rightarrow> day_close cash_result" where
  "close_day_body env p tn arg db = (case arg of (sid, u) \<Rightarrow>
    let d = dq_business_date p; open_sessions = open_sessions_of db tn sid d in
    bindr (require (find_day_close db tn sid d = None)
      (raise1 VALIDATION_ERROR ''day close already exists'')) (\<lambda>_.
    bindr (force_close_check env p open_sessions) (\<lambda>_.
    let db1 = close_sessions (rq_now env) open_sessions db;
        r = day_close_row env p tn sid u (reconciliation_rollup db1 tn sid d)
    in bindr (commit_day_close r db1) (\<lambda>db2.
      Inr (add_movement (day_close_movement env p tn sid u) db2, r)))))"

section \<open>The endpoints\<close>

definition cash_session_endpoint ::
    "(app_error \<Rightarrow> string) \<Rightarrow> (cash_session \<Rightarrow> string) \<Rightarrow> request_env \<Rightarrow> session_request
      \<Rightarrow> idem_table \<times> cash_db \<Rightarrow> reply \<times> idem_table \<times> cash_db" where
  "cash_session_endpoint dump_err dump env p =
    guarded_endpoint env dump_err (cash_session_before env p)
      (\<lambda>tn arg db. replying 200 dump (cash_session_body env p tn arg db))"

definition close_day_endpoint ::
    "(app_error \<Rightarrow> string) \<Rightarrow> (day_close \<Rightarrow> string) \<Rightarrow> request_env \<Rightarrow> day_close_request
      \<Rightarrow> idem_table \<times> cash_db \<Rightarrow> reply \<times> idem_table \<times> cash_db" where
  "close_day_endpoint dump_err dump env p =
    guarded_endpoint env dump_err (close_day_before env p)
      (\<lambda>tn arg db. replying 200 dump (close_day_body env p tn arg db))"

section \<open>Queries\<close>

definition get_current_session ::
    "request_env \<Rightarrow> string option \<Rightarrow> string option \<Rightarrow> string option \<Rightarrow> cash_db \<Rightarrow> cash_session res" where
  "get_current_session env store_id cashier tenant_id db =
    bindr (cash_read_scope env tenant_id store_id db) (\<lambda>(tn, sid, u).
    let c = (if falsy cashier then us_id u else the cashier)
    in case open_session_query db tn sid c of
         None \<Rightarrow> Inl (raise1 RESOURCE_NOT_FOUND ''open cash session not found'')
       | Some s \<Rightarrow> Inr s)"

text \<open>One page of the rows, and how many there are.\<close>

definition page_of :: "int \<Rightarrow> int \<Rightarrow> 'r list \<Rightarrow> 'r list \<times> int" where
  "page_of page page_size rows =
    (take (nat page_size) (drop (nat ((page - 1) * page_size)) rows), int (length rows))"

record movement_query =
  mq_cashier_user_id :: "string option"
  mq_movement_type :: "string option"
  mq_occurred_from :: "time option"
  mq_occurred_to :: "time option"
  mq_page :: int
  mq_page_size :: int

definition movement_matches :: "movement_query \<Rightarrow> uuid \<Rightarrow> uuid \<Rightarrow> cash_movement \<Rightarrow> bool" where
  "movement_matches q tn sid m \<longleftrightarrow> cm_tenant_id m = tn \<and> (sid \<noteq> [] \<longrightarrow> cm_store_id m = sid)
    \<and> (\<not> falsy (mq_cashier_user_id q) \<longrightarrow> Some (cm_cashier_user_id m) = mq_cashier_user_id q)
    \<and> (\<not> falsy (mq_movement_type q) \<longrightarrow> Some (cm_action m) = mq_movement_type q)
    \<and> (case mq_occurred_from q of None \<Rightarrow> True | Some t \<Rightarrow> t \<le> cm_occurred_at m)
    \<and> (case mq_occurred_to q of None \<Rightarrow> True | Some t \<Rightarrow> cm_occurred_at m \<le> t)"

definition list_cash_movements ::
    "request_env \<Rightarrow> string option \<Rightarrow> string option \<Rightarrow> movement_query \<Rightarrow> cash_db
      \<Rightarrow> (cash_movement list \<times> int) res" where
  "list_cash_movements env store_id tenant_id q db =
    bindr (cash_read_scope env tenant_id store_id db) (\<lambda>(tn, sid, _).
    Inr (page_of (mq_page q) (mq_page_size q)
      (sort_key (\<lambda>m. - cm_created_at m) (filter (movement_matches q tn sid) (c_movements db)))))"

definition list_day_close_summary ::
    "request_env \<Rightarrow> string option \<Rightarrow> string option \<Rightarrow> int option \<Rightarrow> int option \<Rightarrow> int \<Rightarrow> int \<Rightarrow> cash_db
      \<Rightarrow> (day_close list \<times> int) res" where
  "list_day_close_summary env store_id tenant_id date_from date_to page page_size db =
    bindr (cash_read_scope env tenant_id store_id db) (\<lambda>(tn, sid, _).
    Inr (page_of page page_size (sort_key (\<lambda>c. - dc_business_date c)
      (filter (\<lambda>c. dc_tenant_id c = tn \<and> (sid \<noteq> [] \<longrightarrow> dc_store_id c = sid)
          \<and> (case date_from of None \<Rightarrow> True | Some d \<Rightarrow> d \<le> dc_business_date c)
          \<and> (case date_to of None \<Rightarrow> True | Some d \<Rightarrow> dc_business_date c \<le> d)) (c_closes db)))))"

record breakdown =
  bd_rollup :: rollup
  bd_day_close_difference :: "money option"
  bd_movements :: "(string \<times> money \<times> int) list"

text \<open>\<^verbatim>\<open>day_close.day_close_difference\<close> is tested for truth, so a difference of zero reads as none.\<close>

definition reconciliation_breakdown ::
    "request_env \<Rightarrow> string \<Rightarrow> string option \<Rightarrow> int \<Rightarrow> cash_db \<Rightarrow> breakdown res" where
  "reconciliation_breakdown env store_id tenant_id d db =
    bindr (cash_read_scope env tenant_id (Some store_id) db) (\<lambda>(tn, sid, _).
    Inr \<lparr>bd_rollup = reconciliation_rollup db tn sid d,
      bd_day_close_difference = (case find_day_close db tn sid d of
         None \<Rightarrow> None
       | Some c \<Rightarrow> if dc_day_close_difference c = Some 0 then None else dc_day_close_difference c),
      bd_movements = map (\<lambda>(a, t, n). (normalize_movement_type a, t, n))
        (group_by_action (day_movements db tn sid d))\<rparr>)"

end
