(* ===== verification/Py_Time.thy ===== *)
theory Py_Time
  imports Prelude
begin

text \<open>
  The text Python gives to numbers and times: zero-padded decimals and \<^verbatim>\<open>isoformat\<close> of a naive
  \<^verbatim>\<open>datetime\<close>. A time is a count of microseconds since 1970-01-01T00:00:00, a date a count of
  days since 1970-01-01, in the proleptic Gregorian calendar that \<^verbatim>\<open>datetime\<close> uses.
\<close>

definition digit_char :: "nat \<Rightarrow> char" where
  "digit_char n = char_of (48 + n)"

fun nat_str :: "nat \<Rightarrow> string" where
  "nat_str n = (if n < 10 then [digit_char n] else nat_str (n div 10) @ [digit_char (n mod 10)])"

declare nat_str.simps [simp del]

definition zero_pad :: "nat \<Rightarrow> nat \<Rightarrow> string" where
  "zero_pad w n = (let s = nat_str n in replicate (w - length s) CHR ''0'' @ s)"

definition microseconds_per_day :: int where "microseconds_per_day = 86400000000"

text \<open>\<^verbatim>\<open>t.date()\<close> and \<^verbatim>\<open>timedelta(days=n)\<close>.\<close>

definition date_of :: "time \<Rightarrow> int" where "date_of t = t div microseconds_per_day"
definition days :: "int \<Rightarrow> time" where "days n = n * microseconds_per_day"

text \<open>The date of a day number, counting years from March so that the leap day is last.\<close>

definition civil_from_days :: "int \<Rightarrow> int \<times> int \<times> int" where
  "civil_from_days z =
    (let z' = z + 719468; era = z' div 146097; doe = z' mod 146097;
         yoe = (doe - doe div 1460 + doe div 36524 - doe div 146096) div 365;
         doy = doe - (365 * yoe + yoe div 4 - yoe div 100);
         mp = (5 * doy + 2) div 153;
         d = doy - (153 * mp + 2) div 5 + 1;
         m = (if mp < 10 then mp + 3 else mp - 9);
         y = yoe + era * 400 + (if m \<le> 2 then 1 else 0)
     in (y, m, d))"

definition isoformat :: "time \<Rightarrow> string" where
  "isoformat t =
    (let (y, m, d) = civil_from_days (date_of t); us = t mod microseconds_per_day;
         s = us div 1000000; f = us mod 1000000
     in zero_pad 4 (nat y) @ ''-'' @ zero_pad 2 (nat m) @ ''-'' @ zero_pad 2 (nat d) @ ''T''
        @ zero_pad 2 (nat (s div 3600)) @ '':'' @ zero_pad 2 (nat (s div 60 mod 60)) @ '':''
        @ zero_pad 2 (nat (s mod 60)) @ (if f = 0 then [] else ''.'' @ zero_pad 6 (nat f)))"

lemma isoformat_leap_day: "isoformat 1709210096000042 = ''2024-02-29T12:34:56.000042''"
  by code_simp

lemma isoformat_midnight: "isoformat (days 365) = ''1971-01-01T00:00:00''"
  by code_simp

lemma date_of_days_add [simp]: "date_of (t + days n) = date_of t + n"
  by (simp add: date_of_def days_def microseconds_per_day_def)

end
