(* ===== verification/Cash_Cuts.thy ===== *)
theory Cash_Cuts
  imports Cash_Sessions Py_Time
begin

text \<open>
  Cash, the cuts of \<^verbatim>\<open>routers/pos_cash.py\<close>: the window and the totals of a cut, quoting and
  creating one, the actions on one, and the queries. These endpoints have no idempotency
  record.
\<close>

section \<open>The window and the totals\<close>

definition resolve_cut_window ::
    "cash_db \<Rightarrow> time \<Rightarrow> cash_session \<Rightarrow> bool \<Rightarrow> time option \<Rightarrow> time option \<Rightarrow> time \<times> time" where
  "resolve_cut_window db now s use_last from_at to_at =
    (let to_value = (case to_at of None \<Rightarrow> now | Some t \<Rightarrow> t)
     in case from_at of
          Some f \<Rightarrow> (f, to_value)
        | None \<Rightarrow>
          (case (if use_last then sort_key (\<lambda>c. - cc_cut_number c)
                  (filter (\<lambda>c. cc_cash_session_id c = cs_id s) (c_cuts db)) else []) of
             c # _ \<Rightarrow> (cc_to_at c, to_value)
           | [] \<Rightarrow> (cs_opened_at s, to_value)))"

text \<open>\<^verbatim>\<open>{action: Decimal(str(total or 0)) for action, total in rows}\<close>\<close>

definition totals_by_action :: "cash_movement list \<Rightarrow> (string \<times> money) list" where
  "totals_by_action ms = map (\<lambda>(a, t, n). (a, t)) (group_by_action ms)"

definition session_movements :: "cash_db \<Rightarrow> uuid \<Rightarrow> uuid \<Rightarrow> uuid \<Rightarrow> cash_movement list" where
  "session_movements db tn sid i =
    filter (\<lambda>m. cm_tenant_id m = tn \<and> cm_store_id m = sid \<and> cm_cash_session_id m = Some i) (c_movements db)"

text \<open>What the session held at the start of the window.\<close>

definition opening_snapshot :: "cash_db \<Rightarrow> uuid \<Rightarrow> uuid \<Rightarrow> cash_session \<Rightarrow> time \<Rightarrow> money" where
  "opening_snapshot db tn sid s from_at =
    (let prior = totals_by_action (filter (\<lambda>m. cs_opened_at s \<le> cm_occurred_at m \<and> cm_occurred_at m < from_at
           \<and> cm_action m \<in> {''CASH_IN'', ''CASH_OUT'', ''SALE'', ''CASH_OUT_REFUND''})
         (session_movements db tn sid (cs_id s)))
     in cs_opening_amount s + dict_get prior ''CASH_IN'' 0 - dict_get prior ''CASH_OUT'' 0
        + dict_get prior ''SALE'' 0 - dict_get prior ''CASH_OUT_REFUND'' 0)"

definition paid_by :: "payment_method \<Rightarrow> sale_payments \<Rightarrow> money" where
  "paid_by m s = sum_list (map snd (filter (\<lambda>p. fst p = m) (sp_payments s)))"

record sales_totals =
  to_cash :: money
  to_card :: money
  to_transfer :: money
  to_mixed_cash :: money
  to_mixed_card :: money
  to_mixed_transfer :: money

text \<open>The loop over the sales with a payment.\<close>

fun sum_sales :: "sales_totals \<Rightarrow> sale_payments list \<Rightarrow> sales_totals" where
  "sum_sales t [] = t"
| "sum_sales t (s # ss) =
    (let cash = paid_by CASH s; card = paid_by CARD s; transfer = paid_by TRANSFER s;
         t1 = t\<lparr>to_cash := to_cash t + cash, to_card := to_card t + card,
                to_transfer := to_transfer t + transfer\<rparr>;
         t2 = (if length (sp_payments s) > 1 then
           t1\<lparr>to_mixed_cash := to_mixed_cash t + cash, to_mixed_card := to_mixed_card t + card,
              to_mixed_transfer := to_mixed_transfer t + transfer\<rparr> else t1)
     in sum_sales t2 ss)"

definition window_sales :: "cash_db \<Rightarrow> uuid \<Rightarrow> uuid \<Rightarrow> time \<Rightarrow> time \<Rightarrow> sale_payments list" where
  "window_sales db tn sid from_at to_at =
    filter (\<lambda>s. sp_tenant_id s = tn \<and> sp_store_id s = sid \<and> sp_status s = ''PAID''
      \<and> (case sp_checked_out_at s of None \<Rightarrow> False | Some t \<Rightarrow> from_at \<le> t \<and> t \<le> to_at)
      \<and> sp_payments s \<noteq> []) (c_sales db)"

definition next_cut_number :: "cash_db \<Rightarrow> cash_session \<Rightarrow> int" where
  "next_cut_number db s =
    (case map cc_cut_number (filter (\<lambda>c. cc_cash_session_id c = cs_id s) (c_cuts db)) of
       [] \<Rightarrow> 1 | n # ns \<Rightarrow> fold max ns n + 1)"

definition QUOTE_ID :: uuid where "QUOTE_ID = ''00000000-0000-0000-0000-000000000000''"

definition calculate_cut_quote ::
    "cash_db \<Rightarrow> time \<Rightarrow> uuid \<Rightarrow> uuid \<Rightarrow> cash_session \<Rightarrow> cut_type \<Rightarrow> time \<Rightarrow> time \<Rightarrow> string
      \<Rightarrow> money option \<Rightarrow> money option \<Rightarrow> string option \<Rightarrow> cash_cut res" where
  "calculate_cut_quote db now tn sid s ty from_at to_at tz counted deposit notes =
    bindr (require (\<not> to_at \<le> from_at)
      (raise1 VALIDATION_ERROR ''to_at must be greater than from_at'')) (\<lambda>_.
    let opening = opening_snapshot db tn sid s from_at;
        sales = sum_sales \<lparr>to_cash = 0, to_card = 0, to_transfer = 0, to_mixed_cash = 0,
          to_mixed_card = 0, to_mixed_transfer = 0\<rparr> (window_sales db tn sid from_at to_at);
        totals = totals_by_action (filter (\<lambda>m. from_at \<le> cm_occurred_at m \<and> cm_occurred_at m \<le> to_at
           \<and> cm_action m \<in> {''CASH_IN'', ''CASH_OUT'', ''CASH_OUT_REFUND''})
         (session_movements db tn sid (cs_id s)));
        cash_in = dict_get totals ''CASH_IN'' 0; cash_out = dict_get totals ''CASH_OUT'' 0;
        refunds = dict_get totals ''CASH_OUT_REFUND'' 0;
        expected = opening + to_cash sales + cash_in - cash_out - refunds
    in Inr \<lparr>cc_id = QUOTE_ID, cc_tenant_id = tn, cc_store_id = sid, cc_cash_session_id = cs_id s,
      cc_cut_number = next_cut_number db s, cc_cut_type = ty, cc_from_at = from_at, cc_to_at = to_at,
      cc_timezone = tz, cc_opening_amount_snapshot = opening, cc_cash_sales_total = to_cash sales,
      cc_card_sales_total = to_card sales, cc_transfer_sales_total = to_transfer sales,
      cc_mixed_cash_component_total = to_mixed_cash sales,
      cc_mixed_card_component_total = to_mixed_card sales,
      cc_mixed_transfer_component_total = to_mixed_transfer sales, cc_cash_in_total = cash_in,
      cc_cash_out_total = cash_out, cc_cash_refunds_total = refunds, cc_expected_cash = expected,
      cc_counted_cash = counted, cc_difference = map_option (\<lambda>c. c - expected) counted,
      cc_deposit_removed_amount = deposit, cc_deposit_cash_movement_id = None, cc_notes = notes,
      cc_status = OPEN_cut, cc_created_by_user_id = cs_cashier_user_id s, cc_created_at = now,
      cc_completed_at = None\<rparr>)"

section \<open>Quote and create\<close>

record cut_quote_request =
  qq_tenant_id :: "string option"
  qq_store_id :: "string option"
  qq_cash_session_id :: "uuid option"
  qq_use_last_cut_window :: bool
  qq_from_at :: "time option"
  qq_to_at :: "time option"
  qq_timezone :: "string option"
  qq_cut_type :: cut_type

record cut_create_request = cut_quote_request +
  qq_transaction_id :: "string option"
  qq_counted_cash :: "money option"
  qq_deposit_removed_amount :: "money option"
  qq_notes :: "string option"
  qq_auto_apply_cash_out :: bool

text \<open>The session a cut is for, and its window.\<close>

definition cut_session ::
    "request_env \<Rightarrow> 'x cut_quote_request_scheme \<Rightarrow> uuid \<Rightarrow> uuid \<Rightarrow> user \<Rightarrow> cash_db
      \<Rightarrow> (cash_session \<times> time \<times> time \<times> string) res" where
  "cut_session env p tn sid u db =
    (case resolve_active_session db tn sid (us_id u) (qq_cash_session_id p) of
       None \<Rightarrow> Inl (raise1 BUSINESS_CONFLICT ''open cash session required'')
     | Some s \<Rightarrow>
       bindr (ensure_not_closed db tn sid (cs_business_date s)) (\<lambda>_.
       let (from_at, to_at) = resolve_cut_window db (rq_now env) s (qq_use_last_cut_window p)
         (qq_from_at p) (qq_to_at p)
       in Inr (s, from_at, to_at, the (py_or (qq_timezone p) (Some (cs_timezone s))))))"

definition quote_cash_cut :: "request_env \<Rightarrow> cut_quote_request \<Rightarrow> cash_db \<Rightarrow> cash_cut res" where
  "quote_cash_cut env p db =
    bindr (permitted_user env ''POS_CASH_VIEW'') (\<lambda>u.
    bindr (cash_scope env (qq_tenant_id p) (qq_store_id p) db) (\<lambda>(tn, sid).
    bindr (cut_session env p tn sid u db) (\<lambda>(s, from_at, to_at, tz).
    bindr (calculate_cut_quote db (rq_now env) tn sid s (qq_cut_type p) from_at to_at tz None None None)
      (\<lambda>q. Inr (q\<lparr>cc_created_by_user_id := us_id u\<rparr>)))))"

text \<open>Cash that leaves the session's drawer for a cut.\<close>

definition cut_cash_out ::
    "uuid \<Rightarrow> uuid \<Rightarrow> uuid \<Rightarrow> cash_session \<Rightarrow> user \<Rightarrow> money \<Rightarrow> string \<Rightarrow> string \<Rightarrow> string \<Rightarrow> time \<Rightarrow> cash_db
      \<Rightarrow> cash_db res" where
  "cut_cash_out i tn sid s u amt tx reason trace now db =
    (let after = cs_expected_cash s - amt
     in bindr (ensure_non_negative_balance after) (\<lambda>_.
       Inr (add_movement
         (session_movement i tn sid s (Some (us_id u)) None ''CASH_OUT'' amt (cs_expected_cash s) after
           (Some tx) (Some reason) trace now)
         (set_session (s\<lparr>cs_expected_cash := after\<rparr>) db))))"

definition create_cut_body ::
    "request_env \<Rightarrow> cut_create_request \<Rightarrow> uuid \<Rightarrow> uuid \<Rightarrow> user \<Rightarrow> cash_db \<Rightarrow> cash_cut cash_result" where
  "create_cut_body env p tn sid u db =
    bindr (cut_session env p tn sid u db) (\<lambda>(s, from_at, to_at, tz).
    bindr (calculate_cut_quote db (rq_now env) tn sid s (qq_cut_type p) from_at to_at tz
        (qq_counted_cash p) (qq_deposit_removed_amount p) (qq_notes p)) (\<lambda>q.
    let now = rq_now env; counted = (qq_counted_cash p \<noteq> None);
        cut = q\<lparr>cc_id := rq_fresh env 0, cc_status := (if counted then COMPLETED_cut else OPEN_cut),
          cc_created_by_user_id := us_id u, cc_created_at := now,
          cc_completed_at := (if counted then Some now else None)\<rparr>
    in case qq_deposit_removed_amount p of
         Some amt \<Rightarrow>
           if qq_auto_apply_cash_out p \<and> amt > 0 then
             bindr (cut_cash_out (rq_fresh env 1) tn sid s u amt
                 (fmt (qq_transaction_id p) @ ''-cut-deposit'')
                 (the (py_or (qq_notes p) (Some ''bank deposit'')))
                 (rc_trace_id (rq_context env)) now db) (\<lambda>db1.
               let cut' = cut\<lparr>cc_deposit_cash_movement_id := Some (rq_fresh env 1)\<rparr>
               in Inr (db1\<lparr>c_cuts := c_cuts db1 @ [cut']\<rparr>, cut'))
           else Inr (db\<lparr>c_cuts := c_cuts db @ [cut]\<rparr>, cut)
       | None \<Rightarrow> Inr (db\<lparr>c_cuts := c_cuts db @ [cut]\<rparr>, cut)))"

definition create_cash_cut ::
    "request_env \<Rightarrow> cut_create_request \<Rightarrow> cash_db \<Rightarrow> cash_cut cash_result" where
  "create_cash_cut env p db =
    bindr (permitted_user env ''POS_CASH_MANAGE'') (\<lambda>u.
    bindr (require_transaction_id (qq_transaction_id p)) (\<lambda>_.
    bindr (cash_scope env (qq_tenant_id p) (qq_store_id p) db) (\<lambda>(tn, sid).
      create_cut_body env p tn sid u db)))"

section \<open>Actions on a cut\<close>

datatype cut_action = Complete | Void | Print_mark | Apply_cash_out

record cut_action_request =
  ca_transaction_id :: "string option"
  ca_tenant_id :: "string option"
  ca_store_id :: "string option"
  ca_action :: cut_action
  ca_counted_cash :: "money option"
  ca_amount :: "money option"
  ca_reason :: "string option"
  ca_notes :: "string option"

definition set_cut :: "cash_cut \<Rightarrow> cash_db \<Rightarrow> cash_db" where
  "set_cut c db = db\<lparr>c_cuts := map (\<lambda>x. if cc_id x = cc_id c then c else x) (c_cuts db)\<rparr>"

definition find_cut :: "cash_db \<Rightarrow> uuid \<Rightarrow> uuid \<Rightarrow> uuid \<Rightarrow> cash_cut res" where
  "find_cut db cut_id tn sid =
    (case find (\<lambda>c. cc_id c = cut_id \<and> cc_tenant_id c = tn \<and> cc_store_id c = sid) (c_cuts db) of
       None \<Rightarrow> Inl (raise1 RESOURCE_NOT_FOUND ''cash cut not found'') | Some c \<Rightarrow> Inr c)"

definition apply_cash_out ::
    "request_env \<Rightarrow> cut_action_request \<Rightarrow> uuid \<Rightarrow> uuid \<Rightarrow> user \<Rightarrow> cash_cut \<Rightarrow> cash_db
      \<Rightarrow> cash_cut cash_result" where
  "apply_cash_out env p tn sid u c db =
    bindr (ensure_positive_amount (ca_amount p) ''amount'') (\<lambda>amt.
    (case find (\<lambda>s. cs_id s = cc_cash_session_id c) (c_sessions db) of
       None \<Rightarrow> Inl (raise1 BUSINESS_CONFLICT ''open cash session required'')
     | Some s \<Rightarrow>
       bindr (require (cs_status s = OPEN)
         (raise1 BUSINESS_CONFLICT ''open cash session required'')) (\<lambda>_.
       bindr (cut_cash_out (rq_fresh env 0) tn sid s u amt
           (fmt (ca_transaction_id p) @ ''-cut-action'')
           (the (py_or (ca_reason p) (Some ''cut cash out'')))
           (rc_trace_id (rq_context env)) (rq_now env) db) (\<lambda>db1.
         let c' = c\<lparr>cc_deposit_removed_amount := Some amt,
               cc_deposit_cash_movement_id := Some (rq_fresh env 0)\<rparr>
         in Inr (set_cut c' db1, c')))))"

definition cut_action_body ::
    "request_env \<Rightarrow> cut_action_request \<Rightarrow> uuid \<Rightarrow> uuid \<Rightarrow> uuid \<Rightarrow> user \<Rightarrow> cash_db \<Rightarrow> cash_cut cash_result" where
  "cut_action_body env p cut_id tn sid u db =
    bindr (find_cut db cut_id tn sid) (\<lambda>c.
    case ca_action p of
      Void \<Rightarrow> (let c' = c\<lparr>cc_status := VOID_cut\<rparr> in Inr (set_cut c' db, c'))
    | Complete \<Rightarrow>
        (case ca_counted_cash p of
           None \<Rightarrow> Inl (raise1 VALIDATION_ERROR ''counted_cash is required'')
         | Some counted \<Rightarrow>
           (let c' = c\<lparr>cc_status := COMPLETED_cut, cc_counted_cash := Some counted,
                 cc_difference := Some (counted - cc_expected_cash c), cc_notes := ca_notes p,
                 cc_completed_at := Some (rq_now env)\<rparr>
            in Inr (set_cut c' db, c')))
    | Print_mark \<Rightarrow>
        (let c' = c\<lparr>cc_notes := Some (py_strip (the (py_or (cc_notes c) (Some [])) @ [CHR 0x0A]
              @ ''print_mark:'' @ isoformat (rq_now env)))\<rparr>
         in Inr (set_cut c' db, c'))
    | Apply_cash_out \<Rightarrow> apply_cash_out env p tn sid u c db)"

definition cash_cut_action ::
    "request_env \<Rightarrow> uuid \<Rightarrow> cut_action_request \<Rightarrow> cash_db \<Rightarrow> cash_cut cash_result" where
  "cash_cut_action env cut_id p db =
    bindr (permitted_user env ''POS_CASH_MANAGE'') (\<lambda>u.
    bindr (require_transaction_id (ca_transaction_id p)) (\<lambda>_.
    bindr (pos_resolve_tenant_id (rq_token env) (ca_tenant_id p)) (\<lambda>tn.
    bindr (pos_resolve_store_id (rq_token env) (ca_store_id p)) (\<lambda>sid.
    bindr (enforce_store_scope (rq_token env) (Some sid) (c_stores db) True None) (\<lambda>_.
      cut_action_body env p cut_id tn sid u db)))))"

section \<open>Queries\<close>

fun cut_status_str :: "cut_status \<Rightarrow> string" where
  "cut_status_str OPEN_cut = ''OPEN''"
| "cut_status_str COMPLETED_cut = ''COMPLETED''"
| "cut_status_str VOID_cut = ''VOID''"

definition list_cash_cuts ::
    "request_env \<Rightarrow> string option \<Rightarrow> string option \<Rightarrow> uuid option \<Rightarrow> string option \<Rightarrow> int \<Rightarrow> int \<Rightarrow> cash_db
      \<Rightarrow> (cash_cut list \<times> int) res" where
  "list_cash_cuts env store_id tenant_id session_id status page page_size db =
    bindr (cash_read_scope env tenant_id store_id db) (\<lambda>(tn, sid, _).
    Inr (page_of page page_size (sort_key (\<lambda>c. - cc_created_at c)
      (filter (\<lambda>c. cc_tenant_id c = tn \<and> cc_store_id c = sid
        \<and> (\<not> falsy session_id \<longrightarrow> Some (cc_cash_session_id c) = session_id)
        \<and> (\<not> falsy status \<longrightarrow> Some (cut_status_str (cc_status c)) = status)) (c_cuts db)))))"

definition get_cash_cut ::
    "request_env \<Rightarrow> uuid \<Rightarrow> string option \<Rightarrow> string option \<Rightarrow> cash_db \<Rightarrow> cash_cut res" where
  "get_cash_cut env cut_id store_id tenant_id db =
    bindr (cash_read_scope env tenant_id store_id db) (\<lambda>(tn, sid, _). find_cut db cut_id tn sid)"

end
