(* ===== verification/Cash_Rollup.thy ===== *)
theory Cash_Rollup
  imports Cash_Cuts
begin

text \<open>
  Cash, what the totals mean. The code sums a day's movements in two stages, by action in the
  database and by normalised type in a dictionary; the lemmas show that each total is the plain
  sum over the movements of its type, and that the expected cash is the signed sum of all of
  them.
\<close>

section \<open>Grouping\<close>

lemma sum_by_key:
  fixes f :: "'x \<Rightarrow> 'b::comm_monoid_add"
  assumes "finite A" and "key ` set xs \<subseteq> A"
  shows "(\<Sum>a\<in>A. if P a then sum_list (map f (filter (\<lambda>x. key x = a) xs)) else 0)
    = sum_list (map f (filter (\<lambda>x. P (key x)) xs))"
  using assms(2)
proof (induction xs)
  case Nil
  then show ?case by (simp cong: if_cong)
next
  case (Cons x xs)
  have "(\<Sum>a\<in>A. if P a then sum_list (map f (filter (\<lambda>y. key y = a) (x # xs))) else 0)
      = (\<Sum>a\<in>A. (if key x = a then (if P a then f x else 0) else 0)
          + (if P a then sum_list (map f (filter (\<lambda>y. key y = a) xs)) else 0))"
    by (intro sum.cong) auto
  also have "\<dots> = (if P (key x) then f x else 0) + sum_list (map f (filter (\<lambda>y. P (key y)) xs))"
    using Cons assms(1) by (simp add: sum.distrib)
  finally show ?case by simp
qed

lemma sum_if_delta:
  "sum_list (map f (remdups xs)) = sum f (set xs)" for f :: "'x \<Rightarrow> 'b::comm_monoid_add"
  by (simp add: sum_list_distinct_conv_sum_set)

lemma group_totals:
  "sum_list (map (\<lambda>(a, t, n). if P a then t else 0) (group_by_action ms)) =
    sum_list (map cm_amount (filter (\<lambda>m. P (cm_action m)) ms))"
  "sum_list (map (\<lambda>(a, t, n). if P a then n else 0) (group_by_action ms)) =
    int (length (filter (\<lambda>m. P (cm_action m)) ms))"
proof -
  show "sum_list (map (\<lambda>(a, t, n). if P a then t else 0) (group_by_action ms)) =
      sum_list (map cm_amount (filter (\<lambda>m. P (cm_action m)) ms))"
    using sum_by_key [of "set (map cm_action ms)" cm_action ms P cm_amount]
    by (simp add: group_by_action_def comp_def sum_if_delta cong: if_cong)
  have n: "int (length (filter Q ms)) = sum_list (map (\<lambda>_. 1) (filter Q ms))" for Q
    by (simp add: sum_list_triv)
  show "sum_list (map (\<lambda>(a, t, n). if P a then n else 0) (group_by_action ms)) =
      int (length (filter (\<lambda>m. P (cm_action m)) ms))"
    using sum_by_key [of "set (map cm_action ms)" cm_action ms P "\<lambda>_. 1 :: int"]
    by (simp add: group_by_action_def comp_def sum_if_delta n cong: if_cong)
qed

lemma map_of_map_keys:
  "map_of (map (\<lambda>k. (k, f k)) ks) k = (if k \<in> set ks then Some (f k) else None)"
  by (induction ks) auto

lemma totals_by_action_get:
  "dict_get (totals_by_action ms) a 0 = sum_list (map cm_amount (filter (\<lambda>m. cm_action m = a) ms))"
proof -
  have "totals_by_action ms = map (\<lambda>a. (a, sum_list (map cm_amount (filter (\<lambda>m. cm_action m = a) ms))))
      (remdups (map cm_action ms))"
    by (simp add: totals_by_action_def group_by_action_def)
  moreover have "filter (\<lambda>m. cm_action m = a) ms = []" if "a \<notin> set (map cm_action ms)"
    using that by (auto simp: filter_empty_conv)
  ultimately show ?thesis by (simp add: dict_get_def map_of_map_keys)
qed

section \<open>The two stages of the rollup\<close>

lemma roll_Cons:
  assumes "roll (totals, counts) ((a, t, n) # rows) = res"
  obtains totals1 counts1 where "roll (totals1, counts1) rows = res"
    "\<And>k. map_of totals1 k =
      map_option (\<lambda>v. v + (if normalize_movement_type a = k then t else 0)) (map_of totals k)"
    "\<And>k. dict_get counts1 k 0 = dict_get counts k 0 + (if normalize_movement_type a = k then n else 0)"
proof -
  let ?k = "normalize_movement_type a"
  let ?t = "if map_of totals ?k \<noteq> None then AList.update ?k (dict_get totals ?k 0 + t) totals else totals"
  let ?c = "AList.update ?k (dict_get counts ?k 0 + n) counts"
  have "roll (?t, ?c) rows = res" using assms unfolding roll.simps Let_def .
  moreover have "map_of ?t k = map_option (\<lambda>v. v + (if ?k = k then t else 0)) (map_of totals k)" for k
    by (cases "map_of totals k") (auto simp: update_conv' dict_get_def)
  ultimately show thesis by (rule that) simp
qed

lemma roll_get:
  assumes "roll (totals, counts) rows = (totals', counts')"
  shows "map_of totals' k = map_option (\<lambda>v. v +
      sum_list (map (\<lambda>(a, t, n). if normalize_movement_type a = k then t else 0) rows)) (map_of totals k)
    \<and> dict_get counts' k 0 = dict_get counts k 0 +
      sum_list (map (\<lambda>(a, t, n). if normalize_movement_type a = k then n else 0) rows)"
  using assms
proof (induction rows arbitrary: totals counts)
  case Nil
  then show ?case by (cases "map_of totals k") auto
next
  case (Cons r rows)
  obtain a t n where r: "r = (a, t, n)" by (cases r)
  obtain totals1 counts1 where s: "roll (totals1, counts1) rows = (totals', counts')"
    "\<And>k. map_of totals1 k =
      map_option (\<lambda>v. v + (if normalize_movement_type a = k then t else 0)) (map_of totals k)"
    "\<And>k. dict_get counts1 k 0 = dict_get counts k 0 + (if normalize_movement_type a = k then n else 0)"
    using Cons.prems unfolding r by (rule roll_Cons) (rule that)
  show ?case using Cons.IH [OF s(1)] s(2,3) [of k] by (cases "map_of totals k") (simp_all add: r)
qed

text \<open>The movements of a type, and the sign of a movement's type.\<close>

definition typed_total :: "string \<Rightarrow> cash_movement list \<Rightarrow> money" where
  "typed_total k ms =
    sum_list (map cm_amount (filter (\<lambda>m. normalize_movement_type (cm_action m) = k) ms))"

definition signed_amount :: "cash_movement \<Rightarrow> money" where
  "signed_amount m = (let k = normalize_movement_type (cm_action m)
     in if k \<in> {''OPENING'', ''CASH_IN'', ''SALE_CASH_IN''} then cm_amount m
        else if k \<in> {''CASH_OUT'', ''CASH_OUT_REFUND''} then - cm_amount m else 0)"

lemma typed_total_simps [simp]:
  "typed_total k [] = 0"
  "typed_total k (m # ms) =
    (if normalize_movement_type (cm_action m) = k then cm_amount m else 0) + typed_total k ms"
  by (simp_all add: typed_total_def)

lemma signed_typed:
  "sum_list (map signed_amount ms) = typed_total ''OPENING'' ms + typed_total ''CASH_IN'' ms
    - typed_total ''CASH_OUT'' ms + typed_total ''SALE_CASH_IN'' ms - typed_total ''CASH_OUT_REFUND'' ms"
  by (induction ms) (auto simp: signed_amount_def Let_def)

lemma rollup_typed:
  fixes db tn sid d
  defines "r \<equiv> reconciliation_rollup db tn sid d" and "ms \<equiv> day_movements db tn sid d"
  shows "ru_opening_amount r = typed_total ''OPENING'' ms" "ru_cash_in r = typed_total ''CASH_IN'' ms"
    "ru_cash_out r = typed_total ''CASH_OUT'' ms" "ru_net_cash_sales r = typed_total ''SALE_CASH_IN'' ms"
    "ru_cash_refunds r = typed_total ''CASH_OUT_REFUND'' ms"
    "ru_net_cash_movement r = typed_total ''CASH_IN'' ms - typed_total ''CASH_OUT'' ms"
    "ru_expected_cash r = sum_list (map signed_amount ms)"
    "dict_get (ru_movement_counts r) k 0 =
      int (length (filter (\<lambda>m. normalize_movement_type (cm_action m) = k) ms))"
proof -
  obtain t c where tc: "roll (map (\<lambda>k. (k, 0)) RECONCILIATION_ACTIONS, []) (group_by_action ms) = (t, c)"
    by (cases "roll (map (\<lambda>k. (k, 0)) RECONCILIATION_ACTIONS, []) (group_by_action ms)")
  have g: "dict_get t k 0 = typed_total k ms" if "k \<in> set RECONCILIATION_ACTIONS" for k
    using roll_get [OF tc, of k] that
    by (simp add: dict_get_def map_of_map_keys group_totals typed_total_def)
  have n: "dict_get c k 0 = int (length (filter (\<lambda>m. normalize_movement_type (cm_action m) = k) ms))" for k
    using roll_get [OF tc, of k] by (simp add: group_totals)
  note defs = r_def reconciliation_rollup_def ms_def [symmetric] tc Let_def
  have m: "''OPENING'' \<in> set RECONCILIATION_ACTIONS" "''CASH_IN'' \<in> set RECONCILIATION_ACTIONS"
    "''CASH_OUT'' \<in> set RECONCILIATION_ACTIONS" "''SALE_CASH_IN'' \<in> set RECONCILIATION_ACTIONS"
    "''CASH_OUT_REFUND'' \<in> set RECONCILIATION_ACTIONS" by (simp_all add: RECONCILIATION_ACTIONS_def)
  show "ru_opening_amount r = typed_total ''OPENING'' ms" "ru_cash_in r = typed_total ''CASH_IN'' ms"
    "ru_cash_out r = typed_total ''CASH_OUT'' ms" "ru_net_cash_sales r = typed_total ''SALE_CASH_IN'' ms"
    "ru_cash_refunds r = typed_total ''CASH_OUT_REFUND'' ms"
    "ru_net_cash_movement r = typed_total ''CASH_IN'' ms - typed_total ''CASH_OUT'' ms"
    "ru_expected_cash r = sum_list (map signed_amount ms)"
    by (simp_all add: defs g m signed_typed)
  show "dict_get (ru_movement_counts r) k 0 =
      int (length (filter (\<lambda>m. normalize_movement_type (cm_action m) = k) ms))"
    by (simp add: defs n)
qed

end
