(* ===== verification/Cash_Ledger.thy ===== *)
theory Cash_Ledger
  imports Cash_Rollup Orm_Session
begin

text \<open>
  Cash, the ledger. The operations of the router, and the movements that sales and vouchers
  post, are steps on the rows. Each step is shown to be one of the six steps of an abstract
  ledger, on which the invariants are proved: a session's expected cash is the signed sum of
  its movements, a cashier has one open session per store, and a stored day close stays true.
\<close>

section \<open>Steps\<close>

definition fresh_rows :: "request_env \<Rightarrow> cash_db \<Rightarrow> bool" where
  "fresh_rows env db \<longleftrightarrow> rq_fresh env 0 \<notin> cs_id ` set (c_sessions db)"

text \<open>\<open>Post\<close> is \<^verbatim>\<open>_record_cash_movement\<close> as the sales and advances routers call it: on an open
  session of the request's tenant and store. \<open>Voucher\<close> is a movement outside any session;
  \<open>Sale\<close> is any change of the sales a cut reads.\<close>

inductive cash_step :: "cash_db \<Rightarrow> cash_db \<Rightarrow> bool" where
  Session: "fresh_rows env db \<Longrightarrow> cash_session_body env p tn (sid, u) db = Inr (db', s) \<Longrightarrow>
    cash_step db db'"
| Day: "close_day_body env p tn (sid, u) db = Inr (db', c) \<Longrightarrow> cash_step db db'"
| Cut: "create_cut_body env p tn sid u db = Inr (db', c) \<Longrightarrow> cash_step db db'"
| Cut_action: "cut_action_body env p i tn sid u db = Inr (db', c) \<Longrightarrow> cash_step db db'"
| Post: "s \<in> set (c_sessions db) \<Longrightarrow> cs_status s = OPEN \<Longrightarrow> cs_tenant_id s = tn \<Longrightarrow> cs_store_id s = sid \<Longrightarrow>
    action \<in> {''SALE'', ''CASH_IN'', ''CASH_OUT'', ''CASH_OUT_REFUND''} \<Longrightarrow>
    record_cash_movement i s tn sid sale action amt tx actor trace now db = Inr db' \<Longrightarrow> cash_step db db'"
| Voucher: "cm_cash_session_id m = None \<Longrightarrow>
    normalize_movement_type (cm_action m) \<notin> set RECONCILIATION_ACTIONS \<Longrightarrow>
    cash_step db (add_movement m db)"
| Sale: "cash_step db (db\<lparr>c_sales := ss\<rparr>)"

definition cash_start :: "cash_db \<Rightarrow> bool" where
  "cash_start db \<longleftrightarrow> c_sessions db = [] \<and> c_movements db = [] \<and> c_closes db = [] \<and> c_cuts db = []"

definition cash_reachable :: "cash_db \<Rightarrow> bool" where
  "cash_reachable db \<longleftrightarrow> (\<exists>db0. cash_start db0 \<and> cash_step\<^sup>*\<^sup>* db0 db)"

section \<open>The abstract ledger\<close>

abbreviation day_key :: "cash_session \<Rightarrow> uuid \<times> uuid \<times> int" where
  "day_key s \<equiv> (cs_tenant_id s, cs_store_id s, cs_business_date s)"

abbreviation close_key :: "day_close \<Rightarrow> uuid \<times> uuid \<times> int" where
  "close_key c \<equiv> (dc_tenant_id c, dc_store_id c, dc_business_date c)"

abbreviation owner :: "cash_session \<Rightarrow> uuid \<times> uuid \<times> uuid" where
  "owner s \<equiv> (cs_tenant_id s, cs_store_id s, cs_cashier_user_id s)"

abbreviation session_ref :: "cash_session \<Rightarrow> uuid \<times> uuid \<times> uuid" where
  "session_ref s \<equiv> (cs_id s, cs_tenant_id s, cs_store_id s)"

abbreviation cut_ref :: "cash_cut \<Rightarrow> uuid \<times> uuid \<times> uuid" where
  "cut_ref c \<equiv> (cc_cash_session_id c, cc_tenant_id c, cc_store_id c)"

definition closed_day :: "cash_db \<Rightarrow> uuid \<times> uuid \<times> int \<Rightarrow> bool" where
  "closed_day db k \<longleftrightarrow> k \<in> close_key ` set (c_closes db)"

text \<open>The actions a movement of a session can have.\<close>

definition SESSION_ACTIONS :: "string list" where
  "SESSION_ACTIONS = [''OPEN'', ''CASH_IN'', ''CASH_OUT'', ''SALE'', ''CASH_OUT_REFUND'', ''CLOSE'']"

definition belongs_to :: "cash_session \<Rightarrow> cash_movement \<Rightarrow> bool" where
  "belongs_to s m \<longleftrightarrow> cm_cash_session_id m = Some (cs_id s)
    \<and> (cm_tenant_id m, cm_store_id m, cm_business_date m) = day_key s
    \<and> cm_action m \<in> set SESSION_ACTIONS"

definition same_session :: "cash_session \<Rightarrow> cash_session \<Rightarrow> bool" where
  "same_session s s' \<longleftrightarrow> cs_id s' = cs_id s \<and> day_key s' = day_key s \<and> owner s' = owner s
    \<and> cs_opening_amount s' = cs_opening_amount s \<and> cs_opened_at s' = cs_opened_at s"

definition status_ok :: "cash_session \<Rightarrow> bool" where
  "status_ok s \<longleftrightarrow> (cs_status s = OPEN \<longleftrightarrow> cs_closed_at s = None)"

definition day_balance :: "cash_db \<Rightarrow> uuid \<times> uuid \<times> int \<Rightarrow> money" where
  "day_balance db k = sum_list (map signed_amount
    (filter (\<lambda>m. (cm_tenant_id m, cm_store_id m, cm_business_date m) = k) (c_movements db)))"

definition session_balance :: "cash_db \<Rightarrow> uuid \<Rightarrow> money" where
  "session_balance db i =
    sum_list (map signed_amount (filter (\<lambda>m. cm_cash_session_id m = Some i) (c_movements db)))"

text \<open>What the opening movement of a session posted.\<close>

definition opening_balance :: "cash_db \<Rightarrow> uuid \<Rightarrow> money" where
  "opening_balance db i = sum_list (map cm_amount
    (filter (\<lambda>m. cm_cash_session_id m = Some i \<and> cm_action m = ''OPEN'') (c_movements db)))"

text \<open>Cuts refer to sessions of their tenant and store; the sales may change in any way.\<close>

inductive ledger_step :: "cash_db \<Rightarrow> cash_db \<Rightarrow> bool" where
  opens: "cs_id s \<notin> cs_id ` set (c_sessions db) \<Longrightarrow> cs_status s = OPEN \<Longrightarrow> status_ok s \<Longrightarrow>
    belongs_to s m \<Longrightarrow> cm_action m = ''OPEN'' \<Longrightarrow> cm_amount m = cs_opening_amount s \<Longrightarrow>
    signed_amount m = cs_expected_cash s \<Longrightarrow> 0 \<le> cs_expected_cash s \<Longrightarrow>
    \<not> closed_day db (day_key s) \<Longrightarrow>
    \<forall>x \<in> set (c_sessions db). cs_status x = OPEN \<longrightarrow> owner x \<noteq> owner s \<Longrightarrow>
    ledger_step db (add_movement m (db\<lparr>c_sessions := c_sessions db @ [s]\<rparr>))"
| moves: "s \<in> set (c_sessions db) \<Longrightarrow> cs_status s = OPEN \<Longrightarrow> same_session s s' \<Longrightarrow> status_ok s' \<Longrightarrow>
    belongs_to s m \<Longrightarrow> cm_action m \<noteq> ''OPEN'' \<Longrightarrow> cs_expected_cash s' = cs_expected_cash s + signed_amount m \<Longrightarrow>
    0 \<le> cs_expected_cash s' \<Longrightarrow> \<not> closed_day db (day_key s) \<Longrightarrow>
    cut_ref ` set cuts \<subseteq> session_ref ` set (c_sessions db) \<Longrightarrow>
    ledger_step db ((add_movement m (set_session s' db))\<lparr>c_cuts := cuts\<rparr>)"
| closes: "\<not> closed_day db (close_key c) \<Longrightarrow> dc_status c = CLOSED \<Longrightarrow>
    dc_expected_cash c = day_balance db (close_key c) \<Longrightarrow>
    cm_cash_session_id m = None \<Longrightarrow> signed_amount m = 0 \<Longrightarrow>
    ledger_step db (add_movement m ((close_sessions now
      (open_sessions_of db (dc_tenant_id c) (dc_store_id c) (dc_business_date c)) db)\<lparr>c_closes := c_closes db @ [c]\<rparr>))"
| outside: "cm_cash_session_id m = None \<Longrightarrow> signed_amount m = 0 \<Longrightarrow> ledger_step db (add_movement m db)"
| cuts: "cut_ref ` set cuts \<subseteq> session_ref ` set (c_sessions db) \<Longrightarrow>
    ledger_step db (db\<lparr>c_cuts := cuts\<rparr>)"
| sales: "ledger_step db (db\<lparr>c_sales := ss\<rparr>)"

section \<open>Invariants\<close>

definition sessions_ok :: "cash_db \<Rightarrow> bool" where
  "sessions_ok db \<longleftrightarrow> distinct (map cs_id (c_sessions db)) \<and> (\<forall>s \<in> set (c_sessions db). status_ok s)
    \<and> inj_on owner {s \<in> set (c_sessions db). cs_status s = OPEN}"

definition balances_ok :: "cash_db \<Rightarrow> bool" where
  "balances_ok db \<longleftrightarrow> (\<forall>s \<in> set (c_sessions db).
      0 \<le> cs_expected_cash s \<and> cs_expected_cash s = session_balance db (cs_id s)
      \<and> cs_opening_amount s = opening_balance db (cs_id s))"

definition movements_ok :: "cash_db \<Rightarrow> bool" where
  "movements_ok db \<longleftrightarrow> (\<forall>m \<in> set (c_movements db).
      if cm_cash_session_id m = None then signed_amount m = 0
      else \<exists>s \<in> set (c_sessions db). belongs_to s m)"

definition closes_ok :: "cash_db \<Rightarrow> bool" where
  "closes_ok db \<longleftrightarrow> distinct (map close_key (c_closes db)) \<and> (\<forall>c \<in> set (c_closes db).
      dc_status c = CLOSED \<and> dc_expected_cash c = day_balance db (close_key c)
      \<and> (\<forall>s \<in> set (c_sessions db). day_key s = close_key c \<longrightarrow> cs_status s = CLOSED))"

definition cuts_ok :: "cash_db \<Rightarrow> bool" where
  "cuts_ok db \<longleftrightarrow> cut_ref ` set (c_cuts db) \<subseteq> session_ref ` set (c_sessions db)"

definition cash_invariant :: "cash_db \<Rightarrow> bool" where
  "cash_invariant db \<longleftrightarrow>
    sessions_ok db \<and> balances_ok db \<and> movements_ok db \<and> closes_ok db \<and> cuts_ok db"

section \<open>Rows after a step\<close>

lemma add_movement_simps [simp]:
  "c_sessions (add_movement m db) = c_sessions db" "c_closes (add_movement m db) = c_closes db"
  "c_cuts (add_movement m db) = c_cuts db" "c_sales (add_movement m db) = c_sales db"
  "c_stores (add_movement m db) = c_stores db" "c_movements (add_movement m db) = c_movements db @ [m]"
  by (simp_all add: add_movement_def)

lemma set_session_simps [simp]:
  "c_movements (set_session s db) = c_movements db" "c_closes (set_session s db) = c_closes db"
  "c_cuts (set_session s db) = c_cuts db" "c_sales (set_session s db) = c_sales db"
  "c_stores (set_session s db) = c_stores db"
  "map cs_id (c_sessions (set_session s db)) = map cs_id (c_sessions db)"
  by (simp_all add: set_session_def)

lemma set_session_rows:
  assumes "distinct (map cs_id (c_sessions db))" and "s \<in> set (c_sessions db)" and "cs_id s' = cs_id s"
  shows "set (c_sessions (set_session s' db)) = insert s' (set (c_sessions db) - {s})"
  using assms key_unique [OF assms(1)] by (auto simp: set_session_def image_iff)

definition closed_session :: "time \<Rightarrow> cash_session \<Rightarrow> cash_session" where
  "closed_session now s = s\<lparr>cs_status := CLOSED, cs_closed_at := Some now\<rparr>"

lemma closed_session_simps [simp]:
  "cs_id (closed_session now s) = cs_id s" "cs_status (closed_session now s) = CLOSED"
  "cs_expected_cash (closed_session now s) = cs_expected_cash s"
  "cs_opening_amount (closed_session now s) = cs_opening_amount s"
  "cs_tenant_id (closed_session now s) = cs_tenant_id s"
  "cs_store_id (closed_session now s) = cs_store_id s"
  "cs_business_date (closed_session now s) = cs_business_date s"
  "cs_cashier_user_id (closed_session now s) = cs_cashier_user_id s"
  "status_ok (closed_session now s)"
  by (simp_all add: closed_session_def status_ok_def)

lemma close_sessions_simps [simp]:
  "c_movements (close_sessions now ss db) = c_movements db"
  "c_closes (close_sessions now ss db) = c_closes db" "c_cuts (close_sessions now ss db) = c_cuts db"
  "c_sales (close_sessions now ss db) = c_sales db" "c_stores (close_sessions now ss db) = c_stores db"
  "map cs_id (c_sessions (close_sessions now ss db)) = map cs_id (c_sessions db)"
  unfolding close_sessions_def by (induction ss arbitrary: db) simp_all

lemma close_sessions_rows:
  assumes "distinct (map cs_id (c_sessions db))" and "set ss \<subseteq> set (c_sessions db)" and "distinct ss"
  shows "set (c_sessions (close_sessions now ss db)) =
    closed_session now ` set ss \<union> (set (c_sessions db) - set ss)"
  using assms
proof (induction ss arbitrary: db)
  case Nil
  then show ?case by (simp add: close_sessions_def)
next
  case (Cons s ss)
  let ?db = "set_session (closed_session now s) db"
  have rows: "set (c_sessions ?db) = insert (closed_session now s) (set (c_sessions db) - {s})"
    using Cons.prems by (intro set_session_rows) auto
  have notin: "closed_session now s \<notin> set ss"
    using Cons.prems key_unique [OF Cons.prems(1), of s "closed_session now s"] by auto
  have "set (c_sessions (close_sessions now ss ?db)) =
      closed_session now ` set ss \<union> (set (c_sessions ?db) - set ss)"
    using Cons.prems rows by (intro Cons.IH) auto
  moreover have "close_sessions now (s # ss) db = close_sessions now ss ?db"
    by (simp add: close_sessions_def closed_session_def)
  ultimately show ?case using rows notin by auto
qed

lemma open_sessions_of_rows:
  assumes "sessions_ok db"
  shows "set (c_sessions (close_sessions now (open_sessions_of db tn sid d) db)) =
    (\<lambda>s. if cs_status s = OPEN \<and> day_key s = (tn, sid, d) then closed_session now s else s) ` set (c_sessions db)"
proof -
  let ?os = "open_sessions_of db tn sid d"
  have "distinct ?os" using assms by (auto simp: open_sessions_of_def sessions_ok_def distinct_map)
  then have "set (c_sessions (close_sessions now ?os db)) =
      closed_session now ` set ?os \<union> (set (c_sessions db) - set ?os)"
    using assms by (intro close_sessions_rows) (auto simp: sessions_ok_def open_sessions_of_def)
  then show ?thesis by (auto simp: open_sessions_of_def image_iff)
qed

lemma session_balance_add [simp]:
  "session_balance (add_movement m db) i =
    session_balance db i + (if cm_cash_session_id m = Some i then signed_amount m else 0)"
  by (simp add: session_balance_def)

lemma opening_balance_add [simp]:
  "opening_balance (add_movement m db) i = opening_balance db i
    + (if cm_cash_session_id m = Some i \<and> cm_action m = ''OPEN'' then cm_amount m else 0)"
  by (simp add: opening_balance_def)

lemma day_balance_add [simp]:
  "day_balance (add_movement m db) k = day_balance db k
    + (if (cm_tenant_id m, cm_store_id m, cm_business_date m) = k then signed_amount m else 0)"
  by (simp add: day_balance_def)

lemma rollup_day_balance:
  "ru_expected_cash (reconciliation_rollup db tn sid d) = day_balance db (tn, sid, d)"
  by (simp add: rollup_typed day_balance_def day_movements_def)

lemma find_day_close_None: "find_day_close db tn sid d = None \<longleftrightarrow> \<not> closed_day db (tn, sid, d)"
  by (auto simp: find_day_close_def closed_day_def find_None_iff)

section \<open>The abstract steps keep the invariants\<close>

lemma new_session_balance:
  assumes "movements_ok db" and "i \<notin> cs_id ` set (c_sessions db)"
  shows "session_balance db i = 0" "opening_balance db i = 0"
proof -
  have none: "filter (\<lambda>m. cm_cash_session_id m = Some i) (c_movements db) = []"
    using assms by (force simp: movements_ok_def belongs_to_def filter_empty_conv)
  then show "session_balance db i = 0" by (simp add: session_balance_def)
  have "filter (\<lambda>m. cm_cash_session_id m = Some i \<and> cm_action m = ''OPEN'') (c_movements db) = []"
    using none by (auto simp: filter_empty_conv)
  then show "opening_balance db i = 0" by (simp add: opening_balance_def)
qed

lemma belongs_to_cong: "same_session s s' \<Longrightarrow> belongs_to s' m = belongs_to s m"
  by (simp add: belongs_to_def same_session_def)

lemma opens_keeps:
  assumes inv: "cash_invariant db" and "cs_id s \<notin> cs_id ` set (c_sessions db)" and "status_ok s"
    and "belongs_to s m" and "cm_action m = ''OPEN''" "cm_amount m = cs_opening_amount s"
    and "signed_amount m = cs_expected_cash s" and "0 \<le> cs_expected_cash s"
    and "\<not> closed_day db (day_key s)"
    and "\<forall>x \<in> set (c_sessions db). cs_status x = OPEN \<longrightarrow> owner x \<noteq> owner s"
  shows "cash_invariant (add_movement m (db\<lparr>c_sessions := c_sessions db @ [s]\<rparr>))"
proof -
  let ?db = "db\<lparr>c_sessions := c_sessions db @ [s]\<rparr>"
  have b: "session_balance ?db i = session_balance db i" "day_balance ?db k = day_balance db k"
    "opening_balance ?db i = opening_balance db i" for i k
    by (simp_all add: session_balance_def day_balance_def opening_balance_def)
  have "session_balance db (cs_id s) = 0" "opening_balance db (cs_id s) = 0"
    using inv assms(2) new_session_balance by (auto simp: cash_invariant_def)
  then have "balances_ok (add_movement m ?db)"
    using inv assms by (auto simp: cash_invariant_def balances_ok_def b belongs_to_def)
  moreover have "sessions_ok (add_movement m ?db)"
    using inv assms by (auto simp: cash_invariant_def sessions_ok_def inj_on_def)
  moreover have "movements_ok (add_movement m ?db)"
    using inv assms by (fastforce simp: cash_invariant_def movements_ok_def belongs_to_def)
  moreover have "closes_ok (add_movement m ?db)"
    using inv assms by (auto simp: cash_invariant_def closes_ok_def b closed_day_def belongs_to_def image_iff)
  moreover have "cuts_ok (add_movement m ?db)"
    using inv by (auto simp: cash_invariant_def cuts_ok_def)
  ultimately show ?thesis by (simp add: cash_invariant_def)
qed

lemma moves_keeps:
  assumes inv: "cash_invariant db" and s: "s \<in> set (c_sessions db)" "cs_status s = OPEN"
    and s': "same_session s s'" "status_ok s'" and m: "belongs_to s m" and ac: "cm_action m \<noteq> ''OPEN''"
    and "cs_expected_cash s' = cs_expected_cash s + signed_amount m" and "0 \<le> cs_expected_cash s'"
    and "\<not> closed_day db (day_key s)"
    and cuts: "cut_ref ` set cuts \<subseteq> session_ref ` set (c_sessions db)"
  shows "cash_invariant ((add_movement m (set_session s' db))\<lparr>c_cuts := cuts\<rparr>)"
proof -
  let ?db = "set_session s' db" and ?db' = "(add_movement m (set_session s' db))\<lparr>c_cuts := cuts\<rparr>"
  have dist: "distinct (map cs_id (c_sessions db))" using inv by (simp add: cash_invariant_def sessions_ok_def)
  have id: "cs_id s' = cs_id s" using s'(1) by (simp add: same_session_def)
  have rows: "set (c_sessions ?db) = insert s' (set (c_sessions db) - {s})"
    using dist s(1) id by (rule set_session_rows)
  have uniq: "x = s" if "x \<in> set (c_sessions db)" "cs_id x = cs_id s" for x
    using key_unique [OF dist that(1) s(1) that(2)] .
  have b: "session_balance ?db' i = session_balance db i + (if cm_cash_session_id m = Some i then signed_amount m else 0)"
    "day_balance ?db' k = day_balance db k
      + (if (cm_tenant_id m, cm_store_id m, cm_business_date m) = k then signed_amount m else 0)"
    "opening_balance ?db' i = opening_balance db i" for i k
    using session_balance_add [of m ?db i] day_balance_add [of m ?db k] opening_balance_add [of m ?db i] ac
    by (simp_all add: session_balance_def day_balance_def opening_balance_def)
  have bal: "cs_expected_cash x = session_balance db (cs_id x)" "0 \<le> cs_expected_cash x"
    "cs_opening_amount x = opening_balance db (cs_id x)"
    if "x \<in> set (c_sessions db)" for x
    using inv that by (auto simp: cash_invariant_def balances_ok_def)
  have m_id: "cm_cash_session_id m = Some (cs_id s)" using m by (simp add: belongs_to_def)
  have same: "cs_opening_amount s' = cs_opening_amount s" using s'(1) by (simp add: same_session_def)
  have rows': "set (c_sessions ?db') = insert s' (set (c_sessions db) - {s})" using rows by simp
  have "balances_ok ?db'"
    unfolding balances_ok_def rows' b m_id
  proof (intro ballI)
    fix x assume "x \<in> insert s' (set (c_sessions db) - {s})"
    then consider "x = s'" | "x \<in> set (c_sessions db)" "cs_id x \<noteq> cs_id s" using uniq by auto
    then show "0 \<le> cs_expected_cash x \<and> cs_expected_cash x = session_balance db (cs_id x)
        + (if Some (cs_id s) = Some (cs_id x) then signed_amount m else 0)
        \<and> cs_opening_amount x = opening_balance db (cs_id x)"
      using bal assms same by cases (auto simp: id)
  qed
  moreover have "sessions_ok ?db'"
    using inv rows s s' dist
    by (auto simp: cash_invariant_def sessions_ok_def same_session_def inj_on_def)
  moreover have "movements_ok ?db'"
  proof -
    define g where "g x = (if x = s then s' else x)" for x
    have g: "set (c_sessions ?db') = g ` set (c_sessions db)" using rows' s(1) by (auto simp: g_def)
    have mv: "belongs_to (g x) m' = belongs_to x m'" for x m'
      using belongs_to_cong [OF s'(1)] by (simp add: g_def)
    have ms: "c_movements ?db' = c_movements db @ [m]" by simp
    show ?thesis
      using inv m s(1) unfolding cash_invariant_def movements_ok_def g ms by (auto simp: mv m_id)
  qed
  moreover have "closes_ok ?db'"
    unfolding closes_ok_def
  proof (intro conjI ballI)
    show "distinct (map close_key (c_closes ?db'))"
      using inv by (simp add: cash_invariant_def closes_ok_def)
    fix c assume "c \<in> set (c_closes ?db')"
    then have c: "c \<in> set (c_closes db)" by simp
    then have ne: "close_key c \<noteq> day_key s" using assms(10) by (force simp: closed_day_def)
    have old: "dc_status c = CLOSED" "dc_expected_cash c = day_balance db (close_key c)"
      "\<And>x. x \<in> set (c_sessions db) \<Longrightarrow> day_key x = close_key c \<Longrightarrow> cs_status x = CLOSED"
      using inv c unfolding cash_invariant_def closes_ok_def by blast+
    show "dc_status c = CLOSED" by (rule old(1))
    have "day_balance ?db' (close_key c) = day_balance db (close_key c)"
      unfolding b(2) using m ne by (auto simp: belongs_to_def)
    then show "dc_expected_cash c = day_balance ?db' (close_key c)" using old(2) by simp
    fix x assume "x \<in> set (c_sessions ?db')"
    then consider "x = s'" | "x \<in> set (c_sessions db)" unfolding rows' by blast
    then show "day_key x = close_key c \<longrightarrow> cs_status x = CLOSED"
    proof cases
      case 1
      then show ?thesis using ne s'(1) by (auto simp: same_session_def)
    next
      case 2
      then show ?thesis using old(3) by blast
    qed
  qed
  moreover have "cuts_ok ?db'"
  proof -
    have "session_ref s' = session_ref s" using s'(1) by (simp add: same_session_def)
    then have "session_ref x \<in> session_ref ` set (c_sessions ?db')" if "x \<in> set (c_sessions db)" for x
      unfolding rows' using that by (cases "x = s") (auto simp del: prod.inject)
    then have sub: "session_ref ` set (c_sessions db) \<subseteq> session_ref ` set (c_sessions ?db')" by blast
    have eq: "c_cuts ?db' = cuts" by simp
    show ?thesis unfolding cuts_ok_def eq by (rule subset_trans [OF cuts sub])
  qed
  ultimately show ?thesis by (simp add: cash_invariant_def)
qed

lemma closes_keeps:
  assumes inv: "cash_invariant db" and c: "\<not> closed_day db (close_key c)" "dc_status c = CLOSED"
    "dc_expected_cash c = day_balance db (close_key c)"
    and m: "cm_cash_session_id m = None" "signed_amount m = 0"
    and os: "os = open_sessions_of db (dc_tenant_id c) (dc_store_id c) (dc_business_date c)"
  shows "cash_invariant (add_movement m ((close_sessions now os db)\<lparr>c_closes := c_closes db @ [c]\<rparr>))"
proof -
  define f where "f = (\<lambda>s. if cs_status s = OPEN \<and> day_key s = close_key c then closed_session now s else s)"
  let ?db = "(close_sessions now os db)\<lparr>c_closes := c_closes db @ [c]\<rparr>"
  have ok: "sessions_ok db" using inv by (simp add: cash_invariant_def)
  have rows: "set (c_sessions ?db) = f ` set (c_sessions db)"
    using open_sessions_of_rows [OF ok, of now "dc_tenant_id c" "dc_store_id c" "dc_business_date c"]
    by (simp add: os f_def)
  have ids: "map cs_id (c_sessions ?db) = map cs_id (c_sessions db)" by simp
  have f: "cs_id (f s) = cs_id s" "day_key (f s) = day_key s" "owner (f s) = owner s"
    "cs_expected_cash (f s) = cs_expected_cash s" "cs_opening_amount (f s) = cs_opening_amount s" "belongs_to (f s) m' = belongs_to s m'" for s m'
    by (simp_all add: f_def belongs_to_def)
  have st: "status_ok s \<Longrightarrow> status_ok (f s)" "cs_status (f s) = OPEN \<longleftrightarrow> cs_status s = OPEN \<and> day_key s \<noteq> close_key c"
    "cs_status (f s) = OPEN \<Longrightarrow> f s = s" for s
    by (auto simp: f_def)
  have b: "session_balance ?db i = session_balance db i" "day_balance ?db k = day_balance db k"
    "opening_balance ?db i = opening_balance db i" for i k
    by (simp_all add: session_balance_def day_balance_def opening_balance_def)
  have "balances_ok (add_movement m ?db)"
    using inv m unfolding cash_invariant_def balances_ok_def add_movement_simps rows by (simp add: b f) metis
  moreover have "sessions_ok (add_movement m ?db)"
  proof -
    have "inj_on owner {s \<in> f ` set (c_sessions db). cs_status s = OPEN}"
      using ok st(2,3) unfolding sessions_ok_def by (auto simp: inj_on_def)
    then show ?thesis using ok st(1) unfolding sessions_ok_def add_movement_simps ids rows by blast
  qed
  moreover have "movements_ok (add_movement m ?db)"
    using inv m unfolding cash_invariant_def movements_ok_def add_movement_simps rows by (simp add: f)
  moreover have "closes_ok (add_movement m ?db)"
  proof -
    have key: "day_key s = close_key c \<Longrightarrow> cs_status (f s) = CLOSED" for s
      using st(2) [of s] by (cases "cs_status (f s)") auto
    have old: "cs_status (f s) = CLOSED" if "cs_status s = CLOSED" for s using that by (simp add: f_def)
    have each: "dc_status c' = CLOSED \<and> dc_expected_cash c' = day_balance db (close_key c')
        \<and> (\<forall>s \<in> f ` set (c_sessions db). day_key s = close_key c' \<longrightarrow> cs_status s = CLOSED)"
      if "c' \<in> insert c (set (c_closes db))" for c'
    proof (cases "c' = c")
      case True
      then show ?thesis using c(2,3) key f(2) by (metis imageE)
    next
      case False
      then have "c' \<in> set (c_closes db)" using that by simp
      then have "dc_status c' = CLOSED" "dc_expected_cash c' = day_balance db (close_key c')"
        "\<And>s. s \<in> set (c_sessions db) \<Longrightarrow> day_key s = close_key c' \<Longrightarrow> cs_status s = CLOSED"
        using inv unfolding cash_invariant_def closes_ok_def by blast+
      then show ?thesis using old f(2) by (metis imageE)
    qed
    have "distinct (map close_key (c_closes db @ [c]))"
      using inv c(1) by (simp add: cash_invariant_def closes_ok_def closed_day_def)
    then show ?thesis using each m unfolding closes_ok_def add_movement_simps rows by (simp add: b)
  qed
  moreover have "cuts_ok (add_movement m ?db)"
    using inv unfolding cash_invariant_def cuts_ok_def add_movement_simps rows
    by (simp add: image_image f(1)) (metis (no_types, lifting) f(2) image_cong prod.inject)
  ultimately show ?thesis by (simp add: cash_invariant_def)
qed

lemma outside_keeps:
  assumes "cash_invariant db" and "cm_cash_session_id m = None" "signed_amount m = 0"
  shows "cash_invariant (add_movement m db)"
  using assms by (auto simp: cash_invariant_def sessions_ok_def balances_ok_def movements_ok_def closes_ok_def cuts_ok_def)

lemma cuts_keep:
  "cash_invariant db \<Longrightarrow> cut_ref ` set cuts \<subseteq> session_ref ` set (c_sessions db) \<Longrightarrow>
    cash_invariant (db\<lparr>c_cuts := cuts\<rparr>)"
  "cash_invariant db \<Longrightarrow> cash_invariant (db\<lparr>c_sales := ss\<rparr>)"
  by (auto simp: cash_invariant_def sessions_ok_def balances_ok_def movements_ok_def closes_ok_def cuts_ok_def
      session_balance_def day_balance_def opening_balance_def)

lemma ledger_step_keeps: "ledger_step db db' \<Longrightarrow> cash_invariant db \<Longrightarrow> cash_invariant db'"
proof (induction rule: ledger_step.induct)
  case (opens s db m)
  then show ?case by (intro opens_keeps)
next
  case (moves s db s' m cuts)
  then show ?case by (intro moves_keeps)
next
  case (closes db c m now)
  then show ?case by (intro closes_keeps) auto
next
  case (outside m db)
  then show ?case by (intro outside_keeps)
next
  case (cuts db cuts)
  then show ?case by (intro cuts_keep)
next
  case (sales db ss)
  then show ?case by (intro cuts_keep)
qed

end
