(* ===== verification/Cash_Invariants.thy ===== *)
theory Cash_Invariants
  imports Cash_Ledger
begin

text \<open>
  Cash, the code's steps simulate the abstract ledger, so its invariants hold in every reachable
  state; and what follows for the sessions, the day closes and the totals.
\<close>

section \<open>Queries and movements\<close>

lemma latest_session_Some:
  assumes "latest_session ss = Some s" shows "s \<in> set ss"
proof -
  obtain xs where "sort_key (\<lambda>s. - cs_opened_at s) (sort_key (\<lambda>s. - cs_created_at s) ss) = s # xs"
    using assms by (auto simp: latest_session_def split: list.splits)
  then have "s \<in> set (sort_key (\<lambda>s. - cs_opened_at s) (sort_key (\<lambda>s. - cs_created_at s) ss))" by simp
  then show ?thesis by simp
qed

lemma latest_session_None: "latest_session ss = None \<longleftrightarrow> ss = []"
proof -
  have "sort_key (\<lambda>s. - cs_opened_at s) (sort_key (\<lambda>s. - cs_created_at s) ss) = [] \<longleftrightarrow> ss = []"
    by (metis length_0_conv length_sort)
  then show ?thesis by (auto simp: latest_session_def split: list.splits)
qed

lemma open_session_query_Some:
  assumes "open_session_query db tn sid c = Some s"
  shows "s \<in> set (c_sessions db)" "cs_status s = OPEN" "cs_tenant_id s = tn" "cs_store_id s = sid"
    "cs_cashier_user_id s = c" "cs_closed_at s = None"
  using latest_session_Some [OF assms [unfolded open_session_query_def]] by simp_all

lemma resolve_active_session_Some:
  assumes "resolve_active_session db tn sid c i = Some s"
  shows "s \<in> set (c_sessions db)" "cs_status s = OPEN" "cs_tenant_id s = tn" "cs_store_id s = sid"
    "cs_cashier_user_id s = c"
  using assms open_session_query_Some [of db tn sid c s]
  by (auto simp: resolve_active_session_def split: if_splits dest!: find_SomeD)

lemma open_not_closed_day:
  assumes "cash_invariant db" and "s \<in> set (c_sessions db)" and "cs_status s = OPEN"
  shows "\<not> closed_day db (day_key s)"
  using assms by (force simp: cash_invariant_def closes_ok_def closed_day_def)

lemma open_session_query_None:
  assumes "cash_invariant db" and "open_session_query db tn sid c = None"
    and "x \<in> set (c_sessions db)" and "cs_status x = OPEN"
  shows "owner x \<noteq> (tn, sid, c)"
proof
  assume own: "owner x = (tn, sid, c)"
  have "cs_closed_at x = None"
    using assms(1,3,4) by (auto simp: cash_invariant_def sessions_ok_def status_ok_def)
  moreover have "\<not> day_close_exists db x"
    using open_not_closed_day [OF assms(1,3,4)]
    by (force simp: day_close_exists_def list_ex_iff closed_day_def)
  ultimately show False
    using assms own by (auto simp: open_session_query_def latest_session_None filter_empty_conv)
qed

lemma signed_session_movement [simp]:
  "signed_amount (session_movement i tn sid s ac sale ''OPEN'' amt before after tx r tr now) = amt"
  "signed_amount (session_movement i tn sid s ac sale ''CASH_IN'' amt before after tx r tr now) = amt"
  "signed_amount (session_movement i tn sid s ac sale ''SALE'' amt before after tx r tr now) = amt"
  "signed_amount (session_movement i tn sid s ac sale ''CASH_OUT'' amt before after tx r tr now) = - amt"
  "signed_amount (session_movement i tn sid s ac sale ''CASH_OUT_REFUND'' amt before after tx r tr now) = - amt"
  "signed_amount (session_movement i tn sid s ac sale ''CLOSE'' amt before after tx r tr now) = 0"
  by (simp_all add: signed_amount_def session_movement_def normalize_movement_type_def
      MOVEMENT_TYPE_MAP_def dict_get_def)

lemma belongs_to_session_movement:
  "cs_tenant_id s = tn \<Longrightarrow> cs_store_id s = sid \<Longrightarrow> a \<in> set SESSION_ACTIONS \<Longrightarrow>
    belongs_to s (session_movement i tn sid s ac sale a amt before after tx r tr now)"
  by (simp add: belongs_to_def session_movement_def)

lemma ensure_positive_amount_Inr: "ensure_positive_amount v f = Inr x \<longleftrightarrow> v = Some x \<and> 0 < x"
  by (auto simp: ensure_positive_amount_def split: option.splits)

lemma ensure_non_negative_balance_Inr: "ensure_non_negative_balance b = Inr u \<longleftrightarrow> 0 \<le> b"
  by (auto simp: ensure_non_negative_balance_def res_simps)

lemma ensure_not_closed_Inr: "ensure_not_closed db tn sid d = Inr u \<longleftrightarrow> \<not> closed_day db (tn, sid, d)"
  by (auto simp: ensure_not_closed_def res_simps find_day_close_None)

lemmas cash_checks = ensure_positive_amount_Inr ensure_non_negative_balance_Inr ensure_not_closed_Inr

section \<open>Simulation\<close>

text \<open>A posting on an open session, whichever router makes it, is the step \<open>moves\<close>.\<close>

lemma posting_simulates:
  assumes inv: "cash_invariant db" and s: "s \<in> set (c_sessions db)" "cs_status s = OPEN"
    and "same_session s s'" "status_ok s'" "0 \<le> cs_expected_cash s'"
    and "belongs_to s m" and "cm_action m \<noteq> ''OPEN''" and "cs_expected_cash s' = cs_expected_cash s + signed_amount m"
    and "cut_ref ` set cuts \<subseteq> session_ref ` set (c_sessions db)"
    and "db' = (add_movement m (set_session s' db))\<lparr>c_cuts := cuts\<rparr>"
  shows "ledger_step db db'"
  using ledger_step.moves [of s db s' m cuts] open_not_closed_day [OF inv s] assms by simp

lemma posting_simulates_only:
  assumes inv: "cash_invariant db" and s: "s \<in> set (c_sessions db)" "cs_status s = OPEN"
    and "same_session s s'" "status_ok s'" "0 \<le> cs_expected_cash s'"
    and "belongs_to s m" and "cm_action m \<noteq> ''OPEN''" and "cs_expected_cash s' = cs_expected_cash s + signed_amount m"
    and "db' = add_movement m (set_session s' db)"
  shows "ledger_step db db'"
  by (rule posting_simulates [OF assms(1-9), of "c_cuts db"])
    (use inv in \<open>simp_all add: assms(10) add_movement_def set_session_def cash_invariant_def cuts_ok_def\<close>)

lemma status_ok_in: "cash_invariant db \<Longrightarrow> s \<in> set (c_sessions db) \<Longrightarrow> status_ok s"
  by (simp add: cash_invariant_def sessions_ok_def)

lemma session_change_Inr:
  assumes "session_change now a s = Inr (s', action, amt, after)" and "status_ok s"
    and "cs_status s = OPEN" and "0 \<le> cs_expected_cash s"
  shows "same_session s s'" "status_ok s'" "0 \<le> cs_expected_cash s'" "cs_expected_cash s' = after"
    "action \<in> set SESSION_ACTIONS" "action \<noteq> ''OPEN''" "cs_expected_cash s' = cs_expected_cash s
      + signed_amount (session_movement i tn sid s ac sale action amt before after tx r tr now')"
  using assms
  by (auto simp: session_change_def bindr_Inr_iff cash_checks Let_def same_session_def status_ok_def SESSION_ACTIONS_def
      split: session_action.splits option.splits)

lemma record_cash_movement_Inr:
  assumes "record_cash_movement i s tn sid sale action amt tx actor tr now db = Inr db'"
  shows "\<exists>after m. db' = add_movement m (set_session (s\<lparr>cs_expected_cash := after\<rparr>) db) \<and> 0 \<le> after
    \<and> after = (if action \<in> {''SALE'', ''CASH_IN''} then cs_expected_cash s + amt else cs_expected_cash s - amt)
    \<and> m = session_movement i tn sid s actor sale action amt (cs_expected_cash s) after tx None tr now"
  using assms by (auto simp: record_cash_movement_def bindr_Inr_iff require_Inr_iff Let_def not_less)

lemma cut_cash_out_Inr:
  assumes "cut_cash_out i tn sid s u amt tx r tr now db = Inr db'"
  shows "0 \<le> cs_expected_cash s - amt"
    "db' = add_movement (session_movement i tn sid s (Some (us_id u)) None ''CASH_OUT'' amt
      (cs_expected_cash s) (cs_expected_cash s - amt) (Some tx) (Some r) tr now)
      (set_session (s\<lparr>cs_expected_cash := cs_expected_cash s - amt\<rparr>) db)"
  using assms by (auto simp: cut_cash_out_def bindr_Inr_iff cash_checks Let_def)

lemma open_cash_session_simulates:
  assumes inv: "cash_invariant db" and fresh: "fresh_rows env db"
    and run: "open_cash_session env p tn sid u amt d tz db = Inr (db', s)"
  shows "ledger_step db db'"
proof -
  let ?m = "session_movement (rq_fresh env 1) tn sid s (Some (us_id u)) None ''OPEN'' amt 0 amt
    (sq_transaction_id p) (sq_reason p) (rc_trace_id (rq_context env)) (rq_now env)"
  have s: "s = \<lparr>cs_id = rq_fresh env 0, cs_tenant_id = tn, cs_store_id = sid,
      cs_cashier_user_id = us_id u, cs_status = OPEN, cs_business_date = d, cs_timezone = tz,
      cs_opening_amount = amt, cs_expected_cash = amt, cs_counted_cash = None,
      cs_difference = None, cs_opened_at = rq_now env, cs_closed_at = None,
      cs_created_at = rq_now env\<rparr>"
    and db': "db' = add_movement ?m (db\<lparr>c_sessions := c_sessions db @ [s]\<rparr>)"
    and q: "0 < amt" "\<not> closed_day db (tn, sid, d)" "open_session_query db tn sid (us_id u) = None"
    using run by (auto simp: open_cash_session_def bindr_Inr_iff require_Inr_iff cash_checks Let_def)
  show ?thesis unfolding db'
  proof (rule ledger_step.opens)
    show "cs_id s \<notin> cs_id ` set (c_sessions db)" using fresh by (simp add: s fresh_rows_def)
    show "\<forall>x \<in> set (c_sessions db). cs_status x = OPEN \<longrightarrow> owner x \<noteq> owner s"
      using open_session_query_None [OF inv q(3)] by (simp add: s)
    show "belongs_to s ?m" by (rule belongs_to_session_movement) (simp_all add: s SESSION_ACTIONS_def)
  qed (use q in \<open>simp_all add: s status_ok_def session_movement_def signed_amount_def
      normalize_movement_type_def MOVEMENT_TYPE_MAP_def dict_get_def\<close>)
qed

lemma cash_session_body_simulates:
  assumes inv: "cash_invariant db" and fresh: "fresh_rows env db"
    and run: "cash_session_body env p tn (sid, u) db = Inr (db', s')"
  shows "ledger_step db db'"
proof (cases "\<exists>amt d tz. sq_action p = Open_session amt d tz")
  case True
  then show ?thesis
    using run open_cash_session_simulates [OF inv fresh] by (auto simp: cash_session_body_def)
next
  case False
  then obtain s where s: "open_session_query db tn sid (us_id u) = Some s"
    using run by (cases "sq_action p") (auto simp: cash_session_body_def split: option.splits)
  note row = open_session_query_Some [OF s]
  obtain action amt after where ch: "session_change (rq_now env) (sq_action p) s = Inr (s', action, amt, after)"
    and db': "db' = add_movement (session_movement (rq_fresh env 0) tn sid s (Some (us_id u)) None
        action amt (cs_expected_cash s) after (sq_transaction_id p) (sq_reason p)
        (rc_trace_id (rq_context env)) (rq_now env)) (set_session s' db)"
    using False run s by (cases "sq_action p") (auto simp: cash_session_body_def bindr_Inr_iff)
  have ok: "status_ok s" "0 \<le> cs_expected_cash s"
    using inv row(1) by (auto simp: status_ok_in cash_invariant_def balances_ok_def)
  note c = session_change_Inr [OF ch ok(1) row(2) ok(2)]
  show ?thesis
    using posting_simulates_only [OF inv row(1,2) c(1,2,3)
        belongs_to_session_movement [OF row(3,4) c(5)] _ c(7) db'] c(6) by (simp add: session_movement_def)
qed

lemma close_day_body_simulates:
  assumes inv: "cash_invariant db" and run: "close_day_body env p tn (sid, u) db = Inr (db', c)"
  shows "ledger_step db db'"
proof -
  let ?os = "open_sessions_of db tn sid (dq_business_date p)"
  let ?db = "close_sessions (rq_now env) ?os db" and ?m = "day_close_movement env p tn sid u"
  have c: "c = day_close_row env p tn sid u (reconciliation_rollup ?db tn sid (dq_business_date p))"
    and db': "db' = add_movement ?m (?db\<lparr>c_closes := c_closes db @ [c]\<rparr>)"
    and new: "\<not> closed_day db (tn, sid, dq_business_date p)"
    using run
    by (auto simp: close_day_body_def commit_day_close_def bindr_Inr_iff require_Inr_iff
        find_day_close_None Let_def)
  have key: "dc_tenant_id c = tn" "dc_store_id c = sid" "dc_business_date c = dq_business_date p"
    "dc_status c = CLOSED" by (simp_all add: c day_close_row_def Let_def)
  have "dc_expected_cash c = day_balance ?db (tn, sid, dq_business_date p)"
    by (simp add: c day_close_row_def Let_def rollup_day_balance)
  then have "dc_expected_cash c = day_balance db (close_key c)" by (simp add: key day_balance_def)
  moreover have "cm_cash_session_id ?m = None" "signed_amount ?m = 0"
    by (simp_all add: day_close_movement_def signed_amount_def normalize_movement_type_def
        MOVEMENT_TYPE_MAP_def dict_get_def)
  ultimately show ?thesis
    using ledger_step.closes [of db c ?m "rq_now env"] new db' key by simp
qed

lemma cut_cash_out_simulates:
  assumes inv: "cash_invariant db" and s: "s \<in> set (c_sessions db)" "cs_status s = OPEN"
    "cs_tenant_id s = tn" "cs_store_id s = sid"
    and run: "cut_cash_out i tn sid s u amt tx r tr now db = Inr db1"
    and "cut_ref ` set cuts \<subseteq> session_ref ` set (c_sessions db)"
  shows "ledger_step db (db1\<lparr>c_cuts := cuts\<rparr>)"
  using assms(7) status_ok_in [OF inv s(1)] s cut_cash_out_Inr [OF run]
  by (intro posting_simulates [OF inv s(1,2), where s' = "s\<lparr>cs_expected_cash := cs_expected_cash s - amt\<rparr>"])
    (auto simp: same_session_def status_ok_def session_movement_def belongs_to_def SESSION_ACTIONS_def
      signed_amount_def normalize_movement_type_def MOVEMENT_TYPE_MAP_def dict_get_def)

lemma create_cut_body_cases:
  assumes "create_cut_body env p tn sid u db = Inr (db', c)"
  obtains s f t tz q where "cut_session env p tn sid u db = Inr (s, f, t, tz)"
    "calculate_cut_quote db (rq_now env) tn sid s (qq_cut_type p) f t tz (qq_counted_cash p)
      (qq_deposit_removed_amount p) (qq_notes p) = Inr q" "cut_ref c = cut_ref q"
    "db' = db\<lparr>c_cuts := c_cuts db @ [c]\<rparr> \<or> (\<exists>i amt tx r tr now db1. db' = db1\<lparr>c_cuts := c_cuts db1 @ [c]\<rparr>
      \<and> cut_cash_out i tn sid s u amt tx r tr now db = Inr db1)"
proof -
  obtain s f t tz where cs: "cut_session env p tn sid u db = Inr (s, f, t, tz)"
    using assms by (auto simp: create_cut_body_def bindr_Inr_iff)
  obtain q where q: "calculate_cut_quote db (rq_now env) tn sid s (qq_cut_type p) f t tz
      (qq_counted_cash p) (qq_deposit_removed_amount p) (qq_notes p) = Inr q"
    using assms cs by (auto simp: create_cut_body_def bindr_Inr_iff)
  show thesis
  proof (rule that [OF cs q])
    show "cut_ref c = cut_ref q"
      using assms cs q
      by (auto simp: create_cut_body_def bindr_Inr_iff Let_def split: option.splits if_splits)
    show "db' = db\<lparr>c_cuts := c_cuts db @ [c]\<rparr> \<or> (\<exists>i amt tx r tr now db1.
        db' = db1\<lparr>c_cuts := c_cuts db1 @ [c]\<rparr> \<and> cut_cash_out i tn sid s u amt tx r tr now db = Inr db1)"
      using assms cs q unfolding create_cut_body_def
      by (cases "qq_deposit_removed_amount p") (auto simp: Let_def bindr_Inr_iff split: if_splits)
  qed
qed

lemma cut_session_Inr:
  assumes "cut_session env p tn sid u db = Inr (s, f, t, tz)"
  shows "s \<in> set (c_sessions db)" "cs_status s = OPEN" "cs_tenant_id s = tn" "cs_store_id s = sid"
    "cs_cashier_user_id s = us_id u" "\<not> closed_day db (tn, sid, cs_business_date s)"
proof -
  have "resolve_active_session db tn sid (us_id u) (qq_cash_session_id p) = Some s"
    using assms by (auto simp: cut_session_def bindr_Inr_iff split: option.splits prod.splits)
  from resolve_active_session_Some [OF this]
  show "s \<in> set (c_sessions db)" "cs_status s = OPEN" "cs_tenant_id s = tn" "cs_store_id s = sid"
    "cs_cashier_user_id s = us_id u" by simp_all
  show "\<not> closed_day db (tn, sid, cs_business_date s)"
    using assms by (auto simp: cut_session_def bindr_Inr_iff cash_checks split: option.splits prod.splits)
qed

lemma cut_cash_out_cuts: "cut_cash_out i tn sid s u amt tx r tr now db = Inr db1 \<Longrightarrow> c_cuts db1 = c_cuts db"
  by (drule cut_cash_out_Inr(2)) simp

lemma calculate_cut_quote_ref:
  "calculate_cut_quote db now tn sid s ty f t tz counted deposit notes = Inr q \<Longrightarrow> cut_ref q = (cs_id s, tn, sid)"
  by (auto simp: calculate_cut_quote_def bindr_Inr_iff Let_def)

lemma create_cut_body_simulates:
  assumes inv: "cash_invariant db" and run: "create_cut_body env p tn sid u db = Inr (db', c)"
  shows "ledger_step db db'"
proof -
  obtain s f t tz q where cs: "cut_session env p tn sid u db = Inr (s, f, t, tz)"
    and q: "calculate_cut_quote db (rq_now env) tn sid s (qq_cut_type p) f t tz (qq_counted_cash p)
      (qq_deposit_removed_amount p) (qq_notes p) = Inr q" and c: "cut_ref c = cut_ref q"
    and db': "db' = db\<lparr>c_cuts := c_cuts db @ [c]\<rparr> \<or> (\<exists>i amt tx r tr now db1.
      db' = db1\<lparr>c_cuts := c_cuts db1 @ [c]\<rparr> \<and> cut_cash_out i tn sid s u amt tx r tr now db = Inr db1)"
    using run by (rule create_cut_body_cases) (rule that)
  note s = cut_session_Inr [OF cs]
  have "cut_ref c = session_ref s" using c calculate_cut_quote_ref [OF q] s(3,4) by simp
  then have refs: "cut_ref ` set (c_cuts db @ [c]) \<subseteq> session_ref ` set (c_sessions db)"
    using inv s(1) by (auto simp: cash_invariant_def cuts_ok_def)
  from db' show ?thesis
  proof (elim disjE exE conjE)
    assume "db' = db\<lparr>c_cuts := c_cuts db @ [c]\<rparr>"
    then show ?thesis using ledger_step.cuts [OF refs] by simp
  next
    fix i amt tx r tr now db1
    assume db1: "db' = db1\<lparr>c_cuts := c_cuts db1 @ [c]\<rparr>" "cut_cash_out i tn sid s u amt tx r tr now db = Inr db1"
    show ?thesis
      using cut_cash_out_simulates [OF inv s(1-4) db1(2) refs] db1(1) cut_cash_out_cuts [OF db1(2)] by simp
  qed
qed

text \<open>An action on a cut keeps what the cut refers to.\<close>

lemma set_cut_refs:
  assumes "cuts_ok db" and "c \<in> set (c_cuts db)" and "cut_ref c' = cut_ref c"
  shows "cut_ref ` set (map (\<lambda>x. if cc_id x = cc_id c' then c' else x) (c_cuts db))
    \<subseteq> session_ref ` set (c_sessions db)"
proof -
  have "cut_ref c' \<in> session_ref ` set (c_sessions db)"
    unfolding assms(3) using assms(1,2) unfolding cuts_ok_def by blast
  then show ?thesis using assms(1) unfolding cuts_ok_def by auto
qed

lemma cut_action_body_cases:
  assumes "cut_action_body env p i tn sid u db = Inr (db', c')"
  obtains c where "c \<in> set (c_cuts db)" "cc_id c = i" "cc_tenant_id c = tn" "cc_store_id c = sid"
    "cut_ref c' = cut_ref c"
    "db' = set_cut c' db \<or> (\<exists>s amt tx r tr db1. find (\<lambda>s. cs_id s = cc_cash_session_id c) (c_sessions db) = Some s
      \<and> cs_status s = OPEN \<and> cut_cash_out (rq_fresh env 0) tn sid s u amt tx r tr (rq_now env) db = Inr db1
      \<and> db' = set_cut c' db1)"
proof -
  obtain c where "find_cut db i tn sid = Inr c"
    using assms by (auto simp: cut_action_body_def bindr_Inr_iff)
  then have f: "find (\<lambda>c. cc_id c = i \<and> cc_tenant_id c = tn \<and> cc_store_id c = sid) (c_cuts db) = Some c"
    by (auto simp: find_cut_def split: option.splits)
  have run: "(case ca_action p of Apply_cash_out \<Rightarrow> apply_cash_out env p tn sid u c db = Inr (db', c')
      | _ \<Rightarrow> db' = set_cut c' db \<and> cut_ref c' = cut_ref c)"
    using assms f
    by (cases "ca_action p") (auto simp: cut_action_body_def find_cut_def Let_def split: option.splits)
  show thesis
  proof (rule that)
    show "c \<in> set (c_cuts db)" "cc_id c = i" "cc_tenant_id c = tn" "cc_store_id c = sid"
      using find_SomeD [OF f] by simp_all
    show "cut_ref c' = cut_ref c"
      using run by (cases "ca_action p")
        (auto simp: apply_cash_out_def bindr_Inr_iff require_Inr_iff Let_def split: option.splits)
    show "db' = set_cut c' db \<or> (\<exists>s amt tx r tr db1. find (\<lambda>s. cs_id s = cc_cash_session_id c) (c_sessions db) = Some s
      \<and> cs_status s = OPEN \<and> cut_cash_out (rq_fresh env 0) tn sid s u amt tx r tr (rq_now env) db = Inr db1
      \<and> db' = set_cut c' db1)"
      using run by (cases "ca_action p")
        (auto simp: apply_cash_out_def bindr_Inr_iff require_Inr_iff Let_def split: option.splits, blast)
  qed
qed

lemma cut_action_body_simulates:
  assumes inv: "cash_invariant db" and run: "cut_action_body env p i tn sid u db = Inr (db', c')"
  shows "ledger_step db db'"
proof -
  obtain c where c: "c \<in> set (c_cuts db)" "cc_tenant_id c = tn" "cc_store_id c = sid" "cut_ref c' = cut_ref c"
    and db': "db' = set_cut c' db \<or> (\<exists>s amt tx r tr db1.
      find (\<lambda>s. cs_id s = cc_cash_session_id c) (c_sessions db) = Some s
      \<and> cs_status s = OPEN \<and> cut_cash_out (rq_fresh env 0) tn sid s u amt tx r tr (rq_now env) db = Inr db1
      \<and> db' = set_cut c' db1)"
    using run by (rule cut_action_body_cases) (rule that)
  have ok: "cuts_ok db" using inv by (simp add: cash_invariant_def)
  note refs = set_cut_refs [OF ok c(1,4)]
  from db' show ?thesis
  proof (elim disjE exE conjE)
    assume "db' = set_cut c' db"
    then show ?thesis using ledger_step.cuts [OF refs] by (simp add: set_cut_def)
  next
    fix s amt tx r tr db1
    assume s: "find (\<lambda>s. cs_id s = cc_cash_session_id c) (c_sessions db) = Some s" "cs_status s = OPEN"
      and out: "cut_cash_out (rq_fresh env 0) tn sid s u amt tx r tr (rq_now env) db = Inr db1"
      and db1: "db' = set_cut c' db1"
    have row: "s \<in> set (c_sessions db)" "cs_id s = cc_cash_session_id c" using find_SomeD [OF s(1)] by auto
    obtain x where x: "x \<in> set (c_sessions db)" "cut_ref c = session_ref x"
      using ok c(1) unfolding cuts_ok_def by blast
    have "distinct (map cs_id (c_sessions db))" using inv by (simp add: cash_invariant_def sessions_ok_def)
    from key_unique [OF this x(1) row(1)] have "x = s" using x(2) row(2) by simp
    then have ref: "cs_tenant_id s = tn" "cs_store_id s = sid" using x(2) c(2,3) by auto
    show ?thesis
      using cut_cash_out_simulates [OF inv row(1) s(2) ref out refs] db1 cut_cash_out_cuts [OF out]
      by (simp add: set_cut_def)
  qed
qed

lemma record_cash_movement_simulates:
  assumes inv: "cash_invariant db" and s: "s \<in> set (c_sessions db)" "cs_status s = OPEN"
    "cs_tenant_id s = tn" "cs_store_id s = sid"
    and a: "action \<in> {''SALE'', ''CASH_IN'', ''CASH_OUT'', ''CASH_OUT_REFUND''}"
    and run: "record_cash_movement i s tn sid sale action amt tx actor trace now db = Inr db'"
  shows "ledger_step db db'"
proof -
  obtain after m where r: "db' = add_movement m (set_session (s\<lparr>cs_expected_cash := after\<rparr>) db)" "0 \<le> after"
    "after = (if action \<in> {''SALE'', ''CASH_IN''} then cs_expected_cash s + amt else cs_expected_cash s - amt)"
    "m = session_movement i tn sid s actor sale action amt (cs_expected_cash s) after tx None trace now"
    using record_cash_movement_Inr [OF run] by blast
  have "cs_expected_cash (s\<lparr>cs_expected_cash := after\<rparr>) = cs_expected_cash s + signed_amount m"
    using a by (auto simp: r(3,4))
  then show ?thesis
    using posting_simulates_only [OF inv s(1,2), of "s\<lparr>cs_expected_cash := after\<rparr>" m db']
      status_ok_in [OF inv s(1)] s r(1,2) belongs_to_session_movement [OF s(3,4)] a
    by (auto simp: same_session_def status_ok_def r(4) SESSION_ACTIONS_def session_movement_def)
qed

lemma signed_amount_outside:
  "normalize_movement_type (cm_action m) \<notin> set RECONCILIATION_ACTIONS \<Longrightarrow> signed_amount m = 0"
  by (auto simp: signed_amount_def RECONCILIATION_ACTIONS_def Let_def)

text \<open>Every step of the code is a step of the abstract ledger.\<close>

lemma cash_step_simulates: "cash_step db db' \<Longrightarrow> cash_invariant db \<Longrightarrow> ledger_step db db'"
proof (induction rule: cash_step.induct)
  case (Session env db p tn sid u db' s)
  then show ?case by (intro cash_session_body_simulates)
next
  case (Day env p tn sid u db db' c)
  then show ?case by (intro close_day_body_simulates)
next
  case (Cut env p tn sid u db db' c)
  then show ?case by (intro create_cut_body_simulates)
next
  case (Cut_action env p i tn sid u db db' c)
  then show ?case by (intro cut_action_body_simulates)
next
  case (Post s db tn sid action i sale amt tx actor trace now db')
  then show ?case by (intro record_cash_movement_simulates)
next
  case (Voucher m db)
  then show ?case by (intro ledger_step.outside signed_amount_outside)
next
  case (Sale db ss)
  then show ?case by (intro ledger_step.sales)
qed

lemma cash_start_invariant: "cash_start db \<Longrightarrow> cash_invariant db"
  by (simp add: cash_start_def cash_invariant_def sessions_ok_def balances_ok_def movements_ok_def
      closes_ok_def cuts_ok_def)

interpretation cash_ledger: simulated_steps cash_start cash_step ledger_step cash_invariant
  by unfold_locales (auto intro: cash_start_invariant ledger_step_keeps cash_step_simulates)

lemma cash_reachable_invariant: "cash_reachable db \<Longrightarrow> cash_invariant db"
  by (auto simp: cash_reachable_def intro: cash_ledger.reachable_inv)

lemma cash_reachable_step: "cash_reachable db \<Longrightarrow> cash_step db db' \<Longrightarrow> cash_reachable db'"
  unfolding cash_reachable_def by (meson rtranclp.rtrancl_into_rtrancl)

end
