(* ===== verification/Cash_Properties.thy ===== *)
theory Cash_Properties
  imports Cash_Invariants
begin

text \<open>
  Cash, the drawer of a cashier as an abstract machine and the lemmas behind the component's
  properties: the open session query finds the one open session, the totals of a day are those
  of its sessions, and a cut that covers its session agrees with it.
\<close>

section \<open>The one open session\<close>

lemma open_session_query_iff:
  assumes inv: "cash_invariant db"
  shows "open_session_query db tn sid c = Some s \<longleftrightarrow>
    s \<in> set (c_sessions db) \<and> cs_status s = OPEN \<and> owner s = (tn, sid, c)"
proof
  assume "open_session_query db tn sid c = Some s"
  from open_session_query_Some [OF this]
  show "s \<in> set (c_sessions db) \<and> cs_status s = OPEN \<and> owner s = (tn, sid, c)" by simp
next
  assume s: "s \<in> set (c_sessions db) \<and> cs_status s = OPEN \<and> owner s = (tn, sid, c)"
  then obtain x where x: "open_session_query db tn sid c = Some x"
    using open_session_query_None [OF inv] by (cases "open_session_query db tn sid c") blast+
  have "inj_on owner {s \<in> set (c_sessions db). cs_status s = OPEN}"
    using inv by (simp add: cash_invariant_def sessions_ok_def)
  then have "x = s"
    using open_session_query_Some [OF x] s by (auto simp: inj_on_def)
  then show "open_session_query db tn sid c = Some s" using x by simp
qed

lemma open_session_query_eqI:
  assumes "cash_invariant db" and "cash_invariant db'"
    and "\<And>s. cs_status s = OPEN \<Longrightarrow> owner s = (tn, sid, c) \<Longrightarrow>
      s \<in> set (c_sessions db') \<longleftrightarrow> s \<in> set (c_sessions db)"
  shows "open_session_query db' tn sid c = open_session_query db tn sid c"
  using open_session_query_iff [OF assms(1)] open_session_query_iff [OF assms(2)] assms(3)
  by (metis not_Some_eq)

section \<open>The drawer\<close>

text \<open>A cashier's drawer in a store: closed, or holding an expected amount.\<close>

definition drawer_of :: "cash_db \<Rightarrow> uuid \<Rightarrow> uuid \<Rightarrow> uuid \<Rightarrow> money option" where
  "drawer_of db tn sid c = map_option cs_expected_cash (open_session_query db tn sid c)"

fun drawer_spec :: "session_action \<Rightarrow> money option \<Rightarrow> money option option" where
  "drawer_spec (Open_session a d tz) None = (if 0 < a then Some (Some a) else None)"
| "drawer_spec (Cash_in a) (Some b) = (if 0 < a then Some (Some (b + a)) else None)"
| "drawer_spec (Cash_out a) (Some b) = (if 0 < a \<and> a \<le> b then Some (Some (b - a)) else None)"
| "drawer_spec (Close_session (Some counted)) (Some b) = Some None"
| "drawer_spec _ _ = None"

text \<open>An opening also needs a timezone and a date that is not closed.\<close>

definition open_allowed :: "cash_db \<Rightarrow> uuid \<Rightarrow> uuid \<Rightarrow> session_action \<Rightarrow> bool" where
  "open_allowed db tn sid a = (case a of
     Open_session amt d tz \<Rightarrow> tz \<noteq> [] \<and> find_day_close db tn sid d = None | _ \<Rightarrow> True)"

lemma drawer_after_change:
  assumes inv: "cash_invariant db" "cash_invariant db'" and s: "open_session_query db tn sid c = Some s"
    and rows: "set (c_sessions db') = insert s' (set (c_sessions db) - {s})" and same: "same_session s s'"
  shows "open_session_query db' tn sid c = (if cs_status s' = OPEN then Some s' else None)"
    and "(tn', sid', c') \<noteq> (tn, sid, c) \<Longrightarrow>
      open_session_query db' tn' sid' c' = open_session_query db tn' sid' c'"
proof -
  have s_row: "s \<in> set (c_sessions db)" "cs_status s = OPEN" "owner s = (tn, sid, c)"
    using open_session_query_iff [OF inv(1)] s by auto
  have own: "owner s' = (tn, sid, c)" using s_row(3) same by (simp add: same_session_def)
  show "open_session_query db' tn sid c = (if cs_status s' = OPEN then Some s' else None)"
  proof (cases "cs_status s' = OPEN")
    case True
    then show ?thesis using open_session_query_iff [OF inv(2)] rows own by auto
  next
    case False
    have "open_session_query db' tn sid c \<noteq> Some x" for x
    proof
      assume "open_session_query db' tn sid c = Some x"
      then have x: "x \<in> set (c_sessions db')" "cs_status x = OPEN" "owner x = (tn, sid, c)"
        using open_session_query_iff [OF inv(2)] by auto
      then have "x \<in> set (c_sessions db)" "x \<noteq> s" using rows False by auto
      then have "open_session_query db tn sid c = Some x"
        using open_session_query_iff [OF inv(1)] x by auto
      then show False using s \<open>x \<noteq> s\<close> by simp
    qed
    then show ?thesis using False by (cases "open_session_query db' tn sid c") auto
  qed
  show "open_session_query db' tn' sid' c' = open_session_query db tn' sid' c'"
    if "(tn', sid', c') \<noteq> (tn, sid, c)"
    using inv that rows own s_row(3) by (intro open_session_query_eqI) auto
qed

lemma drawer_after_open:
  assumes inv: "cash_invariant db" "cash_invariant db'" and "cs_status s = OPEN" and "owner s = (tn, sid, c)"
    and rows: "c_sessions db' = c_sessions db @ [s]"
  shows "open_session_query db' tn sid c = Some s"
    and "(tn', sid', c') \<noteq> (tn, sid, c) \<Longrightarrow>
      open_session_query db' tn' sid' c' = open_session_query db tn' sid' c'"
proof -
  show "open_session_query db' tn sid c = Some s"
    using open_session_query_iff [OF inv(2)] assms by auto
  show "open_session_query db' tn' sid' c' = open_session_query db tn' sid' c'"
    if "(tn', sid', c') \<noteq> (tn, sid, c)"
    using inv that rows assms(4) by (intro open_session_query_eqI) auto
qed

lemma session_change_spec:
  assumes "\<not> (\<exists>amt d tz. a = Open_session amt d tz)" and "cs_status s = OPEN"
  shows "drawer_spec a (Some (cs_expected_cash s)) = (case session_change now a s of
      Inl _ \<Rightarrow> None
    | Inr (s', _) \<Rightarrow> Some (if cs_status s' = OPEN then Some (cs_expected_cash s') else None))"
  using assms
  by (cases a) (auto simp: session_change_def ensure_positive_amount_def ensure_non_negative_balance_def
      require_def Let_def split: option.splits)

text \<open>The body of an action other than an opening.\<close>

lemma cash_session_body_change:
  assumes "\<not> (\<exists>amt d tz. sq_action p = Open_session amt d tz)"
  shows "cash_session_body env p tn (sid, u) db = (case open_session_query db tn sid (us_id u) of
      None \<Rightarrow> Inl (raise1 BUSINESS_CONFLICT ''open cash session required'')
    | Some s \<Rightarrow>
        bindr (ensure_not_closed db tn sid (cs_business_date s)) (\<lambda>_.
        bindr (require (cs_status s = OPEN)
          (raise1 VALIDATION_ERROR ''cash session is not open'')) (\<lambda>_.
        bindr (session_change (rq_now env) (sq_action p) s) (\<lambda>(s', action, amt, after).
          Inr (add_movement
            (session_movement (rq_fresh env 0) tn sid s (Some (us_id u)) None action amt
              (cs_expected_cash s) after (sq_transaction_id p) (sq_reason p)
              (rc_trace_id (rq_context env)) (rq_now env))
            (set_session s' db), s')))))"
  using assms unfolding cash_session_body_def prod.case
  by (cases "sq_action p"; simp only: session_action.case) blast

definition drawer_simulated ::
    "cash_db \<Rightarrow> uuid \<Rightarrow> uuid \<Rightarrow> uuid \<Rightarrow> session_action \<Rightarrow> cash_session cash_result \<Rightarrow> bool" where
  "drawer_simulated db tn sid c a r = (case r of
     Inl _ \<Rightarrow> drawer_spec a (drawer_of db tn sid c) = None
   | Inr (db', _) \<Rightarrow> drawer_spec a (drawer_of db tn sid c) = Some (drawer_of db' tn sid c)
       \<and> (\<forall>tn' sid' c'. (tn', sid', c') \<noteq> (tn, sid, c) \<longrightarrow> drawer_of db' tn' sid' c' = drawer_of db tn' sid' c'))"

lemma drawer_simulates_open:
  assumes inv: "cash_invariant db" and fresh: "fresh_rows env db"
    and a: "sq_action p = Open_session amt d tz" and ok: "open_allowed db tn sid (sq_action p)"
  shows "drawer_simulated db tn sid (us_id u) (sq_action p) (cash_session_body env p tn (sid, u) db)"
proof (cases "cash_session_body env p tn (sid, u) db")
  case (Inl e)
  then have "\<not> 0 < amt \<or> open_session_query db tn sid (us_id u) \<noteq> None"
    using a ok by (auto simp: cash_session_body_def open_cash_session_def ensure_positive_amount_def
        ensure_not_closed_def open_allowed_def require_def Let_def split: if_splits)
  then show ?thesis
    using Inl a by (cases "open_session_query db tn sid (us_id u)") (auto simp: drawer_simulated_def drawer_of_def)
next
  case (Inr r)
  then obtain db' s where r: "cash_session_body env p tn (sid, u) db = Inr (db', s)" by (cases r) auto
  then have run: "open_cash_session env p tn sid u amt d tz db = Inr (db', s)"
    using a by (simp add: cash_session_body_def)
  then have s: "0 < amt" "open_session_query db tn sid (us_id u) = None" "cs_status s = OPEN"
    "owner s = (tn, sid, us_id u)" "cs_expected_cash s = amt" "c_sessions db' = c_sessions db @ [s]"
    by (auto simp: open_cash_session_def bindr_Inr_iff require_Inr_iff cash_checks Let_def)
  have inv': "cash_invariant db'"
    using ledger_step_keeps [OF open_cash_session_simulates [OF inv fresh run] inv] .
  note d = drawer_after_open [OF inv inv' s(3,4,6)]
  show ?thesis using r a s d by (auto simp: drawer_simulated_def drawer_of_def)
qed

lemma drawer_simulates_change:
  assumes inv: "cash_invariant db" and fresh: "fresh_rows env db"
    and a: "\<not> (\<exists>amt d tz. sq_action p = Open_session amt d tz)"
  shows "drawer_simulated db tn sid (us_id u) (sq_action p) (cash_session_body env p tn (sid, u) db)"
proof (cases "open_session_query db tn sid (us_id u)")
  case None
  have "drawer_spec (sq_action p) None = None" using a by (cases "sq_action p") auto
  then show ?thesis using None cash_session_body_change [OF a] by (simp add: drawer_simulated_def drawer_of_def)
next
  case (Some s)
  note row = open_session_query_Some [OF Some]
  have open_day: "ensure_not_closed db tn sid (cs_business_date s) = Inr ()"
    using open_not_closed_day [OF inv row(1,2)] row(3,4) by (simp add: cash_checks)
  note spec = session_change_spec [OF a row(2), of "rq_now env"]
  show ?thesis
  proof (cases "session_change (rq_now env) (sq_action p) s")
    case (Inl e)
    then show ?thesis
      using Some row open_day spec cash_session_body_change [OF a]
      by (simp add: drawer_simulated_def drawer_of_def)
  next
    case (Inr c)
    obtain s' action amt after where c: "c = (s', action, amt, after)" by (cases c) auto
    let ?m = "session_movement (rq_fresh env 0) tn sid s (Some (us_id u)) None action amt
        (cs_expected_cash s) after (sq_transaction_id p) (sq_reason p) (rc_trace_id (rq_context env)) (rq_now env)"
    let ?db = "add_movement ?m (set_session s' db)"
    have run: "cash_session_body env p tn (sid, u) db = Inr (?db, s')"
      using Some row open_day cash_session_body_change [OF a] Inr c by simp
    have inv': "cash_invariant ?db"
      using ledger_step_keeps [OF cash_session_body_simulates [OF inv fresh run] inv] .
    have ok: "status_ok s" "0 \<le> cs_expected_cash s"
      using inv row(1) by (auto simp: status_ok_in cash_invariant_def balances_ok_def)
    have same: "same_session s s'" using session_change_Inr(1) [OF _ ok(1) row(2) ok(2)] Inr c by blast
    have rows: "set (c_sessions ?db) = insert s' (set (c_sessions db) - {s})"
      using set_session_rows [of db s s'] inv row(1) same
      by (simp add: cash_invariant_def sessions_ok_def same_session_def)
    note d = drawer_after_change [OF inv inv' Some rows same]
    show ?thesis using run Some spec Inr c d by (auto simp: drawer_simulated_def drawer_of_def)
  qed
qed

section \<open>A day's totals are its sessions' totals\<close>

lemma sum_movement_sessions:
  assumes "distinct (map cs_id ss)"
    and "if cm_cash_session_id m = None then signed_amount m = 0 else \<exists>s \<in> set ss. belongs_to s m"
  shows "sum_list (map (\<lambda>s. if cm_cash_session_id m = Some (cs_id s) then signed_amount m else 0)
      (filter (\<lambda>s. day_key s = k) ss))
    = (if (cm_tenant_id m, cm_store_id m, cm_business_date m) = k then signed_amount m else 0)"
proof (cases "cm_cash_session_id m")
  case None
  then show ?thesis using assms(2) by simp
next
  case (Some i)
  then obtain s where s: "s \<in> set ss" "belongs_to s m" using assms(2) by auto
  let ?f = "\<lambda>x. if cm_cash_session_id m = Some (cs_id x) then signed_amount m else 0"
  have uniq: "x = s" if "x \<in> set ss" "cm_cash_session_id m = Some (cs_id x)" for x
    using key_unique [OF assms(1) that(1) s(1)] that(2) s(2) by (simp add: belongs_to_def)
  have id: "cm_cash_session_id m = Some (cs_id s)" using s(2) by (simp add: belongs_to_def)
  have dist: "distinct (filter (\<lambda>s. day_key s = k) ss)" using assms(1) by (simp add: distinct_map)
  have eq: "?f x = (if s = x then signed_amount m else 0)" if "x \<in> set ss" for x
    using uniq [OF that] id by auto
  have "sum_list (map ?f (filter (\<lambda>s. day_key s = k) ss)) =
      sum ?f (set (filter (\<lambda>s. day_key s = k) ss))"
    by (rule sum_list_distinct_conv_sum_set [OF dist])
  also have "\<dots> = sum (\<lambda>x. if s = x then signed_amount m else 0) (set (filter (\<lambda>s. day_key s = k) ss))"
    using eq by (intro sum.cong) auto
  also have "\<dots> = (if day_key s = k then signed_amount m else 0)" using s(1) by simp
  also have "day_key s = (cm_tenant_id m, cm_store_id m, cm_business_date m)"
    using s(2) by (simp add: belongs_to_def)
  finally show ?thesis .
qed

lemma day_balance_sessions:
  assumes "distinct (map cs_id ss)"
    and "\<forall>m \<in> set ms. if cm_cash_session_id m = None then signed_amount m = 0 else \<exists>s \<in> set ss. belongs_to s m"
  shows "sum_list (map (\<lambda>s. sum_list (map signed_amount
        (filter (\<lambda>m. cm_cash_session_id m = Some (cs_id s)) ms))) (filter (\<lambda>s. day_key s = k) ss))
    = sum_list (map signed_amount
        (filter (\<lambda>m. (cm_tenant_id m, cm_store_id m, cm_business_date m) = k) ms))"
  using assms(2)
proof (induction ms)
  case Nil
  then show ?case by simp
next
  case (Cons m ms)
  have split: "sum_list (map signed_amount (filter (\<lambda>m. cm_cash_session_id m = Some (cs_id s)) (m # ms)))
      = (if cm_cash_session_id m = Some (cs_id s) then signed_amount m else 0)
        + sum_list (map signed_amount (filter (\<lambda>m. cm_cash_session_id m = Some (cs_id s)) ms))" for s
    by simp
  have "if cm_cash_session_id m = None then signed_amount m = 0 else \<exists>s \<in> set ss. belongs_to s m"
    using Cons.prems by simp
  note head = sum_movement_sessions [OF assms(1) this, of k]
  show ?case unfolding split sum_list_addf head using Cons.IH Cons.prems by simp
qed

lemma day_total_sessions:
  assumes inv: "cash_invariant db"
  shows "day_balance db k =
    sum_list (map cs_expected_cash (filter (\<lambda>s. day_key s = k) (c_sessions db)))"
proof -
  have eq: "map cs_expected_cash (filter (\<lambda>s. day_key s = k) (c_sessions db)) =
      map (\<lambda>s. session_balance db (cs_id s)) (filter (\<lambda>s. day_key s = k) (c_sessions db))"
    using inv by (auto simp: cash_invariant_def balances_ok_def)
  have "distinct (map cs_id (c_sessions db))" "\<forall>m \<in> set (c_movements db).
      if cm_cash_session_id m = None then signed_amount m = 0 else \<exists>s \<in> set (c_sessions db). belongs_to s m"
    using inv unfolding cash_invariant_def sessions_ok_def movements_ok_def by blast+
  from day_balance_sessions [OF this, of k] show ?thesis
    unfolding eq session_balance_def day_balance_def by (rule sym)
qed

section \<open>A cut and its session\<close>

lemma session_movements_of:
  assumes inv: "cash_invariant db" and s: "s \<in> set (c_sessions db)"
  shows "session_movements db (cs_tenant_id s) (cs_store_id s) (cs_id s) =
      filter (\<lambda>m. cm_cash_session_id m = Some (cs_id s)) (c_movements db)"
    and "m \<in> set (c_movements db) \<Longrightarrow> cm_cash_session_id m = Some (cs_id s) \<Longrightarrow> belongs_to s m"
proof -
  have mv: "belongs_to s m" if m: "m \<in> set (c_movements db)" "cm_cash_session_id m = Some (cs_id s)" for m
  proof -
    obtain x where x: "x \<in> set (c_sessions db)" "belongs_to x m"
      using inv m unfolding cash_invariant_def movements_ok_def by (metis option.distinct(1))
    have dist: "distinct (map cs_id (c_sessions db))" using inv by (simp add: cash_invariant_def sessions_ok_def)
    have "cs_id x = cs_id s" using x(2) m(2) by (simp add: belongs_to_def)
    then show ?thesis using key_unique [OF dist x(1) s] x(2) by simp
  qed
  show "belongs_to s m" if "m \<in> set (c_movements db)" "cm_cash_session_id m = Some (cs_id s)"
    using mv that .
  show "session_movements db (cs_tenant_id s) (cs_store_id s) (cs_id s) =
      filter (\<lambda>m. cm_cash_session_id m = Some (cs_id s)) (c_movements db)"
    unfolding session_movements_def using mv by (intro filter_cong) (auto simp: belongs_to_def)
qed

text \<open>The total of the movements of an action that satisfy a condition.\<close>

definition action_total :: "string \<Rightarrow> cash_movement list \<Rightarrow> money" where
  "action_total a ms = sum_list (map cm_amount (filter (\<lambda>m. cm_action m = a) ms))"

lemma action_total_simps [simp]:
  "action_total a [] = 0"
  "action_total a (m # ms) = (if cm_action m = a then cm_amount m else 0) + action_total a ms"
  by (simp_all add: action_total_def)

lemma action_total_split:
  "action_total a (filter (\<lambda>m. P m) ms) + action_total a (filter (\<lambda>m. \<not> P m) ms) = action_total a ms"
  by (induction ms) auto

lemma action_total_empty: "(\<And>m. m \<in> set ms \<Longrightarrow> cm_action m \<noteq> a) \<Longrightarrow> action_total a ms = 0"
  by (induction ms) auto

lemma signed_action_total:
  assumes "\<forall>m \<in> set ms. cm_action m \<in> set SESSION_ACTIONS"
  shows "sum_list (map signed_amount ms) = action_total ''OPEN'' ms + action_total ''CASH_IN'' ms
    - action_total ''CASH_OUT'' ms + action_total ''SALE'' ms - action_total ''CASH_OUT_REFUND'' ms"
  using assms
proof (induction ms)
  case (Cons m ms)
  have "signed_amount m = (if cm_action m = ''OPEN'' then cm_amount m else 0)
      + (if cm_action m = ''CASH_IN'' then cm_amount m else 0)
      - (if cm_action m = ''CASH_OUT'' then cm_amount m else 0)
      + (if cm_action m = ''SALE'' then cm_amount m else 0)
      - (if cm_action m = ''CASH_OUT_REFUND'' then cm_amount m else 0)"
    using Cons.prems by (auto simp: SESSION_ACTIONS_def signed_amount_def normalize_movement_type_def
        MOVEMENT_TYPE_MAP_def dict_get_def)
  then show ?case using Cons by simp
qed simp

lemma totals_filter:
  assumes "a \<in> A"
  shows "dict_get (totals_by_action (filter (\<lambda>m. P m \<and> Q m \<and> cm_action m \<in> A) ms)) a 0
    = action_total a (filter (\<lambda>m. P m \<and> Q m) ms)"
proof -
  have "filter (\<lambda>m. cm_action m = a) (filter (\<lambda>m. P m \<and> Q m \<and> cm_action m \<in> A) ms)
      = filter (\<lambda>m. cm_action m = a) (filter (\<lambda>m. P m \<and> Q m) ms)"
    unfolding filter_filter using assms by (intro filter_cong) auto
  then show ?thesis by (simp only: totals_by_action_get action_total_def)
qed

lemma calculate_cut_quote_Inr:
  assumes "calculate_cut_quote db now tn sid s ty f t tz counted deposit notes = Inr q"
  defines "before \<equiv> filter (\<lambda>m. cs_opened_at s \<le> cm_occurred_at m \<and> cm_occurred_at m < f) (session_movements db tn sid (cs_id s))"
    and "during \<equiv> filter (\<lambda>m. f \<le> cm_occurred_at m \<and> cm_occurred_at m \<le> t) (session_movements db tn sid (cs_id s))"
  shows "f < t" "cc_opening_amount_snapshot q = cs_opening_amount s + action_total ''CASH_IN'' before
      - action_total ''CASH_OUT'' before + action_total ''SALE'' before - action_total ''CASH_OUT_REFUND'' before"
    "cc_cash_in_total q = action_total ''CASH_IN'' during" "cc_cash_out_total q = action_total ''CASH_OUT'' during"
    "cc_cash_refunds_total q = action_total ''CASH_OUT_REFUND'' during"
    "cc_expected_cash q = cc_opening_amount_snapshot q + cc_cash_sales_total q + cc_cash_in_total q
      - cc_cash_out_total q - cc_cash_refunds_total q"
    "cc_difference q = map_option (\<lambda>c. c - cc_expected_cash q) counted" "cc_cut_number q = next_cut_number db s"
proof -
  let ?A = "{''CASH_IN'', ''CASH_OUT'', ''SALE'', ''CASH_OUT_REFUND''}"
  let ?B = "{''CASH_IN'', ''CASH_OUT'', ''CASH_OUT_REFUND''}"
  have A: "''CASH_IN'' \<in> ?A" "''CASH_OUT'' \<in> ?A" "''SALE'' \<in> ?A" "''CASH_OUT_REFUND'' \<in> ?A" by simp_all
  have B: "''CASH_IN'' \<in> ?B" "''CASH_OUT'' \<in> ?B" "''CASH_OUT_REFUND'' \<in> ?B" by simp_all
  have before: "opening_snapshot db tn sid s f = cs_opening_amount s + action_total ''CASH_IN'' before
      - action_total ''CASH_OUT'' before + action_total ''SALE'' before - action_total ''CASH_OUT_REFUND'' before"
    unfolding opening_snapshot_def Let_def before_def totals_filter [OF A(1)] totals_filter [OF A(2)]
      totals_filter [OF A(3)] totals_filter [OF A(4)] ..
  have q: "q = q\<lparr>cc_opening_amount_snapshot := opening_snapshot db tn sid s f,
      cc_cash_in_total := action_total ''CASH_IN'' during, cc_cash_out_total := action_total ''CASH_OUT'' during,
      cc_cash_refunds_total := action_total ''CASH_OUT_REFUND'' during\<rparr>"
    using assms(1) unfolding calculate_cut_quote_def bindr_Inr_iff Let_def during_def
      totals_filter [OF B(1)] totals_filter [OF B(2)] totals_filter [OF B(3)] by auto
  show "f < t" using assms(1) by (auto simp: calculate_cut_quote_def bindr_Inr_iff require_Inr_iff)
  show "cc_opening_amount_snapshot q = cs_opening_amount s + action_total ''CASH_IN'' before
      - action_total ''CASH_OUT'' before + action_total ''SALE'' before - action_total ''CASH_OUT_REFUND'' before"
    "cc_cash_in_total q = action_total ''CASH_IN'' during" "cc_cash_out_total q = action_total ''CASH_OUT'' during"
    "cc_cash_refunds_total q = action_total ''CASH_OUT_REFUND'' during"
    unfolding before [symmetric] by (subst q, simp)+
  show "cc_expected_cash q = cc_opening_amount_snapshot q + cc_cash_sales_total q + cc_cash_in_total q
      - cc_cash_out_total q - cc_cash_refunds_total q"
    "cc_difference q = map_option (\<lambda>c. c - cc_expected_cash q) counted" "cc_cut_number q = next_cut_number db s"
    using assms(1) by (auto simp: calculate_cut_quote_def bindr_Inr_iff Let_def)
qed

lemma cut_quote_session:
  assumes inv: "cash_invariant db" and s: "s \<in> set (c_sessions db)"
    and q: "calculate_cut_quote db now (cs_tenant_id s) (cs_store_id s) s ty f t tz counted deposit notes = Inr q"
    and times: "\<forall>m \<in> set (c_movements db). cm_cash_session_id m = Some (cs_id s) \<longrightarrow>
      cs_opened_at s \<le> cm_occurred_at m \<and> cm_occurred_at m \<le> t"
  shows "cc_expected_cash q - cs_expected_cash s = cc_cash_sales_total q
    - action_total ''SALE'' (filter (\<lambda>m. cm_cash_session_id m = Some (cs_id s) \<and> f \<le> cm_occurred_at m) (c_movements db))"
proof -
  let ?ms = "session_movements db (cs_tenant_id s) (cs_store_id s) (cs_id s)"
  let ?b = "filter (\<lambda>m. cm_occurred_at m < f) ?ms" and ?d = "filter (\<lambda>m. \<not> cm_occurred_at m < f) ?ms"
  have ms: "?ms = filter (\<lambda>m. cm_cash_session_id m = Some (cs_id s)) (c_movements db)"
    by (rule session_movements_of(1) [OF inv s])
  have b: "filter (\<lambda>m. cs_opened_at s \<le> cm_occurred_at m \<and> cm_occurred_at m < f) ?ms = ?b"
    using times unfolding ms by (intro filter_cong) auto
  have d: "filter (\<lambda>m. f \<le> cm_occurred_at m \<and> cm_occurred_at m \<le> t) ?ms = ?d"
    using times unfolding ms by (intro filter_cong) auto
  have sale: "filter (\<lambda>m. cm_cash_session_id m = Some (cs_id s) \<and> f \<le> cm_occurred_at m) (c_movements db) = ?d"
    unfolding ms by (auto simp: not_less conj_commute intro!: filter_cong)
  have total: "action_total a ?b + action_total a ?d = action_total a ?ms" for a
    by (rule action_total_split)
  have "\<forall>m \<in> set ?ms. cm_action m \<in> set SESSION_ACTIONS"
    using session_movements_of [OF inv s] by (auto simp: belongs_to_def)
  from signed_action_total [OF this]
  have "session_balance db (cs_id s) = opening_balance db (cs_id s) + action_total ''CASH_IN'' ?ms
      - action_total ''CASH_OUT'' ?ms + action_total ''SALE'' ?ms - action_total ''CASH_OUT_REFUND'' ?ms"
    unfolding ms by (simp add: session_balance_def opening_balance_def action_total_def conj_commute)
  moreover have "cs_expected_cash s = session_balance db (cs_id s)"
    "cs_opening_amount s = opening_balance db (cs_id s)"
    using inv s by (auto simp: cash_invariant_def balances_ok_def)
  ultimately show ?thesis
    using calculate_cut_quote_Inr(2-6) [OF q, unfolded b d] total [of "''CASH_IN''"]
      total [of "''CASH_OUT''"] total [of "''SALE''"] total [of "''CASH_OUT_REFUND''"]
    unfolding sale by linarith
qed

section \<open>Rows of other tenants\<close>

definition other_rows ::
    "uuid \<Rightarrow> cash_db \<Rightarrow> cash_session list \<times> cash_movement list \<times> day_close list \<times> cash_cut list" where
  "other_rows tn db = (filter (\<lambda>s. cs_tenant_id s \<noteq> tn) (c_sessions db),
     filter (\<lambda>m. cm_tenant_id m \<noteq> tn) (c_movements db), filter (\<lambda>c. dc_tenant_id c \<noteq> tn) (c_closes db),
     filter (\<lambda>c. cc_tenant_id c \<noteq> tn) (c_cuts db))"

lemma filter_map_same:
  "(\<And>x. x \<in> set xs \<Longrightarrow> P (f x) = P x \<and> (P x \<longrightarrow> f x = x)) \<Longrightarrow> filter P (map f xs) = filter P xs"
proof (induction xs)
  case (Cons x xs)
  have "filter P (map f xs) = filter P xs" using Cons by simp
  then show ?case using Cons.prems [of x] by simp
qed simp

lemma filter_update_other:
  assumes "distinct (map key xs)" and "r \<in> set xs" and "key r' = key r" and "\<not> P r" and "\<not> P r'"
  shows "filter P (map (\<lambda>x. if key x = key r' then r' else x) xs) = filter P xs"
  using key_unique [OF assms(1) _ assms(2)] assms(3-5) by (intro filter_map_same) auto

lemma other_rows_movement [simp]: "cm_tenant_id m = tn \<Longrightarrow> other_rows tn (add_movement m db) = other_rows tn db"
  by (simp add: other_rows_def)

lemma other_rows_session:
  assumes "distinct (map cs_id (c_sessions db))" and "s \<in> set (c_sessions db)" and "cs_id s' = cs_id s"
    and "cs_tenant_id s = tn" and "cs_tenant_id s' = tn"
  shows "other_rows tn (set_session s' db) = other_rows tn db"
  using filter_update_other [of cs_id "c_sessions db" s s' "\<lambda>s. cs_tenant_id s \<noteq> tn"] assms
  by (simp add: other_rows_def set_session_def)

lemma other_rows_close_sessions:
  assumes "distinct (map cs_id (c_sessions db))" and "set ss \<subseteq> set (c_sessions db)" and "distinct ss"
    and "\<forall>s \<in> set ss. cs_tenant_id s = tn"
  shows "other_rows tn (close_sessions now ss db) = other_rows tn db"
  using assms
proof (induction ss arbitrary: db)
  case Nil
  then show ?case by (simp add: close_sessions_def)
next
  case (Cons s ss)
  let ?db = "set_session (closed_session now s) db"
  have rows: "set (c_sessions ?db) = insert (closed_session now s) (set (c_sessions db) - {s})"
    using Cons.prems by (intro set_session_rows) auto
  have "other_rows tn (close_sessions now ss ?db) = other_rows tn ?db"
    using Cons.prems rows by (intro Cons.IH) auto
  also have "\<dots> = other_rows tn db" using Cons.prems by (intro other_rows_session) auto
  also have "close_sessions now ss ?db = close_sessions now (s # ss) db"
    by (simp add: close_sessions_def closed_session_def)
  finally show ?case .
qed

lemma ids_distinct: "cash_invariant db \<Longrightarrow> distinct (map cs_id (c_sessions db))"
  by (simp add: cash_invariant_def sessions_ok_def)

lemma other_rows_cut [simp]:
  "cc_tenant_id c = tn \<Longrightarrow> other_rows tn (db\<lparr>c_cuts := c_cuts db @ [c]\<rparr>) = other_rows tn db"
  by (simp add: other_rows_def)

lemma session_movement_tenant [simp]:
  "cm_tenant_id (session_movement i tn sid s ac sale a amt before after tx r tr now) = tn"
  by (simp add: session_movement_def)

lemma cash_session_body_other_rows:
  assumes inv: "cash_invariant db" and run: "cash_session_body env p tn (sid, u) db = Inr (db', s')"
  shows "other_rows tn db' = other_rows tn db"
proof (cases "\<exists>amt d tz. sq_action p = Open_session amt d tz")
  case True
  then obtain amt d tz where "open_cash_session env p tn sid u amt d tz db = Inr (db', s')"
    using run by (auto simp: cash_session_body_def)
  then show ?thesis
    by (auto simp: open_cash_session_def bindr_Inr_iff Let_def other_rows_def add_movement_def session_movement_def)
next
  case False
  note run = run [unfolded cash_session_body_change [OF False]]
  then obtain s where s: "open_session_query db tn sid (us_id u) = Some s" by (auto split: option.splits)
  obtain action amt after where ch: "session_change (rq_now env) (sq_action p) s = Inr (s', action, amt, after)"
    and db': "db' = add_movement (session_movement (rq_fresh env 0) tn sid s (Some (us_id u)) None
        action amt (cs_expected_cash s) after (sq_transaction_id p) (sq_reason p)
        (rc_trace_id (rq_context env)) (rq_now env)) (set_session s' db)"
    using run s by (auto simp: bindr_Inr_iff)
  note row = open_session_query_Some [OF s]
  have ok: "status_ok s" "0 \<le> cs_expected_cash s"
    using inv row(1) by (auto simp: status_ok_in cash_invariant_def balances_ok_def)
  have "same_session s s'" by (rule session_change_Inr(1) [OF ch ok(1) row(2) ok(2)])
  then show ?thesis
    using other_rows_session [OF ids_distinct [OF inv] row(1), of s' tn] row(3) db'
    by (simp add: same_session_def)
qed

lemma close_day_body_other_rows:
  assumes inv: "cash_invariant db" and run: "close_day_body env p tn (sid, u) db = Inr (db', c)"
  shows "other_rows tn db' = other_rows tn db"
proof -
  let ?os = "open_sessions_of db tn sid (dq_business_date p)"
  let ?db = "close_sessions (rq_now env) ?os db"
  have c: "dc_tenant_id c = tn" and db': "db' = add_movement (day_close_movement env p tn sid u)
      (?db\<lparr>c_closes := c_closes ?db @ [c]\<rparr>)"
    using run by (auto simp: close_day_body_def commit_day_close_def bindr_Inr_iff day_close_row_def Let_def)
  have "other_rows tn ?db = other_rows tn db"
    using ids_distinct [OF inv]
    by (intro other_rows_close_sessions) (auto simp: open_sessions_of_def distinct_map)
  then show ?thesis using c db' by (simp add: other_rows_def day_close_movement_def)
qed

lemma cut_cash_out_other_rows:
  assumes inv: "cash_invariant db" and s: "s \<in> set (c_sessions db)" "cs_tenant_id s = tn"
    and run: "cut_cash_out i tn sid s u amt tx r tr now db = Inr db1"
  shows "other_rows tn db1 = other_rows tn db"
  unfolding cut_cash_out_Inr(2) [OF run]
  using other_rows_session [OF ids_distinct [OF inv] s(1), of "s\<lparr>cs_expected_cash := cs_expected_cash s - amt\<rparr>" tn] s(2)
  by simp

lemma create_cut_body_other_rows:
  assumes inv: "cash_invariant db" and run: "create_cut_body env p tn sid u db = Inr (db', c)"
  shows "other_rows tn db' = other_rows tn db"
proof -
  obtain s f t tz q where cs: "cut_session env p tn sid u db = Inr (s, f, t, tz)"
    and q: "calculate_cut_quote db (rq_now env) tn sid s (qq_cut_type p) f t tz (qq_counted_cash p)
      (qq_deposit_removed_amount p) (qq_notes p) = Inr q" and c: "cut_ref c = cut_ref q"
    and db': "db' = db\<lparr>c_cuts := c_cuts db @ [c]\<rparr> \<or> (\<exists>i amt tx r tr now db1.
      db' = db1\<lparr>c_cuts := c_cuts db1 @ [c]\<rparr> \<and> cut_cash_out i tn sid s u amt tx r tr now db = Inr db1)"
    using run by (rule create_cut_body_cases) (rule that)
  note s = cut_session_Inr [OF cs]
  have tn: "cc_tenant_id c = tn" using c calculate_cut_quote_ref [OF q] by simp
  from db' show ?thesis
    using cut_cash_out_other_rows [OF inv s(1,3)] tn by (elim disjE exE conjE) simp_all
qed

text \<open>Cut identifiers are primary keys.\<close>

lemma other_rows_set_cut:
  assumes "distinct (map cc_id (c_cuts db))" and "c \<in> set (c_cuts db)" and "cc_id c' = cc_id c"
    and "cc_tenant_id c = tn" and "cc_tenant_id c' = tn"
  shows "other_rows tn (set_cut c' db) = other_rows tn db"
  using filter_update_other [of cc_id "c_cuts db" c c' "\<lambda>c. cc_tenant_id c \<noteq> tn"] assms
  by (simp add: other_rows_def set_cut_def)

section \<open>The endpoints' scope\<close>

lemma pos_resolve_tenant_id_own:
  "pos_resolve_tenant_id td t = Inr tn \<Longrightarrow> \<not> is_superadmin (Some (td_role td)) \<Longrightarrow> td_tenant_id td = Some tn"
  by (auto simp: pos_resolve_tenant_id_def split: if_splits elim: not_falsyE)

lemma cash_session_before_Inr:
  "cash_session_before env p db = Inr (tn, sid, u) \<Longrightarrow> \<not> is_superadmin (Some (td_role (rq_token env))) \<Longrightarrow>
    td_tenant_id (rq_token env) = Some tn"
  by (auto simp: cash_session_before_def cash_scope_def bindr_Inr_iff dest: pos_resolve_tenant_id_own)

lemma close_day_before_Inr:
  "close_day_before env p db = Inr (tn, sid, u) \<Longrightarrow> \<not> is_superadmin (Some (td_role (rq_token env))) \<Longrightarrow>
    td_tenant_id (rq_token env) = Some tn"
  by (auto simp: close_day_before_def cash_scope_def bindr_Inr_iff dest: pos_resolve_tenant_id_own)

lemma replying_Inr: "replying st dump x = Inr (db, rep) \<Longrightarrow> \<exists>a. x = Inr (db, a)"
  by (auto simp: replying_def bindr_Inr_iff)

lemma cash_session_endpoint_other_rows:
  assumes inv: "cash_invariant db" and own: "\<not> is_superadmin (Some (td_role (rq_token env)))"
    and run: "cash_session_endpoint dump_err dump env p (it, db) = (rep, it', db')"
    and tn: "td_tenant_id (rq_token env) = Some tn"
  shows "other_rows tn db' = other_rows tn db"
proof -
  from guarded_endpoint_rows [OF run [unfolded cash_session_endpoint_def]]
  consider "db' = db" | tn' sid u rep' where "cash_session_before env p db = Inr (tn', sid, u)"
    "replying 200 dump (cash_session_body env p tn' (sid, u) db) = Inr (db', rep')"
    by fastforce
  then show ?thesis
  proof cases
    case 2
    then have "tn' = tn" using cash_session_before_Inr [OF 2(1) own] tn by simp
    then show ?thesis using replying_Inr [OF 2(2)] cash_session_body_other_rows [OF inv] by blast
  qed simp
qed

lemma close_day_endpoint_other_rows:
  assumes inv: "cash_invariant db" and own: "\<not> is_superadmin (Some (td_role (rq_token env)))"
    and run: "close_day_endpoint dump_err dump env p (it, db) = (rep, it', db')"
    and tn: "td_tenant_id (rq_token env) = Some tn"
  shows "other_rows tn db' = other_rows tn db"
proof -
  from guarded_endpoint_rows [OF run [unfolded close_day_endpoint_def]]
  consider "db' = db" | tn' sid u rep' where "close_day_before env p db = Inr (tn', sid, u)"
    "replying 200 dump (close_day_body env p tn' (sid, u) db) = Inr (db', rep')"
    by fastforce
  then show ?thesis
  proof cases
    case 2
    then have "tn' = tn" using close_day_before_Inr [OF 2(1) own] tn by simp
    then show ?thesis using replying_Inr [OF 2(2)] close_day_body_other_rows [OF inv] by blast
  qed simp
qed

lemma create_cash_cut_other_rows:
  assumes inv: "cash_invariant db" and own: "\<not> is_superadmin (Some (td_role (rq_token env)))"
    and run: "create_cash_cut env p db = Inr (db', c)" and tn: "td_tenant_id (rq_token env) = Some tn"
  shows "other_rows tn db' = other_rows tn db"
proof -
  obtain tn' sid u where "cash_scope env (qq_tenant_id p) (qq_store_id p) db = Inr (tn', sid)"
    "create_cut_body env p tn' sid u db = Inr (db', c)"
    using run by (auto simp: create_cash_cut_def bindr_Inr_iff)
  moreover from this(1) have "tn' = tn"
    using own tn by (auto simp: cash_scope_def bindr_Inr_iff dest: pos_resolve_tenant_id_own)
  ultimately show ?thesis using create_cut_body_other_rows [OF inv] by blast
qed

end
