(* ===== verification/Cash_Demo.thy ===== *)
theory Cash_Demo
  imports Cash_Properties
begin

text \<open>
  Cash, a concrete run and the properties of the component: a cashier opens a session with 100,
  adds 50, sells for 80 in cash (100 tendered, 20 of change), withdraws 30, closes, and the day
  is closed. The witnesses of the properties are taken on it.
\<close>

section \<open>The run\<close>

definition cash_ac :: ac_db where
  "cash_ac = \<lparr>catalog = [\<lparr>pc_id = ''p3'', pc_code = ''POS_CASH_MANAGE''\<rparr>,
       \<lparr>pc_id = ''p4'', pc_code = ''POS_CASH_DAY_CLOSE''\<rparr>],
     role_templates = [\<lparr>rt_id = ''r1'', rt_tenant_id = None, rt_name = ''ADMIN''\<rparr>],
     role_template_permissions = [\<lparr>rtp_role_template_id = ''r1'', rtp_permission_id = ''p3''\<rparr>,
       \<lparr>rtp_role_template_id = ''r1'', rtp_permission_id = ''p4''\<rparr>],
     tenant_role_policies = [], store_role_policies = [], user_overrides = []\<rparr>"

definition cashier_token :: token_data where
  "cashier_token = \<lparr>td_sub = ''u1'', td_tenant_id = Some ''t1'', td_store_id = Some ''s1'',
     td_role = ''ADMIN'', td_status = ''active'', td_is_active = True,
     td_must_change_password = False, td_email = ''e'', td_username = ''n''\<rparr>"

definition cashier :: user where
  "cashier = \<lparr>us_id = ''u1'', us_tenant_id = ''t1'', us_store_id = Some ''s1'', us_username = ''n'',
     us_email = ''e'', us_role = ''ADMIN'', us_status = ''active'', us_must_change_password = False,
     us_is_active = True\<rparr>"

definition cash_env :: "char \<Rightarrow> time \<Rightarrow> request_env" where
  "cash_env c t = \<lparr>rq_token = cashier_token,
     rq_context = require_request_context cashier_token ''trace'',
     rq_directory = \<lparr>tenants = [\<lparr>tn_id = ''t1'', tn_name = ''T'', tn_status = ''active''\<rparr>], stores = [],
       users = [cashier]\<rparr>,
     rq_ac = cash_ac, rq_cache = [], rq_path = ''p'', rq_method = ''POST'', rq_key = Some [c],
     rq_legacy_key = None, rq_hash = ''h'', rq_now = t, rq_fresh = (\<lambda>i. replicate (Suc i) c)\<rparr>"

definition cash_world :: cash_db where
  "cash_world = \<lparr>c_stores = [\<lparr>st_id = ''s1'', st_tenant_id = ''t1'', st_name = ''A''\<rparr>], c_sessions = [],
     c_movements = [], c_closes = [], c_cuts = [], c_sales = []\<rparr>"

definition session_req :: "session_action \<Rightarrow> session_request" where
  "session_req a = \<lparr>sq_transaction_id = Some ''tx'', sq_tenant_id = None, sq_store_id = None,
     sq_action = a, sq_reason = None\<rparr>"

definition cash_run :: "char \<Rightarrow> time \<Rightarrow> session_action \<Rightarrow> cash_db \<Rightarrow> cash_db" where
  "cash_run c t a db = (case cash_session_body (cash_env c t) (session_req a) ''t1'' (''s1'', cashier) db of
     Inl e \<Rightarrow> db | Inr (db', _) \<Rightarrow> db')"

definition opened :: cash_db where
  "opened = cash_run CHR ''a'' 10 (Open_session 100 20 ''UTC'') cash_world"

definition filled :: cash_db where "filled = cash_run CHR ''b'' 20 (Cash_in 50) opened"

definition posted :: cash_db where
  "posted = (case record_cash_movement ''cc'' (hd (c_sessions filled)) ''t1'' ''s1'' (Some ''sale'') ''SALE'' 80
      (Some ''tx'') (Some ''u1'') ''trace'' 30 filled of Inl _ \<Rightarrow> filled | Inr db \<Rightarrow> db)"

definition sold :: cash_db where
  "sold = posted\<lparr>c_sales := [\<lparr>sp_sale_id = ''sale'', sp_tenant_id = ''t1'', sp_store_id = ''s1'',
     sp_status = ''PAID'', sp_checked_out_at = Some 30, sp_payments = [(CASH, 100)]\<rparr>]\<rparr>"

definition drawn :: cash_db where "drawn = cash_run CHR ''d'' 40 (Cash_out 30) sold"

definition day_req :: day_close_request where
  "day_req = \<lparr>dq_transaction_id = Some ''tx'', dq_tenant_id = None, dq_store_id = Some ''s1'',
     dq_business_date = 20, dq_timezone = ''UTC'', dq_force_if_open_sessions = Some True,
     dq_reason = Some ''end'', dq_counted_cash = Some 190\<rparr>"

definition day_closed :: cash_db where
  "day_closed = (case close_day_body (cash_env CHR ''e'' 50) day_req ''t1'' (''s1'', cashier) drawn of
     Inl e \<Rightarrow> drawn | Inr (db', _) \<Rightarrow> db')"

lemma cash_run_results:
  "map cs_expected_cash (c_sessions drawn) = [200]"
  "map cm_action (c_movements day_closed) = [''OPEN'', ''CASH_IN'', ''SALE'', ''CASH_OUT'', ''DAY_CLOSE'']"
  "map (\<lambda>c. (dc_expected_cash c, dc_difference_amount c)) (c_closes day_closed) = [(200, Some (- 10))]"
  by code_simp+

section \<open>The run is reachable\<close>

lemma cash_run_step:
  assumes "\<not> isl (cash_session_body (cash_env c t) (session_req a) ''t1'' (''s1'', cashier) db)"
    and "list_all (\<lambda>i. i \<noteq> [c]) (map cs_id (c_sessions db))"
  shows "cash_step db (cash_run c t a db)"
proof -
  obtain db' s where r: "cash_session_body (cash_env c t) (session_req a) ''t1'' (''s1'', cashier) db = Inr (db', s)"
    using assms(1) by (cases "cash_session_body (cash_env c t) (session_req a) ''t1'' (''s1'', cashier) db") auto
  have "fresh_rows (cash_env c t) db"
    using assms(2) by (auto simp: fresh_rows_def cash_env_def list_all_iff)
  from cash_step.Session [OF this r] show ?thesis using r by (simp add: cash_run_def)
qed

lemma opened_step: "cash_step cash_world opened"
  unfolding opened_def by (rule cash_run_step) code_simp+

lemma filled_step: "cash_step opened filled"
  unfolding filled_def by (rule cash_run_step) code_simp+

lemma drawn_step: "cash_step sold drawn"
  unfolding drawn_def by (rule cash_run_step) code_simp+

lemma posted_step: "cash_step filled posted"
proof -
  let ?s = "hd (c_sessions filled)"
  let ?r = "record_cash_movement ''cc'' ?s ''t1'' ''s1'' (Some ''sale'') ''SALE'' 80 (Some ''tx'')
    (Some ''u1'') ''trace'' 30 filled"
  have "\<not> isl ?r" by code_simp
  then obtain db where r: "?r = Inr db" by (cases ?r) auto
  have ne: "c_sessions filled \<noteq> []" and s: "cs_status ?s = OPEN" "cs_tenant_id ?s = ''t1''" "cs_store_id ?s = ''s1''"
    by code_simp+
  have "cash_step filled db"
    by (rule cash_step.Post [OF _ s _ r]) (use ne in simp_all)
  then show ?thesis using r by (simp add: posted_def)
qed

lemma sold_step: "cash_step posted sold"
  unfolding sold_def by (rule cash_step.Sale)

lemma day_closed_step: "cash_step drawn day_closed"
proof -
  let ?r = "close_day_body (cash_env CHR ''e'' 50) day_req ''t1'' (''s1'', cashier) drawn"
  have "\<not> isl ?r" by code_simp
  then obtain db c where r: "?r = Inr (db, c)" by (cases ?r) auto
  from cash_step.Day [OF r] show ?thesis using r by (simp add: day_closed_def)
qed

lemma cash_demo_start: "cash_start cash_world" by (simp add: cash_start_def cash_world_def)

lemma cash_demo_reachable:
  "cash_reachable cash_world" "cash_reachable opened" "cash_reachable filled" "cash_reachable sold"
  "cash_reachable drawn" "cash_reachable day_closed"
proof -
  show 1: "cash_reachable cash_world" using cash_demo_start by (auto simp: cash_reachable_def)
  show 2: "cash_reachable opened" by (rule cash_reachable_step [OF 1 opened_step])
  show 3: "cash_reachable filled" by (rule cash_reachable_step [OF 2 filled_step])
  show 4: "cash_reachable sold"
    by (rule cash_reachable_step [OF cash_reachable_step [OF 3 posted_step] sold_step])
  show 5: "cash_reachable drawn" by (rule cash_reachable_step [OF 4 drawn_step])
  show "cash_reachable day_closed" by (rule cash_reachable_step [OF 5 day_closed_step])
qed

lemma cash_demo_run: "cash_step\<^sup>*\<^sup>* cash_world drawn"
proof -
  note more = rtranclp.rtrancl_into_rtrancl [of cash_step]
  show ?thesis
    by (rule more [OF more [OF more [OF more [OF more [OF rtranclp.rtrancl_refl opened_step]
      filled_step] posted_step] sold_step] drawn_step])
qed

section \<open>Properties\<close>

text \<open>C11: Refinement: every run of the cash operations from an empty register, whatever their
  requests and order, is a run of the abstract ledger.
\<close>

theorem cash_refines_ledger:
  "cash_start db \<Longrightarrow> cash_step\<^sup>*\<^sup>* db db' \<Longrightarrow> ledger_step\<^sup>*\<^sup>* db db'"
  by (rule cash_ledger.refines)

theorem cash_refines_ledger_witness: "ledger_step\<^sup>*\<^sup>* cash_world drawn"
  using cash_refines_ledger [OF cash_demo_start cash_demo_run] .

text \<open>C9: In every reachable state the expected cash of a session is the signed sum of its
  movements (openings, cash in and sales add, cash out and refunds subtract), and is never
  negative.
\<close>

theorem session_cash_balances:
  assumes "cash_reachable db" and "s \<in> set (c_sessions db)"
  shows "cs_expected_cash s = sum_list (map signed_amount
      (filter (\<lambda>m. cm_cash_session_id m = Some (cs_id s)) (c_movements db)))
    \<and> 0 \<le> cs_expected_cash s"
  using cash_reachable_invariant [OF assms(1)] assms(2)
  by (auto simp: cash_invariant_def balances_ok_def session_balance_def)

theorem session_cash_balances_witness:
  "map cm_amount (c_movements drawn) = [100, 50, 80, 30]
    \<and> cs_expected_cash (hd (c_sessions drawn)) = sum_list (map signed_amount
        (filter (\<lambda>m. cm_cash_session_id m = Some (cs_id (hd (c_sessions drawn)))) (c_movements drawn)))
    \<and> cs_expected_cash (hd (c_sessions drawn)) = 200"
proof -
  have "hd (c_sessions drawn) \<in> set (c_sessions drawn)" by code_simp
  moreover have "map cm_amount (c_movements drawn) = [100, 50, 80, 30]"
    "cs_expected_cash (hd (c_sessions drawn)) = 200" by code_simp+
  ultimately show ?thesis using session_cash_balances [OF cash_demo_reachable(5)] by blast
qed

text \<open>In every reachable state a cashier has at most one open session in a store.\<close>

theorem one_open_session:
  assumes "cash_reachable db" and "s \<in> set (c_sessions db)" and "t \<in> set (c_sessions db)"
    and "cs_status s = OPEN" and "cs_status t = OPEN"
    and "(cs_tenant_id s, cs_store_id s, cs_cashier_user_id s) = (cs_tenant_id t, cs_store_id t, cs_cashier_user_id t)"
  shows "s = t"
  using cash_reachable_invariant [OF assms(1)] assms(2-)
  by (auto simp: cash_invariant_def sessions_ok_def inj_on_def)

theorem one_open_session_witness:
  "length (c_sessions drawn) = 1 \<and> cs_status (hd (c_sessions drawn)) = OPEN
    \<and> hd (c_sessions drawn) = last (c_sessions drawn)"
proof -
  have "hd (c_sessions drawn) \<in> set (c_sessions drawn)" "last (c_sessions drawn) \<in> set (c_sessions drawn)"
    "cs_status (hd (c_sessions drawn)) = OPEN" "cs_status (last (c_sessions drawn)) = OPEN"
    "(cs_tenant_id (hd (c_sessions drawn)), cs_store_id (hd (c_sessions drawn)), cs_cashier_user_id (hd (c_sessions drawn)))
      = (cs_tenant_id (last (c_sessions drawn)), cs_store_id (last (c_sessions drawn)), cs_cashier_user_id (last (c_sessions drawn)))"
    by code_simp+
  from one_open_session [OF cash_demo_reachable(5) this] show ?thesis by code_simp
qed

text \<open>C10: In every reachable state a stored day close is true to the ledger: its expected cash is
  what the reconciliation of its date gives now, it is the only close of its store and date, and
  no session of that store and date is open. So nothing posts to a date once it is closed.
\<close>

theorem day_close_stays_true:
  assumes "cash_reachable db" and "c \<in> set (c_closes db)"
  shows "dc_expected_cash c =
      ru_expected_cash (reconciliation_rollup db (dc_tenant_id c) (dc_store_id c) (dc_business_date c))
    \<and> filter (\<lambda>c'. close_key c' = close_key c) (c_closes db) = [c]
    \<and> filter (\<lambda>s. day_key s = close_key c \<and> cs_status s = OPEN) (c_sessions db) = []"
proof -
  have inv: "closes_ok db" using cash_reachable_invariant [OF assms(1)] by (simp add: cash_invariant_def)
  have c: "dc_expected_cash c = day_balance db (close_key c)"
    "\<And>s. s \<in> set (c_sessions db) \<Longrightarrow> day_key s = close_key c \<Longrightarrow> cs_status s = CLOSED"
    using inv assms(2) unfolding closes_ok_def by blast+
  have "filter (\<lambda>s. day_key s = close_key c \<and> cs_status s = OPEN) (c_sessions db) = []"
    unfolding filter_empty_conv using c(2) by (metis session_status.distinct(1))
  moreover have "filter (\<lambda>c'. close_key c' = close_key c) (c_closes db) = [c]"
    using inv assms(2) unfolding closes_ok_def by (intro filter_key_unique) blast+
  ultimately show ?thesis using c(1) by (simp only: rollup_day_balance simp_thms)
qed

theorem day_close_stays_true_witness:
  "dc_expected_cash (hd (c_closes day_closed)) = ru_expected_cash (reconciliation_rollup day_closed ''t1'' ''s1'' 20)
    \<and> dc_expected_cash (hd (c_closes day_closed)) = 200"
proof -
  have "hd (c_closes day_closed) \<in> set (c_closes day_closed)" "dc_tenant_id (hd (c_closes day_closed)) = ''t1''"
    "dc_store_id (hd (c_closes day_closed)) = ''s1''" "dc_business_date (hd (c_closes day_closed)) = 20"
    "dc_expected_cash (hd (c_closes day_closed)) = 200" by code_simp+
  with day_close_stays_true [OF cash_demo_reachable(6) this(1)] show ?thesis by simp
qed

text \<open>In every reachable state the expected cash that the reconciliation of a store and date
  reports is the total of the expected cash of the sessions of that store and date.
\<close>

theorem rollup_matches_sessions:
  assumes "cash_reachable db"
  shows "ru_expected_cash (reconciliation_rollup db tn sid d) = sum_list (map cs_expected_cash
    (filter (\<lambda>s. cs_tenant_id s = tn \<and> cs_store_id s = sid \<and> cs_business_date s = d) (c_sessions db)))"
  using day_total_sessions [OF cash_reachable_invariant [OF assms], of "(tn, sid, d)"]
  by (simp add: rollup_day_balance)

theorem rollup_matches_sessions_witness:
  "ru_expected_cash (reconciliation_rollup drawn ''t1'' ''s1'' 20) = 200"
  unfolding rollup_matches_sessions [OF cash_demo_reachable(5)] by code_simp

text \<open>The reconciliation computes, in one pass over groups, exactly the plain sums: each total
  is the sum of the movements of its type, each count their number.
\<close>

theorem rollup_sums_by_type:
  "ru_cash_in (reconciliation_rollup db tn sid d) = typed_total ''CASH_IN'' (day_movements db tn sid d)
    \<and> ru_cash_out (reconciliation_rollup db tn sid d) = typed_total ''CASH_OUT'' (day_movements db tn sid d)
    \<and> ru_opening_amount (reconciliation_rollup db tn sid d) = typed_total ''OPENING'' (day_movements db tn sid d)
    \<and> ru_net_cash_sales (reconciliation_rollup db tn sid d) = typed_total ''SALE_CASH_IN'' (day_movements db tn sid d)
    \<and> ru_cash_refunds (reconciliation_rollup db tn sid d) = typed_total ''CASH_OUT_REFUND'' (day_movements db tn sid d)
    \<and> ru_expected_cash (reconciliation_rollup db tn sid d) = sum_list (map signed_amount (day_movements db tn sid d))
    \<and> (\<forall>k. dict_get (ru_movement_counts (reconciliation_rollup db tn sid d)) k 0
        = int (length (filter (\<lambda>m. normalize_movement_type (cm_action m) = k) (day_movements db tn sid d))))"
  by (simp add: rollup_typed)

text \<open>C12: The drawer of a cashier is a small machine, closed or holding an amount: from every
  reachable state each action succeeds exactly when the machine allows it and moves the drawer
  as the machine says, and no other cashier's drawer changes. (An opening is also refused for a
  closed date or without a timezone.)
\<close>

theorem session_action_drawer:
  assumes "cash_reachable db" and "fresh_rows env db" and "open_allowed db tn sid (sq_action p)"
  shows "case cash_session_body env p tn (sid, u) db of
      Inl _ \<Rightarrow> drawer_spec (sq_action p) (drawer_of db tn sid (us_id u)) = None
    | Inr (db', _) \<Rightarrow> drawer_spec (sq_action p) (drawer_of db tn sid (us_id u)) = Some (drawer_of db' tn sid (us_id u))
        \<and> (\<forall>tn' sid' c. (tn', sid', c) \<noteq> (tn, sid, us_id u) \<longrightarrow> drawer_of db' tn' sid' c = drawer_of db tn' sid' c)"
  using drawer_simulates_open [OF cash_reachable_invariant [OF assms(1)] assms(2) _ assms(3)]
    drawer_simulates_change [OF cash_reachable_invariant [OF assms(1)] assms(2), of p tn sid u]
  unfolding drawer_simulated_def by blast

theorem session_action_drawer_witness:
  "drawer_of sold ''t1'' ''s1'' ''u1'' = Some 230 \<and> drawer_of drawn ''t1'' ''s1'' ''u1'' = Some 200
    \<and> isl (cash_session_body (cash_env CHR ''d'' 40) (session_req (Cash_out 231)) ''t1'' (''s1'', cashier) sold)"
proof -
  have fresh: "fresh_rows (cash_env CHR ''d'' 40) sold" unfolding fresh_rows_def by code_simp
  have ok: "open_allowed sold ''t1'' ''s1'' (sq_action (session_req (Cash_out a)))" for a
    by (simp add: open_allowed_def session_req_def)
  have d: "drawer_of sold ''t1'' ''s1'' ''u1'' = Some 230" by code_simp
  have u: "us_id cashier = ''u1''" by (simp add: cashier_def)
  obtain db s where r: "cash_session_body (cash_env CHR ''d'' 40) (session_req (Cash_out 30)) ''t1'' (''s1'', cashier) sold = Inr (db, s)"
    using session_action_drawer [OF cash_demo_reachable(4) fresh ok, of 30 cashier] d
    by (auto simp: u session_req_def split: sum.splits)
  then have "drawer_of drawn ''t1'' ''s1'' ''u1'' = Some 200"
    using session_action_drawer [OF cash_demo_reachable(4) fresh ok, of 30 cashier] d
    by (auto simp: u session_req_def drawn_def cash_run_def split: sum.splits)
  moreover have "isl (cash_session_body (cash_env CHR ''d'' 40) (session_req (Cash_out 231)) ''t1'' (''s1'', cashier) sold)"
    using session_action_drawer [OF cash_demo_reachable(4) fresh ok, of 231 cashier] d
    by (auto simp: u session_req_def split: sum.splits)
  ultimately show ?thesis using d by blast
qed

text \<open>C18: A day can be closed exactly when it was not closed before and either no session of it is
  open or a manager forces the close with a reason. The close then leaves no open session of the
  day, changes no session's expected cash, and its difference is the counted cash less the total
  of the day's sessions.
\<close>

theorem close_day_outcome:
  assumes "cash_reachable db"
  shows "case close_day_body env p tn (sid, u) db of
      Inl _ \<Rightarrow> find_day_close db tn sid (dq_business_date p) \<noteq> None
        \<or> open_sessions_of db tn sid (dq_business_date p) \<noteq> [] \<and> \<not> (dq_force_if_open_sessions p = Some True
          \<and> py_upper (td_role (rq_token env)) \<in> set FORCE_CLOSE_ROLES \<and> \<not> falsy (dq_reason p))
    | Inr (db', c) \<Rightarrow> find_day_close db tn sid (dq_business_date p) = None
        \<and> (open_sessions_of db tn sid (dq_business_date p) = [] \<or> dq_force_if_open_sessions p = Some True
          \<and> py_upper (td_role (rq_token env)) \<in> set FORCE_CLOSE_ROLES \<and> \<not> falsy (dq_reason p))
        \<and> open_sessions_of db' tn sid (dq_business_date p) = []
        \<and> (\<lambda>s. (cs_id s, cs_expected_cash s)) ` set (c_sessions db') = (\<lambda>s. (cs_id s, cs_expected_cash s)) ` set (c_sessions db)
        \<and> dc_difference_amount c = map_option (\<lambda>x. x - sum_list (map cs_expected_cash (filter
            (\<lambda>s. cs_tenant_id s = tn \<and> cs_store_id s = sid \<and> cs_business_date s = dq_business_date p) (c_sessions db))))
          (dq_counted_cash p)"
proof -
  have inv: "cash_invariant db" by (rule cash_reachable_invariant [OF assms])
  let ?os = "open_sessions_of db tn sid (dq_business_date p)"
  let ?db = "close_sessions (rq_now env) ?os db"
  have force: "force_close_check env p ?os = Inr () \<longleftrightarrow> ?os = [] \<or> dq_force_if_open_sessions p = Some True
      \<and> py_upper (td_role (rq_token env)) \<in> set FORCE_CLOSE_ROLES \<and> \<not> falsy (dq_reason p)"
    by (auto simp: force_close_check_def bindr_Inr_iff require_Inr_iff Let_def)
  have none: "find_day_close ?db = find_day_close db" by (intro ext) (simp add: find_day_close_def)
  show ?thesis
  proof (cases "close_day_body env p tn (sid, u) db")
    case (Inl e)
    have "find_day_close db tn sid (dq_business_date p) \<noteq> None \<or> force_close_check env p ?os \<noteq> Inr ()"
      using Inl by (auto simp: close_day_body_def commit_day_close_def require_def Let_def none day_close_row_def
          split: if_splits)
    then show ?thesis using Inl force by auto
  next
    case (Inr r)
    obtain db' c where r: "r = (db', c)" by (cases r)
    have run: "find_day_close db tn sid (dq_business_date p) = None" "force_close_check env p ?os = Inr ()"
      "c = day_close_row env p tn sid u (reconciliation_rollup ?db tn sid (dq_business_date p))"
      "c_sessions db' = c_sessions ?db"
      using Inr r by (auto simp: close_day_body_def commit_day_close_def bindr_Inr_iff require_Inr_iff Let_def)
    have rows: "set (c_sessions ?db) = (\<lambda>s. if cs_status s = OPEN \<and> day_key s = (tn, sid, dq_business_date p)
        then closed_session (rq_now env) s else s) ` set (c_sessions db)"
      using inv by (intro open_sessions_of_rows) (simp add: cash_invariant_def)
    have "\<forall>s \<in> set (c_sessions db'). \<not> (day_key s = (tn, sid, dq_business_date p) \<and> cs_status s = OPEN)"
      unfolding run(4) rows by (intro ballI, elim imageE, simp only: split: if_split, simp) blast
    then have "open_sessions_of db' tn sid (dq_business_date p) = []"
      by (simp add: open_sessions_of_def filter_empty_conv)
    moreover have "(\<lambda>s. (cs_id s, cs_expected_cash s)) ` set (c_sessions db')
        = (\<lambda>s. (cs_id s, cs_expected_cash s)) ` set (c_sessions db)"
      unfolding run(4) rows image_image by (intro image_cong) auto
    moreover have "ru_expected_cash (reconciliation_rollup ?db tn sid (dq_business_date p)) = sum_list
        (map cs_expected_cash (filter (\<lambda>s. cs_tenant_id s = tn \<and> cs_store_id s = sid
          \<and> cs_business_date s = dq_business_date p) (c_sessions db)))"
      using day_total_sessions [OF inv, of "(tn, sid, dq_business_date p)"]
      by (simp add: rollup_day_balance day_balance_def)
    ultimately show ?thesis using Inr r run force by (auto simp: day_close_row_def Let_def)
  qed
qed

theorem close_day_outcome_witness:
  "\<not> isl (close_day_body (cash_env CHR ''e'' 50) day_req ''t1'' (''s1'', cashier) drawn)
    \<and> open_sessions_of drawn ''t1'' ''s1'' 20 \<noteq> [] \<and> open_sessions_of day_closed ''t1'' ''s1'' 20 = []"
proof -
  have run: "\<not> isl (close_day_body (cash_env CHR ''e'' 50) day_req ''t1'' (''s1'', cashier) drawn)"
    and os: "open_sessions_of drawn ''t1'' ''s1'' 20 \<noteq> []" by code_simp+
  have "open_sessions_of day_closed ''t1'' ''s1'' (dq_business_date day_req) = []"
    using close_day_outcome [OF cash_demo_reachable(5), where env = "cash_env CHR ''e'' 50"
      and p = day_req and tn = "''t1''" and sid = "''s1''" and u = cashier] run
    by (auto simp: day_closed_def split: sum.splits prod.splits)
  then show ?thesis using run os by (simp add: day_req_def)
qed

text \<open>The expected cash of a cut whose window reaches the end of its session differs from the
  session's expected cash exactly by the window's cash payments, as the cut reads them from the
  sales of the store, less the sales that were posted to the session.
\<close>

theorem cut_agrees_with_session:
  assumes "cash_reachable db" and "s \<in> set (c_sessions db)"
    and "calculate_cut_quote db now (cs_tenant_id s) (cs_store_id s) s ty f t tz counted deposit notes = Inr q"
    and "\<forall>m \<in> set (c_movements db). cm_cash_session_id m = Some (cs_id s) \<longrightarrow>
      cs_opened_at s \<le> cm_occurred_at m \<and> cm_occurred_at m \<le> t"
  shows "cc_expected_cash q - cs_expected_cash s = cc_cash_sales_total q
    - action_total ''SALE'' (filter (\<lambda>m. cm_cash_session_id m = Some (cs_id s) \<and> f \<le> cm_occurred_at m) (c_movements db))"
  by (rule cut_quote_session [OF cash_reachable_invariant [OF assms(1)] assms(2-4)])

text \<open>The quote for the session of a state, at time 60, of all that happened since it opened.\<close>

definition demo_quote :: "cash_db \<Rightarrow> cash_cut res" where
  "demo_quote db = (let s = hd (c_sessions db) in calculate_cut_quote db 60 (cs_tenant_id s) (cs_store_id s) s
     PARTIAL_cut 10 60 ''UTC'' None None None)"

theorem cut_agrees_with_session_witness:
  "(case demo_quote filled of Inl _ \<Rightarrow> False | Inr q \<Rightarrow> cc_expected_cash q = cs_expected_cash (hd (c_sessions filled)))"
proof -
  have s: "hd (c_sessions filled) \<in> set (c_sessions filled)" by code_simp
  have times: "\<forall>m \<in> set (c_movements filled). cm_cash_session_id m = Some (cs_id (hd (c_sessions filled))) \<longrightarrow>
      cs_opened_at (hd (c_sessions filled)) \<le> cm_occurred_at m \<and> cm_occurred_at m \<le> 60" by code_simp
  obtain q where q: "demo_quote filled = Inr q" "cc_cash_sales_total q = 0"
  proof -
    have "case demo_quote filled of Inl _ \<Rightarrow> False | Inr q \<Rightarrow> cc_cash_sales_total q = 0" by code_simp
    then show thesis using that by (cases "demo_quote filled") auto
  qed
  have "action_total ''SALE'' (filter (\<lambda>m. cm_cash_session_id m = Some (cs_id (hd (c_sessions filled)))
      \<and> 10 \<le> cm_occurred_at m) (c_movements filled)) = 0" by code_simp
  then show ?thesis
    using cut_agrees_with_session [OF cash_demo_reachable(3) s q(1) [unfolded demo_quote_def Let_def] times] q by simp
qed

text \<open>A cut counts the cash a customer tendered, not the cash that was kept: after a sale of 80
  paid with 100, the register holds 200 and the cut expects 220.
\<close>

theorem cut_counts_change:
  "cs_expected_cash (hd (c_sessions drawn)) = 200
    \<and> map cm_amount (filter (\<lambda>m. cm_action m = ''SALE'') (c_movements drawn)) = [80]
    \<and> (case demo_quote drawn of Inl _ \<Rightarrow> False | Inr q \<Rightarrow> cc_expected_cash q = 220)"
  by code_simp

text \<open>A request of a user who is not a superadmin, to act on a session, to close a day or to
  create a cut, leaves the sessions, movements, day closes and cuts of other tenants as they
  were.
\<close>

theorem cash_tenant_isolation:
  assumes "cash_reachable db" and "\<not> is_superadmin (Some (td_role (rq_token env)))"
    and "td_tenant_id (rq_token env) = Some tn"
  shows "other_rows tn (snd (snd (cash_session_endpoint dump_err dump env p (it, db)))) = other_rows tn db
    \<and> other_rows tn (snd (snd (close_day_endpoint dump_err dump_day env q (it, db)))) = other_rows tn db
    \<and> (case create_cash_cut env c db of Inl _ \<Rightarrow> True | Inr (db', _) \<Rightarrow> other_rows tn db' = other_rows tn db)"
proof -
  have inv: "cash_invariant db" by (rule cash_reachable_invariant [OF assms(1)])
  have "other_rows tn (snd (snd (cash_session_endpoint dump_err dump env p (it, db)))) = other_rows tn db"
    by (cases "cash_session_endpoint dump_err dump env p (it, db)" rule: prod_cases3)
      (use cash_session_endpoint_other_rows [OF inv assms(2) _ assms(3)] in auto)
  moreover have "other_rows tn (snd (snd (close_day_endpoint dump_err dump_day env q (it, db)))) = other_rows tn db"
    by (cases "close_day_endpoint dump_err dump_day env q (it, db)" rule: prod_cases3)
      (use close_day_endpoint_other_rows [OF inv assms(2) _ assms(3)] in auto)
  ultimately show ?thesis
    using create_cash_cut_other_rows [OF inv assms(2) _ assms(3), of c] by (auto split: sum.splits)
qed

theorem cash_tenant_isolation_witness:
  "length (c_movements (snd (snd (cash_session_endpoint (\<lambda>_. '''') (\<lambda>_. '''') (cash_env CHR ''d'' 40)
      (session_req (Cash_out 30)) ([], sold))))) = 4
    \<and> other_rows ''t1'' (snd (snd (cash_session_endpoint (\<lambda>_. '''') (\<lambda>_. '''') (cash_env CHR ''d'' 40)
      (session_req (Cash_out 30)) ([], sold)))) = other_rows ''t1'' sold"
proof -
  have "\<not> is_superadmin (Some (td_role (rq_token (cash_env CHR ''d'' 40))))"
    "td_tenant_id (rq_token (cash_env CHR ''d'' 40)) = Some ''t1''" by code_simp+
  moreover have "length (c_movements (snd (snd (cash_session_endpoint (\<lambda>_. '''') (\<lambda>_. '''') (cash_env CHR ''d'' 40)
      (session_req (Cash_out 30)) ([], sold))))) = 4" by code_simp
  ultimately show ?thesis using cash_tenant_isolation [OF cash_demo_reachable(4)] by blast
qed

definition cut_req :: cut_create_request where
  "cut_req = \<lparr>qq_tenant_id = None, qq_store_id = None, qq_cash_session_id = None, qq_use_last_cut_window = True,
     qq_from_at = None, qq_to_at = None, qq_timezone = None, qq_cut_type = BANK_DEPOSIT,
     qq_transaction_id = Some ''tx'', qq_counted_cash = None, qq_deposit_removed_amount = None,
     qq_notes = None, qq_auto_apply_cash_out = False\<rparr>"

definition with_cut :: cash_db where
  "with_cut = (case create_cash_cut (cash_env CHR ''f'' 50) cut_req drawn of Inl _ \<Rightarrow> drawn | Inr (db, _) \<Rightarrow> db)"

definition withdraw :: "char \<Rightarrow> cash_db \<Rightarrow> cash_db" where
  "withdraw k db = (case cash_cut_action (cash_env k 60) ''f'' \<lparr>ca_transaction_id = Some ''tx'', ca_tenant_id = None,
       ca_store_id = None, ca_action = Apply_cash_out, ca_counted_cash = None, ca_amount = Some 70,
       ca_reason = None, ca_notes = None\<rparr> db of Inl _ \<Rightarrow> db | Inr (db, _) \<Rightarrow> db)"

text \<open>Withdrawing cash for a cut is not idempotent: the same request, with the same transaction
  identifier and key, sent twice takes the money out twice.
\<close>

theorem cut_withdrawal_repeats:
  "map cs_expected_cash (c_sessions with_cut) = [200]
    \<and> map cs_expected_cash (c_sessions (withdraw CHR ''g'' with_cut)) = [130]
    \<and> map cs_expected_cash (c_sessions (withdraw CHR ''h'' (withdraw CHR ''g'' with_cut))) = [60]
    \<and> map cc_deposit_removed_amount (c_cuts (withdraw CHR ''h'' (withdraw CHR ''g'' with_cut))) = [Some 70]"
  by code_simp

end
