(* ===== verification/Drawer.thy ===== *)
theory Drawer
  imports Request
begin

text \<open>
  The cash drawer's hardware log (\<^verbatim>\<open>routers/pos_drawer.py\<close>): events are recorded as the client
  reports them, and a confirmation of the drawer's closing stamps an event and adds a second one
  that copies it. The advances router records its own events in the same table.
\<close>

datatype drawer_movement_type =
    CHECKOUT_drawer | CASH_IN_drawer | CASH_OUT_drawer | MANUAL_drawer | TEST_drawer | UNKNOWN_drawer

datatype drawer_event_type =
    CHECKOUT_CASH_DRAWER_OPEN | CHECKOUT_CASH_DRAWER_OPEN_FAILED | CHECKOUT_PRINT_CASH_DRAWER_OPEN
  | CASH_IN_DRAWER_OPEN | CASH_OUT_DRAWER_OPEN | MANUAL_DRAWER_OPEN | TEST_DRAWER_OPEN
  | DRAWER_CLOSE_CONFIRMED

datatype drawer_result = SUCCESS | FAILED

record drawer_event =
  de_id :: uuid
  de_tenant_id :: uuid
  de_store_id :: uuid
  de_terminal_id :: "string option"
  de_user_id :: "uuid option"
  de_cash_session_id :: "uuid option"
  de_sale_id :: "uuid option"
  de_movement_type :: drawer_movement_type
  de_event_type :: drawer_event_type
  de_reason :: "string option"
  de_printer_name :: "string option"
  de_machine_name :: "string option"
  de_requested_at :: "time option"
  de_executed_at :: "time option"
  de_closed_confirmed_at :: "time option"
  de_result :: drawer_result
  de_details_json :: "(string \<times> string) list option"
  de_trace_id :: "string option"
  de_created_at :: time

record drawer_event_request =
  dp_tenant_id :: "string option"
  dp_store_id :: "string option"
  dp_terminal_id :: "string option"
  dp_cash_session_id :: "string option"
  dp_sale_id :: "string option"
  dp_movement_type :: drawer_movement_type
  dp_event_type :: drawer_event_type
  dp_reason :: "string option"
  dp_printer_name :: "string option"
  dp_machine_name :: "string option"
  dp_requested_at :: "time option"
  dp_executed_at :: "time option"
  dp_closed_confirmed_at :: "time option"
  dp_result :: drawer_result
  dp_details_json :: "(string \<times> string) list option"
  dp_trace_id :: "string option"

record confirm_close_request =
  dx_action :: string
  dx_tenant_id :: "string option"
  dx_store_id :: "string option"
  dx_closed_confirmed_at :: "time option"
  dx_trace_id :: "string option"

section \<open>The endpoints\<close>

text \<open>The events are stored under the tenant and store the two resolutions give; no check looks
  the store up.\<close>

definition drawer_scope :: "request_env \<Rightarrow> string option \<Rightarrow> string option \<Rightarrow> (uuid \<times> uuid) res" where
  "drawer_scope env tenant_id store_id =
    bindr (pos_resolve_tenant_id (rq_token env) tenant_id) (\<lambda>tn.
    bindr (pos_resolve_store_id (rq_token env) store_id) (\<lambda>sid. Inr (tn, sid)))"

definition create_drawer_event ::
    "request_env \<Rightarrow> drawer_event_request \<Rightarrow> drawer_event list \<Rightarrow> (drawer_event list \<times> drawer_event) res" where
  "create_drawer_event env p events =
    bindr (permitted_user env ''POS_CASH_MANAGE'') (\<lambda>_.
    bindr (drawer_scope env (dp_tenant_id p) (dp_store_id p)) (\<lambda>(tn, sid).
    let e = \<lparr>de_id = rq_fresh env 0, de_tenant_id = tn, de_store_id = sid,
          de_terminal_id = dp_terminal_id p, de_user_id = Some (td_sub (rq_token env)),
          de_cash_session_id = dp_cash_session_id p, de_sale_id = dp_sale_id p,
          de_movement_type = dp_movement_type p, de_event_type = dp_event_type p,
          de_reason = dp_reason p, de_printer_name = dp_printer_name p,
          de_machine_name = dp_machine_name p, de_requested_at = dp_requested_at p,
          de_executed_at = dp_executed_at p, de_closed_confirmed_at = dp_closed_confirmed_at p,
          de_result = dp_result p, de_details_json = dp_details_json p,
          de_trace_id = py_or (dp_trace_id p) (Some (rc_trace_id (rq_context env))),
          de_created_at = rq_now env\<rparr>
    in Inr (events @ [e], e)))"

definition close_confirmation :: "request_env \<Rightarrow> time \<Rightarrow> drawer_event \<Rightarrow> drawer_event" where
  "close_confirmation env closed_at e =
    \<lparr>de_id = rq_fresh env 0, de_tenant_id = de_tenant_id e, de_store_id = de_store_id e,
     de_terminal_id = de_terminal_id e, de_user_id = Some (td_sub (rq_token env)),
     de_cash_session_id = de_cash_session_id e, de_sale_id = de_sale_id e,
     de_movement_type = de_movement_type e, de_event_type = DRAWER_CLOSE_CONFIRMED,
     de_reason = Some ''Manual drawer close confirmation'', de_printer_name = de_printer_name e,
     de_machine_name = de_machine_name e, de_requested_at = Some closed_at,
     de_executed_at = Some closed_at, de_closed_confirmed_at = Some closed_at, de_result = SUCCESS,
     de_details_json = Some [(''source_event_id'', de_id e)], de_trace_id = de_trace_id e,
     de_created_at = rq_now env\<rparr>"

definition set_drawer_event :: "drawer_event \<Rightarrow> drawer_event list \<Rightarrow> drawer_event list" where
  "set_drawer_event e events = map (\<lambda>x. if de_id x = de_id e then e else x) events"

definition drawer_event_action ::
    "request_env \<Rightarrow> uuid \<Rightarrow> confirm_close_request \<Rightarrow> drawer_event list
      \<Rightarrow> (drawer_event list \<times> drawer_event) res" where
  "drawer_event_action env event_id p events =
    bindr (permitted_user env ''POS_CASH_MANAGE'') (\<lambda>_.
    bindr (require (dx_action p = ''CONFIRM_CLOSE'')
      (raise1 VALIDATION_ERROR ''unsupported action'')) (\<lambda>_.
    bindr (drawer_scope env (dx_tenant_id p) (dx_store_id p)) (\<lambda>(tn, sid).
    case find (\<lambda>e. de_id e = event_id) events of
      None \<Rightarrow> Inl (raise1 RESOURCE_NOT_FOUND ''drawer event not found'')
    | Some e \<Rightarrow>
        bindr (require (de_tenant_id e = tn \<and> de_store_id e = sid)
          (raise1 RESOURCE_NOT_FOUND ''drawer event not found'')) (\<lambda>_.
        let closed_at = (case dx_closed_confirmed_at p of None \<Rightarrow> rq_now env | Some t \<Rightarrow> t);
            e' = e\<lparr>de_closed_confirmed_at := Some closed_at,
              de_trace_id := py_or (py_or (dx_trace_id p) (Some (rc_trace_id (rq_context env)))) (de_trace_id e)\<rparr>
        in Inr (set_drawer_event e' events @ [close_confirmation env closed_at e'], e')))))"

section \<open>Lemmas\<close>

lemma drawer_scope_tenant:
  assumes "drawer_scope env tenant_id store_id = Inr (tn, sid)"
  shows "if is_superadmin (Some (td_role (rq_token env))) then tenant_id = Some tn
    else td_tenant_id (rq_token env) = Some tn"
  using assms
  by (auto simp: drawer_scope_def pos_resolve_tenant_id_def bindr_Inr_iff split: if_splits elim: not_falsyE)

lemma set_drawer_event_append: "length (set_drawer_event e events) = length events"
  by (simp add: set_drawer_event_def)

lemma drawer_event_action_Inr:
  assumes "drawer_event_action env i p events = Inr (events', e')"
  obtains e tn sid closed_at where "e \<in> set events" "de_id e = i"
    "drawer_scope env (dx_tenant_id p) (dx_store_id p) = Inr (tn, sid)"
    "de_tenant_id e = tn" "de_store_id e = sid" "de_id e' = i" "de_tenant_id e' = tn" "de_store_id e' = sid"
    "de_event_type e' = de_event_type e" "de_result e' = de_result e"
    "de_closed_confirmed_at e' = Some closed_at"
    "events' = set_drawer_event e' events @ [close_confirmation env closed_at e']"
proof -
  obtain tn sid where sc: "drawer_scope env (dx_tenant_id p) (dx_store_id p) = Inr (tn, sid)"
    and rest: "(case find (\<lambda>e. de_id e = i) events of
      None \<Rightarrow> Inl (raise1 RESOURCE_NOT_FOUND ''drawer event not found'')
    | Some e \<Rightarrow>
        bindr (require (de_tenant_id e = tn \<and> de_store_id e = sid)
          (raise1 RESOURCE_NOT_FOUND ''drawer event not found'')) (\<lambda>_.
        let closed_at = (case dx_closed_confirmed_at p of None \<Rightarrow> rq_now env | Some t \<Rightarrow> t);
            e' = e\<lparr>de_closed_confirmed_at := Some closed_at,
              de_trace_id := py_or (py_or (dx_trace_id p) (Some (rc_trace_id (rq_context env)))) (de_trace_id e)\<rparr>
        in Inr (set_drawer_event e' events @ [close_confirmation env closed_at e'], e'))) = Inr (events', e')"
    using assms by (auto simp: drawer_event_action_def bindr_Inr_iff)
  then obtain e where e: "find (\<lambda>e. de_id e = i) events = Some e" by (auto split: option.splits)
  show thesis
    using find_SomeD [OF e] rest e
    by (intro that [where e = e, OF _ _ sc]) (auto simp: bindr_Inr_iff require_Inr_iff Let_def)
qed

end
