(* ===== verification/Py_Decimal.thy ===== *)
theory Py_Decimal
  imports Prelude
begin

text \<open>
  \<^verbatim>\<open>Decimal.quantize(Decimal("0.01"))\<close>: rounding to cents, a half to the even neighbour. Amounts
  that are whole cents are kept, and a product of such an amount with a quantity is one.
\<close>

definition quantize2 :: "money \<Rightarrow> money" where
  "quantize2 x = (let c = 100 * x; f = \<lfloor>c\<rfloor>; r = c - of_int f
     in of_int (if r < 1 / 2 \<or> r = 1 / 2 \<and> even f then f else f + 1) / 100)"

text \<open>Whole cents.\<close>

definition cents :: "money \<Rightarrow> bool" where
  "cents x \<longleftrightarrow> of_int \<lfloor>100 * x\<rfloor> = 100 * x"

lemma quantize2_cents [simp]: "cents (quantize2 x)"
  by (simp add: quantize2_def cents_def Let_def)

lemma cents_iff: "cents x \<longleftrightarrow> (\<exists>n. x = of_int n / 100)"
proof
  assume "cents x"
  then have "x = of_int \<lfloor>100 * x\<rfloor> / 100" unfolding cents_def by linarith
  then show "\<exists>n. x = of_int n / 100" ..
next
  assume "\<exists>n. x = of_int n / 100"
  then obtain n where "x = of_int n / 100" by blast
  then have "100 * x = of_int n" by simp
  then show "cents x" unfolding cents_def by (simp only: floor_of_int)
qed

lemma quantize2_id:
  assumes "cents x"
  shows "quantize2 x = x"
proof -
  obtain n where n: "x = of_int n / 100" using assms cents_iff by blast
  then have f: "100 * x = of_int n" by simp
  show ?thesis unfolding quantize2_def Let_def f floor_of_int by (simp add: n)
qed

lemma cents_0 [simp]: "cents 0" by (simp add: cents_def)

lemma cents_add: "cents x \<Longrightarrow> cents y \<Longrightarrow> cents (x + y)"
  unfolding cents_iff by (metis add_divide_distrib of_int_add)

lemma cents_diff: "cents x \<Longrightarrow> cents y \<Longrightarrow> cents (x - y)"
  unfolding cents_iff by (metis diff_divide_distrib of_int_diff)

lemma cents_mult_int: "cents x \<Longrightarrow> cents (x * of_int n)"
  unfolding cents_iff by (metis of_int_mult times_divide_eq_left)

lemma cents_sum_list: "(\<And>x. x \<in> set xs \<Longrightarrow> cents (f x)) \<Longrightarrow> cents (sum_list (map f xs))"
  by (induction xs) (auto intro: cents_add)

lemma quantize2_error: "\<bar>quantize2 x - x\<bar> \<le> 1 / 200"
proof -
  have "100 * x - 1 < of_int \<lfloor>100 * x\<rfloor>" "of_int \<lfloor>100 * x\<rfloor> \<le> 100 * x" by linarith+
  then show ?thesis by (auto simp: quantize2_def Let_def field_simps abs_le_iff)
qed

lemma quantize2_mono: "x \<le> y \<Longrightarrow> quantize2 x \<le> quantize2 y"
proof -
  assume le: "x \<le> y"
  let ?f = "\<lfloor>100 * x\<rfloor>" and ?g = "\<lfloor>100 * y\<rfloor>"
  have b: "of_int ?f \<le> 100 * x" "100 * x < of_int ?f + 1" "of_int ?g \<le> 100 * y" by linarith+
  have fg: "?f \<le> ?g" using le by (intro floor_mono) simp
  show ?thesis
  proof (cases "?f = ?g")
    case True
    then show ?thesis using le by (auto simp: quantize2_def Let_def divide_right_mono)
  next
    case False
    then have "?f + 1 \<le> ?g" using fg by simp
    then have "(of_int (?f + 1) :: money) / 100 \<le> of_int ?g / 100"
      using of_int_le_iff [of "?f + 1" ?g, where ?'a = rat] by simp
    moreover have "quantize2 x \<le> of_int (?f + 1) / 100" "of_int ?g / 100 \<le> quantize2 y"
      by (auto simp: quantize2_def Let_def divide_right_mono)
    ultimately show ?thesis by linarith
  qed
qed

lemma quantize2_nonneg: "0 \<le> x \<Longrightarrow> 0 \<le> quantize2 x"
  using quantize2_mono [of 0 x] quantize2_id [of 0] by simp

lemma quantize2_half_even: "quantize2 (1 / 8) = 12 / 100" "quantize2 (135 / 1000) = 14 / 100"
  by code_simp+

end
