(* ===== verification/Sql_Text.thy ===== *)
theory Sql_Text
  imports Prelude
begin

text \<open>
  \<^verbatim>\<open>column.ilike(f"%{q}%")\<close>: a percent sign in the pattern stands for any text, an underscore for
  any character, and letters are compared without their case. A pattern of the search fields
  therefore matches a text that contains the term, when the term has neither wildcard.
\<close>

fun like :: "string \<Rightarrow> string \<Rightarrow> bool" where
  "like [] s = (s = [])"
| "like (p # ps) s =
    (if p = CHR ''%'' then like ps s \<or> (case s of [] \<Rightarrow> False | c # cs \<Rightarrow> like (p # ps) cs)
     else (case s of [] \<Rightarrow> False | c # cs \<Rightarrow> (p = CHR ''_'' \<or> p = c) \<and> like ps cs))"

definition ilike :: "string \<Rightarrow> string \<Rightarrow> bool" where
  "ilike pattern s = like (py_lower pattern) (py_lower s)"

definition contains_term :: "string \<Rightarrow> string \<Rightarrow> bool" where
  "contains_term q s = ilike (''%'' @ q @ ''%'') s"

text \<open>A null column matches no pattern.\<close>

definition contains_term_opt :: "string \<Rightarrow> string option \<Rightarrow> bool" where
  "contains_term_opt q s = (case s of None \<Rightarrow> False | Some x \<Rightarrow> contains_term q x)"

definition wildcard :: "char \<Rightarrow> bool" where
  "wildcard c \<longleftrightarrow> c \<in> {CHR ''%'', CHR ''_''}"

lemma like_percent_last: "like ''%'' s"
  by (induction s) auto

lemma like_prefix:
  "list_all (\<lambda>c. \<not> wildcard c) q \<Longrightarrow> like (q @ ''%'') s \<longleftrightarrow> (\<exists>r. s = q @ r)"
proof (induction q arbitrary: s)
  case Nil
  then show ?case by (simp add: like_percent_last del: like.simps)
next
  case (Cons c q)
  then show ?case by (cases s) (auto simp: wildcard_def)
qed

lemma like_infix:
  assumes "list_all (\<lambda>c. \<not> wildcard c) q"
  shows "like (CHR ''%'' # q @ ''%'') s \<longleftrightarrow> (\<exists>l r. s = l @ q @ r)"
proof (induction s)
  case Nil
  then show ?case using like_prefix [OF assms, of "[]"] by auto
next
  case (Cons c s)
  have "like (CHR ''%'' # q @ ''%'') (c # s) \<longleftrightarrow>
      like (q @ ''%'') (c # s) \<or> like (CHR ''%'' # q @ ''%'') s" by simp
  also have "\<dots> \<longleftrightarrow> (\<exists>r. c # s = q @ r) \<or> (\<exists>l r. s = l @ q @ r)"
    using Cons like_prefix [OF assms] by simp
  also have "\<dots> \<longleftrightarrow> (\<exists>l r. c # s = l @ q @ r)"
    by (metis append_Cons append_Nil neq_Nil_conv list.inject)
  finally show ?case .
qed

lemma lower_char_wildcard:
  assumes "\<not> wildcard c"
  shows "\<not> wildcard (lower_char c)"
proof (cases "65 \<le> (of_char c :: nat) \<and> (of_char c :: nat) \<le> 90")
  case True
  then have "(of_char (lower_char c) :: nat) = of_char c + 32" by (simp add: lower_char_def)
  then have "97 \<le> (of_char (lower_char c) :: nat)" using True by simp
  then show ?thesis by (auto simp: wildcard_def)
next
  case False
  then have "lower_char c = c" unfolding lower_char_def by (rule if_not_P)
  then show ?thesis using assms by (rule ssubst)
qed

lemma wildcard_free_lower: "list_all (\<lambda>c. \<not> wildcard c) q \<Longrightarrow> list_all (\<lambda>c. \<not> wildcard c) (py_lower q)"
  using lower_char_wildcard by (simp add: py_lower_def list_all_iff)

lemma contains_term_iff:
  assumes "list_all (\<lambda>c. \<not> wildcard c) q"
  shows "contains_term q s \<longleftrightarrow> (\<exists>l r. py_lower s = l @ py_lower q @ r)"
proof -
  have "py_lower (''%'' @ q @ ''%'') = CHR ''%'' # py_lower q @ ''%''"
    by (simp add: py_lower_def lower_char_def)
  then show ?thesis
    using like_infix [OF wildcard_free_lower [OF assms]] by (simp add: contains_term_def ilike_def)
qed

lemma contains_empty_term [simp]: "contains_term [] s"
proof -
  have "\<exists>l r. py_lower s = l @ py_lower [] @ r" by (rule exI [of _ "[]"]) (simp add: py_lower_def)
  then show ?thesis by (simp add: contains_term_iff)
qed

lemma contains_term_example:
  "contains_term ''ana'' ''Mariana P''" "\<not> contains_term ''ann'' ''Mariana P''"
  by code_simp+

end
