(* ===== verification/Advance_Model.thy ===== *)
theory Advance_Model
  imports Cash_Model Drawer Py_Time Py_Decimal Sql_Text
begin

text \<open>
  Advances and gift cards, the data of \<^verbatim>\<open>routers/pos_advances.py\<close> and the expiry rule of
  \<^verbatim>\<open>services/pos_advances.py\<close>: vouchers sold for money, valid for 60 days, and then consumed in
  full by a sale, refunded, or expired. The amounts of a request have at most two decimals; the
  rounding a database column would do is not modelled. UUIDs are spelled canonically.
\<close>

section \<open>Rows\<close>

datatype advance_status = ACTIVE | CONSUMED | REFUNDED | EXPIRED

datatype voucher_type = ADVANCE_voucher | GIFT_CARD

record pos_advance =
  pa_id :: uuid
  pa_tenant_id :: uuid
  pa_store_id :: uuid
  pa_advance_number :: int
  pa_barcode_value :: string
  pa_customer_name :: string
  pa_voucher_type :: voucher_type
  pa_issued_amount :: money
  pa_issued_payment_method :: payment_method
  pa_issued_cash_movement_id :: "uuid option"
  pa_issued_at :: time
  pa_expires_at :: time
  pa_status :: advance_status
  pa_consumed_sale_id :: "uuid option"
  pa_refunded_cash_movement_id :: "uuid option"
  pa_refunded_at :: "time option"
  pa_expired_at :: "time option"
  pa_notes :: "string option"
  pa_created_by_user_id :: "uuid option"
  pa_created_at :: time
  pa_updated_at :: "time option"

text \<open>The payloads of the events, one constructor for each dictionary the code writes.\<close>

datatype advance_payload =
    Issued_payload string payment_method voucher_type
  | Lazy_expiration time
  | Validated_payload string advance_status
  | Refunded_payload payment_method string "string option"
  | Consumed_payload string money money money "string option" "string option"
  | Checkout_payload uuid string
  | Manual_expiration string "string option"

record advance_event =
  ae_id :: uuid
  ae_advance_id :: uuid
  ae_tenant_id :: uuid
  ae_store_id :: uuid
  ae_action :: string
  ae_payload :: advance_payload
  ae_created_by_user_id :: "uuid option"
  ae_created_at :: time

record advance_db =
  av_cash :: cash_db
  av_advances :: "pos_advance list"
  av_events :: "advance_event list"
  av_drawer :: "drawer_event list"

type_synonym 'a advance_result = "(advance_db \<times> 'a) res"

definition TERMINAL_STATUSES :: "advance_status list" where
  "TERMINAL_STATUSES = [CONSUMED, REFUNDED, EXPIRED]"

fun status_text :: "advance_status \<Rightarrow> string" where
  "status_text ACTIVE = ''ACTIVE''"
| "status_text CONSUMED = ''CONSUMED''"
| "status_text REFUNDED = ''REFUNDED''"
| "status_text EXPIRED = ''EXPIRED''"

fun method_text :: "payment_method \<Rightarrow> string" where
  "method_text CASH = ''CASH''"
| "method_text CARD = ''CARD''"
| "method_text TRANSFER = ''TRANSFER''"
| "method_text ADVANCE = ''ADVANCE''"

fun voucher_text :: "voucher_type \<Rightarrow> string" where
  "voucher_text ADVANCE_voucher = ''ADVANCE''"
| "voucher_text GIFT_CARD = ''GIFT_CARD''"

fun VOUCHER_ISSUANCE_REASON :: "voucher_type \<Rightarrow> string" where
  "VOUCHER_ISSUANCE_REASON ADVANCE_voucher = ''ADVANCE_ISSUANCE''"
| "VOUCHER_ISSUANCE_REASON GIFT_CARD = ''GIFT_CARD_ISSUANCE''"

fun VOUCHER_REFUND_REASON :: "voucher_type \<Rightarrow> string" where
  "VOUCHER_REFUND_REASON ADVANCE_voucher = ''ADVANCE_REFUND''"
| "VOUCHER_REFUND_REASON GIFT_CARD = ''GIFT_CARD_REFUND''"

section \<open>Changes\<close>

definition set_advance :: "pos_advance \<Rightarrow> advance_db \<Rightarrow> advance_db" where
  "set_advance a db =
    db\<lparr>av_advances := map (\<lambda>x. if pa_id x = pa_id a then a else x) (av_advances db)\<rparr>"

definition add_advance_event :: "advance_event \<Rightarrow> advance_db \<Rightarrow> advance_db" where
  "add_advance_event e db = db\<lparr>av_events := av_events db @ [e]\<rparr>"

definition advance_event_of ::
    "uuid \<Rightarrow> pos_advance \<Rightarrow> string \<Rightarrow> advance_payload \<Rightarrow> uuid option \<Rightarrow> time \<Rightarrow> advance_event" where
  "advance_event_of i a action payload actor now =
    \<lparr>ae_id = i, ae_advance_id = pa_id a, ae_tenant_id = pa_tenant_id a, ae_store_id = pa_store_id a,
     ae_action = action, ae_payload = payload, ae_created_by_user_id = actor, ae_created_at = now\<rparr>"

section \<open>services/pos_advances.py\<close>

text \<open>The row after \<^verbatim>\<open>advance.status = "EXPIRED"\<close>, which a manual expiry sets in the same way.\<close>

definition expired_row :: "time \<Rightarrow> pos_advance \<Rightarrow> pos_advance" where
  "expired_row now a = a\<lparr>pa_status := EXPIRED, pa_expired_at := Some now, pa_updated_at := Some now\<rparr>"

definition expiry_due :: "time \<Rightarrow> pos_advance \<Rightarrow> bool" where
  "expiry_due now a \<longleftrightarrow> pa_status a = ACTIVE \<and> pa_expires_at a \<le> now"

text \<open>The answer is the row as the session has it afterwards, and whether it expired.\<close>

definition expire_advance_if_needed ::
    "uuid \<Rightarrow> uuid option \<Rightarrow> time \<Rightarrow> pos_advance \<Rightarrow> advance_db \<Rightarrow> advance_db \<times> pos_advance \<times> bool" where
  "expire_advance_if_needed i actor now a db =
    (if expiry_due now a then
       let a' = expired_row now a
       in (add_advance_event (advance_event_of i a ''EXPIRED'' (Lazy_expiration now) actor now)
             (set_advance a' db), a', True)
     else (db, a, False))"

text \<open>The loop of the sweep over the selected rows; the events take the request's next ids.\<close>

fun sweep_rows :: "(nat \<Rightarrow> uuid) \<Rightarrow> uuid option \<Rightarrow> time \<Rightarrow> pos_advance list \<Rightarrow> advance_db \<Rightarrow> advance_db" where
  "sweep_rows fresh actor now [] db = db"
| "sweep_rows fresh actor now (a # rows) db =
    sweep_rows (\<lambda>i. fresh (Suc i)) actor now rows
      (fst (expire_advance_if_needed (fresh 0) actor now a db))"

definition due_rows :: "uuid \<Rightarrow> uuid \<Rightarrow> time \<Rightarrow> advance_db \<Rightarrow> pos_advance list" where
  "due_rows tn sid now db =
    filter (\<lambda>a. pa_tenant_id a = tn \<and> pa_store_id a = sid \<and> expiry_due now a) (av_advances db)"

definition sweep_expired_advances ::
    "(nat \<Rightarrow> uuid) \<Rightarrow> uuid \<Rightarrow> uuid \<Rightarrow> uuid option \<Rightarrow> time \<Rightarrow> advance_db \<Rightarrow> advance_db \<times> uuid list" where
  "sweep_expired_advances fresh tn sid actor now db =
    (let rows = due_rows tn sid now db in (sweep_rows fresh actor now rows db, map pa_id rows))"

section \<open>Numbers and barcodes\<close>

definition next_advance_number :: "uuid \<Rightarrow> uuid \<Rightarrow> advance_db \<Rightarrow> int" where
  "next_advance_number tn sid db =
    (case map pa_advance_number
        (filter (\<lambda>a. pa_tenant_id a = tn \<and> pa_store_id a = sid) (av_advances db)) of
       [] \<Rightarrow> 0 | n # ns \<Rightarrow> fold max ns n) + 1"

definition barcode_of :: "uuid \<Rightarrow> int \<Rightarrow> string" where
  "barcode_of sid n =
    ''ADV-'' @ take 8 (filter (\<lambda>c. c \<noteq> CHR ''-'') sid) @ ''-'' @ zero_pad 8 (nat n)"

section \<open>The movements of a voucher\<close>

definition active_session :: "cash_db \<Rightarrow> uuid \<Rightarrow> uuid \<Rightarrow> uuid \<Rightarrow> cash_session option" where
  "active_session db tn sid cashier =
    (case sort_key (\<lambda>s. - cs_opened_at s) (filter (\<lambda>s. cs_tenant_id s = tn \<and> cs_store_id s = sid
       \<and> cs_cashier_user_id s = cashier \<and> cs_status s = OPEN \<and> cs_closed_at s = None) (c_sessions db)) of
     [] \<Rightarrow> None | s # _ \<Rightarrow> Some s)"

text \<open>\<^verbatim>\<open>select(PosCashMovement).where(transaction_id == ...).order_by(created_at.desc())\<close>: of any
  tenant, store and action.\<close>

definition movement_by_transaction :: "cash_db \<Rightarrow> string \<Rightarrow> uuid option" where
  "movement_by_transaction db tx =
    (case sort_key (\<lambda>m. - cm_created_at m)
        (filter (\<lambda>m. cm_transaction_id m = Some tx) (c_movements db)) of
     [] \<Rightarrow> None | m # _ \<Rightarrow> Some (cm_id m))"

definition voucher_movement ::
    "uuid \<Rightarrow> uuid \<Rightarrow> uuid \<Rightarrow> uuid \<Rightarrow> time \<Rightarrow> string \<Rightarrow> money \<Rightarrow> string \<Rightarrow> string \<Rightarrow> uuid \<Rightarrow> string
      \<Rightarrow> cash_movement" where
  "voucher_movement i tn sid user_id now tx amt action reason sale_id trace =
    \<lparr>cm_id = i, cm_tenant_id = tn, cm_store_id = sid, cm_cash_session_id = None,
     cm_cashier_user_id = user_id, cm_actor_user_id = Some user_id, cm_business_date = date_of now,
     cm_timezone = ''UTC'', cm_sale_id = Some sale_id, cm_action = action, cm_amount = amt,
     cm_expected_balance_before = Some 0, cm_expected_balance_after = Some 0,
     cm_transaction_id = Some tx, cm_reason = Some reason, cm_trace_id = trace,
     cm_occurred_at = now, cm_created_at = now\<rparr>"

definition record_non_cash_voucher_movement ::
    "uuid \<Rightarrow> uuid \<Rightarrow> uuid \<Rightarrow> uuid \<Rightarrow> time \<Rightarrow> string \<Rightarrow> money \<Rightarrow> string \<Rightarrow> string \<Rightarrow> uuid \<Rightarrow> string
      \<Rightarrow> cash_db \<Rightarrow> cash_db" where
  "record_non_cash_voucher_movement i tn sid user_id now tx amt action reason sale_id trace db =
    add_movement (voucher_movement i tn sid user_id now tx amt action reason sale_id trace) db"

definition voucher_drawer_event ::
    "uuid \<Rightarrow> pos_advance \<Rightarrow> uuid option \<Rightarrow> uuid \<Rightarrow> time \<Rightarrow> drawer_movement_type \<Rightarrow> drawer_event_type
      \<Rightarrow> string \<Rightarrow> string \<Rightarrow> drawer_event" where
  "voucher_drawer_event i a session_id user_id now mtype etype reason trace =
    \<lparr>de_id = i, de_tenant_id = pa_tenant_id a, de_store_id = pa_store_id a, de_terminal_id = None,
     de_user_id = Some user_id, de_cash_session_id = session_id, de_sale_id = Some (pa_id a),
     de_movement_type = mtype, de_event_type = etype, de_reason = Some reason,
     de_printer_name = None, de_machine_name = None, de_requested_at = Some now,
     de_executed_at = Some now, de_closed_confirmed_at = None, de_result = SUCCESS,
     de_details_json = Some [(''voucher_id'', pa_id a), (''voucher_type'', voucher_text (pa_voucher_type a))],
     de_trace_id = Some trace, de_created_at = now\<rparr>"

definition add_drawer_event :: "drawer_event \<Rightarrow> advance_db \<Rightarrow> advance_db" where
  "add_drawer_event e db = db\<lparr>av_drawer := av_drawer db @ [e]\<rparr>"

end
