(* ===== verification/Advance_Actions.thy ===== *)
theory Advance_Actions
  imports Advance_Model Cash_Sessions
begin

text \<open>
  Advances, the endpoints of \<^verbatim>\<open>routers/pos_advances.py\<close>: issuing, the queries (which expire rows
  as they read), consuming, refunding and expiring one voucher, and the sweep. None of them asks
  for a permission or an idempotency key. An endpoint that returns gives the rows after its
  commit and the reply.
\<close>

section \<open>Replies\<close>

record advance_detail =
  ad_advance :: pos_advance
  ad_events :: "advance_event list"
  ad_store_name :: "string option"
  ad_applied_amount :: "money option"
  ad_remaining :: "money option"
  ad_drawer_event :: "drawer_event option"

definition advance_store_name :: "advance_db \<Rightarrow> uuid \<Rightarrow> string option" where
  "advance_store_name db sid = map_option st_name (find (\<lambda>s. st_id s = sid) (c_stores (av_cash db)))"

definition advance_events :: "advance_db \<Rightarrow> uuid \<Rightarrow> advance_event list" where
  "advance_events db i = sort_key ae_created_at (filter (\<lambda>e. ae_advance_id e = i) (av_events db))"

definition advance_detail_response ::
    "advance_db \<Rightarrow> pos_advance \<Rightarrow> money option \<Rightarrow> money option \<Rightarrow> drawer_event option \<Rightarrow> advance_detail" where
  "advance_detail_response db a applied remaining drawer =
    \<lparr>ad_advance = a, ad_events = advance_events db (pa_id a),
     ad_store_name = advance_store_name db (pa_store_id a), ad_applied_amount = applied,
     ad_remaining = remaining, ad_drawer_event = drawer\<rparr>"

section \<open>Scope\<close>

definition advance_scope ::
    "request_env \<Rightarrow> string option \<Rightarrow> string option \<Rightarrow> advance_db \<Rightarrow> (uuid \<times> uuid \<times> user) res" where
  "advance_scope env tenant_id store_id db =
    bindr (require_active_user (rq_directory env) (rq_token env)) (\<lambda>u.
    bindr (pos_resolve_tenant_id (rq_token env) tenant_id) (\<lambda>tn.
    bindr (pos_resolve_store_id (rq_token env) store_id) (\<lambda>sid.
    bindr (enforce_tenant_scope (rq_token env) (Some tn) False) (\<lambda>_.
    bindr (enforce_store_scope (rq_token env) (Some sid) (c_stores (av_cash db)) False None) (\<lambda>_.
      Inr (tn, sid, u))))))"

definition enforce_row_scope :: "request_env \<Rightarrow> pos_advance \<Rightarrow> advance_db \<Rightarrow> unit res" where
  "enforce_row_scope env a db =
    bindr (enforce_tenant_scope (rq_token env) (Some (pa_tenant_id a)) False) (\<lambda>_.
    bindr (enforce_store_scope (rq_token env) (Some (pa_store_id a)) (c_stores (av_cash db)) False None) (\<lambda>_.
      Inr ()))"

section \<open>Issuing\<close>

record advance_create_request =
  ac_transaction_id :: string
  ac_store_id :: string
  ac_customer_name :: string
  ac_amount :: money
  ac_payment_method :: payment_method
  ac_voucher_type :: voucher_type
  ac_notes :: "string option"

definition new_advance ::
    "request_env \<Rightarrow> advance_create_request \<Rightarrow> uuid \<Rightarrow> uuid \<Rightarrow> user \<Rightarrow> advance_db \<Rightarrow> pos_advance" where
  "new_advance env p tn sid u db =
    (let n = next_advance_number tn sid db
     in \<lparr>pa_id = rq_fresh env 0, pa_tenant_id = tn, pa_store_id = sid, pa_advance_number = n,
         pa_barcode_value = barcode_of sid n, pa_customer_name = py_strip (ac_customer_name p),
         pa_voucher_type = ac_voucher_type p, pa_issued_amount = ac_amount p,
         pa_issued_payment_method = ac_payment_method p, pa_issued_cash_movement_id = None,
         pa_issued_at = rq_now env, pa_expires_at = rq_now env + days 60, pa_status = ACTIVE,
         pa_consumed_sale_id = None, pa_refunded_cash_movement_id = None, pa_refunded_at = None,
         pa_expired_at = None, pa_notes = ac_notes p, pa_created_by_user_id = Some (us_id u),
         pa_created_at = rq_now env, pa_updated_at = Some (rq_now env)\<rparr>)"

text \<open>The table's unique constraints, decided when the row is flushed.\<close>

definition flush_advance :: "pos_advance \<Rightarrow> advance_db \<Rightarrow> advance_db res" where
  "flush_advance a db =
    bindr (require (\<not> list_ex (\<lambda>x. pa_tenant_id x = pa_tenant_id a \<and>
        (pa_store_id x = pa_store_id a \<and> pa_advance_number x = pa_advance_number a
         \<or> pa_barcode_value x = pa_barcode_value a)) (av_advances db))
      (raise0 INTERNAL_ERROR)) (\<lambda>_.
    Inr (db\<lparr>av_advances := av_advances db @ [a]\<rparr>))"

definition issue_in_cash ::
    "request_env \<Rightarrow> advance_create_request \<Rightarrow> uuid \<Rightarrow> uuid \<Rightarrow> user \<Rightarrow> pos_advance \<Rightarrow> advance_db
      \<Rightarrow> (advance_db \<times> pos_advance \<times> drawer_event option) res" where
  "issue_in_cash env p tn sid u a db =
    (case active_session (av_cash db) tn sid (us_id u) of
       None \<Rightarrow> Inl (raise1 BUSINESS_CONFLICT ''open cash session required for CASH issuance'')
     | Some s \<Rightarrow>
         bindr (record_cash_movement (rq_fresh env 2) s tn sid (Some (pa_id a)) ''CASH_IN'' (ac_amount p)
           (Some (ac_transaction_id p)) (Some (us_id u)) (rc_trace_id (rq_context env)) (rq_now env)
           (av_cash db)) (\<lambda>c.
         let a' = a\<lparr>pa_issued_cash_movement_id := movement_by_transaction c (ac_transaction_id p)\<rparr>;
             e = voucher_drawer_event (rq_fresh env 3) a' (Some (cs_id s)) (us_id u) (rq_now env)
               CASH_IN_drawer CASH_IN_DRAWER_OPEN (VOUCHER_ISSUANCE_REASON (ac_voucher_type p))
               (rc_trace_id (rq_context env))
         in Inr (add_drawer_event e (set_advance a' (db\<lparr>av_cash := c\<rparr>)), a', Some e)))"

definition issue_without_cash ::
    "request_env \<Rightarrow> advance_create_request \<Rightarrow> uuid \<Rightarrow> uuid \<Rightarrow> user \<Rightarrow> pos_advance \<Rightarrow> advance_db
      \<Rightarrow> advance_db \<times> pos_advance \<times> drawer_event option" where
  "issue_without_cash env p tn sid u a db =
    (let reason = VOUCHER_ISSUANCE_REASON (ac_voucher_type p);
         c = record_non_cash_voucher_movement (rq_fresh env 2) tn sid (us_id u) (rq_now env)
           (ac_transaction_id p) (ac_amount p) reason (reason @ '':'' @ method_text (ac_payment_method p))
           (pa_id a) (rc_trace_id (rq_context env)) (av_cash db);
         a' = a\<lparr>pa_issued_cash_movement_id := Some (rq_fresh env 2)\<rparr>
     in (set_advance a' (db\<lparr>av_cash := c\<rparr>), a', None))"

definition issued_event :: "request_env \<Rightarrow> advance_create_request \<Rightarrow> user \<Rightarrow> pos_advance \<Rightarrow> advance_event" where
  "issued_event env p u a = advance_event_of (rq_fresh env 1) a ''ISSUED''
     (Issued_payload (ac_transaction_id p) (ac_payment_method p) (ac_voucher_type p))
     (Some (us_id u)) (rq_now env)"

definition take_voucher_payment ::
    "request_env \<Rightarrow> advance_create_request \<Rightarrow> uuid \<Rightarrow> uuid \<Rightarrow> user \<Rightarrow> pos_advance \<Rightarrow> advance_db
      \<Rightarrow> (advance_db \<times> pos_advance \<times> drawer_event option) res" where
  "take_voucher_payment env p tn sid u a db =
    (if ac_payment_method p = CASH then issue_in_cash env p tn sid u a db
     else Inr (issue_without_cash env p tn sid u a db))"

definition issue_advance ::
    "request_env \<Rightarrow> advance_create_request \<Rightarrow> uuid \<Rightarrow> uuid \<Rightarrow> user \<Rightarrow> advance_db \<Rightarrow> advance_detail advance_result" where
  "issue_advance env p tn sid u db =
    bindr (require (\<not> ac_amount p \<le> 0)
      (raise1 VALIDATION_ERROR ''amount must be greater than 0'')) (\<lambda>_.
    let a = new_advance env p tn sid u db in
    bindr (flush_advance a db) (\<lambda>db1.
    bindr (take_voucher_payment env p tn sid u a (add_advance_event (issued_event env p u a) db1))
      (\<lambda>(db2, a', drawer). Inr (db2, advance_detail_response db2 a' None None drawer))))"

definition create_advance ::
    "request_env \<Rightarrow> advance_create_request \<Rightarrow> advance_db \<Rightarrow> advance_detail advance_result" where
  "create_advance env p db =
    bindr (advance_scope env None (Some (ac_store_id p)) db) (\<lambda>(tn, sid, u).
      issue_advance env p tn sid u db)"

section \<open>Queries that expire\<close>

definition list_advances ::
    "request_env \<Rightarrow> string option \<Rightarrow> string option \<Rightarrow> string option \<Rightarrow> string option \<Rightarrow> int \<Rightarrow> int
      \<Rightarrow> advance_db \<Rightarrow> (pos_advance list \<times> int) advance_result" where
  "list_advances env tenant_id store_id status q page page_size db =
    bindr (advance_scope env tenant_id store_id db) (\<lambda>(tn, sid, _).
    let db1 = fst (sweep_expired_advances (rq_fresh env) tn sid None (rq_now env) db);
        rows = filter (\<lambda>a. pa_tenant_id a = tn \<and> pa_store_id a = sid
          \<and> (falsy status \<or> status_text (pa_status a) = py_upper (the status))
          \<and> (falsy q \<or> contains_term (the q) (pa_customer_name a)
             \<or> contains_term (the q) (pa_barcode_value a))) (av_advances db1)
    in Inr (db1, page_of page page_size (sort_key (\<lambda>a. - pa_created_at a) rows)))"

text \<open>\<^verbatim>\<open>code.isdigit()\<close> and \<^verbatim>\<open>int(code)\<close>, on ASCII text.\<close>

definition is_digit :: "char \<Rightarrow> bool" where
  "is_digit c \<longleftrightarrow> 48 \<le> (of_char c :: nat) \<and> (of_char c :: nat) \<le> 57"

definition py_isdigit :: "string \<Rightarrow> bool" where
  "py_isdigit s \<longleftrightarrow> s \<noteq> [] \<and> list_all is_digit s"

definition decimal_value :: "string \<Rightarrow> int" where
  "decimal_value s = foldl (\<lambda>n c. 10 * n + (int (of_char c) - 48)) 0 s"

definition code_matches :: "string \<Rightarrow> pos_advance \<Rightarrow> bool" where
  "code_matches code a \<longleftrightarrow> pa_barcode_value a = code
    \<or> py_isdigit code \<and> pa_advance_number a = decimal_value code"

text \<open>The row is looked for among all tenants and stores, then checked against the token.\<close>

definition lookup_advance ::
    "request_env \<Rightarrow> string \<Rightarrow> advance_db \<Rightarrow> pos_advance option advance_result" where
  "lookup_advance env code db =
    bindr (require_active_user (rq_directory env) (rq_token env)) (\<lambda>u.
    case find (code_matches code) (av_advances db) of
      None \<Rightarrow> Inr (db, None)
    | Some a \<Rightarrow>
        bindr (enforce_row_scope env a db) (\<lambda>_.
        let (db1, a1, _) = expire_advance_if_needed (rq_fresh env 0) (Some (us_id u)) (rq_now env) a db
        in Inr (add_advance_event (advance_event_of (rq_fresh env 1) a1 ''VALIDATED''
               (Validated_payload code (pa_status a1)) (Some (us_id u)) (rq_now env)) db1, Some a1)))"

definition days_to_expiry :: "time \<Rightarrow> pos_advance \<Rightarrow> int" where
  "days_to_expiry now a = max 0 (date_of (pa_expires_at a) - date_of now)"

definition alerts_advances ::
    "request_env \<Rightarrow> int \<Rightarrow> string option \<Rightarrow> string option \<Rightarrow> advance_db
      \<Rightarrow> (pos_advance \<times> int) list advance_result" where
  "alerts_advances env n tenant_id store_id db =
    bindr (advance_scope env tenant_id store_id db) (\<lambda>(tn, sid, u).
    let now = rq_now env; window_end = now + days n;
        db1 = fst (sweep_expired_advances (rq_fresh env) tn sid (Some (us_id u)) now db);
        rows = sort_key pa_expires_at (filter (\<lambda>a. pa_tenant_id a = tn \<and> pa_store_id a = sid
          \<and> pa_status a = ACTIVE \<and> now \<le> pa_expires_at a \<and> pa_expires_at a \<le> window_end) (av_advances db1))
    in Inr (db1, map (\<lambda>a. (a, days_to_expiry now a)) rows))"

definition find_advance :: "uuid \<Rightarrow> advance_db \<Rightarrow> pos_advance res" where
  "find_advance i db = (case find (\<lambda>a. pa_id a = i) (av_advances db) of
     None \<Rightarrow> Inl (raise1 RESOURCE_NOT_FOUND ''advance not found'') | Some a \<Rightarrow> Inr a)"

definition get_advance :: "request_env \<Rightarrow> uuid \<Rightarrow> advance_db \<Rightarrow> advance_detail advance_result" where
  "get_advance env i db =
    bindr (require_active_user (rq_directory env) (rq_token env)) (\<lambda>u.
    bindr (find_advance i db) (\<lambda>a.
    bindr (enforce_row_scope env a db) (\<lambda>_.
    let (db1, a1, _) = expire_advance_if_needed (rq_fresh env 0) (Some (us_id u)) (rq_now env) a db
    in Inr (db1, advance_detail_response db1 a1 None None None))))"

definition sweep_endpoint ::
    "request_env \<Rightarrow> string option \<Rightarrow> string option \<Rightarrow> advance_db \<Rightarrow> uuid list advance_result" where
  "sweep_endpoint env tenant_id store_id db =
    bindr (advance_scope env tenant_id store_id db) (\<lambda>(tn, sid, u).
      Inr (sweep_expired_advances (rq_fresh env) tn sid (Some (us_id u)) (rq_now env) db))"

section \<open>Actions on a voucher\<close>

datatype advance_action =
    REFUND (ra_method: "payment_method option")
  | CONSUME (ra_sale_total: "money option") (ra_sale_id: "string option")
  | EXPIRE_NOW

record advance_action_request =
  aq_transaction_id :: string
  aq_action :: advance_action
  aq_reason :: "string option"

text \<open>\<^verbatim>\<open>UUID(sale_id)\<close> raises unless the text is 32 hexadecimal digits and hyphens.\<close>

definition is_hex :: "char \<Rightarrow> bool" where
  "is_hex c \<longleftrightarrow> is_digit c \<or> 65 \<le> (of_char c :: nat) \<and> (of_char c :: nat) \<le> 70
    \<or> 97 \<le> (of_char c :: nat) \<and> (of_char c :: nat) \<le> 102"

definition valid_uuid :: "string \<Rightarrow> bool" where
  "valid_uuid s = (let h = filter (\<lambda>c. c \<noteq> CHR ''-'') s in length h = 32 \<and> list_all is_hex h)"

definition resolve_sale_id_for_consume ::
    "advance_db \<Rightarrow> pos_advance \<Rightarrow> string option \<Rightarrow> uuid option res" where
  "resolve_sale_id_for_consume db a sale_id =
    (if falsy sale_id then Inr None
     else bindr (require (valid_uuid (the sale_id))
         (raise1 VALIDATION_ERROR ''sale_id must be a valid UUID'')) (\<lambda>_.
       bindr (require (list_ex (\<lambda>s. sp_sale_id s = the sale_id \<and> sp_tenant_id s = pa_tenant_id a
           \<and> sp_store_id s = pa_store_id a) (c_sales (av_cash db)))
         (raise1 RESOURCE_NOT_FOUND ''sale not found'')) (\<lambda>_.
       Inr sale_id)))"

text \<open>The cash a refund takes, and the id of the movement the row will name.\<close>

definition refund_movement ::
    "request_env \<Rightarrow> string \<Rightarrow> payment_method \<Rightarrow> user \<Rightarrow> pos_advance \<Rightarrow> advance_db
      \<Rightarrow> (advance_db \<times> uuid option) res" where
  "refund_movement env tx m u a db =
    (let tn = pa_tenant_id a; sid = pa_store_id a; reason = VOUCHER_REFUND_REASON (pa_voucher_type a);
         trace = rc_trace_id (rq_context env); now = rq_now env
     in if m = CASH then
          (case active_session (av_cash db) tn sid (us_id u) of
             None \<Rightarrow> Inl (raise1 BUSINESS_CONFLICT ''open cash session required for CASH refund'')
           | Some s \<Rightarrow>
               bindr (record_cash_movement (rq_fresh env 2) s tn sid (Some (pa_id a)) ''CASH_OUT''
                 (pa_issued_amount a) (Some tx) (Some (us_id u)) trace now (av_cash db)) (\<lambda>c.
               Inr (add_drawer_event (voucher_drawer_event (rq_fresh env 3) a (Some (cs_id s)) (us_id u) now
                   CASH_OUT_drawer CASH_OUT_DRAWER_OPEN reason trace) (db\<lparr>av_cash := c\<rparr>),
                 movement_by_transaction c tx)))
        else Inr (db\<lparr>av_cash := record_non_cash_voucher_movement (rq_fresh env 2) tn sid (us_id u) now tx
              (pa_issued_amount a) reason (reason @ '':'' @ method_text m) (pa_id a) trace (av_cash db)\<rparr>,
            Some (rq_fresh env 2)))"

text \<open>The row, the event's action and payload, and the two amounts of the reply.\<close>

type_synonym action_outcome =
  "advance_db \<times> pos_advance \<times> string \<times> advance_payload \<times> money option \<times> money option"

definition refund_action ::
    "request_env \<Rightarrow> advance_action_request \<Rightarrow> payment_method option \<Rightarrow> user \<Rightarrow> pos_advance \<Rightarrow> advance_db
      \<Rightarrow> action_outcome res" where
  "refund_action env p m u a db = (case m of
     None \<Rightarrow> Inl (raise1 VALIDATION_ERROR ''refund_method is required'')
   | Some m \<Rightarrow>
       bindr (refund_movement env (aq_transaction_id p) m u a db) (\<lambda>(db1, mv).
       Inr (db1, a\<lparr>pa_status := REFUNDED, pa_refunded_cash_movement_id := mv,
           pa_refunded_at := Some (rq_now env), pa_updated_at := Some (rq_now env)\<rparr>,
         ''REFUNDED'', Refunded_payload m (aq_transaction_id p) (aq_reason p), None, None)))"

definition consume_action ::
    "request_env \<Rightarrow> advance_action_request \<Rightarrow> money option \<Rightarrow> string option \<Rightarrow> pos_advance \<Rightarrow> advance_db
      \<Rightarrow> action_outcome res" where
  "consume_action env p t0 sale_id a db = (case t0 of
     None \<Rightarrow> Inl (raise1 VALIDATION_ERROR ''sale_total is required for CONSUME'')
   | Some t \<Rightarrow>
       let issued = quantize2 (pa_issued_amount a) in
       bindr (require (\<not> t < issued)
         (raise1 VALIDATION_ERROR ''sale total must be >= advance amount'')) (\<lambda>_.
       bindr (resolve_sale_id_for_consume db a sale_id) (\<lambda>sale.
       let remaining = quantize2 (t - issued)
       in Inr (db, a\<lparr>pa_status := CONSUMED, pa_consumed_sale_id := sale,
              pa_updated_at := Some (rq_now env)\<rparr>, ''CONSUMED'',
            Consumed_payload (aq_transaction_id p) t issued remaining sale_id (aq_reason p),
            Some issued, Some remaining))))"

definition expire_action ::
    "request_env \<Rightarrow> advance_action_request \<Rightarrow> pos_advance \<Rightarrow> advance_db \<Rightarrow> action_outcome" where
  "expire_action env p a db =
    (db, expired_row (rq_now env) a, ''EXPIRED'',
     Manual_expiration (aq_transaction_id p) (aq_reason p), None, None)"

definition advance_action_outcome ::
    "request_env \<Rightarrow> advance_action_request \<Rightarrow> user \<Rightarrow> pos_advance \<Rightarrow> advance_db \<Rightarrow> action_outcome res" where
  "advance_action_outcome env p u a db = (case aq_action p of
     REFUND m \<Rightarrow> refund_action env p m u a db
   | CONSUME t s \<Rightarrow> consume_action env p t s a db
   | EXPIRE_NOW \<Rightarrow> Inr (expire_action env p a db))"

definition mutate_advance ::
    "request_env \<Rightarrow> uuid \<Rightarrow> advance_action_request \<Rightarrow> advance_db \<Rightarrow> advance_detail advance_result" where
  "mutate_advance env i p db =
    bindr (require_active_user (rq_directory env) (rq_token env)) (\<lambda>u.
    bindr (find_advance i db) (\<lambda>a0.
    bindr (enforce_row_scope env a0 db) (\<lambda>_.
    let (db1, a, _) = expire_advance_if_needed (rq_fresh env 0) (Some (us_id u)) (rq_now env) a0 db in
    bindr (require (pa_status a \<notin> set TERMINAL_STATUSES)
      (raise1 BUSINESS_CONFLICT ''advance is terminal'')) (\<lambda>_.
    bindr (advance_action_outcome env p u a db1) (\<lambda>(db2, a', action, payload, applied, remaining).
    let db3 = add_advance_event (advance_event_of (rq_fresh env 1) a' action payload (Some (us_id u))
          (rq_now env)) (set_advance a' db2)
    in Inr (db3, advance_detail_response db3 a' applied remaining None))))))"

end
