(* ===== verification/Advance_Ledger.thy ===== *)
theory Advance_Ledger
  imports Advance_Actions Cash_Invariants
begin

text \<open>
  Advances, the ledger of the vouchers. An abstract machine has five moves on one voucher:
  it is issued with a movement that takes its amount in, and while it is active it may lapse, be
  consumed, or be refunded with a movement that pays the amount out. Every endpoint is shown to
  be a sequence of moves, whose invariant gives the life cycle and the books of every voucher.
\<close>

section \<open>The abstract machine\<close>

text \<open>The signed value of a movement for the voucher it names.\<close>

definition voucher_value :: "cash_movement \<Rightarrow> money" where
  "voucher_value m =
    (if cm_action m \<in> {''CASH_IN'', ''ADVANCE_ISSUANCE'', ''GIFT_CARD_ISSUANCE''} then cm_amount m
     else if cm_action m \<in> {''CASH_OUT'', ''ADVANCE_REFUND'', ''GIFT_CARD_REFUND''} then - cm_amount m
     else 0)"

definition movements_naming :: "cash_db \<Rightarrow> uuid \<Rightarrow> cash_movement list" where
  "movements_naming c i = filter (\<lambda>m. cm_sale_id m = Some i) (c_movements c)"

text \<open>What of a row never changes.\<close>

definition advance_core :: "pos_advance \<Rightarrow> uuid \<times> uuid \<times> uuid \<times> int \<times> string \<times> money \<times> time \<times> time" where
  "advance_core a = (pa_id a, pa_tenant_id a, pa_store_id a, pa_advance_number a, pa_barcode_value a,
     pa_issued_amount a, pa_issued_at a, pa_expires_at a)"

definition new_row_ok :: "pos_advance \<Rightarrow> advance_db \<Rightarrow> bool" where
  "new_row_ok a db \<longleftrightarrow> 0 < pa_issued_amount a \<and> pa_expires_at a = pa_issued_at a + days 60
    \<and> pa_status a = ACTIVE \<and> pa_consumed_sale_id a = None \<and> pa_refunded_at a = None \<and> pa_expired_at a = None
    \<and> (\<forall>x \<in> set (av_advances db). pa_id x \<noteq> pa_id a \<and> (pa_tenant_id x = pa_tenant_id a \<longrightarrow>
        (pa_store_id x, pa_advance_number x) \<noteq> (pa_store_id a, pa_advance_number a)
        \<and> pa_barcode_value x \<noteq> pa_barcode_value a))
    \<and> movements_naming (av_cash db) (pa_id a) = []"

definition consumed_row :: "uuid option \<Rightarrow> time \<Rightarrow> pos_advance \<Rightarrow> pos_advance" where
  "consumed_row sale now a =
    a\<lparr>pa_status := CONSUMED, pa_consumed_sale_id := sale, pa_updated_at := Some now\<rparr>"

definition refunded_row :: "uuid option \<Rightarrow> time \<Rightarrow> pos_advance \<Rightarrow> pos_advance" where
  "refunded_row mv now a = a\<lparr>pa_status := REFUNDED, pa_refunded_cash_movement_id := mv,
     pa_refunded_at := Some now, pa_updated_at := Some now\<rparr>"

inductive voucher_move :: "advance_db \<Rightarrow> advance_db \<Rightarrow> bool" where
  remarks: "av_cash db' = av_cash db \<Longrightarrow> av_advances db' = av_advances db \<Longrightarrow> voucher_move db db'"
| elsewhere: "cash_step (av_cash db) (av_cash db') \<Longrightarrow> av_advances db' = av_advances db \<Longrightarrow>
    c_movements (av_cash db') = c_movements (av_cash db) @ ms \<Longrightarrow>
    \<forall>m \<in> set ms. \<forall>a \<in> set (av_advances db). cm_sale_id m \<noteq> Some (pa_id a) \<Longrightarrow> voucher_move db db'"
| issues: "new_row_ok a db \<Longrightarrow> cash_step (av_cash db) (av_cash db') \<Longrightarrow>
    c_movements (av_cash db') = c_movements (av_cash db) @ [m] \<Longrightarrow>
    cm_sale_id m = Some (pa_id a) \<Longrightarrow> voucher_value m = pa_issued_amount a \<Longrightarrow>
    av_advances db' = av_advances db @ [a] \<Longrightarrow> voucher_move db db'"
| lapses: "a \<in> set (av_advances db) \<Longrightarrow> pa_status a = ACTIVE \<Longrightarrow> voucher_move db (set_advance (expired_row now a) db)"
| consumes: "a \<in> set (av_advances db) \<Longrightarrow> pa_status a = ACTIVE \<Longrightarrow>
    voucher_move db (set_advance (consumed_row sale now a) db)"
| refunds: "a \<in> set (av_advances db) \<Longrightarrow> pa_status a = ACTIVE \<Longrightarrow> cash_step (av_cash db) (av_cash db') \<Longrightarrow>
    c_movements (av_cash db') = c_movements (av_cash db) @ [m] \<Longrightarrow> cm_sale_id m = Some (pa_id a) \<Longrightarrow>
    voucher_value m = - pa_issued_amount a \<Longrightarrow>
    av_advances db' = av_advances (set_advance (refunded_row mv now a) db) \<Longrightarrow> voucher_move db db'"

section \<open>Invariant\<close>

definition row_ok :: "pos_advance \<Rightarrow> bool" where
  "row_ok a \<longleftrightarrow> 0 < pa_issued_amount a \<and> pa_expires_at a = pa_issued_at a + days 60
    \<and> (pa_expired_at a \<noteq> None \<longleftrightarrow> pa_status a = EXPIRED)
    \<and> (pa_refunded_at a \<noteq> None \<longleftrightarrow> pa_status a = REFUNDED)
    \<and> (pa_consumed_sale_id a \<noteq> None \<longrightarrow> pa_status a = CONSUMED)"

definition keys_ok :: "advance_db \<Rightarrow> bool" where
  "keys_ok db \<longleftrightarrow> distinct (map pa_id (av_advances db))
    \<and> distinct (map (\<lambda>a. (pa_tenant_id a, pa_store_id a, pa_advance_number a)) (av_advances db))
    \<and> distinct (map (\<lambda>a. (pa_tenant_id a, pa_barcode_value a)) (av_advances db))"

text \<open>The movements that name a voucher: its issue, and its refund when it is refunded.\<close>

definition book_of :: "pos_advance \<Rightarrow> money list" where
  "book_of a = pa_issued_amount a # (if pa_status a = REFUNDED then [- pa_issued_amount a] else [])"

definition books_ok :: "advance_db \<Rightarrow> bool" where
  "books_ok db \<longleftrightarrow> (\<forall>a \<in> set (av_advances db).
      map voucher_value (movements_naming (av_cash db) (pa_id a)) = book_of a)"

definition voucher_invariant :: "advance_db \<Rightarrow> bool" where
  "voucher_invariant db \<longleftrightarrow> keys_ok db \<and> (\<forall>a \<in> set (av_advances db). row_ok a) \<and> books_ok db"

section \<open>Rows after a change\<close>

lemma set_advance_simps [simp]:
  "av_cash (set_advance a db) = av_cash db" "av_events (set_advance a db) = av_events db"
  "av_drawer (set_advance a db) = av_drawer db"
  "length (av_advances (set_advance a db)) = length (av_advances db)"
  by (simp_all add: set_advance_def)

lemma add_event_simps [simp]:
  "av_cash (add_advance_event e db) = av_cash db" "av_advances (add_advance_event e db) = av_advances db"
  "av_drawer (add_advance_event e db) = av_drawer db" "av_cash (add_drawer_event d db) = av_cash db"
  "av_advances (add_drawer_event d db) = av_advances db"
  by (simp_all add: add_advance_event_def add_drawer_event_def)

lemma set_advance_rows:
  assumes "distinct (map pa_id (av_advances db))" and "a \<in> set (av_advances db)" and "pa_id a' = pa_id a"
  shows "set (av_advances (set_advance a' db)) = insert a' (set (av_advances db) - {a})"
  using assms key_unique [OF assms(1)] by (auto simp: set_advance_def image_iff)

lemma row_core [simp]:
  "advance_core (expired_row now a) = advance_core a" "advance_core (consumed_row sale now a) = advance_core a"
  "advance_core (refunded_row mv now a) = advance_core a"
  "pa_status (expired_row now a) = EXPIRED" "pa_status (consumed_row sale now a) = CONSUMED"
  "pa_status (refunded_row mv now a) = REFUNDED"
  by (simp_all add: advance_core_def expired_row_def consumed_row_def refunded_row_def)

lemma core_fields:
  "advance_core a' = advance_core a \<longleftrightarrow> pa_id a' = pa_id a \<and> pa_tenant_id a' = pa_tenant_id a
    \<and> pa_store_id a' = pa_store_id a \<and> pa_advance_number a' = pa_advance_number a
    \<and> pa_barcode_value a' = pa_barcode_value a \<and> pa_issued_amount a' = pa_issued_amount a
    \<and> pa_issued_at a' = pa_issued_at a \<and> pa_expires_at a' = pa_expires_at a"
  by (simp add: advance_core_def)

lemma set_advance_core:
  assumes "distinct (map pa_id (av_advances db))" and "a \<in> set (av_advances db)"
    and "advance_core a' = advance_core a"
  shows "map advance_core (av_advances (set_advance a' db)) = map advance_core (av_advances db)"
  using assms key_unique [OF assms(1)] by (auto simp: set_advance_def core_fields)

lemma keys_ok_core:
  assumes "map advance_core (av_advances db') = map advance_core (av_advances db)"
  shows "keys_ok db' = keys_ok db"
proof -
  have fields: "map (f \<circ> advance_core) (av_advances db') = map (f \<circ> advance_core) (av_advances db)"
    for f :: "_ \<Rightarrow> 'b"
    using assms by (metis map_map)
  have 1: "map pa_id (av_advances db') = map pa_id (av_advances db)"
    using fields [of fst] by (simp add: comp_def advance_core_def)
  have 2: "map (\<lambda>a. (pa_tenant_id a, pa_store_id a, pa_advance_number a)) (av_advances db') =
      map (\<lambda>a. (pa_tenant_id a, pa_store_id a, pa_advance_number a)) (av_advances db)"
    using fields [of "\<lambda>(i, tn, sid, n, b, _). (tn, sid, n)"] by (simp add: comp_def advance_core_def)
  have 3: "map (\<lambda>a. (pa_tenant_id a, pa_barcode_value a)) (av_advances db') =
      map (\<lambda>a. (pa_tenant_id a, pa_barcode_value a)) (av_advances db)"
    using fields [of "\<lambda>(i, tn, sid, n, b, _). (tn, b)"] by (simp add: comp_def advance_core_def)
  show ?thesis unfolding keys_ok_def 1 2 3 ..
qed

lemma row_ok_active:
  assumes "row_ok a" and "pa_status a = ACTIVE"
  shows "row_ok (expired_row now a)" "row_ok (consumed_row sale now a)" "row_ok (refunded_row mv now a)"
  using assms by (simp_all add: row_ok_def expired_row_def consumed_row_def refunded_row_def)

section \<open>The moves keep the invariant\<close>

text \<open>A voucher that is active gets another status; the movements that name the others stay.\<close>

lemma settle_keeps:
  assumes inv: "voucher_invariant db" and a: "a \<in> set (av_advances db)"
    and core: "advance_core a' = advance_core a" and ok: "row_ok a'"
    and rows: "av_advances db' = av_advances (set_advance a' db)"
    and mvs: "\<And>x. x \<in> set (av_advances db) \<Longrightarrow> pa_id x \<noteq> pa_id a \<Longrightarrow>
      movements_naming (av_cash db') (pa_id x) = movements_naming (av_cash db) (pa_id x)"
    and book: "map voucher_value (movements_naming (av_cash db') (pa_id a)) = book_of a'"
  shows "voucher_invariant db'"
proof -
  have dist: "distinct (map pa_id (av_advances db))" using inv by (simp add: voucher_invariant_def keys_ok_def)
  have id: "pa_id a' = pa_id a" using core by (simp add: core_fields)
  have set': "set (av_advances db') = insert a' (set (av_advances db) - {a})"
    using set_advance_rows [OF dist a id] rows by simp
  have other: "pa_id x \<noteq> pa_id a" if "x \<in> set (av_advances db) - {a}" for x
    using that key_unique [OF dist _ a] by blast
  have "keys_ok db'"
    using inv keys_ok_core [of db' db] set_advance_core [OF dist a core] rows by (simp add: voucher_invariant_def)
  moreover have "\<forall>x \<in> set (av_advances db'). row_ok x"
    using inv ok set' by (auto simp: voucher_invariant_def)
  moreover have "books_ok db'"
    unfolding books_ok_def set'
  proof
    fix x assume "x \<in> insert a' (set (av_advances db) - {a})"
    then consider "x = a'" | "x \<in> set (av_advances db)" "pa_id x \<noteq> pa_id a" using other by blast
    then show "map voucher_value (movements_naming (av_cash db') (pa_id x)) = book_of x"
    proof cases
      case 1
      then show ?thesis using book id by simp
    next
      case 2
      then show ?thesis using inv mvs by (simp add: voucher_invariant_def books_ok_def)
    qed
  qed
  ultimately show ?thesis by (simp add: voucher_invariant_def)
qed

lemma book_settled:
  assumes "voucher_invariant db" and "a \<in> set (av_advances db)" and "pa_status a = ACTIVE"
  shows "map voucher_value (movements_naming (av_cash db) (pa_id a)) = [pa_issued_amount a]"
  using assms by (simp add: voucher_invariant_def books_ok_def book_of_def)

lemma voucher_move_keeps: "voucher_move db db' \<Longrightarrow> voucher_invariant db \<Longrightarrow> voucher_invariant db'"
proof (induction rule: voucher_move.induct)
  case (remarks db' db)
  then show ?case by (simp add: voucher_invariant_def keys_ok_def books_ok_def)
next
  case (elsewhere db db' ms)
  have "movements_naming (av_cash db') (pa_id a) = movements_naming (av_cash db) (pa_id a)"
    if "a \<in> set (av_advances db)" for a
    using elsewhere that by (auto simp: movements_naming_def filter_empty_conv)
  then show ?case using elsewhere by (simp add: voucher_invariant_def keys_ok_def books_ok_def)
next
  case (issues a db db' m)
  have other: "movements_naming (av_cash db') (pa_id x) = movements_naming (av_cash db) (pa_id x)"
    if "x \<in> set (av_advances db)" for x
    using issues that by (auto simp: movements_naming_def new_row_ok_def)
  have own: "map voucher_value (movements_naming (av_cash db') (pa_id a)) = book_of a"
    using issues by (simp add: movements_naming_def new_row_ok_def book_of_def)
  have "keys_ok db'"
    using issues by (auto simp: voucher_invariant_def keys_ok_def new_row_ok_def)
  moreover have "row_ok a" using issues by (simp add: row_ok_def new_row_ok_def)
  ultimately show ?case using issues other own by (auto simp: voucher_invariant_def books_ok_def)
next
  case (lapses a db now)
  then have "row_ok a" by (simp add: voucher_invariant_def)
  then show ?case
    using lapses row_ok_active book_settled [OF lapses(3,1,2)]
    by (intro settle_keeps [OF lapses(3,1), of "expired_row now a"])
      (simp_all add: book_of_def expired_row_def advance_core_def)
next
  case (consumes a db sale now)
  then have "row_ok a" by (simp add: voucher_invariant_def)
  then show ?case
    using consumes row_ok_active book_settled [OF consumes(3,1,2)]
    by (intro settle_keeps [OF consumes(3,1), of "consumed_row sale now a"])
      (simp_all add: book_of_def consumed_row_def advance_core_def)
next
  case (refunds a db db' m mv now)
  then have ok: "row_ok (refunded_row mv now a)" using row_ok_active by (simp add: voucher_invariant_def)
  show ?case
  proof (rule settle_keeps [OF refunds.prems refunds(1), of "refunded_row mv now a"])
    show "movements_naming (av_cash db') (pa_id x) = movements_naming (av_cash db) (pa_id x)"
      if "x \<in> set (av_advances db)" "pa_id x \<noteq> pa_id a" for x
      using refunds that by (simp add: movements_naming_def)
    show "map voucher_value (movements_naming (av_cash db') (pa_id a)) = book_of (refunded_row mv now a)"
      using refunds book_settled [OF refunds.prems refunds(1,2)]
      by (simp add: movements_naming_def book_of_def refunded_row_def)
  qed (use refunds ok in simp_all)
qed

lemma voucher_moves_keep: "voucher_move\<^sup>*\<^sup>* db db' \<Longrightarrow> voucher_invariant db \<Longrightarrow> voucher_invariant db'"
  by (induction rule: rtranclp_induct) (auto intro: voucher_move_keeps)

end
