(* ===== verification/Advance_Steps.thy ===== *)
theory Advance_Steps
  imports Advance_Ledger
begin

text \<open>
  Advances, the endpoints as steps on the rows, beside the operations of the cash router and the
  postings and consumptions of a sale. Every step is a sequence of moves of the abstract machine,
  and its cash is a sequence of steps of the cash ledger, so both invariants hold in every
  reachable state.
\<close>

section \<open>Steps\<close>

text \<open>The id a request draws for a new voucher is new: no voucher has it and no movement names it.\<close>

definition fresh_advance :: "request_env \<Rightarrow> advance_db \<Rightarrow> bool" where
  "fresh_advance env db \<longleftrightarrow> rq_fresh env 0 \<notin> pa_id ` set (av_advances db)
    \<and> movements_naming (av_cash db) (rq_fresh env 0) = []"

text \<open>The consumption of a voucher by the checkout of a sale.\<close>

definition consume_for_sale ::
    "uuid \<Rightarrow> uuid \<Rightarrow> string \<Rightarrow> uuid \<Rightarrow> time \<Rightarrow> pos_advance \<Rightarrow> advance_db \<Rightarrow> advance_db" where
  "consume_for_sale i sale_id tx actor now a db =
    (let a' = a\<lparr>pa_status := CONSUMED, pa_consumed_sale_id := Some sale_id, pa_updated_at := Some now\<rparr>
     in add_advance_event (advance_event_of i a' ''CONSUMED'' (Checkout_payload sale_id tx) (Some actor) now)
          (set_advance a' db))"

text \<open>\<open>Cash\<close> is a step of the cash ledger whose movements name no voucher: those of the cash router
  name nothing, those of a sale name the sale.\<close>

inductive advance_step :: "advance_db \<Rightarrow> advance_db \<Rightarrow> bool" where
  Create: "fresh_advance env db \<Longrightarrow> create_advance env p db = Inr (db', r) \<Longrightarrow> advance_step db db'"
| List: "list_advances env tenant_id store_id status q page page_size db = Inr (db', r1) \<Longrightarrow> advance_step db db'"
| Lookup: "lookup_advance env code db = Inr (db', r2) \<Longrightarrow> advance_step db db'"
| Alerts: "alerts_advances env n tenant_id store_id db = Inr (db', r3) \<Longrightarrow> advance_step db db'"
| Get: "get_advance env i db = Inr (db', r) \<Longrightarrow> advance_step db db'"
| Mutate: "mutate_advance env i pa db = Inr (db', r) \<Longrightarrow> advance_step db db'"
| Sweep: "sweep_endpoint env tenant_id store_id db = Inr (db', r4) \<Longrightarrow> advance_step db db'"
| Drawer: "advance_step db (db\<lparr>av_drawer := es\<rparr>)"
| Cash: "cash_step (av_cash db) c \<Longrightarrow> c_movements c = c_movements (av_cash db) @ ms \<Longrightarrow>
    \<forall>m \<in> set ms. \<forall>a \<in> set (av_advances db). cm_sale_id m \<noteq> Some (pa_id a) \<Longrightarrow>
    advance_step db (db\<lparr>av_cash := c\<rparr>)"
| Checkout: "a \<in> set (av_advances db) \<Longrightarrow> pa_status a = ACTIVE \<Longrightarrow>
    advance_step db (consume_for_sale i sale_id tx actor now a db)"

definition advance_start :: "advance_db \<Rightarrow> bool" where
  "advance_start db \<longleftrightarrow> av_advances db = [] \<and> cash_start (av_cash db)"

definition advance_reachable :: "advance_db \<Rightarrow> bool" where
  "advance_reachable db \<longleftrightarrow> (\<exists>db0. advance_start db0 \<and> advance_step\<^sup>*\<^sup>* db0 db)"

section \<open>The cash router's movements name no sale\<close>

lemma cash_session_body_movement:
  assumes "cash_session_body env p tn (sid, u) db = Inr (db', s)"
  shows "\<exists>m. c_movements db' = c_movements db @ [m] \<and> cm_sale_id m = None"
  using assms
  by (cases "sq_action p")
    (auto simp: cash_session_body_def open_cash_session_def bindr_Inr_iff Let_def session_movement_def
      split: option.splits)

lemma close_day_body_movement:
  assumes "close_day_body env p tn (sid, u) db = Inr (db', c)"
  shows "\<exists>m. c_movements db' = c_movements db @ [m] \<and> cm_sale_id m = None"
  using assms
  by (auto simp: close_day_body_def commit_day_close_def bindr_Inr_iff Let_def day_close_movement_def)

lemma cut_cash_out_movement:
  "cut_cash_out i tn sid s u amt tx r tr now db = Inr db1 \<Longrightarrow>
    \<exists>m. c_movements db1 = c_movements db @ [m] \<and> cm_sale_id m = None"
  by (drule cut_cash_out_Inr(2)) (simp add: session_movement_def)

lemma create_cut_body_movement:
  assumes "create_cut_body env p tn sid u db = Inr (db', c)"
  shows "\<exists>ms. c_movements db' = c_movements db @ ms \<and> (\<forall>m \<in> set ms. cm_sale_id m = None)"
  using assms
proof (cases rule: create_cut_body_cases)
  case (1 s f t tz q)
  from 1(4) show ?thesis
  proof (elim disjE exE conjE)
    assume "db' = db\<lparr>c_cuts := c_cuts db @ [c]\<rparr>"
    then show ?thesis by simp
  next
    fix i amt tx r tr now db1
    assume "db' = db1\<lparr>c_cuts := c_cuts db1 @ [c]\<rparr>" "cut_cash_out i tn sid s u amt tx r tr now db = Inr db1"
    then show ?thesis using cut_cash_out_movement [of i tn sid s u amt tx r tr now db db1] by fastforce
  qed
qed

lemma cut_action_body_movement:
  assumes "cut_action_body env p i tn sid u db = Inr (db', c')"
  shows "\<exists>ms. c_movements db' = c_movements db @ ms \<and> (\<forall>m \<in> set ms. cm_sale_id m = None)"
  using assms
proof (cases rule: cut_action_body_cases)
  case (1 c)
  from 1(6) show ?thesis
  proof (elim disjE exE conjE)
    assume "db' = set_cut c' db"
    then show ?thesis by (simp add: set_cut_def)
  next
    fix s amt tx r tr db1
    assume "db' = set_cut c' db1" "cut_cash_out (rq_fresh env 0) tn sid s u amt tx r tr (rq_now env) db = Inr db1"
    then show ?thesis
      using cut_cash_out_movement [of "rq_fresh env 0" tn sid s u amt tx r tr "rq_now env" db db1]
      by (fastforce simp: set_cut_def)
  qed
qed

text \<open>So each of the router's operations is a step \<open>Cash\<close>.\<close>

lemma cash_router_step:
  assumes "cash_step (av_cash db) c"
    and "\<exists>ms. c_movements c = c_movements (av_cash db) @ ms \<and> (\<forall>m \<in> set ms. cm_sale_id m = None)"
  shows "advance_step db (db\<lparr>av_cash := c\<rparr>)"
  using assms by (auto intro: advance_step.Cash)

section \<open>The endpoints as moves\<close>

lemma expire_moves:
  assumes "a \<in> set (av_advances db)"
  shows "voucher_move\<^sup>*\<^sup>* db (fst (expire_advance_if_needed i actor now a db))"
proof (cases "expiry_due now a")
  case True
  let ?db = "set_advance (expired_row now a) db"
  have "voucher_move db ?db" using True assms by (auto simp: expiry_due_def intro: voucher_move.lapses)
  moreover have "voucher_move ?db (add_advance_event e ?db)" for e by (rule voucher_move.remarks) simp_all
  ultimately show ?thesis
    using True by (auto simp: expire_advance_if_needed_def Let_def intro: rtranclp.rtrancl_into_rtrancl)
qed (simp add: expire_advance_if_needed_def)

lemma expire_rows:
  assumes "distinct (map pa_id (av_advances db))" and "a \<in> set (av_advances db)" and "expiry_due now a"
  shows "av_advances (fst (expire_advance_if_needed i actor now a db)) =
    map (\<lambda>x. if x = a then expired_row now x else x) (av_advances db)"
  using assms key_unique [OF assms(1)]
  by (auto simp: expire_advance_if_needed_def Let_def set_advance_def expired_row_def)

lemma expire_cash [simp]: "av_cash (fst (expire_advance_if_needed i actor now a db)) = av_cash db"
  by (simp add: expire_advance_if_needed_def Let_def)

text \<open>The sweep expires exactly the rows it selected.\<close>

lemma sweep_rows_spec:
  assumes "voucher_invariant db" and "set rows \<subseteq> set (av_advances db)" and "distinct rows"
    and "\<forall>a \<in> set rows. expiry_due now a"
  shows "voucher_move\<^sup>*\<^sup>* db (sweep_rows fresh actor now rows db)
    \<and> av_advances (sweep_rows fresh actor now rows db) =
      map (\<lambda>a. if a \<in> set rows then expired_row now a else a) (av_advances db)
    \<and> av_cash (sweep_rows fresh actor now rows db) = av_cash db"
  using assms
proof (induction rows arbitrary: db fresh)
  case (Cons a rows)
  let ?db = "fst (expire_advance_if_needed (fresh 0) actor now a db)"
  let ?db' = "sweep_rows (\<lambda>i. fresh (Suc i)) actor now rows ?db"
  have dist: "distinct (map pa_id (av_advances db))"
    using Cons.prems(1) by (simp add: voucher_invariant_def keys_ok_def)
  have a: "a \<in> set (av_advances db)" "expiry_due now a" using Cons.prems by auto
  have rows: "av_advances ?db = map (\<lambda>x. if x = a then expired_row now x else x) (av_advances db)"
    by (rule expire_rows [OF dist a])
  have mv: "voucher_move\<^sup>*\<^sup>* db ?db" by (rule expire_moves [OF a(1)])
  have "set rows \<subseteq> set (av_advances ?db)" using Cons.prems(2,3) rows by auto
  then have IH: "voucher_move\<^sup>*\<^sup>* ?db ?db'"
    "av_advances ?db' = map (\<lambda>x. if x \<in> set rows then expired_row now x else x) (av_advances ?db)"
    "av_cash ?db' = av_cash ?db"
    using Cons.IH [OF voucher_moves_keep [OF mv Cons.prems(1)]] Cons.prems(3,4) by auto
  have notin: "expired_row now a \<notin> set rows"
    using Cons.prems(4) by (auto simp: expiry_due_def dest!: bspec)
  have "av_advances ?db' = map (\<lambda>x. if x \<in> set (a # rows) then expired_row now x else x) (av_advances db)"
    using IH(2) rows notin Cons.prems(3) by auto
  then show ?case using rtranclp_trans [OF mv IH(1)] IH(3) by simp
qed simp

lemma sweep_spec:
  fixes db fresh tn sid actor now
  assumes inv: "voucher_invariant db"
  defines "db' \<equiv> fst (sweep_expired_advances fresh tn sid actor now db)"
  shows "voucher_move\<^sup>*\<^sup>* db db'" and "av_cash db' = av_cash db"
    and "av_advances db' = map (\<lambda>a. if pa_tenant_id a = tn \<and> pa_store_id a = sid \<and> expiry_due now a
      then expired_row now a else a) (av_advances db)"
proof -
  have "distinct (due_rows tn sid now db)"
    using inv by (auto simp: due_rows_def voucher_invariant_def keys_ok_def distinct_map)
  then have "voucher_move\<^sup>*\<^sup>* db (sweep_rows fresh actor now (due_rows tn sid now db) db)
    \<and> av_advances (sweep_rows fresh actor now (due_rows tn sid now db) db) =
      map (\<lambda>a. if a \<in> set (due_rows tn sid now db) then expired_row now a else a) (av_advances db)
    \<and> av_cash (sweep_rows fresh actor now (due_rows tn sid now db) db) = av_cash db"
    by (intro sweep_rows_spec [OF inv]) (auto simp: due_rows_def)
  then show "voucher_move\<^sup>*\<^sup>* db db'" "av_cash db' = av_cash db"
    "av_advances db' = map (\<lambda>a. if pa_tenant_id a = tn \<and> pa_store_id a = sid \<and> expiry_due now a
      then expired_row now a else a) (av_advances db)"
    by (auto simp: db'_def sweep_expired_advances_def Let_def due_rows_def)
qed

lemma active_session_Some:
  assumes "active_session db tn sid c = Some s"
  shows "s \<in> set (c_sessions db)" "cs_status s = OPEN" "cs_tenant_id s = tn" "cs_store_id s = sid"
    "cs_cashier_user_id s = c"
proof -
  let ?l = "filter (\<lambda>s. cs_tenant_id s = tn \<and> cs_store_id s = sid \<and> cs_cashier_user_id s = c
    \<and> cs_status s = OPEN \<and> cs_closed_at s = None) (c_sessions db)"
  obtain ss where "sort_key (\<lambda>s. - cs_opened_at s) ?l = s # ss"
    using assms by (auto simp: active_session_def split: list.splits)
  then have "s \<in> set (sort_key (\<lambda>s. - cs_opened_at s) ?l)" by simp
  then show "s \<in> set (c_sessions db)" "cs_status s = OPEN" "cs_tenant_id s = tn" "cs_store_id s = sid"
    "cs_cashier_user_id s = c" by auto
qed

lemma posting_movement:
  assumes "active_session c tn sid k = Some s" and "action \<in> {''CASH_IN'', ''CASH_OUT''}"
    and run: "record_cash_movement j s tn sid (Some i) action amt tx actor trace now c = Inr c'"
  obtains m where "cash_step c c'" "c_movements c' = c_movements c @ [m]" "cm_sale_id m = Some i"
    "voucher_value m = (if action = ''CASH_IN'' then amt else - amt)"
proof -
  note s = active_session_Some [OF assms(1)]
  have st: "cash_step c c'" by (rule cash_step.Post [OF s(1-4) _ run]) (use assms(2) in auto)
  obtain after m where m: "c' = add_movement m (set_session (s\<lparr>cs_expected_cash := after\<rparr>) c)"
    "m = session_movement j tn sid s actor (Some i) action amt (cs_expected_cash s) after tx None trace now"
    using record_cash_movement_Inr [OF run] by blast
  show thesis
    by (rule that [OF st, of m]) (use m assms(2) in \<open>auto simp: session_movement_def voucher_value_def\<close>)
qed

definition VOUCHER_REASONS :: "string list" where
  "VOUCHER_REASONS = [''ADVANCE_ISSUANCE'', ''GIFT_CARD_ISSUANCE'', ''ADVANCE_REFUND'', ''GIFT_CARD_REFUND'']"

lemma voucher_reasons_outside:
  "list_all (\<lambda>a. normalize_movement_type a \<notin> set RECONCILIATION_ACTIONS) VOUCHER_REASONS"
  by code_simp

lemma voucher_reasons [simp]:
  "VOUCHER_ISSUANCE_REASON v \<in> set VOUCHER_REASONS" "VOUCHER_REFUND_REASON v \<in> set VOUCHER_REASONS"
  by (cases v; simp add: VOUCHER_REASONS_def)+

lemma voucher_step:
  assumes "a \<in> set VOUCHER_REASONS"
  shows "cash_step c (record_non_cash_voucher_movement j tn sid k now tx amt a reason i trace c)"
proof -
  have "normalize_movement_type a \<notin> set RECONCILIATION_ACTIONS"
    using assms voucher_reasons_outside unfolding list_all_iff by blast
  then show ?thesis
    unfolding record_non_cash_voucher_movement_def
    by (intro cash_step.Voucher) (simp_all add: voucher_movement_def)
qed

section \<open>Issuing\<close>

lemma set_advance_last:
  assumes "av_advances db = xs @ [a]" and "pa_id a \<notin> pa_id ` set xs" and "pa_id a' = pa_id a"
  shows "av_advances (set_advance a' db) = xs @ [a']"
proof -
  have "map (\<lambda>x. if pa_id x = pa_id a' then a' else x) xs = xs"
    using assms(2,3) by (intro map_idI) (auto simp: image_iff)
  then show ?thesis using assms(1,3) by (simp add: set_advance_def)
qed

lemma new_advance_simps [simp]:
  "pa_id (new_advance env p tn sid u db) = rq_fresh env 0"
  "pa_tenant_id (new_advance env p tn sid u db) = tn"
  "pa_store_id (new_advance env p tn sid u db) = sid"
  "pa_advance_number (new_advance env p tn sid u db) = next_advance_number tn sid db"
  "pa_barcode_value (new_advance env p tn sid u db) = barcode_of sid (next_advance_number tn sid db)"
  "pa_status (new_advance env p tn sid u db) = ACTIVE"
  "pa_issued_amount (new_advance env p tn sid u db) = ac_amount p"
  by (simp_all add: new_advance_def Let_def)

text \<open>What the two ways of taking the money in have in common.\<close>

lemma issue_movement:
  assumes run: "take_voucher_payment env p tn sid u a db = Inr (db', a', d)"
    and last: "av_advances db = xs @ [a]" "pa_id a \<notin> pa_id ` set xs"
  obtains m mv where "cash_step (av_cash db) (av_cash db')"
    "c_movements (av_cash db') = c_movements (av_cash db) @ [m]" "cm_sale_id m = Some (pa_id a)"
    "voucher_value m = ac_amount p" "a' = a\<lparr>pa_issued_cash_movement_id := mv\<rparr>"
    "av_advances db' = xs @ [a']" "av_events db' = av_events db"
proof (cases "ac_payment_method p = CASH")
  case True
  then have run: "issue_in_cash env p tn sid u a db = Inr (db', a', d)"
    using run by (simp add: take_voucher_payment_def)
  then obtain s where s: "active_session (av_cash db) tn sid (us_id u) = Some s"
    by (auto simp: issue_in_cash_def split: option.splits)
  then obtain c where c: "record_cash_movement (rq_fresh env 2) s tn sid (Some (pa_id a)) ''CASH_IN'' (ac_amount p)
      (Some (ac_transaction_id p)) (Some (us_id u)) (rc_trace_id (rq_context env)) (rq_now env)
      (av_cash db) = Inr c" and a': "a' = a\<lparr>pa_issued_cash_movement_id := movement_by_transaction c (ac_transaction_id p)\<rparr>"
    and db': "db' = add_drawer_event (the d) (set_advance a' (db\<lparr>av_cash := c\<rparr>))"
    using run by (auto simp: issue_in_cash_def bindr_Inr_iff Let_def)
  have rows: "av_advances (set_advance a' (db\<lparr>av_cash := c\<rparr>)) = xs @ [a']"
    by (rule set_advance_last [OF _ last(2)]) (simp_all add: last(1) a')
  obtain m where m: "cash_step (av_cash db) c" "c_movements c = c_movements (av_cash db) @ [m]"
    "cm_sale_id m = Some (pa_id a)" "voucher_value m = ac_amount p"
    by (rule posting_movement [OF s _ c]) auto
  have db: "av_cash db' = c" "av_advances db' = xs @ [a']" "av_events db' = av_events db"
    unfolding db' using rows by (simp_all add: add_drawer_event_def)
  show thesis by (rule that [OF _ _ m(3,4) a' db(2,3)]) (simp_all only: db(1) m(1,2))
next
  case False
  let ?r = "VOUCHER_ISSUANCE_REASON (ac_voucher_type p)"
  let ?m = "voucher_movement (rq_fresh env 2) tn sid (us_id u) (rq_now env) (ac_transaction_id p) (ac_amount p)
    ?r (?r @ '':'' @ method_text (ac_payment_method p)) (pa_id a) (rc_trace_id (rq_context env))"
  have a': "a' = a\<lparr>pa_issued_cash_movement_id := Some (rq_fresh env 2)\<rparr>"
    and db': "db' = set_advance a' (db\<lparr>av_cash := add_movement ?m (av_cash db)\<rparr>)"
    using run False by (auto simp: take_voucher_payment_def issue_without_cash_def record_non_cash_voucher_movement_def Let_def)
  have rows: "av_advances db' = xs @ [a']"
    unfolding db' by (rule set_advance_last [OF _ last(2)]) (simp_all add: last(1) a')
  have st: "cash_step (av_cash db) (add_movement ?m (av_cash db))"
    using voucher_step [of ?r] unfolding record_non_cash_voucher_movement_def by simp
  have val: "voucher_value ?m = ac_amount p"
    by (cases "ac_voucher_type p") (simp_all add: voucher_movement_def voucher_value_def)
  show thesis
    by (rule that [OF _ _ _ val a' rows]) (use st db' in \<open>simp_all add: voucher_movement_def\<close>)
qed

lemma issue_advance_outcome:
  assumes fresh: "fresh_advance env db" and run: "issue_advance env p tn sid u db = Inr (db', r)"
  obtains m mv a where "0 < ac_amount p" "a = (new_advance env p tn sid u db)\<lparr>pa_issued_cash_movement_id := mv\<rparr>"
    "ad_advance r = a" "new_row_ok a db" "cash_step (av_cash db) (av_cash db')"
    "c_movements (av_cash db') = c_movements (av_cash db) @ [m]" "cm_sale_id m = Some (pa_id a)"
    "voucher_value m = pa_issued_amount a" "av_advances db' = av_advances db @ [a]"
proof -
  let ?a = "new_advance env p tn sid u db"
  obtain db1 a d where f: "flush_advance ?a db = Inr db1" and pos: "0 < ac_amount p"
    and i: "take_voucher_payment env p tn sid u ?a (add_advance_event (issued_event env p u ?a) db1) = Inr (db', a, d)"
    and r: "r = advance_detail_response db' a None None d"
    using run by (auto simp: issue_advance_def bindr_Inr_iff require_Inr_iff Let_def simp del: new_advance_simps)
  have db1: "db1 = db\<lparr>av_advances := av_advances db @ [?a]\<rparr>"
    and uniq: "\<forall>x \<in> set (av_advances db). pa_tenant_id x = tn \<longrightarrow>
      (pa_store_id x, pa_advance_number x) \<noteq> (sid, next_advance_number tn sid db)
      \<and> pa_barcode_value x \<noteq> barcode_of sid (next_advance_number tn sid db)"
    using f by (auto simp: flush_advance_def bindr_Inr_iff require_Inr_iff list_ex_iff)
  have new: "pa_id ?a \<notin> pa_id ` set (av_advances db)" "movements_naming (av_cash db) (pa_id ?a) = []"
    using fresh by (simp_all add: fresh_advance_def)
  obtain m mv where m: "cash_step (av_cash db) (av_cash db')" "c_movements (av_cash db') = c_movements (av_cash db) @ [m]"
    "cm_sale_id m = Some (pa_id ?a)" "voucher_value m = ac_amount p"
    and a: "a = ?a\<lparr>pa_issued_cash_movement_id := mv\<rparr>" and rows: "av_advances db' = av_advances db @ [a]"
    by (rule issue_movement [OF i, of "av_advances db"]) (use new db1 r in auto)
  have "new_row_ok a db"
    using uniq new pos a by (auto simp: new_row_ok_def new_advance_def Let_def image_iff)
  then show thesis using that [OF pos a _ _ m(1,2) _ _ rows] m(3,4) r a by (simp add: advance_detail_response_def)
qed

section \<open>Actions on a voucher\<close>

lemma expire_not_due [simp]: "\<not> expiry_due now a \<Longrightarrow> expire_advance_if_needed i actor now a db = (db, a, False)"
  by (simp add: expire_advance_if_needed_def)

text \<open>An action is decided on the row as it was stored: a row whose expiry is due is refused.\<close>

lemma mutate_advance_Inr:
  assumes "mutate_advance env i p db = Inr (db', r)"
  obtains u a db2 a' action payload applied remaining where
    "require_active_user (rq_directory env) (rq_token env) = Inr u"
    "a \<in> set (av_advances db)" "pa_id a = i" "enforce_row_scope env a db = Inr ()"
    "pa_status a = ACTIVE" "rq_now env < pa_expires_at a"
    "advance_action_outcome env p u a db = Inr (db2, a', action, payload, applied, remaining)"
    "db' = add_advance_event (advance_event_of (rq_fresh env 1) a' action payload (Some (us_id u)) (rq_now env))
       (set_advance a' db2)"
    "r = advance_detail_response db' a' applied remaining None"
proof -
  obtain u a0 where u: "require_active_user (rq_directory env) (rq_token env) = Inr u"
    and a0: "find_advance i db = Inr a0" and sc: "enforce_row_scope env a0 db = Inr ()"
    using assms by (auto simp: mutate_advance_def bindr_Inr_iff)
  have row: "a0 \<in> set (av_advances db)" "pa_id a0 = i"
    using a0 find_SomeD [of "\<lambda>a. pa_id a = i" "av_advances db" a0]
    by (auto simp: find_advance_def split: option.splits)
  show thesis
  proof (cases "expiry_due (rq_now env) a0")
    case True
    then show thesis
      using assms u a0 sc by (simp add: mutate_advance_def expire_advance_if_needed_def Let_def
          expired_row_def TERMINAL_STATUSES_def)
  next
    case False
    then have ac: "pa_status a0 = ACTIVE"
      using assms u a0 sc by (cases "pa_status a0")
        (auto simp: mutate_advance_def bindr_Inr_iff require_Inr_iff TERMINAL_STATUSES_def)
    have t: "rq_now env < pa_expires_at a0" using False ac by (simp add: expiry_due_def)
    show thesis
      using assms u a0 sc False ac
      by (auto simp: mutate_advance_def bindr_Inr_iff require_Inr_iff Let_def
          intro: that [OF u row sc ac t])
  qed
qed

lemma refund_action_Inr:
  assumes "refund_action env p m u a db = Inr (db2, a', action, payload, applied, remaining)"
  obtains mv m' where "m = Some m'" "a' = refunded_row mv (rq_now env) a" "refund_movement env (aq_transaction_id p) m' u a db = Inr (db2, mv)"
    "action = ''REFUNDED''"
  using assms by (auto simp: refund_action_def bindr_Inr_iff refunded_row_def split: option.splits)

lemma consume_action_Inr:
  assumes "consume_action env p t s a db = Inr (db2, a', action, payload, applied, remaining)"
  obtains x sale where "t = Some x" "quantize2 (pa_issued_amount a) \<le> x" "db2 = db"
    "resolve_sale_id_for_consume db a s = Inr sale" "a' = consumed_row sale (rq_now env) a" "action = ''CONSUMED''"
    "applied = Some (quantize2 (pa_issued_amount a))" "remaining = Some (quantize2 (x - quantize2 (pa_issued_amount a)))"
  using assms
  by (auto simp: consume_action_def bindr_Inr_iff require_Inr_iff Let_def consumed_row_def split: option.splits)

lemma refund_movement_books:
  assumes run: "refund_movement env tx m u a db = Inr (db', mv)"
  obtains mm where "cash_step (av_cash db) (av_cash db')"
    "c_movements (av_cash db') = c_movements (av_cash db) @ [mm]" "cm_sale_id mm = Some (pa_id a)"
    "voucher_value mm = - pa_issued_amount a" "av_advances db' = av_advances db"
proof (cases "m = CASH")
  case True
  then obtain s where s: "active_session (av_cash db) (pa_tenant_id a) (pa_store_id a) (us_id u) = Some s"
    using run by (auto simp: refund_movement_def Let_def split: option.splits)
  then obtain c where c: "record_cash_movement (rq_fresh env 2) s (pa_tenant_id a) (pa_store_id a) (Some (pa_id a))
      ''CASH_OUT'' (pa_issued_amount a) (Some tx) (Some (us_id u)) (rc_trace_id (rq_context env)) (rq_now env)
      (av_cash db) = Inr c" and db: "av_cash db' = c" "av_advances db' = av_advances db"
    using run True by (auto simp: refund_movement_def bindr_Inr_iff Let_def add_drawer_event_def)
  obtain mm where "cash_step (av_cash db) c" "c_movements c = c_movements (av_cash db) @ [mm]"
    "cm_sale_id mm = Some (pa_id a)" "voucher_value mm = - pa_issued_amount a"
    by (rule posting_movement [OF s _ c]) auto
  then show thesis using that [of mm] db by simp
next
  case False
  let ?r = "VOUCHER_REFUND_REASON (pa_voucher_type a)"
  let ?m = "voucher_movement (rq_fresh env 2) (pa_tenant_id a) (pa_store_id a) (us_id u) (rq_now env) tx
    (pa_issued_amount a) ?r (?r @ '':'' @ method_text m) (pa_id a) (rc_trace_id (rq_context env))"
  have db: "db' = db\<lparr>av_cash := add_movement ?m (av_cash db)\<rparr>"
    using run False by (simp add: refund_movement_def record_non_cash_voucher_movement_def Let_def)
  have st: "cash_step (av_cash db) (add_movement ?m (av_cash db))"
    using voucher_step [of ?r] unfolding record_non_cash_voucher_movement_def by simp
  have val: "voucher_value ?m = - pa_issued_amount a"
    by (cases "pa_voucher_type a") (simp_all add: voucher_movement_def voucher_value_def)
  show thesis by (rule that [OF _ _ _ val]) (use st db in \<open>simp_all add: voucher_movement_def\<close>)
qed

lemma set_advance_congs:
  "av_advances db2 = av_advances db \<Longrightarrow> av_advances (set_advance a db2) = av_advances (set_advance a db)"
  by (simp add: set_advance_def)

text \<open>An action that returns is one move of the voucher, whatever it notes.\<close>

lemma action_move:
  assumes a: "a \<in> set (av_advances db)" "pa_status a = ACTIVE"
    and run: "advance_action_outcome env p u a db = Inr (db2, a', action, payload, applied, remaining)"
    and db': "av_cash db' = av_cash db2" "av_advances db' = av_advances (set_advance a' db2)"
  shows "voucher_move\<^sup>*\<^sup>* db db'"
proof -
  have one: "voucher_move\<^sup>*\<^sup>* db db'" if "voucher_move db (set_advance b db)" "a' = b" "db2 = db" for b
  proof -
    have "voucher_move (set_advance b db) db'" by (rule voucher_move.remarks) (use db' that in simp_all)
    then show ?thesis using that(1) by (meson rtranclp.simps)
  qed
  show ?thesis
  proof (cases "aq_action p")
    case (REFUND m)
    then have r: "refund_action env p m u a db = Inr (db2, a', action, payload, applied, remaining)"
      using run by (simp add: advance_action_outcome_def)
    obtain mv m' where a': "a' = refunded_row mv (rq_now env) a"
      and mm: "refund_movement env (aq_transaction_id p) m' u a db = Inr (db2, mv)"
      by (rule refund_action_Inr [OF r]) (rule that)
    obtain mm where m: "cash_step (av_cash db) (av_cash db2)"
      "c_movements (av_cash db2) = c_movements (av_cash db) @ [mm]" "cm_sale_id mm = Some (pa_id a)"
      "voucher_value mm = - pa_issued_amount a" "av_advances db2 = av_advances db"
      by (rule refund_movement_books [OF mm]) (rule that)
    have "voucher_move db db'"
      by (rule voucher_move.refunds [OF a, of _ mm mv "rq_now env"])
        (use m db' a' set_advance_congs [OF m(5)] in simp_all)
    then show ?thesis by blast
  next
    case (CONSUME t s)
    then have r: "consume_action env p t s a db = Inr (db2, a', action, payload, applied, remaining)"
      using run by (simp add: advance_action_outcome_def)
    show ?thesis
      by (rule consume_action_Inr [OF r]) (use one voucher_move.consumes [OF a] in blast)
  next
    case EXPIRE_NOW
    then have "a' = expired_row (rq_now env) a" "db2 = db"
      using run by (simp_all add: advance_action_outcome_def expire_action_def)
    then show ?thesis using one voucher_move.lapses [OF a] by blast
  qed
qed

section \<open>Every step is a run of the machine\<close>

lemma remark_after: "voucher_move\<^sup>*\<^sup>* db db1 \<Longrightarrow> voucher_move\<^sup>*\<^sup>* db (add_advance_event e db1)"
  by (meson add_event_simps(1,2) rtranclp.rtrancl_into_rtrancl voucher_move.remarks)

lemma lookup_advance_moves:
  assumes "lookup_advance env code db = Inr (db', r)"
  shows "voucher_move\<^sup>*\<^sup>* db db'"
proof (cases "find (code_matches code) (av_advances db)")
  case None
  then show ?thesis using assms by (auto simp: lookup_advance_def bindr_Inr_iff)
next
  case (Some a)
  then have a: "a \<in> set (av_advances db)" using find_SomeD by fastforce
  obtain u where u: "require_active_user (rq_directory env) (rq_token env) = Inr u"
    and sc: "enforce_row_scope env a db = Inr ()"
    using assms Some by (auto simp: lookup_advance_def bindr_Inr_iff)
  have "\<exists>e. db' = add_advance_event e (fst (expire_advance_if_needed (rq_fresh env 0) (Some (us_id u)) (rq_now env) a db))"
    using assms Some u sc by (auto simp: lookup_advance_def case_prod_beta)
  then show ?thesis using remark_after [OF expire_moves [OF a]] by blast
qed

lemma get_advance_moves:
  assumes "get_advance env i db = Inr (db', r)"
  shows "voucher_move\<^sup>*\<^sup>* db db'"
proof -
  obtain u a where u: "require_active_user (rq_directory env) (rq_token env) = Inr u"
    and a: "find_advance i db = Inr a" and sc: "enforce_row_scope env a db = Inr ()"
    using assms by (auto simp: get_advance_def bindr_Inr_iff)
  have db': "db' = fst (expire_advance_if_needed (rq_fresh env 0) (Some (us_id u)) (rq_now env) a db)"
    using assms u a sc by (simp add: get_advance_def case_prod_beta)
  have "a \<in> set (av_advances db)"
    using a find_SomeD [of "\<lambda>a. pa_id a = i" "av_advances db" a]
    by (auto simp: find_advance_def split: option.splits)
  then show ?thesis unfolding db' by (rule expire_moves)
qed

lemma consume_for_sale_moves:
  assumes "a \<in> set (av_advances db)" and "pa_status a = ACTIVE"
  shows "voucher_move\<^sup>*\<^sup>* db (consume_for_sale i sale_id tx actor now a db)"
proof -
  have "voucher_move\<^sup>*\<^sup>* db (set_advance (consumed_row (Some sale_id) now a) db)"
    using voucher_move.consumes [OF assms] by blast
  from remark_after [OF this] show ?thesis by (simp add: consume_for_sale_def consumed_row_def Let_def)
qed

lemma advance_step_moves: "advance_step db db' \<Longrightarrow> voucher_invariant db \<Longrightarrow> voucher_move\<^sup>*\<^sup>* db db'"
proof (induction rule: advance_step.induct)
  case (Create env db p db' r)
  then obtain tn sid u where i: "issue_advance env p tn sid u db = Inr (db', r)"
    by (auto simp: create_advance_def bindr_Inr_iff)
  show ?case
    by (rule issue_advance_outcome [OF Create(1) i]) (meson r_into_rtranclp voucher_move.issues)
next
  case (List env tenant_id store_id status q page page_size db db' r1)
  then show ?case by (auto simp: list_advances_def bindr_Inr_iff Let_def intro: sweep_spec)
next
  case (Lookup env code db db' r2)
  then show ?case by (blast intro: lookup_advance_moves)
next
  case (Alerts env n tenant_id store_id db db' r3)
  then show ?case by (auto simp: alerts_advances_def bindr_Inr_iff Let_def intro: sweep_spec)
next
  case (Get env i db db' r)
  then show ?case by (blast intro: get_advance_moves)
next
  case (Mutate env i p db db' r)
  obtain u a db2 a' action payload applied remaining where a: "a \<in> set (av_advances db)" "pa_status a = ACTIVE"
    "advance_action_outcome env p u a db = Inr (db2, a', action, payload, applied, remaining)"
    "db' = add_advance_event (advance_event_of (rq_fresh env 1) a' action payload (Some (us_id u)) (rq_now env))
       (set_advance a' db2)"
    by (rule mutate_advance_Inr [OF Mutate(1)]) (rule that)
  show ?case by (rule action_move [OF a(1-3)]) (simp_all add: a(4))
next
  case (Sweep env tenant_id store_id db db' r4)
  then obtain tn sid u where "advance_scope env tenant_id store_id db = Inr (tn, sid, u)"
    by (auto simp: sweep_endpoint_def bindr_Inr_iff)
  then have "sweep_expired_advances (rq_fresh env) tn sid (Some (us_id u)) (rq_now env) db = (db', r4)"
    using Sweep by (simp add: sweep_endpoint_def)
  then show ?case using sweep_spec(1) [OF Sweep.prems] by (metis fst_conv)
next
  case (Drawer db es)
  have "voucher_move db (db\<lparr>av_drawer := es\<rparr>)" by (rule voucher_move.remarks) simp_all
  then show ?case by blast
next
  case (Cash db c ms)
  have "voucher_move db (db\<lparr>av_cash := c\<rparr>)" by (rule voucher_move.elsewhere [of _ _ ms]) (use Cash in simp_all)
  then show ?case by blast
next
  case (Checkout a db i sale_id tx actor now)
  then show ?case by (intro consume_for_sale_moves)
qed

lemma advance_start_invariant: "advance_start db \<Longrightarrow> voucher_invariant db"
  by (simp add: advance_start_def voucher_invariant_def keys_ok_def books_ok_def)

interpretation vouchers: simulated_steps advance_start advance_step "voucher_move\<^sup>*\<^sup>*" voucher_invariant
  by unfold_locales (auto intro: advance_start_invariant advance_step_moves voucher_moves_keep)

lemma advance_reachable_invariant: "advance_reachable db \<Longrightarrow> voucher_invariant db"
  by (auto simp: advance_reachable_def intro: vouchers.reachable_inv)

lemma advance_reachable_step: "advance_reachable db \<Longrightarrow> advance_step db db' \<Longrightarrow> advance_reachable db'"
  unfolding advance_reachable_def by (meson rtranclp.rtrancl_into_rtrancl)

text \<open>The moves' cash is the cash ledger's.\<close>

lemma voucher_move_cash: "voucher_move db db' \<Longrightarrow> cash_step\<^sup>*\<^sup>* (av_cash db) (av_cash db')"
  by (induction rule: voucher_move.induct) auto

lemma voucher_moves_cash: "voucher_move\<^sup>*\<^sup>* db db' \<Longrightarrow> cash_step\<^sup>*\<^sup>* (av_cash db) (av_cash db')"
  by (induction rule: rtranclp_induct) (auto dest: voucher_move_cash)

lemma advance_reachable_cash: "advance_reachable db \<Longrightarrow> cash_reachable (av_cash db)"
proof -
  assume "advance_reachable db"
  then obtain db0 where s: "advance_start db0" "advance_step\<^sup>*\<^sup>* db0 db" by (auto simp: advance_reachable_def)
  from s(2) have "voucher_invariant db \<and> cash_step\<^sup>*\<^sup>* (av_cash db0) (av_cash db)"
  proof (induction rule: rtranclp_induct)
    case base
    then show ?case using advance_start_invariant [OF s(1)] by simp
  next
    case (step db1 db2)
    then show ?case
      using advance_step_moves [OF step(2)] voucher_moves_cash voucher_moves_keep by (meson rtranclp_trans)
  qed
  then show ?thesis using s(1) by (auto simp: cash_reachable_def advance_start_def)
qed

section \<open>What the moves leave of a voucher\<close>

lemma settled_stays:
  assumes "voucher_move db db'" and "voucher_invariant db" and "a \<in> set (av_advances db)"
  shows "\<exists>a' \<in> set (av_advances db'). advance_core a' = advance_core a \<and> (pa_status a \<noteq> ACTIVE \<longrightarrow> a' = a)"
  using assms
proof (induction rule: voucher_move.induct)
  case (lapses b db now)
  then have dist: "distinct (map pa_id (av_advances db))" by (simp add: voucher_invariant_def keys_ok_def)
  note rows = set_advance_rows [OF dist lapses(1), of "expired_row now b"]
  show ?case
    by (cases "a = b") (use lapses rows in \<open>auto simp: core_fields expired_row_def\<close>)
next
  case (consumes b db sale now)
  then have dist: "distinct (map pa_id (av_advances db))" by (simp add: voucher_invariant_def keys_ok_def)
  note rows = set_advance_rows [OF dist consumes(1), of "consumed_row sale now b"]
  show ?case
    by (cases "a = b") (use consumes rows in \<open>auto simp: core_fields consumed_row_def\<close>)
next
  case (refunds b db db' m mv now)
  then have dist: "distinct (map pa_id (av_advances db))" by (simp add: voucher_invariant_def keys_ok_def)
  note rows = set_advance_rows [OF dist refunds(1), of "refunded_row mv now b"]
  show ?case
    by (cases "a = b") (use refunds rows in \<open>auto simp: core_fields refunded_row_def\<close>)
qed auto

lemma settled_stays_moves:
  assumes "voucher_move\<^sup>*\<^sup>* db db'" and "voucher_invariant db" and "a \<in> set (av_advances db)"
  shows "\<exists>a' \<in> set (av_advances db'). advance_core a' = advance_core a \<and> (pa_status a \<noteq> ACTIVE \<longrightarrow> a' = a)"
  using assms
proof (induction rule: rtranclp_induct)
  case (step db1 db2)
  obtain a1 where a1: "a1 \<in> set (av_advances db1)" "advance_core a1 = advance_core a" "pa_status a \<noteq> ACTIVE \<longrightarrow> a1 = a"
    using step.IH step.prems by blast
  have "voucher_invariant db1" by (rule voucher_moves_keep [OF step(1) step.prems(1)])
  from settled_stays [OF step(2) this a1(1)] a1 show ?case by auto
qed blast

lemma settled_stays_steps:
  assumes "advance_step\<^sup>*\<^sup>* db db'" and "voucher_invariant db" and "a \<in> set (av_advances db)"
  shows "\<exists>a' \<in> set (av_advances db'). advance_core a' = advance_core a \<and> (pa_status a \<noteq> ACTIVE \<longrightarrow> a' = a)"
  using assms
proof (induction rule: rtranclp_induct)
  case (step db1 db2)
  obtain a1 where a1: "a1 \<in> set (av_advances db1)" "advance_core a1 = advance_core a" "pa_status a \<noteq> ACTIVE \<longrightarrow> a1 = a"
    using step.IH step.prems by blast
  have inv: "voucher_invariant db1"
    using vouchers.run_simulates [OF step(1) step.prems(1)] by simp
  from settled_stays_moves [OF advance_step_moves [OF step(2) inv] inv a1(1)] a1 show ?case by auto
qed blast

end
