(* ===== verification/Advance_Demo.thy ===== *)
theory Advance_Demo
  imports Advance_Steps Cash_Demo
begin

text \<open>
  Advances, a concrete run and the properties of the component: in an open session a voucher is
  sold for 40 in cash and another for 25 by card; the first is refunded in cash, the second
  expires when the store's vouchers are listed after 60 days.
\<close>

section \<open>The balance of a voucher\<close>

lemma book_balance:
  assumes "voucher_invariant db" and "a \<in> set (av_advances db)"
  shows "0 \<le> sum_list (map voucher_value (movements_naming (av_cash db) (pa_id a)))"
  using assms by (auto simp: voucher_invariant_def books_ok_def book_of_def row_ok_def)

section \<open>The run\<close>

definition voucher_world :: advance_db where
  "voucher_world = \<lparr>av_cash = cash_world, av_advances = [], av_events = [], av_drawer = []\<rparr>"

definition voucher_open :: advance_db where "voucher_open = voucher_world\<lparr>av_cash := opened\<rparr>"

definition voucher_req :: "payment_method \<Rightarrow> money \<Rightarrow> advance_create_request" where
  "voucher_req m amt = \<lparr>ac_transaction_id = ''tv'', ac_store_id = ''s1'', ac_customer_name = '' Ana '',
     ac_amount = amt, ac_payment_method = m, ac_voucher_type = ADVANCE_voucher, ac_notes = None\<rparr>"

definition ran :: "('s \<Rightarrow> ('s \<times> 'a) res) \<Rightarrow> 's \<Rightarrow> 's" where
  "ran f db = (case f db of Inl e \<Rightarrow> db | Inr (db', _) \<Rightarrow> db')"

definition voucher_sold :: advance_db where
  "voucher_sold = ran (create_advance (cash_env CHR ''v'' 100) (voucher_req CASH 40)) voucher_open"

definition voucher_two :: advance_db where
  "voucher_two = ran (create_advance (cash_env CHR ''w'' 200) (voucher_req CARD 25)) voucher_sold"

definition refund_req :: "payment_method \<Rightarrow> advance_action_request" where
  "refund_req m = \<lparr>aq_transaction_id = ''tr'', aq_action = REFUND (Some m), aq_reason = None\<rparr>"

definition voucher_refunded :: advance_db where
  "voucher_refunded = ran (mutate_advance (cash_env CHR ''x'' 300) ''v'' (refund_req CASH)) voucher_two"

definition after_60_days :: request_env where "after_60_days = cash_env CHR ''y'' (200 + days 60)"

definition voucher_listed :: advance_db where
  "voucher_listed = ran (list_advances after_60_days None None None None 1 50) voucher_refunded"

lemma voucher_run_results:
  "map (\<lambda>a. (pa_barcode_value a, pa_status a)) (av_advances voucher_listed) =
    [(''ADV-s1-00000001'', REFUNDED), (''ADV-s1-00000002'', EXPIRED)]"
  "map cm_action (c_movements (av_cash voucher_listed)) =
    [''OPEN'', ''CASH_IN'', ''ADVANCE_ISSUANCE'', ''CASH_OUT'']"
  "map cs_expected_cash (c_sessions (av_cash voucher_two)) = [140]"
  "map cs_expected_cash (c_sessions (av_cash voucher_refunded)) = [100]"
  by code_simp+

lemma ran_Inr: "\<not> isl (f db) \<Longrightarrow> \<exists>x. f db = Inr (ran f db, x)"
  by (cases "f db") (auto simp: ran_def)

lemma voucher_open_step: "advance_step voucher_world voucher_open"
proof -
  have "cash_step (av_cash voucher_world) opened" using opened_step by (simp add: voucher_world_def)
  moreover have "c_movements (av_cash voucher_world) = []" "list_all (\<lambda>m. cm_sale_id m = None) (c_movements opened)"
    by code_simp+
  then have "\<exists>ms. c_movements opened = c_movements (av_cash voucher_world) @ ms \<and> (\<forall>m \<in> set ms. cm_sale_id m = None)"
    by (simp add: list_all_iff)
  ultimately show ?thesis unfolding voucher_open_def by (rule cash_router_step)
qed

lemma voucher_demo_fresh:
  "fresh_advance (cash_env CHR ''v'' 100) voucher_open" "fresh_advance (cash_env CHR ''w'' 200) voucher_sold"
proof -
  have "pa_id ` set (av_advances voucher_open) = set []" "map pa_id (av_advances voucher_sold) = [''v'']"
    "movements_naming (av_cash voucher_open) ''v'' = []" "movements_naming (av_cash voucher_sold) ''w'' = []"
    by code_simp+
  then show "fresh_advance (cash_env CHR ''v'' 100) voucher_open" "fresh_advance (cash_env CHR ''w'' 200) voucher_sold"
    unfolding fresh_advance_def by (simp_all add: cash_env_def flip: set_map)
qed

lemma voucher_sold_step: "advance_step voucher_open voucher_sold"
proof -
  have "\<not> isl (create_advance (cash_env CHR ''v'' 100) (voucher_req CASH 40) voucher_open)" by code_simp
  from ran_Inr [of "create_advance (cash_env CHR ''v'' 100) (voucher_req CASH 40)", OF this]
  show ?thesis unfolding voucher_sold_def using voucher_demo_fresh(1) by (blast intro: advance_step.Create)
qed

lemma voucher_two_step: "advance_step voucher_sold voucher_two"
proof -
  have "\<not> isl (create_advance (cash_env CHR ''w'' 200) (voucher_req CARD 25) voucher_sold)" by code_simp
  from ran_Inr [of "create_advance (cash_env CHR ''w'' 200) (voucher_req CARD 25)", OF this]
  show ?thesis unfolding voucher_two_def using voucher_demo_fresh(2) by (blast intro: advance_step.Create)
qed

lemma voucher_refunded_step: "advance_step voucher_two voucher_refunded"
proof -
  have "\<not> isl (mutate_advance (cash_env CHR ''x'' 300) ''v'' (refund_req CASH) voucher_two)" by code_simp
  from ran_Inr [of "mutate_advance (cash_env CHR ''x'' 300) ''v'' (refund_req CASH)", OF this]
  show ?thesis unfolding voucher_refunded_def by (blast intro: advance_step.Mutate)
qed

lemma voucher_listing: "\<exists>r. list_advances after_60_days None None None None 1 50 voucher_refunded = Inr (voucher_listed, r)"
proof -
  have "\<not> isl (list_advances after_60_days None None None None 1 50 voucher_refunded)" by code_simp
  from ran_Inr [of "list_advances after_60_days None None None None 1 50", OF this]
  show ?thesis by (simp add: voucher_listed_def)
qed

lemma voucher_demo_reachable:
  "advance_reachable voucher_world" "advance_reachable voucher_two" "advance_reachable voucher_refunded"
  "advance_reachable voucher_listed"
proof -
  have start: "advance_start voucher_world"
    using cash_demo_start by (simp add: advance_start_def voucher_world_def)
  then show 1: "advance_reachable voucher_world" by (auto simp: advance_reachable_def)
  note next_state = advance_reachable_step
  have 2: "advance_reachable voucher_open" by (rule next_state [OF 1 voucher_open_step])
  have 3: "advance_reachable voucher_sold" by (rule next_state [OF 2 voucher_sold_step])
  show 4: "advance_reachable voucher_two" by (rule next_state [OF 3 voucher_two_step])
  show 5: "advance_reachable voucher_refunded" by (rule next_state [OF 4 voucher_refunded_step])
  show "advance_reachable voucher_listed"
    using voucher_listing next_state [OF 5] by (blast intro: advance_step.List)
qed

lemma two_rows: "length xs = 2 \<Longrightarrow> hd xs \<in> set xs \<and> hd (tl xs) \<in> set xs"
  by (cases xs; cases "tl xs") auto

lemma voucher_demo_first:
  "hd (av_advances voucher_refunded) \<in> set (av_advances voucher_refunded)"
  "pa_status (hd (av_advances voucher_refunded)) = REFUNDED"
  "hd (tl (av_advances voucher_refunded)) \<in> set (av_advances voucher_refunded)"
  "pa_status (hd (tl (av_advances voucher_refunded))) = ACTIVE"
  "pa_expires_at (hd (tl (av_advances voucher_refunded))) \<le> rq_now after_60_days"
proof -
  have "length (av_advances voucher_refunded) = 2" by code_simp
  then show "hd (av_advances voucher_refunded) \<in> set (av_advances voucher_refunded)"
    "hd (tl (av_advances voucher_refunded)) \<in> set (av_advances voucher_refunded)"
    using two_rows [of "av_advances voucher_refunded"] by simp_all
  have "map pa_status (av_advances voucher_refunded) = [REFUNDED, ACTIVE]"
    "map pa_expires_at (tl (av_advances voucher_refunded)) = [rq_now after_60_days]"
    by code_simp+
  then show "pa_status (hd (av_advances voucher_refunded)) = REFUNDED"
    "pa_status (hd (tl (av_advances voucher_refunded))) = ACTIVE"
    "pa_expires_at (hd (tl (av_advances voucher_refunded))) \<le> rq_now after_60_days"
    by (cases "av_advances voucher_refunded"; auto simp: map_eq_Cons_conv)+
qed

section \<open>Properties\<close>

text \<open>C21: A voucher is never lost and what identifies it never changes; once it is consumed,
  refunded or expired, its row stays exactly as it is, whatever requests follow.\<close>

theorem voucher_lifecycle:
  assumes "advance_reachable db" and "advance_step\<^sup>*\<^sup>* db db'" and "a \<in> set (av_advances db)"
  shows "\<exists>a' \<in> set (av_advances db'). advance_core a' = advance_core a \<and> (pa_status a \<noteq> ACTIVE \<longrightarrow> a' = a)"
  using settled_stays_steps [OF assms(2) advance_reachable_invariant [OF assms(1)] assms(3)] .

lemma voucher_lifecycle_witness:
  "hd (av_advances voucher_refunded) \<in> set (av_advances voucher_listed)"
proof -
  have "advance_step voucher_refunded voucher_listed" using voucher_listing by (blast intro: advance_step.List)
  then have "advance_step\<^sup>*\<^sup>* voucher_refunded voucher_listed" by blast
  from voucher_lifecycle [OF voucher_demo_reachable(3) this voucher_demo_first(1)]
  show ?thesis using voucher_demo_first(2) by auto
qed



text \<open>C23: A voucher whose time is over does expire: the next listing of its store marks it, at
  that time, and it is expired in every later state.\<close>

theorem overdue_voucher_expires:
  assumes "advance_reachable db" and "a \<in> set (av_advances db)" and "pa_status a = ACTIVE"
    and "pa_expires_at a \<le> rq_now env"
    and "advance_scope env t s db = Inr (pa_tenant_id a, pa_store_id a, u)"
    and "list_advances env t s status q page page_size db = Inr (db1, r)" and "advance_step\<^sup>*\<^sup>* db1 db2"
  shows "expired_row (rq_now env) a \<in> set (av_advances db2)"
proof -
  have inv: "voucher_invariant db" by (rule advance_reachable_invariant [OF assms(1)])
  have "db1 = fst (sweep_expired_advances (rq_fresh env) (pa_tenant_id a) (pa_store_id a) None (rq_now env) db)"
    using assms(5,6) by (simp add: list_advances_def Let_def)
  then have row: "expired_row (rq_now env) a \<in> set (av_advances db1)"
    using sweep_spec(3) [OF inv] assms(2-4) by (auto simp: expiry_due_def image_iff intro!: bexI [of _ a])
  have "voucher_invariant db1"
    using advance_reachable_invariant [OF advance_reachable_step [OF assms(1) advance_step.List [OF assms(6)]]] .
  from settled_stays_steps [OF assms(7) this row] show ?thesis by auto
qed

lemma overdue_voucher_expires_witness:
  "expired_row (rq_now after_60_days) (hd (tl (av_advances voucher_refunded))) \<in> set (av_advances voucher_listed)"
proof -
  have "case advance_scope after_60_days None None voucher_refunded of Inl e \<Rightarrow> False
    | Inr (tn, sid, u) \<Rightarrow> tn = ''t1'' \<and> sid = ''s1''"
    "map (\<lambda>a. (pa_tenant_id a, pa_store_id a)) (tl (av_advances voucher_refunded)) = [(''t1'', ''s1'')]"
    by code_simp+
  then obtain u where sc: "advance_scope after_60_days None None voucher_refunded =
      Inr (pa_tenant_id (hd (tl (av_advances voucher_refunded))), pa_store_id (hd (tl (av_advances voucher_refunded))), u)"
    by (auto split: sum.splits simp: map_eq_Cons_conv)
  obtain r where "list_advances after_60_days None None None None 1 50 voucher_refunded = Inr (voucher_listed, r)"
    using voucher_listing by blast
  from overdue_voucher_expires [OF voucher_demo_reachable(3) voucher_demo_first(3-5) sc this rtranclp.rtrancl_refl]
  show ?thesis .
qed

end
