(* ===== verification/Sale_Model.thy ===== *)
theory Sale_Model
  imports Advance_Steps Stock
begin

text \<open>
  Sales, the data of \<^verbatim>\<open>routers/pos_sales.py\<close>: sales with their lines, payments and return events,
  the tags bound to items, the return policy of a tenant, and the pricing of a line from the
  stock. Statuses are the strings the code compares. \<^verbatim>\<open>float\<close> columns hold the decimal they were
  given; amounts that come with a request have at most two decimals.
\<close>

section \<open>Rows\<close>

record pos_sale =
  sl_id :: uuid
  sl_tenant_id :: uuid
  sl_store_id :: uuid
  sl_status :: string
  sl_total_due :: money
  sl_paid_total :: money
  sl_balance_due :: money
  sl_change_due :: money
  sl_receipt_number :: "string option"
  sl_sale_code :: "string option"
  sl_created_by_user_id :: "uuid option"
  sl_updated_by_user_id :: "uuid option"
  sl_checked_out_by_user_id :: "uuid option"
  sl_canceled_by_user_id :: "uuid option"
  sl_checked_out_at :: "time option"
  sl_canceled_at :: "time option"
  sl_created_at :: time
  sl_updated_at :: "time option"

datatype sale_line_type = EPC_sale | SKU_sale

text \<open>The five image columns, which are only copied.\<close>

type_synonym image_columns = "uuid option \<times> string option \<times> string option \<times> string option \<times> time option"

definition stock_image :: "stock_item \<Rightarrow> image_columns" where
  "stock_image r = (si_image_asset_id r, si_image_url r, si_image_thumb_url r, si_image_source r,
     si_image_updated_at r)"

record sale_line =
  ln_id :: uuid
  ln_sale_line_id :: "string option"
  ln_sale_id :: uuid
  ln_tenant_id :: uuid
  ln_line_type :: sale_line_type
  ln_qty :: int
  ln_unit_price :: money
  ln_line_total :: money
  ln_sku :: "string option"
  ln_description :: "string option"
  ln_var1_value :: "string option"
  ln_var2_value :: "string option"
  ln_epc :: "string option"
  ln_item_uid :: "uuid option"
  ln_sku_snapshot :: "string option"
  ln_description_snapshot :: "string option"
  ln_var1_snapshot :: "string option"
  ln_var2_snapshot :: "string option"
  ln_sale_price_snapshot :: "money option"
  ln_cost_price_snapshot :: "money option"
  ln_epc_at_sale :: "string option"
  ln_location_code :: "string option"
  ln_pool :: "string option"
  ln_status :: "string option"
  ln_location_is_vendible :: bool
  ln_image :: image_columns
  ln_created_at :: time

record pos_payment =
  pp_id :: uuid
  pp_sale_id :: uuid
  pp_tenant_id :: uuid
  pp_method :: payment_method
  pp_amount :: money
  pp_authorization_code :: "string option"
  pp_bank_name :: "string option"
  pp_voucher_number :: "string option"
  pp_created_at :: time

record epc_assignment =
  ea_id :: uuid
  ea_tenant_id :: uuid
  ea_store_id :: "uuid option"
  ea_epc :: string
  ea_item_uid :: uuid
  ea_assigned_at :: time
  ea_released_at :: "time option"
  ea_active :: bool
  ea_last_release_reason :: "string option"
  ea_status :: string
  ea_updated_at :: "time option"

record return_policy =
  rp_return_window_days :: int
  rp_require_receipt :: bool
  rp_allow_refund_cash :: bool
  rp_allow_refund_card :: bool
  rp_allow_refund_transfer :: bool
  rp_allow_exchange :: bool
  rp_require_manager_for_exceptions :: bool
  rp_accepted_conditions :: "string list"
  rp_non_reusable_label_strategy :: string
  rp_restocking_fee_pct :: money

section \<open>Requests\<close>

record sale_snapshot =
  ss_item_uid :: "uuid option"
  ss_sku :: "string option"
  ss_description :: "string option"
  ss_var1_value :: "string option"
  ss_var2_value :: "string option"
  ss_epc :: "string option"
  ss_location_code :: "string option"
  ss_pool :: "string option"
  ss_status :: "string option"
  ss_location_is_vendible :: bool
  ss_image :: image_columns

definition no_image :: image_columns where "no_image = (None, None, None, None, None)"

definition empty_snapshot :: sale_snapshot where
  "empty_snapshot = \<lparr>ss_item_uid = None, ss_sku = None, ss_description = None, ss_var1_value = None,
     ss_var2_value = None, ss_epc = None, ss_location_code = None, ss_pool = None, ss_status = None,
     ss_location_is_vendible = True, ss_image = no_image\<rparr>"

record line_create =
  lc_line_type :: sale_line_type
  lc_qty :: int
  lc_sku :: "string option"
  lc_epc :: "string option"
  lc_unit_price :: "money option"
  lc_snapshot :: "sale_snapshot option"

record payment_create =
  py_method :: payment_method
  py_amount :: money
  py_authorization_code :: "string option"
  py_bank_name :: "string option"
  py_voucher_number :: "string option"
  py_reference_code :: "string option"
  py_advance_id :: "string option"

record return_item =
  ri_line_id :: string
  ri_qty :: int
  ri_condition :: string

section \<open>Return events\<close>

record returned_line =
  rr_line_id :: string
  rr_qty :: int
  rr_condition :: string
  rr_line_type :: sale_line_type
  rr_sku :: "string option"
  rr_epc :: "string option"
  rr_unit_price :: money
  rr_line_total :: money

text \<open>What the events of the sales router keep, those of a completed return of
  \<^verbatim>\<open>services/pos_returns.py\<close>, and the draft of a return.\<close>

record sale_return_payload =
  rt_returned_lines :: "returned_line list"
  rt_exchange_lines :: "line_create list"
  rt_refund_payments :: "payment_create list"
  rt_collection_payments :: "payment_create list"
  rt_policy_snapshot :: return_policy
  rt_receipt_number :: "string option"
  rt_manager_override :: bool
  rt_transaction_id :: string
  rt_exchange_sale_id :: "uuid option"

record settlement_payment =
  sm_method :: payment_method
  sm_amount :: money
  sm_authorization_code :: "string option"
  sm_bank_name :: "string option"
  sm_voucher_number :: "string option"

record quote_line =
  ql_sale_line_id :: string
  ql_exchange :: bool
  ql_qty :: int
  ql_unit_price :: money
  ql_line_total :: money

record return_draft =
  rd_return_number :: string
  rd_status :: string
  rd_lines :: "quote_line list"
  rd_events :: "(string \<times> time) list"
  rd_completed_at :: "time option"
  rd_settlement_payments :: "settlement_payment list"

datatype return_payload =
    Sale_return sale_return_payload
  | Draft_return return_draft
  | Completed_return "(string \<times> int) list" uuid

fun payload_returned :: "return_payload \<Rightarrow> (string \<times> int) list" where
  "payload_returned (Sale_return p) = map (\<lambda>l. (rr_line_id l, rr_qty l)) (rt_returned_lines p)"
| "payload_returned (Draft_return d) = []"
| "payload_returned (Completed_return ls i) = ls"

record return_event =
  re_id :: uuid
  re_tenant_id :: uuid
  re_store_id :: uuid
  re_sale_id :: uuid
  re_exchange_sale_id :: "uuid option"
  re_action :: string
  re_refund_subtotal :: money
  re_restocking_fee :: money
  re_refund_total :: money
  re_exchange_total :: money
  re_net_adjustment :: money
  re_payload :: return_payload
  re_created_at :: time

section \<open>The tables\<close>

record sale_db =
  sd_pos :: advance_db
  sd_stock :: "stock_item list"
  sd_assignments :: "epc_assignment list"
  sd_sales :: "pos_sale list"
  sd_lines :: "sale_line list"
  sd_payments :: "pos_payment list"
  sd_returns :: "return_event list"
  sd_policies :: "(uuid \<times> return_policy) list"

type_synonym 'a sale_result = "(sale_db \<times> 'a) res"

text \<open>What the cuts of the cash router see of the sales.\<close>

definition sale_view :: "pos_payment list \<Rightarrow> pos_sale \<Rightarrow> sale_payments" where
  "sale_view ps s = \<lparr>sp_sale_id = sl_id s, sp_tenant_id = sl_tenant_id s, sp_store_id = sl_store_id s,
     sp_status = sl_status s, sp_checked_out_at = sl_checked_out_at s,
     sp_payments = map (\<lambda>p. (pp_method p, pp_amount p)) (filter (\<lambda>p. pp_sale_id p = sl_id s) ps)\<rparr>"

definition publish_sales :: "sale_db \<Rightarrow> sale_db" where
  "publish_sales db = db\<lparr>sd_pos := (sd_pos db)\<lparr>av_cash := (av_cash (sd_pos db))\<lparr>
     c_sales := map (sale_view (sd_payments db)) (sd_sales db)\<rparr>\<rparr>\<rparr>"

definition set_sale :: "pos_sale \<Rightarrow> sale_db \<Rightarrow> sale_db" where
  "set_sale s db = db\<lparr>sd_sales := map (\<lambda>x. if sl_id x = sl_id s then s else x) (sd_sales db)\<rparr>"

section \<open>repos/pos_sales.py\<close>

definition get_sale_by_id :: "uuid \<Rightarrow> sale_db \<Rightarrow> pos_sale option" where
  "get_sale_by_id i db = find (\<lambda>s. sl_id s = i) (sd_sales db)"

definition sale_lines :: "uuid \<Rightarrow> sale_db \<Rightarrow> sale_line list" where
  "sale_lines i db = sort_key ln_created_at (filter (\<lambda>l. ln_sale_id l = i) (sd_lines db))"

definition get_payments :: "uuid \<Rightarrow> sale_db \<Rightarrow> pos_payment list" where
  "get_payments i db = sort_key pp_created_at (filter (\<lambda>p. pp_sale_id p = i) (sd_payments db))"

definition get_return_events :: "uuid \<Rightarrow> sale_db \<Rightarrow> return_event list" where
  "get_return_events i db = sort_key re_created_at (filter (\<lambda>e. re_sale_id e = i) (sd_returns db))"

record sale_filters =
  sf_tenant_id :: uuid
  sf_store_id :: "uuid option"
  sf_receipt_number :: "string option"
  sf_status :: "string option"
  sf_from_date :: "time option"
  sf_to_date :: "time option"
  sf_q :: "string option"
  sf_sku :: "string option"
  sf_epc :: "string option"
  sf_page :: int
  sf_page_size :: int

definition has_line :: "sale_db \<Rightarrow> uuid \<Rightarrow> uuid \<Rightarrow> (sale_line \<Rightarrow> bool) \<Rightarrow> bool" where
  "has_line db tn i P = list_ex (\<lambda>l. ln_sale_id l = i \<and> ln_tenant_id l = tn \<and> P l) (sd_lines db)"

definition sale_matches :: "sale_filters \<Rightarrow> sale_db \<Rightarrow> pos_sale \<Rightarrow> bool" where
  "sale_matches f db s \<longleftrightarrow> sl_tenant_id s = sf_tenant_id f
    \<and> (falsy (sf_store_id f) \<or> Some (sl_store_id s) = sf_store_id f)
    \<and> (falsy (sf_receipt_number f) \<or> sl_receipt_number s = sf_receipt_number f)
    \<and> (falsy (sf_status f) \<or> py_upper (sl_status s) = py_upper (the (sf_status f)))
    \<and> (case sf_from_date f of None \<Rightarrow> True
       | Some t \<Rightarrow> (case sl_checked_out_at s of None \<Rightarrow> False | Some c \<Rightarrow> t \<le> c))
    \<and> (case sf_to_date f of None \<Rightarrow> True
       | Some t \<Rightarrow> (case sl_checked_out_at s of None \<Rightarrow> False | Some c \<Rightarrow> c \<le> t))
    \<and> (falsy (sf_sku f) \<and> falsy (sf_epc f) \<or> has_line db (sf_tenant_id f) (sl_id s)
        (\<lambda>l. (falsy (sf_sku f) \<or> ln_sku l = sf_sku f) \<and> (falsy (sf_epc f) \<or> ln_epc l = sf_epc f)))
    \<and> (falsy (sf_q f) \<or> (let q = py_strip (the (sf_q f)) in
        contains_term q (sl_id s) \<or> contains_term_opt q (sl_receipt_number s) \<or> contains_term q (sl_status s)
        \<or> has_line db (sf_tenant_id f) (sl_id s) (\<lambda>l. contains_term_opt q (ln_sku l)
            \<or> contains_term_opt q (ln_epc l) \<or> contains_term_opt q (ln_description l))))"

definition list_sale_rows :: "sale_filters \<Rightarrow> sale_db \<Rightarrow> pos_sale list \<times> int" where
  "list_sale_rows f db =
    (let rows = filter (sale_matches f db) (sd_sales db);
         offset = max (sf_page f - 1) 0 * sf_page_size f
     in (take (nat (sf_page_size f)) (drop (nat offset) (sort_key (\<lambda>s. - sl_created_at s) rows)),
         int (length rows)))"

section \<open>Prices and lines\<close>

definition authoritative_price :: "stock_item \<Rightarrow> money \<Rightarrow> money" where
  "authoritative_price stock fallback =
    quantize2 (case si_sale_price stock of None \<Rightarrow> fallback | Some p \<Rightarrow> p)"

definition line_fallback_price :: "line_create \<Rightarrow> money" where
  "line_fallback_price line = (case lc_unit_price line of None \<Rightarrow> 0 | Some p \<Rightarrow> quantize2 p)"

definition line_snapshot_or_default :: "line_create \<Rightarrow> sale_snapshot" where
  "line_snapshot_or_default line = (case lc_snapshot line of
     Some sn \<Rightarrow> sn
   | None \<Rightarrow> empty_snapshot\<lparr>ss_sku := lc_sku line,
       ss_epc := (if lc_line_type line = EPC_sale then lc_epc line else None)\<rparr>)"

definition validate_sale_snapshot :: "line_create \<Rightarrow> unit res" where
  "validate_sale_snapshot line =
    (let sn = line_snapshot_or_default line in
     bindr (require (\<not> lc_qty line < 1) (raise1 VALIDATION_ERROR ''qty must be at least 1'')) (\<lambda>_.
     bindr (require (\<not> (case lc_unit_price line of None \<Rightarrow> False | Some p \<Rightarrow> p < 0))
       (raise1 VALIDATION_ERROR ''unit_price must be >= 0'')) (\<lambda>_.
     if lc_line_type line = EPC_sale then
       bindr (require (lc_qty line = 1) (raise1 VALIDATION_ERROR ''qty must be 1 for EPC lines'')) (\<lambda>_.
       require (\<not> falsy (py_or (ss_epc sn) (lc_epc line)))
         (raise1 VALIDATION_ERROR ''epc is required for EPC lines''))
     else
       bindr (require (ss_epc sn = None) (raise1 VALIDATION_ERROR ''epc must be empty for SKU lines'')) (\<lambda>_.
       require (\<not> falsy (py_or (ss_sku sn) (lc_sku line)))
         (raise1 VALIDATION_ERROR ''sku is required for SKU lines'')))))"

text \<open>The filters on place that a legacy snapshot adds.\<close>

definition place_filters :: "sale_snapshot \<Rightarrow> stock_item \<Rightarrow> bool" where
  "place_filters sn r \<longleftrightarrow> (falsy (ss_location_code sn) \<or> si_location_code r = ss_location_code sn)
    \<and> (falsy (ss_pool sn) \<or> si_pool r = ss_pool sn)"

text \<open>A client's price is refused when the stock has another one.\<close>

definition check_unit_price :: "line_create \<Rightarrow> stock_item \<Rightarrow> unit res" where
  "check_unit_price line stock =
    (let fallback = line_fallback_price line in
     require (\<not> (lc_unit_price line \<noteq> None \<and> fallback \<noteq> authoritative_price stock fallback
         \<and> si_sale_price stock \<noteq> None))
       (raise1 BUSINESS_CONFLICT ''unit_price mismatch''))"

definition stock_snapshot :: "stock_item \<Rightarrow> uuid option \<Rightarrow> string option \<Rightarrow> sale_snapshot" where
  "stock_snapshot r uid epc = \<lparr>ss_item_uid = uid, ss_sku = si_sku r, ss_description = si_description r,
     ss_var1_value = si_var1_value r, ss_var2_value = si_var2_value r, ss_epc = epc,
     ss_location_code = si_location_code r, ss_pool = si_pool r, ss_status = si_status r,
     ss_location_is_vendible = si_location_is_vendible r, ss_image = stock_image r\<rparr>"

text \<open>A line with a client's price is accepted without stock, as \<^verbatim>\<open>PENDING\<close>.\<close>

definition unstocked_line :: "line_create \<Rightarrow> string option \<Rightarrow> line_create res" where
  "unstocked_line line sku =
    (if lc_unit_price line = None
     then Inl (raise1 VALIDATION_ERROR ''replacement item not available in this store'')
     else let sn = line_snapshot_or_default line in
       Inr \<lparr>lc_line_type = lc_line_type line, lc_qty = lc_qty line, lc_sku = None, lc_epc = None,
         lc_unit_price = Some (line_fallback_price line),
         lc_snapshot = Some (empty_snapshot\<lparr>ss_sku := sku, ss_description := ss_description sn,
           ss_var1_value := ss_var1_value sn, ss_var2_value := ss_var2_value sn,
           ss_location_code := ss_location_code sn, ss_pool := ss_pool sn,
           ss_status := py_or (ss_status sn) (Some ''PENDING'')\<rparr>)\<rparr>)"

definition build_sale_line_from_stock ::
    "sale_db \<Rightarrow> uuid \<Rightarrow> uuid \<Rightarrow> line_create \<Rightarrow> line_create res" where
  "build_sale_line_from_stock db tn sid line =
    bindr (validate_sale_snapshot line) (\<lambda>_.
    let sn = line_snapshot_or_default line; fallback = line_fallback_price line in
    if lc_line_type line = EPC_sale then
      let epc = the (py_or (ss_epc sn) (lc_epc line)) in
      (case find (\<lambda>r. sale_epc_filters tn sid epc r \<and> place_filters sn r) (sd_stock db) of
         None \<Rightarrow> Inl (raise1 VALIDATION_ERROR ''replacement item not available in this store'')
       | Some stock \<Rightarrow>
           bindr (check_unit_price line stock) (\<lambda>_.
           Inr \<lparr>lc_line_type = EPC_sale, lc_qty = 1, lc_sku = None, lc_epc = None,
             lc_unit_price = Some (authoritative_price stock fallback),
             lc_snapshot = Some (stock_snapshot stock (Some (si_item_uid stock)) (si_epc stock))\<rparr>))
    else
      let sku = py_or (ss_sku sn) (lc_sku line);
          rows = filter (\<lambda>r. sale_sku_filters tn sid (the sku) r \<and> place_filters sn r) (sd_stock db) in
      if int (length rows) < lc_qty line then unstocked_line line sku
      else (case sort_key si_created_at rows of
         [] \<Rightarrow> unstocked_line line sku
       | stock # _ \<Rightarrow>
           bindr (check_unit_price line stock) (\<lambda>_.
           Inr \<lparr>lc_line_type = SKU_sale, lc_qty = lc_qty line, lc_sku = None, lc_epc = None,
             lc_unit_price = Some (authoritative_price stock fallback),
             lc_snapshot = Some (stock_snapshot stock None None)\<rparr>)))"

fun map_res :: "('a \<Rightarrow> 'b res) \<Rightarrow> 'a list \<Rightarrow> 'b list res" where
  "map_res f [] = Inr []"
| "map_res f (x # xs) = bindr (f x) (\<lambda>y. bindr (map_res f xs) (\<lambda>ys. Inr (y # ys)))"

definition line_total :: "line_create \<Rightarrow> money" where
  "line_total line =
    quantize2 ((case lc_unit_price line of None \<Rightarrow> 0 | Some p \<Rightarrow> p) * of_int (lc_qty line))"

definition lines_total :: "line_create list \<Rightarrow> money" where
  "lines_total ls = sum_list (map line_total ls)"

text \<open>The row of a line; the columns named after the snapshot repeat it.\<close>

definition sale_line_row ::
    "uuid \<Rightarrow> string option \<Rightarrow> uuid \<Rightarrow> uuid \<Rightarrow> time \<Rightarrow> line_create \<Rightarrow> sale_line" where
  "sale_line_row i code sale_id tn now line =
    (let sn = line_snapshot_or_default line; price = (case lc_unit_price line of None \<Rightarrow> 0 | Some p \<Rightarrow> p)
     in \<lparr>ln_id = i, ln_sale_line_id = code, ln_sale_id = sale_id, ln_tenant_id = tn,
         ln_line_type = lc_line_type line, ln_qty = lc_qty line, ln_unit_price = price,
         ln_line_total = line_total line, ln_sku = ss_sku sn, ln_description = ss_description sn,
         ln_var1_value = ss_var1_value sn, ln_var2_value = ss_var2_value sn, ln_epc = ss_epc sn,
         ln_item_uid = ss_item_uid sn, ln_sku_snapshot = ss_sku sn,
         ln_description_snapshot = ss_description sn, ln_var1_snapshot = ss_var1_value sn,
         ln_var2_snapshot = ss_var2_value sn, ln_sale_price_snapshot = Some price,
         ln_cost_price_snapshot = None, ln_epc_at_sale = ss_epc sn,
         ln_location_code = ss_location_code sn, ln_pool = ss_pool sn, ln_status = ss_status sn,
         ln_location_is_vendible = ss_location_is_vendible sn, ln_image = ss_image sn,
         ln_created_at = now\<rparr>)"

end
