(* ===== verification/Sale_Drafts.thy ===== *)
theory Sale_Drafts
  imports Sale_Model
begin

text \<open>
  Sales, the part of \<^verbatim>\<open>routers/pos_sales.py\<close> that moves neither stock nor money: the reply, the
  draft of a sale, the replacement of its lines, its cancellation, and the queries.
\<close>

section \<open>The reply\<close>

definition POS_RETURN_AGGREGATE_ACTIONS :: "string list" where
  "POS_RETURN_AGGREGATE_ACTIONS = [''REFUND_ITEMS'', ''EXCHANGE_ITEMS'']"

definition aggregate_events :: "return_event list \<Rightarrow> return_event list" where
  "aggregate_events es = filter (\<lambda>e. re_action e \<in> set POS_RETURN_AGGREGATE_ACTIONS) es"

record return_totals =
  tt_subtotal :: money
  tt_restocking_fee :: money
  tt_total :: money

definition return_event_summaries ::
    "return_event list \<Rightarrow> return_totals \<times> return_totals \<times> money \<times> (uuid \<times> string \<times> money \<times> money \<times> money) list" where
  "return_event_summaries es =
    (let a = aggregate_events es; exchanged = sum_list (map re_exchange_total a)
     in (\<lparr>tt_subtotal = sum_list (map re_refund_subtotal a), tt_restocking_fee = sum_list (map re_restocking_fee a),
          tt_total = sum_list (map re_refund_total a)\<rparr>,
         \<lparr>tt_subtotal = exchanged, tt_restocking_fee = 0, tt_total = exchanged\<rparr>,
         sum_list (map re_net_adjustment a),
         map (\<lambda>e. (re_id e, re_action e, re_refund_total e, re_exchange_total e, re_net_adjustment e)) a))"

text \<open>How many pieces of each line the events have returned.\<close>

fun add_returned :: "(string \<times> int) list \<Rightarrow> (string \<times> int) list \<Rightarrow> (string \<times> int) list" where
  "add_returned d [] = d"
| "add_returned d ((i, q) # rest) =
    add_returned (if i = [] then d else AList.update i (dict_get d i 0 + q) d) rest"

definition refunded_quantities :: "return_event list \<Rightarrow> (string \<times> int) list" where
  "refunded_quantities es =
    add_returned [] (concat (map (\<lambda>e. payload_returned (re_payload e)) (aggregate_events es)))"

definition payment_summary :: "pos_payment list \<Rightarrow> (payment_method \<times> money) list" where
  "payment_summary ps =
    foldl (\<lambda>d p. AList.update (pp_method p) (dict_get d (pp_method p) 0 + pp_amount p) d) [] ps"

record sale_detail =
  sx_header :: pos_sale
  sx_lines :: "(sale_line \<times> int \<times> int) list"
  sx_payments :: "pos_payment list"
  sx_payment_summary :: "(payment_method \<times> money) list"
  sx_refunded_totals :: return_totals
  sx_exchanged_totals :: return_totals
  sx_net_adjustment :: money
  sx_return_events :: "(uuid \<times> string \<times> money \<times> money \<times> money) list"

definition sale_line_response :: "(string \<times> int) list \<Rightarrow> sale_line \<Rightarrow> sale_line \<times> int \<times> int" where
  "sale_line_response refunded l =
    (let r = dict_get refunded (ln_id l) 0 in (l, r, max (ln_qty l - r) 0))"

definition sale_response :: "sale_db \<Rightarrow> pos_sale \<Rightarrow> sale_detail" where
  "sale_response db s =
    (let es = get_return_events (sl_id s) db; ps = get_payments (sl_id s) db;
         (refunded, exchanged, net, summaries) = return_event_summaries es
     in \<lparr>sx_header = s,
         sx_lines = map (sale_line_response (refunded_quantities es)) (sale_lines (sl_id s) db),
         sx_payments = ps, sx_payment_summary = payment_summary ps, sx_refunded_totals = refunded,
         sx_exchanged_totals = exchanged, sx_net_adjustment = net, sx_return_events = summaries\<rparr>)"

definition sale_summary_row :: "sale_db \<Rightarrow> pos_sale \<Rightarrow> pos_sale \<times> int \<times> (payment_method \<times> money) list" where
  "sale_summary_row db s =
    (s, sum_list (map ln_qty (sale_lines (sl_id s) db)), payment_summary (get_payments (sl_id s) db))"

section \<open>Scope\<close>

text \<open>The checks every mutating endpoint makes before the idempotency record.\<close>

definition sale_tenant :: "request_env \<Rightarrow> string option \<Rightarrow> (uuid \<times> user) res" where
  "sale_tenant env transaction_id =
    bindr (permitted_user env ''POS_SALE_MANAGE'') (\<lambda>u.
    bindr (require_transaction_id transaction_id) (\<lambda>_.
    bindr (pos_resolve_tenant_id (rq_token env) (td_tenant_id (rq_token env))) (\<lambda>tn.
    bindr (enforce_tenant_scope (rq_token env) (Some tn) True) (\<lambda>_. Inr (tn, u)))))"

definition sale_store ::
    "request_env \<Rightarrow> string option \<Rightarrow> sale_db \<Rightarrow> uuid res" where
  "sale_store env requested db =
    bindr (sales_resolve_store_id (rq_token env) requested) (\<lambda>sid.
    bindr (enforce_store_scope (rq_token env) (Some sid) (c_stores (av_cash (sd_pos db))) True None) (\<lambda>_.
      Inr sid))"

section \<open>Drafts\<close>

record sale_create_request =
  sc_transaction_id :: "string option"
  sc_store_id :: "string option"
  sc_lines :: "line_create list"

definition short_code :: "string \<Rightarrow> uuid \<Rightarrow> string" where
  "short_code prefix i = prefix @ py_upper (take 12 (filter (\<lambda>c. c \<noteq> CHR ''-'') i))"

text \<open>The rows of the lines: each draws an id and a code, from the request's \<open>k\<close>-th value on.\<close>

definition sale_line_rows ::
    "(nat \<Rightarrow> uuid) \<Rightarrow> nat \<Rightarrow> uuid \<Rightarrow> uuid \<Rightarrow> time \<Rightarrow> line_create list \<Rightarrow> sale_line list" where
  "sale_line_rows fresh k sale_id tn now ls =
    map (\<lambda>(i, l). sale_line_row (fresh (k + 2 * i)) (Some (short_code ''SL-'' (fresh (k + 2 * i + 1))))
      sale_id tn now l) (enumerate 0 ls)"

definition create_sale_before ::
    "request_env \<Rightarrow> sale_create_request \<Rightarrow> sale_db \<Rightarrow> (uuid \<times> uuid \<times> user) res" where
  "create_sale_before env p db =
    bindr (sale_tenant env (sc_transaction_id p)) (\<lambda>(tn, u).
    bindr (sale_store env (sc_store_id p) db) (\<lambda>sid. Inr (tn, sid, u)))"

definition draft_sale ::
    "request_env \<Rightarrow> uuid \<Rightarrow> uuid \<Rightarrow> user \<Rightarrow> line_create list \<Rightarrow> pos_sale" where
  "draft_sale env tn sid u ls =
    (let due = lines_total ls
     in \<lparr>sl_id = rq_fresh env 0, sl_tenant_id = tn, sl_store_id = sid, sl_status = ''DRAFT'',
         sl_total_due = due, sl_paid_total = 0, sl_balance_due = due, sl_change_due = 0,
         sl_receipt_number = None, sl_sale_code = Some (short_code ''SALE-'' (rq_fresh env 1)),
         sl_created_by_user_id = Some (us_id u), sl_updated_by_user_id = Some (us_id u),
         sl_checked_out_by_user_id = None, sl_canceled_by_user_id = None, sl_checked_out_at = None,
         sl_canceled_at = None, sl_created_at = rq_now env, sl_updated_at = None\<rparr>)"

definition create_sale_body ::
    "request_env \<Rightarrow> sale_create_request \<Rightarrow> uuid \<Rightarrow> uuid \<times> user \<Rightarrow> sale_db \<Rightarrow> sale_detail sale_result" where
  "create_sale_body env p tn arg db = (case arg of (sid, u) \<Rightarrow>
    bindr (require (sc_lines p \<noteq> []) (raise1 VALIDATION_ERROR ''lines must not be empty'')) (\<lambda>_.
    bindr (map_res (build_sale_line_from_stock db tn sid) (sc_lines p)) (\<lambda>ls.
    let s = draft_sale env tn sid u ls;
        db' = publish_sales (db\<lparr>sd_sales := sd_sales db @ [s],
          sd_lines := sd_lines db @ sale_line_rows (rq_fresh env) 2 (sl_id s) tn (rq_now env) ls\<rparr>)
    in Inr (db', sale_response db' s))))"

definition create_sale ::
    "(app_error \<Rightarrow> string) \<Rightarrow> (sale_detail \<Rightarrow> string) \<Rightarrow> request_env \<Rightarrow> sale_create_request
      \<Rightarrow> idem_table \<times> sale_db \<Rightarrow> reply \<times> idem_table \<times> sale_db" where
  "create_sale dump_err dump env p =
    guarded_endpoint env dump_err (create_sale_before env p)
      (\<lambda>tn arg db. replying 201 dump (create_sale_body env p tn arg db))"

section \<open>Replacing the lines of a draft\<close>

record sale_update_request =
  su_transaction_id :: "string option"
  su_lines :: "line_create list"

text \<open>The sale a request names, of the request's tenant.\<close>

definition find_sale :: "uuid \<Rightarrow> uuid \<Rightarrow> sale_db \<Rightarrow> pos_sale res" where
  "find_sale i tn db = (case get_sale_by_id i db of
     None \<Rightarrow> Inl (raise1 RESOURCE_NOT_FOUND ''sale not found'')
   | Some s \<Rightarrow> if sl_tenant_id s = tn then Inr s else Inl (raise0 CROSS_TENANT_ACCESS_DENIED))"

definition update_sale_body ::
    "request_env \<Rightarrow> uuid \<Rightarrow> sale_update_request \<Rightarrow> uuid \<Rightarrow> user \<Rightarrow> sale_db \<Rightarrow> sale_detail sale_result" where
  "update_sale_body env i p tn u db =
    bindr (find_sale i tn db) (\<lambda>s.
    bindr (enforce_store_scope (rq_token env) (Some (sl_store_id s)) (c_stores (av_cash (sd_pos db))) True None) (\<lambda>_.
    bindr (require (sl_status s = ''DRAFT'')
      (raise1 BUSINESS_CONFLICT ''sale must be DRAFT to update'')) (\<lambda>_.
    bindr (require (su_lines p \<noteq> []) (raise1 VALIDATION_ERROR ''lines must not be empty'')) (\<lambda>_.
    bindr (map_res (build_sale_line_from_stock db tn (sl_store_id s)) (su_lines p)) (\<lambda>ls.
    let due = lines_total ls;
        s' = s\<lparr>sl_total_due := due, sl_paid_total := 0, sl_balance_due := due, sl_change_due := 0,
          sl_updated_by_user_id := Some (us_id u), sl_updated_at := Some (rq_now env)\<rparr>;
        db' = publish_sales ((set_sale s' db)\<lparr>sd_lines := filter (\<lambda>l. ln_sale_id l \<noteq> sl_id s) (sd_lines db)
          @ sale_line_rows (rq_fresh env) 0 (sl_id s) tn (rq_now env) ls\<rparr>)
    in Inr (db', sale_response db' s'))))))"

definition update_sale ::
    "(app_error \<Rightarrow> string) \<Rightarrow> (sale_detail \<Rightarrow> string) \<Rightarrow> request_env \<Rightarrow> uuid \<Rightarrow> sale_update_request
      \<Rightarrow> idem_table \<times> sale_db \<Rightarrow> reply \<times> idem_table \<times> sale_db" where
  "update_sale dump_err dump env i p =
    guarded_endpoint env dump_err (\<lambda>_. sale_tenant env (su_transaction_id p))
      (\<lambda>tn u db. replying 200 dump (update_sale_body env i p tn u db))"

section \<open>Cancelling a draft\<close>

definition cancel_sale :: "request_env \<Rightarrow> user \<Rightarrow> pos_sale \<Rightarrow> sale_db \<Rightarrow> sale_detail sale_result" where
  "cancel_sale env u s db =
    bindr (require (sl_status s = ''DRAFT'')
      (raise1 VALIDATION_ERROR ''sale must be DRAFT to cancel'')) (\<lambda>_.
    let s' = s\<lparr>sl_status := ''CANCELED'', sl_canceled_by_user_id := Some (us_id u),
          sl_canceled_at := Some (rq_now env), sl_updated_by_user_id := Some (us_id u),
          sl_updated_at := Some (rq_now env)\<rparr>;
        db' = publish_sales (set_sale s' db)
    in Inr (db', sale_response db' s'))"

section \<open>Queries\<close>

text \<open>The query's dates are days; the last one counts to its last microsecond.\<close>

definition parse_filter_date :: "int option \<Rightarrow> bool \<Rightarrow> time option" where
  "parse_filter_date d end_of_day =
    map_option (\<lambda>x. if end_of_day then days x + microseconds_per_day - 1 else days x) d"

record sale_list_query =
  lq_store_id :: "string option"
  lq_receipt_number :: "string option"
  lq_status :: "string option"
  lq_checked_out_from :: "int option"
  lq_checked_out_to :: "int option"
  lq_q :: "string option"
  lq_sku :: "string option"
  lq_epc :: "string option"
  lq_page :: int
  lq_page_size :: int

definition list_sales ::
    "request_env \<Rightarrow> sale_list_query \<Rightarrow> sale_db \<Rightarrow>
      ((pos_sale \<times> int \<times> (payment_method \<times> money) list) list \<times> int) res" where
  "list_sales env q db =
    bindr (permitted_user env ''POS_SALE_VIEW'') (\<lambda>_.
    bindr (pos_resolve_tenant_id (rq_token env) (td_tenant_id (rq_token env))) (\<lambda>tn.
    bindr (sale_store env (lq_store_id q) db) (\<lambda>sid.
    let (rows, total_rows) = list_sale_rows \<lparr>sf_tenant_id = tn, sf_store_id = Some sid,
          sf_receipt_number = lq_receipt_number q, sf_status = lq_status q,
          sf_from_date = parse_filter_date (lq_checked_out_from q) False,
          sf_to_date = parse_filter_date (lq_checked_out_to q) True, sf_q = lq_q q, sf_sku = lq_sku q,
          sf_epc = lq_epc q, sf_page = lq_page q, sf_page_size = lq_page_size q\<rparr> db
    in Inr (map (sale_summary_row db) rows, total_rows))))"

definition get_sale :: "request_env \<Rightarrow> uuid \<Rightarrow> string option \<Rightarrow> sale_db \<Rightarrow> sale_detail res" where
  "get_sale env i store_id db =
    bindr (permitted_user env ''POS_SALE_VIEW'') (\<lambda>_.
    case get_sale_by_id i db of
      None \<Rightarrow> Inl (raise1 RESOURCE_NOT_FOUND ''sale not found'')
    | Some s \<Rightarrow>
        bindr (pos_resolve_tenant_id (rq_token env) (Some (sl_tenant_id s))) (\<lambda>tn.
        bindr (require (sl_tenant_id s = tn) (raise0 CROSS_TENANT_ACCESS_DENIED)) (\<lambda>_.
        bindr (sale_store env store_id db) (\<lambda>sid.
        bindr (require (sl_store_id s = sid)
          (raise1 STORE_SCOPE_MISMATCH ''sale belongs to another store'')) (\<lambda>_.
          Inr (sale_response db s))))))"

end
