(* ===== verification/Sale_Checkout.thy ===== *)
theory Sale_Checkout
  imports Sale_Drafts
begin

text \<open>
  Sales, the checkout of a draft: the checks on the payments, the voucher that pays a part, the
  stock that is sold, and the cash that is posted to an open session.
\<close>

section \<open>Payments\<close>

record payment_sums =
  pt_paid :: money
  pt_cash :: money
  pt_non_cash :: money
  pt_advance :: money

definition payment_ok :: "payment_create \<Rightarrow> unit res" where
  "payment_ok p =
    bindr (require (\<not> py_amount p \<le> 0)
      (raise1 VALIDATION_ERROR ''payment amount must be greater than 0'')) (\<lambda>_.
    bindr (require (\<not> (py_method p = CARD \<and> falsy (py_authorization_code p)))
      (raise1 VALIDATION_ERROR ''authorization_code is required for CARD'')) (\<lambda>_.
    bindr (require (\<not> (py_method p = TRANSFER \<and> (falsy (py_bank_name p) \<or> falsy (py_voucher_number p))))
      (raise1 VALIDATION_ERROR ''bank_name and voucher_number are required for TRANSFER'')) (\<lambda>_.
    bindr (require (\<not> (py_method p = ADVANCE \<and> falsy (py_reference_code p) \<and> falsy (py_advance_id p)))
      (raise1 VALIDATION_ERROR ''reference_code or advance_id is required for ADVANCE'')) (\<lambda>_.
    require (\<not> (py_method p = ADVANCE \<and> (\<not> falsy (py_authorization_code p) \<or> \<not> falsy (py_bank_name p))))
      (raise1 VALIDATION_ERROR ''ADVANCE cannot include bank/card fields'')))))"

definition add_payment :: "payment_sums \<Rightarrow> payment_create \<Rightarrow> payment_sums res" where
  "add_payment t p =
    bindr (payment_ok p) (\<lambda>_.
    Inr \<lparr>pt_paid = pt_paid t + py_amount p,
      pt_cash = (if py_method p = CASH then pt_cash t + py_amount p else pt_cash t),
      pt_non_cash = (if py_method p = CASH then pt_non_cash t else pt_non_cash t + py_amount p),
      pt_advance = (if py_method p = ADVANCE then pt_advance t + py_amount p else pt_advance t)\<rparr>)"

record checkout_totals =
  ct_total_due :: money
  ct_paid_total :: money
  ct_balance_due :: money
  ct_change_due :: money
  ct_cash_total :: money
  ct_advance_total :: money

definition validate_payments :: "payment_create list \<Rightarrow> money \<Rightarrow> checkout_totals res" where
  "validate_payments ps due =
    bindr (require (ps \<noteq> []) (raise1 VALIDATION_ERROR ''payments must not be empty for checkout'')) (\<lambda>_.
    bindr (for_each add_payment \<lparr>pt_paid = 0, pt_cash = 0, pt_non_cash = 0, pt_advance = 0\<rparr> ps) (\<lambda>t.
    bindr (require (\<not> pt_paid t < due)
      (raise1 VALIDATION_ERROR ''paid_total is less than total_due'')) (\<lambda>_.
    let change = pt_paid t - due in
    bindr (require (\<not> (change > 0 \<and> pt_cash t \<le> 0))
      (raise1 VALIDATION_ERROR ''change_due requires CASH component'')) (\<lambda>_.
    bindr (require (\<not> change > pt_cash t)
      (raise1 VALIDATION_ERROR ''change_due exceeds CASH component'')) (\<lambda>_.
    bindr (require (\<not> pt_non_cash t > due)
      (raise1 VALIDATION_ERROR ''non-cash payments exceed total_due'')) (\<lambda>_.
    bindr (require (\<not> pt_advance t > due)
      (raise1 VALIDATION_ERROR ''advance payments exceed total_due'')) (\<lambda>_.
    Inr \<lparr>ct_total_due = due, ct_paid_total = pt_paid t, ct_balance_due = max (due - pt_paid t) 0,
      ct_change_due = change, ct_cash_total = pt_cash t, ct_advance_total = pt_advance t\<rparr>)))))))"

definition payment_rows ::
    "(nat \<Rightarrow> uuid) \<Rightarrow> nat \<Rightarrow> uuid \<Rightarrow> uuid \<Rightarrow> time \<Rightarrow> payment_create list \<Rightarrow> pos_payment list" where
  "payment_rows fresh k sale_id tn now ps =
    map (\<lambda>(i, p). \<lparr>pp_id = fresh (k + i), pp_sale_id = sale_id, pp_tenant_id = tn, pp_method = py_method p,
      pp_amount = py_amount p, pp_authorization_code = py_authorization_code p,
      pp_bank_name = py_bank_name p, pp_voucher_number = py_voucher_number p, pp_created_at = now\<rparr>)
      (enumerate 0 ps)"

section \<open>The voucher of a checkout\<close>

definition advance_named :: "uuid \<Rightarrow> uuid \<Rightarrow> payment_create \<Rightarrow> pos_advance \<Rightarrow> bool" where
  "advance_named tn sid p a \<longleftrightarrow> pa_tenant_id a = tn \<and> pa_store_id a = sid
    \<and> (if \<not> falsy (py_advance_id p) then Some (pa_id a) = py_advance_id p
       else Some (pa_barcode_value a) = py_reference_code p)"

definition resolve_advance_for_checkout ::
    "request_env \<Rightarrow> uuid \<Rightarrow> uuid \<Rightarrow> payment_create \<Rightarrow> user \<Rightarrow> advance_db \<Rightarrow> pos_advance res" where
  "resolve_advance_for_checkout env tn sid p u db =
    (case find (advance_named tn sid p) (av_advances db) of
       None \<Rightarrow> Inl (raise1 VALIDATION_ERROR ''advance not found'')
     | Some a0 \<Rightarrow>
         let (_, a, _) = expire_advance_if_needed (rq_fresh env 0) (Some (us_id u)) (rq_now env) a0 db in
         bindr (require (pa_status a = ACTIVE) (raise1 BUSINESS_CONFLICT ''advance is not active'')) (\<lambda>_.
         bindr (require (py_amount p = quantize2 (pa_issued_amount a))
           (raise1 VALIDATION_ERROR ''advance payment amount must equal issued amount'')) (\<lambda>_.
         Inr a)))"

text \<open>At most one voucher pays a sale, and only the part the sale is worth.\<close>

definition checkout_advance ::
    "request_env \<Rightarrow> pos_sale \<Rightarrow> payment_create list \<Rightarrow> money \<Rightarrow> user \<Rightarrow> advance_db \<Rightarrow> pos_advance option res" where
  "checkout_advance env s ps due u db =
    (case filter (\<lambda>p. py_method p = ADVANCE) ps of
       [] \<Rightarrow> Inr None
     | p # rest \<Rightarrow>
         bindr (require (rest = [])
           (raise1 VALIDATION_ERROR ''only one ADVANCE payment is supported per sale'')) (\<lambda>_.
         bindr (require (\<not> due < py_amount p)
           (raise1 VALIDATION_ERROR ''sale total must be >= advance amount'')) (\<lambda>_.
         bindr (resolve_advance_for_checkout env (sl_tenant_id s) (sl_store_id s) p u db) (\<lambda>a. Inr (Some a)))))"

section \<open>The cash session of a sale\<close>

text \<open>The cashier's open session; failing that, the one open session of the store, whoever's it is.\<close>

definition require_open_cash_session :: "cash_db \<Rightarrow> uuid \<Rightarrow> uuid \<Rightarrow> uuid \<Rightarrow> cash_session res" where
  "require_open_cash_session db tn sid cashier =
    (case find (\<lambda>s. cs_tenant_id s = tn \<and> cs_store_id s = sid \<and> cs_cashier_user_id s = cashier
        \<and> cs_status s = OPEN) (c_sessions db) of
       Some s \<Rightarrow> Inr s
     | None \<Rightarrow>
         (case filter (\<lambda>s. cs_tenant_id s = tn \<and> cs_store_id s = sid \<and> cs_status s = OPEN) (c_sessions db) of
            [s] \<Rightarrow> Inr s
          | _ \<Rightarrow> Inl (raise1 BUSINESS_CONFLICT ''open cash session required for CASH payments'')))"

section \<open>Stock edits of the sales router\<close>

text \<open>\<open>Sell_tag c t\<close> sells a tagged row, giving up the tag when \<open>c\<close>; \<open>Sell_piece\<close> an untagged one;
  \<open>Take_back\<close> returns a sold row to the given status.\<close>

datatype sale_edit =
    Sell_tag bool time
  | Sell_piece time
  | Take_back (tb_status: string) (tb_vendible: bool) (tb_drops_tag: bool) (tb_now: time)

fun apply_sale_edit :: "sale_edit \<Rightarrow> stock_item \<Rightarrow> stock_item" where
  "apply_sale_edit (Sell_tag drops now) r = r\<lparr>si_status := Some ''SOLD'', si_item_status := ''SOLD'',
     si_epc_status := ''AVAILABLE'', si_epc := (if drops then None else si_epc r),
     si_location_is_vendible := False, si_updated_at := Some now\<rparr>"
| "apply_sale_edit (Sell_piece now) r = r\<lparr>si_status := Some ''SOLD'', si_item_status := ''SOLD'',
     si_location_is_vendible := False, si_updated_at := Some now\<rparr>"
| "apply_sale_edit (Take_back st vendible drops now) r = r\<lparr>si_status := Some st,
     si_location_is_vendible := vendible, si_epc := (if drops then None else si_epc r),
     si_updated_at := Some now\<rparr>"

text \<open>What of a row no sale changes: what it is, where it is, what it costs.\<close>

definition sale_core :: "stock_item \<Rightarrow> stock_item" where
  "sale_core r = r\<lparr>si_status := None, si_item_status := [], si_epc_status := [], si_epc := None,
     si_location_is_vendible := False, si_updated_at := None\<rparr>"

interpretation sale_edits: row_edits si_id sale_core apply_sale_edit
proof
  show "si_id (apply_sale_edit e r) = si_id r" for e r by (cases e) simp_all
  show "sale_core (apply_sale_edit e r) = sale_core r" for e r by (cases e) (simp_all add: sale_core_def)
qed

definition released_assignment :: "time \<Rightarrow> epc_assignment \<Rightarrow> epc_assignment" where
  "released_assignment now a = a\<lparr>ea_active := False, ea_released_at := Some now,
     ea_last_release_reason := Some ''SOLD'', ea_status := ''RELEASED'', ea_updated_at := Some now\<rparr>"

text \<open>The session of one request over the stock and the tags.\<close>

record stock_work =
  wk_stock :: "stock_item session"
  wk_tags :: "epc_assignment session"

definition release_tag :: "time \<Rightarrow> uuid \<Rightarrow> stock_item \<Rightarrow> epc_assignment session \<Rightarrow> epc_assignment session" where
  "release_tag now tn r ses =
    (if falsy (si_epc r) then ses
     else (case select_first ea_id (\<lambda>a. ea_tenant_id a = tn \<and> ea_item_uid a = si_item_uid r
         \<and> Some (ea_epc a) = si_epc r \<and> ea_active a) ses of
       None \<Rightarrow> ses
     | Some a \<Rightarrow> modify ea_id (released_assignment now) a ses))"

text \<open>The rows a line of the sale is taken from: those of the place it was priced at, not yet sold.\<close>

definition sellable_tag ::
    "uuid \<Rightarrow> uuid \<Rightarrow> string option \<Rightarrow> string option \<Rightarrow> string option \<Rightarrow> stock_item \<Rightarrow> bool" where
  "sellable_tag tn sid epc loc pool r \<longleftrightarrow> si_tenant_id r = tn \<and> si_store_id r = Some sid \<and> si_epc r = epc
    \<and> sql_not_sold r \<and> si_location_code r = loc \<and> si_pool r = pool"

definition sellable_piece ::
    "uuid \<Rightarrow> uuid \<Rightarrow> string option \<Rightarrow> string option \<Rightarrow> string option \<Rightarrow> stock_item \<Rightarrow> bool" where
  "sellable_piece tn sid sku loc pool r \<longleftrightarrow> si_tenant_id r = tn \<and> si_store_id r = Some sid \<and> si_sku r = sku
    \<and> sql_not_sold r \<and> si_epc r = None \<and> si_location_code r = loc \<and> si_pool r = pool"

definition sell_tag ::
    "uuid \<Rightarrow> uuid \<Rightarrow> time \<Rightarrow> bool \<Rightarrow> app_error \<Rightarrow> string option \<Rightarrow> string option \<Rightarrow> string option \<Rightarrow> stock_work
      \<Rightarrow> (stock_work \<times> stock_item) res" where
  "sell_tag tn sid now drops err epc loc pool w =
    (case select_first si_id (sellable_tag tn sid epc loc pool) (wk_stock w) of
       None \<Rightarrow> Inl err
     | Some r \<Rightarrow> Inr (\<lparr>wk_stock = modify si_id (apply_sale_edit (Sell_tag (drops \<and> \<not> falsy (si_epc r)) now)) r (wk_stock w),
         wk_tags = release_tag now tn r (wk_tags w)\<rparr>, r))"

definition sell_pieces ::
    "uuid \<Rightarrow> uuid \<Rightarrow> time \<Rightarrow> app_error \<Rightarrow> string option \<Rightarrow> string option \<Rightarrow> string option \<Rightarrow> int \<Rightarrow> stock_work
      \<Rightarrow> (stock_work \<times> stock_item list) res" where
  "sell_pieces tn sid now err sku loc pool q w =
    (let rows = select_oldest si_id si_created_at (sellable_piece tn sid sku loc pool) q (wk_stock w) in
     if int (length rows) < q then Inl err
     else Inr (w\<lparr>wk_stock := modify_all si_id (apply_sale_edit (Sell_piece now)) rows (wk_stock w)\<rparr>, rows))"

section \<open>Checkout\<close>

text \<open>What the checkout writes on a line: what is missing of the snapshot, and the cost.\<close>

definition tagged_line :: "stock_item \<Rightarrow> sale_line \<Rightarrow> sale_line" where
  "tagged_line r l = l\<lparr>
     ln_item_uid := (if falsy (ln_item_uid l) then Some (si_item_uid r) else ln_item_uid l),
     ln_epc_at_sale := py_or (py_or (ln_epc_at_sale l) (si_epc r)) (ln_epc l),
     ln_sku_snapshot := py_or (ln_sku_snapshot l) (si_sku r),
     ln_description_snapshot := py_or (ln_description_snapshot l) (si_description r),
     ln_var1_snapshot := py_or (ln_var1_snapshot l) (si_var1_value r),
     ln_var2_snapshot := py_or (ln_var2_snapshot l) (si_var2_value r),
     ln_sale_price_snapshot := (if ln_sale_price_snapshot l = None then si_sale_price r else ln_sale_price_snapshot l),
     ln_cost_price_snapshot := (if ln_cost_price_snapshot l = None then si_cost_price r else ln_cost_price_snapshot l)\<rparr>"

definition average_cost :: "stock_item list \<Rightarrow> money option" where
  "average_cost rows =
    (let costs = concat (map (\<lambda>r. case si_cost_price r of None \<Rightarrow> [] | Some c \<Rightarrow> [c]) rows)
     in if costs = [] then None else Some (quantize2 (sum_list costs / of_nat (length costs))))"

definition piece_line :: "stock_item list \<Rightarrow> sale_line \<Rightarrow> sale_line" where
  "piece_line rows l =
    (if ln_cost_price_snapshot l = None \<and> average_cost rows \<noteq> None
     then l\<lparr>ln_cost_price_snapshot := average_cost rows\<rparr> else l)"

text \<open>The state of the loop over the lines: the stock's session and the lines written so far.\<close>

definition checkout_line ::
    "uuid \<Rightarrow> uuid \<Rightarrow> time \<Rightarrow> stock_work \<times> sale_line list \<Rightarrow> sale_line \<Rightarrow> (stock_work \<times> sale_line list) res" where
  "checkout_line tn sid now st l = (case st of (w, done_lines) \<Rightarrow>
    (case ln_line_type l of
       EPC_sale \<Rightarrow>
         bindr (sell_tag tn sid now True (raise1 VALIDATION_ERROR ''insufficient RFID stock for EPC line'')
             (ln_epc l) (ln_location_code l) (ln_pool l) w) (\<lambda>(w', r).
           Inr (w', done_lines @ [tagged_line r l]))
     | SKU_sale \<Rightarrow>
         bindr (sell_pieces tn sid now (raise1 VALIDATION_ERROR ''insufficient stock for SKU line'')
             (ln_sku l) (ln_location_code l) (ln_pool l) (ln_qty l) w) (\<lambda>(w', rows).
           Inr (w', done_lines @ [piece_line rows l]))))"

definition start_work :: "sale_db \<Rightarrow> stock_work" where
  "start_work db = \<lparr>wk_stock = open_session (sd_stock db), wk_tags = open_session (sd_assignments db)\<rparr>"

definition set_lines :: "sale_line list \<Rightarrow> sale_line list \<Rightarrow> sale_line list" where
  "set_lines new ls =
    map (\<lambda>l. case find (\<lambda>n. ln_id n = ln_id l) new of None \<Rightarrow> l | Some n \<Rightarrow> n) ls"

definition commit_work :: "stock_work \<Rightarrow> sale_db \<Rightarrow> sale_db" where
  "commit_work w db = db\<lparr>sd_stock := commit si_id (wk_stock w), sd_assignments := commit ea_id (wk_tags w)\<rparr>"

record checkout_request =
  cr_transaction_id :: "string option"
  cr_payments :: "payment_create list"
  cr_receipt_number :: "string option"

definition paid_sale ::
    "request_env \<Rightarrow> checkout_request \<Rightarrow> user \<Rightarrow> checkout_totals \<Rightarrow> pos_sale \<Rightarrow> pos_sale" where
  "paid_sale env p u t s = s\<lparr>sl_status := ''PAID'', sl_total_due := ct_total_due t,
     sl_paid_total := ct_paid_total t, sl_balance_due := ct_balance_due t, sl_change_due := ct_change_due t,
     sl_checked_out_by_user_id := Some (us_id u), sl_checked_out_at := Some (rq_now env),
     sl_receipt_number := py_or (cr_receipt_number p) (sl_receipt_number s),
     sl_updated_by_user_id := Some (us_id u), sl_updated_at := Some (rq_now env)\<rparr>"

text \<open>The voucher, if one pays, is consumed; the cash that stays is posted.\<close>

definition settle_advance ::
    "request_env \<Rightarrow> string option \<Rightarrow> user \<Rightarrow> pos_sale \<Rightarrow> pos_advance option \<Rightarrow> advance_db \<Rightarrow> advance_db" where
  "settle_advance env tx u s a db = (case a of
     None \<Rightarrow> db
   | Some a \<Rightarrow> consume_for_sale (rq_fresh env 1) (sl_id s) (the tx) (us_id u) (rq_now env) a db)"

definition post_sale_cash ::
    "request_env \<Rightarrow> string option \<Rightarrow> user \<Rightarrow> pos_sale \<Rightarrow> cash_session option \<Rightarrow> string \<Rightarrow> money \<Rightarrow> advance_db
      \<Rightarrow> advance_db res" where
  "post_sale_cash env tx u s session action amt db = (case session of
     None \<Rightarrow> Inr db
   | Some c \<Rightarrow>
       if amt > 0 then
         bindr (record_cash_movement (rq_fresh env 2) c (sl_tenant_id s) (sl_store_id s) (Some (sl_id s))
           action amt tx (Some (us_id u)) (rc_trace_id (rq_context env)) (rq_now env) (av_cash db)) (\<lambda>cash.
         Inr (db\<lparr>av_cash := cash\<rparr>))
       else Inr db)"

definition session_for_cash :: "cash_db \<Rightarrow> uuid \<Rightarrow> uuid \<Rightarrow> uuid \<Rightarrow> money \<Rightarrow> cash_session option res" where
  "session_for_cash db tn sid cashier cash =
    (if cash > 0 then bindr (require_open_cash_session db tn sid cashier) (\<lambda>s. Inr (Some s)) else Inr None)"

definition checkout_sale ::
    "request_env \<Rightarrow> checkout_request \<Rightarrow> user \<Rightarrow> pos_sale \<Rightarrow> sale_db \<Rightarrow> sale_detail sale_result" where
  "checkout_sale env p u s db =
    bindr (require (sl_status s = ''DRAFT'')
      (raise1 BUSINESS_CONFLICT ''sale must be DRAFT to checkout'')) (\<lambda>_.
    let ls = sale_lines (sl_id s) db; tn = sl_tenant_id s; sid = sl_store_id s; now = rq_now env in
    bindr (require (ls \<noteq> []) (raise1 VALIDATION_ERROR ''sale has no lines'')) (\<lambda>_.
    let due = sum_list (map ln_line_total ls) in
    bindr (validate_payments (cr_payments p) due) (\<lambda>t.
    bindr (checkout_advance env s (cr_payments p) due u (sd_pos db)) (\<lambda>a.
    bindr (session_for_cash (av_cash (sd_pos db)) tn sid (us_id u) (ct_cash_total t)) (\<lambda>session.
    bindr (for_each (checkout_line tn sid now) (start_work db, []) ls) (\<lambda>(w, ls').
    let s' = paid_sale env p u t s;
        pos1 = settle_advance env (cr_transaction_id p) u s a (sd_pos db) in
    bindr (post_sale_cash env (cr_transaction_id p) u s session ''SALE''
        (max 0 (ct_cash_total t - ct_change_due t)) pos1) (\<lambda>pos2.
    let db' = publish_sales ((commit_work w (set_sale s' db))\<lparr>sd_pos := pos2, sd_lines := set_lines ls' (sd_lines db),
          sd_payments := sd_payments db @ payment_rows (rq_fresh env) 3 (sl_id s) tn now (cr_payments p)\<rparr>)
    in Inr (db', sale_response db' s'))))))))"

end
