(* ===== verification/Sale_Returns.thy ===== *)
theory Sale_Returns
  imports Sale_Checkout
begin

text \<open>
  Sales, the refund and the exchange of items of a paid sale, and the endpoint that dispatches the
  actions of a sale.
\<close>

section \<open>Policy\<close>

definition default_return_policy :: return_policy where
  "default_return_policy = \<lparr>rp_return_window_days = 30, rp_require_receipt = True,
     rp_allow_refund_cash = True, rp_allow_refund_card = True, rp_allow_refund_transfer = True,
     rp_allow_exchange = True, rp_require_manager_for_exceptions = False,
     rp_accepted_conditions = [''NEW'', ''GOOD'', ''USED''],
     rp_non_reusable_label_strategy = ''ASSIGN_NEW_EPC'', rp_restocking_fee_pct = 0\<rparr>"

definition get_return_policy :: "sale_db \<Rightarrow> uuid \<Rightarrow> return_policy" where
  "get_return_policy db tn = (case map_of (sd_policies db) tn of
     None \<Rightarrow> default_return_policy | Some p \<Rightarrow> p)"

definition MANAGER_ROLES :: "string list" where
  "MANAGER_ROLES = [''MANAGER'', ''ADMIN'', ''SUPERADMIN'', ''PLATFORM_ADMIN'']"

definition require_manager_override ::
    "user \<Rightarrow> return_policy \<Rightarrow> string list \<Rightarrow> bool option \<Rightarrow> unit res" where
  "require_manager_override u policy exceptions override =
    (if exceptions = [] then Inr ()
     else bindr (require (rp_require_manager_for_exceptions policy)
         (raise1 VALIDATION_ERROR ''return policy exception not allowed'')) (\<lambda>_.
       bindr (require (override = Some True)
         (raise1 VALIDATION_ERROR ''manager override required'')) (\<lambda>_.
       require (py_upper (us_role u) \<in> set MANAGER_ROLES)
         (raise1 PERMISSION_DENIED ''manager override requires elevated role''))))"

text \<open>The exceptions to the policy that the sale and the items make, in the code's order.\<close>

definition sale_exceptions ::
    "time \<Rightarrow> return_policy \<Rightarrow> pos_sale \<Rightarrow> return_item list \<Rightarrow> string option \<Rightarrow> string list" where
  "sale_exceptions now policy s items receipt =
    (if rp_require_receipt policy \<and> falsy receipt then [''receipt_required''] else [])
    @ (case sl_checked_out_at s of
         None \<Rightarrow> [''missing_checkout_time'']
       | Some t \<Rightarrow> if now > t + days (rp_return_window_days policy) then [''return_window_expired''] else [])
    @ (if rp_accepted_conditions policy \<noteq> []
          \<and> list_ex (\<lambda>i. ri_condition i \<notin> set (rp_accepted_conditions policy)) items
       then [''condition_not_accepted''] else [])"

definition refund_payment_ok :: "payment_create \<Rightarrow> unit res" where
  "refund_payment_ok p =
    bindr (require (\<not> py_amount p \<le> 0)
      (raise1 VALIDATION_ERROR ''refund payment amount must be greater than 0'')) (\<lambda>_.
    bindr (require (\<not> (py_method p = CARD \<and> falsy (py_authorization_code p)))
      (raise1 VALIDATION_ERROR ''authorization_code is required for CARD'')) (\<lambda>_.
    require (\<not> (py_method p = TRANSFER \<and> (falsy (py_bank_name p) \<or> falsy (py_voucher_number p))))
      (raise1 VALIDATION_ERROR ''bank_name and voucher_number are required for TRANSFER'')))"

definition method_exceptions :: "return_policy \<Rightarrow> payment_create \<Rightarrow> string list" where
  "method_exceptions policy p =
    (if py_method p = CASH \<and> \<not> rp_allow_refund_cash policy then [''refund_cash_not_allowed'']
     else if py_method p = CARD \<and> \<not> rp_allow_refund_card policy then [''refund_card_not_allowed'']
     else if py_method p = TRANSFER \<and> \<not> rp_allow_refund_transfer policy then [''refund_transfer_not_allowed'']
     else [])"

text \<open>The loop over the refund payments, which gathers exceptions.\<close>

definition refund_payments_check ::
    "return_policy \<Rightarrow> string list \<Rightarrow> payment_create list \<Rightarrow> string list res" where
  "refund_payments_check policy exceptions ps =
    for_each (\<lambda>ex p. bindr (refund_payment_ok p) (\<lambda>_. Inr (ex @ method_exceptions policy p))) exceptions ps"

section \<open>What is returned\<close>

definition item_line :: "sale_line list \<Rightarrow> return_item \<Rightarrow> sale_line option" where
  "item_line ls i = find (\<lambda>l. ln_id l = ri_line_id i) ls"

text \<open>The quantities of earlier events bound each item on its own.\<close>

definition price_item ::
    "sale_line list \<Rightarrow> (string \<times> int) list \<Rightarrow> money \<times> returned_line list \<Rightarrow> return_item
      \<Rightarrow> (money \<times> returned_line list) res" where
  "price_item ls refunded acc i = (case acc of (subtotal, out) \<Rightarrow>
    (case item_line ls i of
       None \<Rightarrow> Inl (raise1 VALIDATION_ERROR ''return line not found'')
     | Some l \<Rightarrow>
       bindr (require (\<not> ri_qty i < 1) (raise1 VALIDATION_ERROR ''qty must be at least 1'')) (\<lambda>_.
       bindr (require (\<not> ri_qty i > ln_qty l - dict_get refunded (ri_line_id i) 0)
         (raise1 VALIDATION_ERROR ''refund qty exceeds refundable balance'')) (\<lambda>_.
       bindr (require (\<not> (ln_line_type l = EPC_sale \<and> ri_qty i \<noteq> 1))
         (raise1 VALIDATION_ERROR ''EPC lines can only refund qty 1'')) (\<lambda>_.
       let line_subtotal = quantize2 (ln_unit_price l * of_int (ri_qty i))
       in Inr (subtotal + line_subtotal, out @ [\<lparr>rr_line_id = ri_line_id i, rr_qty = ri_qty i,
            rr_condition = ri_condition i, rr_line_type = ln_line_type l, rr_sku = ln_sku l,
            rr_epc = ln_epc l, rr_unit_price = ln_unit_price l, rr_line_total = line_subtotal\<rparr>]))))))"

definition price_items ::
    "sale_line list \<Rightarrow> (string \<times> int) list \<Rightarrow> return_item list \<Rightarrow> (money \<times> returned_line list) res" where
  "price_items ls refunded items = for_each (price_item ls refunded) (0, []) items"

definition refund_totals :: "money \<Rightarrow> money \<Rightarrow> return_totals" where
  "refund_totals subtotal pct =
    (let fee = quantize2 (subtotal * pct / 100)
     in \<lparr>tt_subtotal = subtotal, tt_restocking_fee = fee, tt_total = quantize2 (subtotal - fee)\<rparr>)"

definition cash_of :: "payment_create list \<Rightarrow> money" where
  "cash_of ps = sum_list (map py_amount (filter (\<lambda>p. py_method p = CASH) ps))"

section \<open>Stock that comes back\<close>

text \<open>The sold rows at the place of the line.\<close>

definition sold_tag :: "pos_sale \<Rightarrow> sale_line \<Rightarrow> stock_item \<Rightarrow> bool" where
  "sold_tag s l r \<longleftrightarrow> si_tenant_id r = sl_tenant_id s \<and> si_store_id r = Some (sl_store_id s)
    \<and> si_epc r = ln_epc l \<and> si_status r = Some ''SOLD'' \<and> si_location_code r = ln_location_code l
    \<and> si_pool r = ln_pool l"

definition sold_piece :: "pos_sale \<Rightarrow> sale_line \<Rightarrow> stock_item \<Rightarrow> bool" where
  "sold_piece s l r \<longleftrightarrow> si_tenant_id r = sl_tenant_id s \<and> si_store_id r = Some (sl_store_id s)
    \<and> si_sku r = ln_sku l \<and> si_status r = Some ''SOLD'' \<and> si_location_code r = ln_location_code l
    \<and> si_pool r = ln_pool l"

text \<open>The row that replaces one whose label cannot be used again.\<close>

definition relabelled_row :: "uuid \<Rightarrow> uuid \<Rightarrow> uuid \<Rightarrow> time \<Rightarrow> pos_sale \<Rightarrow> sale_line \<Rightarrow> stock_item" where
  "relabelled_row i uid tag now s l = \<lparr>si_id = i, si_item_uid = uid, si_tenant_id = sl_tenant_id s,
     si_store_id = Some (sl_store_id s), si_catalog_product_id = None, si_sku = ln_sku l,
     si_description = ln_description l, si_var1_value = ln_var1_value l, si_var2_value = ln_var2_value l,
     si_epc = (if falsy (ln_epc l) then None else Some (''NEW-EPC-'' @ tag)),
     si_location_code = ln_location_code l, si_pool = ln_pool l, si_status = Some ''RFID'',
     si_item_status = ''PENDING'', si_epc_status = ''AVAILABLE'', si_observation = None,
     si_print_status = ''NOT_REQUESTED'', si_issue_state = None, si_location_is_vendible = True,
     si_image_asset_id = fst (ln_image l), si_image_url = fst (snd (ln_image l)),
     si_image_thumb_url = fst (snd (snd (ln_image l))), si_image_source = fst (snd (snd (snd (ln_image l)))),
     si_image_updated_at = snd (snd (snd (snd (ln_image l)))), si_cost_price = None,
     si_suggested_price = None, si_sale_price = None, si_created_at = now, si_updated_at = Some now\<rparr>"

definition label_edit :: "return_policy \<Rightarrow> time \<Rightarrow> sale_line \<Rightarrow> sale_edit \<times> bool" where
  "label_edit policy now l =
    (let non_reusable = (py_upper (or_empty (ln_status l)) = ''NON_REUSABLE_LABEL'')
     in if non_reusable \<and> rp_non_reusable_label_strategy policy = ''ASSIGN_NEW_EPC''
        then (Take_back ''PENDING'' False False now, True)
        else if non_reusable \<and> rp_non_reusable_label_strategy policy = ''TO_PENDING''
        then (Take_back ''PENDING'' True True now, False)
        else (Take_back ''RFID'' True False now, False))"

text \<open>The loop's state is the stock's session, the rows added, and the number of the next of the
  request's values; \<open>what\<close> is the word its errors use.\<close>

type_synonym return_work = "stock_item session \<times> stock_item list \<times> nat"

definition take_back_item ::
    "string \<Rightarrow> (nat \<Rightarrow> uuid) \<Rightarrow> time \<Rightarrow> return_policy \<Rightarrow> pos_sale \<Rightarrow> sale_line list \<Rightarrow> return_work \<Rightarrow> return_item
      \<Rightarrow> return_work res" where
  "take_back_item what fresh now policy s ls st i = (case st of (ses, added, k) \<Rightarrow>
    (case item_line ls i of
       None \<Rightarrow> Inr st
     | Some l \<Rightarrow>
       (case ln_line_type l of
          EPC_sale \<Rightarrow>
            (case select_first si_id (sold_tag s l) ses of
               None \<Rightarrow> Inl (raise1 VALIDATION_ERROR (''sold stock not found for EPC '' @ what))
             | Some r \<Rightarrow>
                 let (e, relabel) = label_edit policy now l;
                     ses' = modify si_id (apply_sale_edit e) r ses
                 in Inr (if relabel
                      then (ses', added @ [relabelled_row (fresh k) (fresh (k + 1)) (fresh (k + 2)) now s l], k + 3)
                      else (ses', added, k)))
        | SKU_sale \<Rightarrow>
            let rows = select_oldest si_id si_created_at (sold_piece s l) (ri_qty i) ses in
            if int (length rows) < ri_qty i
            then Inl (raise1 VALIDATION_ERROR (''sold stock not found for SKU '' @ what))
            else Inr (modify_all si_id (apply_sale_edit (Take_back ''PENDING'' True False now)) rows ses, added, k))))"

section \<open>Refund\<close>

record refund_request =
  rf_transaction_id :: "string option"
  rf_return_items :: "return_item list"
  rf_refund_payments :: "payment_create list"
  rf_manager_override :: "bool option"
  rf_receipt_number :: "string option"

definition sale_permission :: "request_env \<Rightarrow> string \<Rightarrow> unit res" where
  "sale_permission env key =
    bindr (require_permission (rq_ac env) (rq_cache env) key (rq_context env) (rq_token env)) (\<lambda>_. Inr ())"

text \<open>The checks that need no row of the sale's lines.\<close>

definition refund_checks ::
    "request_env \<Rightarrow> refund_request \<Rightarrow> user \<Rightarrow> return_policy \<Rightarrow> pos_sale \<Rightarrow> unit res" where
  "refund_checks env p u policy s =
    bindr (sale_permission env ''POS_SALE_REFUND'') (\<lambda>_.
    bindr (require (sl_status s = ''PAID'')
      (raise1 VALIDATION_ERROR ''sale must be PAID to refund'')) (\<lambda>_.
    bindr (require (rf_return_items p \<noteq> [])
      (raise1 VALIDATION_ERROR ''return_items must not be empty'')) (\<lambda>_.
    bindr (require (rf_refund_payments p \<noteq> [])
      (raise1 VALIDATION_ERROR ''refund_payments must not be empty'')) (\<lambda>_.
    bindr (refund_payments_check policy
        (sale_exceptions (rq_now env) policy s (rf_return_items p) (rf_receipt_number p))
        (rf_refund_payments p)) (\<lambda>exceptions.
      require_manager_override u policy exceptions (rf_manager_override p))))))"

definition refund_event ::
    "request_env \<Rightarrow> refund_request \<Rightarrow> return_policy \<Rightarrow> pos_sale \<Rightarrow> return_totals \<Rightarrow> returned_line list
      \<Rightarrow> return_event" where
  "refund_event env p policy s t returned =
    \<lparr>re_id = rq_fresh env 0, re_tenant_id = sl_tenant_id s, re_store_id = sl_store_id s,
     re_sale_id = sl_id s, re_exchange_sale_id = None, re_action = ''REFUND_ITEMS'',
     re_refund_subtotal = tt_subtotal t, re_restocking_fee = tt_restocking_fee t,
     re_refund_total = tt_total t, re_exchange_total = 0, re_net_adjustment = - tt_total t,
     re_payload = Sale_return \<lparr>rt_returned_lines = returned, rt_exchange_lines = [],
       rt_refund_payments = rf_refund_payments p, rt_collection_payments = [],
       rt_policy_snapshot = policy, rt_receipt_number = rf_receipt_number p,
       rt_manager_override = (rf_manager_override p = Some True),
       rt_transaction_id = the (rf_transaction_id p), rt_exchange_sale_id = None\<rparr>,
     re_created_at = rq_now env\<rparr>"

definition refund_items ::
    "request_env \<Rightarrow> refund_request \<Rightarrow> user \<Rightarrow> pos_sale \<Rightarrow> sale_db \<Rightarrow> sale_detail sale_result" where
  "refund_items env p u s db =
    (let tn = sl_tenant_id s; sid = sl_store_id s; now = rq_now env; policy = get_return_policy db tn;
         ls = sale_lines (sl_id s) db; refunded = refunded_quantities (get_return_events (sl_id s) db) in
    bindr (refund_checks env p u policy s) (\<lambda>_.
    bindr (price_items ls refunded (rf_return_items p)) (\<lambda>(subtotal, returned).
    let t = refund_totals subtotal (rp_restocking_fee_pct policy) in
    bindr (require (sum_list (map py_amount (rf_refund_payments p)) = tt_total t)
      (raise1 VALIDATION_ERROR ''refund payments must equal refund total'')) (\<lambda>_.
    let cash = cash_of (rf_refund_payments p) in
    bindr (session_for_cash (av_cash (sd_pos db)) tn sid (us_id u) cash) (\<lambda>session.
    bindr (for_each (take_back_item ''refund'' (rq_fresh env) now policy s ls) (open_session (sd_stock db), [], 3)
        (rf_return_items p)) (\<lambda>(ses, added, _).
    bindr (post_sale_cash env (rf_transaction_id p) u s session ''CASH_OUT_REFUND'' cash (sd_pos db)) (\<lambda>pos.
    let db' = publish_sales (db\<lparr>sd_pos := pos, sd_stock := commit si_id ses @ added,
          sd_returns := sd_returns db @ [refund_event env p policy s t returned]\<rparr>)
    in Inr (db', sale_response db' s))))))))"

section \<open>Exchange\<close>

record exchange_request =
  ex_transaction_id :: "string option"
  ex_return_items :: "return_item list"
  ex_exchange_lines :: "line_create list"
  ex_payments :: "payment_create list"
  ex_refund_payments :: "payment_create list"
  ex_manager_override :: "bool option"
  ex_receipt_number :: "string option"

text \<open>The difference between what is taken and what is returned decides who pays: the answer is the
  cash that moves, to the drawer or out of it.\<close>

definition exchange_settlement ::
    "exchange_request \<Rightarrow> user \<Rightarrow> return_policy \<Rightarrow> string list \<Rightarrow> money \<Rightarrow> (money \<times> money) res" where
  "exchange_settlement p u policy exceptions delta =
    (if delta > 0 then
       bindr (require (ex_payments p \<noteq> [])
         (raise1 VALIDATION_ERROR ''payments required for exchange collection'')) (\<lambda>_.
       bindr (require (ex_refund_payments p = [])
         (raise1 VALIDATION_ERROR ''refund_payments are not allowed when exchange delta is positive'')) (\<lambda>_.
       bindr (validate_payments (ex_payments p) delta) (\<lambda>t.
       Inr (ct_cash_total t, max 0 (ct_cash_total t - ct_change_due t)))))
     else if delta < 0 then
       bindr (require (ex_payments p = [])
         (raise1 VALIDATION_ERROR ''payments are not allowed when exchange delta is negative'')) (\<lambda>_.
       bindr (require (ex_refund_payments p \<noteq> [])
         (raise1 VALIDATION_ERROR ''refund_payments required for exchange refund'')) (\<lambda>_.
       bindr (refund_payments_check policy exceptions (ex_refund_payments p)) (\<lambda>exceptions'.
       bindr (require_manager_override u policy exceptions' (ex_manager_override p)) (\<lambda>_.
       bindr (require (sum_list (map py_amount (ex_refund_payments p)) = \<bar>delta\<bar>)
         (raise1 VALIDATION_ERROR ''refund payments must equal exchange refund total'')) (\<lambda>_.
       Inr (cash_of (ex_refund_payments p), cash_of (ex_refund_payments p)))))))
     else
       bindr (require (ex_payments p = [] \<and> ex_refund_payments p = [])
         (raise1 VALIDATION_ERROR ''payments and refund_payments must be empty when exchange delta is zero'')) (\<lambda>_.
       Inr (0, 0)))"

definition exchange_sale_row ::
    "request_env \<Rightarrow> user \<Rightarrow> pos_sale \<Rightarrow> money \<Rightarrow> pos_sale" where
  "exchange_sale_row env u s amount =
    \<lparr>sl_id = rq_fresh env 0, sl_tenant_id = sl_tenant_id s, sl_store_id = sl_store_id s,
     sl_status = ''PAID'', sl_total_due = amount, sl_paid_total = amount, sl_balance_due = 0,
     sl_change_due = 0, sl_receipt_number = None, sl_sale_code = None,
     sl_created_by_user_id = Some (us_id u), sl_updated_by_user_id = Some (us_id u),
     sl_checked_out_by_user_id = Some (us_id u), sl_canceled_by_user_id = None,
     sl_checked_out_at = Some (rq_now env), sl_canceled_at = None, sl_created_at = rq_now env,
     sl_updated_at = Some (rq_now env)\<rparr>"

definition exchange_out_line ::
    "uuid \<Rightarrow> uuid \<Rightarrow> time \<Rightarrow> stock_work \<Rightarrow> line_create \<Rightarrow> stock_work res" where
  "exchange_out_line tn sid now w line =
    (let sn = line_snapshot_or_default line in
     case lc_line_type line of
       EPC_sale \<Rightarrow>
         bindr (sell_tag tn sid now False
             (raise1 VALIDATION_ERROR ''insufficient RFID stock for exchange EPC line'')
             (ss_epc sn) (ss_location_code sn) (ss_pool sn) w) (\<lambda>(w', _). Inr w')
     | SKU_sale \<Rightarrow>
         bindr (sell_pieces tn sid now
             (raise1 VALIDATION_ERROR ''insufficient stock for exchange SKU line'')
             (ss_sku sn) (ss_location_code sn) (ss_pool sn) (lc_qty line) w) (\<lambda>(w', _). Inr w'))"

definition exchange_event ::
    "request_env \<Rightarrow> exchange_request \<Rightarrow> return_policy \<Rightarrow> pos_sale \<Rightarrow> return_totals \<Rightarrow> money \<Rightarrow> money
      \<Rightarrow> returned_line list \<Rightarrow> line_create list \<Rightarrow> return_event" where
  "exchange_event env p policy s t exchange_total delta returned lines =
    \<lparr>re_id = rq_fresh env 1, re_tenant_id = sl_tenant_id s, re_store_id = sl_store_id s,
     re_sale_id = sl_id s, re_exchange_sale_id = Some (rq_fresh env 0), re_action = ''EXCHANGE_ITEMS'',
     re_refund_subtotal = tt_subtotal t, re_restocking_fee = tt_restocking_fee t,
     re_refund_total = tt_total t, re_exchange_total = exchange_total, re_net_adjustment = delta,
     re_payload = Sale_return \<lparr>rt_returned_lines = returned, rt_exchange_lines = lines,
       rt_refund_payments = ex_refund_payments p, rt_collection_payments = ex_payments p,
       rt_policy_snapshot = policy, rt_receipt_number = ex_receipt_number p,
       rt_manager_override = (ex_manager_override p = Some True),
       rt_transaction_id = the (ex_transaction_id p), rt_exchange_sale_id = Some (rq_fresh env 0)\<rparr>,
     re_created_at = rq_now env\<rparr>"

definition exchange_checks ::
    "request_env \<Rightarrow> exchange_request \<Rightarrow> pos_sale \<Rightarrow> unit res" where
  "exchange_checks env p s =
    bindr (sale_permission env ''POS_SALE_EXCHANGE'') (\<lambda>_.
    bindr (require (is_finalized_sale_status (Some (sl_status s)))
      (raise1 VALIDATION_ERROR ''sale must be finalized to exchange'')) (\<lambda>_.
    bindr (require (ex_return_items p \<noteq> [])
      (raise1 VALIDATION_ERROR ''return_items must not be empty'')) (\<lambda>_.
    require (ex_exchange_lines p \<noteq> [])
      (raise1 VALIDATION_ERROR ''exchange_lines must not be empty''))))"

text \<open>The rows of the exchange sale's lines have no code.\<close>

definition exchange_line_rows ::
    "(nat \<Rightarrow> uuid) \<Rightarrow> nat \<Rightarrow> uuid \<Rightarrow> uuid \<Rightarrow> time \<Rightarrow> line_create list \<Rightarrow> sale_line list" where
  "exchange_line_rows fresh k sale_id tn now ls =
    map (\<lambda>(i, l). sale_line_row (fresh (k + i)) None sale_id tn now l) (enumerate 0 ls)"

definition exchange_items ::
    "request_env \<Rightarrow> exchange_request \<Rightarrow> user \<Rightarrow> pos_sale \<Rightarrow> sale_db \<Rightarrow> sale_detail sale_result" where
  "exchange_items env p u s db =
    (let tn = sl_tenant_id s; sid = sl_store_id s; now = rq_now env; policy = get_return_policy db tn;
         ls = sale_lines (sl_id s) db; refunded = refunded_quantities (get_return_events (sl_id s) db);
         exceptions = (if rp_allow_exchange policy then [] else [''exchange_not_allowed''])
           @ sale_exceptions now policy s (ex_return_items p) (ex_receipt_number p) in
    bindr (exchange_checks env p s) (\<lambda>_.
    bindr (map_res (build_sale_line_from_stock db tn sid) (ex_exchange_lines p)) (\<lambda>new.
    bindr (require_manager_override u policy exceptions (ex_manager_override p)) (\<lambda>_.
    bindr (price_items ls refunded (ex_return_items p)) (\<lambda>(subtotal, returned).
    let t = refund_totals subtotal (rp_restocking_fee_pct policy); exchange_total = lines_total new;
        delta = quantize2 (exchange_total - tt_total t) in
    bindr (exchange_settlement p u policy exceptions delta) (\<lambda>(cash, amount).
    bindr (session_for_cash (av_cash (sd_pos db)) tn sid (us_id u) cash) (\<lambda>session.
    bindr (for_each (exchange_out_line tn sid now) (start_work db) new) (\<lambda>w.
    bindr (for_each (take_back_item ''return'' (rq_fresh env) now policy s ls)
        (wk_stock w, [], 3 + length new + length (ex_payments p)) (ex_return_items p)) (\<lambda>(ses, added, _).
    bindr (post_sale_cash env (ex_transaction_id p) u s session
        (if delta < 0 then ''CASH_OUT_REFUND'' else ''SALE'') amount (sd_pos db)) (\<lambda>pos.
    let x = exchange_sale_row env u s exchange_total;
        db1 = commit_work (w\<lparr>wk_stock := ses\<rparr>) db;
        db' = publish_sales (db1\<lparr>sd_pos := pos, sd_stock := sd_stock db1 @ added,
          sd_sales := sd_sales db @ [x],
          sd_lines := sd_lines db @ exchange_line_rows (rq_fresh env) 3 (sl_id x) tn now new,
          sd_payments := sd_payments db
            @ payment_rows (rq_fresh env) (3 + length new) (sl_id x) tn now (ex_payments p),
          sd_returns := sd_returns db
            @ [exchange_event env p policy s t exchange_total delta returned new]\<rparr>)
    in Inr (db', sale_response db' s)))))))))))"

section \<open>The endpoint\<close>

datatype sale_action =
    Checkout checkout_request
  | Cancel "string option"
  | Refund_items refund_request
  | Exchange_items exchange_request

fun action_transaction_id :: "sale_action \<Rightarrow> string option" where
  "action_transaction_id (Checkout p) = cr_transaction_id p"
| "action_transaction_id (Cancel tx) = tx"
| "action_transaction_id (Refund_items p) = rf_transaction_id p"
| "action_transaction_id (Exchange_items p) = ex_transaction_id p"

definition sale_action_body ::
    "request_env \<Rightarrow> uuid \<Rightarrow> sale_action \<Rightarrow> uuid \<Rightarrow> user \<Rightarrow> sale_db \<Rightarrow> sale_detail sale_result" where
  "sale_action_body env i p tn u db =
    bindr (find_sale i tn db) (\<lambda>s.
    bindr (sale_store env None db) (\<lambda>sid.
    bindr (require (sl_store_id s = sid)
      (raise1 STORE_SCOPE_MISMATCH ''sale belongs to another store'')) (\<lambda>_.
    case p of
      Cancel tx \<Rightarrow> cancel_sale env u s db
    | Refund_items r \<Rightarrow> refund_items env r u s db
    | Exchange_items x \<Rightarrow> exchange_items env x u s db
    | Checkout c \<Rightarrow> checkout_sale env c u s db)))"

definition sale_action_endpoint ::
    "(app_error \<Rightarrow> string) \<Rightarrow> (sale_detail \<Rightarrow> string) \<Rightarrow> request_env \<Rightarrow> uuid \<Rightarrow> sale_action
      \<Rightarrow> idem_table \<times> sale_db \<Rightarrow> reply \<times> idem_table \<times> sale_db" where
  "sale_action_endpoint dump_err dump env i p =
    guarded_endpoint env dump_err (\<lambda>_. sale_tenant env (action_transaction_id p))
      (\<lambda>tn u db. replying 200 dump (sale_action_body env i p tn u db))"

end
