(* ===== verification/Return_Service.thy ===== *)
theory Return_Service
  imports Sale_Returns
begin

text \<open>
  Returns, the workflow of \<^verbatim>\<open>services/pos_returns.py\<close> and its routes: a quote, a draft that is
  completed or voided, and the queries. A completed return is recorded as a return event; the
  service moves neither stock nor cash.
\<close>

section \<open>Requests and replies\<close>

record quote_item =
  qi_sale_line_id :: string
  qi_qty :: int
  qi_exchange :: bool

record quote_request =
  qr_store_id :: "string option"
  qr_sale_id :: uuid
  qr_items :: "quote_item list"
  qr_exchange_lines :: "line_create list"

datatype settlement = CUSTOMER_PAYS | STORE_REFUNDS | NO_settlement

record return_quote =
  rq_refund_total :: money
  rq_exchange_total :: money
  rq_net_adjustment :: money
  rq_direction :: settlement
  rq_lines :: "quote_line list"
  rq_preview :: "(line_create \<times> int \<times> money \<times> money) list"

definition DRAFT_ACTION :: string where "DRAFT_ACTION = ''RETURN_DRAFT''"
definition VOID_ACTION :: string where "VOID_ACTION = ''RETURN_VOID''"
definition COMPLETE_ACTION :: string where "COMPLETE_ACTION = ''RETURN_COMPLETE''"

definition RETURN_WINDOW_DAYS :: int where "RETURN_WINDOW_DAYS = 7"

definition settlement_direction :: "money \<Rightarrow> settlement" where
  "settlement_direction n =
    (if n > 0 then CUSTOMER_PAYS else if n < 0 then STORE_REFUNDS else NO_settlement)"

definition event_status :: "return_event \<Rightarrow> string" where
  "event_status e = (if re_action e = DRAFT_ACTION then ''DRAFT''
     else if re_action e = VOID_ACTION then ''VOIDED'' else ''COMPLETED'')"

definition return_number_of :: "uuid \<Rightarrow> string" where
  "return_number_of i = ''RET-'' @ py_upper (takeWhile (\<lambda>c. c \<noteq> CHR ''-'') i)"

definition event_return_number :: "return_event \<Rightarrow> string" where
  "event_return_number e = (case re_payload e of
     Draft_return d \<Rightarrow> if rd_return_number d = [] then return_number_of (re_id e) else rd_return_number d
   | _ \<Rightarrow> return_number_of (re_id e))"

section \<open>Quotes\<close>

definition validate_sale_eligibility :: "time \<Rightarrow> pos_sale \<Rightarrow> unit res" where
  "validate_sale_eligibility now s =
    bindr (require (is_finalized_sale_status (Some (sl_status s)))
      (raise1 VALIDATION_ERROR ''sale is not finalized'')) (\<lambda>_.
    (case sl_checked_out_at s of
       None \<Rightarrow> Inl (raise1 VALIDATION_ERROR ''sale checkout timestamp is required'')
     | Some t \<Rightarrow> require (\<not> now > t + days RETURN_WINDOW_DAYS)
         (raise1 BUSINESS_CONFLICT ''exchange window expired'')))"

text \<open>\<^verbatim>\<open>_completed_returned_quantities\<close>: the quantities of the refunds and exchanges.\<close>

definition completed_returned_quantities :: "return_event list \<Rightarrow> (string \<times> int) list" where
  "completed_returned_quantities es = refunded_quantities es"

definition quote_item_line ::
    "sale_line list \<Rightarrow> (string \<times> int) list \<Rightarrow> quote_item \<Rightarrow> quote_line res" where
  "quote_item_line ls returned i =
    (case find (\<lambda>l. ln_id l = qi_sale_line_id i) ls of
       None \<Rightarrow> Inl (raise1 VALIDATION_ERROR ''return line not found'')
     | Some l \<Rightarrow>
         bindr (require (\<not> qi_qty i > max (ln_qty l - dict_get returned (qi_sale_line_id i) 0) 0)
           (raise1 BUSINESS_CONFLICT ''return exceeds returnable_qty'')) (\<lambda>_.
         let price = quantize2 (ln_unit_price l)
         in Inr \<lparr>ql_sale_line_id = qi_sale_line_id i, ql_exchange = qi_exchange i, ql_qty = qi_qty i,
              ql_unit_price = price, ql_line_total = quantize2 (price * of_int (qi_qty i))\<rparr>))"

definition quoted_price :: "stock_item \<Rightarrow> money" where
  "quoted_price r = quantize2 (case si_sale_price r of None \<Rightarrow> 0 | Some p \<Rightarrow> p)"

definition exchange_preview_line ::
    "sale_db \<Rightarrow> uuid \<Rightarrow> uuid \<Rightarrow> line_create \<Rightarrow> (line_create \<times> int \<times> money \<times> money) res" where
  "exchange_preview_line db tn sid l =
    (let q = (if lc_qty l = 0 then 1 else lc_qty l);
         entry = (\<lambda>r. (l, q, quoted_price r, quantize2 (quoted_price r * of_int q)))
     in if lc_line_type l = EPC_sale then
          (case find (sale_epc_filters tn sid (fmt (lc_epc l))) (sd_stock db) of
             None \<Rightarrow> Inl (raise1 VALIDATION_ERROR ''replacement item not available in this store'')
           | Some r \<Rightarrow> Inr (entry r))
        else
          let rows = filter (sale_sku_filters tn sid (fmt (lc_sku l))) (sd_stock db) in
          if int (length rows) < q then
            Inl (raise1 VALIDATION_ERROR (if rows = [] then ''replacement item not available in this store''
              else ''quantity exceeds available''))
          else (case rows of
             [] \<Rightarrow> Inl (raise1 VALIDATION_ERROR ''replacement item not available in this store'')
           | r # _ \<Rightarrow> Inr (entry r)))"

definition quote_from_sale ::
    "sale_db \<Rightarrow> time \<Rightarrow> pos_sale \<Rightarrow> uuid \<Rightarrow> quote_request \<Rightarrow> return_quote res" where
  "quote_from_sale db now s sid p =
    bindr (validate_sale_eligibility now s) (\<lambda>_.
    bindr (map_res (quote_item_line (sale_lines (sl_id s) db)
        (completed_returned_quantities (get_return_events (sl_id s) db))) (qr_items p)) (\<lambda>ls.
    bindr (map_res (exchange_preview_line db (sl_tenant_id s) sid) (qr_exchange_lines p)) (\<lambda>preview.
    bindr (require (\<not> (list_ex qi_exchange (qr_items p) \<and> preview = []))
      (raise1 VALIDATION_ERROR ''exchange_lines required when items include EXCHANGE resolution'')) (\<lambda>_.
    let refund = sum_list (map ql_line_total ls);
        exchange = sum_list (map (\<lambda>(l, q, price, amount). amount) preview);
        net = quantize2 (exchange - refund)
    in Inr \<lparr>rq_refund_total = refund, rq_exchange_total = exchange, rq_net_adjustment = net,
         rq_direction = settlement_direction net, rq_lines = ls, rq_preview = preview\<rparr>))))"

section \<open>Scope\<close>

text \<open>The sale a quote names: of the token's tenant and of the resolved store.\<close>

definition returnable_sale ::
    "request_env \<Rightarrow> string option \<Rightarrow> uuid \<Rightarrow> sale_db \<Rightarrow> (uuid \<times> pos_sale) res" where
  "returnable_sale env store_id i db =
    bindr (sale_store env store_id db) (\<lambda>sid.
    (case get_sale_by_id i db of
       None \<Rightarrow> Inl (raise1 RESOURCE_NOT_FOUND ''sale not found'')
     | Some s \<Rightarrow>
         bindr (require (Some (sl_tenant_id s) = td_tenant_id (rq_token env))
           (raise0 CROSS_TENANT_ACCESS_DENIED)) (\<lambda>_.
         bindr (require (sl_store_id s = sid)
           (raise1 STORE_SCOPE_MISMATCH ''sale belongs to another store'')) (\<lambda>_. Inr (sid, s)))))"

definition quote_return :: "request_env \<Rightarrow> quote_request \<Rightarrow> sale_db \<Rightarrow> return_quote res" where
  "quote_return env p db =
    bindr (permitted_user env ''POS_SALE_MANAGE'') (\<lambda>_.
    bindr (returnable_sale env (qr_store_id p) (qr_sale_id p) db) (\<lambda>(sid, s).
      quote_from_sale db (rq_now env) s sid p))"

text \<open>The event a route names.\<close>

definition find_return ::
    "request_env \<Rightarrow> string option \<Rightarrow> uuid \<Rightarrow> sale_db \<Rightarrow> return_event res" where
  "find_return env store_id i db =
    bindr (sale_store env store_id db) (\<lambda>sid.
    bindr (require (valid_uuid i) (raise1 RESOURCE_NOT_FOUND ''return not found'')) (\<lambda>_.
    (case find (\<lambda>e. re_id e = i) (sd_returns db) of
       None \<Rightarrow> Inl (raise1 RESOURCE_NOT_FOUND ''return not found'')
     | Some e \<Rightarrow>
         bindr (require (Some (re_tenant_id e) = td_tenant_id (rq_token env))
           (raise0 CROSS_TENANT_ACCESS_DENIED)) (\<lambda>_.
         bindr (require (re_store_id e = sid)
           (raise1 STORE_SCOPE_MISMATCH ''return cannot be completed from this store'')) (\<lambda>_. Inr e)))))"

section \<open>Drafts\<close>

definition draft_event ::
    "request_env \<Rightarrow> uuid \<Rightarrow> pos_sale \<Rightarrow> return_quote \<Rightarrow> return_event" where
  "draft_event env sid s q =
    \<lparr>re_id = rq_fresh env 0, re_tenant_id = sl_tenant_id s, re_store_id = sid, re_sale_id = sl_id s,
     re_exchange_sale_id = None, re_action = DRAFT_ACTION, re_refund_subtotal = rq_refund_total q,
     re_restocking_fee = 0, re_refund_total = rq_refund_total q, re_exchange_total = rq_exchange_total q,
     re_net_adjustment = rq_net_adjustment q,
     re_payload = Draft_return \<lparr>rd_return_number = return_number_of (rq_fresh env 1),
       rd_status = ''DRAFT'', rd_lines = rq_lines q, rd_events = [(''CREATED'', rq_now env)],
       rd_completed_at = None, rd_settlement_payments = []\<rparr>,
     re_created_at = rq_now env\<rparr>"

definition create_return ::
    "request_env \<Rightarrow> quote_request \<Rightarrow> sale_db \<Rightarrow> return_event sale_result" where
  "create_return env p db =
    bindr (permitted_user env ''POS_SALE_MANAGE'') (\<lambda>_.
    bindr (returnable_sale env (qr_store_id p) (qr_sale_id p) db) (\<lambda>(sid, s).
    bindr (validate_sale_eligibility (rq_now env) s) (\<lambda>_.
    bindr (quote_from_sale db (rq_now env) s sid p) (\<lambda>q.
    let e = draft_event env sid s q in Inr (db\<lparr>sd_returns := sd_returns db @ [e]\<rparr>, e)))))"

datatype return_action = Void_return | Complete_return "settlement_payment list"

definition set_return :: "return_event \<Rightarrow> return_event list \<Rightarrow> return_event list" where
  "set_return e es = map (\<lambda>x. if re_id x = re_id e then e else x) es"

text \<open>The draft of an event; an event of another kind has none.\<close>

definition draft_of :: "return_event \<Rightarrow> return_draft" where
  "draft_of e = (case re_payload e of
     Draft_return d \<Rightarrow> d
   | _ \<Rightarrow> \<lparr>rd_return_number = [], rd_status = [], rd_lines = [], rd_events = [], rd_completed_at = None,
       rd_settlement_payments = []\<rparr>)"

definition settlement_ok :: "money \<Rightarrow> settlement_payment list \<Rightarrow> unit res" where
  "settlement_ok net ps =
    bindr (require (\<not> (net \<noteq> 0 \<and> ps = []))
      (raise1 VALIDATION_ERROR
        ''settlement_payments are required for COMPLETE when net adjustment requires settlement'')) (\<lambda>_.
    let paid = sum_list (map sm_amount ps) in
    bindr (require (\<not> (net > 0 \<and> paid \<noteq> net))
      (raise1 VALIDATION_ERROR ''settlement_payments total must equal net adjustment'')) (\<lambda>_.
    require (\<not> (net < 0 \<and> paid \<noteq> \<bar>net\<bar>))
      (raise1 VALIDATION_ERROR ''settlement_payments total must equal refund due'')))"

definition completion_event :: "request_env \<Rightarrow> return_event \<Rightarrow> return_event" where
  "completion_event env e =
    \<lparr>re_id = rq_fresh env 0, re_tenant_id = re_tenant_id e, re_store_id = re_store_id e,
     re_sale_id = re_sale_id e, re_exchange_sale_id = None,
     re_action = (if re_exchange_total e > 0 then ''EXCHANGE_ITEMS'' else ''REFUND_ITEMS''),
     re_refund_subtotal = re_refund_subtotal e, re_restocking_fee = re_restocking_fee e,
     re_refund_total = re_refund_total e, re_exchange_total = re_exchange_total e,
     re_net_adjustment = re_net_adjustment e,
     re_payload = Completed_return (map (\<lambda>l. (ql_sale_line_id l, ql_qty l)) (rd_lines (draft_of e))) (re_id e),
     re_created_at = rq_now env\<rparr>"

definition action_return ::
    "request_env \<Rightarrow> string option \<Rightarrow> uuid \<Rightarrow> return_action \<Rightarrow> sale_db \<Rightarrow> return_event sale_result" where
  "action_return env store_id i a db =
    bindr (permitted_user env ''POS_SALE_MANAGE'') (\<lambda>_.
    bindr (find_return env store_id i db) (\<lambda>e.
    bindr (require (re_action e = DRAFT_ACTION)
      (raise1 BUSINESS_CONFLICT ''Action cannot be executed for current return state'')) (\<lambda>_.
    let d = draft_of e; now = rq_now env in
    (case a of
       Void_return \<Rightarrow>
         let e' = e\<lparr>re_action := VOID_ACTION, re_payload := Draft_return
               (d\<lparr>rd_events := rd_events d @ [(''VOID'', now)], rd_status := ''VOIDED''\<rparr>)\<rparr>
         in Inr (db\<lparr>sd_returns := set_return e' (sd_returns db)\<rparr>, e')
     | Complete_return ps \<Rightarrow>
         bindr (settlement_ok (quantize2 (re_net_adjustment e)) ps) (\<lambda>_.
         let e' = e\<lparr>re_action := COMPLETE_ACTION, re_payload := Draft_return
               (d\<lparr>rd_events := rd_events d @ [(''COMPLETE'', now)], rd_completed_at := Some now,
                  rd_status := ''COMPLETED'', rd_settlement_payments := ps\<rparr>)\<rparr>
         in Inr (db\<lparr>sd_returns := set_return e' (sd_returns db) @ [completion_event env e]\<rparr>, e'))))))"

section \<open>Queries\<close>

record return_view =
  rv_event :: return_event
  rv_return_number :: string
  rv_status :: string
  rv_direction :: settlement
  rv_draft :: return_draft

definition return_detail :: "return_event \<Rightarrow> return_view" where
  "return_detail e = \<lparr>rv_event = e, rv_return_number = event_return_number e, rv_status = event_status e,
     rv_direction = settlement_direction (quantize2 (re_net_adjustment e)), rv_draft = draft_of e\<rparr>"

definition get_return :: "request_env \<Rightarrow> string option \<Rightarrow> uuid \<Rightarrow> sale_db \<Rightarrow> return_view res" where
  "get_return env store_id i db =
    bindr (permitted_user env ''POS_SALE_VIEW'') (\<lambda>_.
    bindr (find_return env store_id i db) (\<lambda>e. Inr (return_detail e)))"

definition list_returns ::
    "request_env \<Rightarrow> string option \<Rightarrow> string option \<Rightarrow> string option \<Rightarrow> int \<Rightarrow> int \<Rightarrow> sale_db
      \<Rightarrow> (return_view list \<times> int) res" where
  "list_returns env store_id sale_id receipt page page_size db =
    bindr (permitted_user env ''POS_SALE_VIEW'') (\<lambda>_.
    bindr (sale_store env store_id db) (\<lambda>sid.
    let tn = td_tenant_id (rq_token env);
        rows = filter (\<lambda>e. re_action e \<in> {DRAFT_ACTION, VOID_ACTION, COMPLETE_ACTION}
          \<and> Some (re_tenant_id e) = tn \<and> re_store_id e = sid
          \<and> (falsy sale_id \<or> Some (re_sale_id e) = sale_id)
          \<and> (falsy receipt \<or> list_ex (\<lambda>s. sl_id s = re_sale_id e \<and> Some (sl_tenant_id s) = tn
              \<and> sl_store_id s = sid \<and> sl_receipt_number s = receipt) (sd_sales db))) (sd_returns db);
        sorted = sort_key (\<lambda>e. - re_created_at e) rows
    in Inr (map return_detail (take (nat page_size) (drop (nat (max (page - 1) 0 * page_size)) sorted)),
         int (length rows))))"

record eligibility =
  el_sale_id :: uuid
  el_receipt_number :: "string option"
  el_eligible :: bool
  el_lines :: "(sale_line \<times> int \<times> int) list"

text \<open>By receipt, a sale of another store of the tenant is told from one that does not exist.\<close>

definition eligible_sale ::
    "request_env \<Rightarrow> uuid \<Rightarrow> string option \<Rightarrow> string option \<Rightarrow> sale_db \<Rightarrow> pos_sale res" where
  "eligible_sale env sid sale_id receipt db =
    (let tn = td_tenant_id (rq_token env) in
     if \<not> falsy sale_id then
       (case get_sale_by_id (the sale_id) db of
          None \<Rightarrow> Inl (raise1 RESOURCE_NOT_FOUND ''sale not found'')
        | Some s \<Rightarrow>
            bindr (require (Some (sl_tenant_id s) = tn) (raise0 CROSS_TENANT_ACCESS_DENIED)) (\<lambda>_.
            bindr (require (sl_store_id s = sid)
              (raise1 STORE_SCOPE_MISMATCH ''sale belongs to another store'')) (\<lambda>_. Inr s)))
     else
       (case find (\<lambda>s. Some (sl_tenant_id s) = tn \<and> sl_store_id s = sid \<and> sl_receipt_number s = receipt)
           (sd_sales db) of
          Some s \<Rightarrow> Inr s
        | None \<Rightarrow>
            if list_ex (\<lambda>s. Some (sl_tenant_id s) = tn \<and> sl_receipt_number s = receipt) (sd_sales db)
            then Inl (raise1 STORE_SCOPE_MISMATCH ''receipt belongs to another store'')
            else Inl (raise1 RESOURCE_NOT_FOUND ''sale not found'')))"

definition get_eligibility ::
    "request_env \<Rightarrow> string option \<Rightarrow> string option \<Rightarrow> string option \<Rightarrow> sale_db \<Rightarrow> eligibility res" where
  "get_eligibility env sale_id receipt store_id db =
    bindr (permitted_user env ''POS_SALE_VIEW'') (\<lambda>_.
    bindr (require (\<not> (falsy sale_id \<and> falsy receipt))
      (raise1 VALIDATION_ERROR ''sale_id or receipt_number is required'')) (\<lambda>_.
    bindr (sale_store env store_id db) (\<lambda>sid.
    bindr (eligible_sale env sid sale_id receipt db) (\<lambda>s.
    bindr (validate_sale_eligibility (rq_now env) s) (\<lambda>_.
    let returned = completed_returned_quantities (get_return_events (sl_id s) db);
        ls = map (sale_line_response returned) (sale_lines (sl_id s) db)
    in Inr \<lparr>el_sale_id = sl_id s, el_receipt_number = sl_receipt_number s,
         el_eligible = list_ex (\<lambda>(l, r, q). q > 0) ls, el_lines = ls\<rparr>)))))"

end
