(* ===== verification/Sale_Ledger.thy ===== *)
theory Sale_Ledger
  imports Return_Service
begin

text \<open>
  Sales, an abstract machine over the sales, their lines, payments and return events, and over
  the vouchers and the cash they share with the other routers. Its invariant says that the rows
  refer to each other, that the sums on a sale are those of its rows, that the cash ledger holds
  for a sale exactly the cash it took and gave, and that a voucher that paid was consumed by that
  sale.
\<close>

section \<open>Sums\<close>

definition lines_of :: "sale_db \<Rightarrow> uuid \<Rightarrow> sale_line list" where
  "lines_of db i = filter (\<lambda>l. ln_sale_id l = i) (sd_lines db)"

definition payments_of :: "sale_db \<Rightarrow> uuid \<Rightarrow> pos_payment list" where
  "payments_of db i = filter (\<lambda>p. pp_sale_id p = i) (sd_payments db)"

definition returns_of :: "sale_db \<Rightarrow> uuid \<Rightarrow> return_event list" where
  "returns_of db i = filter (\<lambda>e. re_sale_id e = i) (sd_returns db)"

text \<open>What a movement is worth for the sale it names.\<close>

definition sale_cash_value :: "cash_movement \<Rightarrow> money" where
  "sale_cash_value m = (if cm_action m = ''SALE'' then cm_amount m
     else if cm_action m = ''CASH_OUT_REFUND'' then - cm_amount m else 0)"

definition sale_cash :: "sale_db \<Rightarrow> uuid \<Rightarrow> money" where
  "sale_cash db i = sum_list (map sale_cash_value (movements_naming (av_cash (sd_pos db)) i))"

definition cash_paid :: "pos_payment list \<Rightarrow> money" where
  "cash_paid ps = sum_list (map pp_amount (filter (\<lambda>p. pp_method p = CASH) ps))"

definition all_paid :: "pos_payment list \<Rightarrow> money" where
  "all_paid ps = sum_list (map pp_amount ps)"

text \<open>The cash an event records: what a refund gave, what an exchange gave or, net of the change,
  took. An event of the returns service records payments without a movement.\<close>

definition event_cash :: "return_event \<Rightarrow> money" where
  "event_cash e = (case re_payload e of
     Sale_return p \<Rightarrow>
       if re_action e = ''REFUND_ITEMS'' then - cash_of (rt_refund_payments p)
       else if re_net_adjustment e > 0
         then cash_of (rt_collection_payments p)
           - (sum_list (map py_amount (rt_collection_payments p)) - re_net_adjustment e)
       else if re_net_adjustment e < 0 then - cash_of (rt_refund_payments p) else 0
   | _ \<Rightarrow> 0)"

definition returned_cash :: "sale_db \<Rightarrow> uuid \<Rightarrow> money" where
  "returned_cash db i = sum_list (map event_cash (returns_of db i))"

text \<open>A sale with a code was drafted; one without comes from an exchange.\<close>

abbreviation drafted :: "pos_sale \<Rightarrow> bool" where
  "drafted s \<equiv> sl_sale_code s \<noteq> None"

definition sale_ref :: "pos_sale \<Rightarrow> uuid \<times> uuid \<times> uuid \<times> string option" where
  "sale_ref s = (sl_id s, sl_tenant_id s, sl_store_id s, sl_sale_code s)"

section \<open>Invariant\<close>

definition refs_ok :: "sale_db \<Rightarrow> bool" where
  "refs_ok db \<longleftrightarrow> distinct (map sl_id (sd_sales db)) \<and> distinct (map ln_id (sd_lines db))
    \<and> distinct (map re_id (sd_returns db))
    \<and> (\<forall>l \<in> set (sd_lines db). (ln_sale_id l, ln_tenant_id l) \<in> (\<lambda>s. (sl_id s, sl_tenant_id s)) ` set (sd_sales db))
    \<and> (\<forall>p \<in> set (sd_payments db). (pp_sale_id p, pp_tenant_id p) \<in> (\<lambda>s. (sl_id s, sl_tenant_id s)) ` set (sd_sales db))
    \<and> (\<forall>e \<in> set (sd_returns db). (re_sale_id e, re_tenant_id e, re_store_id e)
        \<in> (\<lambda>s. (sl_id s, sl_tenant_id s, sl_store_id s)) ` set (sd_sales db))
    \<and> sl_id ` set (sd_sales db) \<inter> pa_id ` set (av_advances (sd_pos db)) = {}"

definition totals_ok :: "pos_sale \<Rightarrow> pos_payment list \<Rightarrow> bool" where
  "totals_ok s ps \<longleftrightarrow>
    (if sl_status s = ''PAID'' then
       sl_balance_due s = 0 \<and> sl_checked_out_at s \<noteq> None
       \<and> (drafted s \<longrightarrow> sl_paid_total s = all_paid ps \<and> sl_paid_total s = sl_total_due s + sl_change_due s
           \<and> 0 \<le> sl_change_due s \<and> sl_change_due s \<le> cash_paid ps)
     else sl_status s \<in> {''DRAFT'', ''CANCELED''} \<and> drafted s \<and> ps = [] \<and> sl_paid_total s = 0
       \<and> sl_change_due s = 0 \<and> sl_balance_due s = sl_total_due s \<and> sl_checked_out_at s = None)"

definition sale_ok :: "sale_db \<Rightarrow> pos_sale \<Rightarrow> bool" where
  "sale_ok db s \<longleftrightarrow> sl_total_due s = sum_list (map ln_line_total (lines_of db (sl_id s)))
    \<and> totals_ok s (payments_of db (sl_id s))
    \<and> (sl_status s \<noteq> ''PAID'' \<longrightarrow> returns_of db (sl_id s) = [])"

definition cash_ok :: "sale_db \<Rightarrow> pos_sale \<Rightarrow> bool" where
  "cash_ok db s \<longleftrightarrow> sale_cash db (sl_id s) =
    (if drafted s then cash_paid (payments_of db (sl_id s)) - sl_change_due s else 0) + returned_cash db (sl_id s)"

definition backs :: "pos_advance \<Rightarrow> pos_payment \<Rightarrow> bool" where
  "backs a p \<longleftrightarrow> pa_status a = CONSUMED \<and> pa_consumed_sale_id a = Some (pp_sale_id p)
    \<and> pa_tenant_id a = pp_tenant_id p \<and> quantize2 (pa_issued_amount a) = pp_amount p"

definition voucher_payments :: "pos_payment list \<Rightarrow> pos_payment list" where
  "voucher_payments ps = filter (\<lambda>p. pp_method p = ADVANCE) ps"

definition vouchers_ok :: "sale_db \<Rightarrow> pos_sale \<Rightarrow> bool" where
  "vouchers_ok db s \<longleftrightarrow> (drafted s \<longrightarrow> length (voucher_payments (payments_of db (sl_id s))) \<le> 1
    \<and> (\<forall>p \<in> set (voucher_payments (payments_of db (sl_id s))).
        \<exists>a \<in> set (av_advances (sd_pos db)). backs a p))"

definition sale_facts :: "sale_db \<Rightarrow> pos_sale \<Rightarrow> bool" where
  "sale_facts db s \<longleftrightarrow> sale_ok db s \<and> cash_ok db s \<and> vouchers_ok db s"

text \<open>The events of the returns service: the status of a draft follows its action, and the event
  that records a completion is there once, for a completed draft and for no other.\<close>

definition event_ok :: "return_event \<Rightarrow> bool" where
  "event_ok e \<longleftrightarrow> (case re_payload e of
     Draft_return d \<Rightarrow> (re_action e, rd_status d)
       \<in> {(DRAFT_ACTION, ''DRAFT''), (VOID_ACTION, ''VOIDED''), (COMPLETE_ACTION, ''COMPLETED'')}
   | _ \<Rightarrow> re_action e \<in> set POS_RETURN_AGGREGATE_ACTIONS)"

definition completes :: "uuid \<Rightarrow> return_event \<Rightarrow> bool" where
  "completes i e \<longleftrightarrow> (case re_payload e of Completed_return ls j \<Rightarrow> j = i | _ \<Rightarrow> False)"

definition events_ok :: "return_event list \<Rightarrow> bool" where
  "events_ok es \<longleftrightarrow> (\<forall>e \<in> set es. event_ok e
      \<and> length (filter (completes (re_id e)) es) = (if re_action e = COMPLETE_ACTION then 1 else 0)
      \<and> (\<forall>i. completes i e \<longrightarrow> i \<in> re_id ` set es))"

definition sale_invariant :: "sale_db \<Rightarrow> bool" where
  "sale_invariant db \<longleftrightarrow> refs_ok db \<and> voucher_invariant (sd_pos db) \<and> (\<forall>s \<in> set (sd_sales db). sale_facts db s)
    \<and> events_ok (sd_returns db)"

section \<open>The abstract machine\<close>

text \<open>What a move does to the cash of a sale: it appends movements that name it, worth \<open>x\<close>.\<close>

definition posts :: "sale_db \<Rightarrow> sale_db \<Rightarrow> uuid \<Rightarrow> money \<Rightarrow> bool" where
  "posts db db' i x \<longleftrightarrow> (\<exists>ms. c_movements (av_cash (sd_pos db')) = c_movements (av_cash (sd_pos db)) @ ms
    \<and> (\<forall>m \<in> set ms. cm_sale_id m = Some i) \<and> sum_list (map sale_cash_value ms) = x)"

definition same_vouchers :: "sale_db \<Rightarrow> sale_db \<Rightarrow> bool" where
  "same_vouchers db db' \<longleftrightarrow> pa_id ` set (av_advances (sd_pos db')) = pa_id ` set (av_advances (sd_pos db))"

text \<open>The steps of the other routers' rows that a move is made of.\<close>

definition pos_run :: "sale_db \<Rightarrow> sale_db \<Rightarrow> bool" where
  "pos_run db db' \<longleftrightarrow> advance_step\<^sup>*\<^sup>* (sd_pos db) (sd_pos db')"

definition new_sale_id :: "uuid \<Rightarrow> sale_db \<Rightarrow> bool" where
  "new_sale_id i db \<longleftrightarrow> i \<notin> sl_id ` set (sd_sales db) \<and> i \<notin> pa_id ` set (av_advances (sd_pos db))
    \<and> movements_naming (av_cash (sd_pos db)) i = []"

definition new_lines :: "sale_line list \<Rightarrow> pos_sale \<Rightarrow> sale_line list \<Rightarrow> bool" where
  "new_lines new s ls \<longleftrightarrow> distinct (map ln_id (ls @ new))
    \<and> (\<forall>l \<in> set new. ln_sale_id l = sl_id s \<and> ln_tenant_id l = sl_tenant_id s)
    \<and> sum_list (map ln_line_total new) = sl_total_due s"

definition own_payments :: "pos_payment list \<Rightarrow> pos_sale \<Rightarrow> bool" where
  "own_payments ps s \<longleftrightarrow> (\<forall>p \<in> set ps. pp_sale_id p = sl_id s \<and> pp_tenant_id p = sl_tenant_id s)"

definition own_event :: "return_event \<Rightarrow> pos_sale \<Rightarrow> sale_db \<Rightarrow> bool" where
  "own_event e s db \<longleftrightarrow> (re_sale_id e, re_tenant_id e, re_store_id e) = (sl_id s, sl_tenant_id s, sl_store_id s)
    \<and> re_id e \<notin> re_id ` set (sd_returns db)
    \<and> re_action e \<in> set POS_RETURN_AGGREGATE_ACTIONS \<and> (\<exists>p. re_payload e = Sale_return p)"

definition line_core :: "sale_line \<Rightarrow> uuid \<times> uuid \<times> uuid \<times> money \<times> int" where
  "line_core l = (ln_id l, ln_sale_id l, ln_tenant_id l, ln_line_total l, ln_qty l)"

definition other_lines :: "uuid \<Rightarrow> sale_db \<Rightarrow> sale_line list" where
  "other_lines i db = filter (\<lambda>l. ln_sale_id l \<noteq> i) (sd_lines db)"

text \<open>Events of the returns service come with no cash; those that are not drafts stay as they are.\<close>

definition recorded :: "sale_db \<Rightarrow> return_event list \<Rightarrow> bool" where
  "recorded db es \<longleftrightarrow> distinct (map re_id es) \<and> events_ok es
    \<and> (\<forall>s \<in> set (sd_sales db). sum_list (map event_cash (filter (\<lambda>e. re_sale_id e = sl_id s) es)) = returned_cash db (sl_id s))
    \<and> (\<forall>e \<in> set es. \<exists>s \<in> set (sd_sales db). sl_status s = ''PAID''
        \<and> (re_sale_id e, re_tenant_id e, re_store_id e) = (sl_id s, sl_tenant_id s, sl_store_id s))
    \<and> (\<forall>e \<in> set (sd_returns db). re_action e \<noteq> DRAFT_ACTION \<longrightarrow> e \<in> set es)"

inductive sale_move :: "sale_db \<Rightarrow> sale_db \<Rightarrow> bool" where
  drafts: "pos_run db db' \<Longrightarrow> same_vouchers db db' \<Longrightarrow> posts db db' (sl_id s) 0 \<Longrightarrow>
    new_sale_id (sl_id s) db \<Longrightarrow> sl_status s = ''DRAFT'' \<Longrightarrow> totals_ok s [] \<Longrightarrow> new_lines new s (sd_lines db) \<Longrightarrow>
    sd_sales db' = sd_sales db @ [s] \<Longrightarrow> sd_lines db' = sd_lines db @ new \<Longrightarrow>
    sd_payments db' = sd_payments db \<Longrightarrow> sd_returns db' = sd_returns db \<Longrightarrow> sale_move db db'"
| redrafts: "pos_run db db' \<Longrightarrow> same_vouchers db db' \<Longrightarrow> posts db db' (sl_id s) 0 \<Longrightarrow>
    s \<in> set (sd_sales db) \<Longrightarrow> sl_status s = ''DRAFT'' \<Longrightarrow> sale_ref s' = sale_ref s \<Longrightarrow>
    sl_status s' = ''DRAFT'' \<Longrightarrow> totals_ok s' [] \<Longrightarrow> new_lines new s' (other_lines (sl_id s) db) \<Longrightarrow>
    sd_sales db' = sd_sales (set_sale s' db) \<Longrightarrow> sd_lines db' = other_lines (sl_id s) db @ new \<Longrightarrow>
    sd_payments db' = sd_payments db \<Longrightarrow> sd_returns db' = sd_returns db \<Longrightarrow> sale_move db db'"
| cancels: "pos_run db db' \<Longrightarrow> same_vouchers db db' \<Longrightarrow> posts db db' (sl_id s) 0 \<Longrightarrow>
    s \<in> set (sd_sales db) \<Longrightarrow> sl_status s = ''DRAFT'' \<Longrightarrow> sale_ref s' = sale_ref s \<Longrightarrow>
    sl_status s' = ''CANCELED'' \<Longrightarrow> totals_ok s' [] \<Longrightarrow> sl_total_due s' = sl_total_due s \<Longrightarrow>
    sd_sales db' = sd_sales (set_sale s' db) \<Longrightarrow> sd_lines db' = sd_lines db \<Longrightarrow>
    sd_payments db' = sd_payments db \<Longrightarrow> sd_returns db' = sd_returns db \<Longrightarrow> sale_move db db'"
| pays: "pos_run db db' \<Longrightarrow> same_vouchers db db' \<Longrightarrow>
    posts db db' (sl_id s) (cash_paid ps - sl_change_due s') \<Longrightarrow>
    s \<in> set (sd_sales db) \<Longrightarrow> sl_status s = ''DRAFT'' \<Longrightarrow> sale_ref s' = sale_ref s \<Longrightarrow>
    sl_status s' = ''PAID'' \<Longrightarrow> totals_ok s' ps \<Longrightarrow> sl_total_due s' = sl_total_due s \<Longrightarrow>
    own_payments ps s \<Longrightarrow> length (voucher_payments ps) \<le> 1 \<Longrightarrow>
    \<forall>p \<in> set (voucher_payments ps). \<exists>a \<in> set (av_advances (sd_pos db')). backs a p \<Longrightarrow>
    sd_sales db' = sd_sales (set_sale s' db) \<Longrightarrow> map line_core (sd_lines db') = map line_core (sd_lines db) \<Longrightarrow>
    other_lines (sl_id s) db' = other_lines (sl_id s) db \<Longrightarrow>
    sd_payments db' = sd_payments db @ ps \<Longrightarrow> sd_returns db' = sd_returns db \<Longrightarrow> sale_move db db'"
| refunds: "pos_run db db' \<Longrightarrow> same_vouchers db db' \<Longrightarrow> posts db db' (sl_id s) (event_cash e) \<Longrightarrow>
    s \<in> set (sd_sales db) \<Longrightarrow> sl_status s = ''PAID'' \<Longrightarrow> own_event e s db \<Longrightarrow>
    sd_sales db' = sd_sales db \<Longrightarrow> sd_lines db' = sd_lines db \<Longrightarrow>
    sd_payments db' = sd_payments db \<Longrightarrow> sd_returns db' = sd_returns db @ [e] \<Longrightarrow> sale_move db db'"
| exchanges: "pos_run db db' \<Longrightarrow> same_vouchers db db' \<Longrightarrow> posts db db' (sl_id s) (event_cash e) \<Longrightarrow>
    s \<in> set (sd_sales db) \<Longrightarrow> sl_status s = ''PAID'' \<Longrightarrow> own_event e s db \<Longrightarrow>
    new_sale_id (sl_id x) db \<Longrightarrow> \<not> drafted x \<Longrightarrow> sl_status x = ''PAID'' \<Longrightarrow> totals_ok x ps \<Longrightarrow>
    new_lines new x (sd_lines db) \<Longrightarrow> own_payments ps x \<Longrightarrow>
    sd_sales db' = sd_sales db @ [x] \<Longrightarrow> sd_lines db' = sd_lines db @ new \<Longrightarrow>
    sd_payments db' = sd_payments db @ ps \<Longrightarrow> sd_returns db' = sd_returns db @ [e] \<Longrightarrow> sale_move db db'"
| elsewhere: "pos_run db db' \<Longrightarrow>
    \<forall>s \<in> set (sd_sales db). movements_naming (av_cash (sd_pos db')) (sl_id s) = movements_naming (av_cash (sd_pos db)) (sl_id s) \<Longrightarrow>
    sl_id ` set (sd_sales db) \<inter> pa_id ` set (av_advances (sd_pos db')) = {} \<Longrightarrow>
    sd_sales db' = sd_sales db \<Longrightarrow> sd_lines db' = sd_lines db \<Longrightarrow> sd_payments db' = sd_payments db \<Longrightarrow>
    sd_returns db' = sd_returns db \<Longrightarrow> sale_move db db'"
| records: "sd_pos db' = sd_pos db \<Longrightarrow> sd_sales db' = sd_sales db \<Longrightarrow> sd_lines db' = sd_lines db \<Longrightarrow>
    sd_payments db' = sd_payments db \<Longrightarrow> recorded db (sd_returns db') \<Longrightarrow> sale_move db db'"

section \<open>What a move leaves as it was\<close>

lemma pos_run_invariant: "pos_run db db' \<Longrightarrow> voucher_invariant (sd_pos db) \<Longrightarrow> voucher_invariant (sd_pos db')"
  using vouchers.run_simulates [of "sd_pos db" "sd_pos db'"] by (simp add: pos_run_def)

lemma pos_run_keeps_settled:
  assumes "pos_run db db'" and "voucher_invariant (sd_pos db)" and "a \<in> set (av_advances (sd_pos db))"
    and "pa_status a = CONSUMED"
  shows "a \<in> set (av_advances (sd_pos db'))"
  using settled_stays_steps [OF _ assms(2,3)] assms(1,4) by (auto simp: pos_run_def)

text \<open>A sale whose rows and movements are the same still has its facts.\<close>

definition same_sale :: "sale_db \<Rightarrow> sale_db \<Rightarrow> uuid \<Rightarrow> bool" where
  "same_sale db db' i \<longleftrightarrow> lines_of db' i = lines_of db i \<and> payments_of db' i = payments_of db i
    \<and> movements_naming (av_cash (sd_pos db')) i = movements_naming (av_cash (sd_pos db)) i"

lemma sale_facts_keep:
  assumes "sale_facts db s" and "voucher_invariant (sd_pos db)" and "pos_run db db'"
    and "same_sale db db' (sl_id s)" and "returned_cash db' (sl_id s) = returned_cash db (sl_id s)"
    and "sl_status s \<noteq> ''PAID'' \<longrightarrow> returns_of db' (sl_id s) = []"
  shows "sale_facts db' s"
proof -
  have "\<exists>a \<in> set (av_advances (sd_pos db')). backs a p" if "\<exists>a \<in> set (av_advances (sd_pos db)). backs a p" for p
    using that pos_run_keeps_settled [OF assms(3,2)] by (auto simp: backs_def)
  then show ?thesis
    using assms by (auto simp: sale_facts_def sale_ok_def cash_ok_def vouchers_ok_def same_sale_def sale_cash_def)
qed

lemma movements_other:
  assumes "posts db db' i x" and "j \<noteq> i"
  shows "movements_naming (av_cash (sd_pos db')) j = movements_naming (av_cash (sd_pos db)) j"
  using assms by (auto simp: posts_def movements_naming_def filter_empty_conv)

lemma sale_cash_posts:
  assumes "posts db db' i x"
  shows "sale_cash db' i = sale_cash db i + x"
proof -
  obtain ms where "c_movements (av_cash (sd_pos db')) = c_movements (av_cash (sd_pos db)) @ ms"
    "\<forall>m \<in> set ms. cm_sale_id m = Some i" "sum_list (map sale_cash_value ms) = x"
    using assms by (auto simp: posts_def)
  then show ?thesis by (simp add: sale_cash_def movements_naming_def)
qed

lemma set_sale_rows:
  assumes "distinct (map sl_id (sd_sales db))" and "s \<in> set (sd_sales db)" and "sl_id s' = sl_id s"
  shows "set (sd_sales (set_sale s' db)) = insert s' (set (sd_sales db) - {s})"
    "map sl_id (sd_sales (set_sale s' db)) = map sl_id (sd_sales db)"
  using assms key_unique [OF assms(1)] by (auto simp: set_sale_def image_iff)

lemma set_sale_refs:
  assumes "distinct (map sl_id (sd_sales db))" and "s \<in> set (sd_sales db)" and "sale_ref s' = sale_ref s"
  shows "map sale_ref (sd_sales (set_sale s' db)) = map sale_ref (sd_sales db)"
  using assms key_unique [OF assms(1)] by (auto simp: set_sale_def sale_ref_def)

lemma sale_ref_images:
  assumes "map sale_ref ss' = map sale_ref ss"
  shows "map sl_id ss' = map sl_id ss"
    "(\<lambda>s. (sl_id s, sl_tenant_id s)) ` set ss' = (\<lambda>s. (sl_id s, sl_tenant_id s)) ` set ss"
    "(\<lambda>s. (sl_id s, sl_tenant_id s, sl_store_id s)) ` set ss' = (\<lambda>s. (sl_id s, sl_tenant_id s, sl_store_id s)) ` set ss"
proof -
  have f: "map (f \<circ> sale_ref) ss' = map (f \<circ> sale_ref) ss" for f :: "_ \<Rightarrow> 'b"
    using assms by (metis map_map)
  have g: "(f \<circ> sale_ref) ` set ss' = (f \<circ> sale_ref) ` set ss" for f :: "_ \<Rightarrow> 'b"
    using f [of f] by (metis list.set_map)
  show "map sl_id ss' = map sl_id ss" using f [of fst] by (simp add: comp_def sale_ref_def)
  show "(\<lambda>s. (sl_id s, sl_tenant_id s)) ` set ss' = (\<lambda>s. (sl_id s, sl_tenant_id s)) ` set ss"
    using g [of "\<lambda>(i, tn, sid, c). (i, tn)"] by (simp add: comp_def sale_ref_def)
  show "(\<lambda>s. (sl_id s, sl_tenant_id s, sl_store_id s)) ` set ss' = (\<lambda>s. (sl_id s, sl_tenant_id s, sl_store_id s)) ` set ss"
    using g [of "\<lambda>(i, tn, sid, c). (i, tn, sid)"] by (simp add: comp_def sale_ref_def)
qed

lemma line_core_images:
  assumes "map line_core ls' = map line_core ls"
  shows "map ln_id ls' = map ln_id ls"
    "(\<lambda>l. (ln_sale_id l, ln_tenant_id l)) ` set ls' = (\<lambda>l. (ln_sale_id l, ln_tenant_id l)) ` set ls"
    "map ln_line_total (filter (\<lambda>l. ln_sale_id l = i) ls') = map ln_line_total (filter (\<lambda>l. ln_sale_id l = i) ls)"
proof -
  have f: "map (f \<circ> line_core) ls' = map (f \<circ> line_core) ls" for f :: "_ \<Rightarrow> 'b"
    using assms by (metis map_map)
  show "map ln_id ls' = map ln_id ls" using f [of fst] by (simp add: comp_def line_core_def)
  have "map (\<lambda>l. (ln_sale_id l, ln_tenant_id l)) ls' = map (\<lambda>l. (ln_sale_id l, ln_tenant_id l)) ls"
    using f [of "\<lambda>(i, s, t, x, q). (s, t)"] by (simp add: comp_def line_core_def)
  then show "(\<lambda>l. (ln_sale_id l, ln_tenant_id l)) ` set ls' = (\<lambda>l. (ln_sale_id l, ln_tenant_id l)) ` set ls"
    by (metis list.set_map)
  have "list_all2 (\<lambda>a b. line_core a = line_core b) ls' ls"
    using assms by (simp add: list_all2_conv_all_nth) (metis length_map nth_map)
  then show "map ln_line_total (filter (\<lambda>l. ln_sale_id l = i) ls') = map ln_line_total (filter (\<lambda>l. ln_sale_id l = i) ls)"
    by (induction rule: list_all2_induct) (auto simp: line_core_def)
qed

lemma lines_of_other: "j \<noteq> i \<Longrightarrow> lines_of db j = filter (\<lambda>l. ln_sale_id l = j) (other_lines i db)"
  by (auto simp: lines_of_def other_lines_def intro!: filter_cong)

lemma no_rows_of_new_sale:
  assumes "refs_ok db" and "i \<notin> sl_id ` set (sd_sales db)"
  shows "lines_of db i = []" "payments_of db i = []" "returns_of db i = []"
  using assms by (fastforce simp: refs_ok_def lines_of_def payments_of_def returns_of_def filter_empty_conv)+

section \<open>The moves keep the invariant\<close>

lemma sale_invariantD:
  assumes "sale_invariant db"
  shows "refs_ok db" "voucher_invariant (sd_pos db)" "distinct (map sl_id (sd_sales db))"
    "\<And>s. s \<in> set (sd_sales db) \<Longrightarrow> sale_facts db s" "events_ok (sd_returns db)"
  using assms by (auto simp: sale_invariant_def refs_ok_def)

lemma appended_rows:
  "sd_lines db' = sd_lines db @ new \<Longrightarrow> lines_of db' i = lines_of db i @ filter (\<lambda>l. ln_sale_id l = i) new"
  "sd_payments db' = sd_payments db @ ps \<Longrightarrow> payments_of db' i = payments_of db i @ filter (\<lambda>p. pp_sale_id p = i) ps"
  "sd_returns db' = sd_returns db @ es \<Longrightarrow> returns_of db' i = returns_of db i @ filter (\<lambda>e. re_sale_id e = i) es"
  by (simp_all add: lines_of_def payments_of_def returns_of_def)

lemma same_rows:
  "sd_lines db' = sd_lines db \<Longrightarrow> lines_of db' i = lines_of db i"
  "sd_payments db' = sd_payments db \<Longrightarrow> payments_of db' i = payments_of db i"
  "sd_returns db' = sd_returns db \<Longrightarrow> returns_of db' i = returns_of db i"
  by (simp_all add: lines_of_def payments_of_def returns_of_def)

lemma own_filters:
  "new_lines new s ls \<Longrightarrow> filter (\<lambda>l. ln_sale_id l = sl_id s) new = new"
  "new_lines new s ls \<Longrightarrow> i \<noteq> sl_id s \<Longrightarrow> filter (\<lambda>l. ln_sale_id l = i) new = []"
  "own_payments ps s \<Longrightarrow> filter (\<lambda>p. pp_sale_id p = sl_id s) ps = ps"
  "own_payments ps s \<Longrightarrow> i \<noteq> sl_id s \<Longrightarrow> filter (\<lambda>p. pp_sale_id p = i) ps = []"
  by (auto simp: new_lines_def own_payments_def filter_id_conv filter_empty_conv)

lemma aggregate_not_complete [simp]: "COMPLETE_ACTION \<notin> set POS_RETURN_AGGREGATE_ACTIONS"
  by (simp add: COMPLETE_ACTION_def POS_RETURN_AGGREGATE_ACTIONS_def)

lemma events_ok_own:
  assumes ok: "events_ok (sd_returns db)" and own: "own_event e s db"
  shows "events_ok (sd_returns db @ [e])"
proof -
  have e: "re_id e \<notin> re_id ` set (sd_returns db)" "re_action e \<in> set POS_RETURN_AGGREGATE_ACTIONS"
    "\<And>i. \<not> completes i e" "event_ok e" "re_action e \<noteq> COMPLETE_ACTION"
    using own by (auto simp: own_event_def completes_def event_ok_def)
  have "\<not> completes (re_id e) x" if "x \<in> set (sd_returns db)" for x
    using ok that e(1) unfolding events_ok_def by blast
  then have "filter (completes (re_id e)) (sd_returns db) = []" by (simp add: filter_empty_conv)
  then show ?thesis using ok e unfolding events_ok_def by auto
qed

text \<open>The sales a move is not about.\<close>

lemma other_sales_keep:
  assumes inv: "sale_invariant db" and run: "pos_run db db'" and post: "posts db db' i x"
    and t: "t \<in> set (sd_sales db)" "sl_id t \<noteq> i"
    and rows: "lines_of db' (sl_id t) = lines_of db (sl_id t)" "payments_of db' (sl_id t) = payments_of db (sl_id t)"
      "returns_of db' (sl_id t) = returns_of db (sl_id t)"
  shows "sale_facts db' t"
proof (rule sale_facts_keep [OF _ _ run])
  show "same_sale db db' (sl_id t)"
    using rows movements_other [OF post t(2)] by (simp add: same_sale_def)
  show "sl_status t \<noteq> ''PAID'' \<longrightarrow> returns_of db' (sl_id t) = []"
    using sale_invariantD(4) [OF inv t(1)] rows(3) by (simp add: sale_facts_def sale_ok_def)
qed (use sale_invariantD [OF inv] t rows in \<open>simp_all add: returned_cash_def\<close>)

text \<open>A sale that did not exist, drafted or made by an exchange.\<close>

lemma new_sale_facts:
  assumes new: "new_sale_id (sl_id s) db" and refs: "refs_ok db"
    and rows: "lines_of db' (sl_id s) = new" "payments_of db' (sl_id s) = ps" "returns_of db' (sl_id s) = []"
    and lines: "new_lines new s ls" and tot: "totals_ok s ps" and kind: "drafted s \<longrightarrow> ps = [] \<and> sl_change_due s = 0"
    and mv: "movements_naming (av_cash (sd_pos db')) (sl_id s) = [] \<or> posts db db' (sl_id s) 0"
  shows "sale_facts db' s"
proof -
  have "sale_cash db (sl_id s) = 0" using new by (simp add: new_sale_id_def sale_cash_def)
  then have cash: "sale_cash db' (sl_id s) = 0" using mv sale_cash_posts by (fastforce simp: sale_cash_def)
  have "sale_ok db' s" using lines rows tot by (simp add: sale_ok_def new_lines_def)
  moreover have "cash_ok db' s"
    using cash rows kind by (simp add: cash_ok_def returned_cash_def cash_paid_def)
  moreover have "vouchers_ok db' s" using rows kind by (simp add: vouchers_ok_def voucher_payments_def)
  ultimately show ?thesis by (simp add: sale_facts_def)
qed

lemma drafts_keeps:
  assumes inv: "sale_invariant db" and run: "pos_run db db'" and vs: "same_vouchers db db'"
    and post: "posts db db' (sl_id s) 0" and new: "new_sale_id (sl_id s) db" and st: "sl_status s = ''DRAFT''"
    and tot: "totals_ok s []" and lines: "new_lines new s (sd_lines db)"
    and db': "sd_sales db' = sd_sales db @ [s]" "sd_lines db' = sd_lines db @ new"
      "sd_payments db' = sd_payments db" "sd_returns db' = sd_returns db"
  shows "sale_invariant db'"
proof -
  note D = sale_invariantD [OF inv]
  have id: "sl_id s \<notin> sl_id ` set (sd_sales db)" using new by (simp add: new_sale_id_def)
  note none = no_rows_of_new_sale [OF D(1) id]
  note rows = appended_rows(1) [OF db'(2)] same_rows(2) [OF db'(3)] same_rows(3) [OF db'(4)]
  have "refs_ok db'"
    using D(1) id vs new lines db' unfolding refs_ok_def new_sale_id_def same_vouchers_def new_lines_def by auto
  moreover have "sale_facts db' s"
    by (rule new_sale_facts [OF new D(1) _ _ _ lines, of _ "[]"])
      (use rows none own_filters(1) [OF lines] tot st post in \<open>simp_all add: totals_ok_def\<close>)
  moreover have "sale_facts db' t" if "t \<in> set (sd_sales db)" for t
  proof -
    have "sl_id t \<noteq> sl_id s" using id that by (auto simp: image_iff)
    then show ?thesis
      by (intro other_sales_keep [OF inv run post that]) (use rows own_filters(2) [OF lines] in simp_all)
  qed
  ultimately show ?thesis using db' D(5) pos_run_invariant [OF run D(2)] by (auto simp: sale_invariant_def)
qed

text \<open>A move that changes one sale: what it owes is a proof that the sale keeps its facts.\<close>

lemma changed_sale_keeps:
  assumes inv: "sale_invariant db" and run: "pos_run db db'" and vs: "same_vouchers db db'"
    and post: "posts db db' (sl_id s) x" and s: "s \<in> set (sd_sales db)" and ref: "sale_ref s' = sale_ref s"
    and sales: "sd_sales db' = sd_sales (set_sale s' db)" and returns: "sd_returns db' = sd_returns db"
    and ids: "distinct (map ln_id (sd_lines db'))"
    and lref: "(\<lambda>l. (ln_sale_id l, ln_tenant_id l)) ` set (sd_lines db')
      \<subseteq> insert (sl_id s, sl_tenant_id s) ((\<lambda>l. (ln_sale_id l, ln_tenant_id l)) ` set (sd_lines db))"
    and pref: "(\<lambda>p. (pp_sale_id p, pp_tenant_id p)) ` set (sd_payments db')
      \<subseteq> insert (sl_id s, sl_tenant_id s) ((\<lambda>p. (pp_sale_id p, pp_tenant_id p)) ` set (sd_payments db))"
    and other: "\<And>i. i \<noteq> sl_id s \<Longrightarrow> lines_of db' i = lines_of db i \<and> payments_of db' i = payments_of db i"
    and facts: "sale_facts db' s'"
  shows "sale_invariant db'"
proof -
  note D = sale_invariantD [OF inv]
  have id: "sl_id s' = sl_id s" using ref by (simp add: sale_ref_def)
  note im = sale_ref_images [OF set_sale_refs [OF D(3) s ref], folded sales]
  have sales': "set (sd_sales db') = insert s' (set (sd_sales db) - {s})"
    using set_sale_rows(1) [OF D(3) s id] sales by simp
  let ?keys = "(\<lambda>s. (sl_id s, sl_tenant_id s)) ` set (sd_sales db)"
  have own: "(sl_id s, sl_tenant_id s) \<in> ?keys" using s by (rule imageI)
  have L: "(\<lambda>l. (ln_sale_id l, ln_tenant_id l)) ` set (sd_lines db) \<subseteq> ?keys"
    using D(1) unfolding refs_ok_def by (simp add: image_subset_iff)
  have P: "(\<lambda>p. (pp_sale_id p, pp_tenant_id p)) ` set (sd_payments db) \<subseteq> ?keys"
    using D(1) unfolding refs_ok_def by (simp add: image_subset_iff)
  have "(\<lambda>l. (ln_sale_id l, ln_tenant_id l)) ` set (sd_lines db') \<subseteq> ?keys"
    by (rule subset_trans [OF lref insert_subset [THEN iffD2, OF conjI [OF own L]]])
  then have l: "\<forall>l \<in> set (sd_lines db'). (ln_sale_id l, ln_tenant_id l) \<in> (\<lambda>s. (sl_id s, sl_tenant_id s)) ` set (sd_sales db')"
    unfolding im(2) image_subset_iff .
  have "(\<lambda>p. (pp_sale_id p, pp_tenant_id p)) ` set (sd_payments db') \<subseteq> ?keys"
    by (rule subset_trans [OF pref insert_subset [THEN iffD2, OF conjI [OF own P]]])
  then have p: "\<forall>p \<in> set (sd_payments db'). (pp_sale_id p, pp_tenant_id p) \<in> (\<lambda>s. (sl_id s, sl_tenant_id s)) ` set (sd_sales db')"
    unfolding im(2) image_subset_iff .
  have im1: "sl_id ` set (sd_sales db') = sl_id ` set (sd_sales db)" using im(1) by (metis list.set_map)
  have "refs_ok db'"
    using D(1) l p ids unfolding refs_ok_def im(1) im(3) im1 returns vs [unfolded same_vouchers_def] by blast
  moreover have "sale_facts db' t" if "t \<in> set (sd_sales db) - {s}" for t
  proof -
    have t: "t \<in> set (sd_sales db)" "sl_id t \<noteq> sl_id s" using that key_unique [OF D(3) _ s] by auto
    show ?thesis
      by (rule other_sales_keep [OF inv run post t]) (use other t(2) same_rows(3) [OF returns] in simp_all)
  qed
  ultimately show ?thesis using sales' facts returns D(5) pos_run_invariant [OF run D(2)] by (auto simp: sale_invariant_def)
qed

lemma draft_rows:
  assumes "sale_invariant db" and "s \<in> set (sd_sales db)" and "sl_status s = ''DRAFT''"
  shows "payments_of db (sl_id s) = []" "returns_of db (sl_id s) = []" "sale_cash db (sl_id s) = 0"
    "sl_total_due s = sum_list (map ln_line_total (lines_of db (sl_id s)))" "drafted s"
proof -
  have f: "sale_ok db s" "cash_ok db s" "totals_ok s (payments_of db (sl_id s))"
    using sale_invariantD(4) [OF assms(1,2)] by (auto simp: sale_facts_def sale_ok_def)
  then show *: "payments_of db (sl_id s) = []" "returns_of db (sl_id s) = []" "drafted s"
    "sl_total_due s = sum_list (map ln_line_total (lines_of db (sl_id s)))"
    using assms(3) by (auto simp: sale_ok_def totals_ok_def)
  show "sale_cash db (sl_id s) = 0"
    using f assms(3) * by (simp add: cash_ok_def returned_cash_def cash_paid_def totals_ok_def)
qed

lemma lines_of_own: "sd_lines db' = other_lines i db @ new \<Longrightarrow> filter (\<lambda>l. ln_sale_id l = i) new = new \<Longrightarrow> lines_of db' i = new"
  by (simp add: lines_of_def other_lines_def)

lemma unpaid_facts:
  assumes inv: "sale_invariant db" and s: "s \<in> set (sd_sales db)" "sl_status s = ''DRAFT''"
    and post: "posts db db' (sl_id s) 0" and id: "sl_id s' = sl_id s" and st: "sl_status s' \<noteq> ''PAID''" "totals_ok s' []"
    and rows: "payments_of db' (sl_id s) = []" "returns_of db' (sl_id s) = []"
    and due: "sl_total_due s' = sum_list (map ln_line_total (lines_of db' (sl_id s)))"
  shows "sale_facts db' s'"
proof -
  have "sale_cash db' (sl_id s) = 0" using sale_cash_posts [OF post] draft_rows(3) [OF inv s] by simp
  then show ?thesis
    using assms by (auto simp: sale_facts_def sale_ok_def cash_ok_def vouchers_ok_def returned_cash_def cash_paid_def
        voucher_payments_def totals_ok_def)
qed

lemma redraft_others:
  assumes "new_lines new s' (other_lines i db)" and "sl_id s' = i"
    and "sd_lines db' = other_lines i db @ new" and "sd_payments db' = sd_payments db" and "j \<noteq> i"
  shows "lines_of db' j = lines_of db j \<and> payments_of db' j = payments_of db j"
proof -
  have "filter (\<lambda>l. ln_sale_id l = j) new = []" using own_filters(2) [OF assms(1)] assms(2,5) by simp
  then have "lines_of db' j = filter (\<lambda>l. ln_sale_id l = j) (other_lines i db)"
    using assms(3) by (simp add: lines_of_def)
  then show ?thesis using lines_of_other [OF assms(5)] same_rows(2) [OF assms(4)] by simp
qed

lemma pay_others:
  assumes "own_payments ps s" and "other_lines (sl_id s) db' = other_lines (sl_id s) db"
    and "sd_payments db' = sd_payments db @ ps" and "j \<noteq> sl_id s"
  shows "lines_of db' j = lines_of db j \<and> payments_of db' j = payments_of db j"
  using lines_of_other [OF assms(4), of db] lines_of_other [OF assms(4), of db'] assms(2)
    appended_rows(2) [OF assms(3), of j] own_filters(4) [OF assms(1,4)] by simp

lemma redrafts_keeps:
  assumes inv: "sale_invariant db" and run: "pos_run db db'" and vs: "same_vouchers db db'"
    and post: "posts db db' (sl_id s) 0" and s: "s \<in> set (sd_sales db)" "sl_status s = ''DRAFT''"
    and ref: "sale_ref s' = sale_ref s" and st: "sl_status s' = ''DRAFT''" "totals_ok s' []"
    and lines: "new_lines new s' (other_lines (sl_id s) db)"
    and db': "sd_sales db' = sd_sales (set_sale s' db)" "sd_lines db' = other_lines (sl_id s) db @ new"
      "sd_payments db' = sd_payments db" "sd_returns db' = sd_returns db"
  shows "sale_invariant db'"
proof (rule changed_sale_keeps [OF inv run vs post s(1) ref db'(1,4)])
  have id: "sl_id s' = sl_id s" "sl_tenant_id s' = sl_tenant_id s" using ref by (simp_all add: sale_ref_def)
  show "distinct (map ln_id (sd_lines db'))" using lines db'(2) by (simp add: new_lines_def)
  show "(\<lambda>l. (ln_sale_id l, ln_tenant_id l)) ` set (sd_lines db')
      \<subseteq> insert (sl_id s, sl_tenant_id s) ((\<lambda>l. (ln_sale_id l, ln_tenant_id l)) ` set (sd_lines db))"
    using lines id db'(2) by (auto simp: new_lines_def other_lines_def)
  show "lines_of db' i = lines_of db i \<and> payments_of db' i = payments_of db i" if "i \<noteq> sl_id s" for i
    using redraft_others [OF lines id(1) db'(2,3) that] .
  have own: "lines_of db' (sl_id s) = new"
    using lines_of_own [OF db'(2)] own_filters(1) [OF lines] id by simp
  show "sale_facts db' s'"
    by (rule unpaid_facts [OF inv s post id(1)])
      (use st own lines draft_rows [OF inv s] same_rows(2) [OF db'(3)] same_rows(3) [OF db'(4)] in \<open>simp_all add: new_lines_def\<close>)
qed (use db' in auto)

lemma cancels_keeps:
  assumes inv: "sale_invariant db" and run: "pos_run db db'" and vs: "same_vouchers db db'"
    and post: "posts db db' (sl_id s) 0" and s: "s \<in> set (sd_sales db)" "sl_status s = ''DRAFT''"
    and ref: "sale_ref s' = sale_ref s" and st: "sl_status s' = ''CANCELED''" "totals_ok s' []"
    and due: "sl_total_due s' = sl_total_due s"
    and db': "sd_sales db' = sd_sales (set_sale s' db)" "sd_lines db' = sd_lines db"
      "sd_payments db' = sd_payments db" "sd_returns db' = sd_returns db"
  shows "sale_invariant db'"
proof (rule changed_sale_keeps [OF inv run vs post s(1) ref db'(1,4)])
  show "distinct (map ln_id (sd_lines db'))" using sale_invariantD(1) [OF inv] db'(2) by (simp add: refs_ok_def)
  show "sale_facts db' s'"
    by (rule unpaid_facts [OF inv s post])
      (use ref st due draft_rows [OF inv s] same_rows(1) [OF db'(2)] same_rows(2) [OF db'(3)] same_rows(3) [OF db'(4)]
        in \<open>simp_all add: sale_ref_def\<close>)
qed (use db' same_rows(1) [OF db'(2)] same_rows(2) [OF db'(3)] in auto)

lemma pays_keeps:
  assumes inv: "sale_invariant db" and run: "pos_run db db'" and vs: "same_vouchers db db'"
    and post: "posts db db' (sl_id s) (cash_paid ps - sl_change_due s')"
    and s: "s \<in> set (sd_sales db)" "sl_status s = ''DRAFT''" and ref: "sale_ref s' = sale_ref s"
    and st: "sl_status s' = ''PAID''" "totals_ok s' ps" and due: "sl_total_due s' = sl_total_due s"
    and own: "own_payments ps s" and one: "length (voucher_payments ps) \<le> 1"
    and backed: "\<forall>p \<in> set (voucher_payments ps). \<exists>a \<in> set (av_advances (sd_pos db')). backs a p"
    and db': "sd_sales db' = sd_sales (set_sale s' db)" "map line_core (sd_lines db') = map line_core (sd_lines db)"
      "other_lines (sl_id s) db' = other_lines (sl_id s) db" "sd_payments db' = sd_payments db @ ps"
      "sd_returns db' = sd_returns db"
  shows "sale_invariant db'"
proof (rule changed_sale_keeps [OF inv run vs post s(1) ref db'(1,5)])
  note D = draft_rows [OF inv s] and L = line_core_images [OF db'(2)]
  have id: "sl_id s' = sl_id s" using ref by (simp add: sale_ref_def)
  have "distinct (map ln_id (sd_lines db))" using sale_invariantD(1) [OF inv] by (simp add: refs_ok_def)
  then show "distinct (map ln_id (sd_lines db'))" unfolding L(1) .
  show "(\<lambda>l. (ln_sale_id l, ln_tenant_id l)) ` set (sd_lines db')
      \<subseteq> insert (sl_id s, sl_tenant_id s) ((\<lambda>l. (ln_sale_id l, ln_tenant_id l)) ` set (sd_lines db))"
    unfolding L(2) by blast
  show "(\<lambda>p. (pp_sale_id p, pp_tenant_id p)) ` set (sd_payments db')
      \<subseteq> insert (sl_id s, sl_tenant_id s) ((\<lambda>p. (pp_sale_id p, pp_tenant_id p)) ` set (sd_payments db))"
    using own db'(4) by (auto simp: own_payments_def)
  show "lines_of db' i = lines_of db i \<and> payments_of db' i = payments_of db i" if "i \<noteq> sl_id s" for i
    using pay_others [OF own db'(3,4) that] .
  have ps: "payments_of db' (sl_id s) = ps"
    using appended_rows(2) [OF db'(4), of "sl_id s"] own_filters(3) [OF own] D(1) by simp
  have "sl_total_due s' = sum_list (map ln_line_total (lines_of db' (sl_id s)))"
    using D(4) due L(3) by (simp add: lines_of_def)
  then have "sale_ok db' s'" using st ps id by (simp add: sale_ok_def)
  moreover have "cash_ok db' s'"
    using sale_cash_posts [OF post] D ref ps id same_rows(3) [OF db'(5), of "sl_id s"]
    by (simp add: cash_ok_def returned_cash_def sale_ref_def)
  moreover have "vouchers_ok db' s'" using one backed ps id by (simp add: vouchers_ok_def)
  ultimately show "sale_facts db' s'" by (simp add: sale_facts_def)
qed

text \<open>A paid sale that gets an event.\<close>

lemma event_facts:
  assumes inv: "sale_invariant db" and run: "pos_run db db'" and post: "posts db db' (sl_id s) (event_cash e)"
    and s: "s \<in> set (sd_sales db)" "sl_status s = ''PAID''"
    and rows: "lines_of db' (sl_id s) = lines_of db (sl_id s)" "payments_of db' (sl_id s) = payments_of db (sl_id s)"
      "returns_of db' (sl_id s) = returns_of db (sl_id s) @ [e]"
  shows "sale_facts db' s"
proof -
  note f = sale_invariantD(2) [OF inv] sale_invariantD(4) [OF inv s(1)]
  have backed: "\<exists>a \<in> set (av_advances (sd_pos db')). backs a p" if "\<exists>a \<in> set (av_advances (sd_pos db)). backs a p" for p
    using that pos_run_keeps_settled [OF run f(1)] by (auto simp: backs_def)
  have "sale_ok db' s" "cash_ok db' s"
    using f(2) rows s(2) sale_cash_posts [OF post] by (auto simp: sale_facts_def sale_ok_def cash_ok_def returned_cash_def)
  moreover have "vouchers_ok db' s" using f(2) rows backed by (auto simp: sale_facts_def vouchers_ok_def)
  ultimately show ?thesis by (simp add: sale_facts_def)
qed

lemma own_event_filter:
  "own_event e s db \<Longrightarrow> filter (\<lambda>e. re_sale_id e = i) [e] = (if i = sl_id s then [e] else [])"
  by (simp add: own_event_def)

lemma refunds_keeps:
  assumes inv: "sale_invariant db" and run: "pos_run db db'" and vs: "same_vouchers db db'"
    and post: "posts db db' (sl_id s) (event_cash e)" and s: "s \<in> set (sd_sales db)" "sl_status s = ''PAID''"
    and own: "own_event e s db"
    and db': "sd_sales db' = sd_sales db" "sd_lines db' = sd_lines db" "sd_payments db' = sd_payments db"
      "sd_returns db' = sd_returns db @ [e]"
  shows "sale_invariant db'"
proof -
  note D = sale_invariantD [OF inv] and rows = same_rows(1) [OF db'(2)] same_rows(2) [OF db'(3)] appended_rows(3) [OF db'(4)]
  have ev: "(re_sale_id e, re_tenant_id e, re_store_id e) \<in> (\<lambda>s. (sl_id s, sl_tenant_id s, sl_store_id s)) ` set (sd_sales db)"
    using own s(1) by (auto simp: own_event_def)
  have "refs_ok db'"
    using D(1) ev own unfolding refs_ok_def db' vs [unfolded same_vouchers_def] by (simp add: own_event_def)
  moreover have "sale_facts db' t" if t: "t \<in> set (sd_sales db)" for t
  proof (cases "t = s")
    case True
    show ?thesis unfolding True
      by (rule event_facts [OF inv run post s]) (use rows own_event_filter [OF own] in simp_all)
  next
    case False
    then have "sl_id t \<noteq> sl_id s" using key_unique [OF D(3) t s(1)] by blast
    then show ?thesis
      by (intro other_sales_keep [OF inv run post t]) (use rows own_event_filter [OF own] in simp_all)
  qed
  ultimately show ?thesis using db'(1,4) events_ok_own [OF D(5) own] pos_run_invariant [OF run D(2)] by (simp add: sale_invariant_def)
qed

lemma exchanges_keeps:
  assumes inv: "sale_invariant db" and run: "pos_run db db'" and vs: "same_vouchers db db'"
    and post: "posts db db' (sl_id s) (event_cash e)" and s: "s \<in> set (sd_sales db)" "sl_status s = ''PAID''"
    and own: "own_event e s db" and new: "new_sale_id (sl_id x) db" and x: "\<not> drafted x" "totals_ok x ps"
    and lines: "new_lines new x (sd_lines db)" and pays: "own_payments ps x"
    and db': "sd_sales db' = sd_sales db @ [x]" "sd_lines db' = sd_lines db @ new"
      "sd_payments db' = sd_payments db @ ps" "sd_returns db' = sd_returns db @ [e]"
  shows "sale_invariant db'"
proof -
  note D = sale_invariantD [OF inv] and rows =
    appended_rows(1) [OF db'(2)] appended_rows(2) [OF db'(3)] appended_rows(3) [OF db'(4)]
  have id: "sl_id x \<notin> sl_id ` set (sd_sales db)" using new by (simp add: new_sale_id_def)
  note none = no_rows_of_new_sale [OF D(1) id]
  have ev: "(re_sale_id e, re_tenant_id e, re_store_id e) \<in> (\<lambda>s. (sl_id s, sl_tenant_id s, sl_store_id s)) ` set (sd_sales db)"
    using own s(1) by (auto simp: own_event_def)
  have "refs_ok db'"
    using D(1) ev own id new lines pays unfolding refs_ok_def db' vs [unfolded same_vouchers_def]
    by (auto simp: own_event_def new_sale_id_def new_lines_def own_payments_def)
  moreover have ne: "sl_id t \<noteq> sl_id x" if "t \<in> set (sd_sales db)" for t using id that by (auto simp: image_iff)
  have "sale_facts db' x"
  proof (rule new_sale_facts [OF new D(1) _ _ _ lines x(2)])
    show "movements_naming (av_cash (sd_pos db')) (sl_id x) = [] \<or> posts db db' (sl_id x) 0"
      using movements_other [OF post, of "sl_id x"] new ne [OF s(1)] by (simp add: new_sale_id_def)
  qed (use rows none own_filters(1) [OF lines] own_filters(3) [OF pays] own_event_filter [OF own] ne [OF s(1)] x(1) in simp_all)
  moreover have "sale_facts db' t" if t: "t \<in> set (sd_sales db)" for t
  proof (cases "t = s")
    case True
    show ?thesis unfolding True
      by (rule event_facts [OF inv run post s])
        (use rows own_event_filter [OF own] own_filters(2) [OF lines] own_filters(4) [OF pays] ne [OF s(1)] in simp_all)
  next
    case False
    then have "sl_id t \<noteq> sl_id s" using key_unique [OF D(3) t s(1)] by blast
    then show ?thesis
      by (intro other_sales_keep [OF inv run post t])
        (use rows own_event_filter [OF own] own_filters(2) [OF lines] own_filters(4) [OF pays] ne [OF t] in simp_all)
  qed
  ultimately show ?thesis using db'(1,4) events_ok_own [OF D(5) own] pos_run_invariant [OF run D(2)] by (auto simp: sale_invariant_def)
qed

lemma elsewhere_keeps:
  assumes inv: "sale_invariant db" and run: "pos_run db db'"
    and mvs: "\<forall>s \<in> set (sd_sales db). movements_naming (av_cash (sd_pos db')) (sl_id s) = movements_naming (av_cash (sd_pos db)) (sl_id s)"
    and ids: "sl_id ` set (sd_sales db) \<inter> pa_id ` set (av_advances (sd_pos db')) = {}"
    and db': "sd_sales db' = sd_sales db" "sd_lines db' = sd_lines db" "sd_payments db' = sd_payments db"
      "sd_returns db' = sd_returns db"
  shows "sale_invariant db'"
proof -
  note D = sale_invariantD [OF inv] and rows = same_rows(1) [OF db'(2)] same_rows(2) [OF db'(3)] same_rows(3) [OF db'(4)]
  have "refs_ok db'" using D(1) ids unfolding refs_ok_def db' by simp
  moreover have "sale_facts db' t" if t: "t \<in> set (sd_sales db)" for t
    by (rule sale_facts_keep [OF D(4) [OF t] D(2) run])
      (use D(4) [OF t] t rows mvs in \<open>simp_all add: same_sale_def returned_cash_def sale_facts_def sale_ok_def\<close>)
  ultimately show ?thesis using db'(1,4) D(5) pos_run_invariant [OF run D(2)] by (simp add: sale_invariant_def)
qed

lemma records_keeps:
  assumes inv: "sale_invariant db"
    and db': "sd_pos db' = sd_pos db" "sd_sales db' = sd_sales db" "sd_lines db' = sd_lines db"
      "sd_payments db' = sd_payments db"
    and rec: "recorded db (sd_returns db')"
  shows "sale_invariant db'"
proof -
  note D = sale_invariantD [OF inv] and rows = same_rows(1) [OF db'(3)] same_rows(2) [OF db'(4)]
  have run: "pos_run db db'" using db'(1) by (simp add: pos_run_def)
  have paid: "\<exists>s \<in> set (sd_sales db). sl_status s = ''PAID''
      \<and> (re_sale_id e, re_tenant_id e, re_store_id e) = (sl_id s, sl_tenant_id s, sl_store_id s)"
    if "e \<in> set (sd_returns db')" for e
    using rec that unfolding recorded_def by blast
  have "refs_ok db'"
    using D(1) rec paid unfolding refs_ok_def recorded_def db' by (auto simp: image_iff)
  moreover have "sale_facts db' t" if t: "t \<in> set (sd_sales db)" for t
  proof (rule sale_facts_keep [OF D(4) [OF t] D(2) run])
    show "same_sale db db' (sl_id t)" using rows db'(1) by (simp add: same_sale_def)
    show "returned_cash db' (sl_id t) = returned_cash db (sl_id t)"
      using rec t by (simp add: recorded_def returned_cash_def returns_of_def)
    show "sl_status t \<noteq> ''PAID'' \<longrightarrow> returns_of db' (sl_id t) = []"
    proof (rule ccontr)
      assume "\<not> ?thesis"
      then obtain e where st: "sl_status t \<noteq> ''PAID''" and e: "e \<in> set (sd_returns db')" "re_sale_id e = sl_id t"
        by (auto simp: returns_of_def filter_empty_conv)
      from paid [OF e(1)] obtain s where "s \<in> set (sd_sales db)" "sl_status s = ''PAID''" "re_sale_id e = sl_id s"
        by auto
      then show False using st e(2) key_unique [OF D(3) t] by metis
    qed
  qed
  ultimately show ?thesis using db' D(2) rec by (simp add: sale_invariant_def recorded_def)
qed

lemma sale_move_keeps: "sale_move db db' \<Longrightarrow> sale_invariant db \<Longrightarrow> sale_invariant db'"
proof (induction rule: sale_move.induct)
  case (drafts db db' s new)
  show ?case by (rule drafts_keeps [OF drafts(12,1-11)])
next
  case (redrafts db db' s s' new)
  show ?case by (rule redrafts_keeps [OF redrafts(14,1-13)])
next
  case (cancels db db' s s')
  show ?case by (rule cancels_keeps [OF cancels(14,1-13)])
next
  case (pays db db' s ps s')
  show ?case by (rule pays_keeps [OF pays(18,1-17)])
next
  case (refunds db db' s e)
  show ?case by (rule refunds_keeps [OF refunds(11,1-10)])
next
  case (exchanges db db' s e x ps new)
  show ?case by (rule exchanges_keeps [OF exchanges(17,1-8,10-16)])
next
  case (elsewhere db db')
  show ?case by (rule elsewhere_keeps [OF elsewhere(8,1-7)])
next
  case (records db' db)
  show ?case by (rule records_keeps [OF records(6,1-5)])
qed

section \<open>What the moves leave of a settled sale\<close>

text \<open>A sale keeps its id, tenant, store and code; once it is not a draft, its row, its lines and
  its payments stay. A return event that is not a draft stays.\<close>

definition sale_stays :: "sale_db \<Rightarrow> sale_db \<Rightarrow> bool" where
  "sale_stays db db' \<longleftrightarrow>
    (\<forall>s \<in> set (sd_sales db). \<exists>s' \<in> set (sd_sales db'). sale_ref s' = sale_ref s
      \<and> (sl_status s \<noteq> ''DRAFT'' \<longrightarrow> s' = s \<and> lines_of db' (sl_id s) = lines_of db (sl_id s)
          \<and> payments_of db' (sl_id s) = payments_of db (sl_id s)))
    \<and> (\<forall>e \<in> set (sd_returns db). re_action e \<noteq> DRAFT_ACTION \<longrightarrow> e \<in> set (sd_returns db'))"

lemma sale_stays_refl: "sale_stays db db" by (auto simp: sale_stays_def)

lemma sale_stays_trans:
  assumes "sale_stays db0 db1" and "sale_stays db1 db2"
  shows "sale_stays db0 db2"
proof -
  have "\<exists>s2 \<in> set (sd_sales db2). sale_ref s2 = sale_ref s
      \<and> (sl_status s \<noteq> ''DRAFT'' \<longrightarrow> s2 = s \<and> lines_of db2 (sl_id s) = lines_of db0 (sl_id s)
          \<and> payments_of db2 (sl_id s) = payments_of db0 (sl_id s))" if s: "s \<in> set (sd_sales db0)" for s
  proof -
    obtain s1 where s1: "s1 \<in> set (sd_sales db1)" "sale_ref s1 = sale_ref s"
      "sl_status s \<noteq> ''DRAFT'' \<longrightarrow> s1 = s \<and> lines_of db1 (sl_id s) = lines_of db0 (sl_id s)
          \<and> payments_of db1 (sl_id s) = payments_of db0 (sl_id s)"
      using assms(1) s unfolding sale_stays_def by blast
    obtain s2 where "s2 \<in> set (sd_sales db2)" "sale_ref s2 = sale_ref s1"
      "sl_status s1 \<noteq> ''DRAFT'' \<longrightarrow> s2 = s1 \<and> lines_of db2 (sl_id s1) = lines_of db1 (sl_id s1)
          \<and> payments_of db2 (sl_id s1) = payments_of db1 (sl_id s1)"
      using assms(2) s1(1) unfolding sale_stays_def by blast
    then show ?thesis using s1 by (intro bexI [of _ s2]) auto
  qed
  then show ?thesis using assms unfolding sale_stays_def by blast
qed

lemma same_sales_stay:
  assumes "set (sd_sales db) \<subseteq> set (sd_sales db')"
    and "\<And>s. s \<in> set (sd_sales db) \<Longrightarrow> lines_of db' (sl_id s) = lines_of db (sl_id s)
      \<and> payments_of db' (sl_id s) = payments_of db (sl_id s)"
    and "\<And>e. e \<in> set (sd_returns db) \<Longrightarrow> re_action e \<noteq> DRAFT_ACTION \<Longrightarrow> e \<in> set (sd_returns db')"
  shows "sale_stays db db'"
  using assms unfolding sale_stays_def by blast

lemma changed_sale_stays:
  assumes inv: "sale_invariant db" and s: "s \<in> set (sd_sales db)" "sl_status s = ''DRAFT''"
    and ref: "sale_ref s' = sale_ref s" and sales: "sd_sales db' = sd_sales (set_sale s' db)"
    and other: "\<And>i. i \<noteq> sl_id s \<Longrightarrow> lines_of db' i = lines_of db i \<and> payments_of db' i = payments_of db i"
    and returns: "sd_returns db' = sd_returns db"
  shows "sale_stays db db'"
proof -
  note D = sale_invariantD [OF inv]
  have "sl_id s' = sl_id s" using ref by (simp add: sale_ref_def)
  then have sales': "set (sd_sales db') = insert s' (set (sd_sales db) - {s})"
    using set_sale_rows(1) [OF D(3) s(1)] sales by simp
  have "\<exists>t' \<in> set (sd_sales db'). sale_ref t' = sale_ref t
      \<and> (sl_status t \<noteq> ''DRAFT'' \<longrightarrow> t' = t \<and> lines_of db' (sl_id t) = lines_of db (sl_id t)
          \<and> payments_of db' (sl_id t) = payments_of db (sl_id t))" if t: "t \<in> set (sd_sales db)" for t
  proof (cases "t = s")
    case True
    then show ?thesis using sales' ref s(2) by blast
  next
    case False
    then have "sl_id t \<noteq> sl_id s" using key_unique [OF D(3) t s(1)] by blast
    then show ?thesis using False t sales' other by blast
  qed
  then show ?thesis using returns unfolding sale_stays_def by simp
qed

lemma sale_move_stays: "sale_move db db' \<Longrightarrow> sale_invariant db \<Longrightarrow> sale_stays db db'"
proof (induction rule: sale_move.induct)
  case (drafts db db' s new)
  have ne: "sl_id t \<noteq> sl_id s" if "t \<in> set (sd_sales db)" for t
    using drafts(4) that by (auto simp: new_sale_id_def image_iff)
  show ?case
    by (rule same_sales_stay)
      (use drafts(8,11) ne appended_rows(1) [OF drafts(9)] same_rows(2) [OF drafts(10)] own_filters(2) [OF drafts(7)] in \<open>simp_all add: subset_insertI\<close>)
next
  case (redrafts db db' s s' new)
  have id: "sl_id s' = sl_id s" using redrafts(6) by (simp add: sale_ref_def)
  show ?case
    by (rule changed_sale_stays [OF redrafts(14,4-6,10) redraft_others [OF redrafts(9) id redrafts(11,12)] redrafts(13)])
next
  case (cancels db db' s s')
  show ?case
    by (rule changed_sale_stays [OF cancels(14,4-6,10) _ cancels(13)])
      (simp add: same_rows(1) [OF cancels(11)] same_rows(2) [OF cancels(12)])
next
  case (pays db db' s ps s')
  show ?case
    by (rule changed_sale_stays [OF pays(18,4-6,13) pay_others [OF pays(10,15,16)] pays(17)])
next
  case (refunds db db' s e)
  show ?case
    by (rule same_sales_stay)
      (use refunds(7,10) same_rows(1) [OF refunds(8)] same_rows(2) [OF refunds(9)] in simp_all)
next
  case (exchanges db db' s e x ps new)
  have ne: "sl_id t \<noteq> sl_id x" if "t \<in> set (sd_sales db)" for t
    using exchanges(7) that by (auto simp: new_sale_id_def image_iff)
  show ?case
    by (rule same_sales_stay)
      (use exchanges(13,16) ne appended_rows(1) [OF exchanges(14)] appended_rows(2) [OF exchanges(15)]
        own_filters(2) [OF exchanges(11)] own_filters(4) [OF exchanges(12)] in \<open>simp_all add: subset_insertI\<close>)
next
  case (elsewhere db db')
  show ?case
    by (rule same_sales_stay)
      (use elsewhere(4,7) same_rows(1) [OF elsewhere(5)] same_rows(2) [OF elsewhere(6)] in simp_all)
next
  case (records db' db)
  show ?case
    by (rule same_sales_stay)
      (use records(2,5) same_rows(1) [OF records(3)] same_rows(2) [OF records(4)] in \<open>simp_all add: recorded_def\<close>)
qed

end
