(* ===== verification/Sale_Payments.thy ===== *)
theory Sale_Payments
  imports Sale_Ledger
begin

text \<open>
  Sales, what the money of a checkout, a refund and an exchange amounts to: the totals that
  \<open>validate_payments\<close> accepts, the movement that \<open>post_sale_cash\<close> posts, the voucher that is
  consumed.
\<close>

section \<open>Sums of payments\<close>

definition paid_of :: "payment_create list \<Rightarrow> money" where
  "paid_of ps = sum_list (map py_amount ps)"

definition non_cash_of :: "payment_create list \<Rightarrow> money" where
  "non_cash_of ps = sum_list (map py_amount (filter (\<lambda>p. py_method p \<noteq> CASH) ps))"

definition advance_of :: "payment_create list \<Rightarrow> money" where
  "advance_of ps = sum_list (map py_amount (filter (\<lambda>p. py_method p = ADVANCE) ps))"

lemma paid_split: "paid_of ps = cash_of ps + non_cash_of ps"
  by (induction ps) (auto simp: paid_of_def cash_of_def non_cash_of_def)

lemma advance_le_non_cash: "\<forall>p \<in> set ps. 0 \<le> py_amount p \<Longrightarrow> advance_of ps \<le> non_cash_of ps"
  by (induction ps) (auto simp: advance_of_def non_cash_of_def add_increasing)

lemma cash_of_nonneg: "\<forall>p \<in> set ps. 0 \<le> py_amount p \<Longrightarrow> 0 \<le> cash_of ps"
  by (induction ps) (auto simp: cash_of_def)

lemma add_payment_cases:
  "add_payment t p = (case payment_ok p of Inl e \<Rightarrow> Inl e | Inr _ \<Rightarrow>
     Inr \<lparr>pt_paid = pt_paid t + paid_of [p], pt_cash = pt_cash t + cash_of [p],
       pt_non_cash = pt_non_cash t + non_cash_of [p], pt_advance = pt_advance t + advance_of [p]\<rparr>)"
  by (cases "payment_ok p") (simp_all add: add_payment_def paid_of_def cash_of_def non_cash_of_def advance_of_def)

lemma payment_sums_Cons:
  "paid_of (p # ps) = paid_of [p] + paid_of ps" "cash_of (p # ps) = cash_of [p] + cash_of ps"
  "non_cash_of (p # ps) = non_cash_of [p] + non_cash_of ps" "advance_of (p # ps) = advance_of [p] + advance_of ps"
  by (simp_all add: paid_of_def cash_of_def non_cash_of_def advance_of_def)

lemma payment_sums_Nil [simp]: "paid_of [] = 0" "cash_of [] = 0" "non_cash_of [] = 0" "advance_of [] = 0"
  by (simp_all add: paid_of_def cash_of_def non_cash_of_def advance_of_def)

lemma add_payment_loop:
  "for_each add_payment t ps = Inr t' \<longleftrightarrow> (\<forall>p \<in> set ps. payment_ok p = Inr ())
    \<and> t' = \<lparr>pt_paid = pt_paid t + paid_of ps, pt_cash = pt_cash t + cash_of ps,
        pt_non_cash = pt_non_cash t + non_cash_of ps, pt_advance = pt_advance t + advance_of ps\<rparr>"
proof (induction ps arbitrary: t)
  case Nil
  show ?case by auto
next
  case (Cons p ps)
  show ?case
    by (cases "payment_ok p")
      (simp_all add: add_payment_cases [of t p] Cons.IH payment_sums_Cons [of p ps] add.assoc)
qed

lemma payment_ok_positive: "payment_ok p = Inr () \<Longrightarrow> 0 < py_amount p"
  by (simp add: payment_ok_def bindr_Inr_iff require_Inr_iff)

text \<open>The checks on the sums come down to two: the bill is covered, and not over-covered without
  cash. Then change is given from cash alone.\<close>

lemma validate_payments_Inr:
  "validate_payments ps due = Inr t \<longleftrightarrow>
    ps \<noteq> [] \<and> (\<forall>p \<in> set ps. payment_ok p = Inr ()) \<and> due \<le> paid_of ps \<and> non_cash_of ps \<le> due
    \<and> t = \<lparr>ct_total_due = due, ct_paid_total = paid_of ps, ct_balance_due = 0,
        ct_change_due = paid_of ps - due, ct_cash_total = cash_of ps, ct_advance_total = advance_of ps\<rparr>"
proof -
  have adv: "(\<forall>p \<in> set ps. payment_ok p = Inr ()) \<Longrightarrow> advance_of ps \<le> non_cash_of ps"
    by (intro advance_le_non_cash) (auto dest: payment_ok_positive intro: less_imp_le)
  show ?thesis
    using adv paid_split [of ps]
    by (auto simp: validate_payments_def bindr_Inr_iff require_Inr_iff add_payment_loop Let_def max_def not_less)
qed

lemma enumerated_rows:
  assumes "\<And>i p. P (g (i, p)) = Q p" and "\<And>i p. f (g (i, p)) = h p"
  shows "map f (filter P (map g (enumerate n ps))) = map h (filter Q ps)"
  using assms by (induction ps arbitrary: n) simp_all

lemma payment_rows_sums:
  "all_paid (payment_rows fresh k i tn now ps) = paid_of ps"
  "cash_paid (payment_rows fresh k i tn now ps) = cash_of ps"
proof -
  have "map pp_amount (filter (\<lambda>_. True) (payment_rows fresh k i tn now ps)) = map py_amount (filter (\<lambda>_. True) ps)"
    unfolding payment_rows_def by (rule enumerated_rows) simp_all
  then show "all_paid (payment_rows fresh k i tn now ps) = paid_of ps" by (simp add: all_paid_def paid_of_def)
  have "map pp_amount (filter (\<lambda>p. pp_method p = CASH) (payment_rows fresh k i tn now ps)) =
      map py_amount (filter (\<lambda>p. py_method p = CASH) ps)"
    unfolding payment_rows_def by (rule enumerated_rows) simp_all
  then show "cash_paid (payment_rows fresh k i tn now ps) = cash_of ps" by (simp add: cash_paid_def cash_of_def)
qed

lemma payment_rows_own: "sl_id s = i \<Longrightarrow> sl_tenant_id s = tn \<Longrightarrow> own_payments (payment_rows fresh k i tn now ps) s"
  by (auto simp: own_payments_def payment_rows_def)

lemma voucher_payment_rows:
  "map pp_amount (voucher_payments (payment_rows fresh k i tn now ps)) =
     map py_amount (filter (\<lambda>p. py_method p = ADVANCE) ps)"
  unfolding payment_rows_def voucher_payments_def by (rule enumerated_rows) simp_all

section \<open>The session and the posting\<close>

lemma require_open_cash_session_Inr:
  assumes "require_open_cash_session db tn sid k = Inr c"
  shows "c \<in> set (c_sessions db)" "cs_status c = OPEN" "cs_tenant_id c = tn" "cs_store_id c = sid"
proof -
  let ?P = "\<lambda>s. cs_tenant_id s = tn \<and> cs_store_id s = sid \<and> cs_status s = OPEN"
  have "c \<in> set (c_sessions db) \<and> ?P c"
  proof (cases "find (\<lambda>s. cs_tenant_id s = tn \<and> cs_store_id s = sid \<and> cs_cashier_user_id s = k \<and> cs_status s = OPEN)
      (c_sessions db)")
    case None
    then have "filter ?P (c_sessions db) = [c]"
      using assms by (auto simp: require_open_cash_session_def split: list.splits)
    then have "c \<in> set (filter ?P (c_sessions db))" by simp
    then show ?thesis by simp
  next
    case (Some s)
    then show ?thesis using assms find_SomeD [OF Some] by (simp add: require_open_cash_session_def)
  qed
  then show "c \<in> set (c_sessions db)" "cs_status c = OPEN" "cs_tenant_id c = tn" "cs_store_id c = sid" by auto
qed

definition session_ready :: "pos_sale \<Rightarrow> money \<Rightarrow> cash_db \<Rightarrow> cash_session option \<Rightarrow> bool" where
  "session_ready s cash db session = (case session of
     None \<Rightarrow> cash \<le> 0
   | Some c \<Rightarrow> c \<in> set (c_sessions db) \<and> cs_status c = OPEN \<and> cs_tenant_id c = sl_tenant_id s
       \<and> cs_store_id c = sl_store_id s)"

lemma session_for_cash_ready:
  assumes "session_for_cash db (sl_tenant_id s) (sl_store_id s) k cash = Inr session"
  shows "session_ready s cash db session"
  using assms require_open_cash_session_Inr [of db "sl_tenant_id s" "sl_store_id s" k]
  by (auto simp: session_for_cash_def session_ready_def bindr_Inr_iff split: if_splits)

text \<open>The posting: movements that name the sale, worth the amount.\<close>

definition pos_posts :: "advance_db \<Rightarrow> advance_db \<Rightarrow> uuid \<Rightarrow> money \<Rightarrow> bool" where
  "pos_posts pos pos' i x \<longleftrightarrow> advance_step\<^sup>*\<^sup>* pos pos' \<and> av_advances pos' = av_advances pos
    \<and> (\<exists>ms. c_movements (av_cash pos') = c_movements (av_cash pos) @ ms
      \<and> (\<forall>m \<in> set ms. cm_sale_id m = Some i) \<and> sum_list (map sale_cash_value ms) = x)"

lemma post_sale_cash_posts:
  assumes run: "post_sale_cash env tx u s session action amt pos = Inr pos'"
    and ready: "session_ready s cash (av_cash pos) session" and zero: "cash \<le> 0 \<Longrightarrow> amt \<le> 0"
    and action: "action \<in> {''SALE'', ''CASH_OUT_REFUND''}"
    and ids: "sl_id s \<notin> pa_id ` set (av_advances pos)"
  shows "pos_posts pos pos' (sl_id s) (if action = ''SALE'' then max 0 amt else - max 0 amt)"
proof (cases "session = None \<or> \<not> amt > 0")
  case True
  then have "pos' = pos" "max 0 amt = 0"
    using run ready zero by (auto simp: post_sale_cash_def session_ready_def max_def split: option.splits)
  then show ?thesis by (auto simp: pos_posts_def intro: exI [of _ "[]"])
next
  case False
  then obtain c where c: "session = Some c" and amt: "amt > 0" by auto
  obtain cash' where r: "record_cash_movement (rq_fresh env 2) c (sl_tenant_id s) (sl_store_id s) (Some (sl_id s))
      action amt tx (Some (us_id u)) (rc_trace_id (rq_context env)) (rq_now env) (av_cash pos) = Inr cash'"
    and pos': "pos' = pos\<lparr>av_cash := cash'\<rparr>"
    using run c amt by (auto simp: post_sale_cash_def bindr_Inr_iff)
  have cs: "c \<in> set (c_sessions (av_cash pos))" "cs_status c = OPEN" "cs_tenant_id c = sl_tenant_id s"
    "cs_store_id c = sl_store_id s" using ready c by (simp_all add: session_ready_def)
  have st: "cash_step (av_cash pos) cash'"
    by (rule cash_step.Post [OF cs _ r]) (use action in auto)
  obtain after m where m: "cash' = add_movement m (set_session (c\<lparr>cs_expected_cash := after\<rparr>) (av_cash pos))"
    "m = session_movement (rq_fresh env 2) (sl_tenant_id s) (sl_store_id s) c (Some (us_id u)) (Some (sl_id s)) action amt
      (cs_expected_cash c) after tx None (rc_trace_id (rq_context env)) (rq_now env)"
    using record_cash_movement_Inr [OF r] by blast
  have mv: "c_movements cash' = c_movements (av_cash pos) @ [m]" using m(1) by simp
  have nm: "cm_sale_id m = Some (sl_id s)" "cm_action m = action" "cm_amount m = amt"
    using m(2) by (simp_all add: session_movement_def)
  have "advance_step pos pos'"
    unfolding pos' by (rule advance_step.Cash [OF st mv]) (use ids nm(1) in \<open>auto simp: image_iff\<close>)
  moreover have "sale_cash_value m = (if action = ''SALE'' then max 0 amt else - max 0 amt)"
    using nm action amt by (auto simp: sale_cash_value_def)
  ultimately show ?thesis
    using mv nm(1) by (auto simp: pos_posts_def pos' intro!: exI [of _ "[m]"])
qed

section \<open>The voucher of a checkout\<close>

definition voucher_ready :: "request_env \<Rightarrow> pos_sale \<Rightarrow> payment_create list \<Rightarrow> advance_db \<Rightarrow> pos_advance option \<Rightarrow> bool" where
  "voucher_ready env s ps pos a = (case a of
     None \<Rightarrow> filter (\<lambda>p. py_method p = ADVANCE) ps = []
   | Some a \<Rightarrow> a \<in> set (av_advances pos) \<and> pa_status a = ACTIVE \<and> rq_now env < pa_expires_at a
       \<and> pa_tenant_id a = sl_tenant_id s \<and> pa_store_id a = sl_store_id s
       \<and> (\<exists>p. filter (\<lambda>p. py_method p = ADVANCE) ps = [p] \<and> py_amount p = quantize2 (pa_issued_amount a)))"

lemma resolve_advance_Inr:
  assumes "resolve_advance_for_checkout env tn sid p u pos = Inr a"
  shows "a \<in> set (av_advances pos)" "pa_status a = ACTIVE" "rq_now env < pa_expires_at a"
    "pa_tenant_id a = tn" "pa_store_id a = sid" "py_amount p = quantize2 (pa_issued_amount a)"
proof -
  obtain a0 where a0: "find (advance_named tn sid p) (av_advances pos) = Some a0"
    using assms by (auto simp: resolve_advance_for_checkout_def split: option.splits)
  note f = find_SomeD [OF a0]
  show "a \<in> set (av_advances pos)" "pa_status a = ACTIVE" "rq_now env < pa_expires_at a"
    "pa_tenant_id a = tn" "pa_store_id a = sid" "py_amount p = quantize2 (pa_issued_amount a)"
    using assms a0 f
    by (cases "expiry_due (rq_now env) a0",
        auto simp: resolve_advance_for_checkout_def bindr_Inr_iff require_Inr_iff Let_def expired_row_def
          expire_advance_if_needed_def expiry_due_def advance_named_def)+
qed

lemma checkout_advance_ready:
  assumes "checkout_advance env s ps due u pos = Inr a"
  shows "voucher_ready env s ps pos a"
  using assms resolve_advance_Inr [of env "sl_tenant_id s" "sl_store_id s" _ u pos]
  by (auto simp: checkout_advance_def voucher_ready_def bindr_Inr_iff require_Inr_iff split: list.splits)

lemma consume_for_sale_rows:
  "av_advances (consume_for_sale i sale tx actor now a pos) = av_advances (set_advance (consumed_row (Some sale) now a) pos)"
  "av_cash (consume_for_sale i sale tx actor now a pos) = av_cash pos"
  by (simp_all add: consume_for_sale_def consumed_row_def Let_def)

lemma settle_advance_backs:
  assumes ready: "voucher_ready env s ps pos a" and dist: "distinct (map pa_id (av_advances pos))"
    and pos_def: "pos' = settle_advance env tx u s a pos"
  shows "advance_step\<^sup>*\<^sup>* pos pos'" "av_cash pos' = av_cash pos"
    "pa_id ` set (av_advances pos') = pa_id ` set (av_advances pos)"
    "length (filter (\<lambda>p. py_method p = ADVANCE) ps) \<le> 1"
    "\<And>p. p \<in> set (voucher_payments (payment_rows fresh k (sl_id s) (sl_tenant_id s) now ps)) \<Longrightarrow>
      \<exists>a \<in> set (av_advances pos'). backs a p"
proof -
  let ?rows = "voucher_payments (payment_rows fresh k (sl_id s) (sl_tenant_id s) now ps)"
  have all: "advance_step\<^sup>*\<^sup>* pos pos' \<and> av_cash pos' = av_cash pos
    \<and> pa_id ` set (av_advances pos') = pa_id ` set (av_advances pos)
    \<and> length (filter (\<lambda>p. py_method p = ADVANCE) ps) \<le> 1
    \<and> (\<forall>p \<in> set ?rows. \<exists>a \<in> set (av_advances pos'). backs a p)"
  proof (cases a)
    case None
    then have "?rows = []" using ready voucher_payment_rows [of fresh k "sl_id s" "sl_tenant_id s" now ps]
      by (simp add: voucher_ready_def)
    then show ?thesis using None ready by (simp add: pos_def settle_advance_def voucher_ready_def)
  next
    case (Some v)
    let ?v = "consumed_row (Some (sl_id s)) (rq_now env) v"
    have pos': "pos' = consume_for_sale (rq_fresh env 1) (sl_id s) (the tx) (us_id u) (rq_now env) v pos"
      using Some by (simp add: pos_def settle_advance_def)
    have v: "v \<in> set (av_advances pos)" "pa_status v = ACTIVE" using ready Some by (simp_all add: voucher_ready_def)
    obtain p where p: "filter (\<lambda>p. py_method p = ADVANCE) ps = [p]" "py_amount p = quantize2 (pa_issued_amount v)"
      and tn: "pa_tenant_id v = sl_tenant_id s"
      using ready Some by (auto simp: voucher_ready_def)
    have rows: "set (av_advances pos') = insert ?v (set (av_advances pos) - {v})"
      using set_advance_rows [OF dist v(1), of ?v] unfolding pos' consume_for_sale_rows by (simp add: consumed_row_def)
    have "map pp_amount ?rows = [quantize2 (pa_issued_amount v)]"
      using voucher_payment_rows [of fresh k "sl_id s" "sl_tenant_id s" now ps] p by simp
    then obtain q where q: "?rows = [q]" "pp_amount q = quantize2 (pa_issued_amount v)" by auto
    have "q \<in> set (payment_rows fresh k (sl_id s) (sl_tenant_id s) now ps)"
      using q(1) by (metis filter_is_subset list.set_intros(1) subsetD voucher_payments_def)
    then have "pp_sale_id q = sl_id s" "pp_tenant_id q = sl_tenant_id s" by (auto simp: payment_rows_def)
    then have "backs ?v q" using q(2) tn by (simp add: backs_def consumed_row_def)
    moreover have "advance_step pos pos'" unfolding pos' by (rule advance_step.Checkout [OF v])
    moreover have "pa_id ?v = pa_id v" by (simp add: consumed_row_def)
    then have "pa_id ` set (av_advances pos') = pa_id ` set (av_advances pos)"
      using rows v(1) by (auto simp: image_iff)
    ultimately show ?thesis using rows q(1) p(1) pos' by (auto simp: consume_for_sale_rows)
  qed
  show "advance_step\<^sup>*\<^sup>* pos pos'" "av_cash pos' = av_cash pos"
    "pa_id ` set (av_advances pos') = pa_id ` set (av_advances pos)"
    "length (filter (\<lambda>p. py_method p = ADVANCE) ps) \<le> 1" using all by auto
  show "\<exists>a \<in> set (av_advances pos'). backs a p" if "p \<in> set ?rows" for p using all that by blast
qed

section \<open>Refund payments\<close>

lemma refund_payments_positive:
  assumes "refund_payments_check policy ex ps = Inr ex'"
  shows "\<forall>p \<in> set ps. 0 < py_amount p"
  using assms unfolding refund_payments_check_def
  by (rule for_each_all) (auto simp: refund_payment_ok_def bindr_Inr_iff require_Inr_iff)

lemma positive_cash: "\<forall>p \<in> set ps. 0 < py_amount p \<Longrightarrow> 0 \<le> cash_of ps"
  by (rule cash_of_nonneg) (auto intro: less_imp_le)

end
