(* ===== verification/Sale_Steps.thy ===== *)
theory Sale_Steps
  imports Sale_Payments "HOL-Library.Multiset"
begin

text \<open>
  Sales, the operations of the router and of the returns service as steps on the rows, beside the
  steps of the other routers on what they share. Every step is a move of the abstract machine of
  \<open>Sale_Ledger\<close>, so its invariant holds in every reachable state; and the rows of the other
  components move by their own steps, so their invariants hold there too.
\<close>

section \<open>Steps\<close>

text \<open>The ids a request draws are distinct and new.\<close>

definition fresh_sale :: "request_env \<Rightarrow> sale_db \<Rightarrow> bool" where
  "fresh_sale env db \<longleftrightarrow> inj (rq_fresh env)
    \<and> (\<forall>k. new_sale_id (rq_fresh env k) db \<and> rq_fresh env k \<notin> ln_id ` set (sd_lines db)
        \<and> rq_fresh env k \<notin> re_id ` set (sd_returns db))"

text \<open>\<open>Pos\<close> is a step of the cash, voucher or drawer routers: their movements name no sale, and the
  ids of their vouchers are not those of sales. \<open>Stock\<close> is anything that happens to the stock,
  the tags and the policies.\<close>

inductive sale_step :: "sale_db \<Rightarrow> sale_db \<Rightarrow> bool" where
  Create: "fresh_sale env db \<Longrightarrow> create_sale_body env p tn (sid, u) db = Inr (db', r) \<Longrightarrow> sale_step db db'"
| Update: "fresh_sale env db \<Longrightarrow> update_sale_body env i q tn u db = Inr (db', r) \<Longrightarrow> sale_step db db'"
| Action: "fresh_sale env db \<Longrightarrow> sale_action_body env i a tn u db = Inr (db', r) \<Longrightarrow> sale_step db db'"
| Draft_return: "fresh_sale env db \<Longrightarrow> create_return env q2 db = Inr (db', e) \<Longrightarrow> sale_step db db'"
| Return_action: "fresh_sale env db \<Longrightarrow> action_return env store_id i b db = Inr (db', e) \<Longrightarrow> sale_step db db'"
| Pos: "advance_step (sd_pos db) pos \<Longrightarrow> c_sales (av_cash pos) = c_sales (av_cash (sd_pos db)) \<Longrightarrow>
    \<forall>s \<in> set (sd_sales db). movements_naming (av_cash pos) (sl_id s) = movements_naming (av_cash (sd_pos db)) (sl_id s) \<Longrightarrow>
    sl_id ` set (sd_sales db) \<inter> pa_id ` set (av_advances pos) = {} \<Longrightarrow> sale_step db (db\<lparr>sd_pos := pos\<rparr>)"
| Stock: "sale_step db (db\<lparr>sd_stock := rows, sd_assignments := tags, sd_policies := ps\<rparr>)"

definition sale_start :: "sale_db \<Rightarrow> bool" where
  "sale_start db \<longleftrightarrow> sd_sales db = [] \<and> sd_lines db = [] \<and> sd_payments db = [] \<and> sd_returns db = []
    \<and> advance_start (sd_pos db) \<and> c_sales (av_cash (sd_pos db)) = []"

definition sale_reachable :: "sale_db \<Rightarrow> bool" where
  "sale_reachable db \<longleftrightarrow> (\<exists>db0. sale_start db0 \<and> sale_step\<^sup>*\<^sup>* db0 db)"

section \<open>Publishing\<close>

lemma publish_simps [simp]:
  "sd_sales (publish_sales db) = sd_sales db" "sd_lines (publish_sales db) = sd_lines db"
  "sd_payments (publish_sales db) = sd_payments db" "sd_returns (publish_sales db) = sd_returns db"
  "sd_stock (publish_sales db) = sd_stock db" "sd_assignments (publish_sales db) = sd_assignments db"
  "sd_policies (publish_sales db) = sd_policies db"
  "av_advances (sd_pos (publish_sales db)) = av_advances (sd_pos db)"
  "c_movements (av_cash (sd_pos (publish_sales db))) = c_movements (av_cash (sd_pos db))"
  "c_sessions (av_cash (sd_pos (publish_sales db))) = c_sessions (av_cash (sd_pos db))"
  by (simp_all add: publish_sales_def)

lemma set_sale_simps [simp]:
  "sd_pos (set_sale s db) = sd_pos db" "sd_lines (set_sale s db) = sd_lines db"
  "sd_payments (set_sale s db) = sd_payments db" "sd_returns (set_sale s db) = sd_returns db"
  by (simp_all add: set_sale_def)

lemma publish_step: "advance_step (sd_pos db) (sd_pos (publish_sales db))"
proof -
  let ?c = "(av_cash (sd_pos db))\<lparr>c_sales := map (sale_view (sd_payments db)) (sd_sales db)\<rparr>"
  have "advance_step (sd_pos db) ((sd_pos db)\<lparr>av_cash := ?c\<rparr>)"
    by (rule advance_step.Cash [OF cash_step.Sale, of _ _ "[]"]) simp_all
  then show ?thesis by (simp add: publish_sales_def)
qed

text \<open>What a body does to the rows it shares, before it publishes the sales.\<close>

lemma published_run:
  assumes "pos_posts (sd_pos db) (sd_pos db1) i x"
  shows "pos_run db (publish_sales db1)" "same_vouchers db (publish_sales db1)" "posts db (publish_sales db1) i x"
proof -
  have "advance_step\<^sup>*\<^sup>* (sd_pos db) (sd_pos db1)" using assms by (simp add: pos_posts_def)
  then show "pos_run db (publish_sales db1)"
    using publish_step [of db1] by (simp add: pos_run_def rtranclp.rtrancl_into_rtrancl)
qed (use assms in \<open>simp_all add: pos_posts_def same_vouchers_def posts_def\<close>)

lemma pos_posts_refl: "pos_posts pos pos i 0"
  by (auto simp: pos_posts_def intro: exI [of _ "[]"])

section \<open>New lines\<close>

lemma fresh_ids:
  assumes "fresh_sale env db"
  shows "inj (rq_fresh env)" "new_sale_id (rq_fresh env k) db" "rq_fresh env k \<notin> ln_id ` set (sd_lines db)"
    "rq_fresh env k \<notin> re_id ` set (sd_returns db)"
  using assms by (simp_all add: fresh_sale_def)

lemma sale_line_row_simps [simp]:
  "ln_id (sale_line_row i c s tn now l) = i" "ln_sale_id (sale_line_row i c s tn now l) = s"
  "ln_tenant_id (sale_line_row i c s tn now l) = tn" "ln_line_total (sale_line_row i c s tn now l) = line_total l"
  "ln_qty (sale_line_row i c s tn now l) = lc_qty l" "ln_created_at (sale_line_row i c s tn now l) = now"
  by (simp_all add: sale_line_row_def Let_def)

lemma numbered_lines:
  assumes "inj f" and "inj g" and "\<And>i. f i \<notin> ln_id ` set old"
    and "new = map (\<lambda>(i, l). sale_line_row (f (g i)) (code i) (sl_id s) (sl_tenant_id s) now l) (enumerate 0 ls)"
    and "distinct (map ln_id old)" and "sl_total_due s = lines_total ls"
  shows "new_lines new s old"
proof -
  have ids: "map ln_id new = map (f \<circ> g) [0..<length ls]"
    using assms(4) by (intro nth_equalityI) (simp_all add: nth_enumerate_eq)
  have "map (\<lambda>l. ln_line_total l) new = map line_total ls"
    using assms(4) by (intro nth_equalityI) (simp_all add: nth_enumerate_eq)
  then have sum: "sum_list (map ln_line_total new) = sl_total_due s" using assms(6) by (simp add: lines_total_def)
  have "distinct (map ln_id new)" unfolding ids distinct_map
    using assms(1,2) by (simp add: inj_compose inj_on_subset [OF _ subset_UNIV])
  moreover have "ln_id ` set old \<inter> ln_id ` set new = {}"
    using assms(3) arg_cong [OF ids, of set] by (force simp: image_iff)
  moreover have "\<forall>l \<in> set new. ln_sale_id l = sl_id s \<and> ln_tenant_id l = sl_tenant_id s"
    using assms(4) by auto
  ultimately show ?thesis using assms(5) sum by (simp add: new_lines_def)
qed

lemma sale_rows_new:
  assumes "fresh_sale env db" and "set (map ln_id old) \<subseteq> ln_id ` set (sd_lines db)" and "distinct (map ln_id old)"
    and "sl_total_due s = lines_total ls"
  shows "new_lines (sale_line_rows (rq_fresh env) k (sl_id s) (sl_tenant_id s) now ls) s old"
    "new_lines (exchange_line_rows (rq_fresh env) k (sl_id s) (sl_tenant_id s) now ls) s old"
proof -
  note fr = fresh_ids [OF assms(1)]
  have no: "rq_fresh env i \<notin> ln_id ` set old" for i using fr(3) [of i] assms(2) unfolding set_map by blast
  show "new_lines (sale_line_rows (rq_fresh env) k (sl_id s) (sl_tenant_id s) now ls) s old"
    by (rule numbered_lines [where g = "\<lambda>i. k + 2 * i", OF fr(1) _ no _ assms(3,4)])
      (auto simp: sale_line_rows_def inj_def)
  show "new_lines (exchange_line_rows (rq_fresh env) k (sl_id s) (sl_tenant_id s) now ls) s old"
    by (rule numbered_lines [where g = "\<lambda>i. k + i" and code = "\<lambda>_. None", OF fr(1) _ no _ assms(3,4)])
      (auto simp: exchange_line_rows_def inj_def)
qed

section \<open>Drafts\<close>

lemma find_sale_Inr:
  assumes "find_sale i tn db = Inr s"
  shows "s \<in> set (sd_sales db)" "sl_id s = i" "sl_tenant_id s = tn"
  using assms find_SomeD [of "\<lambda>s. sl_id s = i" "sd_sales db"]
  by (auto simp: find_sale_def get_sale_by_id_def split: option.splits if_splits)

lemma create_sale_moves:
  assumes fresh: "fresh_sale env db" and run: "create_sale_body env p tn (sid, u) db = Inr (db', r)"
    and inv: "sale_invariant db"
  shows "sale_move db db'"
proof -
  obtain ls where db': "db' = publish_sales (db\<lparr>sd_sales := sd_sales db @ [draft_sale env tn sid u ls],
      sd_lines := sd_lines db @ sale_line_rows (rq_fresh env) 2 (sl_id (draft_sale env tn sid u ls)) tn (rq_now env) ls\<rparr>)"
    using run by (auto simp: create_sale_body_def bindr_Inr_iff Let_def)
  let ?s = "draft_sale env tn sid u ls"
  have s: "sl_id ?s = rq_fresh env 0" "sl_tenant_id ?s = tn" "sl_status ?s = ''DRAFT''" "sl_total_due ?s = lines_total ls"
    "totals_ok ?s []"
    by (simp_all add: draft_sale_def Let_def totals_ok_def)
  have dist: "distinct (map ln_id (sd_lines db))" using sale_invariantD(1) [OF inv] by (simp add: refs_ok_def)
  have lines: "new_lines (sale_line_rows (rq_fresh env) 2 (sl_id ?s) (sl_tenant_id ?s) (rq_now env) ls) ?s (sd_lines db)"
    by (rule sale_rows_new(1) [OF fresh _ dist s(4)]) simp
  have run: "pos_posts (sd_pos db) (sd_pos (db\<lparr>sd_sales := sd_sales db @ [?s],
      sd_lines := sd_lines db @ sale_line_rows (rq_fresh env) 2 (sl_id ?s) tn (rq_now env) ls\<rparr>)) (sl_id ?s) 0"
    by (simp add: pos_posts_refl)
  note P = published_run [OF run, folded db']
  have new: "new_sale_id (sl_id ?s) db" using fresh_ids(2) [OF fresh] s(1) by simp
  show ?thesis by (rule sale_move.drafts [OF P new s(3,5) lines]) (simp_all add: db' s(2))
qed

lemma update_sale_moves:
  assumes fresh: "fresh_sale env db" and run: "update_sale_body env i p tn u db = Inr (db', r)"
    and inv: "sale_invariant db"
  shows "sale_move db db'"
proof -
  obtain s ls where s: "find_sale i tn db = Inr s" and st: "sl_status s = ''DRAFT''"
    and db': "db' = publish_sales ((set_sale (s\<lparr>sl_total_due := lines_total ls, sl_paid_total := 0,
        sl_balance_due := lines_total ls, sl_change_due := 0, sl_updated_by_user_id := Some (us_id u),
        sl_updated_at := Some (rq_now env)\<rparr>) db)\<lparr>sd_lines := filter (\<lambda>l. ln_sale_id l \<noteq> sl_id s) (sd_lines db)
        @ sale_line_rows (rq_fresh env) 0 (sl_id s) tn (rq_now env) ls\<rparr>)" (is "_ = publish_sales ?db")
    using run by (auto simp: update_sale_body_def bindr_Inr_iff require_Inr_iff Let_def)
  note f = find_sale_Inr [OF s]
  let ?s = "s\<lparr>sl_total_due := lines_total ls, sl_paid_total := 0, sl_balance_due := lines_total ls, sl_change_due := 0,
    sl_updated_by_user_id := Some (us_id u), sl_updated_at := Some (rq_now env)\<rparr>"
  let ?new = "sale_line_rows (rq_fresh env) 0 (sl_id ?s) (sl_tenant_id ?s) (rq_now env) ls"
  have dist: "distinct (map ln_id (other_lines (sl_id s) db))"
    using sale_invariantD(1) [OF inv] by (simp add: refs_ok_def other_lines_def distinct_map_filter)
  have lines: "new_lines ?new ?s (other_lines (sl_id s) db)"
    by (rule sale_rows_new(1) [OF fresh _ dist]) (auto simp: other_lines_def)
  have "totals_ok s []"
    using sale_invariantD(4) [OF inv f(1)] draft_rows(1) [OF inv f(1) st] by (simp add: sale_facts_def sale_ok_def)
  then have tot: "totals_ok ?s []" using st by (simp add: totals_ok_def)
  have run: "pos_posts (sd_pos db) (sd_pos ?db) (sl_id s) 0" by (simp add: pos_posts_refl)
  note P = published_run [OF run, folded db']
  show ?thesis
    by (rule sale_move.redrafts [OF P f(1) st _ _ tot lines])
      (simp_all add: db' sale_ref_def st f(3) other_lines_def)
qed

lemma cancel_sale_moves:
  assumes run: "cancel_sale env u s db = Inr (db', r)" and inv: "sale_invariant db" and s: "s \<in> set (sd_sales db)"
  shows "sale_move db db'"
proof -
  let ?s = "s\<lparr>sl_status := ''CANCELED'', sl_canceled_by_user_id := Some (us_id u),
    sl_canceled_at := Some (rq_now env), sl_updated_by_user_id := Some (us_id u), sl_updated_at := Some (rq_now env)\<rparr>"
  have st: "sl_status s = ''DRAFT''" and db': "db' = publish_sales (set_sale ?s db)"
    using run by (auto simp: cancel_sale_def bindr_Inr_iff require_Inr_iff Let_def)
  have "totals_ok s []"
    using sale_invariantD(4) [OF inv s] draft_rows(1) [OF inv s st] by (simp add: sale_facts_def sale_ok_def)
  then have tot: "totals_ok ?s []" using st by (simp add: totals_ok_def)
  have "pos_posts (sd_pos db) (sd_pos (set_sale ?s db)) (sl_id s) 0" by (simp add: pos_posts_refl)
  note P = published_run [OF this, folded db']
  show ?thesis
    by (rule sale_move.cancels [OF P s st _ _ tot]) (simp_all add: db' sale_ref_def)
qed

section \<open>Checkout\<close>

lemma written_line_core [simp]:
  "line_core (tagged_line r l) = line_core l" "line_core (piece_line rows l) = line_core l"
  by (simp_all add: line_core_def tagged_line_def piece_line_def)

lemma checkout_line_Inr:
  assumes "checkout_line tn sid now (w, out) l = Inr (w', out')"
  obtains l' where "out' = out @ [l']" "line_core l' = line_core l"
  using assms by (auto simp: checkout_line_def bindr_Inr_iff split: sale_line_type.splits)

lemma checkout_loop_lines:
  assumes "for_each (checkout_line tn sid now) (w, out) ls = Inr (w', out')"
  shows "map line_core out' = map line_core out @ map line_core ls"
  using assms
proof (induction ls arbitrary: w out)
  case (Cons l ls)
  from Cons.prems obtain w1 out1 where l: "checkout_line tn sid now (w, out) l = Inr (w1, out1)"
    and rest: "for_each (checkout_line tn sid now) (w1, out1) ls = Inr (w', out')"
    by (auto simp: bindr_Inr_iff)
  show ?case by (rule checkout_line_Inr [OF l]) (use Cons.IH [OF rest] in simp)
qed simp

lemma set_lines_core:
  assumes dist: "distinct (map ln_id ls)" and sub: "set old \<subseteq> set ls" and core: "map line_core new = map line_core old"
    and own: "\<forall>l \<in> set old. ln_sale_id l = i"
  shows "map line_core (set_lines new ls) = map line_core ls"
    "filter (\<lambda>l. ln_sale_id l \<noteq> i) (set_lines new ls) = filter (\<lambda>l. ln_sale_id l \<noteq> i) ls"
proof -
  let ?f = "\<lambda>l. case find (\<lambda>n. ln_id n = ln_id l) new of None \<Rightarrow> l | Some n \<Rightarrow> n"
  have step: "line_core (?f l) = line_core l \<and> (ln_sale_id l \<noteq> i \<longrightarrow> ?f l = l)" if l: "l \<in> set ls" for l
  proof (cases "find (\<lambda>n. ln_id n = ln_id l) new")
    case (Some n)
    from find_SomeD [OF Some] have n: "n \<in> set new" "ln_id n = ln_id l" by auto
    then have "line_core n \<in> line_core ` set old" using arg_cong [OF core, of set] by auto
    then obtain l0 where l0: "l0 \<in> set old" "line_core n = line_core l0" by auto
    then have "ln_id l0 = ln_id l" using n(2) by (simp add: line_core_def)
    then have "l0 = l" using key_unique [OF dist] l l0(1) sub by blast
    then show ?thesis using Some l0 own by auto
  qed simp
  show "map line_core (set_lines new ls) = map line_core ls" using step by (simp add: set_lines_def)
  have "filter (\<lambda>l. ln_sale_id l \<noteq> i) (map ?f xs) = filter (\<lambda>l. ln_sale_id l \<noteq> i) xs" if "set xs \<subseteq> set ls" for xs
    using that
  proof (induction xs)
    case (Cons l xs)
    have "ln_sale_id (?f l) = ln_sale_id l" "ln_sale_id l \<noteq> i \<longrightarrow> ?f l = l"
      using step [of l] Cons.prems by (auto simp: line_core_def)
    then show ?case using Cons by simp
  qed simp
  then show "filter (\<lambda>l. ln_sale_id l \<noteq> i) (set_lines new ls) = filter (\<lambda>l. ln_sale_id l \<noteq> i) ls"
    by (simp add: set_lines_def)
qed

lemma sale_lines_set [simp]: "set (sale_lines i db) = set (lines_of db i)"
  by (simp add: sale_lines_def lines_of_def)

lemma sale_lines_total: "sum_list (map ln_line_total (sale_lines i db)) = sum_list (map ln_line_total (lines_of db i))"
proof -
  have "mset (sale_lines i db) = mset (lines_of db i)"
    unfolding sale_lines_def lines_of_def by (rule mset_sort)
  then have "mset (map ln_line_total (sale_lines i db)) = mset (map ln_line_total (lines_of db i))" by simp
  then show ?thesis by (metis sum_mset_sum_list)
qed

text \<open>The rows a checkout leaves before it publishes the sales.\<close>

definition checked_out ::
    "request_env \<Rightarrow> pos_sale \<Rightarrow> payment_create list \<Rightarrow> stock_work \<Rightarrow> pos_sale \<Rightarrow> advance_db \<Rightarrow> sale_line list \<Rightarrow> sale_db \<Rightarrow> sale_db" where
  "checked_out env s ps w s' pos ls' db =
    (commit_work w (set_sale s' db))\<lparr>sd_pos := pos, sd_lines := set_lines ls' (sd_lines db),
      sd_payments := sd_payments db @ payment_rows (rq_fresh env) 3 (sl_id s) (sl_tenant_id s) (rq_now env) ps\<rparr>"

lemma checked_out_simps [simp]:
  "sd_pos (checked_out env s ps w s' pos ls' db) = pos"
  "sd_sales (checked_out env s ps w s' pos ls' db) = sd_sales (set_sale s' db)"
  "sd_lines (checked_out env s ps w s' pos ls' db) = set_lines ls' (sd_lines db)"
  "sd_payments (checked_out env s ps w s' pos ls' db) =
     sd_payments db @ payment_rows (rq_fresh env) 3 (sl_id s) (sl_tenant_id s) (rq_now env) ps"
  "sd_returns (checked_out env s ps w s' pos ls' db) = sd_returns db"
  "sd_stock (checked_out env s ps w s' pos ls' db) = commit si_id (wk_stock w)"
  by (simp_all add: checked_out_def commit_work_def)

lemma checkout_sale_Inr:
  assumes "checkout_sale env p u s db = Inr (db', r)"
  obtains t a session w ls' pos where "sl_status s = ''DRAFT''"
    "validate_payments (cr_payments p) (sum_list (map ln_line_total (lines_of db (sl_id s)))) = Inr t"
    "checkout_advance env s (cr_payments p) (sum_list (map ln_line_total (lines_of db (sl_id s)))) u (sd_pos db) = Inr a"
    "session_for_cash (av_cash (sd_pos db)) (sl_tenant_id s) (sl_store_id s) (us_id u) (ct_cash_total t) = Inr session"
    "for_each (checkout_line (sl_tenant_id s) (sl_store_id s) (rq_now env)) (start_work db, []) (sale_lines (sl_id s) db) = Inr (w, ls')"
    "post_sale_cash env (cr_transaction_id p) u s session ''SALE'' (max 0 (ct_cash_total t - ct_change_due t))
      (settle_advance env (cr_transaction_id p) u s a (sd_pos db)) = Inr pos"
    "db' = publish_sales (checked_out env s (cr_payments p) w (paid_sale env p u t s) pos ls' db)"
  using assms
  by (auto simp: checkout_sale_def bindr_Inr_iff require_Inr_iff Let_def sale_lines_total checked_out_def)

lemma checkout_sale_moves:
  assumes run: "checkout_sale env p u s db = Inr (db', r)" and inv: "sale_invariant db" and s: "s \<in> set (sd_sales db)"
  shows "sale_move db db'"
proof (rule checkout_sale_Inr [OF run])
  fix t a session w ls' pos
  let ?due = "sum_list (map ln_line_total (lines_of db (sl_id s)))" and ?ps = "cr_payments p"
    and ?pos1 = "settle_advance env (cr_transaction_id p) u s a (sd_pos db)" and ?s = "paid_sale env p u t s"
  let ?rows = "payment_rows (rq_fresh env) 3 (sl_id s) (sl_tenant_id s) (rq_now env) ?ps"
  assume st: "sl_status s = ''DRAFT''" and t: "validate_payments ?ps ?due = Inr t"
    and a: "checkout_advance env s ?ps ?due u (sd_pos db) = Inr a"
    and ses: "session_for_cash (av_cash (sd_pos db)) (sl_tenant_id s) (sl_store_id s) (us_id u) (ct_cash_total t) = Inr session"
    and loop: "for_each (checkout_line (sl_tenant_id s) (sl_store_id s) (rq_now env)) (start_work db, []) (sale_lines (sl_id s) db) = Inr (w, ls')"
    and post: "post_sale_cash env (cr_transaction_id p) u s session ''SALE'' (max 0 (ct_cash_total t - ct_change_due t)) ?pos1 = Inr pos"
    and db': "db' = publish_sales (checked_out env s ?ps w ?s pos ls' db)"
  note I = sale_invariantD [OF inv] and D = draft_rows [OF inv s st]
  have T: "?due \<le> paid_of ?ps" "non_cash_of ?ps \<le> ?due" "ct_total_due t = ?due" "ct_paid_total t = paid_of ?ps"
    "ct_balance_due t = 0" "ct_change_due t = paid_of ?ps - ?due" "ct_cash_total t = cash_of ?ps"
    using t unfolding validate_payments_Inr by auto
  have net: "0 \<le> cash_of ?ps - (paid_of ?ps - ?due)" using T(2) paid_split [of ?ps] by simp
  have dist: "distinct (map pa_id (av_advances (sd_pos db)))" using I(2) by (simp add: voucher_invariant_def keys_ok_def)
  note V = settle_advance_backs [OF checkout_advance_ready [OF a] dist, where tx = "cr_transaction_id p" and u = u, OF refl]
  have ids: "sl_id s \<notin> pa_id ` set (av_advances ?pos1)" using I(1) s V(3) by (auto simp: refs_ok_def)
  have ready: "session_ready s (cash_of ?ps) (av_cash ?pos1) session"
    using session_for_cash_ready [OF ses] V(2) T(7) by simp
  have "cash_of ?ps \<le> 0 \<Longrightarrow> max 0 (cash_of ?ps - (paid_of ?ps - ?due)) \<le> 0" using T(1) by simp
  then have P: "pos_posts ?pos1 pos (sl_id s) (cash_of ?ps - (paid_of ?ps - ?due))"
    using post_sale_cash_posts [OF post ready _ _ ids] net T by (simp add: max_def)
  then have Q: "advance_step\<^sup>*\<^sup>* ?pos1 pos" "av_advances pos = av_advances ?pos1"
    by (simp_all add: pos_posts_def)
  show "sale_move db db'"
  proof (rule sale_move.pays [where s = s and s' = ?s and ps = ?rows])
    have "advance_step\<^sup>*\<^sup>* (sd_pos db) (sd_pos (checked_out env s ?ps w ?s pos ls' db))"
      using rtranclp_trans [OF V(1) Q(1)] by simp
    then show "pos_run db db'"
      unfolding db' pos_run_def using publish_step by (rule rtranclp.rtrancl_into_rtrancl)
    show "same_vouchers db db'" using V(3) Q(2) by (simp add: same_vouchers_def db')
    show "posts db db' (sl_id s) (cash_paid ?rows - sl_change_due ?s)"
      using P V(2) T(6) by (simp add: posts_def pos_posts_def db' payment_rows_sums paid_sale_def)
    show "totals_ok ?s ?rows"
      using T net by (simp add: totals_ok_def paid_sale_def payment_rows_sums)
    show "sl_total_due ?s = sl_total_due s" using T(3) D(4) by (simp add: paid_sale_def)
    show "own_payments ?rows s" by (simp add: payment_rows_own)
    show "length (voucher_payments ?rows) \<le> 1"
      using V(4) arg_cong [OF voucher_payment_rows, of length "rq_fresh env" 3 "sl_id s" "sl_tenant_id s" "rq_now env" ?ps] by simp
    show "\<forall>q \<in> set (voucher_payments ?rows). \<exists>a \<in> set (av_advances (sd_pos db')). backs a q"
      using V(5) Q(2) by (simp add: db')
    have core: "map line_core ls' = map line_core (sale_lines (sl_id s) db)" using checkout_loop_lines [OF loop] by simp
    have d: "distinct (map ln_id (sd_lines db))" using I(1) by (simp add: refs_ok_def)
    have sub: "set (sale_lines (sl_id s) db) \<subseteq> set (sd_lines db)"
      "\<forall>l \<in> set (sale_lines (sl_id s) db). ln_sale_id l = sl_id s" by (auto simp: lines_of_def)
    have lines: "sd_lines db' = set_lines ls' (sd_lines db)" by (simp add: db')
    show "map line_core (sd_lines db') = map line_core (sd_lines db)"
      unfolding lines by (rule set_lines_core(1) [OF d sub(1) core sub(2)])
    show "other_lines (sl_id s) db' = other_lines (sl_id s) db"
      unfolding lines other_lines_def by (rule set_lines_core(2) [OF d sub(1) core sub(2)])
  qed (use s st in \<open>simp_all add: db' sale_ref_def paid_sale_def\<close>)
qed

end
