(* ===== verification/Sale_Runs.thy ===== *)
theory Sale_Runs
  imports Sale_Steps
begin

text \<open>
  Sales, refunds, exchanges and the returns service as moves; with them every step is a move, and
  the invariant and the refinement hold in every reachable state.
\<close>

section \<open>Refunds\<close>

lemma refund_items_Inr:
  assumes "refund_items env p u s db = Inr (db', r)"
  obtains subtotal returned t session ses added k pos where
    "refund_checks env p u (get_return_policy db (sl_tenant_id s)) s = Inr ()"
    "price_items (sale_lines (sl_id s) db) (refunded_quantities (get_return_events (sl_id s) db)) (rf_return_items p) = Inr (subtotal, returned)"
    "t = refund_totals subtotal (rp_restocking_fee_pct (get_return_policy db (sl_tenant_id s)))"
    "paid_of (rf_refund_payments p) = tt_total t"
    "session_for_cash (av_cash (sd_pos db)) (sl_tenant_id s) (sl_store_id s) (us_id u) (cash_of (rf_refund_payments p)) = Inr session"
    "for_each (take_back_item ''refund'' (rq_fresh env) (rq_now env) (get_return_policy db (sl_tenant_id s)) s (sale_lines (sl_id s) db))
       (open_session (sd_stock db), [], 3) (rf_return_items p) = Inr (ses, added, k)"
    "post_sale_cash env (rf_transaction_id p) u s session ''CASH_OUT_REFUND'' (cash_of (rf_refund_payments p)) (sd_pos db) = Inr pos"
    "db' = publish_sales (db\<lparr>sd_pos := pos, sd_stock := commit si_id ses @ added, sd_returns := sd_returns db
       @ [refund_event env p (get_return_policy db (sl_tenant_id s)) s t returned]\<rparr>)"
  using assms by (auto simp: refund_items_def bindr_Inr_iff require_Inr_iff Let_def paid_of_def)

lemma refund_checks_Inr:
  assumes "refund_checks env p u policy s = Inr ()"
  shows "sl_status s = ''PAID''" "rf_return_items p \<noteq> []" "rf_refund_payments p \<noteq> []"
    "\<forall>q \<in> set (rf_refund_payments p). 0 < py_amount q"
  using assms by (auto simp: refund_checks_def bindr_Inr_iff require_Inr_iff dest: refund_payments_positive)

lemma refund_event_own:
  assumes "fresh_sale env db"
  shows "own_event (refund_event env p policy s t returned) s db"
    "event_cash (refund_event env p policy s t returned) = - cash_of (rf_refund_payments p)"
  using fresh_ids(4) [OF assms]
  by (simp_all add: own_event_def refund_event_def event_cash_def POS_RETURN_AGGREGATE_ACTIONS_def)

lemma sale_not_voucher: "sale_invariant db \<Longrightarrow> s \<in> set (sd_sales db) \<Longrightarrow> sl_id s \<notin> pa_id ` set (av_advances (sd_pos db))"
  using sale_invariantD(1) [of db] by (auto simp: refs_ok_def)

lemma refund_items_moves:
  assumes fresh: "fresh_sale env db" and run: "refund_items env p u s db = Inr (db', r)"
    and inv: "sale_invariant db" and s: "s \<in> set (sd_sales db)"
  shows "sale_move db db'"
proof (rule refund_items_Inr [OF run])
  fix subtotal returned t session ses added k pos
  let ?policy = "get_return_policy db (sl_tenant_id s)" and ?cash = "cash_of (rf_refund_payments p)"
  let ?e = "refund_event env p ?policy s t returned"
  assume checks: "refund_checks env p u ?policy s = Inr ()"
    and ses: "session_for_cash (av_cash (sd_pos db)) (sl_tenant_id s) (sl_store_id s) (us_id u) ?cash = Inr session"
    and post: "post_sale_cash env (rf_transaction_id p) u s session ''CASH_OUT_REFUND'' ?cash (sd_pos db) = Inr pos"
    and db': "db' = publish_sales (db\<lparr>sd_pos := pos, sd_stock := commit si_id ses @ added,
      sd_returns := sd_returns db @ [?e]\<rparr>)" (is "_ = publish_sales ?db")
  note C = refund_checks_Inr [OF checks]
  have "pos_posts (sd_pos db) pos (sl_id s) (- ?cash)"
    using post_sale_cash_posts [OF post session_for_cash_ready [OF ses] _ _ sale_not_voucher [OF inv s]]
      positive_cash [OF C(4)] by simp
  then have P: "pos_posts (sd_pos db) (sd_pos ?db) (sl_id s) (event_cash ?e)"
    using refund_event_own(2) [OF fresh] by simp
  show "sale_move db db'"
    by (rule sale_move.refunds [OF published_run [OF P, folded db'] s C(1) refund_event_own(1) [OF fresh]])
      (simp_all add: db')
qed

section \<open>Exchanges\<close>

lemma exchange_items_Inr:
  assumes "exchange_items env p u s db = Inr (db', r)"
  obtains new subtotal returned t delta cash amt session w ses added k pos where
    "exchange_checks env p s = Inr ()"
    "map_res (build_sale_line_from_stock db (sl_tenant_id s) (sl_store_id s)) (ex_exchange_lines p) = Inr new"
    "t = refund_totals subtotal (rp_restocking_fee_pct (get_return_policy db (sl_tenant_id s)))"
    "delta = quantize2 (lines_total new - tt_total t)"
    "exchange_settlement p u (get_return_policy db (sl_tenant_id s))
       ((if rp_allow_exchange (get_return_policy db (sl_tenant_id s)) then [] else [''exchange_not_allowed''])
         @ sale_exceptions (rq_now env) (get_return_policy db (sl_tenant_id s)) s (ex_return_items p) (ex_receipt_number p))
       delta = Inr (cash, amt)"
    "session_for_cash (av_cash (sd_pos db)) (sl_tenant_id s) (sl_store_id s) (us_id u) cash = Inr session"
    "post_sale_cash env (ex_transaction_id p) u s session (if delta < 0 then ''CASH_OUT_REFUND'' else ''SALE'') amt (sd_pos db) = Inr pos"
    "db' = publish_sales ((commit_work (w\<lparr>wk_stock := ses\<rparr>) db)\<lparr>sd_pos := pos,
       sd_stock := sd_stock (commit_work (w\<lparr>wk_stock := ses\<rparr>) db) @ added,
       sd_sales := sd_sales db @ [exchange_sale_row env u s (lines_total new)],
       sd_lines := sd_lines db @ exchange_line_rows (rq_fresh env) 3 (rq_fresh env 0) (sl_tenant_id s) (rq_now env) new,
       sd_payments := sd_payments db
         @ payment_rows (rq_fresh env) (3 + length new) (rq_fresh env 0) (sl_tenant_id s) (rq_now env) (ex_payments p),
       sd_returns := sd_returns db
         @ [exchange_event env p (get_return_policy db (sl_tenant_id s)) s t (lines_total new) delta returned new]\<rparr>)"
  using assms by (auto simp: exchange_items_def bindr_Inr_iff Let_def exchange_sale_row_def)

text \<open>The cash of an exchange: what its event says.\<close>

lemma exchange_settlement_Inr:
  assumes run: "exchange_settlement p u policy exceptions delta = Inr (cash, amt)"
  shows "cash \<le> 0 \<Longrightarrow> amt \<le> 0"
    "(if delta < 0 then - max 0 amt else max 0 amt) =
      event_cash (exchange_event env p policy' s t x delta returned new)"
proof -
  have ev: "event_cash (exchange_event env p policy' s t x delta returned new) =
      (if delta > 0 then cash_of (ex_payments p) - (paid_of (ex_payments p) - delta)
       else if delta < 0 then - cash_of (ex_refund_payments p) else 0)"
    by (simp add: event_cash_def exchange_event_def paid_of_def)
  consider "delta > 0" | "delta < 0" | "delta = 0" by linarith
  then have "(cash \<le> 0 \<longrightarrow> amt \<le> 0) \<and> (if delta < 0 then - max 0 amt else max 0 amt) =
      event_cash (exchange_event env p policy' s t x delta returned new)"
  proof cases
    case 1
    then obtain v where v: "validate_payments (ex_payments p) delta = Inr v" and c: "cash = ct_cash_total v"
      "amt = max 0 (ct_cash_total v - ct_change_due v)"
      using run by (auto simp: exchange_settlement_def bindr_Inr_iff)
    then have T: "delta \<le> paid_of (ex_payments p)" "non_cash_of (ex_payments p) \<le> delta"
      "ct_cash_total v = cash_of (ex_payments p)" "ct_change_due v = paid_of (ex_payments p) - delta"
      unfolding validate_payments_Inr by auto
    then have "0 \<le> cash_of (ex_payments p) - (paid_of (ex_payments p) - delta)"
      using paid_split [of "ex_payments p"] by simp
    then show ?thesis using 1 T c ev by (simp add: max_def)
  next
    case 2
    then obtain ex where ex: "refund_payments_check policy exceptions (ex_refund_payments p) = Inr ex"
      and c: "cash = cash_of (ex_refund_payments p)" "amt = cash_of (ex_refund_payments p)"
      using run by (auto simp: exchange_settlement_def bindr_Inr_iff)
    then show ?thesis using 2 ev positive_cash [OF refund_payments_positive [OF ex]] by simp
  next
    case 3
    then show ?thesis using run ev by (simp add: exchange_settlement_def bindr_Inr_iff)
  qed
  then show "cash \<le> 0 \<Longrightarrow> amt \<le> 0"
    "(if delta < 0 then - max 0 amt else max 0 amt) =
      event_cash (exchange_event env p policy' s t x delta returned new)" by auto
qed

lemma finalized_is_paid:
  assumes "sale_invariant db" and "s \<in> set (sd_sales db)" and "is_finalized_sale_status (Some (sl_status s))"
  shows "sl_status s = ''PAID''"
proof -
  have "sl_status s \<in> {''PAID'', ''DRAFT'', ''CANCELED''}"
    using sale_invariantD(4) [OF assms(1,2)] by (auto simp: sale_facts_def sale_ok_def totals_ok_def split: if_splits)
  moreover have "\<not> is_finalized_sale_status (Some ''DRAFT'')" "\<not> is_finalized_sale_status (Some ''CANCELED'')"
    by code_simp+
  ultimately show ?thesis using assms(3) by auto
qed

lemma exchange_event_own:
  assumes "fresh_sale env db"
  shows "own_event (exchange_event env p policy s t x delta returned new) s db"
  using fresh_ids(4) [OF assms]
  by (simp add: own_event_def exchange_event_def POS_RETURN_AGGREGATE_ACTIONS_def)

lemma exchange_items_moves:
  assumes fresh: "fresh_sale env db" and run: "exchange_items env p u s db = Inr (db', r)"
    and inv: "sale_invariant db" and s: "s \<in> set (sd_sales db)"
  shows "sale_move db db'"
proof (rule exchange_items_Inr [OF run])
  fix new subtotal returned t delta cash amt session w ses added k pos
  let ?policy = "get_return_policy db (sl_tenant_id s)" and ?x = "exchange_sale_row env u s (lines_total new)"
  let ?e = "exchange_event env p ?policy s t (lines_total new) delta returned new"
  let ?new = "exchange_line_rows (rq_fresh env) 3 (rq_fresh env 0) (sl_tenant_id s) (rq_now env) new"
  let ?ps = "payment_rows (rq_fresh env) (3 + length new) (rq_fresh env 0) (sl_tenant_id s) (rq_now env) (ex_payments p)"
  assume checks: "exchange_checks env p s = Inr ()"
    and settle: "exchange_settlement p u ?policy
       ((if rp_allow_exchange ?policy then [] else [''exchange_not_allowed''])
         @ sale_exceptions (rq_now env) ?policy s (ex_return_items p) (ex_receipt_number p)) delta = Inr (cash, amt)"
    and ses: "session_for_cash (av_cash (sd_pos db)) (sl_tenant_id s) (sl_store_id s) (us_id u) cash = Inr session"
    and post: "post_sale_cash env (ex_transaction_id p) u s session (if delta < 0 then ''CASH_OUT_REFUND'' else ''SALE'') amt
      (sd_pos db) = Inr pos"
    and db': "db' = publish_sales ((commit_work (w\<lparr>wk_stock := ses\<rparr>) db)\<lparr>sd_pos := pos,
       sd_stock := sd_stock (commit_work (w\<lparr>wk_stock := ses\<rparr>) db) @ added, sd_sales := sd_sales db @ [?x],
       sd_lines := sd_lines db @ ?new, sd_payments := sd_payments db @ ?ps, sd_returns := sd_returns db @ [?e]\<rparr>)"
      (is "_ = publish_sales ?db")
  have "is_finalized_sale_status (Some (sl_status s))"
    using checks by (simp add: exchange_checks_def bindr_Inr_iff require_Inr_iff)
  from finalized_is_paid [OF inv s this] have paid: "sl_status s = ''PAID''" .
  have x: "sl_id ?x = rq_fresh env 0" "sl_tenant_id ?x = sl_tenant_id s" "sl_status ?x = ''PAID''" "\<not> drafted ?x"
    "totals_ok ?x ?ps" "sl_total_due ?x = lines_total new"
    by (simp_all add: exchange_sale_row_def totals_ok_def)
  have "pos_posts (sd_pos db) pos (sl_id s)
      (if (if delta < 0 then ''CASH_OUT_REFUND'' else ''SALE'') = ''SALE'' then max 0 amt else - max 0 amt)"
    by (rule post_sale_cash_posts [OF post session_for_cash_ready [OF ses] exchange_settlement_Inr(1) [OF settle] _ sale_not_voucher [OF inv s]])
      auto
  then have "pos_posts (sd_pos db) pos (sl_id s) (if delta < 0 then - max 0 amt else max 0 amt)"
    by (auto split: if_splits)
  then have P: "pos_posts (sd_pos db) (sd_pos ?db) (sl_id s) (event_cash ?e)"
    using exchange_settlement_Inr(2) [OF settle, of env ?policy s t "lines_total new" returned new] by simp
  have d: "distinct (map ln_id (sd_lines db))" using sale_invariantD(1) [OF inv] by (simp add: refs_ok_def)
  have lines: "new_lines ?new ?x (sd_lines db)"
    using sale_rows_new(2) [OF fresh _ d x(6), of 3 "rq_now env"] x(1,2) by simp
  have pays: "own_payments ?ps ?x" by (rule payment_rows_own [OF x(1,2)])
  have fr: "new_sale_id (sl_id ?x) db" using fresh_ids(2) [OF fresh] x(1) by simp
  show "sale_move db db'"
    by (rule sale_move.exchanges [OF published_run [OF P, folded db'] s paid exchange_event_own [OF fresh] fr x(4,3,5) lines pays])
      (simp_all add: db')
qed

section \<open>The returns service\<close>

lemma returnable_sale_Inr:
  assumes "returnable_sale env store i db = Inr (sid, s)"
  shows "s \<in> set (sd_sales db)" "sl_id s = i" "sl_store_id s = sid"
proof -
  obtain x where "sale_store env store db = Inr x" using assms by (auto simp: returnable_sale_def bindr_Inr_iff)
  then obtain s0 where g: "get_sale_by_id i db = Some s0"
    using assms by (cases "get_sale_by_id i db") (auto simp: returnable_sale_def)
  then have "s0 = s" "sl_store_id s = sid"
    using assms by (auto simp: returnable_sale_def bindr_Inr_iff require_Inr_iff)
  moreover have "s0 \<in> set (sd_sales db) \<and> sl_id s0 = i"
    using g unfolding get_sale_by_id_def by (rule find_SomeD)
  ultimately show "s \<in> set (sd_sales db)" "sl_id s = i" "sl_store_id s = sid" by auto
qed

lemma create_return_Inr:
  assumes "create_return env p db = Inr (db', e)"
  obtains sid s q where "returnable_sale env (qr_store_id p) (qr_sale_id p) db = Inr (sid, s)"
    "is_finalized_sale_status (Some (sl_status s))" "quote_from_sale db (rq_now env) s sid p = Inr q"
    "e = draft_event env sid s q" "db' = db\<lparr>sd_returns := sd_returns db @ [e]\<rparr>"
  using assms
  by (auto simp: create_return_def bindr_Inr_iff require_Inr_iff Let_def validate_sale_eligibility_def)

lemma event_action_texts [simp]:
  "DRAFT_ACTION \<noteq> COMPLETE_ACTION" "COMPLETE_ACTION \<noteq> DRAFT_ACTION" "VOID_ACTION \<noteq> COMPLETE_ACTION"
  "VOID_ACTION \<noteq> DRAFT_ACTION" "DRAFT_ACTION \<notin> set POS_RETURN_AGGREGATE_ACTIONS"
  "DRAFT_ACTION \<noteq> VOID_ACTION" "VOID_ACTION \<notin> set POS_RETURN_AGGREGATE_ACTIONS"
  by (simp_all add: DRAFT_ACTION_def VOID_ACTION_def COMPLETE_ACTION_def POS_RETURN_AGGREGATE_ACTIONS_def)

lemma events_ok_draft:
  assumes ok: "events_ok es" and e: "re_id e \<notin> re_id ` set es" "re_action e = DRAFT_ACTION"
    "re_payload e = Draft_return d" "rd_status d = ''DRAFT''"
  shows "events_ok (es @ [e])"
proof -
  have "\<not> completes (re_id e) x" if "x \<in> set es" for x using ok that e(1) unfolding events_ok_def by blast
  then have "filter (completes (re_id e)) es = []" by (simp add: filter_empty_conv)
  moreover have "event_ok e" "\<And>i. \<not> completes i e" using e by (auto simp: event_ok_def completes_def)
  ultimately show ?thesis using ok e(1,2) unfolding events_ok_def by auto
qed

lemma recorded_sale:
  assumes "sale_invariant db" and "e \<in> set (sd_returns db)"
  shows "\<exists>s \<in> set (sd_sales db). sl_status s = ''PAID''
    \<and> (re_sale_id e, re_tenant_id e, re_store_id e) = (sl_id s, sl_tenant_id s, sl_store_id s)"
proof -
  note I = sale_invariantD [OF assms(1)]
  have "(re_sale_id e, re_tenant_id e, re_store_id e) \<in> (\<lambda>s. (sl_id s, sl_tenant_id s, sl_store_id s)) ` set (sd_sales db)"
    using I(1) assms(2) unfolding refs_ok_def by blast
  then obtain s where s: "s \<in> set (sd_sales db)"
    "(re_sale_id e, re_tenant_id e, re_store_id e) = (sl_id s, sl_tenant_id s, sl_store_id s)" by auto
  have "returns_of db (sl_id s) \<noteq> []" using assms(2) s(2) by (auto simp: returns_of_def filter_empty_conv)
  then have "sl_status s = ''PAID''" using I(4) [OF s(1)] by (auto simp: sale_facts_def sale_ok_def)
  then show ?thesis using s by blast
qed

lemma create_return_moves:
  assumes fresh: "fresh_sale env db" and run: "create_return env p db = Inr (db', e)" and inv: "sale_invariant db"
  shows "sale_move db db'"
proof (rule create_return_Inr [OF run])
  fix sid s q
  assume sale: "returnable_sale env (qr_store_id p) (qr_sale_id p) db = Inr (sid, s)"
    and fin: "is_finalized_sale_status (Some (sl_status s))" and e: "e = draft_event env sid s q"
    and db': "db' = db\<lparr>sd_returns := sd_returns db @ [e]\<rparr>"
  note I = sale_invariantD [OF inv] and S = returnable_sale_Inr [OF sale]
  have paid: "sl_status s = ''PAID''" by (rule finalized_is_paid [OF inv S(1) fin])
  have new: "re_id e \<notin> re_id ` set (sd_returns db)" using fresh_ids(4) [OF fresh] by (simp add: e draft_event_def)
  have "events_ok (sd_returns db @ [e])"
    by (rule events_ok_draft [OF I(5) new]) (simp add: e draft_event_def, simp add: e draft_event_def, simp)
  moreover have "event_cash e = 0" by (simp add: e draft_event_def event_cash_def)
  moreover have "(re_sale_id e, re_tenant_id e, re_store_id e) = (sl_id s, sl_tenant_id s, sl_store_id s)"
    using S(3) by (simp add: e draft_event_def)
  moreover have "distinct (map re_id (sd_returns db))" using I(1) by (simp add: refs_ok_def)
  ultimately have "recorded db (sd_returns db @ [e])"
    using new recorded_sale [OF inv] S(1) paid by (auto simp: recorded_def returned_cash_def returns_of_def)
  then show "sale_move db db'" by (intro sale_move.records) (simp_all add: db')
qed

lemma find_return_Inr:
  assumes "find_return env store i db = Inr e"
  shows "e \<in> set (sd_returns db)" "re_id e = i"
proof -
  have f: "(case find (\<lambda>e. re_id e = i) (sd_returns db) of
       None \<Rightarrow> Inl (raise1 RESOURCE_NOT_FOUND ''return not found'') | Some e0 \<Rightarrow> Inr e0) = Inr e"
    using assms by (auto simp: find_return_def bindr_Inr_iff require_Inr_iff split: option.splits)
  then have "find (\<lambda>e. re_id e = i) (sd_returns db) = Some e" by (simp split: option.splits)
  from find_SomeD [OF this] show "e \<in> set (sd_returns db)" "re_id e = i" by auto
qed

text \<open>What an action makes of a draft, and what it records beside it.\<close>

definition closed_draft :: "return_event \<Rightarrow> return_event \<Rightarrow> bool" where
  "closed_draft e e' \<longleftrightarrow> (\<exists>d. re_payload e' = Draft_return d
      \<and> (re_action e', rd_status d) \<in> {(VOID_ACTION, ''VOIDED''), (COMPLETE_ACTION, ''COMPLETED'')})
    \<and> e' = e\<lparr>re_action := re_action e', re_payload := re_payload e'\<rparr>"

lemma action_return_Inr:
  assumes "action_return env store i b db = Inr (db', e')"
  obtains e where "find_return env store i db = Inr e" "re_action e = DRAFT_ACTION" "closed_draft e e'"
    "db' = db\<lparr>sd_returns := set_return e' (sd_returns db)
       @ (if re_action e' = COMPLETE_ACTION then [completion_event env e] else [])\<rparr>"
proof -
  obtain e where e: "find_return env store i db = Inr e" "re_action e = DRAFT_ACTION"
    using assms by (auto simp: action_return_def bindr_Inr_iff require_Inr_iff)
  show thesis
    by (rule that [OF e]; use assms e in \<open>cases b;
        auto simp: action_return_def bindr_Inr_iff Let_def closed_draft_def\<close>)
qed

lemma set_return_rows:
  assumes "distinct (map re_id es)" and "e \<in> set es" and "re_id e' = re_id e"
  shows "set (set_return e' es) = insert e' (set es - {e})" "map re_id (set_return e' es) = map re_id es"
  using assms key_unique [OF assms(1)] by (auto simp: set_return_def image_iff)

lemma set_return_filter:
  assumes "distinct (map re_id es)" and "e \<in> set es" and "re_id e' = re_id e" and "P e' = P e"
  shows "length (filter P (set_return e' es)) = length (filter P es)"
proof -
  have "map P (set_return e' es) = map P es"
    using assms key_unique [OF assms(1)] by (auto simp: set_return_def)
  then have "map P (filter P (set_return e' es)) = map P (filter P es)"
    by (induction es arbitrary: e e') (auto simp: set_return_def)
  then show ?thesis by (metis length_map)
qed

lemma set_return_cash:
  assumes "distinct (map re_id es)" and "e \<in> set es" and "re_id e' = re_id e" and "re_sale_id e' = re_sale_id e"
    and "event_cash e' = event_cash e"
  shows "sum_list (map event_cash (filter (\<lambda>x. re_sale_id x = i) (set_return e' es))) =
    sum_list (map event_cash (filter (\<lambda>x. re_sale_id x = i) es))"
proof -
  have "map (\<lambda>x. if re_sale_id x = i then event_cash x else 0) (set_return e' es) =
      map (\<lambda>x. if re_sale_id x = i then event_cash x else 0) es"
    using assms key_unique [OF assms(1)] by (auto simp: set_return_def)
  then show ?thesis by (simp add: sum_list_map_filter')
qed

lemma completion_event_simps [simp]:
  "re_id (completion_event env e) = rq_fresh env 0" "re_sale_id (completion_event env e) = re_sale_id e"
  "re_tenant_id (completion_event env e) = re_tenant_id e" "re_store_id (completion_event env e) = re_store_id e"
  "completes i (completion_event env e) \<longleftrightarrow> i = re_id e" "event_ok (completion_event env e)"
  "re_action (completion_event env e) \<in> set POS_RETURN_AGGREGATE_ACTIONS"
  "event_cash (completion_event env e) = 0"
  by (auto simp: completion_event_def completes_def event_ok_def event_cash_def POS_RETURN_AGGREGATE_ACTIONS_def)

lemma draft_has_no_cash:
  assumes "event_ok e" and "re_action e = DRAFT_ACTION"
  shows "event_cash e = 0" "\<not> completes i e"
  using assms by (auto simp: event_ok_def event_cash_def completes_def split: return_payload.splits)

lemma closed_draft_facts:
  assumes "closed_draft e e'"
  shows "re_id e' = re_id e" "re_sale_id e' = re_sale_id e" "re_tenant_id e' = re_tenant_id e"
    "re_store_id e' = re_store_id e" "event_cash e' = 0" "\<not> completes i e'" "event_ok e'"
    "re_action e' \<in> {VOID_ACTION, COMPLETE_ACTION}"
proof -
  obtain d where d: "re_payload e' = Draft_return d"
    "(re_action e', rd_status d) \<in> {(VOID_ACTION, ''VOIDED''), (COMPLETE_ACTION, ''COMPLETED'')}"
    and e': "e' = e\<lparr>re_action := re_action e', re_payload := re_payload e'\<rparr>"
    using assms by (auto simp: closed_draft_def)
  have "re_id e' = re_id (e\<lparr>re_action := re_action e', re_payload := re_payload e'\<rparr>)"
    "re_sale_id e' = re_sale_id (e\<lparr>re_action := re_action e', re_payload := re_payload e'\<rparr>)"
    "re_tenant_id e' = re_tenant_id (e\<lparr>re_action := re_action e', re_payload := re_payload e'\<rparr>)"
    "re_store_id e' = re_store_id (e\<lparr>re_action := re_action e', re_payload := re_payload e'\<rparr>)"
    using e' by (auto dest: arg_cong)
  then show "re_id e' = re_id e" "re_sale_id e' = re_sale_id e" "re_tenant_id e' = re_tenant_id e"
    "re_store_id e' = re_store_id e" by simp_all
  show "event_cash e' = 0" "\<not> completes i e'" "event_ok e'" "re_action e' \<in> {VOID_ACTION, COMPLETE_ACTION}"
    using d by (auto simp: event_cash_def completes_def event_ok_def)
qed

lemma events_ok_closed:
  assumes ok: "events_ok es" and dist: "distinct (map re_id es)" and e: "e \<in> set es" "re_action e = DRAFT_ACTION"
    and e': "closed_draft e e'" and new: "rq_fresh env 0 \<notin> re_id ` set es"
  shows "events_ok (set_return e' es @ (if re_action e' = COMPLETE_ACTION then [completion_event env e] else []))"
    (is "events_ok ?es")
proof -
  note F = closed_draft_facts [OF e']
  have oke: "event_ok e" using ok e(1) by (simp add: events_ok_def)
  note rows = set_return_rows [OF dist e(1) F(1)]
  have len: "length (filter (completes j) (set_return e' es)) = length (filter (completes j) es)" for j
    using set_return_filter [OF dist e(1) F(1), of "completes j"] F(6) draft_has_no_cash(2) [OF oke e(2)] by simp
  have tail: "length (filter (completes j) ?es) =
      length (filter (completes j) es) + (if re_action e' = COMPLETE_ACTION \<and> j = re_id e then 1 else 0)" for j
    using len by simp
  have count: "length (filter (completes (re_id x)) es) = (if re_action x = COMPLETE_ACTION then 1 else 0)" if "x \<in> set es" for x
    using ok that by (simp add: events_ok_def)
  have src: "i \<in> re_id ` set es" if "x \<in> set es" "completes i x" for i x using ok that unfolding events_ok_def by blast
  have ids: "re_id ` set es \<subseteq> re_id ` set ?es" using rows(2) by (metis image_mono list.set_map set_append sup_ge1)
  have "event_ok x \<and> length (filter (completes (re_id x)) ?es) = (if re_action x = COMPLETE_ACTION then 1 else 0)
      \<and> (\<forall>i. completes i x \<longrightarrow> i \<in> re_id ` set ?es)" if x: "x \<in> set ?es" for x
  proof -
    consider "x = e'" | "x \<in> set es" "x \<noteq> e" | "x = completion_event env e" "re_action e' = COMPLETE_ACTION"
      using x rows(1) by (auto split: if_splits)
    then show ?thesis
    proof cases
      case 1
      then show ?thesis using F tail [of "re_id e"] count [OF e(1)] e(2) by simp
    next
      case 2
      then have "re_id x \<noteq> re_id e" using key_unique [OF dist _ e(1)] by blast
      then show ?thesis
        using 2 ok tail [of "re_id x"] count [OF 2(1)] src [OF 2(1)] ids by (auto simp: events_ok_def)
    next
      case 3
      have "filter (completes (rq_fresh env 0)) es = []" using src new by (auto simp: filter_empty_conv)
      moreover have "rq_fresh env 0 \<noteq> re_id e" using new e(1) by auto
      moreover have "re_action x \<noteq> COMPLETE_ACTION" using 3(1) completion_event_simps(7) aggregate_not_complete by metis
      ultimately show ?thesis using 3 tail [of "rq_fresh env 0"] ids e(1) by auto
    qed
  qed
  then show ?thesis unfolding events_ok_def by blast
qed

lemma action_return_moves:
  assumes fresh: "fresh_sale env db" and run: "action_return env store i b db = Inr (db', e')" and inv: "sale_invariant db"
  shows "sale_move db db'"
proof (rule action_return_Inr [OF run])
  fix e
  let ?es = "set_return e' (sd_returns db) @ (if re_action e' = COMPLETE_ACTION then [completion_event env e] else [])"
  assume find: "find_return env store i db = Inr e" and act: "re_action e = DRAFT_ACTION" and cl: "closed_draft e e'"
    and db': "db' = db\<lparr>sd_returns := ?es\<rparr>"
  note I = sale_invariantD [OF inv] and E = find_return_Inr(1) [OF find] and F = closed_draft_facts [OF cl]
  have dist: "distinct (map re_id (sd_returns db))" using I(1) by (simp add: refs_ok_def)
  have new: "rq_fresh env 0 \<notin> re_id ` set (sd_returns db)" by (rule fresh_ids(4) [OF fresh])
  have oke: "event_ok e" using I(5) E by (simp add: events_ok_def)
  note rows = set_return_rows [OF dist E F(1)]
  have "re_id ` set (set_return e' (sd_returns db)) = re_id ` set (sd_returns db)"
    using rows(2) by (metis list.set_map)
  then have "distinct (map re_id ?es)" using dist new rows(2) by simp
  moreover have "events_ok ?es" by (rule events_ok_closed [OF I(5) dist E act cl new])
  moreover have "sum_list (map event_cash (filter (\<lambda>x. re_sale_id x = sl_id s) ?es)) = returned_cash db (sl_id s)" for s
    using set_return_cash [OF dist E F(1,2), of "sl_id s"] F(5) draft_has_no_cash(1) [OF oke act]
    by (simp add: returned_cash_def returns_of_def)
  moreover have "\<exists>s \<in> set (sd_sales db). sl_status s = ''PAID''
      \<and> (re_sale_id x, re_tenant_id x, re_store_id x) = (sl_id s, sl_tenant_id s, sl_store_id s)" if "x \<in> set ?es" for x
  proof -
    have "x \<in> set (sd_returns db) \<or> (re_sale_id x, re_tenant_id x, re_store_id x) = (re_sale_id e, re_tenant_id e, re_store_id e)"
      using that rows(1) F(2-4) by (auto split: if_splits)
    then show ?thesis using recorded_sale [OF inv] E by auto
  qed
  moreover have "x \<in> set ?es" if "x \<in> set (sd_returns db)" "re_action x \<noteq> DRAFT_ACTION" for x
    using that act rows(1) by auto
  ultimately have "recorded db ?es" unfolding recorded_def by blast
  then show "sale_move db db'" by (intro sale_move.records) (simp_all add: db')
qed

section \<open>Every step is a move\<close>

lemma sale_action_body_Inr:
  assumes "sale_action_body env i a tn u db = Inr (db', r)"
  obtains s where "find_sale i tn db = Inr s"
    "(case a of Checkout c \<Rightarrow> checkout_sale env c u s db | Cancel tx \<Rightarrow> cancel_sale env u s db
      | Refund_items p \<Rightarrow> refund_items env p u s db | Exchange_items x \<Rightarrow> exchange_items env x u s db) = Inr (db', r)"
  using assms
  by (cases a) (auto simp: sale_action_body_def bindr_Inr_iff require_Inr_iff)

lemma sale_action_moves:
  assumes fresh: "fresh_sale env db" and run: "sale_action_body env i a tn u db = Inr (db', r)" and inv: "sale_invariant db"
  shows "sale_move db db'"
proof (rule sale_action_body_Inr [OF run])
  fix s
  assume s: "find_sale i tn db = Inr s" and body: "(case a of Checkout c \<Rightarrow> checkout_sale env c u s db
      | Cancel tx \<Rightarrow> cancel_sale env u s db | Refund_items p \<Rightarrow> refund_items env p u s db
      | Exchange_items x \<Rightarrow> exchange_items env x u s db) = Inr (db', r)"
  note m = find_sale_Inr(1) [OF s]
  show "sale_move db db'"
    using body fresh inv m
    by (cases a) (auto intro: checkout_sale_moves cancel_sale_moves refund_items_moves exchange_items_moves)
qed

lemma sale_step_moves: "sale_step db db' \<Longrightarrow> sale_invariant db \<Longrightarrow> sale_move db db'"
proof (induction rule: sale_step.induct)
  case (Pos db pos)
  then show ?case by (intro sale_move.elsewhere) (simp_all add: pos_run_def r_into_rtranclp)
next
  case Stock
  then show ?case
    using sale_invariantD(1) by (intro sale_move.elsewhere) (auto simp: pos_run_def refs_ok_def)
qed (auto intro: create_sale_moves update_sale_moves sale_action_moves create_return_moves action_return_moves)

lemma sale_start_invariant: "sale_start db \<Longrightarrow> sale_invariant db"
  using advance_start_invariant [of "sd_pos db"]
  by (simp add: sale_start_def sale_invariant_def refs_ok_def events_ok_def)

interpretation sales: simulated_steps sale_start sale_step sale_move sale_invariant
  by unfold_locales (auto intro: sale_start_invariant sale_step_moves sale_move_keeps)

lemma sale_reachable_invariant: "sale_reachable db \<Longrightarrow> sale_invariant db"
  by (auto simp: sale_reachable_def intro: sales.reachable_inv)

lemma sale_reachable_step: "sale_reachable db \<Longrightarrow> sale_step db db' \<Longrightarrow> sale_reachable db'"
  unfolding sale_reachable_def by (meson rtranclp.rtrancl_into_rtrancl)

section \<open>What the other components see\<close>

definition published :: "sale_db \<Rightarrow> bool" where
  "published db \<longleftrightarrow> c_sales (av_cash (sd_pos db)) = map (sale_view (sd_payments db)) (sd_sales db)"

lemma publish_published [simp]: "published (publish_sales db)"
  by (simp add: published_def publish_sales_def)

lemma sale_move_pos_run: "sale_move db db' \<Longrightarrow> pos_run db db'"
  by (induction rule: sale_move.induct) (simp_all add: pos_run_def)

lemma body_publishes:
  "create_sale_body env p tn arg db = Inr (db', r) \<Longrightarrow> published db'"
  "update_sale_body env i q tn u db = Inr (db', r) \<Longrightarrow> published db'"
  "cancel_sale env u s db = Inr (db', r) \<Longrightarrow> published db'"
proof -
  show "create_sale_body env p tn arg db = Inr (db', r) \<Longrightarrow> published db'"
    by (auto simp: create_sale_body_def bindr_Inr_iff Let_def split: prod.splits)
  show "update_sale_body env i q tn u db = Inr (db', r) \<Longrightarrow> published db'"
    by (auto simp: update_sale_body_def bindr_Inr_iff Let_def)
  show "cancel_sale env u s db = Inr (db', r) \<Longrightarrow> published db'"
    by (auto simp: cancel_sale_def bindr_Inr_iff Let_def)
qed

lemma action_publishes:
  assumes "sale_action_body env i a tn u db = Inr (db', r)"
  shows "published db'"
proof (rule sale_action_body_Inr [OF assms])
  fix s
  assume body: "(case a of Checkout c \<Rightarrow> checkout_sale env c u s db
      | Cancel tx \<Rightarrow> cancel_sale env u s db | Refund_items p \<Rightarrow> refund_items env p u s db
      | Exchange_items x \<Rightarrow> exchange_items env x u s db) = Inr (db', r)"
  show "published db'"
  proof (cases a)
    case (Checkout c)
    then have "checkout_sale env c u s db = Inr (db', r)" using body by simp
    then show ?thesis by (rule checkout_sale_Inr) simp
  next
    case (Cancel tx)
    then show ?thesis using body body_publishes(3) by simp
  next
    case (Refund_items p)
    then have "refund_items env p u s db = Inr (db', r)" using body by simp
    then show ?thesis by (rule refund_items_Inr) simp
  next
    case (Exchange_items x)
    then have "exchange_items env x u s db = Inr (db', r)" using body by simp
    then show ?thesis by (rule exchange_items_Inr) simp
  qed
qed

lemma return_rows:
  "create_return env p db = Inr (db', e) \<Longrightarrow> \<exists>es. db' = db\<lparr>sd_returns := es\<rparr>"
  "action_return env store i b db = Inr (db', e) \<Longrightarrow> \<exists>es. db' = db\<lparr>sd_returns := es\<rparr>"
  by (rule create_return_Inr, assumption, blast) (rule action_return_Inr, assumption, blast)

lemma sale_step_publishes: "sale_step db db' \<Longrightarrow> published db \<Longrightarrow> published db'"
proof (induction rule: sale_step.induct)
  case (Draft_return env db q2 db' e)
  then show ?case using return_rows(1) by (fastforce simp: published_def)
next
  case (Return_action env db store i b db' e)
  then show ?case using return_rows(2) by (fastforce simp: published_def)
qed (auto simp: published_def [of "_\<lparr>sd_pos := _\<rparr>"] published_def [of "_\<lparr>sd_stock := _, sd_assignments := _, sd_policies := _\<rparr>"]
    intro: body_publishes action_publishes dest: published_def [THEN iffD1])

lemma sale_run:
  assumes "sale_step\<^sup>*\<^sup>* db db'" and "sale_invariant db" and "published db"
  shows "sale_invariant db' \<and> published db' \<and> pos_run db db' \<and> sale_stays db db'"
  using assms
proof (induction rule: rtranclp_induct)
  case base
  then show ?case by (simp add: pos_run_def sale_stays_refl)
next
  case (step db1 db2)
  then have 1: "sale_invariant db1" "published db1" "pos_run db db1" "sale_stays db db1" by auto
  note m = sale_step_moves [OF step(2) 1(1)]
  have "pos_run db db2" using 1(3) sale_move_pos_run [OF m] by (simp add: pos_run_def)
  then show ?case
    using sale_move_keeps [OF m 1(1)] sale_step_publishes [OF step(2) 1(2)] sale_stays_trans [OF 1(4) sale_move_stays [OF m 1(1)]]
    by blast
qed

lemma sale_start_published: "sale_start db \<Longrightarrow> published db"
  by (simp add: sale_start_def published_def)

lemma sale_reachable_published:
  assumes "sale_reachable db"
  shows "published db" "advance_reachable (sd_pos db)" "cash_reachable (av_cash (sd_pos db))"
proof -
  obtain db0 where s: "sale_start db0" "sale_step\<^sup>*\<^sup>* db0 db" using assms by (auto simp: sale_reachable_def)
  note r = sale_run [OF s(2) sale_start_invariant [OF s(1)] sale_start_published [OF s(1)]]
  show "published db" using r by simp
  show a: "advance_reachable (sd_pos db)"
    using r s(1) by (auto simp: advance_reachable_def pos_run_def sale_start_def)
  show "cash_reachable (av_cash (sd_pos db))" by (rule advance_reachable_cash [OF a])
qed

end
