(* ===== verification/Sale_Stock.thy ===== *)
theory Sale_Stock
  imports Sale_Steps
begin

text \<open>
  Sales, what a checkout does to the stock: no row appears or disappears, a row changes only by
  being sold from the sale's store, and every line finds the pieces it asks for.
\<close>

section \<open>Edits of several rows\<close>

lemma modify_all_other:
  "key r \<notin> key ` set rs \<Longrightarrow> identity key (modify_all key f rs s) r = identity key s r"
  by (induction rs arbitrary: s) (auto simp: identity_modify)

lemma modify_all_own:
  assumes "distinct (map key rs)" and "x \<in> set rs" and "key r = key x"
  shows "identity key (modify_all key f rs s) r = f (identity key s x)"
  using assms
proof (induction rs arbitrary: s)
  case (Cons y ys)
  show ?case
  proof (cases "x = y")
    case True
    then have "key r \<notin> key ` set ys" using Cons.prems by auto
    then show ?thesis using True Cons.prems(3) modify_all_other [of key r ys] by (simp add: identity_modify)
  next
    case False
    then have "x \<in> set ys" "key x \<noteq> key y" using Cons.prems by (auto simp: image_iff)
    then show ?thesis using Cons by (simp add: identity_modify)
  qed
qed simp

section \<open>The loop over the lines\<close>

definition just_sold :: "uuid \<Rightarrow> uuid \<Rightarrow> stock_item \<Rightarrow> stock_item \<Rightarrow> bool" where
  "just_sold tn sid r r' \<longleftrightarrow> si_tenant_id r = tn \<and> si_store_id r = Some sid \<and> sql_not_sold r
    \<and> sale_core r' = sale_core r \<and> si_id r' = si_id r
    \<and> si_status r' = Some ''SOLD'' \<and> si_item_status r' = ''SOLD'' \<and> \<not> si_location_is_vendible r'"

text \<open>The session while the lines are sold, against the rows it was opened on.\<close>

definition selling :: "uuid \<Rightarrow> uuid \<Rightarrow> stock_item list \<Rightarrow> stock_item session \<Rightarrow> bool" where
  "selling tn sid base ses \<longleftrightarrow> ses_base ses = base \<and> ses_gone ses = [] \<and> distinct (map si_id base)
    \<and> (\<forall>r \<in> set base. identity si_id ses r = r \<or> just_sold tn sid r (identity si_id ses r))"

lemma selling_open: "distinct (map si_id base) \<Longrightarrow> selling tn sid base (open_session base)"
  by (simp add: selling_def)

lemma selling_kept: "selling tn sid base ses \<Longrightarrow> kept si_id sale_core ses"
  by (auto simp: selling_def kept_def just_sold_def)

lemma sell_edit_sold:
  assumes "selling tn sid base ses" and "r \<in> set base" and "si_tenant_id r = tn" "si_store_id r = Some sid" "sql_not_sold r"
  shows "just_sold tn sid r (apply_sale_edit (Sell_tag b now) (identity si_id ses r))"
    "just_sold tn sid r (apply_sale_edit (Sell_piece now) (identity si_id ses r))"
proof -
  have "sale_core (identity si_id ses r) = sale_core r" "si_id (identity si_id ses r) = si_id r"
    using selling_kept [OF assms(1)] assms(1,2) by (auto simp: kept_def selling_def)
  then show "just_sold tn sid r (apply_sale_edit (Sell_tag b now) (identity si_id ses r))"
    "just_sold tn sid r (apply_sale_edit (Sell_piece now) (identity si_id ses r))"
    using assms(3-5) sale_edits.core_edit [of "Sell_tag b now" "identity si_id ses r"]
      sale_edits.core_edit [of "Sell_piece now" "identity si_id ses r"]
    by (simp_all only: just_sold_def sale_edits.key_edit) simp_all
qed

definition sold_in :: "stock_item session \<Rightarrow> stock_item \<Rightarrow> bool" where
  "sold_in ses r \<longleftrightarrow> si_status (identity si_id ses r) = Some ''SOLD''"

text \<open>Selling some live objects whose rows qualify.\<close>

lemma selling_rows:
  assumes sell: "selling tn sid base ses"
    and xs: "set xs \<subseteq> identity si_id ses ` {r \<in> set base. si_tenant_id r = tn \<and> si_store_id r = Some sid \<and> sql_not_sold r}"
    and dist: "distinct (map si_id xs)"
    and e: "e = Sell_piece now \<or> e = Sell_tag b now"
  shows "selling tn sid base (modify_all si_id (apply_sale_edit e) xs ses)"
    "\<And>r. r \<in> set base \<Longrightarrow> identity si_id ses r \<in> set xs \<Longrightarrow> sold_in (modify_all si_id (apply_sale_edit e) xs ses) r"
    "\<And>r. r \<in> set base \<Longrightarrow> sold_in ses r \<Longrightarrow> sold_in (modify_all si_id (apply_sale_edit e) xs ses) r"
proof -
  let ?ses = "modify_all si_id (apply_sale_edit e) xs ses"
  have base: "ses_base ses = base" "distinct (map si_id base)" using sell by (simp_all add: selling_def)
  note k = selling_kept [OF sell]
  have id: "si_id (identity si_id ses r) = si_id r" if "r \<in> set base" for r using k base that by (simp add: kept_def)
  have own: "just_sold tn sid r (identity si_id ?ses r)" if r: "r \<in> set base" and x: "si_id r \<in> si_id ` set xs" for r
  proof -
    obtain x where x: "x \<in> set xs" "si_id r = si_id x" using x by auto
    then obtain r0 where r0: "r0 \<in> set base" "si_tenant_id r0 = tn" "si_store_id r0 = Some sid" "sql_not_sold r0"
      "x = identity si_id ses r0" using xs by auto
    then have "r0 = r" using key_unique [OF base(2) r0(1) r] id [OF r0(1)] x(2) by simp
    then have x': "x = identity si_id ses r" "identity si_id ses x = identity si_id ses r"
      using r0 sale_edits.identity_live [OF k] base by simp_all
    have "identity si_id ?ses r = apply_sale_edit e (identity si_id ses r)"
      using modify_all_own [OF dist x(1), of r] x(2) x'(2) by simp
    then show ?thesis using sell_edit_sold [OF sell r] r0 \<open>r0 = r\<close> e by auto
  qed
  have other: "identity si_id ?ses r = identity si_id ses r" if "si_id r \<notin> si_id ` set xs" for r
    by (rule modify_all_other [OF that])
  show "selling tn sid base ?ses"
    using sell own other unfolding selling_def by (metis modify_all_simps)
  show "sold_in ?ses r" if "r \<in> set base" "identity si_id ses r \<in> set xs" for r
  proof -
    have "si_id r \<in> si_id ` set xs" using id [OF that(1)] that(2) by (metis image_eqI)
    from own [OF that(1) this] show ?thesis by (simp add: sold_in_def just_sold_def)
  qed
  show "sold_in ?ses r" if "r \<in> set base" "sold_in ses r" for r
    using own [OF that(1)] other [of r] that(2) by (cases "si_id r \<in> si_id ` set xs") (auto simp: sold_in_def just_sold_def)
qed

lemma modify_one: "modify key f x s = modify_all key f [x] s" by simp

text \<open>The rows a line of a sale may take.\<close>

definition line_takes :: "pos_sale \<Rightarrow> sale_line \<Rightarrow> stock_item \<Rightarrow> bool" where
  "line_takes s l r \<longleftrightarrow> (case ln_line_type l of
     EPC_sale \<Rightarrow> sellable_tag (sl_tenant_id s) (sl_store_id s) (ln_epc l) (ln_location_code l) (ln_pool l) r
   | SKU_sale \<Rightarrow> sellable_piece (sl_tenant_id s) (sl_store_id s) (ln_sku l) (ln_location_code l) (ln_pool l) r)"

definition line_pieces :: "sale_line \<Rightarrow> int" where
  "line_pieces l = (case ln_line_type l of EPC_sale \<Rightarrow> 1 | SKU_sale \<Rightarrow> ln_qty l)"

definition line_served :: "pos_sale \<Rightarrow> stock_item session \<Rightarrow> sale_line \<Rightarrow> bool" where
  "line_served s ses l \<longleftrightarrow> line_pieces l \<le> int (length (filter (\<lambda>r. line_takes s l r \<and> sold_in ses r) (ses_base ses)))"

lemma line_takes_store:
  "line_takes s l r \<Longrightarrow> si_tenant_id r = sl_tenant_id s \<and> si_store_id r = Some (sl_store_id s) \<and> sql_not_sold r"
  by (auto simp: line_takes_def sellable_tag_def sellable_piece_def split: sale_line_type.splits)

lemma served_by:
  assumes xs: "set xs \<subseteq> identity si_id ses ` {r \<in> set base. line_takes s l r}" and dist: "distinct (map si_id xs)"
    and id: "\<And>r. r \<in> set base \<Longrightarrow> si_id (identity si_id ses r) = si_id r" and base: "ses_base ses' = base"
    and sold: "\<And>r. r \<in> set base \<Longrightarrow> identity si_id ses r \<in> set xs \<Longrightarrow> sold_in ses' r"
    and many: "line_pieces l \<le> int (length xs)"
  shows "line_served s ses' l"
proof -
  let ?rs = "filter (\<lambda>r. line_takes s l r \<and> sold_in ses' r) base"
  have "si_id ` set xs \<subseteq> si_id ` set ?rs"
  proof
    fix i assume "i \<in> si_id ` set xs"
    then obtain x where x: "x \<in> set xs" "i = si_id x" by auto
    then obtain r where r: "r \<in> set base" "line_takes s l r" "x = identity si_id ses r" using xs by auto
    then have "r \<in> set ?rs" "i = si_id r" using sold [OF r(1)] x id by auto
    then show "i \<in> si_id ` set ?rs" by blast
  qed
  then have "card (si_id ` set xs) \<le> card (si_id ` set ?rs)" by (intro card_mono) simp_all
  also have "\<dots> \<le> length ?rs" by (metis List.card_set length_map length_remdups_leq list.set_map)
  finally have "length xs \<le> length ?rs" using distinct_card [OF dist] by simp
  then show ?thesis using many base by (simp add: line_served_def)
qed

lemma line_served_mono:
  assumes "line_served s ses l" and "ses_base ses' = ses_base ses"
    and "\<And>r. r \<in> set (ses_base ses) \<Longrightarrow> sold_in ses r \<Longrightarrow> sold_in ses' r"
  shows "line_served s ses' l"
proof -
  have "length (filter (\<lambda>r. line_takes s l r \<and> sold_in ses r) xs) \<le> length (filter (\<lambda>r. line_takes s l r \<and> sold_in ses' r) xs)"
    if "set xs \<subseteq> set (ses_base ses)" for xs
    using that assms(3) by (induction xs) auto
  from this [of "ses_base ses"] show ?thesis using assms(1,2) by (simp add: line_served_def)
qed

lemma checkout_line_sells:
  assumes sell: "selling (sl_tenant_id s) (sl_store_id s) base (wk_stock w)"
    and run: "checkout_line (sl_tenant_id s) (sl_store_id s) now (w, out) l = Inr (w', out')"
  shows "selling (sl_tenant_id s) (sl_store_id s) base (wk_stock w')" "line_served s (wk_stock w') l"
    "\<And>r. r \<in> set base \<Longrightarrow> sold_in (wk_stock w) r \<Longrightarrow> sold_in (wk_stock w') r"
proof -
  have base: "ses_base (wk_stock w) = base" using sell by (simp add: selling_def)
  note k = selling_kept [OF sell]
  have id: "si_id (identity si_id (wk_stock w) r) = si_id r" if "r \<in> set base" for r using k base that by (simp add: kept_def)
  have "\<exists>xs e b. wk_stock w' = modify_all si_id (apply_sale_edit e) xs (wk_stock w) \<and> (e = Sell_piece now \<or> e = Sell_tag b now)
      \<and> set xs \<subseteq> identity si_id (wk_stock w) ` {r \<in> set base. line_takes s l r} \<and> distinct (map si_id xs)
      \<and> line_pieces l \<le> int (length xs)"
  proof (cases "ln_line_type l")
    case EPC_sale
    then obtain r where st: "sell_tag (sl_tenant_id s) (sl_store_id s) now True
        (raise1 VALIDATION_ERROR ''insufficient RFID stock for EPC line'') (ln_epc l) (ln_location_code l) (ln_pool l) w = Inr (w', r)"
      using run by (auto simp: checkout_line_def bindr_Inr_iff)
    then have sel: "select_first si_id (sellable_tag (sl_tenant_id s) (sl_store_id s) (ln_epc l) (ln_location_code l) (ln_pool l)) (wk_stock w) = Some r"
      and w': "wk_stock w' = modify si_id (apply_sale_edit (Sell_tag (\<not> falsy (si_epc r)) now)) r (wk_stock w)"
      by (auto simp: sell_tag_def split: option.splits)
    obtain r0 where "r0 \<in> set base" "line_takes s l r0" "r = identity si_id (wk_stock w) r0"
      using sale_edits.select_first_kept [OF k sel] base EPC_sale by (auto simp: line_takes_def)
    then show ?thesis
      using w' EPC_sale by (intro exI [of _ "[r]"] exI [of _ "Sell_tag (\<not> falsy (si_epc r)) now"]) (auto simp: line_pieces_def)
  next
    case SKU_sale
    then obtain rows where sp: "sell_pieces (sl_tenant_id s) (sl_store_id s) now
        (raise1 VALIDATION_ERROR ''insufficient stock for SKU line'') (ln_sku l) (ln_location_code l) (ln_pool l) (ln_qty l) w = Inr (w', rows)"
      using run by (auto simp: checkout_line_def bindr_Inr_iff)
    let ?rows = "select_oldest si_id si_created_at (sellable_piece (sl_tenant_id s) (sl_store_id s) (ln_sku l) (ln_location_code l) (ln_pool l)) (ln_qty l) (wk_stock w)"
    have r: "rows = ?rows" "ln_qty l \<le> int (length ?rows)" "wk_stock w' = modify_all si_id (apply_sale_edit (Sell_piece now)) ?rows (wk_stock w)"
      using sp by (auto simp: sell_pieces_def Let_def split: if_splits)
    show ?thesis
      using r SKU_sale sale_edits.select_oldest_kept [OF k, of si_created_at _ "ln_qty l"] base
      by (intro exI [of _ ?rows] exI [of _ "Sell_piece now"]) (auto simp: line_pieces_def line_takes_def)
  qed
  then obtain xs e b where w': "wk_stock w' = modify_all si_id (apply_sale_edit e) xs (wk_stock w)"
    and e: "e = Sell_piece now \<or> e = Sell_tag b now"
    and xs: "set xs \<subseteq> identity si_id (wk_stock w) ` {r \<in> set base. line_takes s l r}" "distinct (map si_id xs)"
    and many: "line_pieces l \<le> int (length xs)" by blast
  have "set xs \<subseteq> identity si_id (wk_stock w) ` {r \<in> set base. si_tenant_id r = sl_tenant_id s
      \<and> si_store_id r = Some (sl_store_id s) \<and> sql_not_sold r}"
    using xs(1) line_takes_store by blast
  note S = selling_rows [OF sell this xs(2) e, folded w']
  show "selling (sl_tenant_id s) (sl_store_id s) base (wk_stock w')" by (rule S(1))
  show "sold_in (wk_stock w') r" if "r \<in> set base" "sold_in (wk_stock w) r" for r using S(3) that .
  show "line_served s (wk_stock w') l"
    by (rule served_by [OF xs id _ S(2) many]) (use w' base in simp_all)
qed

lemma checkout_loop_sells:
  assumes "for_each (checkout_line (sl_tenant_id s) (sl_store_id s) now) (w, out) ls = Inr (w', out')"
    and "selling (sl_tenant_id s) (sl_store_id s) base (wk_stock w)"
  shows "selling (sl_tenant_id s) (sl_store_id s) base (wk_stock w')
    \<and> (\<forall>l \<in> set ls. line_served s (wk_stock w') l)
    \<and> (\<forall>r \<in> set base. sold_in (wk_stock w) r \<longrightarrow> sold_in (wk_stock w') r)"
  using assms
proof (induction ls arbitrary: w out)
  case (Cons l ls)
  from Cons.prems(1) obtain w1 out1 where l: "checkout_line (sl_tenant_id s) (sl_store_id s) now (w, out) l = Inr (w1, out1)"
    and rest: "for_each (checkout_line (sl_tenant_id s) (sl_store_id s) now) (w1, out1) ls = Inr (w', out')"
    by (auto simp: bindr_Inr_iff)
  note L = checkout_line_sells [OF Cons.prems(2) l]
  note IH = Cons.IH [OF rest L(1)]
  have "line_served s (wk_stock w') l"
    by (rule line_served_mono [OF L(2)]) (use IH L(1) in \<open>auto simp: selling_def\<close>)
  then show ?case using IH L(3) by auto
qed simp

text \<open>The rows after a checkout.\<close>

lemma checkout_stock_rows:
  assumes run: "checkout_sale env p u s db = Inr (db', r)" and dist: "distinct (map si_id (sd_stock db))"
  shows "list_all2 (\<lambda>r r'. r' = r \<or> just_sold (sl_tenant_id s) (sl_store_id s) r r') (sd_stock db) (sd_stock db')"
    "\<And>l. l \<in> set (lines_of db (sl_id s)) \<Longrightarrow> line_pieces l \<le>
      int (length (filter (\<lambda>(r, r'). line_takes s l r \<and> si_status r' = Some ''SOLD'') (zip (sd_stock db) (sd_stock db'))))"
proof (rule_tac [!] checkout_sale_Inr [OF run])
  fix t a session w ls' pos
  assume loop: "for_each (checkout_line (sl_tenant_id s) (sl_store_id s) (rq_now env)) (start_work db, []) (sale_lines (sl_id s) db) = Inr (w, ls')"
    and db': "db' = publish_sales (checked_out env s (cr_payments p) w (paid_sale env p u t s) pos ls' db)"
  have "selling (sl_tenant_id s) (sl_store_id s) (sd_stock db) (wk_stock (start_work db))"
    by (simp add: start_work_def selling_open [OF dist])
  note L = checkout_loop_sells [OF loop this]
  have st: "sd_stock db' = map (identity si_id (wk_stock w)) (sd_stock db)"
    using L by (simp add: db' commit_def selling_def)
  show "list_all2 (\<lambda>r r'. r' = r \<or> just_sold (sl_tenant_id s) (sl_store_id s) r r') (sd_stock db) (sd_stock db')"
    using L unfolding st by (auto simp: selling_def list_all2_map2 list.rel_refl_strong intro!: list.rel_refl_strong)
  show "line_pieces l \<le>
      int (length (filter (\<lambda>(r, r'). line_takes s l r \<and> si_status r' = Some ''SOLD'') (zip (sd_stock db) (sd_stock db'))))"
    if l: "l \<in> set (lines_of db (sl_id s))" for l
  proof -
    have "zip (sd_stock db) (sd_stock db') = map (\<lambda>r. (r, identity si_id (wk_stock w) r)) (sd_stock db)"
      unfolding st by (simp add: zip_map2 zip_same_conv_map)
    then have "length (filter (\<lambda>(r, r'). line_takes s l r \<and> si_status r' = Some ''SOLD'') (zip (sd_stock db) (sd_stock db'))) =
        length (filter (\<lambda>r. line_takes s l r \<and> sold_in (wk_stock w) r) (sd_stock db))"
      by (simp add: filter_map comp_def sold_in_def)
    moreover have "line_served s (wk_stock w) l" using L l by simp
    ultimately show ?thesis using L by (simp add: line_served_def selling_def)
  qed
qed

end
