(* ===== verification/Sale_Demo.thy ===== *)
theory Sale_Demo
  imports Sale_Runs Sale_Stock Advance_Demo
begin

text \<open>
  Sales, a concrete run: with the session open and a voucher of 40 sold, two pieces and a tagged
  item worth 110 are drafted, and paid with the voucher, 20 by card and 60 in cash, 10 of them
  change; one piece is refunded in cash, and the other is returned through the returns service.
\<close>

section \<open>The world\<close>

definition piece :: "string \<Rightarrow> string option \<Rightarrow> money \<Rightarrow> stock_item" where
  "piece i epc price = \<lparr>si_id = i, si_item_uid = i, si_tenant_id = ''t1'', si_store_id = Some ''s1'',
     si_catalog_product_id = None, si_sku = Some ''K'', si_description = None, si_var1_value = None,
     si_var2_value = None, si_epc = epc, si_location_code = Some ''L'', si_pool = Some ''P'',
     si_status = Some ''RFID'', si_item_status = ''ACTIVE'', si_epc_status = ''ASSIGNED'', si_observation = None,
     si_print_status = ''NOT_REQUESTED'', si_issue_state = None, si_location_is_vendible = True,
     si_image_asset_id = None, si_image_url = None, si_image_thumb_url = None, si_image_source = None,
     si_image_updated_at = None, si_cost_price = Some 10, si_suggested_price = None,
     si_sale_price = Some price, si_created_at = 1, si_updated_at = None\<rparr>"

definition sale_ac :: ac_db where
  "sale_ac = cash_ac\<lparr>catalog := map (\<lambda>c. \<lparr>pc_id = c, pc_code = c\<rparr>)
       [''POS_SALE_MANAGE'', ''POS_SALE_REFUND'', ''POS_SALE_EXCHANGE''],
     role_template_permissions := map (\<lambda>c. \<lparr>rtp_role_template_id = ''r1'', rtp_permission_id = c\<rparr>)
       [''POS_SALE_MANAGE'', ''POS_SALE_REFUND'', ''POS_SALE_EXCHANGE'']\<rparr>"

definition sale_env :: "char \<Rightarrow> time \<Rightarrow> request_env" where
  "sale_env c t = (cash_env c t)\<lparr>rq_ac := sale_ac\<rparr>"

definition sale_world :: sale_db where
  "sale_world = \<lparr>sd_pos = voucher_world, sd_stock = [], sd_assignments = [], sd_sales = [], sd_lines = [],
     sd_payments = [], sd_returns = [], sd_policies = []\<rparr>"

definition stocked :: sale_db where
  "stocked = sale_world\<lparr>sd_pos := voucher_sold, sd_stock := [piece ''p1'' None 30, piece ''p2'' None 30, piece ''q1'' (Some ''E1'') 50]\<rparr>"

definition line_req :: "sale_line_type \<Rightarrow> int \<Rightarrow> line_create" where
  "line_req k n = \<lparr>lc_line_type = k, lc_qty = n, lc_sku = (if k = SKU_sale then Some ''K'' else None),
     lc_epc = (if k = EPC_sale then Some ''E1'' else None), lc_unit_price = None, lc_snapshot = None\<rparr>"

definition payment_req :: "payment_method \<Rightarrow> money \<Rightarrow> payment_create" where
  "payment_req m x = \<lparr>py_method = m, py_amount = x,
     py_authorization_code = (if m = CARD then Some ''ok'' else None), py_bank_name = None, py_voucher_number = None,
     py_reference_code = (if m = ADVANCE then Some ''ADV-s1-00000001'' else None), py_advance_id = None\<rparr>"

definition draft_req :: sale_create_request where
  "draft_req = \<lparr>sc_transaction_id = Some ''tx'', sc_store_id = None, sc_lines = [line_req SKU_sale 2, line_req EPC_sale 1]\<rparr>"

definition drafted_sale :: sale_db where
  "drafted_sale = ran (create_sale_body (sale_env CHR ''k'' 200) draft_req ''t1'' (''s1'', cashier)) stocked"

definition pay_req :: checkout_request where
  "pay_req = \<lparr>cr_transaction_id = Some ''tx'', cr_payments = [payment_req ADVANCE 40, payment_req CARD 20, payment_req CASH 60],
     cr_receipt_number = Some ''R1''\<rparr>"

definition paid_demo :: sale_db where
  "paid_demo = ran (sale_action_body (sale_env CHR ''m'' 300) ''k'' (Checkout pay_req) ''t1'' cashier) drafted_sale"

definition back_req :: refund_request where
  "back_req = \<lparr>rf_transaction_id = Some ''tx'', rf_return_items = [\<lparr>ri_line_id = ''kkk'', ri_qty = 1, ri_condition = ''GOOD''\<rparr>],
     rf_refund_payments = [payment_req CASH 30], rf_manager_override = None, rf_receipt_number = Some ''R1''\<rparr>"

definition refunded_demo :: sale_db where
  "refunded_demo = ran (sale_action_body (sale_env CHR ''n'' 400) ''k'' (Refund_items back_req) ''t1'' cashier) paid_demo"

definition return_req :: quote_request where
  "return_req = \<lparr>qr_store_id = None, qr_sale_id = ''k'', qr_items = [\<lparr>qi_sale_line_id = ''kkk'', qi_qty = 1, qi_exchange = False\<rparr>],
     qr_exchange_lines = []\<rparr>"

text \<open>An id the routes of returns accept: 32 hexadecimal digits.\<close>

definition uuid_env :: "char \<Rightarrow> time \<Rightarrow> request_env" where
  "uuid_env c t = (sale_env c t)\<lparr>rq_fresh := \<lambda>k. replicate (Suc (31 + k)) c\<rparr>"

definition return_drafted :: sale_db where
  "return_drafted = ran (create_return (uuid_env CHR ''d'' 500) return_req) refunded_demo"

definition settle_req :: return_action where
  "settle_req = Complete_return [\<lparr>sm_method = CASH, sm_amount = 30, sm_authorization_code = None,
     sm_bank_name = None, sm_voucher_number = None\<rparr>]"

definition return_done :: sale_db where
  "return_done = ran (action_return (uuid_env CHR ''e'' 600) None (replicate 32 CHR ''d'') settle_req) return_drafted"

text \<open>The states written out, so that what follows is evaluated on them.\<close>

lemma voucher_sold_eq [code]: "voucher_sold =
  \<lparr>av_cash =
      \<lparr>c_stores = [\<lparr>st_id = ''s1'', st_tenant_id = ''t1'', st_name = ''A''\<rparr>],
         c_sessions =
           [\<lparr>cs_id = ''a'', cs_tenant_id = ''t1'', cs_store_id = ''s1'',
               cs_cashier_user_id = ''u1'', cs_status = OPEN,
               cs_business_date = 20, cs_timezone = ''UTC'',
               cs_opening_amount = 100, cs_expected_cash = 140,
               cs_counted_cash = None, cs_difference = None,
               cs_opened_at = 10, cs_closed_at = None, cs_created_at = 10\<rparr>],
         c_movements =
           [\<lparr>cm_id = ''aa'', cm_tenant_id = ''t1'', cm_store_id = ''s1'',
               cm_cash_session_id = Some ''a'', cm_cashier_user_id = ''u1'',
               cm_actor_user_id = Some ''u1'', cm_business_date = 20,
               cm_timezone = ''UTC'', cm_sale_id = None, cm_action = ''OPEN'',
               cm_amount = 100, cm_expected_balance_before = Some 0,
               cm_expected_balance_after = Some 100,
               cm_transaction_id = Some ''tx'', cm_reason = None,
               cm_trace_id = ''trace'', cm_occurred_at = 10,
               cm_created_at = 10\<rparr>,
            \<lparr>cm_id = ''vvv'', cm_tenant_id = ''t1'', cm_store_id = ''s1'',
               cm_cash_session_id = Some ''a'', cm_cashier_user_id = ''u1'',
               cm_actor_user_id = Some ''u1'', cm_business_date = 20,
               cm_timezone = ''UTC'', cm_sale_id = Some ''v'',
               cm_action = ''CASH_IN'', cm_amount = 40,
               cm_expected_balance_before = Some 100,
               cm_expected_balance_after = Some (140),
               cm_transaction_id = Some ''tv'', cm_reason = None,
               cm_trace_id = ''trace'', cm_occurred_at = 100,
               cm_created_at = 100\<rparr>],
         c_closes = [], c_cuts = [], c_sales = []\<rparr>,
      av_advances =
        [\<lparr>pa_id = ''v'', pa_tenant_id = ''t1'', pa_store_id = ''s1'',
            pa_advance_number = 1, pa_barcode_value = ''ADV-s1-00000001'',
            pa_customer_name = ''Ana'', pa_voucher_type = ADVANCE_voucher,
            pa_issued_amount = 40, pa_issued_payment_method = CASH,
            pa_issued_cash_movement_id = Some ''vvv'', pa_issued_at = 100,
            pa_expires_at = 5184000000100, pa_status = ACTIVE,
            pa_consumed_sale_id = None, pa_refunded_cash_movement_id = None,
            pa_refunded_at = None, pa_expired_at = None, pa_notes = None,
            pa_created_by_user_id = Some ''u1'', pa_created_at = 100,
            pa_updated_at = Some 100\<rparr>],
      av_events =
        [\<lparr>ae_id = ''vv'', ae_advance_id = ''v'', ae_tenant_id = ''t1'',
            ae_store_id = ''s1'', ae_action = ''ISSUED'',
            ae_payload = Issued_payload ''tv'' CASH ADVANCE_voucher,
            ae_created_by_user_id = Some ''u1'', ae_created_at = 100\<rparr>],
      av_drawer =
        [\<lparr>de_id = ''vvvv'', de_tenant_id = ''t1'', de_store_id = ''s1'',
            de_terminal_id = None, de_user_id = Some ''u1'',
            de_cash_session_id = Some ''a'', de_sale_id = Some ''v'',
            de_movement_type = CASH_IN_drawer,
            de_event_type = CASH_IN_DRAWER_OPEN,
            de_reason = Some ''ADVANCE_ISSUANCE'', de_printer_name = None,
            de_machine_name = None, de_requested_at = Some 100,
            de_executed_at = Some 100, de_closed_confirmed_at = None,
            de_result = SUCCESS,
            de_details_json =
              Some [(''voucher_id'', ''v''), (''voucher_type'', ''ADVANCE'')],
            de_trace_id = Some ''trace'', de_created_at = 100\<rparr>]\<rparr>"
  by code_simp

definition demo_sale :: pos_sale where
  "demo_sale = \<lparr>sl_id = ''k'', sl_tenant_id = ''t1'', sl_store_id = ''s1'', sl_status = ''DRAFT'',
     sl_total_due = 110, sl_paid_total = 0, sl_balance_due = 110, sl_change_due = 0, sl_receipt_number = None,
     sl_sale_code = Some ''SALE-KK'', sl_created_by_user_id = Some ''u1'', sl_updated_by_user_id = Some ''u1'',
     sl_checked_out_by_user_id = None, sl_canceled_by_user_id = None, sl_checked_out_at = None,
     sl_canceled_at = None, sl_created_at = 200, sl_updated_at = None\<rparr>"

definition demo_line :: "string \<Rightarrow> string \<Rightarrow> sale_line_type \<Rightarrow> int \<Rightarrow> money \<Rightarrow> sale_line" where
  "demo_line i c k n price = \<lparr>ln_id = i, ln_sale_line_id = Some c, ln_sale_id = ''k'', ln_tenant_id = ''t1'',
     ln_line_type = k, ln_qty = n, ln_unit_price = price, ln_line_total = price * of_int n, ln_sku = Some ''K'',
     ln_description = None, ln_var1_value = None, ln_var2_value = None,
     ln_epc = (if k = EPC_sale then Some ''E1'' else None), ln_item_uid = (if k = EPC_sale then Some ''q1'' else None),
     ln_sku_snapshot = Some ''K'', ln_description_snapshot = None, ln_var1_snapshot = None, ln_var2_snapshot = None,
     ln_sale_price_snapshot = Some price, ln_cost_price_snapshot = None,
     ln_epc_at_sale = (if k = EPC_sale then Some ''E1'' else None), ln_location_code = Some ''L'', ln_pool = Some ''P'',
     ln_status = Some ''RFID'', ln_location_is_vendible = True, ln_image = no_image, ln_created_at = 200\<rparr>"

lemma drafted_eq [code]: "drafted_sale = publish_sales (stocked\<lparr>sd_sales := [demo_sale],
    sd_lines := [demo_line ''kkk'' ''SL-KKKK'' SKU_sale 2 30, demo_line ''kkkkk'' ''SL-KKKKKK'' EPC_sale 1 50]\<rparr>)"
  by code_simp

definition paid_pos :: advance_db where
  "paid_pos = voucher_sold\<lparr>
     av_cash := (av_cash voucher_sold)\<lparr>
       c_sessions := map (\<lambda>s. s\<lparr>cs_expected_cash := 190\<rparr>) (c_sessions (av_cash voucher_sold)),
       c_movements := c_movements (av_cash voucher_sold) @
         [\<lparr>cm_id = ''mmm'', cm_tenant_id = ''t1'', cm_store_id = ''s1'', cm_cash_session_id = Some ''a'',
           cm_cashier_user_id = ''u1'', cm_actor_user_id = Some ''u1'', cm_business_date = 20,
           cm_timezone = ''UTC'', cm_sale_id = Some ''k'', cm_action = ''SALE'', cm_amount = 50,
           cm_expected_balance_before = Some 140, cm_expected_balance_after = Some 190,
           cm_transaction_id = Some ''tx'', cm_reason = None, cm_trace_id = ''trace'', cm_occurred_at = 300,
           cm_created_at = 300\<rparr>]\<rparr>,
     av_advances := map (\<lambda>a. a\<lparr>pa_status := CONSUMED, pa_consumed_sale_id := Some ''k'', pa_updated_at := Some 300\<rparr>)
       (av_advances voucher_sold),
     av_events := av_events voucher_sold @
       [\<lparr>ae_id = ''mm'', ae_advance_id = ''v'', ae_tenant_id = ''t1'', ae_store_id = ''s1'', ae_action = ''CONSUMED'',
         ae_payload = Checkout_payload ''k'' ''tx'', ae_created_by_user_id = Some ''u1'', ae_created_at = 300\<rparr>]\<rparr>"

definition demo_paid :: pos_sale where
  "demo_paid = demo_sale\<lparr>sl_status := ''PAID'', sl_paid_total := 120, sl_balance_due := 0, sl_change_due := 10,
     sl_receipt_number := Some ''R1'', sl_checked_out_by_user_id := Some ''u1'', sl_checked_out_at := Some 300,
     sl_updated_at := Some 300\<rparr>"

definition demo_payment :: "string \<Rightarrow> payment_method \<Rightarrow> money \<Rightarrow> pos_payment" where
  "demo_payment i m x = \<lparr>pp_id = i, pp_sale_id = ''k'', pp_tenant_id = ''t1'', pp_method = m, pp_amount = x,
     pp_authorization_code = (if m = CARD then Some ''ok'' else None), pp_bank_name = None,
     pp_voucher_number = None, pp_created_at = 300\<rparr>"

definition sold_lines :: "sale_line list" where
  "sold_lines = map (\<lambda>l. l\<lparr>ln_cost_price_snapshot := Some 10\<rparr>)
     [demo_line ''kkk'' ''SL-KKKK'' SKU_sale 2 30, demo_line ''kkkkk'' ''SL-KKKKKK'' EPC_sale 1 50]"

definition sold_stock :: "stock_item list" where
  "sold_stock = [apply_sale_edit (Sell_piece 300) (piece ''p1'' None 30), apply_sale_edit (Sell_piece 300) (piece ''p2'' None 30),
     apply_sale_edit (Sell_tag True 300) (piece ''q1'' (Some ''E1'') 50)]"

lemma paid_eq [code]: "paid_demo = publish_sales (drafted_sale\<lparr>sd_pos := paid_pos, sd_stock := sold_stock,
    sd_sales := [demo_paid], sd_lines := sold_lines,
    sd_payments := [demo_payment ''mmmm'' ADVANCE 40, demo_payment ''mmmmm'' CARD 20, demo_payment ''mmmmmm'' CASH 60]\<rparr>)"
  by code_simp

section \<open>The run is reachable\<close>

text \<open>The letter of a request begins no id in use.\<close>

definition unused :: "char \<Rightarrow> sale_db \<Rightarrow> bool" where
  "unused c db \<longleftrightarrow> list_all (\<lambda>i. take 1 i \<noteq> [c])
     (map sl_id (sd_sales db) @ map pa_id (av_advances (sd_pos db)) @ map ln_id (sd_lines db) @ map re_id (sd_returns db))
    \<and> list_all (\<lambda>m. case cm_sale_id m of None \<Rightarrow> True | Some i \<Rightarrow> take 1 i \<noteq> [c]) (c_movements (av_cash (sd_pos db)))"

lemma unused_fresh_ids:
  assumes "unused c db" and fr: "\<And>k. rq_fresh env k = replicate (Suc (n + k)) c"
  shows "fresh_sale env db"
proof -
  have "inj (rq_fresh env)"
  proof (rule injI)
    fix i j assume "rq_fresh env i = rq_fresh env j"
    then have "length (replicate (Suc (n + i)) c) = length (replicate (Suc (n + j)) c)" unfolding fr by simp
    then show "i = j" by simp
  qed
  moreover have "i \<noteq> replicate (Suc k) c" if "take 1 i \<noteq> [c]" for i k using that by auto
  then have no: "replicate (Suc k) c \<notin> set is" if "list_all (\<lambda>i. take 1 i \<noteq> [c]) is" for k "is"
    using that unfolding list_all_iff by blast
  have parts: "list_all (\<lambda>i. take 1 i \<noteq> [c]) (map sl_id (sd_sales db))"
    "list_all (\<lambda>i. take 1 i \<noteq> [c]) (map pa_id (av_advances (sd_pos db)))"
    "list_all (\<lambda>i. take 1 i \<noteq> [c]) (map ln_id (sd_lines db))"
    "list_all (\<lambda>i. take 1 i \<noteq> [c]) (map re_id (sd_returns db))"
    "list_all (\<lambda>m. case cm_sale_id m of None \<Rightarrow> True | Some i \<Rightarrow> take 1 i \<noteq> [c]) (c_movements (av_cash (sd_pos db)))"
    using assms(1) unfolding unused_def list_all_append by blast+
  have "movements_naming (av_cash (sd_pos db)) (replicate (Suc k) c) = []" for k
    using parts(5) by (auto simp: movements_naming_def filter_empty_conv list_all_iff split: option.splits)
  ultimately show ?thesis
    using no [OF parts(1)] no [OF parts(2)] no [OF parts(3)] no [OF parts(4)]
    unfolding fresh_sale_def new_sale_id_def fr set_map by blast
qed

lemma unused_fresh:
  assumes "unused c db"
  shows "fresh_sale (sale_env c t) db" "fresh_sale (uuid_env c t) db"
  by (rule unused_fresh_ids [OF assms, of _ 0], simp add: sale_env_def cash_env_def)
    (rule unused_fresh_ids [OF assms, of _ 31], simp add: uuid_env_def)

lemma create_run: "\<not> isl (create_sale_body (sale_env CHR ''k'' 200) draft_req ''t1'' (''s1'', cashier) stocked)"
  by code_simp

lemma checkout_run: "\<not> isl (sale_action_body (sale_env CHR ''m'' 300) ''k'' (Checkout pay_req) ''t1'' cashier drafted_sale)"
  by code_simp

lemma refund_run: "\<not> isl (sale_action_body (sale_env CHR ''n'' 400) ''k'' (Refund_items back_req) ''t1'' cashier paid_demo)"
  by code_simp

lemma draft_return_run: "\<not> isl (create_return (uuid_env CHR ''d'' 500) return_req refunded_demo)"
  by code_simp

lemma complete_return_run:
  "\<not> isl (action_return (uuid_env CHR ''e'' 600) None (replicate 32 CHR ''d'') settle_req return_drafted)"
  by code_simp

lemma sale_demo_fresh:
  "unused CHR ''k'' stocked" "unused CHR ''m'' drafted_sale" "unused CHR ''n'' paid_demo" "unused CHR ''d'' refunded_demo"
  "unused CHR ''e'' return_drafted"
  by code_simp+

lemma checkout_runs: "\<exists>r. sale_action_body (sale_env CHR ''m'' 300) ''k'' (Checkout pay_req) ''t1'' cashier drafted_sale = Inr (paid_demo, r)"
  unfolding paid_demo_def
  by (rule ran_Inr [of "sale_action_body (sale_env CHR ''m'' 300) ''k'' (Checkout pay_req) ''t1'' cashier", OF checkout_run])

lemma return_draft_runs: "\<exists>e. create_return (uuid_env CHR ''d'' 500) return_req refunded_demo = Inr (return_drafted, e)"
  unfolding return_drafted_def by (rule ran_Inr [of "create_return (uuid_env CHR ''d'' 500) return_req", OF draft_return_run])

lemma demo_sale_steps:
  "sale_step stocked drafted_sale" "sale_step drafted_sale paid_demo" "sale_step paid_demo refunded_demo"
  "sale_step refunded_demo return_drafted" "sale_step return_drafted return_done"
proof -
  show "sale_step stocked drafted_sale"
    unfolding drafted_sale_def
    using ran_Inr [of "create_sale_body (sale_env CHR ''k'' 200) draft_req ''t1'' (''s1'', cashier)", OF create_run]
    by (blast intro: sale_step.Create unused_fresh [OF sale_demo_fresh(1)])
  show "sale_step drafted_sale paid_demo"
    using checkout_runs by (blast intro: sale_step.Action unused_fresh [OF sale_demo_fresh(2)])
  show "sale_step paid_demo refunded_demo"
    unfolding refunded_demo_def
    using ran_Inr [of "sale_action_body (sale_env CHR ''n'' 400) ''k'' (Refund_items back_req) ''t1'' cashier", OF refund_run]
    by (blast intro: sale_step.Action unused_fresh [OF sale_demo_fresh(3)])
  show "sale_step refunded_demo return_drafted"
    using return_draft_runs by (blast intro: sale_step.Draft_return unused_fresh [OF sale_demo_fresh(4)])
  show "sale_step return_drafted return_done"
    unfolding return_done_def
    using ran_Inr [of "action_return (uuid_env CHR ''e'' 600) None (replicate 32 CHR ''d'') settle_req", OF complete_return_run]
    by (blast intro: sale_step.Return_action unused_fresh [OF sale_demo_fresh(5)])
qed

lemma before_sales:
  assumes "advance_step (sd_pos sale_world) pos1" and "advance_step pos1 pos2"
    and "c_sales (av_cash pos1) = []" and "c_sales (av_cash pos2) = []"
  shows "sale_step\<^sup>*\<^sup>* sale_world (sale_world\<lparr>sd_pos := pos2\<rparr>)"
proof -
  have w: "c_sales (av_cash (sd_pos sale_world)) = []" "sd_sales sale_world = []" by code_simp+
  have "sale_step sale_world (sale_world\<lparr>sd_pos := pos1\<rparr>)"
    by (rule sale_step.Pos [OF assms(1)]) (simp_all add: w assms(3))
  moreover have "sale_step (sale_world\<lparr>sd_pos := pos1\<rparr>) ((sale_world\<lparr>sd_pos := pos1\<rparr>)\<lparr>sd_pos := pos2\<rparr>)"
    by (rule sale_step.Pos) (simp_all add: w assms)
  ultimately show ?thesis by simp
qed

lemma sale_demo_reachable:
  "sale_reachable stocked" "sale_reachable drafted_sale" "sale_reachable paid_demo" "sale_reachable refunded_demo"
  "sale_reachable return_drafted" "sale_reachable return_done"
proof -
  have p: "sd_pos sale_world = voucher_world" by (simp add: sale_world_def)
  have "advance_start voucher_world" using cash_demo_start by (simp add: advance_start_def voucher_world_def)
  moreover have "c_sales (av_cash voucher_world) = []" "sd_sales sale_world = []" "sd_lines sale_world = []"
    "sd_payments sale_world = []" "sd_returns sale_world = []" by code_simp+
  ultimately have start: "sale_start sale_world" by (simp add: sale_start_def p)
  have "c_sales (av_cash voucher_open) = []" "c_sales (av_cash voucher_sold) = []" by code_simp+
  then have run: "sale_step\<^sup>*\<^sup>* sale_world (sale_world\<lparr>sd_pos := voucher_sold\<rparr>)"
    using before_sales [of voucher_open voucher_sold] voucher_open_step voucher_sold_step by (simp add: p)
  have "sale_step (sale_world\<lparr>sd_pos := voucher_sold\<rparr>) stocked"
    using sale_step.Stock [where db = "sale_world\<lparr>sd_pos := voucher_sold\<rparr>" and rows = "sd_stock stocked" and tags = "sd_assignments stocked" and ps = "sd_policies stocked"]
    by (simp add: stocked_def sale_world_def)
  with run show 1: "sale_reachable stocked" using start by (auto simp: sale_reachable_def)
  note next_state = sale_reachable_step
  show 2: "sale_reachable drafted_sale" by (rule next_state [OF 1 demo_sale_steps(1)])
  show 3: "sale_reachable paid_demo" by (rule next_state [OF 2 demo_sale_steps(2)])
  show 4: "sale_reachable refunded_demo" by (rule next_state [OF 3 demo_sale_steps(3)])
  show 5: "sale_reachable return_drafted" by (rule next_state [OF 4 demo_sale_steps(4)])
  show "sale_reachable return_done" by (rule next_state [OF 5 demo_sale_steps(5)])
qed

end
