(* ===== verification/Sale_Properties.thy ===== *)
theory Sale_Properties
  imports Sale_Demo
begin

text \<open>
  Sales and returns, the properties: what becomes of a sale, that its rows and sums agree with the
  cash ledger and the vouchers, which payments a checkout takes and what it does to the stock, and
  that the returns service records a completed return once.
\<close>

section \<open>Facts of the run for the witnesses\<close>

lemma paid_demo_rows [simp]:
  "sd_sales paid_demo = [demo_paid]" "sd_lines paid_demo = sold_lines" "sd_stock paid_demo = sold_stock"
  "sd_payments paid_demo = [demo_payment ''mmmm'' ADVANCE 40, demo_payment ''mmmmm'' CARD 20, demo_payment ''mmmmmm'' CASH 60]"
  by (simp_all add: paid_eq)

lemma demo_paid_fields [simp]:
  "sl_id demo_paid = ''k''" "sl_status demo_paid = ''PAID''" "sl_sale_code demo_paid = Some ''SALE-KK''"
  "sl_change_due demo_paid = 10" "sl_total_due demo_paid = 110"
  by (simp_all add: demo_paid_def demo_sale_def)

section \<open>Properties\<close>

text \<open>C13: A sale is never lost and keeps its id, tenant, store and code; once it is paid or canceled,
  its row, its lines and its payments stay exactly as they are, whatever requests follow.\<close>

theorem sale_lifecycle:
  assumes "sale_reachable db" and "sale_step\<^sup>*\<^sup>* db db'" and "s \<in> set (sd_sales db)"
  shows "\<exists>s' \<in> set (sd_sales db').
    (sl_id s', sl_tenant_id s', sl_store_id s', sl_sale_code s') = (sl_id s, sl_tenant_id s, sl_store_id s, sl_sale_code s)
    \<and> (sl_status s \<noteq> ''DRAFT'' \<longrightarrow> s' = s \<and> lines_of db' (sl_id s) = lines_of db (sl_id s)
        \<and> payments_of db' (sl_id s) = payments_of db (sl_id s))"
  using sale_run [OF assms(2) sale_reachable_invariant [OF assms(1)] sale_reachable_published(1) [OF assms(1)]] assms(3)
  unfolding sale_stays_def sale_ref_def by blast

lemma sale_lifecycle_witness:
  "demo_paid \<in> set (sd_sales return_done) \<and> payments_of return_done ''k'' = sd_payments paid_demo"
proof -
  have "sale_step\<^sup>*\<^sup>* paid_demo return_done" using demo_sale_steps(3-5) 
    by (meson r_into_rtranclp rtranclp_trans)
  from sale_lifecycle [OF sale_demo_reachable(3) this, of demo_paid]
  show ?thesis by (auto simp: payments_of_def demo_payment_def)
qed

text \<open>C26: The ids of sales, lines and return events are unique, and every line, payment and return
  event belongs to a sale of its own tenant, an event to one of its own store.\<close>

theorem sale_rows_belong:
  assumes "sale_reachable db"
  shows "distinct (map sl_id (sd_sales db)) \<and> distinct (map ln_id (sd_lines db)) \<and> distinct (map re_id (sd_returns db))
    \<and> (\<forall>l \<in> set (sd_lines db). \<exists>s \<in> set (sd_sales db). sl_id s = ln_sale_id l \<and> sl_tenant_id s = ln_tenant_id l)
    \<and> (\<forall>p \<in> set (sd_payments db). \<exists>s \<in> set (sd_sales db). sl_id s = pp_sale_id p \<and> sl_tenant_id s = pp_tenant_id p)
    \<and> (\<forall>e \<in> set (sd_returns db). \<exists>s \<in> set (sd_sales db). sl_id s = re_sale_id e \<and> sl_tenant_id s = re_tenant_id e
        \<and> sl_store_id s = re_store_id e \<and> sl_status s = ''PAID'')"
proof -
  note inv = sale_reachable_invariant [OF assms]
  have refs: "refs_ok db" by (rule sale_invariantD(1) [OF inv])
  have "\<exists>s \<in> set (sd_sales db). sl_id s = re_sale_id e \<and> sl_tenant_id s = re_tenant_id e \<and> sl_store_id s = re_store_id e
      \<and> sl_status s = ''PAID''" if "e \<in> set (sd_returns db)" for e
    using recorded_sale [OF inv that] by auto
  then show ?thesis using refs unfolding refs_ok_def by (simp add: image_iff) metis
qed

lemma sale_rows_belong_witness:
  "\<exists>s \<in> set (sd_sales paid_demo). sl_id s = ''k'' \<and> sl_tenant_id s = ''t1''"
proof -
  have "hd (sd_payments paid_demo) \<in> set (sd_payments paid_demo)" by simp
  with sale_rows_belong [OF sale_demo_reachable(3)]
  have "\<exists>s \<in> set (sd_sales paid_demo). sl_id s = pp_sale_id (hd (sd_payments paid_demo))
      \<and> sl_tenant_id s = pp_tenant_id (hd (sd_payments paid_demo))" by blast
  then show ?thesis by (simp add: demo_payment_def)
qed

text \<open>C24: A sale is due what its lines are worth. Before it is paid it has no payment; once paid, a
  drafted sale was paid exactly what is due and the change, and the change came out of the cash.\<close>

theorem sale_totals:
  assumes "sale_reachable db" and "s \<in> set (sd_sales db)"
  shows "sl_total_due s = sum_list (map ln_line_total (lines_of db (sl_id s)))
    \<and> (if sl_status s = ''PAID'' then sl_balance_due s = 0 \<and> sl_checked_out_at s \<noteq> None
         \<and> (sl_sale_code s \<noteq> None \<longrightarrow> sl_paid_total s = sum_list (map pp_amount (payments_of db (sl_id s)))
             \<and> sl_paid_total s = sl_total_due s + sl_change_due s
             \<and> 0 \<le> sl_change_due s \<and> sl_change_due s \<le> cash_paid (payments_of db (sl_id s)))
       else sl_status s \<in> {''DRAFT'', ''CANCELED''} \<and> payments_of db (sl_id s) = [] \<and> returns_of db (sl_id s) = []
         \<and> sl_paid_total s = 0 \<and> sl_change_due s = 0 \<and> sl_balance_due s = sl_total_due s)"
proof -
  have "sale_ok db s"
    using sale_invariantD(4) [OF sale_reachable_invariant [OF assms(1)] assms(2)] by (simp add: sale_facts_def)
  then show ?thesis unfolding sale_ok_def totals_ok_def all_paid_def by (auto split: if_splits)
qed

lemma sale_totals_witness:
  "sum_list (map pp_amount (payments_of paid_demo ''k'')) = 110 + sl_change_due demo_paid"
  using sale_totals [OF sale_demo_reachable(3), of demo_paid] by simp

text \<open>C14: The movements of the cash ledger that name a sale, wherever they were posted, add up to
  the cash it took less the change it gave, and the cash of its refunds and exchanges.\<close>

theorem sale_cash_agrees:
  assumes "sale_reachable db" and "s \<in> set (sd_sales db)"
  shows "sum_list (map sale_cash_value (movements_naming (av_cash (sd_pos db)) (sl_id s))) =
    (if sl_sale_code s \<noteq> None then cash_paid (payments_of db (sl_id s)) - sl_change_due s else 0)
      + sum_list (map event_cash (returns_of db (sl_id s)))"
proof -
  have "cash_ok db s"
    using sale_invariantD(4) [OF sale_reachable_invariant [OF assms(1)] assms(2)] by (simp add: sale_facts_def)
  then show ?thesis by (simp add: cash_ok_def sale_cash_def returned_cash_def)
qed

lemma sale_cash_agrees_witness:
  "sum_list (map sale_cash_value (movements_naming (av_cash (sd_pos refunded_demo)) ''k'')) =
    cash_paid (payments_of refunded_demo ''k'') - 10 + sum_list (map event_cash (returns_of refunded_demo ''k''))"
proof -
  have "demo_paid \<in> set (sd_sales refunded_demo)"
    using sale_run [OF r_into_rtranclp [of sale_step, OF demo_sale_steps(3)] sale_reachable_invariant [OF sale_demo_reachable(3)]
      sale_reachable_published(1) [OF sale_demo_reachable(3)]]
    by (fastforce simp: sale_stays_def)
  from sale_cash_agrees [OF sale_demo_reachable(4) this] show ?thesis by simp
qed



text \<open>Which payments a checkout takes: some, each in itself complete, covering the bill, of which
  no more than the bill is not cash; the change is what is over.\<close>

theorem payments_accepted_iff:
  "validate_payments ps due = Inr t \<longleftrightarrow>
    ps \<noteq> [] \<and> (\<forall>p \<in> set ps. payment_ok p = Inr ())
    \<and> due \<le> sum_list (map py_amount ps)
    \<and> sum_list (map py_amount (filter (\<lambda>p. py_method p \<noteq> CASH) ps)) \<le> due
    \<and> t = \<lparr>ct_total_due = due, ct_paid_total = sum_list (map py_amount ps), ct_balance_due = 0,
        ct_change_due = sum_list (map py_amount ps) - due,
        ct_cash_total = sum_list (map py_amount (filter (\<lambda>p. py_method p = CASH) ps)),
        ct_advance_total = sum_list (map py_amount (filter (\<lambda>p. py_method p = ADVANCE) ps))\<rparr>"
  using validate_payments_Inr [of ps due t] by (simp add: paid_of_def non_cash_of_def cash_of_def advance_of_def)

lemma payments_accepted_iff_witness:
  "validate_payments (cr_payments pay_req) 110 = Inr \<lparr>ct_total_due = 110, ct_paid_total = 120, ct_balance_due = 0,
      ct_change_due = 10, ct_cash_total = 60, ct_advance_total = 40\<rparr>"
  unfolding payments_accepted_iff
  by (simp add: pay_req_def payment_req_def payment_ok_def require_def falsy_def)

text \<open>C17: A checkout changes a stock row only by selling it, and only rows of the sale's store that
  were not sold; and every line of the sale finds all its pieces among the rows it may take. (Two
  lines may find the same piece.)\<close>

theorem checkout_sells_stock:
  assumes "checkout_sale env p u s db = Inr (db', r)" and "distinct (map si_id (sd_stock db))"
  shows "list_all2 (\<lambda>r r'. r' = r \<or> si_tenant_id r = sl_tenant_id s \<and> si_store_id r = Some (sl_store_id s) \<and> sql_not_sold r
      \<and> sale_core r' = sale_core r \<and> si_id r' = si_id r \<and> si_status r' = Some ''SOLD''
      \<and> si_item_status r' = ''SOLD'' \<and> \<not> si_location_is_vendible r') (sd_stock db) (sd_stock db')
    \<and> (\<forall>l \<in> set (lines_of db (sl_id s)). line_pieces l \<le>
      int (length (filter (\<lambda>(r, r'). line_takes s l r \<and> si_status r' = Some ''SOLD'') (zip (sd_stock db) (sd_stock db')))))"
  using checkout_stock_rows [OF assms] unfolding just_sold_def by blast

lemma find_demo_sale: "find_sale ''k'' ''t1'' drafted_sale = Inr demo_sale"
  by code_simp

lemma checkout_sells_stock_witness:
  "list_all2 (\<lambda>r r'. r' = r \<or> si_tenant_id r = sl_tenant_id demo_sale \<and> si_store_id r = Some (sl_store_id demo_sale)
      \<and> sql_not_sold r \<and> sale_core r' = sale_core r \<and> si_id r' = si_id r \<and> si_status r' = Some ''SOLD''
      \<and> si_item_status r' = ''SOLD'' \<and> \<not> si_location_is_vendible r') (sd_stock drafted_sale) (sd_stock paid_demo)"
proof -
  obtain r where run: "sale_action_body (sale_env CHR ''m'' 300) ''k'' (Checkout pay_req) ''t1'' cashier drafted_sale = Inr (paid_demo, r)"
    using checkout_runs by blast
  obtain s where "find_sale ''k'' ''t1'' drafted_sale = Inr s"
    and co: "checkout_sale (sale_env CHR ''m'' 300) pay_req cashier s drafted_sale = Inr (paid_demo, r)"
    by (rule sale_action_body_Inr [OF run]) simp
  then have "s = demo_sale" using find_demo_sale by simp
  moreover have "sd_stock drafted_sale = sd_stock stocked" by (simp add: drafted_eq)
  then have "distinct (map si_id (sd_stock drafted_sale))" by (simp add: stocked_def piece_def)
  ultimately show ?thesis using checkout_sells_stock [OF co] by blast
qed

text \<open>C16: The sales code refines the abstract machine of sales, and what it does to the tables of the
  cash and voucher routers is a run of their own steps; so in every state of the sales their
  invariants hold, and the payments the cash router reads are those of the sales.\<close>

theorem sales_refine_ledgers:
  assumes "sale_reachable db" and "sale_step db db'"
  shows "sale_move db db' \<and> advance_step\<^sup>*\<^sup>* (sd_pos db) (sd_pos db')
    \<and> advance_reachable (sd_pos db') \<and> cash_reachable (av_cash (sd_pos db'))
    \<and> c_sales (av_cash (sd_pos db')) = map (sale_view (sd_payments db')) (sd_sales db')"
proof -
  have m: "sale_move db db'" by (rule sale_step_moves [OF assms(2) sale_reachable_invariant [OF assms(1)]])
  note r = sale_reachable_published [OF sale_reachable_step [OF assms]]
  show ?thesis using m sale_move_pos_run [OF m] r by (simp add: pos_run_def published_def)
qed

lemma sales_refine_ledgers_witness: "cash_reachable (av_cash (sd_pos paid_demo))"
  using sales_refine_ledgers [OF sale_demo_reachable(2) demo_sale_steps(2)] by blast

text \<open>C25: A return drafted in the returns service is a draft, voided or completed, as its action
  says; its completion is recorded by exactly one refund or exchange event, and no event records
  the completion of a draft that is not completed.\<close>

theorem returns_recorded_once:
  assumes "sale_reachable db" and "e \<in> set (sd_returns db)" and "re_payload e = Draft_return d"
  shows "(re_action e, rd_status d)
      \<in> {(DRAFT_ACTION, ''DRAFT''), (VOID_ACTION, ''VOIDED''), (COMPLETE_ACTION, ''COMPLETED'')}
    \<and> length (filter (completes (re_id e)) (sd_returns db)) = (if rd_status d = ''COMPLETED'' then 1 else 0)"
proof -
  have "events_ok (sd_returns db)" by (rule sale_invariantD(5) [OF sale_reachable_invariant [OF assms(1)]])
  then have "event_ok e" "length (filter (completes (re_id e)) (sd_returns db)) = (if re_action e = COMPLETE_ACTION then 1 else 0)"
    using assms(2) by (simp_all add: events_ok_def)
  then show ?thesis using assms(3) by (auto simp: event_ok_def DRAFT_ACTION_def VOID_ACTION_def COMPLETE_ACTION_def)
qed

lemma return_done_completed:
  "map (\<lambda>e. case re_payload e of Draft_return d \<Rightarrow> rd_status d | _ \<Rightarrow> []) (sd_returns return_done) = [[], ''COMPLETED'', []]"
  by code_simp

lemma returns_recorded_once_witness:
  "\<exists>i. length (filter (completes i) (sd_returns return_done)) = 1"
proof -
  let ?f = "\<lambda>e. case re_payload e of Draft_return d \<Rightarrow> rd_status d | _ \<Rightarrow> []"
  have "''COMPLETED'' \<in> set (map ?f (sd_returns return_done))" unfolding return_done_completed by simp
  then obtain e where e: "e \<in> set (sd_returns return_done)" "?f e = ''COMPLETED''" unfolding set_map image_iff by fastforce
  obtain d where d: "re_payload e = Draft_return d" "rd_status d = ''COMPLETED''"
    using e(2) by (cases "re_payload e") simp_all
  have "length (filter (completes (re_id e)) (sd_returns return_done)) = 1"
    using returns_recorded_once [OF sale_demo_reachable(6) e(1) d(1)] d(2) by simp
  then show ?thesis by blast
qed

end
