(* ===== verification/Stock_Intake.thy ===== *)
theory Stock_Intake
  imports Sale_Model
begin

text \<open>
  Stock, the intake: \<^verbatim>\<open>routers/stock.py\<close>, its checks, the imports of tagged items and of pieces,
  and the migration of a piece to a tag. The tables have the unique constraints of the schema:
  a tag, and an item, once per tenant.
\<close>

section \<open>Tables\<close>

record preload_session =
  ps_id :: uuid
  ps_tenant_id :: uuid
  ps_store_id :: "uuid option"
  ps_source_file_name :: "string option"
  ps_status :: string
  ps_created_by_user_id :: "uuid option"
  ps_created_at :: time
  ps_updated_at :: "time option"

record preload_line =
  pl_id :: uuid
  pl_preload_session_id :: uuid
  pl_item_uid :: uuid
  pl_tenant_id :: uuid
  pl_store_id :: "uuid option"
  pl_catalog_product_id :: "uuid option"
  pl_sku :: "string option"
  pl_epc :: "string option"
  pl_description :: "string option"
  pl_var1_value :: "string option"
  pl_var2_value :: "string option"
  pl_pool :: "string option"
  pl_location_code :: "string option"
  pl_vendible :: bool
  pl_cost_price :: "money option"
  pl_suggested_price :: "money option"
  pl_sale_price :: "money option"
  pl_item_status :: string
  pl_epc_status :: string
  pl_observation :: "string option"
  pl_image_mode :: string
  pl_image_asset_id :: "uuid option"
  pl_print_status :: string
  pl_source_file_name :: "string option"
  pl_source_row_number :: "int option"
  pl_lifecycle_state :: string
  pl_saved_stock_item_id :: "uuid option"
  pl_created_at :: time
  pl_updated_at :: "time option"

record sku_image =
  im_id :: uuid
  im_tenant_id :: uuid
  im_sku :: string
  im_asset_id :: uuid
  im_file_hash :: "string option"
  im_is_primary :: bool
  im_sort_order :: int
  im_created_at :: time
  im_updated_at :: "time option"

text \<open>A catalogue product. The columns that describe it, which an update never overwrites, are one
  dictionary of texts.\<close>

record catalog_product =
  cp_id :: uuid
  cp_tenant_id :: uuid
  cp_sku :: string
  cp_normalized :: "string \<times> string \<times> string"
  cp_texts :: "(string \<times> string option) list"
  cp_sellable_default :: bool
  cp_reference_price_original :: "money option"
  cp_reference_price_gtq :: "money option"
  cp_last_source_supplier :: "string option"
  cp_last_source_order_number :: "string option"
  cp_last_source_order_date :: "time option"
  cp_last_cost_gtq :: "money option"
  cp_last_original_cost :: "money option"
  cp_last_source_currency :: "string option"
  cp_last_exchange_rate :: "money option"
  cp_suggested_price_gtq :: "money option"
  cp_default_sale_price_gtq :: "money option"
  cp_price_review_required :: bool
  cp_status :: string
  cp_created_at :: time
  cp_updated_at :: time

record cost_history =
  ch_id :: uuid
  ch_tenant_id :: uuid
  ch_catalog_product_id :: uuid
  ch_source_type :: string
  ch_extraction_id :: "uuid option"
  ch_preload_session_id :: "uuid option"
  ch_preload_line_id :: "uuid option"
  ch_source_order_number :: "string option"
  ch_source_order_date :: "time option"
  ch_source_supplier :: "string option"
  ch_source_currency :: "string option"
  ch_exchange_rate :: "money option"
  ch_reference_price_original :: "money option"
  ch_reference_price_gtq :: "money option"
  ch_original_cost :: "money option"
  ch_cost_gtq :: money
  ch_suggested_price_gtq :: "money option"
  ch_created_by_user_id :: "uuid option"
  ch_created_at :: time

record stock_db =
  sk_stores :: "store list"
  sk_stock :: "stock_item list"
  sk_tags :: "epc_assignment list"
  sk_sessions :: "preload_session list"
  sk_lines :: "preload_line list"
  sk_products :: "catalog_product list"
  sk_costs :: "cost_history list"
  sk_images :: "sku_image list"

type_synonym 'a stock_result = "(stock_db \<times> 'a) res"

text \<open>The unique constraints; \<^verbatim>\<open>NULL\<close> tags are all different.\<close>

definition tags_of :: "stock_item list \<Rightarrow> (uuid \<times> string) list" where
  "tags_of rows = concat (map (\<lambda>r. case si_epc r of None \<Rightarrow> [] | Some e \<Rightarrow> [(si_tenant_id r, e)]) rows)"

definition stock_unique :: "stock_item list \<Rightarrow> bool" where
  "stock_unique rows \<longleftrightarrow> distinct (tags_of rows) \<and> distinct (map (\<lambda>r. (si_tenant_id r, si_item_uid r)) rows)"

definition active_tags :: "epc_assignment list \<Rightarrow> (uuid \<times> string) list" where
  "active_tags as = map (\<lambda>a. (ea_tenant_id a, ea_epc a)) (filter ea_active as)"

definition tags_unique :: "epc_assignment list \<Rightarrow> bool" where
  "tags_unique as \<longleftrightarrow> distinct (active_tags as)"

section \<open>Requests\<close>

record stock_data =
  sb_sku :: "string option"
  sb_description :: "string option"
  sb_var1_value :: "string option"
  sb_var2_value :: "string option"
  sb_cost_price :: "money option"
  sb_suggested_price :: "money option"
  sb_sale_price :: "money option"
  sb_epc :: "string option"
  sb_location_code :: "string option"
  sb_pool :: "string option"
  sb_store_id :: "uuid option"
  sb_status :: "string option"
  sb_location_is_vendible :: "bool option"
  sb_image_asset_id :: "uuid option"
  sb_image_url :: "string option"
  sb_image_thumb_url :: "string option"
  sb_image_source :: "string option"
  sb_image_updated_at :: "time option"

record import_line =
  il_data :: stock_data
  il_qty :: int

record import_request =
  ip_transaction_id :: "string option"
  ip_tenant_id :: "string option"
  ip_lines :: "import_line list"

record migrate_request =
  mg_transaction_id :: "string option"
  mg_tenant_id :: "string option"
  mg_epc :: string
  mg_data :: stock_data

section \<open>Checks\<close>

definition stock_resolve_tenant_id :: "token_data \<Rightarrow> string option \<Rightarrow> uuid res" where
  "stock_resolve_tenant_id td tenant_id =
    (if is_superadmin (Some (td_role td)) then
       (if falsy tenant_id then Inl (raise0 TENANT_SCOPE_REQUIRED) else Inr (the tenant_id))
     else if falsy (td_tenant_id td) then Inl (raise0 TENANT_SCOPE_REQUIRED)
     else if \<not> falsy tenant_id \<and> tenant_id \<noteq> td_tenant_id td
       then Inl (raise0 CROSS_TENANT_ACCESS_DENIED)
     else Inr (the (td_tenant_id td)))"

definition require_tenant_admin :: "token_data \<Rightarrow> unit res" where
  "require_tenant_admin td = require (can_write_stock_or_assets (Some (td_role td))) (raise0 PERMISSION_DENIED)"

definition validate_scoped_store :: "stock_db \<Rightarrow> uuid \<Rightarrow> uuid \<Rightarrow> unit res" where
  "validate_scoped_store db tn sid =
    require (list_ex (\<lambda>s. st_id s = sid \<and> st_tenant_id s = tn) (sk_stores db))
      (raise1 CROSS_TENANT_ACCESS_DENIED ''store_id is outside tenant scope'')"

datatype query_scope = Self_scope | Tenant_scope

definition resolve_query_scope :: "token_data \<Rightarrow> query_scope \<Rightarrow> uuid option \<Rightarrow> uuid option res" where
  "resolve_query_scope td sc requested = (case sc of
     Self_scope \<Rightarrow>
       bindr (require (td_store_id td \<noteq> None) (raise0 STORE_SCOPE_REQUIRED)) (\<lambda>_.
       bindr (require (\<not> (\<not> falsy requested \<and> requested \<noteq> td_store_id td)) (raise0 STORE_SCOPE_MISMATCH)) (\<lambda>_.
       Inr (td_store_id td)))
   | Tenant_scope \<Rightarrow>
       bindr (require (can_read_tenant_scope (Some (td_role td)) None) (raise0 PERMISSION_DENIED)) (\<lambda>_. Inr None))"

definition EPC_CHARS :: string where "EPC_CHARS = ''0123456789ABCDEF''"

definition validate_epc :: "string \<Rightarrow> unit res" where
  "validate_epc epc = require (length epc = 24 \<and> list_all (\<lambda>c. c \<in> set EPC_CHARS) epc)
     (raise1 VALIDATION_ERROR ''epc must be 24 hex uppercase characters'')"

definition normalize_epc_optional :: "string option \<Rightarrow> string option" where
  "normalize_epc_optional epc = (if epc = None \<or> epc = Some [] then None else epc)"

definition apply_import_defaults :: "stock_data \<Rightarrow> stock_data" where
  "apply_import_defaults d = d\<lparr>
     sb_pool := (if falsy (sb_pool d) then Some ''BODEGA'' else sb_pool d),
     sb_location_code := (if falsy (sb_location_code d) then Some ''WH-MAIN'' else sb_location_code d),
     sb_location_is_vendible := (if sb_location_is_vendible d = None then Some False else sb_location_is_vendible d)\<rparr>"

text \<open>The three checks of the place are one.\<close>

definition require_location_pool :: "stock_data \<Rightarrow> unit res" where
  "require_location_pool d = require (\<not> (falsy (sb_location_code d) \<or> falsy (sb_pool d)))
     (raise1 VALIDATION_ERROR ''location_code and pool are required'')"

definition not_negative :: "string \<Rightarrow> money option \<Rightarrow> unit res" where
  "not_negative field v = require (case v of None \<Rightarrow> True | Some x \<Rightarrow> \<not> x < 0)
     (raise1 VALIDATION_ERROR (field @ '' must be greater than or equal to 0''))"

definition validate_non_negative_prices :: "stock_data \<Rightarrow> unit res" where
  "validate_non_negative_prices d =
    bindr (not_negative ''cost_price'' (sb_cost_price d)) (\<lambda>_.
    bindr (not_negative ''suggested_price'' (sb_suggested_price d)) (\<lambda>_.
    not_negative ''sale_price'' (sb_sale_price d)))"

definition validate_expected_status :: "string option \<Rightarrow> string \<Rightarrow> unit res" where
  "validate_expected_status st expected = require (st = Some expected)
     (raise1 VALIDATION_ERROR ''status does not match expected pool'')"

text \<open>What the import endpoints check before the idempotency record.\<close>

definition intake_before :: "request_env \<Rightarrow> string option \<Rightarrow> string option \<Rightarrow> (uuid \<times> user) res" where
  "intake_before env tx tenant_id =
    bindr (permitted_user env ''STORE_MANAGE'') (\<lambda>u.
    bindr (require_tenant_admin (rq_token env)) (\<lambda>_.
    bindr (require_transaction_id tx) (\<lambda>_.
    bindr (stock_resolve_tenant_id (rq_token env) tenant_id) (\<lambda>tn. Inr (tn, u)))))"

section \<open>Rows\<close>

text \<open>A new row; the columns the request does not give have the defaults of the table.\<close>

definition imported_row :: "uuid \<Rightarrow> uuid \<Rightarrow> uuid \<Rightarrow> stock_data \<Rightarrow> string option \<Rightarrow> string \<Rightarrow> time \<Rightarrow> stock_item" where
  "imported_row i uid tn d epc st now = \<lparr>si_id = i, si_item_uid = uid, si_tenant_id = tn,
     si_store_id = sb_store_id d, si_catalog_product_id = None, si_sku = sb_sku d,
     si_description = sb_description d, si_var1_value = sb_var1_value d, si_var2_value = sb_var2_value d,
     si_epc = epc, si_location_code = sb_location_code d, si_pool = sb_pool d, si_status = Some st,
     si_item_status = ''PENDING'', si_epc_status = ''AVAILABLE'', si_observation = None,
     si_print_status = ''NOT_REQUESTED'', si_issue_state = None,
     si_location_is_vendible = (sb_location_is_vendible d = Some True),
     si_image_asset_id = sb_image_asset_id d, si_image_url = sb_image_url d,
     si_image_thumb_url = sb_image_thumb_url d, si_image_source = sb_image_source d,
     si_image_updated_at = sb_image_updated_at d, si_cost_price = sb_cost_price d,
     si_suggested_price = sb_suggested_price d, si_sale_price = sb_sale_price d, si_created_at = now,
     si_updated_at = None\<rparr>"

definition number_rows ::
    "(nat \<Rightarrow> uuid) \<Rightarrow> uuid \<Rightarrow> string \<Rightarrow> time \<Rightarrow> (stock_data \<times> string option) list \<Rightarrow> stock_item list" where
  "number_rows fresh tn st now ds =
    map (\<lambda>(k, d, epc). imported_row (fresh (2 * k)) (fresh (2 * k + 1)) tn d epc st now) (enumerate 0 ds)"

text \<open>\<^verbatim>\<open>_commit_stock_items\<close>: a violated constraint is a validation error.\<close>

definition commit_stock_items :: "stock_item list \<Rightarrow> stock_db \<Rightarrow> stock_db res" where
  "commit_stock_items rows db =
    bindr (require (stock_unique rows) (raise1 VALIDATION_ERROR ''epc already exists'')) (\<lambda>_.
    Inr (db\<lparr>sk_stock := rows\<rparr>))"

definition has_epc :: "uuid \<Rightarrow> string \<Rightarrow> stock_item \<Rightarrow> bool" where
  "has_epc tn epc r \<longleftrightarrow> si_tenant_id r = tn \<and> si_epc r = Some epc"

section \<open>Import of tagged items\<close>

definition optional_store :: "stock_db \<Rightarrow> uuid \<Rightarrow> stock_data \<Rightarrow> unit res" where
  "optional_store db tn d =
    (if falsy (sb_store_id d) then Inr () else validate_scoped_store db tn (the (sb_store_id d)))"

text \<open>The loop over the lines gathers the lines with their defaults and their tags.\<close>

definition epc_line ::
    "stock_db \<Rightarrow> uuid \<Rightarrow> (stock_data \<times> string) list \<Rightarrow> import_line \<Rightarrow> (stock_data \<times> string) list res" where
  "epc_line db tn seen l =
    (let d = apply_import_defaults (il_data l) in
     bindr (require_location_pool d) (\<lambda>_.
     bindr (optional_store db tn d) (\<lambda>_.
     bindr (validate_non_negative_prices d) (\<lambda>_.
     bindr (validate_expected_status (sb_status d) ''RFID'') (\<lambda>_.
     bindr (require (il_qty l = 1) (raise1 VALIDATION_ERROR ''qty must be exactly 1 for EPC imports'')) (\<lambda>_.
     (case sb_epc d of
        None \<Rightarrow> Inl (raise1 VALIDATION_ERROR ''epc is required for EPC imports'')
      | Some epc \<Rightarrow>
          bindr (validate_epc epc) (\<lambda>_.
          bindr (require (epc \<notin> set (map snd seen)) (raise1 VALIDATION_ERROR ''duplicate epc in request'')) (\<lambda>_.
          Inr (seen @ [(d, epc)]))))))))))"

definition import_epc_body ::
    "request_env \<Rightarrow> import_request \<Rightarrow> uuid \<Rightarrow> user \<Rightarrow> stock_db \<Rightarrow> int stock_result" where
  "import_epc_body env p tn u db =
    bindr (require (ip_lines p \<noteq> []) (raise1 VALIDATION_ERROR ''lines must not be empty'')) (\<lambda>_.
    bindr (for_each (epc_line db tn) [] (ip_lines p)) (\<lambda>ls.
    bindr (require (\<not> list_ex (\<lambda>(d, epc). list_ex (has_epc tn epc) (sk_stock db)) ls)
      (raise1 VALIDATION_ERROR ''epc already exists'')) (\<lambda>_.
    let items = number_rows (rq_fresh env) tn ''RFID'' (rq_now env) (map (\<lambda>(d, epc). (d, Some epc)) ls) in
    bindr (commit_stock_items (sk_stock db @ items) db) (\<lambda>db'.
    Inr (db', int (length items))))))"

definition import_stock_epc ::
    "(app_error \<Rightarrow> string) \<Rightarrow> (int \<Rightarrow> string) \<Rightarrow> request_env \<Rightarrow> import_request
      \<Rightarrow> idem_table \<times> stock_db \<Rightarrow> reply \<times> idem_table \<times> stock_db" where
  "import_stock_epc dump_err dump env p =
    guarded_endpoint env dump_err (\<lambda>_. intake_before env (ip_transaction_id p) (ip_tenant_id p))
      (\<lambda>tn u db. replying 201 dump (import_epc_body env p tn u db))"

section \<open>Import of pieces\<close>

definition sku_line ::
    "stock_db \<Rightarrow> uuid \<Rightarrow> stock_data list \<Rightarrow> import_line \<Rightarrow> stock_data list res" where
  "sku_line db tn items l =
    (let d = apply_import_defaults (il_data l) in
     bindr (require_location_pool d) (\<lambda>_.
     bindr (require (\<not> falsy (sb_store_id d)) (raise1 VALIDATION_ERROR ''store_id is required'')) (\<lambda>_.
     bindr (require (\<not> falsy (sb_sku d)) (raise1 VALIDATION_ERROR ''sku is required'')) (\<lambda>_.
     bindr (validate_scoped_store db tn (the (sb_store_id d))) (\<lambda>_.
     bindr (validate_non_negative_prices d) (\<lambda>_.
     bindr (validate_expected_status (sb_status d) ''PENDING'') (\<lambda>_.
     bindr (require (\<not> il_qty l < 1) (raise1 VALIDATION_ERROR ''qty must be at least 1'')) (\<lambda>_.
     bindr (require (normalize_epc_optional (sb_epc d) = None)
       (raise1 VALIDATION_ERROR ''epc must be empty for SKU imports'')) (\<lambda>_.
     Inr (items @ replicate (nat (il_qty l)) d))))))))))"

definition import_sku_body ::
    "request_env \<Rightarrow> import_request \<Rightarrow> uuid \<Rightarrow> user \<Rightarrow> stock_db \<Rightarrow> int stock_result" where
  "import_sku_body env p tn u db =
    bindr (require (ip_lines p \<noteq> []) (raise1 VALIDATION_ERROR ''lines must not be empty'')) (\<lambda>_.
    bindr (for_each (sku_line db tn) [] (ip_lines p)) (\<lambda>ds.
    let items = number_rows (rq_fresh env) tn ''PENDING'' (rq_now env) (map (\<lambda>d. (d, None)) ds) in
    bindr (commit_stock_items (sk_stock db @ items) db) (\<lambda>db'.
    Inr (db', int (length items)))))"

text \<open>Here the key is optional; a request without one gets a new key, so it is never a replay.\<close>

definition import_stock_sku ::
    "(app_error \<Rightarrow> string) \<Rightarrow> (int \<Rightarrow> string) \<Rightarrow> uuid \<Rightarrow> request_env \<Rightarrow> import_request
      \<Rightarrow> idem_table \<times> stock_db \<Rightarrow> reply \<times> idem_table \<times> stock_db" where
  "import_stock_sku dump_err dump new_key env p =
    guarded_endpoint (env\<lparr>rq_key := py_or (py_or (rq_key env) (rq_legacy_key env)) (Some new_key)\<rparr>) dump_err
      (\<lambda>_. intake_before env (ip_transaction_id p) (ip_tenant_id p))
      (\<lambda>tn u db. replying 201 dump (import_sku_body env p tn u db))"

section \<open>Migration of a piece to a tag\<close>

definition pending_for_migration :: "uuid \<Rightarrow> stock_data \<Rightarrow> stock_item \<Rightarrow> bool" where
  "pending_for_migration tn d r \<longleftrightarrow> si_tenant_id r = tn \<and> si_status r = Some ''PENDING'' \<and> si_epc r = None
    \<and> (sb_sku d \<noteq> None \<longrightarrow> si_sku r = sb_sku d) \<and> (sb_var1_value d \<noteq> None \<longrightarrow> si_var1_value r = sb_var1_value d)
    \<and> (sb_var2_value d \<noteq> None \<longrightarrow> si_var2_value r = sb_var2_value d)
    \<and> (sb_location_code d \<noteq> None \<longrightarrow> si_location_code r = sb_location_code d)
    \<and> (sb_pool d \<noteq> None \<longrightarrow> si_pool r = sb_pool d) \<and> si_store_id r = sb_store_id d
    \<and> (sb_location_is_vendible d \<noteq> None \<longrightarrow> Some (si_location_is_vendible r) = sb_location_is_vendible d)"

definition migrated_row :: "string \<Rightarrow> stock_data \<Rightarrow> time \<Rightarrow> stock_item \<Rightarrow> stock_item" where
  "migrated_row epc d now r = r\<lparr>si_epc := Some epc, si_status := Some ''RFID'',
     si_cost_price := (if sb_cost_price d \<noteq> None then sb_cost_price d else si_cost_price r),
     si_suggested_price := (if sb_suggested_price d \<noteq> None then sb_suggested_price d else si_suggested_price r),
     si_sale_price := (if sb_sale_price d \<noteq> None then sb_sale_price d else si_sale_price r),
     si_store_id := sb_store_id d, si_updated_at := Some now\<rparr>"

definition set_stock_row :: "stock_item \<Rightarrow> stock_db \<Rightarrow> stock_db" where
  "set_stock_row r db = db\<lparr>sk_stock := map (\<lambda>x. if si_id x = si_id r then r else x) (sk_stock db)\<rparr>"

definition migrate_body ::
    "request_env \<Rightarrow> migrate_request \<Rightarrow> uuid \<Rightarrow> user \<Rightarrow> stock_db \<Rightarrow> int stock_result" where
  "migrate_body env p tn u db =
    (let d = mg_data p in
     bindr (require_location_pool d) (\<lambda>_.
     bindr (optional_store db tn d) (\<lambda>_.
     bindr (validate_non_negative_prices d) (\<lambda>_.
     bindr (validate_expected_status (sb_status d) ''PENDING'') (\<lambda>_.
     bindr (validate_epc (mg_epc p)) (\<lambda>_.
     bindr (require (\<not> list_ex (has_epc tn (mg_epc p)) (sk_stock db))
       (raise1 VALIDATION_ERROR ''epc already exists'')) (\<lambda>_.
     (case sort_key si_created_at (filter (pending_for_migration tn d) (sk_stock db)) of
        [] \<Rightarrow> Inl (raise1 VALIDATION_ERROR ''no pending stock available for migration'')
      | r # _ \<Rightarrow> Inr (set_stock_row (migrated_row (mg_epc p) d (rq_now env) r) db, 1)))))))))"

definition migrate_stock_sku_to_epc ::
    "(app_error \<Rightarrow> string) \<Rightarrow> (int \<Rightarrow> string) \<Rightarrow> request_env \<Rightarrow> migrate_request
      \<Rightarrow> idem_table \<times> stock_db \<Rightarrow> reply \<times> idem_table \<times> stock_db" where
  "migrate_stock_sku_to_epc dump_err dump env p =
    guarded_endpoint env dump_err (\<lambda>_. intake_before env (mg_transaction_id p) (mg_tenant_id p))
      (\<lambda>tn u db. replying 200 dump (migrate_body env p tn u db))"

end
