(* ===== verification/Stock_Actions.thy ===== *)
theory Stock_Actions
  imports Stock_Intake
begin

text \<open>
  Stock, the actions of \<^verbatim>\<open>stock_actions\<close> in \<^verbatim>\<open>routers/stock.py\<close>: write-off, the three actions that
  only look a row up, the replacement of a tag, and the end of a tag's life.
\<close>

section \<open>Requests\<close>

datatype epc_type = NON_REUSABLE_LABEL | REUSABLE_TAG

datatype epc_end = MARK_EPC_DAMAGED | RETIRE_EPC | RETURN_EPC_TO_POOL

text \<open>The payload that each action needs. \<open>Invalid_payload\<close> is one that its class refuses.\<close>

datatype stock_action =
    WRITE_OFF (wo_reason: "string option") (wo_qty: int) (wo_data: stock_data)
  | REPRICE (rp_data: stock_data) (rp_price: "money option") (rp_currency: "string option")
  | MARKDOWN_BY_AGE (md_data: stock_data) (md_policy: "string option")
  | REPRINT_LABEL (rl_data: stock_data)
  | REPLACE_EPC (re_current_epc: string) (re_new_epc: string) (re_reason: "string option")
  | End_epc (ee_action: epc_end) (ee_epc: string) (ee_reason: "string option") (ee_type: "epc_type option")
  | Invalid_payload

record stock_action_request =
  sa_transaction_id :: "string option"
  sa_tenant_id :: "string option"
  sa_action :: stock_action

section \<open>Lookups\<close>

definition is_in_transit :: "string option \<Rightarrow> string option \<Rightarrow> bool" where
  "is_in_transit loc pool \<longleftrightarrow> loc = Some ''IN_TRANSIT'' \<or> pool = Some ''IN_TRANSIT''"

text \<open>\<^verbatim>\<open>column == None\<close> becomes \<^verbatim>\<open>IS NULL\<close>, so the filter is equality of options.\<close>

definition stock_match :: "uuid \<Rightarrow> stock_data \<Rightarrow> stock_item \<Rightarrow> bool" where
  "stock_match tn d r \<longleftrightarrow> si_tenant_id r = tn \<and> si_sku r = sb_sku d \<and> si_description r = sb_description d
    \<and> si_var1_value r = sb_var1_value d \<and> si_var2_value r = sb_var2_value d \<and> si_epc r = sb_epc d
    \<and> si_location_code r = sb_location_code d \<and> si_pool r = sb_pool d \<and> si_store_id r = sb_store_id d
    \<and> si_status r = sb_status d \<and> Some (si_location_is_vendible r) = sb_location_is_vendible d
    \<and> si_image_asset_id r = sb_image_asset_id d \<and> si_image_url r = sb_image_url d
    \<and> si_image_thumb_url r = sb_image_thumb_url d \<and> si_image_source r = sb_image_source d
    \<and> si_image_updated_at r = sb_image_updated_at d"

definition delete_stock :: "stock_item list \<Rightarrow> stock_db \<Rightarrow> stock_db" where
  "delete_stock rows db = db\<lparr>sk_stock := filter (\<lambda>r. si_id r \<notin> si_id ` set rows) (sk_stock db)\<rparr>"

section \<open>Actions\<close>

text \<open>The rows a write-off removes.\<close>

definition write_off_tagged :: "uuid \<Rightarrow> int \<Rightarrow> stock_data \<Rightarrow> stock_db \<Rightarrow> stock_item list res" where
  "write_off_tagged tn qty d db =
    bindr (require (qty = 1) (raise1 VALIDATION_ERROR ''qty must be 1 for RFID write-off'')) (\<lambda>_.
    bindr (require (\<not> falsy (sb_epc d)) (raise1 VALIDATION_ERROR ''epc is required for RFID write-off'')) (\<lambda>_.
    bindr (validate_epc (the (sb_epc d))) (\<lambda>_.
    (case find (has_epc tn (the (sb_epc d))) (sk_stock db) of
       None \<Rightarrow> Inl (raise1 VALIDATION_ERROR ''stock item not found'')
     | Some r \<Rightarrow>
         bindr (require (si_location_code r = sb_location_code d \<and> si_pool r = sb_pool d \<and> si_status r = sb_status d
             \<and> Some (si_location_is_vendible r) = sb_location_is_vendible d)
           (raise1 VALIDATION_ERROR ''pool/location/status mismatch for write-off'')) (\<lambda>_.
         Inr [r])))))"

definition write_off_pieces :: "uuid \<Rightarrow> int \<Rightarrow> stock_data \<Rightarrow> stock_db \<Rightarrow> stock_item list res" where
  "write_off_pieces tn qty d db =
    bindr (require (sb_epc d = None) (raise1 VALIDATION_ERROR ''epc must be empty for PENDING write-off'')) (\<lambda>_.
    let rows = take (nat qty) (sort_key si_created_at (filter (stock_match tn d) (sk_stock db))) in
    bindr (require (\<not> int (length rows) < qty)
      (raise1 VALIDATION_ERROR ''insufficient pending stock for write-off'')) (\<lambda>_. Inr rows))"

definition write_off :: "uuid \<Rightarrow> string option \<Rightarrow> int \<Rightarrow> stock_data \<Rightarrow> stock_db \<Rightarrow> int stock_result" where
  "write_off tn reason qty d db =
    bindr (require_location_pool d) (\<lambda>_.
    bindr (require (sb_status d \<in> {Some ''RFID'', Some ''PENDING''})
      (raise1 VALIDATION_ERROR ''status must be RFID or PENDING'')) (\<lambda>_.
    bindr (require (\<not> qty < 1) (raise1 VALIDATION_ERROR ''qty must be at least 1'')) (\<lambda>_.
    bindr (require (\<not> (\<not> falsy reason \<and> py_upper (the reason) = ''LOST''
        \<and> is_in_transit (sb_location_code d) (sb_pool d)))
      (raise1 VALIDATION_ERROR ''lost write-off not allowed for IN_TRANSIT locations'')) (\<lambda>_.
    bindr (if sb_status d = Some ''RFID'' then write_off_tagged tn qty d db else write_off_pieces tn qty d db) (\<lambda>rows.
    Inr (delete_stock rows db, int (length rows)))))))"

text \<open>Repricing, markdown and reprinting find a row and leave it: the price is in the audit only.\<close>

definition look_up_row :: "uuid \<Rightarrow> string \<Rightarrow> stock_data \<Rightarrow> stock_db \<Rightarrow> int stock_result" where
  "look_up_row tn msg d db =
    bindr (require_location_pool d) (\<lambda>_.
    (case find (stock_match tn d) (sk_stock db) of
       None \<Rightarrow> Inl (raise1 VALIDATION_ERROR msg)
     | Some r \<Rightarrow> Inr (db, 1)))"

definition replace_epc :: "uuid \<Rightarrow> time \<Rightarrow> string \<Rightarrow> string \<Rightarrow> stock_db \<Rightarrow> int stock_result" where
  "replace_epc tn now current_epc new_epc db =
    bindr (require (current_epc \<noteq> new_epc)
      (raise1 VALIDATION_ERROR ''new_epc must differ from current_epc'')) (\<lambda>_.
    bindr (validate_epc current_epc) (\<lambda>_.
    bindr (validate_epc new_epc) (\<lambda>_.
    bindr (require (\<not> list_ex (has_epc tn new_epc) (sk_stock db)) (raise1 VALIDATION_ERROR ''epc already exists'')) (\<lambda>_.
    (case find (has_epc tn current_epc) (sk_stock db) of
       None \<Rightarrow> Inl (raise1 VALIDATION_ERROR ''stock item not found'')
     | Some r \<Rightarrow>
         bindr (require (si_status r = Some ''RFID'')
           (raise1 VALIDATION_ERROR ''status must be RFID to replace epc'')) (\<lambda>_.
         Inr (set_stock_row (r\<lparr>si_epc := Some new_epc, si_updated_at := Some now\<rparr>) db, 1)))))))"

definition end_epc :: "uuid \<Rightarrow> time \<Rightarrow> epc_end \<Rightarrow> string \<Rightarrow> epc_type option \<Rightarrow> stock_db \<Rightarrow> int stock_result" where
  "end_epc tn now act epc ty db =
    bindr (validate_epc epc) (\<lambda>_.
    (case find (has_epc tn epc) (sk_stock db) of
       None \<Rightarrow> Inl (raise1 VALIDATION_ERROR ''stock item not found'')
     | Some r \<Rightarrow>
         bindr (require (si_status r = Some ''RFID'')
           (raise1 VALIDATION_ERROR ''status must be RFID for EPC lifecycle action'')) (\<lambda>_.
         bindr (require (\<not> (act = RETURN_EPC_TO_POOL \<and> ty = None))
           (raise1 VALIDATION_ERROR ''epc_type is required to return to pool'')) (\<lambda>_.
         bindr (require (\<not> (act = RETURN_EPC_TO_POOL \<and> ty = Some NON_REUSABLE_LABEL))
           (raise1 VALIDATION_ERROR ''non reusable labels cannot be returned to pool'')) (\<lambda>_.
         Inr (set_stock_row (r\<lparr>si_epc := None, si_status := Some ''PENDING'', si_updated_at := Some now\<rparr>) db, 1))))))"

definition stock_action_body ::
    "request_env \<Rightarrow> stock_action \<Rightarrow> uuid \<Rightarrow> user \<Rightarrow> stock_db \<Rightarrow> int stock_result" where
  "stock_action_body env a tn u db = (case a of
     WRITE_OFF reason qty d \<Rightarrow> write_off tn reason qty d db
   | REPRICE d price currency \<Rightarrow> look_up_row tn ''stock item not found for repricing'' d db
   | MARKDOWN_BY_AGE d policy \<Rightarrow> look_up_row tn ''stock item not found for markdown'' d db
   | REPRINT_LABEL d \<Rightarrow> look_up_row tn ''stock item not found for reprint'' d db
   | REPLACE_EPC current_epc new_epc reason \<Rightarrow> replace_epc tn (rq_now env) current_epc new_epc db
   | End_epc act epc reason ty \<Rightarrow> end_epc tn (rq_now env) act epc ty db
   | Invalid_payload \<Rightarrow> Inl (raise1 VALIDATION_ERROR ''invalid action payload''))"

definition stock_actions_before :: "request_env \<Rightarrow> stock_action_request \<Rightarrow> (uuid \<times> user) res" where
  "stock_actions_before env p =
    bindr (permitted_user env ''STORE_MANAGE'') (\<lambda>u.
    bindr (require_transaction_id (sa_transaction_id p)) (\<lambda>_.
    bindr (stock_resolve_tenant_id (rq_token env) (sa_tenant_id p)) (\<lambda>tn. Inr (tn, u))))"

definition stock_actions ::
    "(app_error \<Rightarrow> string) \<Rightarrow> (int \<Rightarrow> string) \<Rightarrow> request_env \<Rightarrow> stock_action_request
      \<Rightarrow> idem_table \<times> stock_db \<Rightarrow> reply \<times> idem_table \<times> stock_db" where
  "stock_actions dump_err dump env p =
    guarded_endpoint env dump_err (\<lambda>_. stock_actions_before env p)
      (\<lambda>tn u db. replying 200 dump (stock_action_body env (sa_action p) tn u db))"

end
