(* ===== verification/Catalog_Products.thy ===== *)
theory Catalog_Products
  imports Stock_Intake
begin

text \<open>
  The product catalogue: \<^verbatim>\<open>services/catalog_products.py\<close> and its endpoints in \<^verbatim>\<open>routers/stock.py\<close>.
  A product is found by its sku and variants up to case and surrounding blanks; what describes it
  is filled where it is blank, and never overwritten. Amounts and dates come parsed.
\<close>

section \<open>Texts\<close>

definition normalize_key :: "string option \<Rightarrow> string" where
  "normalize_key v = py_upper (py_strip (or_empty v))"

definition is_blank_text :: "string option \<Rightarrow> bool" where
  "is_blank_text v = (case v of None \<Rightarrow> True | Some x \<Rightarrow> py_strip x = [])"

section \<open>Requests\<close>

record product_line =
  pn_sku :: "string option"
  pn_variant_1 :: "string option"
  pn_variant_2 :: "string option"
  pn_description :: "string option"
  pn_brand :: "string option"
  pn_category :: "string option"
  pn_style :: "string option"
  pn_color :: "string option"
  pn_size :: "string option"
  pn_default_pool :: "string option"
  pn_default_location_code :: "string option"
  pn_sellable :: bool
  pn_cost_gtq :: "money option"
  pn_original_cost :: "money option"
  pn_source_currency :: "string option"
  pn_exchange_rate :: "money option"
  pn_suggested_price :: "money option"
  pn_default_sale_price :: "money option"
  pn_reference_price_original :: "money option"
  pn_reference_price_gtq :: "money option"
  pn_supplier :: "string option"
  pn_order_number :: "string option"
  pn_order_date :: "time option"

record product_source =
  pz_source_type :: string
  pz_extraction_id :: "uuid option"
  pz_preload_session_id :: "uuid option"
  pz_preload_line_id :: "uuid option"
  pz_user_id :: "uuid option"
  pz_update_sale_price :: bool

text \<open>The fields that only describe, in the order of the loop.\<close>

definition product_texts :: "product_line \<Rightarrow> (string \<times> string option) list" where
  "product_texts l = [(''description'', pn_description l), (''brand'', pn_brand l),
     (''category'', pn_category l), (''style'', pn_style l), (''variant_1'', pn_variant_1 l),
     (''variant_2'', pn_variant_2 l), (''color'', pn_color l), (''size'', pn_size l),
     (''default_pool'', pn_default_pool l), (''default_location_code'', pn_default_location_code l)]"

section \<open>Upsert\<close>

definition product_sku :: "product_line \<Rightarrow> string" where
  "product_sku l = (let s = py_strip (or_empty (pn_sku l)) in if s = [] then ''UNSPECIFIED'' else s)"

definition product_key :: "product_line \<Rightarrow> string \<times> string \<times> string" where
  "product_key l = (normalize_key (Some (product_sku l)), normalize_key (pn_variant_1 l), normalize_key (pn_variant_2 l))"

definition new_product :: "uuid \<Rightarrow> uuid \<Rightarrow> time \<Rightarrow> product_line \<Rightarrow> catalog_product" where
  "new_product i tn now l = \<lparr>cp_id = i, cp_tenant_id = tn, cp_sku = product_sku l, cp_normalized = product_key l,
     cp_texts = map (\<lambda>(k, v). (k, if k \<in> {''variant_1'', ''variant_2''} then v else None)) (product_texts l),
     cp_sellable_default = True, cp_reference_price_original = None, cp_reference_price_gtq = None,
     cp_last_source_supplier = None, cp_last_source_order_number = None, cp_last_source_order_date = None,
     cp_last_cost_gtq = None, cp_last_original_cost = None, cp_last_source_currency = None,
     cp_last_exchange_rate = None, cp_suggested_price_gtq = None, cp_default_sale_price_gtq = None,
     cp_price_review_required = False, cp_status = ''ACTIVE'', cp_created_at = now, cp_updated_at = now\<rparr>"

text \<open>A text of a new product is set if it is given; one of an old product if it was blank.\<close>

definition fill_text :: "bool \<Rightarrow> string option \<Rightarrow> string option \<Rightarrow> string option" where
  "fill_text created current v =
    (if created then (if v \<noteq> None then v else current)
     else if is_blank_text current \<and> \<not> is_blank_text v then v else current)"

definition given :: "'a option \<Rightarrow> 'a option \<Rightarrow> 'a option" where
  "given v current = (if v \<noteq> None then v else current)"

definition fill_fields :: "bool \<Rightarrow> product_line \<Rightarrow> catalog_product \<Rightarrow> catalog_product" where
  "fill_fields created l p = p\<lparr>
     cp_texts := map (\<lambda>(k, current). (k, case map_of (product_texts l) k of
       None \<Rightarrow> current | Some v \<Rightarrow> fill_text created current v)) (cp_texts p),
     cp_sellable_default := pn_sellable l,
     cp_reference_price_original := given (pn_reference_price_original l) (cp_reference_price_original p),
     cp_reference_price_gtq := given (pn_reference_price_gtq l) (cp_reference_price_gtq p),
     cp_last_source_supplier := given (pn_supplier l) (cp_last_source_supplier p),
     cp_last_source_order_number := given (pn_order_number l) (cp_last_source_order_number p),
     cp_last_source_order_date := given (pn_order_date l) (cp_last_source_order_date p)\<rparr>"

text \<open>A given cost is the last cost; a cost that differs from the last one asks for a review.\<close>

definition cost_fields :: "product_line \<Rightarrow> bool \<Rightarrow> money \<Rightarrow> catalog_product \<Rightarrow> catalog_product" where
  "cost_fields l update_sale cost p = p\<lparr>cp_last_cost_gtq := Some cost, cp_last_original_cost := pn_original_cost l,
     cp_last_source_currency := pn_source_currency l, cp_last_exchange_rate := pn_exchange_rate l,
     cp_suggested_price_gtq := given (pn_suggested_price l) (cp_suggested_price_gtq p),
     cp_default_sale_price_gtq :=
       (if pn_default_sale_price l \<noteq> None \<and> (update_sale \<or> cp_default_sale_price_gtq p = None)
        then pn_default_sale_price l else cp_default_sale_price_gtq p),
     cp_price_review_required :=
       (cp_price_review_required p \<or> cp_last_cost_gtq p \<noteq> None \<and> cp_last_cost_gtq p \<noteq> Some cost)\<rparr>"

definition cost_entry ::
    "uuid \<Rightarrow> uuid \<Rightarrow> product_line \<Rightarrow> product_source \<Rightarrow> catalog_product \<Rightarrow> money \<Rightarrow> time \<Rightarrow> cost_history" where
  "cost_entry i tn l z p cost now = \<lparr>ch_id = i, ch_tenant_id = tn, ch_catalog_product_id = cp_id p,
     ch_source_type = pz_source_type z, ch_extraction_id = pz_extraction_id z,
     ch_preload_session_id = pz_preload_session_id z,
     ch_preload_line_id = pz_preload_line_id z,
     ch_source_order_number = pn_order_number l, ch_source_order_date = pn_order_date l,
     ch_source_supplier = pn_supplier l, ch_source_currency = pn_source_currency l,
     ch_exchange_rate = pn_exchange_rate l, ch_reference_price_original = pn_reference_price_original l,
     ch_reference_price_gtq = pn_reference_price_gtq l,
     ch_original_cost = pn_original_cost l, ch_cost_gtq = cost,
     ch_suggested_price_gtq = pn_suggested_price l, ch_created_by_user_id = pz_user_id z, ch_created_at = now\<rparr>"

record upsert_result =
  ur_product :: catalog_product
  ur_created :: bool
  ur_updated :: bool
  ur_review_required :: bool

definition find_product :: "uuid \<Rightarrow> string \<times> string \<times> string \<Rightarrow> stock_db \<Rightarrow> catalog_product option" where
  "find_product tn key db = find (\<lambda>p. cp_tenant_id p = tn \<and> cp_normalized p = key) (sk_products db)"

definition set_product :: "catalog_product \<Rightarrow> stock_db \<Rightarrow> stock_db" where
  "set_product p db = db\<lparr>sk_products := map (\<lambda>x. if cp_id x = cp_id p then p else x) (sk_products db)\<rparr>"

definition upsert_catalog_product ::
    "(nat \<Rightarrow> uuid) \<Rightarrow> time \<Rightarrow> uuid \<Rightarrow> product_line \<Rightarrow> product_source \<Rightarrow> stock_db \<Rightarrow> stock_db \<times> upsert_result" where
  "upsert_catalog_product fresh now tn l z db =
    (let (db0, p0, created) = (case find_product tn (product_key l) db of
           Some p \<Rightarrow> (db, p, False)
         | None \<Rightarrow> let p = new_product (fresh 0) tn now l in (db\<lparr>sk_products := sk_products db @ [p]\<rparr>, p, True));
         p1 = fill_fields created l p0;
         (p2, costs) = (case pn_cost_gtq l of
           None \<Rightarrow> (p1, [])
         | Some c \<Rightarrow> (cost_fields l (pz_update_sale_price z) c p1, [cost_entry (fresh 1) tn l z p1 c now]));
         p3 = p2\<lparr>cp_updated_at := now\<rparr>
     in ((set_product p3 db0)\<lparr>sk_costs := sk_costs db0 @ costs\<rparr>,
         \<lparr>ur_product = p3, ur_created = created,
          ur_updated = ((p1 \<noteq> p0 \<or> pn_cost_gtq l \<noteq> None) \<and> \<not> created),
          ur_review_required = cp_price_review_required p3\<rparr>))"

definition preload_product_line :: "preload_line \<Rightarrow> product_line" where
  "preload_product_line l = \<lparr>pn_sku = pl_sku l, pn_variant_1 = pl_var1_value l, pn_variant_2 = pl_var2_value l,
     pn_description = pl_description l, pn_brand = None, pn_category = None, pn_style = None, pn_color = None,
     pn_size = None, pn_default_pool = pl_pool l, pn_default_location_code = pl_location_code l,
     pn_sellable = pl_vendible l, pn_cost_gtq = pl_cost_price l, pn_original_cost = None,
     pn_source_currency = None, pn_exchange_rate = None, pn_suggested_price = pl_suggested_price l,
     pn_default_sale_price = pl_sale_price l, pn_reference_price_original = None, pn_reference_price_gtq = None,
     pn_supplier = None, pn_order_number = None, pn_order_date = None\<rparr>"

definition upsert_from_preload_line ::
    "(nat \<Rightarrow> uuid) \<Rightarrow> time \<Rightarrow> uuid option \<Rightarrow> preload_line \<Rightarrow> stock_db \<Rightarrow> stock_db \<times> upsert_result" where
  "upsert_from_preload_line fresh now u l db =
    upsert_catalog_product fresh now (pl_tenant_id l) (preload_product_line l)
      \<lparr>pz_source_type = ''PRELOAD'', pz_extraction_id = None, pz_preload_session_id = Some (pl_preload_session_id l),
       pz_preload_line_id = Some (pl_id l), pz_user_id = u, pz_update_sale_price = False\<rparr> db"

section \<open>Endpoints\<close>

record catalog_request =
  cq_store_id :: "uuid option"
  cq_source_type :: string
  cq_update_sale_price :: bool
  cq_lines :: "product_line list"

record upsert_counts =
  uc_created :: int
  uc_updated :: int
  uc_review_required :: int

text \<open>The endpoints pass no default sale price.\<close>

definition count_upsert ::
    "request_env \<Rightarrow> uuid \<Rightarrow> catalog_request \<Rightarrow> nat \<times> product_line \<Rightarrow> stock_db \<times> upsert_counts \<Rightarrow> stock_db \<times> upsert_counts" where
  "count_upsert env tn q kl acc = (case kl of (k, l) \<Rightarrow> case acc of (db, c) \<Rightarrow>
    let (db', r) = upsert_catalog_product (\<lambda>i. rq_fresh env (2 * k + i)) (rq_now env) tn
          (l\<lparr>pn_default_sale_price := None\<rparr>)
          \<lparr>pz_source_type = cq_source_type q, pz_extraction_id = None, pz_preload_session_id = None, pz_preload_line_id = None,
           pz_user_id = Some (td_sub (rq_token env)), pz_update_sale_price = cq_update_sale_price q\<rparr> db
    in (db', \<lparr>uc_created = uc_created c + (if ur_created r then 1 else 0),
         uc_updated = uc_updated c + (if ur_updated r then 1 else 0),
         uc_review_required = uc_review_required c + (if ur_review_required r then 1 else 0)\<rparr>))"

definition bulk_upsert_catalog_products ::
    "request_env \<Rightarrow> string option \<Rightarrow> catalog_request \<Rightarrow> stock_db \<Rightarrow> upsert_counts stock_result" where
  "bulk_upsert_catalog_products env tenant_id q db =
    bindr (require_active_user (rq_directory env) (rq_token env)) (\<lambda>u.
    bindr (stock_resolve_tenant_id (rq_token env) tenant_id) (\<lambda>tn.
    bindr (require_tenant_admin (rq_token env)) (\<lambda>_.
    bindr (if falsy (cq_store_id q) then Inr () else validate_scoped_store db tn (the (cq_store_id q))) (\<lambda>_.
    Inr (fold (count_upsert env tn q) (enumerate 0 (cq_lines q))
      (db, \<lparr>uc_created = 0, uc_updated = 0, uc_review_required = 0\<rparr>))))))"

text \<open>One product is a list of one.\<close>

definition upsert_catalog_product_route ::
    "request_env \<Rightarrow> string option \<Rightarrow> catalog_request \<Rightarrow> product_line \<Rightarrow> stock_db \<Rightarrow> upsert_counts stock_result" where
  "upsert_catalog_product_route env tenant_id q l db =
    bulk_upsert_catalog_products env tenant_id (q\<lparr>cq_lines := [l]\<rparr>) db"

end
