(* ===== verification/Stock_Preload.thy ===== *)
theory Stock_Preload
  imports Stock_Actions Catalog_Products
begin

text \<open>
  Stock, the preload workflow of \<^verbatim>\<open>routers/stock.py\<close>: sessions of lines that are completed, saved
  as stock with or without a tag, and given a tag later; the tags' assignments and their release;
  issues of items; and the images of a sku.
\<close>

section \<open>Sessions\<close>

record preload_input =
  pi_sku :: "string option"
  pi_epc :: "string option"
  pi_description :: "string option"
  pi_var1_value :: "string option"
  pi_var2_value :: "string option"
  pi_pool :: "string option"
  pi_location_code :: "string option"
  pi_vendible :: bool
  pi_cost_price :: "money option"
  pi_suggested_price :: "money option"
  pi_sale_price :: "money option"
  pi_observation :: "string option"
  pi_image_mode :: string
  pi_image_asset_id :: "uuid option"
  pi_source_row_number :: "int option"
  pi_qty :: int

record preload_request =
  pq_tenant_id :: "string option"
  pq_store_id :: "uuid option"
  pq_source_file_name :: "string option"
  pq_lines :: "preload_input list"

text \<open>What every endpoint here begins with.\<close>

definition stock_tenant :: "request_env \<Rightarrow> string option \<Rightarrow> uuid res" where
  "stock_tenant env tenant_id =
    bindr (require_active_user (rq_directory env) (rq_token env)) (\<lambda>u.
    stock_resolve_tenant_id (rq_token env) tenant_id)"

definition staged_line ::
    "uuid \<Rightarrow> uuid \<Rightarrow> preload_session \<Rightarrow> time \<Rightarrow> preload_input \<Rightarrow> preload_line" where
  "staged_line i uid s now x = \<lparr>pl_id = i, pl_preload_session_id = ps_id s, pl_item_uid = uid,
     pl_tenant_id = ps_tenant_id s, pl_store_id = ps_store_id s, pl_catalog_product_id = None,
     pl_sku = pi_sku x, pl_epc = normalize_epc_optional (pi_epc x), pl_description = pi_description x,
     pl_var1_value = pi_var1_value x, pl_var2_value = pi_var2_value x, pl_pool = pi_pool x,
     pl_location_code = pi_location_code x, pl_vendible = pi_vendible x, pl_cost_price = pi_cost_price x,
     pl_suggested_price = pi_suggested_price x, pl_sale_price = pi_sale_price x,
     pl_item_status = ''PENDING'', pl_epc_status = ''AVAILABLE'', pl_observation = pi_observation x,
     pl_image_mode = pi_image_mode x, pl_image_asset_id = pi_image_asset_id x, pl_print_status = ''NOT_REQUESTED'',
     pl_source_file_name = ps_source_file_name s, pl_source_row_number = pi_source_row_number x,
     pl_lifecycle_state = ''STAGING'', pl_saved_stock_item_id = None, pl_created_at = now,
     pl_updated_at = Some now\<rparr>"

definition staged_lines :: "(nat \<Rightarrow> uuid) \<Rightarrow> preload_session \<Rightarrow> time \<Rightarrow> preload_input list \<Rightarrow> preload_line list" where
  "staged_lines fresh s now xs =
    map (\<lambda>(k, x). staged_line (fresh (2 * k + 1)) (fresh (2 * k + 2)) s now x)
      (enumerate 0 (concat (map (\<lambda>x. replicate (nat (max 1 (pi_qty x))) x) xs)))"

definition session_lines :: "uuid \<Rightarrow> stock_db \<Rightarrow> preload_line list" where
  "session_lines i db = sort_key pl_created_at (filter (\<lambda>l. pl_preload_session_id l = i) (sk_lines db))"

definition create_preload_session ::
    "request_env \<Rightarrow> preload_request \<Rightarrow> stock_db \<Rightarrow> (preload_session \<times> preload_line list) stock_result" where
  "create_preload_session env p db =
    bindr (stock_tenant env (pq_tenant_id p)) (\<lambda>tn.
    bindr (require_tenant_admin (rq_token env)) (\<lambda>_.
    let s = \<lparr>ps_id = rq_fresh env 0, ps_tenant_id = tn, ps_store_id = pq_store_id p,
          ps_source_file_name = pq_source_file_name p, ps_status = ''ACTIVE'',
          ps_created_by_user_id = Some (td_sub (rq_token env)), ps_created_at = rq_now env,
          ps_updated_at = Some (rq_now env)\<rparr>;
        db' = db\<lparr>sk_sessions := sk_sessions db @ [s],
          sk_lines := sk_lines db @ staged_lines (rq_fresh env) s (rq_now env) (pq_lines p)\<rparr>
    in Inr (db', (s, session_lines (ps_id s) db'))))"

definition get_preload_session ::
    "request_env \<Rightarrow> string option \<Rightarrow> uuid \<Rightarrow> stock_db \<Rightarrow> (preload_session \<times> preload_line list) res" where
  "get_preload_session env tenant_id i db =
    bindr (stock_tenant env tenant_id) (\<lambda>tn.
    (case find (\<lambda>s. ps_id s = i) (sk_sessions db) of
       None \<Rightarrow> Inl (raise1 VALIDATION_ERROR ''preload session not found'')
     | Some s \<Rightarrow>
         bindr (require (ps_tenant_id s = tn) (raise1 VALIDATION_ERROR ''preload session not found'')) (\<lambda>_.
         Inr (s, session_lines (ps_id s) db))))"

definition find_preload_line :: "uuid \<Rightarrow> uuid \<Rightarrow> stock_db \<Rightarrow> preload_line res" where
  "find_preload_line i tn db =
    (case find (\<lambda>l. pl_id l = i) (sk_lines db) of
       None \<Rightarrow> Inl (raise1 VALIDATION_ERROR ''preload line not found'')
     | Some l \<Rightarrow>
         bindr (require (pl_tenant_id l = tn) (raise1 VALIDATION_ERROR ''preload line not found'')) (\<lambda>_. Inr l))"

definition set_preload_line :: "preload_line \<Rightarrow> stock_db \<Rightarrow> stock_db" where
  "set_preload_line l db = db\<lparr>sk_lines := map (\<lambda>x. if pl_id x = pl_id l then l else x) (sk_lines db)\<rparr>"

record preload_patch =
  pp_patch_sale_price :: "money option"
  pp_patch_epc :: "string option"
  pp_patch_pool :: "string option"
  pp_patch_location_code :: "string option"
  pp_patch_vendible :: "bool option"
  pp_patch_observation :: "string option"
  pp_patch_image_mode :: "string option"
  pp_patch_image_asset_id :: "uuid option"

definition patch_preload_line ::
    "request_env \<Rightarrow> string option \<Rightarrow> uuid \<Rightarrow> preload_patch \<Rightarrow> stock_db \<Rightarrow> preload_line stock_result" where
  "patch_preload_line env tenant_id i p db =
    bindr (stock_tenant env tenant_id) (\<lambda>tn.
    bindr (find_preload_line i tn db) (\<lambda>l.
    let l' = l\<lparr>pl_sale_price := given (pp_patch_sale_price p) (pl_sale_price l),
          pl_epc := given (pp_patch_epc p) (pl_epc l), pl_pool := given (pp_patch_pool p) (pl_pool l),
          pl_location_code := given (pp_patch_location_code p) (pl_location_code l),
          pl_vendible := (case pp_patch_vendible p of None \<Rightarrow> pl_vendible l | Some v \<Rightarrow> v),
          pl_observation := given (pp_patch_observation p) (pl_observation l),
          pl_image_mode := (case pp_patch_image_mode p of None \<Rightarrow> pl_image_mode l | Some m \<Rightarrow> m),
          pl_image_asset_id := given (pp_patch_image_asset_id p) (pl_image_asset_id l),
          pl_updated_at := Some (rq_now env)\<rparr>
    in Inr (set_preload_line l' db, l')))"

section \<open>Tags\<close>

definition tag_conflict :: app_error where
  "tag_conflict = raise1 BUSINESS_CONFLICT ''epc already active on another in-stock item''"

text \<open>An active assignment holds a tag, and so does a row, but only one whose item is active.\<close>

definition assert_epc_available :: "uuid \<Rightarrow> string \<Rightarrow> stock_db \<Rightarrow> unit res" where
  "assert_epc_available tn epc db =
    bindr (require (\<not> list_ex (\<lambda>a. ea_tenant_id a = tn \<and> ea_epc a = epc \<and> ea_active a) (sk_tags db)) tag_conflict) (\<lambda>_.
    require (\<not> list_ex (\<lambda>r. has_epc tn epc r \<and> si_item_status r = ''ACTIVE'') (sk_stock db)) tag_conflict)"

text \<open>A flush that violates a constraint raises outside of any handler: an internal error.\<close>

definition flush_stock :: "stock_db \<Rightarrow> unit res" where
  "flush_stock db = require (stock_unique (sk_stock db)) (raise0 INTERNAL_ERROR)"

definition commit_preload_epc_write :: "stock_db \<Rightarrow> unit res" where
  "commit_preload_epc_write db = require (stock_unique (sk_stock db) \<and> tags_unique (sk_tags db)) tag_conflict"

definition new_assignment :: "uuid \<Rightarrow> preload_line \<Rightarrow> string \<Rightarrow> time \<Rightarrow> epc_assignment" where
  "new_assignment i l epc now = \<lparr>ea_id = i, ea_tenant_id = pl_tenant_id l, ea_store_id = pl_store_id l,
     ea_epc = epc, ea_item_uid = pl_item_uid l, ea_assigned_at = now, ea_released_at = None, ea_active = True,
     ea_last_release_reason = None, ea_status = ''ASSIGNED'', ea_updated_at = Some now\<rparr>"

text \<open>The row of a saved line: pending a tag, or with its tag.\<close>

definition saved_row :: "uuid \<Rightarrow> preload_line \<Rightarrow> uuid option \<Rightarrow> string option \<Rightarrow> time \<Rightarrow> stock_item" where
  "saved_row i l product epc now = \<lparr>si_id = i, si_item_uid = pl_item_uid l, si_tenant_id = pl_tenant_id l,
     si_store_id = pl_store_id l, si_catalog_product_id = product, si_sku = pl_sku l,
     si_description = pl_description l, si_var1_value = pl_var1_value l, si_var2_value = pl_var2_value l,
     si_epc = epc, si_location_code = pl_location_code l, si_pool = pl_pool l,
     si_status = Some (if epc = None then ''PENDING'' else ''RFID''),
     si_item_status = (if epc = None then ''PENDING_EPC'' else ''ACTIVE''),
     si_epc_status = (if epc = None then ''AVAILABLE'' else ''ASSIGNED''),
     si_observation = pl_observation l,
     si_print_status = (if epc = None then ''NOT_REQUESTED'' else ''READY_TO_PRINT''),
     si_issue_state = None, si_location_is_vendible = pl_vendible l, si_image_asset_id = pl_image_asset_id l,
     si_image_url = None, si_image_thumb_url = None, si_image_source = None, si_image_updated_at = None,
     si_cost_price = pl_cost_price l, si_suggested_price = pl_suggested_price l, si_sale_price = pl_sale_price l,
     si_created_at = now, si_updated_at = Some now\<rparr>"

definition add_stock :: "stock_item \<Rightarrow> stock_db \<Rightarrow> stock_db" where
  "add_stock r db = db\<lparr>sk_stock := sk_stock db @ [r]\<rparr>"

definition add_tag :: "epc_assignment \<Rightarrow> stock_db \<Rightarrow> stock_db" where
  "add_tag a db = db\<lparr>sk_tags := sk_tags db @ [a]\<rparr>"

definition save_pending ::
    "request_env \<Rightarrow> preload_line \<Rightarrow> uuid \<Rightarrow> stock_db \<Rightarrow> preload_line stock_result" where
  "save_pending env l product db =
    (let r = saved_row (rq_fresh env 2) l (Some product) None (rq_now env);
         l' = l\<lparr>pl_catalog_product_id := Some product, pl_lifecycle_state := ''PENDING_EPC'',
           pl_item_status := ''PENDING_EPC'', pl_saved_stock_item_id := Some (si_id r),
           pl_updated_at := Some (rq_now env)\<rparr>;
         db1 = add_stock r db in
     bindr (flush_stock db1) (\<lambda>_. Inr (set_preload_line l' db1, l')))"

definition save_tagged ::
    "request_env \<Rightarrow> preload_line \<Rightarrow> uuid \<Rightarrow> string \<Rightarrow> stock_db \<Rightarrow> preload_line stock_result" where
  "save_tagged env l product epc db =
    bindr (assert_epc_available (pl_tenant_id l) epc db) (\<lambda>_.
    let r = saved_row (rq_fresh env 2) l (Some product) (Some epc) (rq_now env);
        l' = l\<lparr>pl_catalog_product_id := Some product, pl_lifecycle_state := ''SAVED_EPC_FINAL'',
          pl_item_status := ''ACTIVE'', pl_epc_status := ''ASSIGNED'', pl_saved_stock_item_id := Some (si_id r),
          pl_updated_at := Some (rq_now env)\<rparr>;
        db1 = add_stock r db in
    bindr (flush_stock db1) (\<lambda>_.
    let db2 = set_preload_line l' (add_tag (new_assignment (rq_fresh env 3) l epc (rq_now env)) db1) in
    bindr (commit_preload_epc_write db2) (\<lambda>_. Inr (db2, l'))))"

definition save_preload_line ::
    "request_env \<Rightarrow> string option \<Rightarrow> uuid \<Rightarrow> stock_db \<Rightarrow> preload_line stock_result" where
  "save_preload_line env tenant_id i db =
    bindr (stock_tenant env tenant_id) (\<lambda>tn.
    bindr (find_preload_line i tn db) (\<lambda>l.
    bindr (require (case pl_sale_price l of None \<Rightarrow> False | Some x \<Rightarrow> x > 0)
      (raise1 VALIDATION_ERROR ''sale_price is required and must be greater than 0'')) (\<lambda>_.
    let (db1, r) = upsert_from_preload_line (rq_fresh env) (rq_now env) (Some (td_sub (rq_token env))) l db;
        product = cp_id (ur_product r) in
    (if falsy (pl_epc l) then save_pending env l product db1
     else save_tagged env l product (the (pl_epc l)) db1))))"

definition list_pending_epc ::
    "request_env \<Rightarrow> string option \<Rightarrow> uuid option \<Rightarrow> query_scope \<Rightarrow> stock_db \<Rightarrow> preload_line list res" where
  "list_pending_epc env tenant_id store_id sc db =
    bindr (stock_tenant env tenant_id) (\<lambda>tn.
    bindr (if falsy store_id then Inr () else validate_scoped_store db tn (the store_id)) (\<lambda>_.
    bindr (resolve_query_scope (rq_token env) sc store_id) (\<lambda>scoped.
    Inr (filter (\<lambda>l. pl_tenant_id l = tn \<and> pl_lifecycle_state l = ''PENDING_EPC''
        \<and> (if \<not> falsy scoped then pl_store_id l = scoped
           else \<not> falsy store_id \<longrightarrow> pl_store_id l = store_id)) (sk_lines db)))))"

text \<open>A line without a store is compared as the text of \<^verbatim>\<open>None\<close>, which no store has.\<close>

definition assign_pending_epc ::
    "request_env \<Rightarrow> string option \<Rightarrow> uuid \<Rightarrow> string \<Rightarrow> stock_db \<Rightarrow> preload_line stock_result" where
  "assign_pending_epc env tenant_id i epc db =
    bindr (stock_tenant env tenant_id) (\<lambda>tn.
    bindr (find_preload_line i tn db) (\<lambda>l.
    bindr (resolve_query_scope (rq_token env) Self_scope
      (Some (case pl_store_id l of None \<Rightarrow> ''None'' | Some s \<Rightarrow> s))) (\<lambda>_.
    bindr (require (pl_lifecycle_state l = ''PENDING_EPC'' \<and> pl_saved_stock_item_id l \<noteq> None)
      (raise1 BUSINESS_CONFLICT ''line must be saved in pending EPC state before assignment'')) (\<lambda>_.
    bindr (assert_epc_available (pl_tenant_id l) epc db) (\<lambda>_.
    let now = rq_now env;
        l' = l\<lparr>pl_epc := Some epc, pl_epc_status := ''ASSIGNED'', pl_item_status := ''ACTIVE'',
          pl_lifecycle_state := ''SAVED_EPC_FINAL'', pl_updated_at := Some now\<rparr>;
        db1 = (case find (\<lambda>r. Some (si_id r) = pl_saved_stock_item_id l) (sk_stock db) of
          None \<Rightarrow> db
        | Some r \<Rightarrow> set_stock_row (r\<lparr>si_epc := Some epc, si_status := Some ''RFID'', si_item_status := ''ACTIVE'',
            si_epc_status := ''ASSIGNED'', si_updated_at := Some now\<rparr>) db);
        db2 = set_preload_line l' (add_tag (new_assignment (rq_fresh env 0) l epc now) db1) in
    bindr (commit_preload_epc_write db2) (\<lambda>_. Inr (db2, l')))))))"

definition epc_history ::
    "request_env \<Rightarrow> string option \<Rightarrow> string \<Rightarrow> stock_db \<Rightarrow> (epc_assignment option \<times> epc_assignment list) res" where
  "epc_history env tenant_id epc db =
    bindr (stock_tenant env tenant_id) (\<lambda>tn.
    let rows = sort_key (\<lambda>a. - ea_assigned_at a) (filter (\<lambda>a. ea_tenant_id a = tn \<and> ea_epc a = epc) (sk_tags db))
    in Inr (find ea_active rows, rows))"

definition released_tag :: "string \<Rightarrow> time \<Rightarrow> epc_assignment \<Rightarrow> epc_assignment" where
  "released_tag reason now a = a\<lparr>ea_active := False, ea_released_at := Some now,
     ea_last_release_reason := Some reason, ea_status := ''RELEASED'', ea_updated_at := Some now\<rparr>"

definition set_tag :: "epc_assignment \<Rightarrow> stock_db \<Rightarrow> stock_db" where
  "set_tag a db = db\<lparr>sk_tags := map (\<lambda>x. if ea_id x = ea_id a then a else x) (sk_tags db)\<rparr>"

definition find_assignment :: "uuid \<Rightarrow> string \<Rightarrow> uuid \<Rightarrow> stock_db \<Rightarrow> epc_assignment option" where
  "find_assignment tn epc uid db =
    find (\<lambda>a. ea_tenant_id a = tn \<and> ea_epc a = epc \<and> ea_item_uid a = uid \<and> ea_active a) (sk_tags db)"

definition find_item :: "uuid \<Rightarrow> uuid \<Rightarrow> stock_db \<Rightarrow> stock_item option" where
  "find_item tn uid db = find (\<lambda>r. si_tenant_id r = tn \<and> si_item_uid r = uid) (sk_stock db)"

record release_request =
  rr_epc_to_release :: string
  rr_item_uid :: uuid
  rr_reason :: string

definition release_epc ::
    "request_env \<Rightarrow> string option \<Rightarrow> release_request \<Rightarrow> stock_db \<Rightarrow> bool stock_result" where
  "release_epc env tenant_id p db =
    bindr (stock_tenant env tenant_id) (\<lambda>tn.
    (case find_assignment tn (rr_epc_to_release p) (rr_item_uid p) db of
       None \<Rightarrow> Inl (raise1 BUSINESS_CONFLICT ''invalid EPC release attempt: active assignment not found'')
     | Some a \<Rightarrow>
         let now = rq_now env;
             db1 = set_tag (released_tag (rr_reason p) now a) db;
             db2 = (case find_item tn (rr_item_uid p) db of
               None \<Rightarrow> db1
             | Some r \<Rightarrow> set_stock_row (r\<lparr>si_epc_status := ''AVAILABLE'', si_epc := None, si_updated_at := Some now\<rparr>) db1)
         in Inr (db2, True)))"

section \<open>Issues\<close>

record issue_request =
  iq_issue_state :: string
  iq_release_epc :: bool
  iq_release_reason :: "string option"
  iq_keep_epc_assigned :: bool
  iq_observation :: "string option"

text \<open>The tag's assignment ends even when the row keeps the tag.\<close>

definition release_for_issue :: "uuid \<Rightarrow> time \<Rightarrow> issue_request \<Rightarrow> stock_item \<Rightarrow> stock_db \<Rightarrow> stock_db" where
  "release_for_issue tn now p r db =
    (case find_assignment tn (the (si_epc r)) (si_item_uid r) db of
       None \<Rightarrow> db
     | Some a \<Rightarrow> set_tag (released_tag (if falsy (iq_release_reason p) then iq_issue_state p else the (iq_release_reason p)) now a) db)"

definition issue_row :: "time \<Rightarrow> issue_request \<Rightarrow> stock_item \<Rightarrow> stock_item" where
  "issue_row now p r =
    (let r1 = r\<lparr>si_issue_state := Some (iq_issue_state p), si_item_status := iq_issue_state p,
           si_observation := iq_observation p, si_updated_at := Some now\<rparr>
     in if iq_release_epc p \<and> \<not> falsy (si_epc r) then
          (if iq_keep_epc_assigned p then r1\<lparr>si_epc_status := ''AVAILABLE''\<rparr>
           else r1\<lparr>si_epc_status := ''AVAILABLE'', si_epc := None, si_status := Some ''PENDING''\<rparr>)
        else r1)"

definition mark_issue ::
    "request_env \<Rightarrow> string option \<Rightarrow> uuid \<Rightarrow> issue_request \<Rightarrow> stock_db \<Rightarrow> stock_item stock_result" where
  "mark_issue env tenant_id uid p db =
    bindr (stock_tenant env tenant_id) (\<lambda>tn.
    (case find_item tn uid db of
       None \<Rightarrow> Inl (raise1 VALIDATION_ERROR ''item not found'')
     | Some r \<Rightarrow>
         bindr (require (si_item_status r \<noteq> ''SOLD'') (raise1 BUSINESS_CONFLICT
           ''invalid state transition: sold items cannot be marked with issue disposition'')) (\<lambda>_.
         let db1 = (if iq_release_epc p \<and> \<not> falsy (si_epc r) then release_for_issue tn (rq_now env) p r db else db);
             r' = issue_row (rq_now env) p r
         in Inr (set_stock_row r' db1, r'))))"

definition resolve_issue ::
    "request_env \<Rightarrow> string option \<Rightarrow> uuid \<Rightarrow> string \<Rightarrow> string option \<Rightarrow> stock_db \<Rightarrow> stock_item stock_result" where
  "resolve_issue env tenant_id uid status observation db =
    bindr (stock_tenant env tenant_id) (\<lambda>tn.
    (case find_item tn uid db of
       None \<Rightarrow> Inl (raise1 VALIDATION_ERROR ''item not found'')
     | Some r \<Rightarrow>
         bindr (require (\<not> falsy (si_issue_state r)) (raise1 BUSINESS_CONFLICT
           ''invalid state transition: item is not currently in issue state'')) (\<lambda>_.
         let r' = r\<lparr>si_item_status := status,
               si_status := (if status = ''ACTIVE'' then Some ''RFID'' else si_status r),
               si_issue_state := None, si_observation := observation, si_updated_at := Some (rq_now env)\<rparr>
         in Inr (set_stock_row r' db, r'))))"

section \<open>Images of a sku\<close>

definition sku_images_of :: "uuid \<Rightarrow> string \<Rightarrow> stock_db \<Rightarrow> sku_image list" where
  "sku_images_of tn sku db = filter (\<lambda>m. im_tenant_id m = tn \<and> im_sku m = sku) (sk_images db)"

definition images_in_order :: "uuid \<Rightarrow> string \<Rightarrow> stock_db \<Rightarrow> sku_image list" where
  "images_in_order tn sku db =
    sort_key (\<lambda>m. (if im_is_primary m then 0 else 1 :: int)) (sort_key im_sort_order (sku_images_of tn sku db))"

definition list_sku_images :: "request_env \<Rightarrow> string option \<Rightarrow> string \<Rightarrow> stock_db \<Rightarrow> sku_image list res" where
  "list_sku_images env tenant_id sku db =
    bindr (stock_tenant env tenant_id) (\<lambda>tn. Inr (images_in_order tn sku db))"

datatype image_mode = Use_existing | Replace_image | Add_image | Blank_image

record image_request =
  ig_asset_id :: uuid
  ig_mode :: image_mode
  ig_file_hash :: "string option"

definition max_sort_order :: "sku_image list \<Rightarrow> int" where
  "max_sort_order ms = (case rev (sort_key im_sort_order ms) of [] \<Rightarrow> 0 | m # _ \<Rightarrow> im_sort_order m)"

definition upsert_sku_images ::
    "request_env \<Rightarrow> string option \<Rightarrow> string \<Rightarrow> image_request \<Rightarrow> stock_db \<Rightarrow> sku_image list stock_result" where
  "upsert_sku_images env tenant_id sku p db =
    bindr (stock_tenant env tenant_id) (\<lambda>tn.
    if ig_mode p = Blank_image then Inr (db, images_in_order tn sku db)
    else if \<not> falsy (ig_file_hash p) \<and> list_ex (\<lambda>m. im_file_hash m = ig_file_hash p) (sku_images_of tn sku db)
      then Inr (db, images_in_order tn sku db)
    else
      let now = rq_now env;
          rows = (if ig_mode p = Replace_image
            then map (\<lambda>m. if im_tenant_id m = tn \<and> im_sku m = sku
              then m\<lparr>im_is_primary := False, im_updated_at := Some now\<rparr> else m) (sk_images db)
            else sk_images db);
          m = \<lparr>im_id = rq_fresh env 0, im_tenant_id = tn, im_sku = sku, im_asset_id = ig_asset_id p,
            im_file_hash = ig_file_hash p, im_is_primary = (ig_mode p \<in> {Replace_image, Use_existing}),
            im_sort_order = max_sort_order (sku_images_of tn sku db) + 1, im_created_at = now, im_updated_at = Some now\<rparr>;
          db' = db\<lparr>sk_images := rows @ [m]\<rparr> in
      bindr (require (\<not> list_ex (\<lambda>x. im_asset_id x = ig_asset_id p) (sku_images_of tn sku db)) (raise0 INTERNAL_ERROR)) (\<lambda>_.
      Inr (db', images_in_order tn sku db')))"

definition set_primary_sku_image ::
    "request_env \<Rightarrow> string option \<Rightarrow> string \<Rightarrow> uuid \<Rightarrow> stock_db \<Rightarrow> sku_image list stock_result" where
  "set_primary_sku_image env tenant_id sku asset db =
    bindr (stock_tenant env tenant_id) (\<lambda>tn.
    let db' = db\<lparr>sk_images := map (\<lambda>m. if im_tenant_id m = tn \<and> im_sku m = sku
          then m\<lparr>im_is_primary := (im_asset_id m = asset), im_updated_at := Some (rq_now env)\<rparr> else m) (sk_images db)\<rparr>
    in Inr (db', images_in_order tn sku db'))"

end
