(* ===== verification/Stock_Steps.thy ===== *)
theory Stock_Steps
  imports Stock_Preload "HOL-Library.Multiset"
begin

text \<open>
  Stock, the requests of its router as steps on its tables, beside what the other routers do to a
  row. Every step keeps the unique constraints, also where the code commits without handling their
  violation, and touches the rows of the request's tenant only.
\<close>

section \<open>The constraints on sets\<close>

definition tag_key :: "stock_item \<Rightarrow> uuid \<times> string" where
  "tag_key r = (si_tenant_id r, the (si_epc r))"

definition item_key :: "stock_item \<Rightarrow> uuid \<times> uuid" where
  "item_key r = (si_tenant_id r, si_item_uid r)"

definition rows_apart :: "stock_item set \<Rightarrow> bool" where
  "rows_apart R \<longleftrightarrow> inj_on tag_key {r \<in> R. si_epc r \<noteq> None} \<and> inj_on item_key R"

definition tags_apart :: "epc_assignment set \<Rightarrow> bool" where
  "tags_apart A \<longleftrightarrow> inj_on (\<lambda>a. (ea_tenant_id a, ea_epc a)) {a \<in> A. ea_active a}"

lemma tags_of_map: "tags_of rows = map tag_key (filter (\<lambda>r. si_epc r \<noteq> None) rows)"
  by (induction rows) (auto simp: tags_of_def tag_key_def split: option.splits)

lemma stock_unique_iff:
  assumes "distinct (map si_id rows)"
  shows "stock_unique rows \<longleftrightarrow> rows_apart (set rows)"
  using assms
  by (auto simp: stock_unique_def tags_of_map rows_apart_def distinct_map item_key_def [abs_def])

lemma tags_unique_iff:
  assumes "distinct (map ea_id as)"
  shows "tags_unique as \<longleftrightarrow> tags_apart (set as)"
  using assms by (auto simp: tags_unique_def active_tags_def tags_apart_def distinct_map)

lemma rows_apart_subset: "rows_apart R \<Longrightarrow> S \<subseteq> R \<Longrightarrow> rows_apart S"
  unfolding rows_apart_def by (auto elim!: inj_on_subset)

text \<open>A row may be replaced by one that is the same item and holds its tag, no tag, or a free tag.\<close>

definition may_replace :: "stock_item \<Rightarrow> stock_item \<Rightarrow> stock_item set \<Rightarrow> bool" where
  "may_replace r r' R \<longleftrightarrow> si_id r' = si_id r \<and> item_key r' = item_key r
    \<and> (si_epc r' = si_epc r \<or> si_epc r' = None \<or> (\<forall>x \<in> R. si_epc x \<noteq> None \<longrightarrow> tag_key x \<noteq> tag_key r'))"

lemma rows_apart_replace:
  assumes "rows_apart R" and "r \<in> R" and "may_replace r r' R"
  shows "rows_apart (insert r' (R - {r}))"
proof -
  have item: "item_key r' = item_key r" using assms(3) by (simp add: may_replace_def)
  have inj: "inj_on tag_key {x \<in> R. si_epc x \<noteq> None}" "inj_on item_key R" using assms(1) by (simp_all add: rows_apart_def)
  have other: "item_key r' \<noteq> item_key x" if "x \<in> R" "x \<noteq> r" for x
    using inj(2) assms(2) that item by (auto dest: inj_onD)
  have tag: "tag_key r' \<noteq> tag_key x" if "x \<in> R" "x \<noteq> r" "si_epc x \<noteq> None" "si_epc r' \<noteq> None" for x
  proof (cases "si_epc r' = si_epc r")
    case True
    then have "tag_key r' = tag_key r" using item by (simp add: tag_key_def item_key_def)
    then show ?thesis using inj(1) assms(2) that True by (auto dest: inj_onD)
  next
    case False
    then have "\<forall>x \<in> R. si_epc x \<noteq> None \<longrightarrow> tag_key x \<noteq> tag_key r'"
      using assms(3) that(4) by (auto simp: may_replace_def)
    then show ?thesis using that by metis
  qed
  have "inj_on item_key (R - {r})" by (rule inj_on_subset [OF inj(2)]) auto
  then have "inj_on item_key (insert r' (R - {r}))"
    unfolding inj_on_insert by (auto dest: other)
  moreover have "inj_on tag_key {x \<in> insert r' (R - {r}). si_epc x \<noteq> None}"
  proof (cases "si_epc r' = None")
    case True
    then have "{x \<in> insert r' (R - {r}). si_epc x \<noteq> None} \<subseteq> {x \<in> R. si_epc x \<noteq> None}" by auto
    then show ?thesis by (rule inj_on_subset [OF inj(1)])
  next
    case False
    then have eq: "{x \<in> insert r' (R - {r}). si_epc x \<noteq> None} = insert r' {x \<in> R - {r}. si_epc x \<noteq> None}" by auto
    have "inj_on tag_key {x \<in> R - {r}. si_epc x \<noteq> None}" by (rule inj_on_subset [OF inj(1)]) auto
    then show ?thesis unfolding eq inj_on_insert using tag False by (auto simp del: not_None_eq)
  qed
  ultimately show ?thesis by (simp add: rows_apart_def)
qed

lemma replaced_rows:
  assumes "distinct (map key rows)" and "r \<in> set rows" and "key r' = key r"
  shows "set (map (\<lambda>x. if key x = key r' then r' else x) rows) = insert r' (set rows - {r})"
    "map key (map (\<lambda>x. if key x = key r' then r' else x) rows) = map key rows"
  using assms key_unique [OF assms(1)] by (auto simp: image_iff)

section \<open>Steps\<close>

definition fresh_stock :: "request_env \<Rightarrow> stock_db \<Rightarrow> bool" where
  "fresh_stock env db \<longleftrightarrow> inj (rq_fresh env)
    \<and> (\<forall>k. rq_fresh env k \<notin> si_id ` set (sk_stock db) \<and> rq_fresh env k \<notin> ea_id ` set (sk_tags db)
        \<and> Some (rq_fresh env k) \<notin> pl_saved_stock_item_id ` set (sk_lines db))"

text \<open>\<open>Elsewhere\<close> is what transfers and sales do: they edit rows without giving them a tag, remove
  rows, and release tags.\<close>

inductive stock_step :: "request_env \<Rightarrow> stock_db \<Rightarrow> stock_db \<Rightarrow> bool" where
  Import_epc: "fresh_stock env db \<Longrightarrow> intake_before env tx t = Inr (tn, u) \<Longrightarrow>
    import_epc_body env p tn u db = Inr (db', n) \<Longrightarrow> stock_step env db db'"
| Import_sku: "fresh_stock env db \<Longrightarrow> intake_before env tx t = Inr (tn, u) \<Longrightarrow>
    import_sku_body env p tn u db = Inr (db', n) \<Longrightarrow> stock_step env db db'"
| Migrate: "intake_before env tx t = Inr (tn, u) \<Longrightarrow>
    migrate_body env m tn u db = Inr (db', n) \<Longrightarrow> stock_step env db db'"
| Action: "stock_actions_before env q = Inr (tn, u) \<Longrightarrow>
    stock_action_body env a tn u db = Inr (db', n) \<Longrightarrow> stock_step env db db'"
| Open_session: "create_preload_session env s db = Inr (db', x) \<Longrightarrow> stock_step env db db'"
| Patch: "patch_preload_line env t i pp db = Inr (db', l) \<Longrightarrow> stock_step env db db'"
| Save: "fresh_stock env db \<Longrightarrow> save_preload_line env t i db = Inr (db', l) \<Longrightarrow> stock_step env db db'"
| Assign: "fresh_stock env db \<Longrightarrow> assign_pending_epc env t i epc db = Inr (db', l) \<Longrightarrow> stock_step env db db'"
| Release: "release_epc env t rr db = Inr (db', b) \<Longrightarrow> stock_step env db db'"
| Mark_issue: "mark_issue env t i iq db = Inr (db', r) \<Longrightarrow> stock_step env db db'"
| Resolve_issue: "resolve_issue env t i st ob db = Inr (db', r) \<Longrightarrow> stock_step env db db'"
| Image: "upsert_sku_images env t sku ig db = Inr (db', ms) \<Longrightarrow> stock_step env db db'"
| Primary: "set_primary_sku_image env t sku i db = Inr (db', ms) \<Longrightarrow> stock_step env db db'"
| Catalog: "bulk_upsert_catalog_products env t cq db = Inr (db', c) \<Longrightarrow> stock_step env db db'"
| Elsewhere: "list_all2 (\<lambda>r r'. si_id r' = si_id r \<and> item_key r' = item_key r \<and> (si_epc r' = si_epc r \<or> si_epc r' = None))
      kept_rows rows \<Longrightarrow> set kept_rows \<subseteq> set (sk_stock db) \<Longrightarrow> distinct (map si_id kept_rows) \<Longrightarrow>
    list_all2 (\<lambda>a a'. ea_id a' = ea_id a \<and> (a' = a \<or> \<not> ea_active a')) (sk_tags db) tags \<Longrightarrow>
    filter (\<lambda>r. Some (si_tenant_id r) \<noteq> td_tenant_id (rq_token env)) rows
      = filter (\<lambda>r. Some (si_tenant_id r) \<noteq> td_tenant_id (rq_token env)) (sk_stock db) \<Longrightarrow>
    filter (\<lambda>a. Some (ea_tenant_id a) \<noteq> td_tenant_id (rq_token env)) tags
      = filter (\<lambda>a. Some (ea_tenant_id a) \<noteq> td_tenant_id (rq_token env)) (sk_tags db) \<Longrightarrow>
    stock_step env db (db\<lparr>sk_stock := rows, sk_tags := tags\<rparr>)"

text \<open>The constraints of the tables, and that a saved line names a row of its own item.\<close>

definition line_key :: "preload_line \<Rightarrow> uuid \<times> uuid" where
  "line_key l = (pl_tenant_id l, pl_item_uid l)"

definition line_refs :: "stock_db \<Rightarrow> bool" where
  "line_refs db \<longleftrightarrow> (\<forall>l \<in> set (sk_lines db). \<forall>r \<in> set (sk_stock db).
     pl_saved_stock_item_id l = Some (si_id r) \<longrightarrow> item_key r = line_key l)"

definition stock_constraints :: "stock_db \<Rightarrow> bool" where
  "stock_constraints db \<longleftrightarrow> distinct (map si_id (sk_stock db)) \<and> distinct (map ea_id (sk_tags db))
    \<and> stock_unique (sk_stock db) \<and> tags_unique (sk_tags db) \<and> line_refs db"

section \<open>What a step does to the two tables\<close>

lemma stock_row_simps [simp]:
  "sk_tags (set_stock_row r db) = sk_tags db" "sk_lines (set_stock_row r db) = sk_lines db"
  "sk_stock (set_tag a db) = sk_stock db" "sk_lines (set_tag a db) = sk_lines db"
  "sk_stock (set_preload_line l db) = sk_stock db" "sk_tags (set_preload_line l db) = sk_tags db"
  "sk_tags (delete_stock rs db) = sk_tags db" "sk_stock (add_tag a db) = sk_stock db"
  "sk_tags (add_tag a db) = sk_tags db @ [a]" "sk_stock (add_stock r db) = sk_stock db @ [r]"
  "sk_tags (add_stock r db) = sk_tags db" "sk_lines (add_stock r db) = sk_lines db"
  by (simp_all add: set_stock_row_def set_tag_def set_preload_line_def delete_stock_def add_tag_def add_stock_def)

lemma upsert_simps [simp]:
  assumes "upsert_catalog_product f now tn l z db = (db', r)"
  shows "sk_stock db' = sk_stock db" "sk_tags db' = sk_tags db" "sk_lines db' = sk_lines db"
  using assms by (auto simp: upsert_catalog_product_def set_product_def Let_def split: prod.splits option.splits)

lemma count_upserts:
  assumes "fold (count_upsert env tn q) kls (db, c) = (db', c')"
  shows "sk_stock db' = sk_stock db" "sk_tags db' = sk_tags db" "sk_lines db' = sk_lines db"
proof -
  have "sk_stock db' = sk_stock db \<and> sk_tags db' = sk_tags db \<and> sk_lines db' = sk_lines db"
    using assms
  proof (induction kls arbitrary: db c)
    case (Cons kl kls)
    obtain db1 c1 where s: "count_upsert env tn q kl (db, c) = (db1, c1)" by fastforce
    then have "sk_stock db1 = sk_stock db" "sk_tags db1 = sk_tags db" "sk_lines db1 = sk_lines db"
      by (auto simp: count_upsert_def Let_def split: prod.splits dest: upsert_simps)
    then show ?case using Cons.IH [of db1 c1] Cons.prems s by simp
  qed simp
  then show "sk_stock db' = sk_stock db" "sk_tags db' = sk_tags db" "sk_lines db' = sk_lines db" by auto
qed

text \<open>A step on the stock: some rows removed, some replaced, some added.\<close>

definition replaces_row :: "uuid \<Rightarrow> stock_db \<Rightarrow> stock_db \<Rightarrow> bool" where
  "replaces_row tn db db' \<longleftrightarrow> sk_stock db' = sk_stock db \<or> (\<exists>r \<in> set (sk_stock db). \<exists>r'. si_tenant_id r = tn
    \<and> may_replace r r' (set (sk_stock db)) \<and> sk_stock db' = sk_stock (set_stock_row r' db))"

lemma replaces_row_unique:
  assumes "replaces_row tn db db'" and "distinct (map si_id (sk_stock db))" and "stock_unique (sk_stock db)"
  shows "distinct (map si_id (sk_stock db')) \<and> stock_unique (sk_stock db')"
proof (cases "sk_stock db' = sk_stock db")
  case False
  then obtain r r' where r: "r \<in> set (sk_stock db)" "may_replace r r' (set (sk_stock db))"
    and db': "sk_stock db' = map (\<lambda>x. if si_id x = si_id r' then r' else x) (sk_stock db)"
    using assms(1) by (auto simp: replaces_row_def set_stock_row_def)
  have id: "si_id r' = si_id r" using r(2) by (simp add: may_replace_def)
  note rows = replaced_rows [OF assms(2) r(1) id]
  have "rows_apart (insert r' (set (sk_stock db) - {r}))"
    using rows_apart_replace r assms(3) stock_unique_iff [OF assms(2)] by blast
  moreover have "distinct (map si_id (sk_stock db'))" using assms(2) unfolding db' rows(2) .
  ultimately show ?thesis using stock_unique_iff [of "sk_stock db'"] rows(1) by (simp add: db')
qed (use assms in simp)

definition releases_tag :: "uuid \<Rightarrow> stock_db \<Rightarrow> stock_db \<Rightarrow> bool" where
  "releases_tag tn db db' \<longleftrightarrow> sk_tags db' = sk_tags db \<or> (\<exists>a \<in> set (sk_tags db). \<exists>a'. ea_tenant_id a = tn
    \<and> ea_id a' = ea_id a \<and> ea_tenant_id a' = tn \<and> \<not> ea_active a' \<and> sk_tags db' = sk_tags (set_tag a' db))"

lemma tags_apart_release:
  assumes "tags_apart A"
  shows "\<not> ea_active a' \<Longrightarrow> tags_apart (insert a' (A - {a}))"
  using assms by (auto simp: tags_apart_def inj_on_def)

lemma releases_tag_unique:
  assumes "releases_tag tn db db'" and "distinct (map ea_id (sk_tags db))" and "tags_unique (sk_tags db)"
  shows "distinct (map ea_id (sk_tags db')) \<and> tags_unique (sk_tags db')"
proof (cases "sk_tags db' = sk_tags db")
  case False
  then obtain a a' where a: "a \<in> set (sk_tags db)" "ea_id a' = ea_id a" "\<not> ea_active a'"
    and db': "sk_tags db' = map (\<lambda>x. if ea_id x = ea_id a' then a' else x) (sk_tags db)"
    using assms(1) by (auto simp: releases_tag_def set_tag_def)
  note rows = replaced_rows [OF assms(2) a(1,2)]
  have "tags_apart (insert a' (set (sk_tags db) - {a}))"
    using tags_apart_release a(3) assms(3) tags_unique_iff [OF assms(2)] by blast
  moreover have "distinct (map ea_id (sk_tags db'))" using assms(2) unfolding db' rows(2) .
  ultimately show ?thesis using tags_unique_iff [of "sk_tags db'"] rows(1) by (simp add: db')
qed (use assms in simp)

section \<open>The operations\<close>

lemma find_has_epc:
  assumes "find (has_epc tn epc) rows = Some r"
  shows "r \<in> set rows" "si_tenant_id r = tn" "si_epc r = Some epc"
  using find_SomeD [OF assms] by (auto simp: has_epc_def)

lemma find_item_rows:
  assumes "find_item tn uid db = Some r"
  shows "r \<in> set (sk_stock db)" "si_tenant_id r = tn" "si_item_uid r = uid"
  using find_SomeD [OF assms [unfolded find_item_def]] by auto

lemma find_assignment_rows:
  assumes "find_assignment tn epc uid db = Some a"
  shows "a \<in> set (sk_tags db)" "ea_tenant_id a = tn" "ea_active a" "ea_epc a = epc" "ea_item_uid a = uid"
  using find_SomeD [OF assms [unfolded find_assignment_def]] by auto

lemma replaces_rowI:
  assumes "r \<in> set (sk_stock db)" and "si_tenant_id r = tn" and "sk_stock db' = sk_stock (set_stock_row r' db)"
    and "si_id r' = si_id r" and "si_tenant_id r' = si_tenant_id r" and "si_item_uid r' = si_item_uid r"
    and "si_epc r' = si_epc r \<or> si_epc r' = None
      \<or> (\<exists>epc. si_epc r' = Some epc \<and> \<not> list_ex (has_epc tn epc) (sk_stock db))"
  shows "replaces_row tn db db'"
proof -
  have "may_replace r r' (set (sk_stock db))"
    using assms(2,4-7) by (fastforce simp: may_replace_def item_key_def tag_key_def list_ex_iff has_epc_def)
  then show ?thesis using assms(1-3) unfolding replaces_row_def by blast
qed

lemma migrate_effect:
  assumes "migrate_body env p tn u db = Inr (db', n)"
  shows "replaces_row tn db db'" "sk_tags db' = sk_tags db"
proof -
  obtain r rest where free: "\<not> list_ex (has_epc tn (mg_epc p)) (sk_stock db)"
    and sorted: "sort_key si_created_at (filter (pending_for_migration tn (mg_data p)) (sk_stock db)) = r # rest"
    and db': "db' = set_stock_row (migrated_row (mg_epc p) (mg_data p) (rq_now env) r) db"
    using assms by (auto simp: migrate_body_def Let_def bindr_Inr_iff require_Inr_iff split: list.splits)
  have "r \<in> set (filter (pending_for_migration tn (mg_data p)) (sk_stock db))"
    using arg_cong [OF sorted, of set] by auto
  then have r: "r \<in> set (sk_stock db)" "si_tenant_id r = tn" by (auto simp: pending_for_migration_def)
  show "replaces_row tn db db'"
    by (rule replaces_rowI [OF r arg_cong [OF db', of sk_stock]]) (simp_all add: migrated_row_def free)
  show "sk_tags db' = sk_tags db" by (simp add: db')
qed

lemma replace_epc_effect:
  assumes "replace_epc tn now old new db = Inr (db', n)"
  shows "replaces_row tn db db'" "sk_tags db' = sk_tags db"
proof -
  obtain r where free: "\<not> list_ex (has_epc tn new) (sk_stock db)" and find: "find (has_epc tn old) (sk_stock db) = Some r"
    and db': "db' = set_stock_row (r\<lparr>si_epc := Some new, si_updated_at := Some now\<rparr>) db"
    using assms by (auto simp: replace_epc_def bindr_Inr_iff require_Inr_iff split: option.splits)
  show "replaces_row tn db db'"
    by (rule replaces_rowI [OF find_has_epc(1,2) [OF find] arg_cong [OF db', of sk_stock]]) (simp_all add: free)
  show "sk_tags db' = sk_tags db" by (simp add: db')
qed

lemma end_epc_effect:
  assumes "end_epc tn now act epc ty db = Inr (db', n)"
  shows "replaces_row tn db db'" "sk_tags db' = sk_tags db"
proof -
  obtain r where find: "find (has_epc tn epc) (sk_stock db) = Some r"
    and db': "db' = set_stock_row (r\<lparr>si_epc := None, si_status := Some ''PENDING'', si_updated_at := Some now\<rparr>) db"
    using assms by (auto simp: end_epc_def bindr_Inr_iff require_Inr_iff split: option.splits)
  show "replaces_row tn db db'"
    by (rule replaces_rowI [OF find_has_epc(1,2) [OF find] arg_cong [OF db', of sk_stock]]) simp_all
  show "sk_tags db' = sk_tags db" by (simp add: db')
qed

text \<open>What a write-off removes: as many rows as it says, each of the tenant.\<close>

lemma write_off_effect:
  assumes "write_off tn reason qty d db = Inr (db', n)"
  obtains rows where "db' = delete_stock rows db" "n = qty" "int (length rows) = qty"
    "set rows \<subseteq> set (sk_stock db)" "\<forall>r \<in> set rows. si_tenant_id r = tn \<and> si_status r = sb_status d
      \<and> si_location_code r = sb_location_code d \<and> si_pool r = sb_pool d"
    "distinct (map si_id (sk_stock db)) \<longrightarrow> distinct (map si_id rows)"
proof -
  obtain rows where pos: "1 \<le> qty" and db': "db' = delete_stock rows db" "n = int (length rows)"
    and st: "sb_status d \<in> {Some ''RFID'', Some ''PENDING''}"
    and rows: "(if sb_status d = Some ''RFID'' then write_off_tagged tn qty d db else write_off_pieces tn qty d db) = Inr rows"
    using assms by (auto simp: write_off_def bindr_Inr_iff require_Inr_iff)
  show ?thesis
  proof (cases "sb_status d = Some ''RFID''")
    case True
    then obtain r where "qty = 1" "rows = [r]" "find (has_epc tn (the (sb_epc d))) (sk_stock db) = Some r"
      "si_location_code r = sb_location_code d" "si_pool r = sb_pool d" "si_status r = sb_status d"
      using rows by (auto simp: write_off_tagged_def bindr_Inr_iff require_Inr_iff split: option.splits)
    then show ?thesis using find_has_epc [of tn _ "sk_stock db" r] db' by (intro that [of rows]) auto
  next
    case False
    let ?all = "sort_key si_created_at (filter (stock_match tn d) (sk_stock db))"
    have r: "rows = take (nat qty) ?all" "\<not> int (length (take (nat qty) ?all)) < qty"
      using rows False by (auto simp: write_off_pieces_def Let_def bindr_Inr_iff require_Inr_iff simp del: length_take)
    have "length rows \<le> nat qty" by (simp add: r(1))
    moreover have "\<not> int (length rows) < qty" using r(2) unfolding r(1) .
    ultimately have len: "int (length rows) = qty" using pos by linarith
    have sub: "set rows \<subseteq> set (filter (stock_match tn d) (sk_stock db))"
      using set_take_subset [of "nat qty" ?all] by (simp add: r(1))
    have "distinct (map si_id rows)" if d: "distinct (map si_id (sk_stock db))"
    proof -
      have "mset (map si_id ?all) = mset (map si_id (filter (stock_match tn d) (sk_stock db)))" by (simp add: mset_map)
      moreover have "distinct (map si_id (filter (stock_match tn d) (sk_stock db)))" by (rule distinct_map_filter [OF d])
      ultimately have "distinct (map si_id ?all)" by (metis mset_eq_imp_distinct_iff)
      then show ?thesis unfolding r(1) take_map [symmetric] by (rule distinct_take)
    qed
    then show ?thesis using db' len sub by (intro that [of rows]) (auto simp: stock_match_def)
  qed
qed

lemma stock_action_effect:
  assumes "stock_action_body env a tn u db = Inr (db', n)"
  shows "(replaces_row tn db db' \<or> (\<exists>rows. set rows \<subseteq> set (sk_stock db) \<and> (\<forall>r \<in> set rows. si_tenant_id r = tn)
      \<and> db' = delete_stock rows db)) \<and> sk_tags db' = sk_tags db"
proof (cases a)
  case (WRITE_OFF reason qty d)
  then have "write_off tn reason qty d db = Inr (db', n)" using assms by (simp add: stock_action_body_def)
  then show ?thesis by (rule write_off_effect) auto
next
  case (REPLACE_EPC old new reason)
  then show ?thesis using assms replace_epc_effect by (fastforce simp: stock_action_body_def)
next
  case (End_epc act epc reason ty)
  then show ?thesis using assms end_epc_effect by (fastforce simp: stock_action_body_def)
qed (use assms in \<open>auto simp: stock_action_body_def look_up_row_def bindr_Inr_iff replaces_row_def split: option.splits\<close>)

lemma release_effect:
  assumes "release_epc env t p db = Inr (db', b)"
  obtains tn where "stock_tenant env t = Inr tn" "replaces_row tn db db'" "releases_tag tn db db'" "sk_lines db' = sk_lines db"
proof -
  obtain tn a where tn: "stock_tenant env t = Inr tn"
    and a: "find_assignment tn (rr_epc_to_release p) (rr_item_uid p) db = Some a"
    and db': "db' = (case find_item tn (rr_item_uid p) db of
        None \<Rightarrow> set_tag (released_tag (rr_reason p) (rq_now env) a) db
      | Some r \<Rightarrow> set_stock_row (r\<lparr>si_epc_status := ''AVAILABLE'', si_epc := None, si_updated_at := Some (rq_now env)\<rparr>)
          (set_tag (released_tag (rr_reason p) (rq_now env) a) db))"
    using assms by (auto simp: release_epc_def Let_def bindr_Inr_iff split: option.splits)
  have "sk_tags db' = sk_tags (set_tag (released_tag (rr_reason p) (rq_now env) a) db)"
    by (simp add: db' split: option.splits)
  then have "releases_tag tn db db'"
    using find_assignment_rows(1,2) [OF a] unfolding releases_tag_def
    by (intro disjI2 bexI [of _ a] exI [of _ "released_tag (rr_reason p) (rq_now env) a"]) (simp_all add: released_tag_def)
  moreover have "replaces_row tn db db'"
  proof (cases "find_item tn (rr_item_uid p) db")
    case None
    then show ?thesis by (simp add: db' replaces_row_def)
  next
    case (Some r)
    then have "sk_stock db' = sk_stock (set_stock_row (r\<lparr>si_epc_status := ''AVAILABLE'', si_epc := None, si_updated_at := Some (rq_now env)\<rparr>) db)"
      by (simp add: db' set_stock_row_def)
    then show ?thesis by (rule replaces_rowI [OF find_item_rows(1,2) [OF Some]]) simp_all
  qed
  moreover have "sk_lines db' = sk_lines db" by (simp add: db' split: option.splits)
  ultimately show ?thesis using tn that by blast
qed

lemma issue_row_simps [simp]:
  "si_id (issue_row now p r) = si_id r" "si_tenant_id (issue_row now p r) = si_tenant_id r"
  "si_item_uid (issue_row now p r) = si_item_uid r"
  by (auto simp: issue_row_def Let_def)

lemma issue_row_epc: "si_epc (issue_row now p r) = si_epc r \<or> si_epc (issue_row now p r) = None"
  by (auto simp: issue_row_def Let_def)

lemma mark_issue_effect:
  assumes "mark_issue env t uid p db = Inr (db', r')"
  obtains tn where "stock_tenant env t = Inr tn" "replaces_row tn db db'" "releases_tag tn db db'"
proof -
  obtain tn r where tn: "stock_tenant env t = Inr tn" and r: "find_item tn uid db = Some r"
    and db': "db' = set_stock_row (issue_row (rq_now env) p r)
        (if iq_release_epc p \<and> \<not> falsy (si_epc r) then release_for_issue tn (rq_now env) p r db else db)"
    using assms by (auto simp: mark_issue_def Let_def bindr_Inr_iff require_Inr_iff split: option.splits)
  have stock: "sk_stock (release_for_issue tn (rq_now env) p r db) = sk_stock db"
    by (simp add: release_for_issue_def split: option.splits)
  have "sk_stock db' = sk_stock (set_stock_row (issue_row (rq_now env) p r) db)"
    by (simp add: db' set_stock_row_def stock)
  then have "replaces_row tn db db'"
    by (rule replaces_rowI [OF find_item_rows(1,2) [OF r]]) (use issue_row_epc [of "rq_now env" p r] in auto)
  moreover have "releases_tag tn db db'"
  proof (cases "find_assignment tn (the (si_epc r)) (si_item_uid r) db")
    case None
    then show ?thesis by (simp add: releases_tag_def db' release_for_issue_def)
  next
    case (Some a)
    let ?a = "released_tag (if falsy (iq_release_reason p) then iq_issue_state p else the (iq_release_reason p)) (rq_now env) a"
    have "sk_tags db' = sk_tags db \<or> sk_tags db' = sk_tags (set_tag ?a db)"
      using Some by (simp add: db' release_for_issue_def)
    then show ?thesis
      using find_assignment_rows(1,2) [OF Some] unfolding releases_tag_def
      by (auto intro!: bexI [of _ a] exI [of _ ?a] simp: released_tag_def)
  qed
  ultimately show ?thesis using tn that by blast
qed

lemma resolve_issue_effect:
  assumes "resolve_issue env t uid st ob db = Inr (db', r')"
  obtains tn where "stock_tenant env t = Inr tn" "replaces_row tn db db'" "sk_tags db' = sk_tags db"
proof -
  obtain tn r where tn: "stock_tenant env t = Inr tn" and r: "find_item tn uid db = Some r"
    and db': "db' = set_stock_row (r\<lparr>si_item_status := st,
        si_status := (if st = ''ACTIVE'' then Some ''RFID'' else si_status r), si_issue_state := None,
        si_observation := ob, si_updated_at := Some (rq_now env)\<rparr>) db"
    using assms by (auto simp: resolve_issue_def Let_def bindr_Inr_iff require_Inr_iff split: option.splits)
  have "replaces_row tn db db'"
    by (rule replaces_rowI [OF find_item_rows(1,2) [OF r] arg_cong [OF db', of sk_stock]]) simp_all
  then show ?thesis using tn that by (simp add: db')
qed

text \<open>Rows are added with new ids, and only when the constraints hold of the result.\<close>

definition adds_rows :: "uuid \<Rightarrow> request_env \<Rightarrow> stock_db \<Rightarrow> stock_db \<Rightarrow> bool" where
  "adds_rows tn env db db' \<longleftrightarrow> (\<exists>new. sk_stock db' = sk_stock db @ new \<and> (\<forall>r \<in> set new. si_tenant_id r = tn \<and> si_id r \<in> range (rq_fresh env))
    \<and> (fresh_stock env db \<longrightarrow> distinct (map si_id (sk_stock db)) \<longrightarrow> distinct (map si_id (sk_stock db @ new)))
    \<and> stock_unique (sk_stock db @ new))"

lemma number_rows_ids:
  assumes "fresh_stock env db"
  shows "distinct (map si_id (number_rows (rq_fresh env) tn st now ds))"
    "si_id ` set (sk_stock db) \<inter> si_id ` set (number_rows (rq_fresh env) tn st now ds) = {}"
proof -
  have ids: "map si_id (number_rows (rq_fresh env) tn st now ds) = map (\<lambda>k. rq_fresh env (2 * k)) [0..<length ds]"
    by (intro nth_equalityI) (simp_all add: number_rows_def nth_enumerate_eq imported_row_def split: prod.splits)
  have inj: "inj (rq_fresh env)" and new: "\<And>k. rq_fresh env k \<notin> si_id ` set (sk_stock db)"
    using assms by (simp_all add: fresh_stock_def)
  show "distinct (map si_id (number_rows (rq_fresh env) tn st now ds))"
    unfolding ids distinct_map by (auto simp: inj_on_def inj_eq [OF inj])
  show "si_id ` set (sk_stock db) \<inter> si_id ` set (number_rows (rq_fresh env) tn st now ds) = {}"
  proof -
    have "si_id ` set (number_rows (rq_fresh env) tn st now ds) \<subseteq> range (rq_fresh env)"
      using arg_cong [OF ids, of set] by auto
    moreover have "x \<notin> si_id ` set (sk_stock db)" if "x \<in> range (rq_fresh env)" for x
      using that new by (elim rangeE) simp
    ultimately show ?thesis by (meson disjoint_iff subsetD)
  qed
qed

lemma number_rows_tenant: "r \<in> set (number_rows f tn st now ds) \<Longrightarrow> si_tenant_id r = tn \<and> si_id r \<in> range f"
  by (auto simp: number_rows_def imported_row_def)

lemma numbered_adds:
  assumes "sk_stock db' = sk_stock db @ number_rows (rq_fresh env) tn st now ds" and "stock_unique (sk_stock db')"
  shows "adds_rows tn env db db'"
  using assms number_rows_ids number_rows_tenant unfolding adds_rows_def
  by (intro exI [of _ "number_rows (rq_fresh env) tn st now ds"]) (auto simp: distinct_append)

lemma import_epc_effect:
  assumes "import_epc_body env p tn u db = Inr (db', n)"
  shows "adds_rows tn env db db'" "sk_tags db' = sk_tags db" "sk_lines db' = sk_lines db"
proof -
  obtain ls where "commit_stock_items (sk_stock db @ number_rows (rq_fresh env) tn ''RFID'' (rq_now env)
      (map (\<lambda>(d, epc). (d, Some epc)) ls)) db = Inr db'"
    using assms by (auto simp: import_epc_body_def Let_def bindr_Inr_iff)
  note db' = this
  then show "adds_rows tn env db db'" "sk_tags db' = sk_tags db"
    by (auto simp: commit_stock_items_def bindr_Inr_iff require_Inr_iff intro: numbered_adds)
  show "sk_lines db' = sk_lines db" using db' by (auto simp: commit_stock_items_def bindr_Inr_iff)
qed

lemma import_sku_effect:
  assumes "import_sku_body env p tn u db = Inr (db', n)"
  shows "adds_rows tn env db db'" "sk_tags db' = sk_tags db" "sk_lines db' = sk_lines db"
proof -
  obtain ds where "commit_stock_items (sk_stock db @ number_rows (rq_fresh env) tn ''PENDING'' (rq_now env)
      (map (\<lambda>d. (d, None)) ds)) db = Inr db'"
    using assms by (auto simp: import_sku_body_def Let_def bindr_Inr_iff)
  note db' = this
  then show "adds_rows tn env db db'" "sk_tags db' = sk_tags db"
    by (auto simp: commit_stock_items_def bindr_Inr_iff require_Inr_iff intro: numbered_adds)
  show "sk_lines db' = sk_lines db" using db' by (auto simp: commit_stock_items_def bindr_Inr_iff)
qed

text \<open>Tags are added the same way.\<close>

definition adds_tag :: "uuid \<Rightarrow> request_env \<Rightarrow> stock_db \<Rightarrow> stock_db \<Rightarrow> bool" where
  "adds_tag tn env db db' \<longleftrightarrow> (\<exists>new. sk_tags db' = sk_tags db @ new \<and> (\<forall>a \<in> set new. ea_tenant_id a = tn)
    \<and> (fresh_stock env db \<longrightarrow> distinct (map ea_id (sk_tags db)) \<longrightarrow> distinct (map ea_id (sk_tags db @ new)))
    \<and> (new = [] \<or> tags_unique (sk_tags db @ new)))"

lemma find_preload_line_Inr:
  assumes "find_preload_line i tn db = Inr l"
  shows "l \<in> set (sk_lines db)" "pl_id l = i" "pl_tenant_id l = tn"
proof -
  have f: "find (\<lambda>l. pl_id l = i) (sk_lines db) = Some l" and t: "pl_tenant_id l = tn"
    using assms by (auto simp: find_preload_line_def bindr_Inr_iff require_Inr_iff split: option.splits)
  show "l \<in> set (sk_lines db)" "pl_id l = i" "pl_tenant_id l = tn" using find_SomeD [OF f] t by simp_all
qed

lemma fresh_append:
  assumes "fresh_stock env db"
  shows "distinct (map si_id (sk_stock db)) \<Longrightarrow> si_id r = rq_fresh env k \<Longrightarrow> distinct (map si_id (sk_stock db @ [r]))"
    "distinct (map ea_id (sk_tags db)) \<Longrightarrow> ea_id a = rq_fresh env k \<Longrightarrow> distinct (map ea_id (sk_tags db @ [a]))"
proof -
  have "rq_fresh env k \<notin> set (map si_id (sk_stock db))" "rq_fresh env k \<notin> set (map ea_id (sk_tags db))"
    using assms unfolding fresh_stock_def set_map by blast+
  then show "distinct (map si_id (sk_stock db)) \<Longrightarrow> si_id r = rq_fresh env k \<Longrightarrow> distinct (map si_id (sk_stock db @ [r]))"
    "distinct (map ea_id (sk_tags db)) \<Longrightarrow> ea_id a = rq_fresh env k \<Longrightarrow> distinct (map ea_id (sk_tags db @ [a]))"
    by simp_all
qed

lemma saved_row_simps [simp]:
  "si_id (saved_row i l p e now) = i" "si_tenant_id (saved_row i l p e now) = pl_tenant_id l"
  "si_epc (saved_row i l p e now) = e" "si_item_uid (saved_row i l p e now) = pl_item_uid l"
  by (simp_all add: saved_row_def)

lemma new_assignment_simps [simp]:
  "ea_id (new_assignment i l e now) = i" "ea_tenant_id (new_assignment i l e now) = pl_tenant_id l"
  "ea_epc (new_assignment i l e now) = e" "ea_active (new_assignment i l e now)"
  "ea_item_uid (new_assignment i l e now) = pl_item_uid l"
  by (simp_all add: new_assignment_def)

lemma save_effect:
  assumes "save_preload_line env t i db = Inr (db', l')"
  obtains tn l r where "stock_tenant env t = Inr tn" "l \<in> set (sk_lines db)" "pl_tenant_id l = tn"
    "sk_stock db' = sk_stock db @ [r]" "adds_rows tn env db db'" "adds_tag tn env db db'"
    "sk_lines db' = map (\<lambda>x. if pl_id x = pl_id l' then l' else x) (sk_lines db)"
    "line_key l' = item_key r" "pl_saved_stock_item_id l' = Some (si_id r)"
proof -
  obtain tn l where tn: "stock_tenant env t = Inr tn" and l: "find_preload_line i tn db = Inr l"
    using assms by (auto simp: save_preload_line_def bindr_Inr_iff)
  obtain db1 r where up: "upsert_from_preload_line (rq_fresh env) (rq_now env) (Some (td_sub (rq_token env))) l db = (db1, r)"
    by fastforce
  have save: "(if falsy (pl_epc l) then save_pending env l (cp_id (ur_product r)) db1
      else save_tagged env l (cp_id (ur_product r)) (the (pl_epc l)) db1) = Inr (db', l')"
    using assms tn l up by (auto simp: save_preload_line_def Let_def bindr_Inr_iff require_Inr_iff)
  have same: "sk_stock db1 = sk_stock db" "sk_tags db1 = sk_tags db" "sk_lines db1 = sk_lines db"
    using up by (simp_all add: upsert_from_preload_line_def)
  note lt = find_preload_line_Inr(3) [OF l]
  define row where "row = saved_row (rq_fresh env 2) l (Some (cp_id (ur_product r)))
    (if falsy (pl_epc l) then None else Some (the (pl_epc l))) (rq_now env)"
  have "sk_stock db' = sk_stock db @ [row] \<and> stock_unique (sk_stock db @ [row])
      \<and> (sk_tags db' = sk_tags db \<or> (\<exists>epc. sk_tags db' = sk_tags db @ [new_assignment (rq_fresh env 3) l epc (rq_now env)]
        \<and> tags_unique (sk_tags db')))"
  proof (cases "falsy (pl_epc l)")
    case True
    then show ?thesis
      using save same by (auto simp: save_pending_def Let_def bindr_Inr_iff require_Inr_iff flush_stock_def row_def)
  next
    case False
    then show ?thesis
      using save same
      by (auto simp: save_tagged_def Let_def bindr_Inr_iff require_Inr_iff flush_stock_def commit_preload_epc_write_def row_def)
  qed
  then have row: "sk_stock db' = sk_stock db @ [row]" "stock_unique (sk_stock db @ [row])"
    and tags: "sk_tags db' = sk_tags db \<or> (\<exists>epc. sk_tags db' = sk_tags db @ [new_assignment (rq_fresh env 3) l epc (rq_now env)]
        \<and> tags_unique (sk_tags db'))" by auto
  have rows: "adds_rows tn env db db'"
    unfolding adds_rows_def using row fresh_append(1) [of env db row 2] lt by (intro exI [of _ "[row]"]) (auto simp: row_def)
  have lines: "sk_lines db' = map (\<lambda>x. if pl_id x = pl_id l' then l' else x) (sk_lines db)
      \<and> line_key l' = item_key row \<and> pl_saved_stock_item_id l' = Some (si_id row)"
  proof (cases "falsy (pl_epc l)")
    case True
    then show ?thesis
      using save same by (auto simp: save_pending_def Let_def bindr_Inr_iff set_preload_line_def add_stock_def row_def line_key_def item_key_def)
  next
    case False
    then show ?thesis
      using save same
      by (auto simp: save_tagged_def Let_def bindr_Inr_iff set_preload_line_def add_stock_def add_tag_def row_def line_key_def item_key_def)
  qed
  have "adds_tag tn env db db'"
    using tags
  proof
    assume "sk_tags db' = sk_tags db"
    then show ?thesis by (simp add: adds_tag_def)
  next
    assume "\<exists>epc. sk_tags db' = sk_tags db @ [new_assignment (rq_fresh env 3) l epc (rq_now env)] \<and> tags_unique (sk_tags db')"
    then obtain epc where e: "sk_tags db' = sk_tags db @ [new_assignment (rq_fresh env 3) l epc (rq_now env)]" "tags_unique (sk_tags db')"
      by blast
    then show ?thesis
      unfolding adds_tag_def using fresh_append(2) [of env db "new_assignment (rq_fresh env 3) l epc (rq_now env)" 3] lt
      by (intro exI [of _ "[new_assignment (rq_fresh env 3) l epc (rq_now env)]"]) auto
  qed
  then show ?thesis
    using that [OF tn find_preload_line_Inr(1,3) [OF l] row(1) rows] lines lt by simp
qed

lemma assign_effect:
  assumes "assign_pending_epc env t i epc db = Inr (db', l')"
  obtains tn l where "stock_tenant env t = Inr tn" "l \<in> set (sk_lines db)" "pl_tenant_id l = tn"
    "sk_stock db' = sk_stock db \<or> (\<exists>r \<in> set (sk_stock db). pl_saved_stock_item_id l = Some (si_id r)
      \<and> (\<exists>r'. si_id r' = si_id r \<and> item_key r' = item_key r \<and> sk_stock db' = sk_stock (set_stock_row r' db)))"
    "stock_unique (sk_stock db')" "adds_tag tn env db db'"
    "sk_lines db' = map (\<lambda>x. if pl_id x = pl_id l then l' else x) (sk_lines db)"
    "line_key l' = line_key l" "pl_saved_stock_item_id l' = pl_saved_stock_item_id l"
proof -
  obtain tn l where tn: "stock_tenant env t = Inr tn" and l: "find_preload_line i tn db = Inr l"
    using assms by (auto simp: assign_pending_epc_def bindr_Inr_iff)
  let ?now = "rq_now env"
  let ?l = "l\<lparr>pl_epc := Some epc, pl_epc_status := ''ASSIGNED'', pl_item_status := ''ACTIVE'',
    pl_lifecycle_state := ''SAVED_EPC_FINAL'', pl_updated_at := Some ?now\<rparr>"
  let ?a = "new_assignment (rq_fresh env 0) l epc ?now"
  define db1 where "db1 = (case find (\<lambda>r. Some (si_id r) = pl_saved_stock_item_id l) (sk_stock db) of
      None \<Rightarrow> db
    | Some r \<Rightarrow> set_stock_row (r\<lparr>si_epc := Some epc, si_status := Some ''RFID'', si_item_status := ''ACTIVE'',
        si_epc_status := ''ASSIGNED'', si_updated_at := Some ?now\<rparr>) db)"
  have ok: "commit_preload_epc_write (set_preload_line ?l (add_tag ?a db1)) = Inr ()"
    and db': "db' = set_preload_line ?l (add_tag ?a db1)" and l': "l' = ?l"
    using assms tn l unfolding db1_def by (auto simp: assign_pending_epc_def Let_def bindr_Inr_iff require_Inr_iff)
  note L = find_preload_line_Inr [OF l]
  have same: "sk_tags db1 = sk_tags db" "sk_lines db1 = sk_lines db"
    by (simp_all add: db1_def split: option.splits)
  have stock: "sk_stock db1 = sk_stock db \<or> (\<exists>r \<in> set (sk_stock db). pl_saved_stock_item_id l = Some (si_id r)
      \<and> (\<exists>r'. si_id r' = si_id r \<and> item_key r' = item_key r \<and> sk_stock db1 = sk_stock (set_stock_row r' db)))"
  proof (cases "find (\<lambda>r. Some (si_id r) = pl_saved_stock_item_id l) (sk_stock db)")
    case (Some r)
    let ?r = "r\<lparr>si_epc := Some epc, si_status := Some ''RFID'', si_item_status := ''ACTIVE'',
        si_epc_status := ''ASSIGNED'', si_updated_at := Some ?now\<rparr>"
    have "sk_stock db1 = sk_stock (set_stock_row ?r db)" using Some by (simp add: db1_def)
    moreover have "r \<in> set (sk_stock db)" "pl_saved_stock_item_id l = Some (si_id r)" using find_SomeD [OF Some] by auto
    ultimately show ?thesis by (intro disjI2 bexI [of _ r] conjI exI [of _ ?r]) (simp_all add: item_key_def)
  qed (simp add: db1_def)
  have u: "stock_unique (sk_stock db1)" "tags_unique (sk_tags db @ [?a])"
    using ok same by (simp_all add: commit_preload_epc_write_def require_Inr_iff)
  have "adds_tag tn env db db'"
    unfolding adds_tag_def using fresh_append(2) [of env db ?a 0] u(2) L(3) same
    by (intro exI [of _ "[?a]"]) (auto simp: db')
  moreover have "sk_stock db' = sk_stock db1" by (simp add: db')
  moreover have "sk_lines db' = map (\<lambda>x. if pl_id x = pl_id l then l' else x) (sk_lines db)"
    using same l' by (simp add: db' set_preload_line_def add_tag_def)
  ultimately show ?thesis using that [OF tn L(1) L(3)] stock u(1) l' by (simp add: line_key_def)
qed

section \<open>The constraints are kept\<close>

lemma adds_rows_unique:
  assumes "adds_rows tn env db db'" and "fresh_stock env db" and "distinct (map si_id (sk_stock db))"
  shows "distinct (map si_id (sk_stock db')) \<and> stock_unique (sk_stock db')"
  using assms by (auto simp: adds_rows_def)

lemma adds_tag_unique:
  assumes "adds_tag tn env db db'" and "fresh_stock env db" and "distinct (map ea_id (sk_tags db))" and "tags_unique (sk_tags db)"
  shows "distinct (map ea_id (sk_tags db')) \<and> tags_unique (sk_tags db')"
  using assms by (auto simp: adds_tag_def)

lemma delete_stock_unique:
  assumes "distinct (map si_id (sk_stock db))" and "stock_unique (sk_stock db)"
  shows "distinct (map si_id (sk_stock (delete_stock rs db))) \<and> stock_unique (sk_stock (delete_stock rs db))"
proof -
  have d: "distinct (map si_id (sk_stock (delete_stock rs db)))"
    using assms(1) by (simp add: delete_stock_def distinct_map_filter)
  have "rows_apart (set (sk_stock db))" using assms stock_unique_iff by blast
  then have "rows_apart (set (sk_stock (delete_stock rs db)))"
    by (rule rows_apart_subset) (auto simp: delete_stock_def)
  then show ?thesis using d stock_unique_iff by blast
qed

text \<open>The references of the lines survive when every row was there, or is new to every line.\<close>

definition rows_from :: "stock_db \<Rightarrow> stock_db \<Rightarrow> bool" where
  "rows_from db db' \<longleftrightarrow> (\<forall>r' \<in> set (sk_stock db'). \<exists>r \<in> set (sk_stock db). si_id r = si_id r' \<and> item_key r = item_key r')"

lemma line_refs_keep:
  assumes "line_refs db" and "rows_from db db'"
    and "\<And>l'. l' \<in> set (sk_lines db') \<Longrightarrow> pl_saved_stock_item_id l' = None
      \<or> (\<exists>l \<in> set (sk_lines db). pl_saved_stock_item_id l = pl_saved_stock_item_id l' \<and> line_key l = line_key l')"
  shows "line_refs db'"
  unfolding line_refs_def
proof (intro ballI impI)
  fix l' r' assume l': "l' \<in> set (sk_lines db')" and r': "r' \<in> set (sk_stock db')" "pl_saved_stock_item_id l' = Some (si_id r')"
  obtain l where l: "l \<in> set (sk_lines db)" "pl_saved_stock_item_id l = Some (si_id r')" "line_key l = line_key l'"
    using assms(3) [OF l'] r'(2) by auto
  obtain r where "r \<in> set (sk_stock db)" "si_id r = si_id r'" "item_key r = item_key r'"
    using assms(2) r'(1) unfolding rows_from_def by blast
  then show "item_key r' = line_key l'" using assms(1) l unfolding line_refs_def by metis
qed

lemma rows_fromI: "(\<And>r'. r' \<in> set (sk_stock db') \<Longrightarrow> \<exists>r \<in> set (sk_stock db). si_id r = si_id r' \<and> item_key r = item_key r')
    \<Longrightarrow> rows_from db db'"
  by (simp add: rows_from_def)

lemma set_row_from:
  assumes "r \<in> set (sk_stock db)" and "si_id r' = si_id r" and "item_key r' = item_key r"
    and "sk_stock db' = sk_stock (set_stock_row r' db)"
  shows "rows_from db db'"
proof (rule rows_fromI)
  fix x assume "x \<in> set (sk_stock db')"
  then have "x = r' \<or> x \<in> set (sk_stock db)" by (auto simp: assms(4) set_stock_row_def split: if_splits)
  then show "\<exists>y \<in> set (sk_stock db). si_id y = si_id x \<and> item_key y = item_key x"
    using assms(1-3) by metis
qed

lemma replaces_row_from:
  assumes "replaces_row tn db db'"
  shows "rows_from db db'"
proof (cases "sk_stock db' = sk_stock db")
  case False
  then obtain r r' where "r \<in> set (sk_stock db)" "may_replace r r' (set (sk_stock db))" "sk_stock db' = sk_stock (set_stock_row r' db)"
    using assms unfolding replaces_row_def by blast
  then show ?thesis by (intro set_row_from) (simp_all add: may_replace_def)
qed (auto simp: rows_from_def)

lemma delete_stock_from: "rows_from db (delete_stock rs db)"
  by (auto simp: rows_from_def delete_stock_def)

lemma same_lines_refs: "line_refs db \<Longrightarrow> rows_from db db' \<Longrightarrow> sk_lines db' = sk_lines db \<Longrightarrow> line_refs db'"
  by (erule line_refs_keep) auto

lemma adds_rows_new:
  assumes "adds_rows tn env db db'" and "fresh_stock env db"
  obtains new where "sk_stock db' = sk_stock db @ new" "\<And>r. r \<in> set new \<Longrightarrow> si_tenant_id r = tn"
    "\<And>l r. l \<in> set (sk_lines db) \<Longrightarrow> r \<in> set new \<Longrightarrow> pl_saved_stock_item_id l \<noteq> Some (si_id r)"
proof -
  obtain new where new: "sk_stock db' = sk_stock db @ new" "\<forall>r \<in> set new. si_tenant_id r = tn \<and> si_id r \<in> range (rq_fresh env)"
    using assms(1) unfolding adds_rows_def by blast
  have "pl_saved_stock_item_id l \<noteq> Some (si_id r)" if "l \<in> set (sk_lines db)" "r \<in> set new" for l r
  proof -
    obtain k where k: "si_id r = rq_fresh env k" using new(2) \<open>r \<in> set new\<close> by blast
    have "Some (rq_fresh env k) \<notin> pl_saved_stock_item_id ` set (sk_lines db)" using assms(2) by (simp add: fresh_stock_def)
    then show ?thesis using that(1) k imageI by metis
  qed
  then show ?thesis using that new by blast
qed

lemma adds_rows_refs:
  assumes "adds_rows tn env db db'" and "fresh_stock env db" and "line_refs db" and "sk_lines db' = sk_lines db"
  shows "line_refs db'"
proof -
  obtain new where "sk_stock db' = sk_stock db @ new"
    "\<And>l r. l \<in> set (sk_lines db) \<Longrightarrow> r \<in> set new \<Longrightarrow> pl_saved_stock_item_id l \<noteq> Some (si_id r)"
    using adds_rows_new [OF assms(1,2)] by metis
  then show ?thesis using assms(3,4) unfolding line_refs_def by auto
qed

text \<open>The operations that keep the lines.\<close>

lemma same_lines:
  "migrate_body env m tn u db = Inr (db', n) \<Longrightarrow> sk_lines db' = sk_lines db"
  "stock_action_body env a tn u db = Inr (db', n) \<Longrightarrow> sk_lines db' = sk_lines db"
  "mark_issue env t i iq db = Inr (db', r) \<Longrightarrow> sk_lines db' = sk_lines db"
  "resolve_issue env t i st ob db = Inr (db', r) \<Longrightarrow> sk_lines db' = sk_lines db"
proof -
  show "migrate_body env m tn u db = Inr (db', n) \<Longrightarrow> sk_lines db' = sk_lines db"
    by (auto simp: migrate_body_def Let_def bindr_Inr_iff split: list.splits)
  show "stock_action_body env a tn u db = Inr (db', n) \<Longrightarrow> sk_lines db' = sk_lines db"
    by (cases a) (auto simp: stock_action_body_def write_off_def look_up_row_def replace_epc_def end_epc_def
      delete_stock_def bindr_Inr_iff split: option.splits)
  show "mark_issue env t i iq db = Inr (db', r) \<Longrightarrow> sk_lines db' = sk_lines db"
    by (auto simp: mark_issue_def release_for_issue_def Let_def bindr_Inr_iff split: option.splits)
  show "resolve_issue env t i st ob db = Inr (db', r) \<Longrightarrow> sk_lines db' = sk_lines db"
    by (auto simp: resolve_issue_def Let_def bindr_Inr_iff split: option.splits)
qed

text \<open>The operations that keep the rows and the tags.\<close>

lemma session_effect:
  assumes "create_preload_session env s db = Inr (db', x)"
  shows "sk_stock db' = sk_stock db" "sk_tags db' = sk_tags db"
    "\<exists>new. sk_lines db' = sk_lines db @ new \<and> (\<forall>l \<in> set new. pl_saved_stock_item_id l = None)"
  using assms
  by (auto simp: create_preload_session_def Let_def bindr_Inr_iff staged_lines_def staged_line_def)

lemma patch_effect:
  assumes "patch_preload_line env t i pp db = Inr (db', l')"
  shows "sk_stock db' = sk_stock db" "sk_tags db' = sk_tags db"
    "\<exists>l \<in> set (sk_lines db). pl_saved_stock_item_id l' = pl_saved_stock_item_id l \<and> line_key l' = line_key l"
    "sk_lines db' = map (\<lambda>x. if pl_id x = pl_id l' then l' else x) (sk_lines db)"
proof -
  obtain tn l where l: "find_preload_line i tn db = Inr l" and db': "db' = set_preload_line l' db"
    and l': "pl_saved_stock_item_id l' = pl_saved_stock_item_id l \<and> line_key l' = line_key l"
    using assms by (auto simp: patch_preload_line_def Let_def bindr_Inr_iff line_key_def)
  show "sk_stock db' = sk_stock db" "sk_tags db' = sk_tags db" by (simp_all add: db')
  show "\<exists>l \<in> set (sk_lines db). pl_saved_stock_item_id l' = pl_saved_stock_item_id l \<and> line_key l' = line_key l"
    using find_preload_line_Inr(1) [OF l] l' by blast
  show "sk_lines db' = map (\<lambda>x. if pl_id x = pl_id l' then l' else x) (sk_lines db)" by (simp add: db' set_preload_line_def)
qed

lemma image_effect:
  "upsert_sku_images env t sku ig db = Inr (db', ms) \<Longrightarrow>
    sk_stock db' = sk_stock db \<and> sk_tags db' = sk_tags db \<and> sk_lines db' = sk_lines db"
  "set_primary_sku_image env t sku i db = Inr (db', ms) \<Longrightarrow>
    sk_stock db' = sk_stock db \<and> sk_tags db' = sk_tags db \<and> sk_lines db' = sk_lines db"
  by (auto simp: upsert_sku_images_def set_primary_sku_image_def Let_def bindr_Inr_iff split: if_splits)

lemma catalog_effect:
  assumes "bulk_upsert_catalog_products env t cq db = Inr (db', c)"
  shows "sk_stock db' = sk_stock db" "sk_tags db' = sk_tags db" "sk_lines db' = sk_lines db"
proof -
  obtain tn where "fold (count_upsert env tn cq) (enumerate 0 (cq_lines cq))
      (db, \<lparr>uc_created = 0, uc_updated = 0, uc_review_required = 0\<rparr>) = (db', c)"
    using assms by (auto simp: bulk_upsert_catalog_products_def bindr_Inr_iff)
  then show "sk_stock db' = sk_stock db" "sk_tags db' = sk_tags db" "sk_lines db' = sk_lines db"
    by (rule count_upserts)+
qed

lemma elsewhere_rows:
  assumes "list_all2 (\<lambda>r r'. si_id r' = si_id r \<and> item_key r' = item_key r \<and> (si_epc r' = si_epc r \<or> si_epc r' = None)) old rows"
    and "set old \<subseteq> R" and "distinct (map si_id old)" and "rows_apart R"
  shows "map si_id rows = map si_id old" "rows_apart (set rows)"
    "r' \<in> set rows \<Longrightarrow> \<exists>r \<in> R. si_id r = si_id r' \<and> item_key r = item_key r'"
proof -
  let ?P = "\<lambda>r r'. si_id r' = si_id r \<and> item_key r' = item_key r \<and> (si_epc r' = si_epc r \<or> si_epc r' = None)"
  show ids: "map si_id rows = map si_id old" using assms(1) by induction auto
  define old_of :: "stock_item \<Rightarrow> stock_item" where "old_of r' = (THE r. r \<in> set old \<and> si_id r = si_id r')" for r'
  have old: "old_of r' \<in> set old \<and> ?P (old_of r') r'" if "r' \<in> set rows" for r'
  proof -
    obtain k where k: "k < length rows" "rows ! k = r'" using \<open>r' \<in> set rows\<close> by (metis in_set_conv_nth)
    have r: "old ! k \<in> set old" "?P (old ! k) r'"
      using list_all2_nthD2 [OF assms(1) k(1)] list_all2_lengthD [OF assms(1)] k by auto
    have "old_of r' = old ! k"
      unfolding old_of_def
    proof (rule the_equality)
      fix r assume "r \<in> set old \<and> si_id r = si_id r'"
      then have "r \<in> set old" "si_id r = si_id (old ! k)" using r(2) by simp_all
      then show "r = old ! k" by (intro key_unique [OF assms(3) _ r(1)])
    qed (use r in simp)
    then show ?thesis using r by metis
  qed
  have keys: "inj_on tag_key {r \<in> R. si_epc r \<noteq> None}" "inj_on item_key R" using assms(4) by (simp_all add: rows_apart_def)
  have d: "distinct (map si_id rows)" using ids assms(3) by simp
  have same: "x = y" if x: "x \<in> set rows" and y: "y \<in> set rows" and eq: "old_of x = old_of y" for x y
  proof -
    have "si_id x = si_id y" using old [OF x] old [OF y] eq by metis
    then show ?thesis by (rule key_unique [OF d x y])
  qed
  have "inj_on item_key (set rows)"
  proof (rule inj_onI)
    fix x y assume x: "x \<in> set rows" and y: "y \<in> set rows" and "item_key x = item_key y"
    then have "item_key (old_of x) = item_key (old_of y)" using old [OF x] old [OF y] by simp
    then show "x = y" using inj_onD [OF keys(2)] old [OF x] old [OF y] assms(2) same [OF x y] by blast
  qed
  moreover have "inj_on tag_key {r \<in> set rows. si_epc r \<noteq> None}"
  proof (rule inj_onI)
    fix x y assume xy: "x \<in> {r \<in> set rows. si_epc r \<noteq> None}" "y \<in> {r \<in> set rows. si_epc r \<noteq> None}"
      and eq: "tag_key x = tag_key y"
    then have x: "x \<in> set rows" "si_epc x \<noteq> None" and y: "y \<in> set rows" "si_epc y \<noteq> None" by simp_all
    have k: "tag_key (old_of z) = tag_key z \<and> si_epc (old_of z) \<noteq> None" if "z \<in> set rows" "si_epc z \<noteq> None" for z
      using old [OF that(1)] that(2) by (auto simp: tag_key_def item_key_def)
    have "old_of x = old_of y"
    proof (rule inj_onD [OF keys(1)])
      show "tag_key (old_of x) = tag_key (old_of y)" using k [OF x] k [OF y] eq by simp
      show "old_of x \<in> {r \<in> R. si_epc r \<noteq> None}" using k [OF x] old [OF x(1)] assms(2) by blast
      show "old_of y \<in> {r \<in> R. si_epc r \<noteq> None}" using k [OF y] old [OF y(1)] assms(2) by blast
    qed
    then show "x = y" by (rule same [OF x(1) y(1)])
  qed
  ultimately show "rows_apart (set rows)" by (simp add: rows_apart_def)
  show "\<exists>r \<in> R. si_id r = si_id r' \<and> item_key r = item_key r'" if r': "r' \<in> set rows"
    using old [OF r'] assms(2) by (intro bexI [of _ "old_of r'"]) auto
qed

lemma elsewhere_tags:
  assumes "list_all2 (\<lambda>a a'. ea_id a' = ea_id a \<and> (a' = a \<or> \<not> ea_active a')) old tags"
  shows "map ea_id tags = map ea_id old" "tags_unique old \<Longrightarrow> tags_unique tags"
proof -
  show "map ea_id tags = map ea_id old" using assms by induction auto
  have "set (active_tags tags) \<subseteq> set (active_tags old) \<and> (distinct (active_tags old) \<longrightarrow> distinct (active_tags tags))"
    using assms by induction (auto simp: active_tags_def)
  then show "tags_unique old \<Longrightarrow> tags_unique tags" by (simp add: tags_unique_def)
qed

text \<open>Each step keeps the constraints.\<close>

lemma keeps_parts:
  assumes "stock_constraints db"
    and "distinct (map si_id (sk_stock db')) \<and> stock_unique (sk_stock db')"
    and "distinct (map ea_id (sk_tags db')) \<and> tags_unique (sk_tags db')" and "line_refs db'"
  shows "stock_constraints db'"
  using assms by (simp add: stock_constraints_def)

lemma constraintsD:
  assumes "stock_constraints db"
  shows "distinct (map si_id (sk_stock db))" "distinct (map ea_id (sk_tags db))" "stock_unique (sk_stock db)"
    "tags_unique (sk_tags db)" "line_refs db"
  using assms by (simp_all add: stock_constraints_def)

lemma keeps_replace:
  assumes "stock_constraints db" and "replaces_row tn db db'" and "releases_tag tn db db' \<or> sk_tags db' = sk_tags db"
    and "sk_lines db' = sk_lines db"
  shows "stock_constraints db'"
proof (rule keeps_parts [OF assms(1)])
  note c = constraintsD [OF assms(1)]
  show "distinct (map si_id (sk_stock db')) \<and> stock_unique (sk_stock db')"
    by (rule replaces_row_unique [OF assms(2) c(1,3)])
  show "distinct (map ea_id (sk_tags db')) \<and> tags_unique (sk_tags db')"
    using assms(3) releases_tag_unique [OF _ c(2,4)] c(2,4) by auto
  show "line_refs db'" by (rule same_lines_refs [OF c(5) replaces_row_from [OF assms(2)] assms(4)])
qed

lemma keeps_import:
  assumes "stock_constraints db" and "fresh_stock env db" and "adds_rows tn env db db'" and "sk_tags db' = sk_tags db"
    and "sk_lines db' = sk_lines db"
  shows "stock_constraints db'"
  using keeps_parts [OF assms(1) adds_rows_unique [OF assms(3,2)]] adds_rows_refs [OF assms(3,2)]
    constraintsD [OF assms(1)] assms(4,5) by simp

lemma keeps_save:
  assumes c: "stock_constraints db" and f: "fresh_stock env db" and s: "save_preload_line env t i db = Inr (db', l')"
  shows "stock_constraints db'"
proof -
  obtain tn l r where l: "l \<in> set (sk_lines db)" "pl_tenant_id l = tn"
    and rows: "sk_stock db' = sk_stock db @ [r]" "adds_rows tn env db db'" and tags: "adds_tag tn env db db'"
    and lines: "sk_lines db' = map (\<lambda>x. if pl_id x = pl_id l' then l' else x) (sk_lines db)"
    and l': "line_key l' = item_key r" "pl_saved_stock_item_id l' = Some (si_id r)"
    using s by (rule save_effect)
  note c' = constraintsD [OF c]
  have r: "si_tenant_id r = tn" "\<And>l. l \<in> set (sk_lines db) \<Longrightarrow> pl_saved_stock_item_id l \<noteq> Some (si_id r)"
    using adds_rows_new [OF rows(2) f] rows(1) by auto
  have ids: "distinct (map si_id (sk_stock db @ [r]))" using adds_rows_unique [OF rows(2) f c'(1)] rows(1) by simp
  have "line_refs db'"
    unfolding line_refs_def
  proof (intro ballI impI)
    fix x y assume x: "x \<in> set (sk_lines db')" and y: "y \<in> set (sk_stock db')" "pl_saved_stock_item_id x = Some (si_id y)"
    show "item_key y = line_key x"
    proof (cases "x = l'")
      case True
      then have "si_id y = si_id r" using y(2) l' by simp
      then have "y = r" using ids y(1) rows(1) by (auto simp: image_iff)
      then show ?thesis using l' True by simp
    next
      case False
      then have x': "x \<in> set (sk_lines db)" using x lines by (auto split: if_splits)
      then have "y \<in> set (sk_stock db)" using r(2) [OF x'] y rows(1) by auto
      then show ?thesis using c'(5) x' y(2) unfolding line_refs_def by blast
    qed
  qed
  then show ?thesis
    using keeps_parts [OF c adds_rows_unique [OF rows(2) f c'(1)] adds_tag_unique [OF tags f c'(2,4)]] by simp
qed

lemma keeps_assign:
  assumes c: "stock_constraints db" and f: "fresh_stock env db" and s: "assign_pending_epc env t i epc db = Inr (db', l')"
  shows "stock_constraints db'"
proof -
  obtain tn l where l: "l \<in> set (sk_lines db)" "pl_tenant_id l = tn"
    and stock: "sk_stock db' = sk_stock db \<or> (\<exists>r \<in> set (sk_stock db). pl_saved_stock_item_id l = Some (si_id r)
      \<and> (\<exists>r'. si_id r' = si_id r \<and> item_key r' = item_key r \<and> sk_stock db' = sk_stock (set_stock_row r' db)))"
    and u: "stock_unique (sk_stock db')" and tags: "adds_tag tn env db db'"
    and lines: "sk_lines db' = map (\<lambda>x. if pl_id x = pl_id l then l' else x) (sk_lines db)"
    and l': "line_key l' = line_key l" "pl_saved_stock_item_id l' = pl_saved_stock_item_id l"
    using s by (rule assign_effect)
  note c' = constraintsD [OF c]
  have from_rows: "rows_from db db'"
    using stock
  proof
    assume "sk_stock db' = sk_stock db"
    then show ?thesis by (auto simp: rows_from_def)
  next
    assume "\<exists>r \<in> set (sk_stock db). pl_saved_stock_item_id l = Some (si_id r)
      \<and> (\<exists>r'. si_id r' = si_id r \<and> item_key r' = item_key r \<and> sk_stock db' = sk_stock (set_stock_row r' db))"
    then show ?thesis by (blast intro: set_row_from)
  qed
  have ids: "map si_id (sk_stock db') = map si_id (sk_stock db)"
    using stock by (auto simp: set_stock_row_def)
  have "line_refs db'"
  proof (rule line_refs_keep [OF c'(5) from_rows])
    fix x assume "x \<in> set (sk_lines db')"
    then have "x = l' \<or> x \<in> set (sk_lines db)" using lines by (auto split: if_splits)
    then show "pl_saved_stock_item_id x = None
      \<or> (\<exists>l \<in> set (sk_lines db). pl_saved_stock_item_id l = pl_saved_stock_item_id x \<and> line_key l = line_key x)"
      using l(1) l' by metis
  qed
  then show ?thesis
    using keeps_parts [OF c _ adds_tag_unique [OF tags f c'(2,4)]] u ids c'(1) by simp
qed

end
