(* ===== verification/Stock_Invariants.thy ===== *)
theory Stock_Invariants
  imports Stock_Steps
begin

text \<open>
  Stock, what holds of every request: the constraints of the tables are kept, and the rows and tags
  of another tenant are left as they are.
\<close>

section \<open>The constraints\<close>

lemma keeps_elsewhere:
  assumes c: "stock_constraints db"
    and rows: "list_all2 (\<lambda>r r'. si_id r' = si_id r \<and> item_key r' = item_key r \<and> (si_epc r' = si_epc r \<or> si_epc r' = None))
      kept_rows rows" "set kept_rows \<subseteq> set (sk_stock db)" "distinct (map si_id kept_rows)"
    and tags: "list_all2 (\<lambda>a a'. ea_id a' = ea_id a \<and> (a' = a \<or> \<not> ea_active a')) (sk_tags db) tags"
  shows "stock_constraints (db\<lparr>sk_stock := rows, sk_tags := tags\<rparr>)"
proof (rule keeps_parts [OF c])
  note c' = constraintsD [OF c]
  have apart: "rows_apart (set (sk_stock db))" using c'(1,3) stock_unique_iff by blast
  note e = elsewhere_rows [OF rows apart]
  have d: "distinct (map si_id rows)" using e(1) rows(3) by simp
  show "distinct (map si_id (sk_stock (db\<lparr>sk_stock := rows, sk_tags := tags\<rparr>)))
      \<and> stock_unique (sk_stock (db\<lparr>sk_stock := rows, sk_tags := tags\<rparr>))"
    using d e(2) stock_unique_iff [OF d] by simp
  show "distinct (map ea_id (sk_tags (db\<lparr>sk_stock := rows, sk_tags := tags\<rparr>)))
      \<and> tags_unique (sk_tags (db\<lparr>sk_stock := rows, sk_tags := tags\<rparr>))"
    using elsewhere_tags [OF tags] c'(2,4) by simp
  show "line_refs (db\<lparr>sk_stock := rows, sk_tags := tags\<rparr>)"
  proof (rule same_lines_refs [OF c'(5) rows_fromI])
    fix r' assume "r' \<in> set (sk_stock (db\<lparr>sk_stock := rows, sk_tags := tags\<rparr>))"
    then have "r' \<in> set rows" by simp
    then show "\<exists>r \<in> set (sk_stock db). si_id r = si_id r' \<and> item_key r = item_key r'" by (rule e(3))
  qed simp
qed

lemma keeps_action:
  assumes c: "stock_constraints db" and s: "stock_action_body env a tn u db = Inr (db', n)"
  shows "stock_constraints db'"
  using stock_action_effect [OF s]
proof (elim conjE disjE exE)
  assume "replaces_row tn db db'" and "sk_tags db' = sk_tags db"
  then show ?thesis using keeps_replace [OF c _ _ same_lines(2) [OF s]] by blast
next
  fix rows assume tags: "sk_tags db' = sk_tags db" and db': "db' = delete_stock rows db"
  note c' = constraintsD [OF c]
  have "line_refs db'" by (rule same_lines_refs [OF c'(5) _ same_lines(2) [OF s]]) (simp add: db' delete_stock_from)
  then show ?thesis
    using delete_stock_unique [OF c'(1,3), of rows] c'(2,4) by (simp add: stock_constraints_def db')
qed

lemma keeps_lines:
  assumes c: "stock_constraints db" and same: "sk_stock db' = sk_stock db" "sk_tags db' = sk_tags db"
    and lines: "\<And>l'. l' \<in> set (sk_lines db') \<Longrightarrow> pl_saved_stock_item_id l' = None
      \<or> (\<exists>l \<in> set (sk_lines db). pl_saved_stock_item_id l = pl_saved_stock_item_id l' \<and> line_key l = line_key l')"
  shows "stock_constraints db'"
proof -
  have "rows_from db db'" using same by (auto simp: rows_from_def)
  then have "line_refs db'" by (rule line_refs_keep [OF constraintsD(5) [OF c] _ lines])
  then show ?thesis using constraintsD [OF c] same by (simp add: stock_constraints_def)
qed

lemma keeps_patch:
  assumes c: "stock_constraints db" and s: "patch_preload_line env t i pp db = Inr (db', l')"
  shows "stock_constraints db'"
proof (rule keeps_lines [OF c patch_effect(1,2) [OF s]])
  fix x assume "x \<in> set (sk_lines db')"
  then have "x = l' \<or> x \<in> set (sk_lines db)" using patch_effect(4) [OF s] by (auto split: if_splits)
  then show "pl_saved_stock_item_id x = None
      \<or> (\<exists>l \<in> set (sk_lines db). pl_saved_stock_item_id l = pl_saved_stock_item_id x \<and> line_key l = line_key x)"
    using patch_effect(3) [OF s] by metis
qed

lemma stock_step_keeps:
  assumes "stock_step env db db'" and "stock_constraints db"
  shows "stock_constraints db'"
  using assms
proof induction
  case (Import_epc env db tx t tn u p db' n)
  then show ?case using keeps_import import_epc_effect by metis
next
  case (Import_sku env db tx t tn u p db' n)
  then show ?case using keeps_import import_sku_effect by metis
next
  case (Migrate env tx t tn u m db db' n)
  then show ?case using keeps_replace migrate_effect same_lines(1) by metis
next
  case (Action env q tn u a db db' n)
  then show ?case using keeps_action by blast
next
  case (Open_session env s db db' x)
  obtain new where "sk_lines db' = sk_lines db @ new" "\<forall>l \<in> set new. pl_saved_stock_item_id l = None"
    using session_effect(3) [OF Open_session(1)] by blast
  then show ?case by (intro keeps_lines [OF Open_session(2) session_effect(1,2) [OF Open_session(1)]]) auto
next
  case (Patch env t i pp db db' l)
  then show ?case using keeps_patch by blast
next
  case (Save env db t i db' l)
  then show ?case using keeps_save by blast
next
  case (Assign env db t i epc db' l)
  then show ?case using keeps_assign by blast
next
  case (Release env t rr db db' b)
  from Release(1) obtain tn where "replaces_row tn db db'" "releases_tag tn db db'" "sk_lines db' = sk_lines db"
    by (rule release_effect)
  then show ?case using keeps_replace [OF Release(2)] by blast
next
  case (Mark_issue env t i iq db db' r)
  from Mark_issue(1) obtain tn where "replaces_row tn db db'" "releases_tag tn db db'" by (rule mark_issue_effect)
  then show ?case using keeps_replace [OF Mark_issue(2) _ _ same_lines(3) [OF Mark_issue(1)]] by blast
next
  case (Resolve_issue env t i st ob db db' r)
  from Resolve_issue(1) obtain tn where "replaces_row tn db db'" "sk_tags db' = sk_tags db" by (rule resolve_issue_effect)
  then show ?case using keeps_replace [OF Resolve_issue(2) _ _ same_lines(4) [OF Resolve_issue(1)]] by blast
next
  case (Image env t sku ig db db' ms)
  then show ?case using image_effect(1) [OF Image(1)] by (intro keeps_lines [OF Image(2)]) auto
next
  case (Primary env t sku i db db' ms)
  then show ?case using image_effect(2) [OF Primary(1)] by (intro keeps_lines [OF Primary(2)]) auto
next
  case (Catalog env t cq db db' c)
  then show ?case using catalog_effect [OF Catalog(1)] by (intro keeps_lines [OF Catalog(2)]) auto
next
  case (Elsewhere kept_rows rows db tags env)
  then show ?case using keeps_elsewhere by blast
qed

section \<open>Other tenants\<close>

definition other_tenants :: "uuid \<Rightarrow> stock_db \<Rightarrow> stock_item list \<times> epc_assignment list" where
  "other_tenants tn db = (filter (\<lambda>r. si_tenant_id r \<noteq> tn) (sk_stock db), filter (\<lambda>a. ea_tenant_id a \<noteq> tn) (sk_tags db))"

lemma filter_replaced:
  assumes "distinct (map key xs)" and "x \<in> set xs" and "key y = key x" and "\<not> P x" and "\<not> P y"
  shows "filter P (map (\<lambda>z. if key z = key y then y else z) xs) = filter P xs"
  using assms(1,2)
proof (induction xs)
  case (Cons z zs)
  show ?case
  proof (cases "z = x")
    case True
    then have "map (\<lambda>z. if key z = key y then y else z) zs = zs"
      using Cons.prems(1) assms(3) by (intro map_idI) (auto simp: image_iff)
    then show ?thesis using True assms(3-5) by simp
  next
    case False
    then have "key z \<noteq> key y" using Cons.prems assms(3) by auto
    then show ?thesis using False Cons by simp
  qed
qed simp

lemma replaces_row_other:
  assumes "replaces_row tn db db'" and "distinct (map si_id (sk_stock db))"
  shows "filter (\<lambda>r. si_tenant_id r \<noteq> tn) (sk_stock db') = filter (\<lambda>r. si_tenant_id r \<noteq> tn) (sk_stock db)"
proof (cases "sk_stock db' = sk_stock db")
  case False
  then obtain r r' where r: "r \<in> set (sk_stock db)" "si_tenant_id r = tn" "may_replace r r' (set (sk_stock db))"
    "sk_stock db' = sk_stock (set_stock_row r' db)"
    using assms(1) unfolding replaces_row_def by blast
  then show ?thesis
    unfolding set_stock_row_def
    using filter_replaced [OF assms(2) r(1), of r' "\<lambda>r. si_tenant_id r \<noteq> tn"] by (simp add: may_replace_def item_key_def)
qed simp

lemma releases_tag_other:
  assumes "releases_tag tn db db' \<or> sk_tags db' = sk_tags db" and "distinct (map ea_id (sk_tags db))"
  shows "filter (\<lambda>a. ea_tenant_id a \<noteq> tn) (sk_tags db') = filter (\<lambda>a. ea_tenant_id a \<noteq> tn) (sk_tags db)"
proof (cases "sk_tags db' = sk_tags db")
  case False
  then obtain a a' where a: "a \<in> set (sk_tags db)" "ea_tenant_id a = tn" "ea_id a' = ea_id a" "ea_tenant_id a' = tn"
    "sk_tags db' = sk_tags (set_tag a' db)"
    using assms(1) unfolding releases_tag_def by blast
  then show ?thesis
    unfolding set_tag_def using filter_replaced [OF assms(2) a(1), of a' "\<lambda>a. ea_tenant_id a \<noteq> tn"] by simp
qed simp

lemma adds_other:
  "adds_rows tn env db db' \<Longrightarrow> filter (\<lambda>r. si_tenant_id r \<noteq> tn) (sk_stock db') = filter (\<lambda>r. si_tenant_id r \<noteq> tn) (sk_stock db)"
  "adds_tag tn env db db' \<Longrightarrow> filter (\<lambda>a. ea_tenant_id a \<noteq> tn) (sk_tags db') = filter (\<lambda>a. ea_tenant_id a \<noteq> tn) (sk_tags db)"
  unfolding adds_rows_def adds_tag_def by (auto simp: filter_empty_conv)

lemma delete_other:
  assumes "distinct (map si_id (sk_stock db))" and "set rows \<subseteq> set (sk_stock db)" and "\<forall>r \<in> set rows. si_tenant_id r = tn"
  shows "filter (\<lambda>r. si_tenant_id r \<noteq> tn) (sk_stock (delete_stock rows db)) = filter (\<lambda>r. si_tenant_id r \<noteq> tn) (sk_stock db)"
proof -
  have "si_id r \<notin> si_id ` set rows" if r: "r \<in> set (sk_stock db)" "si_tenant_id r \<noteq> tn" for r
  proof
    assume "si_id r \<in> si_id ` set rows"
    then obtain x where "x \<in> set rows" "si_id x = si_id r" by auto
    then show False using key_unique [OF assms(1), of x r] assms(2,3) r by blast
  qed
  then show ?thesis by (auto simp: delete_stock_def intro!: filter_cong)
qed

text \<open>The tenant of a request is the caller's own.\<close>

lemma stock_resolve_own:
  assumes "stock_resolve_tenant_id td t = Inr tn" and "\<not> is_superadmin (Some (td_role td))"
  shows "td_tenant_id td = Some tn"
  using assms by (cases "td_tenant_id td") (auto simp: stock_resolve_tenant_id_def split: if_splits)

lemma stock_tenant_own:
  assumes "stock_tenant env t = Inr tn" and "\<not> is_superadmin (Some (td_role (rq_token env)))"
  shows "td_tenant_id (rq_token env) = Some tn"
  using assms stock_resolve_own by (auto simp: stock_tenant_def bindr_Inr_iff)

lemma intake_own:
  assumes "intake_before env tx t = Inr (tn, u)" and "\<not> is_superadmin (Some (td_role (rq_token env)))"
  shows "td_tenant_id (rq_token env) = Some tn"
  using assms stock_resolve_own by (auto simp: intake_before_def bindr_Inr_iff)

lemma actions_own:
  assumes "stock_actions_before env q = Inr (tn, u)" and "\<not> is_superadmin (Some (td_role (rq_token env)))"
  shows "td_tenant_id (rq_token env) = Some tn"
  using assms stock_resolve_own by (auto simp: stock_actions_before_def bindr_Inr_iff)

lemma assign_other:
  assumes c: "stock_constraints db" and s: "assign_pending_epc env t i epc db = Inr (db', l')"
    and tn: "stock_tenant env t = Inr tn"
  shows "other_tenants tn db' = other_tenants tn db"
proof -
  note c' = constraintsD [OF c]
  obtain tn' l where tn': "stock_tenant env t = Inr tn'" and l: "l \<in> set (sk_lines db)" "pl_tenant_id l = tn'"
    and stock: "sk_stock db' = sk_stock db \<or> (\<exists>r \<in> set (sk_stock db). pl_saved_stock_item_id l = Some (si_id r)
      \<and> (\<exists>r'. si_id r' = si_id r \<and> item_key r' = item_key r \<and> sk_stock db' = sk_stock (set_stock_row r' db)))"
    and tags: "adds_tag tn' env db db'"
    using s by (rule assign_effect)
  have same: "tn' = tn" using tn tn' by simp
  have "filter (\<lambda>r. si_tenant_id r \<noteq> tn) (sk_stock db') = filter (\<lambda>r. si_tenant_id r \<noteq> tn) (sk_stock db)"
  proof (cases "sk_stock db' = sk_stock db")
    case False
    then obtain r r' where r: "r \<in> set (sk_stock db)" "pl_saved_stock_item_id l = Some (si_id r)" "si_id r' = si_id r"
      "si_tenant_id r' = si_tenant_id r" "sk_stock db' = sk_stock (set_stock_row r' db)"
      using stock by (auto simp: item_key_def)
    have "si_tenant_id r = tn" using c'(5) l r(1,2) same unfolding line_refs_def by (auto simp: item_key_def line_key_def)
    then show ?thesis
      using filter_replaced [OF c'(1) r(1,3), of "\<lambda>r. si_tenant_id r \<noteq> tn"] r(4,5) by (simp add: set_stock_row_def)
  qed simp
  then show ?thesis using adds_other(2) [OF tags] same by (simp add: other_tenants_def)
qed

lemma action_other:
  assumes c: "stock_constraints db" and s: "stock_action_body env a tn u db = Inr (db', n)"
  shows "other_tenants tn db' = other_tenants tn db"
  using stock_action_effect [OF s]
proof (elim conjE disjE exE)
  assume "replaces_row tn db db'" and "sk_tags db' = sk_tags db"
  then show ?thesis using replaces_row_other constraintsD(1) [OF c] by (simp add: other_tenants_def)
next
  fix rows assume "sk_tags db' = sk_tags db" and "set rows \<subseteq> set (sk_stock db)" and "\<forall>r \<in> set rows. si_tenant_id r = tn"
    and "db' = delete_stock rows db"
  then show ?thesis using delete_other [OF constraintsD(1) [OF c], of rows tn] by (simp add: other_tenants_def)
qed

lemma replace_other:
  assumes "stock_constraints db" and "replaces_row tn db db'" and "releases_tag tn db db' \<or> sk_tags db' = sk_tags db"
  shows "other_tenants tn db' = other_tenants tn db"
  using replaces_row_other [OF assms(2)] releases_tag_other [OF assms(3)] constraintsD [OF assms(1)]
  by (simp add: other_tenants_def)

lemma adds_rows_other:
  assumes "adds_rows tn env db db'" and "adds_tag tn env db db' \<or> sk_tags db' = sk_tags db"
  shows "other_tenants tn db' = other_tenants tn db"
  using adds_other assms by (auto simp: other_tenants_def)

lemma stock_step_other:
  assumes step: "stock_step env db db'" and c: "stock_constraints db"
    and own: "\<not> is_superadmin (Some (td_role (rq_token env)))" "td_tenant_id (rq_token env) = Some tn"
  shows "other_tenants tn db' = other_tenants tn db"
  using step
proof cases
  case (Import_epc tx t tn' u p n)
  then have "tn' = tn" using intake_own [OF _ own(1)] own(2) by fastforce
  then show ?thesis using adds_rows_other import_epc_effect [OF Import_epc(3)] by blast
next
  case (Import_sku tx t tn' u p n)
  then have "tn' = tn" using intake_own [OF _ own(1)] own(2) by fastforce
  then show ?thesis using adds_rows_other import_sku_effect [OF Import_sku(3)] by blast
next
  case (Migrate tx t tn' u m n)
  then have "tn' = tn" using intake_own [OF _ own(1)] own(2) by fastforce
  then show ?thesis using replace_other [OF c] migrate_effect [OF Migrate(2)] by blast
next
  case (Action q tn' u a n)
  then have "tn' = tn" using actions_own [OF _ own(1)] own(2) by fastforce
  then show ?thesis using action_other [OF c Action(2)] by blast
next
  case (Open_session s x)
  then show ?thesis using session_effect [OF Open_session] by (simp add: other_tenants_def)
next
  case (Patch t i pp l)
  then show ?thesis using patch_effect [OF Patch] by (simp add: other_tenants_def)
next
  case (Save t i l')
  obtain tn' where "stock_tenant env t = Inr tn'" and a: "adds_rows tn' env db db'" "adds_tag tn' env db db'"
    using Save(2) by (rule save_effect)
  then have "tn' = tn" using stock_tenant_own [OF _ own(1)] own(2) by fastforce
  then show ?thesis using adds_rows_other a by blast
next
  case (Assign t i epc l')
  obtain tn' where tn': "stock_tenant env t = Inr tn'" using Assign(2) by (rule assign_effect)
  then have "tn' = tn" using stock_tenant_own [OF _ own(1)] own(2) by fastforce
  then show ?thesis using assign_other [OF c Assign(2)] tn' by blast
next
  case (Release t rr b)
  obtain tn' where "stock_tenant env t = Inr tn'" and a: "replaces_row tn' db db'" "releases_tag tn' db db'"
    using Release by (rule release_effect)
  then have "tn' = tn" using stock_tenant_own [OF _ own(1)] own(2) by fastforce
  then show ?thesis using replace_other [OF c] a by blast
next
  case (Mark_issue t i iq r)
  obtain tn' where "stock_tenant env t = Inr tn'" and a: "replaces_row tn' db db'" "releases_tag tn' db db'"
    using Mark_issue by (rule mark_issue_effect)
  then have "tn' = tn" using stock_tenant_own [OF _ own(1)] own(2) by fastforce
  then show ?thesis using replace_other [OF c] a by blast
next
  case (Resolve_issue t i st ob r)
  obtain tn' where "stock_tenant env t = Inr tn'" and a: "replaces_row tn' db db'" "sk_tags db' = sk_tags db"
    using Resolve_issue by (rule resolve_issue_effect)
  then have "tn' = tn" using stock_tenant_own [OF _ own(1)] own(2) by fastforce
  then show ?thesis using replace_other [OF c] a by blast
next
  case (Image t sku ig ms)
  then show ?thesis using image_effect(1) [OF Image] by (simp add: other_tenants_def)
next
  case (Primary t sku i ms)
  then show ?thesis using image_effect(2) [OF Primary] by (simp add: other_tenants_def)
next
  case (Catalog t cq c)
  then show ?thesis using catalog_effect [OF Catalog] by (simp add: other_tenants_def)
next
  case (Elsewhere kept_rows rows tags)
  then show ?thesis using own(2) by (simp add: other_tenants_def)
qed

section \<open>Reachable tables\<close>

inductive stock_reachable :: "stock_db \<Rightarrow> bool" where
  Start: "sk_stock db = [] \<Longrightarrow> sk_tags db = [] \<Longrightarrow> sk_lines db = [] \<Longrightarrow> stock_reachable db"
| Step: "stock_reachable db \<Longrightarrow> stock_step env db db' \<Longrightarrow> stock_reachable db'"

lemma reachable_constraints: "stock_reachable db \<Longrightarrow> stock_constraints db"
proof (induction rule: stock_reachable.induct)
  case (Start db)
  then show ?case
    by (simp add: stock_constraints_def stock_unique_def tags_of_def tags_unique_def active_tags_def line_refs_def)
next
  case (Step db env db')
  then show ?case using stock_step_keeps by blast
qed

end
