(* ===== verification/Stock_Demo.thy ===== *)
theory Stock_Demo
  imports Stock_Invariants Sale_Demo
begin

text \<open>
  Stock, a concrete run: three pieces of a sku are imported and two of them written off; a session
  of one line is opened, the line saved without a tag, then given one, and the tag released.
\<close>

section \<open>The run\<close>

definition stock_ac :: ac_db where
  "stock_ac = cash_ac\<lparr>catalog := [\<lparr>pc_id = ''p7'', pc_code = ''STORE_MANAGE''\<rparr>],
     role_template_permissions := [\<lparr>rtp_role_template_id = ''r1'', rtp_permission_id = ''p7''\<rparr>]\<rparr>"

definition stock_env :: "char \<Rightarrow> time \<Rightarrow> request_env" where
  "stock_env c t = (cash_env c t)\<lparr>rq_ac := stock_ac\<rparr>"

definition stock_world :: stock_db where
  "stock_world = \<lparr>sk_stores = [\<lparr>st_id = ''s1'', st_tenant_id = ''t1'', st_name = ''A''\<rparr>], sk_stock = [], sk_tags = [],
     sk_sessions = [], sk_lines = [], sk_products = [], sk_costs = [], sk_images = []\<rparr>"

definition demo_data :: stock_data where
  "demo_data = \<lparr>sb_sku = Some ''K'', sb_description = None, sb_var1_value = None, sb_var2_value = None,
     sb_cost_price = Some 5, sb_suggested_price = None, sb_sale_price = None, sb_epc = None,
     sb_location_code = Some ''WH-MAIN'', sb_pool = Some ''BODEGA'', sb_store_id = Some ''s1'',
     sb_status = Some ''PENDING'', sb_location_is_vendible = Some False, sb_image_asset_id = None,
     sb_image_url = None, sb_image_thumb_url = None, sb_image_source = None, sb_image_updated_at = None\<rparr>"

definition import_demo :: import_request where
  "import_demo = \<lparr>ip_transaction_id = Some ''tx'', ip_tenant_id = None,
     ip_lines = [\<lparr>il_data = demo_data, il_qty = 2\<rparr>, \<lparr>il_data = demo_data, il_qty = 1\<rparr>]\<rparr>"

definition imported_world :: stock_db where
  "imported_world = ran (import_sku_body (stock_env CHR ''a'' 10) import_demo ''t1'' cashier) stock_world"

definition written_off_world :: stock_db where
  "written_off_world = ran (stock_action_body (stock_env CHR ''b'' 20) (WRITE_OFF None 2 demo_data) ''t1'' cashier) imported_world"

definition session_demo :: preload_request where
  "session_demo = \<lparr>pq_tenant_id = None, pq_store_id = Some ''s1'', pq_source_file_name = None,
     pq_lines = [\<lparr>pi_sku = Some ''K'', pi_epc = None, pi_description = None, pi_var1_value = None,
       pi_var2_value = None, pi_pool = Some ''BODEGA'', pi_location_code = Some ''WH-MAIN'', pi_vendible = True,
       pi_cost_price = Some 5, pi_suggested_price = None, pi_sale_price = Some 9, pi_observation = None,
       pi_image_mode = ''none'', pi_image_asset_id = None, pi_source_row_number = None, pi_qty = 1\<rparr>]\<rparr>"

definition opened_world :: stock_db where
  "opened_world = ran (create_preload_session (stock_env CHR ''c'' 30) session_demo) written_off_world"

definition saved_world :: stock_db where
  "saved_world = ran (save_preload_line (stock_env CHR ''d'' 40) None ''cc'') opened_world"

definition demo_epc :: string where "demo_epc = replicate 24 CHR ''A''"

definition tagged_world :: stock_db where
  "tagged_world = ran (assign_pending_epc (stock_env CHR ''e'' 50) None ''cc'' demo_epc) saved_world"

definition release_demo :: release_request where
  "release_demo = \<lparr>rr_epc_to_release = demo_epc, rr_item_uid = ''ccc'', rr_reason = ''moved''\<rparr>"

definition released_world :: stock_db where
  "released_world = ran (release_epc (stock_env CHR ''f'' 60) None release_demo) tagged_world"

text \<open>The states written out, so that what follows is evaluated on them.\<close>

definition demo_piece :: "string \<Rightarrow> string \<Rightarrow> stock_item" where
  "demo_piece i uid = imported_row i uid ''t1'' demo_data None ''PENDING'' 10"

lemma imported_eq [code]: "imported_world = stock_world\<lparr>sk_stock :=
    [demo_piece ''a'' ''aa'', demo_piece ''aaa'' ''aaaa'', demo_piece ''aaaaa'' ''aaaaaa'']\<rparr>"
  by code_simp

lemma written_off_eq [code]: "written_off_world = stock_world\<lparr>sk_stock := [demo_piece ''aaaaa'' ''aaaaaa'']\<rparr>"
  by code_simp

definition demo_line_of :: preload_line where
  "demo_line_of = \<lparr>pl_id = ''cc'', pl_preload_session_id = ''c'', pl_item_uid = ''ccc'', pl_tenant_id = ''t1'',
     pl_store_id = Some ''s1'', pl_catalog_product_id = None, pl_sku = Some ''K'', pl_epc = None, pl_description = None,
     pl_var1_value = None, pl_var2_value = None, pl_pool = Some ''BODEGA'', pl_location_code = Some ''WH-MAIN'',
     pl_vendible = True, pl_cost_price = Some 5, pl_suggested_price = None, pl_sale_price = Some 9,
     pl_item_status = ''PENDING'', pl_epc_status = ''AVAILABLE'', pl_observation = None, pl_image_mode = ''none'',
     pl_image_asset_id = None, pl_print_status = ''NOT_REQUESTED'', pl_source_file_name = None, pl_source_row_number = None,
     pl_lifecycle_state = ''STAGING'', pl_saved_stock_item_id = None, pl_created_at = 30, pl_updated_at = Some 30\<rparr>"

lemma opened_eq [code]: "opened_world = written_off_world\<lparr>
    sk_sessions := [\<lparr>ps_id = ''c'', ps_tenant_id = ''t1'', ps_store_id = Some ''s1'', ps_source_file_name = None,
      ps_status = ''ACTIVE'', ps_created_by_user_id = Some ''u1'', ps_created_at = 30, ps_updated_at = Some 30\<rparr>],
    sk_lines := [demo_line_of]\<rparr>"
  by code_simp

definition demo_product :: catalog_product where
  "demo_product = ur_product (snd (upsert_from_preload_line (rq_fresh (stock_env CHR ''d'' 40)) 40 (Some ''u1'') demo_line_of opened_world))"

definition demo_saved_line :: preload_line where
  "demo_saved_line = demo_line_of\<lparr>pl_catalog_product_id := Some ''d'', pl_item_status := ''PENDING_EPC'',
     pl_lifecycle_state := ''PENDING_EPC'', pl_saved_stock_item_id := Some ''ddd'', pl_updated_at := Some 40\<rparr>"

definition demo_saved_row :: stock_item where
  "demo_saved_row = saved_row ''ddd'' demo_line_of (Some ''d'') None 40"

lemma saved_eq [code]: "saved_world = opened_world\<lparr>sk_stock := [demo_piece ''aaaaa'' ''aaaaaa'', demo_saved_row],
    sk_lines := [demo_saved_line], sk_products := [demo_product],
    sk_costs := [cost_entry ''dd'' ''t1'' (preload_product_line demo_line_of)
      \<lparr>pz_source_type = ''PRELOAD'', pz_extraction_id = None, pz_preload_session_id = Some ''c'',
       pz_preload_line_id = Some ''cc'', pz_user_id = Some ''u1'', pz_update_sale_price = False\<rparr> demo_product 5 40]\<rparr>"
  by code_simp

lemma tagged_eq [code]: "tagged_world = saved_world\<lparr>
    sk_stock := [demo_piece ''aaaaa'' ''aaaaaa'', demo_saved_row\<lparr>si_epc := Some demo_epc, si_status := Some ''RFID'',
      si_item_status := ''ACTIVE'', si_epc_status := ''ASSIGNED'', si_updated_at := Some 50\<rparr>],
    sk_tags := [new_assignment ''e'' demo_line_of demo_epc 50],
    sk_lines := [demo_saved_line\<lparr>pl_epc := Some demo_epc, pl_epc_status := ''ASSIGNED'', pl_item_status := ''ACTIVE'',
      pl_lifecycle_state := ''SAVED_EPC_FINAL'', pl_updated_at := Some 50\<rparr>]\<rparr>"
  by code_simp

section \<open>The run is reachable\<close>

definition unused_in_stock :: "char \<Rightarrow> stock_db \<Rightarrow> bool" where
  "unused_in_stock c db \<longleftrightarrow> list_all (\<lambda>i. take 1 i \<noteq> [c]) (map si_id (sk_stock db) @ map ea_id (sk_tags db)
     @ concat (map (\<lambda>l. case pl_saved_stock_item_id l of None \<Rightarrow> [] | Some i \<Rightarrow> [i]) (sk_lines db)))"

lemma unused_in_stock_fresh:
  assumes "unused_in_stock c db"
  shows "fresh_stock (stock_env c t) db"
proof -
  have fr: "rq_fresh (stock_env c t) = (\<lambda>k. replicate (Suc k) c)" by (simp add: stock_env_def cash_env_def)
  have no: "replicate (Suc k) c \<notin> set is" if "list_all (\<lambda>i. take 1 i \<noteq> [c]) is" for k "is"
    using that by (auto simp: list_all_iff)
  have parts: "list_all (\<lambda>i. take 1 i \<noteq> [c]) (map si_id (sk_stock db))" "list_all (\<lambda>i. take 1 i \<noteq> [c]) (map ea_id (sk_tags db))"
    "list_all (\<lambda>i. take 1 i \<noteq> [c]) (concat (map (\<lambda>l. case pl_saved_stock_item_id l of None \<Rightarrow> [] | Some i \<Rightarrow> [i]) (sk_lines db)))"
    using assms unfolding unused_in_stock_def list_all_append by blast+
  have "inj (\<lambda>k. replicate (Suc k) c)" by (rule injI) (metis length_replicate nat.inject)
  moreover have "Some (replicate (Suc k) c) \<notin> pl_saved_stock_item_id ` set (sk_lines db)" for k
  proof
    assume "Some (replicate (Suc k) c) \<in> pl_saved_stock_item_id ` set (sk_lines db)"
    then obtain l where "l \<in> set (sk_lines db)" "pl_saved_stock_item_id l = Some (replicate (Suc k) c)" by force
    then have "replicate (Suc k) c \<in> set (concat (map (\<lambda>l. case pl_saved_stock_item_id l of None \<Rightarrow> [] | Some i \<Rightarrow> [i]) (sk_lines db)))"
      by (auto intro!: bexI [of _ l])
    then show False using no [OF parts(3)] by blast
  qed
  ultimately show ?thesis
    using no [OF parts(1)] no [OF parts(2)] unfolding fresh_stock_def fr set_map by blast
qed

lemma stock_demo_runs:
  "\<not> isl (import_sku_body (stock_env CHR ''a'' 10) import_demo ''t1'' cashier stock_world)"
  "\<not> isl (stock_action_body (stock_env CHR ''b'' 20) (WRITE_OFF None 2 demo_data) ''t1'' cashier imported_world)"
  "\<not> isl (create_preload_session (stock_env CHR ''c'' 30) session_demo written_off_world)"
  "\<not> isl (save_preload_line (stock_env CHR ''d'' 40) None ''cc'' opened_world)"
  "\<not> isl (assign_pending_epc (stock_env CHR ''e'' 50) None ''cc'' demo_epc saved_world)"
  "\<not> isl (release_epc (stock_env CHR ''f'' 60) None release_demo tagged_world)"
  by code_simp+

lemma stock_demo_before:
  "intake_before (stock_env CHR ''a'' 10) (Some ''tx'') None = Inr (''t1'', cashier)"
  "stock_actions_before (stock_env CHR ''b'' 20)
    \<lparr>sa_transaction_id = Some ''tx'', sa_tenant_id = None, sa_action = WRITE_OFF None 2 demo_data\<rparr> = Inr (''t1'', cashier)"
  by code_simp+

lemma stock_demo_fresh:
  "unused_in_stock CHR ''a'' stock_world" "unused_in_stock CHR ''d'' opened_world" "unused_in_stock CHR ''e'' saved_world"
  by code_simp+

lemma stock_demo_steps:
  "stock_step (stock_env CHR ''a'' 10) stock_world imported_world"
  "stock_step (stock_env CHR ''b'' 20) imported_world written_off_world"
  "stock_step (stock_env CHR ''c'' 30) written_off_world opened_world"
  "stock_step (stock_env CHR ''d'' 40) opened_world saved_world"
  "stock_step (stock_env CHR ''e'' 50) saved_world tagged_world"
  "stock_step (stock_env CHR ''f'' 60) tagged_world released_world"
proof -
  show "stock_step (stock_env CHR ''a'' 10) stock_world imported_world"
    unfolding imported_world_def
    using ran_Inr [of "import_sku_body (stock_env CHR ''a'' 10) import_demo ''t1'' cashier", OF stock_demo_runs(1)]
    by (blast intro: stock_step.Import_sku unused_in_stock_fresh stock_demo_fresh(1) stock_demo_before(1))
  show "stock_step (stock_env CHR ''b'' 20) imported_world written_off_world"
    unfolding written_off_world_def
    using ran_Inr [of "stock_action_body (stock_env CHR ''b'' 20) (WRITE_OFF None 2 demo_data) ''t1'' cashier", OF stock_demo_runs(2)]
    by (blast intro: stock_step.Action stock_demo_before(2))
  show "stock_step (stock_env CHR ''c'' 30) written_off_world opened_world"
    unfolding opened_world_def
    using ran_Inr [of "create_preload_session (stock_env CHR ''c'' 30) session_demo", OF stock_demo_runs(3)]
    by (blast intro: stock_step.Open_session)
  show "stock_step (stock_env CHR ''d'' 40) opened_world saved_world"
    unfolding saved_world_def
    using ran_Inr [of "save_preload_line (stock_env CHR ''d'' 40) None ''cc''", OF stock_demo_runs(4)]
    by (blast intro: stock_step.Save unused_in_stock_fresh stock_demo_fresh(2))
  show "stock_step (stock_env CHR ''e'' 50) saved_world tagged_world"
    unfolding tagged_world_def
    using ran_Inr [of "assign_pending_epc (stock_env CHR ''e'' 50) None ''cc'' demo_epc", OF stock_demo_runs(5)]
    by (blast intro: stock_step.Assign unused_in_stock_fresh stock_demo_fresh(3))
  show "stock_step (stock_env CHR ''f'' 60) tagged_world released_world"
    unfolding released_world_def
    using ran_Inr [of "release_epc (stock_env CHR ''f'' 60) None release_demo", OF stock_demo_runs(6)]
    by (blast intro: stock_step.Release)
qed

lemma stock_demo_reachable:
  "stock_reachable stock_world" "stock_reachable imported_world" "stock_reachable written_off_world"
  "stock_reachable opened_world" "stock_reachable saved_world" "stock_reachable tagged_world"
  "stock_reachable released_world"
proof -
  show 0: "stock_reachable stock_world" by (rule stock_reachable.Start) (simp_all add: stock_world_def)
  show 1: "stock_reachable imported_world" by (rule stock_reachable.Step [OF 0 stock_demo_steps(1)])
  show 2: "stock_reachable written_off_world" by (rule stock_reachable.Step [OF 1 stock_demo_steps(2)])
  show 3: "stock_reachable opened_world" by (rule stock_reachable.Step [OF 2 stock_demo_steps(3)])
  show 4: "stock_reachable saved_world" by (rule stock_reachable.Step [OF 3 stock_demo_steps(4)])
  show 5: "stock_reachable tagged_world" by (rule stock_reachable.Step [OF 4 stock_demo_steps(5)])
  show "stock_reachable released_world" by (rule stock_reachable.Step [OF 5 stock_demo_steps(6)])
qed

end
