(* ===== verification/Stock_Properties.thy ===== *)
theory Stock_Properties
  imports Stock_Demo
begin

text \<open>
  Stock, the properties: tags are held once, a request touches its own tenant only, imports and
  write-offs move exactly the pieces they say, a tag is held from its assignment to its release,
  and the catalogue keeps one product per key and never overwrites what describes it.
\<close>

section \<open>Tags\<close>

lemma tags_apartD:
  assumes "stock_unique rows" and "r1 \<in> set rows" and "r2 \<in> set rows" and "distinct (map si_id rows)"
    and "si_tenant_id r1 = si_tenant_id r2"
  shows "si_epc r1 \<noteq> None \<Longrightarrow> si_epc r1 = si_epc r2 \<Longrightarrow> r1 = r2"
    "si_item_uid r1 = si_item_uid r2 \<Longrightarrow> r1 = r2"
proof -
  have "rows_apart (set rows)" using stock_unique_iff assms(1,4) by blast
  then have i: "inj_on tag_key {r \<in> set rows. si_epc r \<noteq> None}" "inj_on item_key (set rows)" by (simp_all add: rows_apart_def)
  show "r1 = r2" if "si_epc r1 \<noteq> None" "si_epc r1 = si_epc r2"
  proof (rule inj_onD [OF i(1)])
    show "tag_key r1 = tag_key r2" using that assms(5) by (simp add: tag_key_def)
    show "r1 \<in> {r \<in> set rows. si_epc r \<noteq> None}" "r2 \<in> {r \<in> set rows. si_epc r \<noteq> None}"
      using that assms(2,3) by simp_all
  qed
  show "r1 = r2" if "si_item_uid r1 = si_item_uid r2"
    by (rule inj_onD [OF i(2) _ assms(2,3)]) (simp add: item_key_def assms(5) that)
qed

lemma active_apartD:
  assumes "tags_unique as" and "distinct (map ea_id as)" and "a1 \<in> set as" and "a2 \<in> set as" and "ea_active a1" and "ea_active a2"
    and "ea_tenant_id a1 = ea_tenant_id a2" and "ea_epc a1 = ea_epc a2"
  shows "a1 = a2"
proof -
  have "inj_on (\<lambda>a. (ea_tenant_id a, ea_epc a)) {a \<in> set as. ea_active a}"
    using tags_unique_iff [OF assms(2)] assms(1) by (simp add: tags_apart_def)
  then show ?thesis by (rule inj_onD) (use assms(3-8) in simp_all)
qed

text \<open>C27: Whatever requests are served, also those whose flush or commit raises, a tenant never has two
  items with the same tag or the same item uid, nor two active assignments of one tag, and a saved
  line names a row of its own item.\<close>

theorem stock_tags_unique:
  assumes "stock_reachable db"
  shows "(\<forall>r1 \<in> set (sk_stock db). \<forall>r2 \<in> set (sk_stock db). si_tenant_id r1 = si_tenant_id r2 \<and>
      (si_item_uid r1 = si_item_uid r2 \<or> si_epc r1 \<noteq> None \<and> si_epc r1 = si_epc r2) \<longrightarrow> r1 = r2)
    \<and> (\<forall>a1 \<in> set (sk_tags db). \<forall>a2 \<in> set (sk_tags db). ea_active a1 \<and> ea_active a2 \<and>
      ea_tenant_id a1 = ea_tenant_id a2 \<and> ea_epc a1 = ea_epc a2 \<longrightarrow> a1 = a2)
    \<and> (\<forall>l \<in> set (sk_lines db). \<forall>r \<in> set (sk_stock db). pl_saved_stock_item_id l = Some (si_id r) \<longrightarrow>
      si_tenant_id r = pl_tenant_id l \<and> si_item_uid r = pl_item_uid l)"
proof -
  note c = constraintsD [OF reachable_constraints [OF assms]]
  have "\<forall>r1 \<in> set (sk_stock db). \<forall>r2 \<in> set (sk_stock db). si_tenant_id r1 = si_tenant_id r2 \<and>
      (si_item_uid r1 = si_item_uid r2 \<or> si_epc r1 \<noteq> None \<and> si_epc r1 = si_epc r2) \<longrightarrow> r1 = r2"
    using tags_apartD [OF c(3) _ _ c(1)] by blast
  moreover have "\<forall>a1 \<in> set (sk_tags db). \<forall>a2 \<in> set (sk_tags db). ea_active a1 \<and> ea_active a2 \<and>
      ea_tenant_id a1 = ea_tenant_id a2 \<and> ea_epc a1 = ea_epc a2 \<longrightarrow> a1 = a2"
    using active_apartD [OF c(4,2)] by blast
  ultimately show ?thesis using c(5) unfolding line_refs_def item_key_def line_key_def prod.inject by blast
qed

lemma stock_tags_unique_witness:
  "si_tenant_id (hd (sk_stock tagged_world)) = si_tenant_id (last (sk_stock tagged_world))
    \<and> si_item_uid (hd (sk_stock tagged_world)) \<noteq> si_item_uid (last (sk_stock tagged_world))"
proof -
  let ?r = "hd (sk_stock tagged_world)" and ?s = "last (sk_stock tagged_world)"
  have in_stock: "?r \<in> set (sk_stock tagged_world)" "?s \<in> set (sk_stock tagged_world)" by (simp_all add: tagged_eq)
  have t: "si_tenant_id ?r = si_tenant_id ?s" "si_id ?r \<noteq> si_id ?s" by code_simp+
  then have "?r \<noteq> ?s" by metis
  then show ?thesis using stock_tags_unique [OF stock_demo_reachable(6)] in_stock t(1) by blast
qed



section \<open>Assignment and release\<close>

lemma available_iff:
  "assert_epc_available tn epc db = Inr () \<longleftrightarrow>
    \<not> (\<exists>a \<in> set (sk_tags db). ea_tenant_id a = tn \<and> ea_epc a = epc \<and> ea_active a)
    \<and> \<not> (\<exists>r \<in> set (sk_stock db). has_epc tn epc r \<and> si_item_status r = ''ACTIVE'')"
  by (auto simp: assert_epc_available_def bindr_Inr_iff require_Inr_iff list_ex_iff)

text \<open>After an assignment, the tag is on no active row but that of the line's item.\<close>

lemma assigned_rows:
  assumes c: "stock_constraints db" and s: "assign_pending_epc env t i epc db = Inr (db', l')"
  obtains tn l where "stock_tenant env t = Inr tn" "line_key l' = (tn, pl_item_uid l')"
    "new_assignment (rq_fresh env 0) l epc (rq_now env) \<in> set (sk_tags db')"
    "pl_tenant_id l = tn" "pl_item_uid l = pl_item_uid l'"
    "\<And>r. r \<in> set (sk_stock db') \<Longrightarrow> has_epc tn epc r \<Longrightarrow> si_item_status r = ''ACTIVE'' \<Longrightarrow> item_key r = line_key l'"
proof -
  obtain tn l where tn: "stock_tenant env t = Inr tn" and l: "find_preload_line i tn db = Inr l"
    using s by (auto simp: assign_pending_epc_def bindr_Inr_iff)
  note L = find_preload_line_Inr [OF l]
  let ?now = "rq_now env"
  let ?edit = "\<lambda>r. r\<lparr>si_epc := Some epc, si_status := Some ''RFID'', si_item_status := ''ACTIVE'',
      si_epc_status := ''ASSIGNED'', si_updated_at := Some ?now\<rparr>"
  define db1 where "db1 = (case find (\<lambda>r. Some (si_id r) = pl_saved_stock_item_id l) (sk_stock db) of
      None \<Rightarrow> db | Some r \<Rightarrow> set_stock_row (?edit r) db)"
  have av: "assert_epc_available tn epc db = Inr ()"
    and l': "line_key l' = line_key l" "pl_item_uid l' = pl_item_uid l"
    and db': "sk_stock db' = sk_stock db1" "sk_tags db' = sk_tags db1 @ [new_assignment (rq_fresh env 0) l epc ?now]"
    using s tn l L(3) unfolding db1_def
    by (auto simp: assign_pending_epc_def Let_def bindr_Inr_iff require_Inr_iff line_key_def)
  have no: "si_item_status r \<noteq> ''ACTIVE''" if "r \<in> set (sk_stock db)" "has_epc tn epc r" for r
    using av that unfolding available_iff by blast
  have "item_key r = line_key l'" if r: "r \<in> set (sk_stock db')" "has_epc tn epc r" "si_item_status r = ''ACTIVE''" for r
  proof (cases "find (\<lambda>r. Some (si_id r) = pl_saved_stock_item_id l) (sk_stock db)")
    case None
    then show ?thesis using r no db'(1) by (auto simp: db1_def)
  next
    case (Some x)
    have x: "x \<in> set (sk_stock db)" "Some (si_id x) = pl_saved_stock_item_id l" using find_SomeD [OF Some] by simp_all
    have "r = ?edit x \<or> r \<in> set (sk_stock db)" using r(1) Some db'(1) by (auto simp: db1_def set_stock_row_def split: if_splits)
    then have "r = ?edit x" using r no by blast
    then have "item_key r = item_key x" by (simp add: item_key_def)
    also have "item_key x = line_key l" using constraintsD(5) [OF c] x L(1) unfolding line_refs_def by metis
    finally show ?thesis by (simp only: l')
  qed
  moreover have "line_key l' = (tn, pl_item_uid l')" using l' L(3) by (simp add: line_key_def)
  moreover have "new_assignment (rq_fresh env 0) l epc ?now \<in> set (sk_tags db')" using db'(2) by simp
  ultimately show ?thesis using that [OF tn _ _ L(3)] l'(2) by metis
qed

lemma release_frees:
  assumes c: "stock_constraints db" and s: "release_epc env t p db = Inr (db', b)" and tn: "stock_tenant env t = Inr tn"
    and only: "\<And>r. r \<in> set (sk_stock db) \<Longrightarrow> has_epc tn (rr_epc_to_release p) r \<Longrightarrow> si_item_status r = ''ACTIVE''
      \<Longrightarrow> item_key r = (tn, rr_item_uid p)"
  shows "assert_epc_available tn (rr_epc_to_release p) db' = Inr ()"
proof -
  note c' = constraintsD [OF c]
  let ?epc = "rr_epc_to_release p" and ?uid = "rr_item_uid p"
  let ?edit = "\<lambda>r. r\<lparr>si_epc_status := ''AVAILABLE'', si_epc := None, si_updated_at := Some (rq_now env)\<rparr>"
  obtain a where a: "find_assignment tn ?epc ?uid db = Some a"
    and db': "db' = (case find_item tn ?uid db of
        None \<Rightarrow> set_tag (released_tag (rr_reason p) (rq_now env) a) db
      | Some r \<Rightarrow> set_stock_row (?edit r) (set_tag (released_tag (rr_reason p) (rq_now env) a) db))"
    using s tn by (auto simp: release_epc_def Let_def bindr_Inr_iff split: option.splits)
  note A = find_assignment_rows [OF a]
  have "x \<noteq> a \<longrightarrow> \<not> (ea_tenant_id x = tn \<and> ea_epc x = ?epc \<and> ea_active x)" if "x \<in> set (sk_tags db)" for x
    using active_apartD [OF c'(4,2) that A(1)] A by auto
  moreover have "sk_tags db' = map (\<lambda>x. if ea_id x = ea_id a then released_tag (rr_reason p) (rq_now env) a else x) (sk_tags db)"
    by (simp add: db' set_tag_def released_tag_def split: option.splits)
  ultimately have tags: "\<not> (\<exists>x \<in> set (sk_tags db'). ea_tenant_id x = tn \<and> ea_epc x = ?epc \<and> ea_active x)"
    by (auto simp: released_tag_def split: if_splits)
  have rows: "si_item_status r \<noteq> ''ACTIVE''" if r: "r \<in> set (sk_stock db')" "has_epc tn ?epc r" for r
  proof
    assume act: "si_item_status r = ''ACTIVE''"
    show False
    proof (cases "find_item tn ?uid db")
      case None
      then have "r \<in> set (sk_stock db)" using r(1) by (simp add: db')
      then show False using only [OF _ r(2) act] None by (auto simp: find_item_def find_None_iff item_key_def)
    next
      case (Some x)
      note X = find_item_rows [OF Some]
      have "r = ?edit x \<or> r \<in> set (sk_stock db) \<and> si_id r \<noteq> si_id x"
        using r(1) Some by (auto simp: db' set_stock_row_def split: if_splits)
      moreover have "\<not> has_epc tn ?epc (?edit x)" by (simp add: has_epc_def)
      ultimately have "r \<in> set (sk_stock db)" "si_id r \<noteq> si_id x" using r(2) by auto
      then show False
        using only [OF _ r(2) act] tags_apartD(2) [OF c'(3) _ X(1) c'(1), of r] X by (auto simp: item_key_def)
    qed
  qed
  show ?thesis using tags rows unfolding available_iff by blast
qed



section \<open>Pieces in and out\<close>

lemma sku_lines_gathered:
  assumes "for_each (sku_line db tn) acc ls = Inr ds"
  shows "ds = acc @ concat (map (\<lambda>l. replicate (nat (il_qty l)) (apply_import_defaults (il_data l))) ls)"
    "\<forall>l \<in> set ls. 1 \<le> il_qty l \<and> (\<exists>s \<in> set (sk_stores db). sb_store_id (il_data l) = Some (st_id s) \<and> st_tenant_id s = tn)"
  using assms
proof (induction ls arbitrary: acc)
  case (Cons l ls)
  {
    case 1
    obtain ac where "sku_line db tn acc l = Inr ac" "for_each (sku_line db tn) ac ls = Inr ds"
      using 1 by (auto simp: bindr_Inr_iff)
    moreover from this(1) have "ac = acc @ replicate (nat (il_qty l)) (apply_import_defaults (il_data l))"
      by (auto simp: sku_line_def Let_def bindr_Inr_iff)
    ultimately show ?case using Cons.IH(1) [of ac] by simp
  next
    case 2
    obtain ac where ac: "sku_line db tn acc l = Inr ac" and rest: "for_each (sku_line db tn) ac ls = Inr ds"
      using 2 by (auto simp: bindr_Inr_iff)
    have "1 \<le> il_qty l" "\<not> falsy (sb_store_id (il_data l))"
      "\<exists>s \<in> set (sk_stores db). st_id s = the (sb_store_id (il_data l)) \<and> st_tenant_id s = tn"
      using ac by (auto simp: sku_line_def apply_import_defaults_def Let_def bindr_Inr_iff require_Inr_iff
        validate_scoped_store_def list_ex_iff)
    then have "1 \<le> il_qty l \<and> (\<exists>s \<in> set (sk_stores db). sb_store_id (il_data l) = Some (st_id s) \<and> st_tenant_id s = tn)"
      by (cases "sb_store_id (il_data l)") auto
    then show ?case using Cons.IH(2) [OF rest] by simp
  }
qed simp_all

lemma number_rows_maps:
  "map si_sku (number_rows f tn st now ds) = map (sb_sku \<circ> fst) ds"
  "map si_store_id (number_rows f tn st now ds) = map (sb_store_id \<circ> fst) ds"
  "length (number_rows f tn st now ds) = length ds"
  by (auto simp: number_rows_def imported_row_def nth_enumerate_eq intro!: nth_equalityI split: prod.splits)

lemma number_rows_same:
  "r \<in> set (number_rows f tn st now (map (\<lambda>d. (d, None)) ds)) \<Longrightarrow> si_tenant_id r = tn \<and> si_epc r = None \<and> si_status r = Some st"
  by (auto simp: number_rows_def imported_row_def in_set_enumerate_eq)

lemma sum_copies: "\<forall>l \<in> set ls. 1 \<le> q l \<Longrightarrow> int (length (concat (map (\<lambda>l. replicate (nat (q l)) (f l)) ls))) = sum_list (map q ls)"
  by (induction ls) auto

text \<open>C30: An import of pieces adds, per line, as many pending pieces without a tag as the line's quantity,
  in the order of the lines, each to a store of the tenant, and nothing else; it reports their number.\<close>

theorem import_adds_pieces:
  assumes "import_sku_body env p tn u db = Inr (db', n)"
  shows "n = sum_list (map il_qty (ip_lines p)) \<and> 1 \<le> n
    \<and> (\<exists>new. db' = db\<lparr>sk_stock := sk_stock db @ new\<rparr>
        \<and> map si_sku new = concat (map (\<lambda>l. replicate (nat (il_qty l)) (sb_sku (il_data l))) (ip_lines p))
        \<and> (\<forall>r \<in> set new. si_tenant_id r = tn \<and> si_epc r = None \<and> si_status r = Some ''PENDING''
            \<and> (\<exists>s \<in> set (sk_stores db). si_store_id r = Some (st_id s) \<and> st_tenant_id s = tn)))"
proof -
  obtain ds where ne: "ip_lines p \<noteq> []" and ds: "for_each (sku_line db tn) [] (ip_lines p) = Inr ds"
    and ok: "commit_stock_items (sk_stock db @ number_rows (rq_fresh env) tn ''PENDING'' (rq_now env) (map (\<lambda>d. (d, None)) ds)) db = Inr db'"
    and n: "n = int (length (number_rows (rq_fresh env) tn ''PENDING'' (rq_now env) (map (\<lambda>d. (d, None :: string option)) ds)))"
    using assms by (auto simp: import_sku_body_def Let_def bindr_Inr_iff require_Inr_iff)
  define new where "new = number_rows (rq_fresh env) tn ''PENDING'' (rq_now env) (map (\<lambda>d. (d, None :: string option)) ds)"
  note g = sku_lines_gathered [OF ds]
  have count: "n = sum_list (map il_qty (ip_lines p))"
    using sum_copies [of "ip_lines p" il_qty] g n by (simp add: number_rows_maps)
  obtain l ls where "ip_lines p = l # ls" using ne by (cases "ip_lines p") auto
  moreover have "0 \<le> sum_list (map il_qty ls)" if "\<forall>l \<in> set ls. 1 \<le> il_qty l" for ls
    using that by (induction ls) auto
  ultimately have pos: "1 \<le> n" using g(2) count by fastforce
  have "map si_sku new = concat (map (\<lambda>l. replicate (nat (il_qty l)) (sb_sku (il_data l))) (ip_lines p))"
    by (simp add: new_def number_rows_maps g(1) map_concat comp_def apply_import_defaults_def)
  moreover have "\<exists>s \<in> set (sk_stores db). si_store_id r = Some (st_id s) \<and> st_tenant_id s = tn" if "r \<in> set new" for r
  proof -
    have "si_store_id r \<in> set (map si_store_id new)" using that by simp
    then have "si_store_id r \<in> sb_store_id ` set ds" by (simp add: new_def number_rows_maps image_image)
    then obtain l where "l \<in> set (ip_lines p)" "si_store_id r = sb_store_id (il_data l)"
      by (auto simp: g(1) apply_import_defaults_def)
    then show ?thesis using g(2) by auto
  qed
  moreover have "db' = db\<lparr>sk_stock := sk_stock db @ new\<rparr>"
    using ok by (simp add: commit_stock_items_def bindr_Inr_iff new_def)
  ultimately show ?thesis using count pos number_rows_same unfolding new_def by blast
qed

lemma import_adds_pieces_witness:
  "\<exists>new. sk_stock imported_world = new \<and> map si_sku new = [Some ''K'', Some ''K'', Some ''K'']"
proof -
  obtain n where "import_sku_body (stock_env CHR ''a'' 10) import_demo ''t1'' cashier stock_world = Inr (imported_world, n)"
    using ran_Inr [of "import_sku_body (stock_env CHR ''a'' 10) import_demo ''t1'' cashier", OF stock_demo_runs(1)]
    unfolding imported_world_def by blast
  from import_adds_pieces [OF this] obtain new where
    "imported_world = stock_world\<lparr>sk_stock := sk_stock stock_world @ new\<rparr>"
    "map si_sku new = concat (map (\<lambda>l. replicate (nat (il_qty l)) (sb_sku (il_data l))) (ip_lines import_demo))" by blast
  moreover from arg_cong [OF this(1), of sk_stock] have "sk_stock imported_world = new" by (simp add: stock_world_def)
  ultimately show ?thesis by (simp add: import_demo_def demo_data_def numeral_eq_Suc)
qed

text \<open>The pieces written off are the oldest.\<close>

lemma sorted_take_drop:
  assumes "sorted (map f xs)" and "x \<in> set (take n xs)" and "y \<in> set (drop n xs)"
  shows "f x \<le> f y"
proof -
  have "sorted (map f (take n xs @ drop n xs))" using assms(1) by simp
  then show ?thesis using assms(2,3) unfolding map_append sorted_append by auto
qed

lemma write_off_oldest:
  assumes "write_off_pieces tn qty d db = Inr rows" and "r \<in> set rows" and "r' \<in> set (sk_stock db)" and "stock_match tn d r'"
    and "r' \<notin> set rows"
  shows "si_created_at r \<le> si_created_at r'"
proof -
  let ?all = "sort_key si_created_at (filter (stock_match tn d) (sk_stock db))"
  have rows: "rows = take (nat qty) ?all"
    using assms(1) by (auto simp: write_off_pieces_def Let_def bindr_Inr_iff)
  have "r' \<in> set (take (nat qty) ?all @ drop (nat qty) ?all)" using assms(3,4) by simp
  then have "r' \<in> set (drop (nat qty) ?all)" using assms(5) rows by (metis Un_iff set_append)
  then show ?thesis
    using sorted_take_drop [OF sorted_sort_key] assms(2) unfolding rows by metis
qed

lemma kept_stock:
  assumes "distinct (map si_id (sk_stock db))" and "set rows \<subseteq> set (sk_stock db)"
  shows "sk_stock (delete_stock rows db) = filter (\<lambda>r. r \<notin> set rows) (sk_stock db)"
proof -
  have "si_id r \<notin> si_id ` set rows \<longleftrightarrow> r \<notin> set rows" if r: "r \<in> set (sk_stock db)" for r
  proof
    assume no: "r \<notin> set rows"
    show "si_id r \<notin> si_id ` set rows"
    proof
      assume "si_id r \<in> si_id ` set rows"
      then obtain x where "x \<in> set rows" "si_id x = si_id r" by auto
      then show False using key_unique [OF assms(1), of x r] assms(2) r no by blast
    qed
  qed blast
  then show ?thesis by (simp add: delete_stock_def cong: filter_cong)
qed

lemma write_off_pieces_rows:
  assumes "write_off tn reason qty d db = Inr (db', n)" and "sb_status d = Some ''PENDING''"
  obtains rows where "write_off_pieces tn qty d db = Inr rows" "db' = delete_stock rows db" "set rows \<subseteq> set (sk_stock db)"
proof -
  obtain rows where r: "write_off_pieces tn qty d db = Inr rows" "db' = delete_stock rows db"
    using assms by (auto simp: write_off_def bindr_Inr_iff)
  have "set rows \<subseteq> set (sk_stock db)"
    using r(1) by (auto simp: write_off_pieces_def Let_def bindr_Inr_iff dest: in_set_takeD)
  then show ?thesis using that r by blast
qed



section \<open>The catalogue\<close>

definition catalog_key :: "catalog_product \<Rightarrow> uuid \<times> string \<times> string \<times> string" where
  "catalog_key p = (cp_tenant_id p, cp_normalized p)"

definition texts_kept :: "catalog_product \<Rightarrow> catalog_product \<Rightarrow> bool" where
  "texts_kept p p' \<longleftrightarrow> cp_id p' = cp_id p \<and> catalog_key p' = catalog_key p
    \<and> (\<forall>k v. (k, Some v) \<in> set (cp_texts p) \<and> py_strip v \<noteq> [] \<longrightarrow> (k, Some v) \<in> set (cp_texts p'))"

lemma texts_kept_refl: "texts_kept p p" by (simp add: texts_kept_def)

lemma texts_kept_trans: "texts_kept p q \<Longrightarrow> texts_kept q r \<Longrightarrow> texts_kept p r"
  by (simp add: texts_kept_def)

lemma fill_keeps: "texts_kept p (fill_fields False l p)"
  by (force simp: texts_kept_def catalog_key_def fill_fields_def fill_text_def is_blank_text_def split: option.splits)

lemma filled_row:
  assumes "upsert_catalog_product f now tn l z db = (db', r)"
  shows "find_product tn (product_key l) db = None \<Longrightarrow> ur_created r \<and> cp_id (ur_product r) = f 0
      \<and> catalog_key (ur_product r) = (tn, product_key l)
      \<and> sk_products db' = map (\<lambda>x. if cp_id x = f 0 then ur_product r else x) (sk_products db @ [new_product (f 0) tn now l])"
    "find_product tn (product_key l) db = Some p \<Longrightarrow> \<not> ur_created r \<and> texts_kept p (ur_product r)
      \<and> sk_products db' = map (\<lambda>x. if cp_id x = cp_id (ur_product r) then ur_product r else x) (sk_products db)"
proof -
  have same: "cp_id (fill_fields c l p) = cp_id p" "catalog_key (fill_fields c l p) = catalog_key p"
    "cp_id (cost_fields l us x p) = cp_id p" "catalog_key (cost_fields l us x p) = catalog_key p"
    "cp_texts (cost_fields l us x p) = cp_texts p" "catalog_key (p\<lparr>cp_updated_at := now\<rparr>) = catalog_key p"
    "catalog_key (new_product (f 0) tn now l) = (tn, product_key l)" "cp_id (new_product (f 0) tn now l) = f 0" for c p us x
    by (simp_all add: fill_fields_def cost_fields_def catalog_key_def new_product_def)
  show "ur_created r \<and> cp_id (ur_product r) = f 0 \<and> catalog_key (ur_product r) = (tn, product_key l)
      \<and> sk_products db' = map (\<lambda>x. if cp_id x = f 0 then ur_product r else x) (sk_products db @ [new_product (f 0) tn now l])"
    if "find_product tn (product_key l) db = None"
    using assms that by (cases "pn_cost_gtq l") (auto simp: upsert_catalog_product_def set_product_def Let_def same)
  show "\<not> ur_created r \<and> texts_kept p (ur_product r)
      \<and> sk_products db' = map (\<lambda>x. if cp_id x = cp_id (ur_product r) then ur_product r else x) (sk_products db)"
    if "find_product tn (product_key l) db = Some p"
    using assms that fill_keeps [of p l]
    by (cases "pn_cost_gtq l") (auto simp: upsert_catalog_product_def set_product_def Let_def same texts_kept_def)
qed

text \<open>What a run of upserts does to the products: keys stay unique, products and their texts stay.\<close>

definition grows_catalog :: "stock_db \<Rightarrow> int \<Rightarrow> stock_db \<Rightarrow> bool" where
  "grows_catalog db n db' \<longleftrightarrow> (distinct (map cp_id (sk_products db)) \<and> distinct (map catalog_key (sk_products db)) \<longrightarrow>
      distinct (map cp_id (sk_products db')) \<and> distinct (map catalog_key (sk_products db')))
    \<and> (\<forall>p \<in> set (sk_products db). \<exists>p' \<in> set (sk_products db'). texts_kept p p')
    \<and> int (length (sk_products db')) = int (length (sk_products db)) + n"

lemma grows_trans: "grows_catalog db m db1 \<Longrightarrow> grows_catalog db1 n db' \<Longrightarrow> k = m + n \<Longrightarrow> grows_catalog db k db'"
  unfolding grows_catalog_def by (auto intro: texts_kept_trans) (meson texts_kept_trans)

lemma upsert_grows:
  assumes up: "upsert_catalog_product f now tn l z db = (db', r)" and new: "f 0 \<notin> cp_id ` set (sk_products db)"
    and d: "distinct (map cp_id (sk_products db))"
  shows "grows_catalog db (if ur_created r then 1 else 0) db'" "cp_id ` set (sk_products db') \<subseteq> insert (f 0) (cp_id ` set (sk_products db))"
    "distinct (map cp_id (sk_products db'))"
proof -
  have "grows_catalog db (if ur_created r then 1 else 0) db' \<and> cp_id ` set (sk_products db') \<subseteq> insert (f 0) (cp_id ` set (sk_products db))
    \<and> distinct (map cp_id (sk_products db'))"
  proof (cases "find_product tn (product_key l) db")
    case None
    have "map (\<lambda>x. if cp_id x = f 0 then ur_product r else x) (sk_products db) = sk_products db"
      using new by (intro map_idI) (auto simp: image_iff)
    then have db': "sk_products db' = sk_products db @ [ur_product r]" and r: "ur_created r" "cp_id (ur_product r) = f 0"
      "catalog_key (ur_product r) = (tn, product_key l)"
      using filled_row(1) [OF up None] by (auto simp: new_product_def)
    have "(tn, product_key l) \<notin> catalog_key ` set (sk_products db)"
      using None by (auto simp: find_product_def find_None_iff catalog_key_def)
    then show ?thesis using new d r texts_kept_refl unfolding grows_catalog_def db' by auto
  next
    case (Some p)
    have p: "p \<in> set (sk_products db)" using find_SomeD [OF Some [unfolded find_product_def]] by simp
    have r: "\<not> ur_created r" "texts_kept p (ur_product r)" and db': "sk_products db' =
        map (\<lambda>x. if cp_id x = cp_id (ur_product r) then ur_product r else x) (sk_products db)"
      using filled_row(2) [OF up Some] by auto
    have id: "cp_id (ur_product r) = cp_id p" and key: "catalog_key (ur_product r) = catalog_key p"
      using r(2) by (simp_all add: texts_kept_def)
    note rows = replaced_rows [OF d p id]
    have "map catalog_key (sk_products db') = map catalog_key (sk_products db)"
      unfolding db' using key_unique [OF d _ p] key id by auto
    moreover have "\<exists>p' \<in> set (sk_products db'). texts_kept x p'" if "x \<in> set (sk_products db)" for x
    proof (cases "x = p")
      case True
      then show ?thesis using r(2) rows(1) db' by auto
    next
      case False
      then show ?thesis using that rows(1) db' texts_kept_refl by auto
    qed
    moreover have ids: "map cp_id (sk_products db') = map cp_id (sk_products db)" unfolding db' by (rule rows(2))
    moreover have "length (sk_products db') = length (sk_products db)" by (simp add: db')
    moreover have "cp_id ` set (sk_products db') = cp_id ` set (sk_products db)" using arg_cong [OF ids, of set] by simp
    ultimately show ?thesis using d r(1) unfolding grows_catalog_def by (auto simp del: map_eq_conv)
  qed
  then show "grows_catalog db (if ur_created r then 1 else 0) db'" "cp_id ` set (sk_products db') \<subseteq> insert (f 0) (cp_id ` set (sk_products db))"
    "distinct (map cp_id (sk_products db'))" by blast+
qed

lemma upserts_grow:
  assumes "fold (count_upsert env tn q) (enumerate n ls) (db, c) = (db', c')" and "inj (rq_fresh env)"
    and "\<forall>k \<ge> n. rq_fresh env (2 * k) \<notin> cp_id ` set (sk_products db)" and "distinct (map cp_id (sk_products db))"
  shows "grows_catalog db (uc_created c' - uc_created c) db'"
  using assms
proof (induction ls arbitrary: n db c)
  case Nil
  then show ?case by (auto simp: grows_catalog_def intro: texts_kept_refl)
next
  case (Cons l ls)
  obtain db1 r where up: "upsert_catalog_product (\<lambda>i. rq_fresh env (2 * n + i)) (rq_now env) tn (l\<lparr>pn_default_sale_price := None\<rparr>)
          \<lparr>pz_source_type = cq_source_type q, pz_extraction_id = None, pz_preload_session_id = None, pz_preload_line_id = None,
           pz_user_id = Some (td_sub (rq_token env)), pz_update_sale_price = cq_update_sale_price q\<rparr> db = (db1, r)"
    by fastforce
  define c1 where "c1 = \<lparr>uc_created = uc_created c + (if ur_created r then 1 else 0),
         uc_updated = uc_updated c + (if ur_updated r then 1 else 0),
         uc_review_required = uc_review_required c + (if ur_review_required r then 1 else 0)\<rparr>"
  have step: "count_upsert env tn q (n, l) (db, c) = (db1, c1)" by (simp add: count_upsert_def up c1_def)
  have "rq_fresh env (2 * n + 0) \<notin> cp_id ` set (sk_products db)" using Cons.prems(3) [rule_format, of n] by simp
  note g = upsert_grows [OF up this Cons.prems(4)]
  have "rq_fresh env (2 * k) \<notin> cp_id ` set (sk_products db1)" if "Suc n \<le> k" for k
  proof -
    have "rq_fresh env (2 * k) \<noteq> rq_fresh env (2 * n + 0)" using that inj_eq [OF Cons.prems(2)] by simp
    moreover have "rq_fresh env (2 * k) \<notin> cp_id ` set (sk_products db)" using Cons.prems(3) that by simp
    ultimately show ?thesis using g(2) by auto
  qed
  then have "grows_catalog db1 (uc_created c' - uc_created c1) db'"
    using Cons.IH [of "Suc n" db1 c1] Cons.prems(1,2) g(3) step by simp
  then show ?case by (rule grows_trans [OF g(1)]) (simp add: c1_def)
qed


definition catalog_demo :: catalog_request where
  "catalog_demo = \<lparr>cq_store_id = None, cq_source_type = ''MANUAL'', cq_update_sale_price = False,
     cq_lines = [(preload_product_line demo_line_of)\<lparr>pn_default_pool := Some ''X'', pn_brand := Some ''B''\<rparr>,
       (preload_product_line demo_line_of)\<lparr>pn_sku := Some ''K2''\<rparr>]\<rparr>"

lemma catalog_demo_run: "\<not> isl (bulk_upsert_catalog_products (stock_env CHR ''g'' 70) None catalog_demo saved_world)"
  by code_simp


end
