(* ===== verification/Stock_Query.thy ===== *)
theory Stock_Query
  imports Stock_Demo Sql_Text "HOL-Library.Multiset"
begin

text \<open>
  Stock, the listing: \<^verbatim>\<open>list_stock\<close> of \<^verbatim>\<open>routers/stock.py\<close> and \<^verbatim>\<open>repos/stock.py\<close>. What \<^verbatim>\<open>ORDER BY\<close>
  does with equal and null values is the database's: the sorted list of rows is a parameter, of
  which only is assumed that it is a permutation. The address of an image is a parameter too.
\<close>

section \<open>Filters\<close>

datatype stock_view = Operational_view | History_view | All_view

record stock_filters =
  kf_tenant_id :: uuid
  kf_scope_store_id :: "uuid option"
  kf_q :: "string option"
  kf_description :: "string option"
  kf_var1_value :: "string option"
  kf_var2_value :: "string option"
  kf_sku :: "string option"
  kf_epc :: "string option"
  kf_location_code :: "string option"
  kf_pool :: "string option"
  kf_store_id :: "uuid option"
  kf_from_date :: "time option"
  kf_to_date :: "time option"
  kf_view :: stock_view

definition search_columns :: "stock_item \<Rightarrow> string option list" where
  "search_columns r = [si_sku r, si_description r, si_var1_value r, si_var2_value r, si_epc r, si_location_code r, si_pool r]"

text \<open>An absent or empty filter is no condition.\<close>

definition equals_if_given :: "string option \<Rightarrow> string option \<Rightarrow> bool" where
  "equals_if_given wanted column \<longleftrightarrow> falsy wanted \<or> column = wanted"

definition row_selected :: "stock_filters \<Rightarrow> stock_item \<Rightarrow> bool" where
  "row_selected f r \<longleftrightarrow> si_tenant_id r = kf_tenant_id f
    \<and> (kf_scope_store_id f \<noteq> None \<longrightarrow> si_store_id r = kf_scope_store_id f)
    \<and> (falsy (kf_q f) \<or> list_ex (contains_term_opt (the (kf_q f))) (search_columns r))
    \<and> (falsy (kf_description f) \<or> contains_term_opt (the (kf_description f)) (si_description r))
    \<and> equals_if_given (kf_var1_value f) (si_var1_value r) \<and> equals_if_given (kf_var2_value f) (si_var2_value r)
    \<and> equals_if_given (kf_sku f) (si_sku r) \<and> equals_if_given (kf_epc f) (si_epc r)
    \<and> equals_if_given (kf_location_code f) (si_location_code r) \<and> equals_if_given (kf_pool f) (si_pool r)
    \<and> (kf_store_id f \<noteq> None \<longrightarrow> si_store_id r = kf_store_id f)
    \<and> (case kf_view f of Operational_view \<Rightarrow> sql_not_sold r | History_view \<Rightarrow> si_status r = Some ''SOLD'' | All_view \<Rightarrow> True)
    \<and> (case kf_from_date f of None \<Rightarrow> True | Some d \<Rightarrow> si_created_at r \<ge> d)
    \<and> (case kf_to_date f of None \<Rightarrow> True | Some d \<Rightarrow> si_created_at r \<le> d)"

definition apply_filters :: "stock_filters \<Rightarrow> stock_item list \<Rightarrow> stock_item list" where
  "apply_filters f rows = filter (row_selected f) rows"

section \<open>Totals and pages\<close>

definition count_status :: "string \<Rightarrow> stock_item list \<Rightarrow> int" where
  "count_status st rows = int (length (filter (\<lambda>r. si_location_is_vendible r \<and> si_status r = Some st) rows))"

record stock_totals =
  to_total_rows :: int
  to_total_rfid :: int
  to_total_pending :: int
  to_total_units :: int

definition totals_of_rows :: "stock_item list \<Rightarrow> stock_totals" where
  "totals_of_rows rows = \<lparr>to_total_rows = int (length rows), to_total_rfid = count_status ''RFID'' rows,
     to_total_pending = count_status ''PENDING'' rows,
     to_total_units = count_status ''RFID'' rows + count_status ''PENDING'' rows\<rparr>"

definition SORT_COLUMNS :: "string list" where
  "SORT_COLUMNS = [''id'', ''sku'', ''description'', ''var1_value'', ''var2_value'', ''epc'', ''location_code'', ''pool'',
     ''store_id'', ''status'', ''cost_price'', ''suggested_price'', ''sale_price'', ''created_at'', ''updated_at'']"

definition resolve_sort_column :: "string \<Rightarrow> string" where
  "resolve_sort_column by_column = (if by_column \<in> set SORT_COLUMNS then by_column else ''created_at'')"

type_synonym row_order = "string \<Rightarrow> bool \<Rightarrow> stock_item list \<Rightarrow> stock_item list"

definition rows_of_page :: "nat \<Rightarrow> nat \<Rightarrow> 'a list \<Rightarrow> 'a list" where
  "rows_of_page page page_size xs = take page_size (drop ((page - 1) * page_size) xs)"

definition repo_list_stock ::
    "row_order \<Rightarrow> stock_filters \<Rightarrow> nat \<Rightarrow> nat \<Rightarrow> string \<Rightarrow> bool \<Rightarrow> stock_item list \<Rightarrow> stock_item list \<times> stock_totals \<times> string" where
  "repo_list_stock order_by f page page_size sort_by desc rows =
    (let base = apply_filters f rows; column = resolve_sort_column sort_by
     in (rows_of_page page page_size (order_by column desc base), totals_of_rows base, column))"

section \<open>The endpoint\<close>

record stock_query =
  kq_filters :: stock_filters
  kq_tenant_id :: "string option"
  kq_page :: nat
  kq_page_size :: nat
  kq_sort_by :: string
  kq_sort_desc :: bool
  kq_scope :: query_scope
  kq_include_sold :: "bool option"

record store_total =
  gt_store_id :: "uuid option"
  gt_store_name :: "string option"
  gt_is_current_store :: bool
  gt_total_rows :: int

text \<open>The count of the rows per store, in the order the stores appear.\<close>

definition count_by :: "('a \<Rightarrow> 'k) \<Rightarrow> 'a list \<Rightarrow> ('k \<times> int) list" where
  "count_by key xs = fold (\<lambda>x d. AList.update (key x) (dict_get d (key x) 0 + 1) d) xs []"

definition store_name_of :: "stock_db \<Rightarrow> uuid option \<Rightarrow> string option" where
  "store_name_of db sid = (case sid of None \<Rightarrow> None
     | Some i \<Rightarrow> map_option st_name (find (\<lambda>s. st_id s = i) (sk_stores db)))"

definition store_total_of :: "stock_db \<Rightarrow> uuid option \<Rightarrow> uuid option \<times> int \<Rightarrow> store_total" where
  "store_total_of db current kn = (case kn of (sid, n) \<Rightarrow>
     \<lparr>gt_store_id = sid, gt_store_name = store_name_of db sid,
      gt_is_current_store = (sid \<noteq> None \<and> sid = current), gt_total_rows = n\<rparr>)"

definition sku_mode :: "stock_item \<Rightarrow> bool" where
  "sku_mode r \<longleftrightarrow> so_sale_mode (compute_operational_state r) = SKU_mode
    \<or> so_transfer_mode (compute_operational_state r) = SKU_mode"

definition row_key :: "stock_item \<Rightarrow> uuid option \<times> string option" where
  "row_key r = (si_store_id r, si_sku r)"

definition available_qty :: "stock_item list \<Rightarrow> stock_item \<Rightarrow> int" where
  "available_qty rows r =
    (if sku_mode r then dict_get (count_by row_key (filter sku_mode rows)) (row_key r) 0
     else if so_available_for_sale (compute_operational_state r) then 1 else 0)"

text \<open>The primary image of a sku stands in for what the row's own image lacks.\<close>

definition needs_catalog_image :: "stock_item \<Rightarrow> bool" where
  "needs_catalog_image r \<longleftrightarrow> \<not> falsy (si_sku r) \<and> \<not> falsy (si_image_asset_id r)
    \<and> (falsy (si_image_url r) \<or> falsy (si_image_thumb_url r) \<or> falsy (si_image_source r))"

definition by_updated_desc :: "sku_image list \<Rightarrow> sku_image list" where
  "by_updated_desc ms = sort_key (\<lambda>m. if im_updated_at m = None then 1 else 0 :: int)
     (sort_key (\<lambda>m. case im_updated_at m of None \<Rightarrow> 0 | Some t \<Rightarrow> - t) ms)"

definition catalog_primary :: "uuid \<Rightarrow> stock_db \<Rightarrow> stock_item list \<Rightarrow> string \<Rightarrow> sku_image option" where
  "catalog_primary tn db rows sku =
    (if list_ex (\<lambda>r. needs_catalog_image r \<and> si_sku r = Some sku) rows
     then find (\<lambda>m. im_sku m = sku) (sort_key im_sort_order (by_updated_desc
       (filter (\<lambda>m. im_tenant_id m = tn \<and> im_is_primary m) (sk_images db))))
     else None)"

record stock_row_out =
  ro_row :: stock_item
  ro_store_name :: "string option"
  ro_is_current_store :: "bool option"
  ro_image_asset_id :: "uuid option"
  ro_image_url :: "string option"
  ro_image_thumb_url :: "string option"
  ro_image_source :: "string option"
  ro_image_updated_at :: "time option"
  ro_state :: stock_operational_state
  ro_available_qty :: int

definition stock_row_of ::
    "(uuid \<Rightarrow> uuid \<Rightarrow> string) \<Rightarrow> token_data \<Rightarrow> uuid \<Rightarrow> stock_db \<Rightarrow> stock_item list \<Rightarrow> stock_item \<Rightarrow> stock_row_out" where
  "stock_row_of content_url td tn db rows r =
    (let image = (if falsy (si_sku r) then None else catalog_primary tn db rows (the (si_sku r)));
         asset = (if \<not> falsy (si_image_asset_id r) then si_image_asset_id r else map_option im_asset_id image);
         catalog_url = (if asset \<noteq> None \<and> image \<noteq> None then Some (content_url (the asset) tn) else None);
         url = py_or (si_image_url r) catalog_url
     in \<lparr>ro_row = r, ro_store_name = store_name_of db (si_store_id r),
         ro_is_current_store = (case si_store_id r of None \<Rightarrow> None | Some s \<Rightarrow> Some (Some s = td_store_id td)),
         ro_image_asset_id = asset, ro_image_url = url,
         ro_image_thumb_url = py_or (si_image_thumb_url r) (py_or catalog_url url),
         ro_image_source = py_or (si_image_source r) (if image \<noteq> None then Some ''catalog'' else None),
         ro_image_updated_at = (case si_image_updated_at r of Some t \<Rightarrow> Some t
           | None \<Rightarrow> map_option (\<lambda>m. case im_updated_at m of Some t \<Rightarrow> t | None \<Rightarrow> im_created_at m) image),
         ro_state = compute_operational_state r, ro_available_qty = available_qty rows r\<rparr>)"

record stock_listing =
  li_rows :: "stock_row_out list"
  li_totals :: stock_totals
  li_totals_by_store :: "store_total list"
  li_sort_by :: string
  li_view :: stock_view

text \<open>In the scope of a store, the totals are those of the page.\<close>

definition listing_scope :: "request_env \<Rightarrow> stock_query \<Rightarrow> stock_db \<Rightarrow> (uuid \<times> uuid option) res" where
  "listing_scope env k db =
    bindr (stock_tenant env (kq_tenant_id k)) (\<lambda>tn.
    let requested = kf_store_id (kq_filters k) in
    bindr (if falsy requested then Inr () else validate_scoped_store db tn (the requested)) (\<lambda>_.
    bindr (resolve_query_scope (rq_token env) (kq_scope k) requested) (\<lambda>scoped. Inr (tn, scoped))))"

text \<open>The filters a query comes to.\<close>

definition query_filters :: "uuid \<Rightarrow> uuid option \<Rightarrow> stock_query \<Rightarrow> stock_filters" where
  "query_filters tn scoped k = (kq_filters k)\<lparr>kf_tenant_id := tn, kf_scope_store_id := scoped,
     kf_view := (if kq_include_sold k = Some True \<and> kf_view (kq_filters k) = Operational_view then All_view
       else kf_view (kq_filters k))\<rparr>"

definition listing_of ::
    "row_order \<Rightarrow> (uuid \<Rightarrow> uuid \<Rightarrow> string) \<Rightarrow> token_data \<Rightarrow> stock_query \<Rightarrow> uuid \<Rightarrow> uuid option \<Rightarrow> stock_db \<Rightarrow> stock_listing" where
  "listing_of order_by content_url td k tn scoped db =
    (let f = query_filters tn scoped k;
         (rows, totals, column) = repo_list_stock order_by f (kq_page k) (kq_page_size k) (kq_sort_by k) (kq_sort_desc k) (sk_stock db);
         rows' = (if falsy scoped then rows else filter (\<lambda>r. si_store_id r = scoped) rows);
         totals' = (if falsy scoped then totals else totals_of_rows rows')
     in \<lparr>li_rows = map (stock_row_of content_url td tn db rows') rows', li_totals = totals',
         li_totals_by_store = (if kq_scope k = Tenant_scope
           then map (store_total_of db (td_store_id td)) (count_by si_store_id (apply_filters f (sk_stock db)))
           else []),
         li_sort_by = column, li_view = kf_view f\<rparr>)"

definition list_stock ::
    "row_order \<Rightarrow> (uuid \<Rightarrow> uuid \<Rightarrow> string) \<Rightarrow> request_env \<Rightarrow> stock_query \<Rightarrow> stock_db \<Rightarrow> stock_listing res" where
  "list_stock order_by content_url env k db =
    bindr (listing_scope env k db) (\<lambda>(tn, scoped).
      Inr (listing_of order_by content_url (rq_token env) k tn scoped db))"

section \<open>What is listed\<close>

lemma count_by_get: "dict_get (count_by key xs) k 0 = int (length (filter (\<lambda>x. key x = k) xs))"
proof -
  have "dict_get (fold (\<lambda>x d. AList.update (key x) (dict_get d (key x) 0 + 1) d) xs d) k 0
      = dict_get d k 0 + int (length (filter (\<lambda>x. key x = k) xs))" for d :: "('a \<times> int) list"
    by (induction xs arbitrary: d) auto
  then show ?thesis by (simp add: count_by_def)
qed

lemma pages_all:
  assumes "length xs \<le> n * m"
  shows "concat (map (\<lambda>p. rows_of_page p m xs) [1..<Suc n]) = xs"
  using assms
proof (induction n arbitrary: xs)
  case (Suc n)
  have ones: "[1..<Suc (Suc n)] = 1 # map Suc [1..<Suc n]"
    by (metis One_nat_def map_Suc_upt upt_conv_Cons zero_less_Suc Suc_less_eq)
  have "rows_of_page (Suc p) m xs = rows_of_page p m (drop m xs)" if "1 \<le> p" for p
    using that by (cases p) (simp_all add: rows_of_page_def add.commute)
  then have tail: "map (\<lambda>p. rows_of_page (Suc p) m xs) [1..<Suc n] = map (\<lambda>p. rows_of_page p m (drop m xs)) [1..<Suc n]" by (auto intro!: map_cong)
  have "concat (map f (1 # map Suc ps)) = f 1 @ concat (map (\<lambda>p. f (Suc p)) ps)" for f :: "nat \<Rightarrow> 'a list" and ps
    by (simp add: comp_def)
  then have "concat (map (\<lambda>p. rows_of_page p m xs) [1..<Suc (Suc n)])
      = take m xs @ concat (map (\<lambda>p. rows_of_page p m (drop m xs)) [1..<Suc n])"
    unfolding ones tail by (simp only: tail rows_of_page_def [of 1]) simp
  also have "\<dots> = xs" using Suc.IH [of "drop m xs"] Suc.prems by simp
  finally show ?case .
qed simp

lemma rows_out: "map ro_row (map (stock_row_of url td tn db rows) rows') = rows'"
  by (simp add: comp_def stock_row_of_def Let_def)

lemma list_stock_Inr:
  assumes "list_stock order_by url env k db = Inr li"
  obtains tn scoped where "stock_tenant env (kq_tenant_id k) = Inr tn"
    "resolve_query_scope (rq_token env) (kq_scope k) (kf_store_id (kq_filters k)) = Inr scoped"
    "map ro_row (li_rows li) = (let rows = rows_of_page (kq_page k) (kq_page_size k)
        (order_by (resolve_sort_column (kq_sort_by k)) (kq_sort_desc k) (apply_filters (query_filters tn scoped k) (sk_stock db)))
      in if falsy scoped then rows else filter (\<lambda>r. si_store_id r = scoped) rows)"
    "li_totals li = (if falsy scoped then totals_of_rows (apply_filters (query_filters tn scoped k) (sk_stock db))
      else totals_of_rows (map ro_row (li_rows li)))"
    "\<And>out. out \<in> set (li_rows li) \<Longrightarrow> ro_available_qty out = available_qty (map ro_row (li_rows li)) (ro_row out)
      \<and> ro_state out = compute_operational_state (ro_row out)"
proof -
  obtain tn scoped where sc: "listing_scope env k db = Inr (tn, scoped)"
    and li: "li = listing_of order_by url (rq_token env) k tn scoped db"
    using assms by (auto simp: list_stock_def bindr_Inr_iff)
  have t: "stock_tenant env (kq_tenant_id k) = Inr tn"
    and s: "resolve_query_scope (rq_token env) (kq_scope k) (kf_store_id (kq_filters k)) = Inr scoped"
    using sc by (auto simp: listing_scope_def Let_def bindr_Inr_iff)
  define rows where "rows = rows_of_page (kq_page k) (kq_page_size k)
      (order_by (resolve_sort_column (kq_sort_by k)) (kq_sort_desc k) (apply_filters (query_filters tn scoped k) (sk_stock db)))"
  define rows' where "rows' = (if falsy scoped then rows else filter (\<lambda>r. si_store_id r = scoped) rows)"
  have parts: "li_rows li = map (stock_row_of url (rq_token env) tn db rows') rows'"
    "li_totals li = (if falsy scoped then totals_of_rows (apply_filters (query_filters tn scoped k) (sk_stock db)) else totals_of_rows rows')"
    unfolding li by (simp_all add: listing_of_def repo_list_stock_def Let_def rows_def rows'_def)
  have out: "map ro_row (li_rows li) = rows'" unfolding parts by (rule rows_out)
  have "ro_available_qty x = available_qty (map ro_row (li_rows li)) (ro_row x)
      \<and> ro_state x = compute_operational_state (ro_row x)" if "x \<in> set (li_rows li)" for x
    using that unfolding out unfolding parts(1) by (auto simp: stock_row_of_def Let_def)
  then show ?thesis using that [OF t s] out parts(2) by (simp add: rows'_def rows_def Let_def)
qed

lemma list_stock_any_page:
  assumes "list_stock order_by url env k db = Inr li"
  shows "\<exists>x. list_stock order_by url env (k\<lparr>kq_page := p\<rparr>) db = Inr x"
proof -
  have "listing_scope env (k\<lparr>kq_page := p\<rparr>) db = listing_scope env k db" by (simp add: listing_scope_def)
  then show ?thesis using assms by (auto simp: list_stock_def bindr_Inr_iff)
qed



section \<open>An example\<close>

definition listing_demo :: stock_query where
  "listing_demo = \<lparr>kq_filters = \<lparr>kf_tenant_id = [], kf_scope_store_id = None, kf_q = Some ''k'', kf_description = None,
       kf_var1_value = None, kf_var2_value = None, kf_sku = None, kf_epc = None, kf_location_code = None, kf_pool = None,
       kf_store_id = None, kf_from_date = None, kf_to_date = None, kf_view = Operational_view\<rparr>,
     kq_tenant_id = None, kq_page = 1, kq_page_size = 1, kq_sort_by = ''sku'', kq_sort_desc = True,
     kq_scope = Tenant_scope, kq_include_sold = None\<rparr>"

definition reader_env :: request_env where
  "reader_env = (stock_env CHR ''z'' 70)\<lparr>rq_token := (rq_token (stock_env CHR ''z'' 70))\<lparr>td_role := ''ADMIN''\<rparr>\<rparr>"

abbreviation demo_listing :: "nat \<Rightarrow> stock_listing res" where
  "demo_listing p \<equiv> list_stock (\<lambda>c d xs. xs) (\<lambda>a t. a) reader_env (listing_demo\<lparr>kq_page := p\<rparr>) imported_world"

lemma demo_listing_ok: "(case demo_listing 1 of Inl e \<Rightarrow> False | Inr li \<Rightarrow> li_rows li \<noteq> [])"
  by code_simp

lemma demo_listing_total: "length (filter (row_selected (query_filters ''t1'' None listing_demo)) (sk_stock imported_world)) = 3"
  by code_simp



end
