(* ===== verification/Access_Routes.thy ===== *)
theory Access_Routes
  imports Request Access_Policies
begin

text \<open>
  Access control, the routes: \<^verbatim>\<open>routers/access_control.py\<close> and the access control part of
  \<^verbatim>\<open>routers/admin.py\<close>. Effective permissions of the caller and of another user, the catalogue, the
  role templates, and the policies of a tenant's roles, of a store's roles, of the platform, and the
  overrides of a user.
\<close>

section \<open>Checks\<close>

definition require_admin :: "token_data \<Rightarrow> unit res" where
  "require_admin td = (let role = py_upper (td_role td) in
     require (role = ''ADMIN'' \<or> is_superadmin (Some role)) (raise0 PERMISSION_DENIED))"

definition enforce_user_store_scope :: "token_data \<Rightarrow> user \<Rightarrow> unit res" where
  "enforce_user_store_scope td u =
    (if is_superadmin (Some (td_role td)) then Inr ()
     else if \<not> falsy (td_store_id td) then require (us_store_id u = td_store_id td) (raise0 STORE_SCOPE_MISMATCH)
     else Inr ())"

definition get_user :: "directory \<Rightarrow> uuid \<Rightarrow> user option" where
  "get_user d i = find (\<lambda>u. us_id u = i) (users d)"

text \<open>The store of a path, of the tenant of the path.\<close>

definition path_store :: "request_env \<Rightarrow> uuid \<Rightarrow> uuid \<Rightarrow> unit res" where
  "path_store env tenant_id store_id =
    bindr (require_admin (rq_token env)) (\<lambda>_.
    bindr (enforce_tenant_scope (rq_token env) (Some tenant_id) True) (\<lambda>_.
    bindr (enforce_store_scope (rq_token env) (Some store_id) (stores (rq_directory env)) True (Some [''SUPERADMIN''])) (\<lambda>s.
    require (st_tenant_id s = tenant_id) (raise0 STORE_SCOPE_MISMATCH))))"

definition path_user :: "request_env \<Rightarrow> uuid \<Rightarrow> uuid \<Rightarrow> unit res" where
  "path_user env tenant_id user_id =
    bindr (require_admin (rq_token env)) (\<lambda>_.
    bindr (enforce_tenant_scope (rq_token env) (Some tenant_id) True) (\<lambda>_.
    (case get_user (rq_directory env) user_id of
       None \<Rightarrow> Inl (raise0 CROSS_TENANT_ACCESS_DENIED)
     | Some u \<Rightarrow>
         bindr (require (us_tenant_id u = tenant_id) (raise0 CROSS_TENANT_ACCESS_DENIED)) (\<lambda>_.
         enforce_user_store_scope (rq_token env) u))))"

section \<open>Effective permissions\<close>

definition DENY_SOURCES :: "decision_source list" where
  "DENY_SOURCES = [Explicit_deny, User_override_deny, Store_policy_deny, Tenant_policy_deny]"

definition denies_applied :: "permission_decision list \<Rightarrow> string list" where
  "denies_applied ds = sorted_set (map pd_key (filter (\<lambda>d. pd_source d \<in> set DENY_SOURCES) ds))"

record effective_response =
  ef_user_id :: "uuid option"
  ef_tenant_id :: "uuid option"
  ef_store_id :: "uuid option"
  ef_role :: "string option"
  ef_permissions :: "permission_decision list"
  ef_denies_applied :: "string list"
  ef_trace :: permission_trace

definition effective_permissions :: "request_env \<Rightarrow> ac_db \<Rightarrow> effective_response res" where
  "effective_permissions env db =
    bindr (require_active_user (rq_directory env) (rq_token env)) (\<lambda>u.
    let ctx = rq_context env; td = rq_token env;
        (ds, tr, c) = build_effective_permissions_with_trace db [] (rq_cache env) ctx (Some td)
    in Inr \<lparr>ef_user_id = py_or (rc_user_id ctx) (Some (td_sub td)), ef_tenant_id = py_or (rc_tenant_id ctx) (td_tenant_id td),
         ef_store_id = py_or (rc_store_id ctx) (td_store_id td), ef_role = py_or (rc_role ctx) (Some (td_role td)),
         ef_permissions = ds, ef_denies_applied = denies_applied ds, ef_trace = tr\<rparr>)"

text \<open>The report on another user is made in that user's context.\<close>

definition user_context :: "user \<Rightarrow> request_context" where
  "user_context u = \<lparr>rc_user_id = Some (us_id u), rc_tenant_id = Some (us_tenant_id u), rc_store_id = us_store_id u,
     rc_role = Some (us_role u), rc_trace_id = []\<rparr>"

definition user_report :: "cache \<Rightarrow> ac_db \<Rightarrow> user \<Rightarrow> effective_response" where
  "user_report c0 db u =
    (let (ds, tr, c) = build_effective_permissions_with_trace db [] c0 (user_context u) None
     in \<lparr>ef_user_id = Some (us_id u), ef_tenant_id = Some (us_tenant_id u), ef_store_id = us_store_id u,
         ef_role = Some (us_role u), ef_permissions = ds, ef_denies_applied = denies_applied ds, ef_trace = tr\<rparr>)"

definition target_user :: "request_env \<Rightarrow> user \<Rightarrow> uuid \<Rightarrow> user res" where
  "target_user env current user_id =
    (if user_id = us_id current then Inr current
     else (case get_user (rq_directory env) user_id of
         None \<Rightarrow> Inl (raise1 VALIDATION_ERROR ''User not found'')
       | Some u \<Rightarrow> Inr u))"

definition effective_permissions_for_user :: "request_env \<Rightarrow> uuid \<Rightarrow> ac_db \<Rightarrow> effective_response res" where
  "effective_permissions_for_user env user_id db =
    bindr (require_active_user (rq_directory env) (rq_token env)) (\<lambda>current.
    let td = rq_token env; role = py_upper (td_role td) in
    bindr (require (is_superadmin (Some role) \<or> role = ''ADMIN'' \<or> user_id = td_sub td) (raise0 PERMISSION_DENIED)) (\<lambda>_.
    bindr (target_user env current user_id) (\<lambda>u.
    bindr (if is_superadmin (Some role) then Inr ()
           else bindr (require (\<not> falsy (td_tenant_id td) \<and> Some (us_tenant_id u) = td_tenant_id td)
               (raise0 CROSS_TENANT_ACCESS_DENIED)) (\<lambda>_. enforce_user_store_scope td u)) (\<lambda>_.
    Inr (user_report (rq_cache env) db u)))))"

definition effective_permissions_for_store_user ::
    "request_env \<Rightarrow> uuid \<Rightarrow> uuid \<Rightarrow> uuid \<Rightarrow> ac_db \<Rightarrow> effective_response res" where
  "effective_permissions_for_store_user env tenant_id store_id user_id db =
    bindr (require_active_user (rq_directory env) (rq_token env)) (\<lambda>current.
    bindr (path_store env tenant_id store_id) (\<lambda>_.
    bindr (target_user env current user_id) (\<lambda>u.
    bindr (require (us_tenant_id u = tenant_id \<and> us_store_id u = Some store_id) (raise0 STORE_SCOPE_MISMATCH)) (\<lambda>_.
    Inr (user_report (rq_cache env) db u)))))"

definition permission_catalog_route :: "request_env \<Rightarrow> ac_db \<Rightarrow> string list res" where
  "permission_catalog_route env db =
    bindr (require_active_user (rq_directory env) (rq_token env)) (\<lambda>u. Inr (map pc_code (list_permission_catalog db)))"

section \<open>Policies, read\<close>

definition get_tenant_role_policy_route :: "request_env \<Rightarrow> uuid \<Rightarrow> string \<Rightarrow> ac_db \<Rightarrow> policy_snapshot res" where
  "get_tenant_role_policy_route env tenant_id role db =
    bindr (require_active_user (rq_directory env) (rq_token env)) (\<lambda>u.
    bindr (require_admin (rq_token env)) (\<lambda>_.
    bindr (enforce_tenant_scope (rq_token env) (Some tenant_id) True) (\<lambda>_.
    Inr (tenant_policy_snapshot db (Some tenant_id) (py_upper role)))))"

definition get_store_role_policy_route ::
    "request_env \<Rightarrow> uuid \<Rightarrow> uuid \<Rightarrow> string \<Rightarrow> ac_db \<Rightarrow> policy_snapshot res" where
  "get_store_role_policy_route env tenant_id store_id role db =
    bindr (require_active_user (rq_directory env) (rq_token env)) (\<lambda>u.
    bindr (path_store env tenant_id store_id) (\<lambda>_.
    Inr (store_policy_snapshot db tenant_id store_id (py_upper role))))"

definition get_user_permission_overrides :: "request_env \<Rightarrow> uuid \<Rightarrow> uuid \<Rightarrow> ac_db \<Rightarrow> policy_snapshot res" where
  "get_user_permission_overrides env tenant_id user_id db =
    bindr (require_active_user (rq_directory env) (rq_token env)) (\<lambda>u.
    bindr (path_user env tenant_id user_id) (\<lambda>_.
    Inr (user_overrides_snapshot db tenant_id user_id)))"

definition get_platform_role_policy :: "request_env \<Rightarrow> string \<Rightarrow> ac_db \<Rightarrow> policy_snapshot res" where
  "get_platform_role_policy env role db =
    bindr (require_active_user (rq_directory env) (rq_token env)) (\<lambda>u.
    bindr (require (is_superadmin (Some (td_role (rq_token env)))) (raise0 PERMISSION_DENIED)) (\<lambda>_.
    Inr (tenant_policy_snapshot db None (py_upper role))))"

section \<open>Policies, replaced\<close>

record policy_request =
  pr_allow :: "string list"
  pr_deny :: "string list"
  pr_transaction_id :: "string option"

text \<open>The reply shows the policy as replaced; the one before goes to the audit.\<close>

definition policy_written :: "(policy_snapshot \<times> policy_snapshot \<times> ac_db) res \<Rightarrow> (ac_db \<times> policy_snapshot) res" where
  "policy_written x = bindr x (\<lambda>(before, after, db). Inr (db, after))"

definition enforce_ceiling :: "request_env \<Rightarrow> bool" where
  "enforce_ceiling env \<longleftrightarrow> \<not> is_superadmin (Some (td_role (rq_token env)))"

definition tenant_policy_before :: "request_env \<Rightarrow> uuid \<Rightarrow> policy_request \<Rightarrow> (uuid \<times> user) res" where
  "tenant_policy_before env tenant_id p =
    bindr (require_active_user (rq_directory env) (rq_token env)) (\<lambda>u.
    bindr (require_admin (rq_token env)) (\<lambda>_.
    bindr (enforce_tenant_scope (rq_token env) (Some tenant_id) True) (\<lambda>_.
    bindr (require_transaction_id (pr_transaction_id p)) (\<lambda>_. Inr (tenant_id, u)))))"

definition tenant_policy_body ::
    "request_env \<Rightarrow> string \<Rightarrow> policy_request \<Rightarrow> uuid \<Rightarrow> ac_db \<Rightarrow> (ac_db \<times> policy_snapshot) res" where
  "tenant_policy_body env role p tn db =
    policy_written (replace_tenant_role_policy db (Some tn) (py_upper role) (pr_allow p) (pr_deny p) (enforce_ceiling env))"

definition replace_tenant_role_policy_route ::
    "(app_error \<Rightarrow> string) \<Rightarrow> (policy_snapshot \<Rightarrow> string) \<Rightarrow> request_env \<Rightarrow> uuid \<Rightarrow> string \<Rightarrow> policy_request
      \<Rightarrow> idem_table \<times> ac_db \<Rightarrow> reply \<times> idem_table \<times> ac_db" where
  "replace_tenant_role_policy_route dump_err dump env tenant_id role p =
    guarded_endpoint env dump_err (\<lambda>_. tenant_policy_before env tenant_id p)
      (\<lambda>tn u db. replying 200 dump (tenant_policy_body env role p tn db))"

definition store_policy_before :: "request_env \<Rightarrow> uuid \<Rightarrow> uuid \<Rightarrow> policy_request \<Rightarrow> (uuid \<times> user) res" where
  "store_policy_before env tenant_id store_id p =
    bindr (require_active_user (rq_directory env) (rq_token env)) (\<lambda>u.
    bindr (path_store env tenant_id store_id) (\<lambda>_.
    bindr (require_transaction_id (pr_transaction_id p)) (\<lambda>_. Inr (tenant_id, u))))"

definition store_policy_body ::
    "request_env \<Rightarrow> uuid \<Rightarrow> string \<Rightarrow> policy_request \<Rightarrow> uuid \<Rightarrow> ac_db \<Rightarrow> (ac_db \<times> policy_snapshot) res" where
  "store_policy_body env store_id role p tn db =
    policy_written (replace_store_role_policy db tn store_id (py_upper role) (pr_allow p) (pr_deny p) (enforce_ceiling env))"

definition replace_store_role_policy_route ::
    "(app_error \<Rightarrow> string) \<Rightarrow> (policy_snapshot \<Rightarrow> string) \<Rightarrow> request_env \<Rightarrow> uuid \<Rightarrow> uuid \<Rightarrow> string \<Rightarrow> policy_request
      \<Rightarrow> idem_table \<times> ac_db \<Rightarrow> reply \<times> idem_table \<times> ac_db" where
  "replace_store_role_policy_route dump_err dump env tenant_id store_id role p =
    guarded_endpoint env dump_err (\<lambda>_. store_policy_before env tenant_id store_id p)
      (\<lambda>tn u db. replying 200 dump (store_policy_body env store_id role p tn db))"

definition user_overrides_before :: "request_env \<Rightarrow> uuid \<Rightarrow> uuid \<Rightarrow> policy_request \<Rightarrow> (uuid \<times> user) res" where
  "user_overrides_before env tenant_id user_id p =
    bindr (require_active_user (rq_directory env) (rq_token env)) (\<lambda>u.
    bindr (path_user env tenant_id user_id) (\<lambda>_.
    bindr (require_transaction_id (pr_transaction_id p)) (\<lambda>_. Inr (tenant_id, u))))"

definition user_overrides_body ::
    "request_env \<Rightarrow> uuid \<Rightarrow> policy_request \<Rightarrow> uuid \<Rightarrow> ac_db \<Rightarrow> (ac_db \<times> policy_snapshot) res" where
  "user_overrides_body env user_id p tn db =
    policy_written (replace_user_overrides db tn user_id (pr_allow p) (pr_deny p) (enforce_ceiling env))"

definition replace_user_permission_overrides ::
    "(app_error \<Rightarrow> string) \<Rightarrow> (policy_snapshot \<Rightarrow> string) \<Rightarrow> request_env \<Rightarrow> uuid \<Rightarrow> uuid \<Rightarrow> policy_request
      \<Rightarrow> idem_table \<times> ac_db \<Rightarrow> reply \<times> idem_table \<times> ac_db" where
  "replace_user_permission_overrides dump_err dump env tenant_id user_id p =
    guarded_endpoint env dump_err (\<lambda>_. user_overrides_before env tenant_id user_id p)
      (\<lambda>tn u db. replying 200 dump (user_overrides_body env user_id p tn db))"

text \<open>The record of a platform request is kept under the caller's tenant; without one it cannot be
  inserted, which \<^verbatim>\<open>start\<close> takes for a concurrent insert.\<close>

definition platform_before :: "request_env \<Rightarrow> policy_request \<Rightarrow> (uuid \<times> user) res" where
  "platform_before env p =
    bindr (require_active_user (rq_directory env) (rq_token env)) (\<lambda>u.
    bindr (require (is_superadmin (Some (td_role (rq_token env)))) (raise0 PERMISSION_DENIED)) (\<lambda>_.
    bindr (require_transaction_id (pr_transaction_id p)) (\<lambda>_.
    (case td_tenant_id (rq_token env) of
       None \<Rightarrow> bindr (idempotency_key_of env) (\<lambda>_. Inl (raise0 IDEMPOTENCY_REQUEST_IN_PROGRESS))
     | Some tn \<Rightarrow> Inr (tn, u)))))"

definition platform_body :: "string \<Rightarrow> policy_request \<Rightarrow> ac_db \<Rightarrow> (ac_db \<times> policy_snapshot) res" where
  "platform_body role p db = policy_written (replace_tenant_role_policy db None (py_upper role) (pr_allow p) (pr_deny p) False)"

definition replace_platform_role_policy ::
    "(app_error \<Rightarrow> string) \<Rightarrow> (policy_snapshot \<Rightarrow> string) \<Rightarrow> request_env \<Rightarrow> string \<Rightarrow> policy_request
      \<Rightarrow> idem_table \<times> ac_db \<Rightarrow> reply \<times> idem_table \<times> ac_db" where
  "replace_platform_role_policy dump_err dump env role p =
    guarded_endpoint env dump_err (\<lambda>_. platform_before env p)
      (\<lambda>tn u db. replying 200 dump (platform_body role p db))"

section \<open>The administrator's routes\<close>

text \<open>\<^verbatim>\<open>_tenant_id_or_error\<close>, and the tenant of a query: a superadmin names one, nobody else may name
  another than the token's.\<close>

definition tenant_id_or_error :: "token_data \<Rightarrow> uuid res" where
  "tenant_id_or_error td = (if falsy (td_tenant_id td) then Inl (raise0 TENANT_SCOPE_REQUIRED) else Inr (the (td_tenant_id td)))"

definition normalize_optional_str :: "string option \<Rightarrow> string option" where
  "normalize_optional_str v = (case v of None \<Rightarrow> None | Some x \<Rightarrow> if py_strip x = [] then None else Some (py_strip x))"

definition effective_tenant :: "token_data \<Rightarrow> string option \<Rightarrow> uuid res" where
  "effective_tenant td tenant_id =
    (let requested = normalize_optional_str tenant_id
     in if is_superadmin (Some (td_role td)) then
          (case requested of None \<Rightarrow> Inl (raise1 TENANT_SCOPE_REQUIRED ''tenant_id is required for superadmin on this endpoint'')
           | Some t \<Rightarrow> Inr t)
        else bindr (tenant_id_or_error td) (\<lambda>own.
          bindr (require (requested = None \<or> requested = Some own) (raise0 CROSS_TENANT_ACCESS_DENIED)) (\<lambda>_. Inr own)))"

definition get_by_id_in_tenant :: "directory \<Rightarrow> uuid \<Rightarrow> uuid \<Rightarrow> user option" where
  "get_by_id_in_tenant d i t = find (\<lambda>u. us_id u = i \<and> us_tenant_id u = t) (users d)"

definition admin_user :: "request_env \<Rightarrow> string option \<Rightarrow> uuid \<Rightarrow> (uuid \<times> user) res" where
  "admin_user env tenant_id user_id =
    bindr (require_admin (rq_token env)) (\<lambda>_.
    bindr (effective_tenant (rq_token env) tenant_id) (\<lambda>tn.
    (case get_by_id_in_tenant (rq_directory env) user_id tn of
       None \<Rightarrow> Inl (raise0 CROSS_TENANT_ACCESS_DENIED)
     | Some u \<Rightarrow> bindr (enforce_user_store_scope (rq_token env) u) (\<lambda>_. Inr (tn, u)))))"

text \<open>A store of the tenant of the token.\<close>

definition admin_store :: "request_env \<Rightarrow> uuid \<Rightarrow> uuid res" where
  "admin_store env store_id =
    bindr (require_admin (rq_token env)) (\<lambda>_.
    bindr (tenant_id_or_error (rq_token env)) (\<lambda>tn.
    bindr (enforce_store_scope (rq_token env) (Some store_id) (stores (rq_directory env)) True (Some [''SUPERADMIN''])) (\<lambda>s.
    bindr (require (st_tenant_id s = tn) (raise0 STORE_SCOPE_MISMATCH)) (\<lambda>_. Inr tn))))"

text \<open>\<^verbatim>\<open>_idempotency_tenant_scope\<close>\<close>

definition idempotency_tenant_scope :: "token_data \<Rightarrow> user \<Rightarrow> uuid" where
  "idempotency_tenant_scope td u = (if \<not> falsy (td_tenant_id td) then the (td_tenant_id td) else us_tenant_id u)"

text \<open>\<^verbatim>\<open>IdempotencyService.start\<close> with a tenant that was not checked: an absent one cannot be inserted,
  which is taken for a concurrent insert; a text that is no identifier is refused by the column's type.\<close>

definition idempotency_tenant :: "request_env \<Rightarrow> string option \<Rightarrow> (string \<Rightarrow> bool) \<Rightarrow> uuid res" where
  "idempotency_tenant env t is_uuid =
    bindr (idempotency_key_of env) (\<lambda>_. case t of
      None \<Rightarrow> Inl (raise0 IDEMPOTENCY_REQUEST_IN_PROGRESS)
    | Some x \<Rightarrow> bindr (require (is_uuid x) (raise0 INTERNAL_ERROR)) (\<lambda>_. Inr x))"

definition admin_permission_catalog :: "request_env \<Rightarrow> ac_db \<Rightarrow> string list res" where
  "admin_permission_catalog env db =
    bindr (require_active_user (rq_directory env) (rq_token env)) (\<lambda>u.
    bindr (require_admin (rq_token env)) (\<lambda>_. Inr (map pc_code (list_permission_catalog db))))"

definition admin_get_role_template :: "request_env \<Rightarrow> string \<Rightarrow> ac_db \<Rightarrow> string list res" where
  "admin_get_role_template env role db =
    bindr (require_active_user (rq_directory env) (rq_token env)) (\<lambda>u.
    bindr (require_admin (rq_token env)) (\<lambda>_. get_role_template db None (py_upper role)))"

definition admin_get_tenant_role_policy :: "request_env \<Rightarrow> string \<Rightarrow> ac_db \<Rightarrow> policy_snapshot res" where
  "admin_get_tenant_role_policy env role db =
    bindr (require_active_user (rq_directory env) (rq_token env)) (\<lambda>u.
    bindr (require_admin (rq_token env)) (\<lambda>_.
    bindr (tenant_id_or_error (rq_token env)) (\<lambda>tn. Inr (tenant_policy_snapshot db (Some tn) (py_upper role)))))"

definition admin_get_store_role_policy :: "request_env \<Rightarrow> uuid \<Rightarrow> string \<Rightarrow> ac_db \<Rightarrow> policy_snapshot res" where
  "admin_get_store_role_policy env store_id role db =
    bindr (require_active_user (rq_directory env) (rq_token env)) (\<lambda>u.
    bindr (admin_store env store_id) (\<lambda>tn. Inr (store_policy_snapshot db tn store_id (py_upper role))))"

definition admin_get_user_overrides :: "request_env \<Rightarrow> string option \<Rightarrow> uuid \<Rightarrow> ac_db \<Rightarrow> policy_snapshot res" where
  "admin_get_user_overrides env tenant_id user_id db =
    bindr (require_active_user (rq_directory env) (rq_token env)) (\<lambda>_.
    bindr (admin_user env tenant_id user_id) (\<lambda>(tn, u). Inr (user_overrides_snapshot db tn user_id)))"

definition admin_effective_permissions ::
    "request_env \<Rightarrow> string option \<Rightarrow> string option \<Rightarrow> uuid \<Rightarrow> ac_db \<Rightarrow> effective_response res" where
  "admin_effective_permissions env tenant_id store_id user_id db =
    bindr (require_active_user (rq_directory env) (rq_token env)) (\<lambda>_.
    bindr (admin_user env tenant_id user_id) (\<lambda>(tn, u).
    bindr (require (falsy store_id \<or> falsy (us_store_id u) \<or> us_store_id u = store_id) (raise0 STORE_SCOPE_MISMATCH)) (\<lambda>_.
    let target = py_or store_id (us_store_id u) in
    bindr (if falsy target then Inr ()
        else bindr (enforce_store_scope (rq_token env) target (stores (rq_directory env)) True (Some [''SUPERADMIN''])) (\<lambda>s.
          require (st_tenant_id s = tn) (raise0 STORE_SCOPE_MISMATCH))) (\<lambda>_.
    Inr (user_report (rq_cache env) db (u\<lparr>us_store_id := target\<rparr>))))))"

text \<open>The routes that write. Only a superadmin replaces a role template.\<close>

definition role_template_before :: "request_env \<Rightarrow> string option \<Rightarrow> (uuid \<times> user) res" where
  "role_template_before env transaction_id =
    bindr (require_active_user (rq_directory env) (rq_token env)) (\<lambda>u.
    bindr (require (is_superadmin (Some (td_role (rq_token env)))) (raise0 PERMISSION_DENIED)) (\<lambda>_.
    bindr (require_transaction_id transaction_id) (\<lambda>_. Inr (idempotency_tenant_scope (rq_token env) u, u))))"

definition role_template_body :: "string \<Rightarrow> string list \<Rightarrow> ac_db \<Rightarrow> (ac_db \<times> string list) res" where
  "role_template_body role permissions db =
    bindr (replace_role_template_permissions db None (py_upper role) permissions) (\<lambda>(before, after, db'). Inr (db', after))"

definition admin_replace_role_template ::
    "(app_error \<Rightarrow> string) \<Rightarrow> (string list \<Rightarrow> string) \<Rightarrow> request_env \<Rightarrow> string \<Rightarrow> string list \<Rightarrow> string option
      \<Rightarrow> idem_table \<times> ac_db \<Rightarrow> reply \<times> idem_table \<times> ac_db" where
  "admin_replace_role_template dump_err dump env role permissions transaction_id =
    guarded_endpoint env dump_err (\<lambda>_. role_template_before env transaction_id)
      (\<lambda>tn u db. replying 200 dump (role_template_body role permissions db))"

definition admin_tenant_policy_before :: "request_env \<Rightarrow> policy_request \<Rightarrow> (uuid \<times> user) res" where
  "admin_tenant_policy_before env p =
    bindr (require_active_user (rq_directory env) (rq_token env)) (\<lambda>u.
    bindr (require_admin (rq_token env)) (\<lambda>_.
    bindr (tenant_id_or_error (rq_token env)) (\<lambda>tn.
    bindr (require_transaction_id (pr_transaction_id p)) (\<lambda>_. Inr (tn, u)))))"

definition admin_replace_tenant_role_policy ::
    "(app_error \<Rightarrow> string) \<Rightarrow> (policy_snapshot \<Rightarrow> string) \<Rightarrow> request_env \<Rightarrow> string \<Rightarrow> policy_request
      \<Rightarrow> idem_table \<times> ac_db \<Rightarrow> reply \<times> idem_table \<times> ac_db" where
  "admin_replace_tenant_role_policy dump_err dump env role p =
    guarded_endpoint env dump_err (\<lambda>_. admin_tenant_policy_before env p)
      (\<lambda>tn u db. replying 200 dump (tenant_policy_body env role p tn db))"

definition admin_store_policy_before :: "request_env \<Rightarrow> uuid \<Rightarrow> policy_request \<Rightarrow> (uuid \<times> user) res" where
  "admin_store_policy_before env store_id p =
    bindr (require_active_user (rq_directory env) (rq_token env)) (\<lambda>u.
    bindr (admin_store env store_id) (\<lambda>tn.
    bindr (require_transaction_id (pr_transaction_id p)) (\<lambda>_. Inr (tn, u))))"

definition admin_replace_store_role_policy ::
    "(app_error \<Rightarrow> string) \<Rightarrow> (policy_snapshot \<Rightarrow> string) \<Rightarrow> request_env \<Rightarrow> uuid \<Rightarrow> string \<Rightarrow> policy_request
      \<Rightarrow> idem_table \<times> ac_db \<Rightarrow> reply \<times> idem_table \<times> ac_db" where
  "admin_replace_store_role_policy dump_err dump env store_id role p =
    guarded_endpoint env dump_err (\<lambda>_. admin_store_policy_before env store_id p)
      (\<lambda>tn u db. replying 200 dump (store_policy_body env store_id role p tn db))"

text \<open>A patch of the overrides leaves the half it does not name. Its record is kept under the tenant of
  the query as given.\<close>

record overrides_patch =
  op_allow :: "string list option"
  op_deny :: "string list option"
  op_transaction_id :: "string option"

definition patch_overrides_before :: "request_env \<Rightarrow> string option \<Rightarrow> uuid \<Rightarrow> overrides_patch \<Rightarrow> (uuid \<times> user) res" where
  "patch_overrides_before env tenant_id user_id p =
    bindr (require_active_user (rq_directory env) (rq_token env)) (\<lambda>_.
    bindr (admin_user env tenant_id user_id) (\<lambda>(tn, u).
    bindr (require_transaction_id (op_transaction_id p)) (\<lambda>_.
    bindr (idempotency_tenant env tenant_id (\<lambda>x. x = tn)) (\<lambda>_. Inr (tn, u)))))"

definition patch_overrides_body ::
    "request_env \<Rightarrow> uuid \<Rightarrow> overrides_patch \<Rightarrow> uuid \<Rightarrow> ac_db \<Rightarrow> (ac_db \<times> policy_snapshot) res" where
  "patch_overrides_body env user_id p tn db =
    (let before = user_overrides_snapshot db tn user_id;
         allow = (case op_allow p of None \<Rightarrow> ps_allow before | Some a \<Rightarrow> a);
         deny = (case op_deny p of None \<Rightarrow> ps_deny before | Some d \<Rightarrow> d)
     in policy_written (replace_user_overrides db tn user_id allow deny (enforce_ceiling env)))"

definition admin_patch_user_overrides ::
    "(app_error \<Rightarrow> string) \<Rightarrow> (policy_snapshot \<Rightarrow> string) \<Rightarrow> request_env \<Rightarrow> string option \<Rightarrow> uuid \<Rightarrow> overrides_patch
      \<Rightarrow> idem_table \<times> ac_db \<Rightarrow> reply \<times> idem_table \<times> ac_db" where
  "admin_patch_user_overrides dump_err dump env tenant_id user_id p =
    guarded_endpoint env dump_err (\<lambda>_. patch_overrides_before env tenant_id user_id p)
      (\<lambda>tn u db. replying 200 dump (patch_overrides_body env user_id p tn db))"

section \<open>What a request of an administrator can change\<close>

text \<open>The policies stored for a tenant, a store of it, or a user of it.\<close>

definition policy_rows :: "(uuid option \<Rightarrow> bool) \<Rightarrow> ac_db
    \<Rightarrow> tenant_role_policy list \<times> store_role_policy list \<times> user_permission_override list" where
  "policy_rows P db = (filter (\<lambda>r. P (trp_tenant_id r)) (tenant_role_policies db),
     filter (\<lambda>r. P (Some (srp_tenant_id r))) (store_role_policies db),
     filter (\<lambda>r. P (Some (upo_tenant_id r))) (user_overrides db))"

definition allowed_codes :: "ac_db \<Rightarrow> string set" where
  "allowed_codes db = trp_permission_code ` {r \<in> set (tenant_role_policies db). trp_effect r = ''allow''}
     \<union> srp_permission_code ` {r \<in> set (store_role_policies db). srp_effect r = ''allow''}
     \<union> upo_permission_code ` {r \<in> set (user_overrides db). upo_effect r = ''allow''}"

inductive policy_step :: "request_env \<Rightarrow> ac_db \<Rightarrow> ac_db \<Rightarrow> bool" where
  Tenant_policy: "replace_tenant_role_policy_route dump_err dump env tenant_id role p w = (rep, w') \<Longrightarrow>
    policy_step env (snd w) (snd w')"
| Store_policy: "replace_store_role_policy_route dump_err dump env tenant_id store_id role p w = (rep, w') \<Longrightarrow>
    policy_step env (snd w) (snd w')"
| Overrides: "replace_user_permission_overrides dump_err dump env tenant_id user_id p w = (rep, w') \<Longrightarrow>
    policy_step env (snd w) (snd w')"
| Platform: "replace_platform_role_policy dump_err dump env role p w = (rep, w') \<Longrightarrow>
    policy_step env (snd w) (snd w')"
| Template: "admin_replace_role_template dump_err dump env role permissions t w = (rep, w') \<Longrightarrow>
    policy_step env (snd w) (snd w')"
| Admin_tenant_policy: "admin_replace_tenant_role_policy dump_err dump env role p w = (rep, w') \<Longrightarrow>
    policy_step env (snd w) (snd w')"
| Admin_store_policy: "admin_replace_store_role_policy dump_err dump env store_id role p w = (rep, w') \<Longrightarrow>
    policy_step env (snd w) (snd w')"
| Patch_overrides: "admin_patch_user_overrides dump_err dump env tenant_id user_id op w = (rep, w') \<Longrightarrow>
    policy_step env (snd w) (snd w')"

lemma policy_written_Inr:
  "policy_written x = Inr (db', after) \<longleftrightarrow> (\<exists>before. x = Inr (before, after, db'))"
  by (auto simp: policy_written_def bindr_Inr_iff)

lemma replaying_Inr: "replying st dump x = Inr (db', rep) \<Longrightarrow> \<exists>a. x = Inr (db', a)"
  by (auto simp: replying_def bindr_Inr_iff)

lemma own_tenant:
  assumes "enforce_tenant_scope td (Some t) b = Inr ()" and "\<not> is_superadmin (Some (td_role td))"
  shows "td_tenant_id td = Some t"
  using assms by (auto simp: enforce_tenant_scope_def split: if_splits)

lemma ceiling_kept:
  assumes "check_ceiling db t True allow = Inr ()"
  shows "set allow \<subseteq> tenant_admin_ceiling db t"
  using assms by (auto simp: check_ceiling_def split: if_splits)

text \<open>What each body leaves in the tables: the rows of other tenants, and codes within the ceiling.\<close>

definition within_tenant :: "uuid \<Rightarrow> ac_db \<Rightarrow> ac_db \<Rightarrow> bool" where
  "within_tenant tn db db' \<longleftrightarrow> policy_rows (\<lambda>t. t \<noteq> Some tn) db' = policy_rows (\<lambda>t. t \<noteq> Some tn) db
    \<and> catalog db' = catalog db \<and> role_templates db' = role_templates db
    \<and> role_template_permissions db' = role_template_permissions db
    \<and> allowed_codes db' \<subseteq> allowed_codes db \<union> tenant_admin_ceiling db (Some tn)"

lemma within_refl: "within_tenant tn db db"
  by (simp add: within_tenant_def)

lemma no_rows: "\<forall>x \<in> set xs. \<not> P x \<Longrightarrow> filter P xs = []"
  by (simp add: filter_empty_conv)

lemma tenant_body_within:
  assumes "tenant_policy_body env role p tn db = Inr (db', after)" and "enforce_ceiling env"
  shows "within_tenant tn db db'"
proof -
  have c: "set (pr_allow p) \<subseteq> tenant_admin_ceiling db (Some tn)"
    and db': "db' = replace_tenant_role_policies (Some tn) (py_upper role)
      (build_tenant_role_entries (Some tn) (py_upper role) (pr_allow p) (pr_deny p)) db"
    using assms ceiling_kept
    by (auto simp: tenant_policy_body_def policy_written_Inr replace_tenant_role_policy_def bindr_Inr_iff Let_def)
  have "filter (\<lambda>r. trp_tenant_id r \<noteq> Some tn) (build_tenant_role_entries (Some tn) (py_upper role) (pr_allow p) (pr_deny p)) = []"
    by (rule no_rows) (auto simp: build_tenant_role_entries_def)
  then have "policy_rows (\<lambda>t. t \<noteq> Some tn) db' = policy_rows (\<lambda>t. t \<noteq> Some tn) db"
    by (auto simp: db' policy_rows_def replace_tenant_role_policies_def intro!: filter_cong)
  moreover have "allowed_codes db' \<subseteq> allowed_codes db \<union> set (pr_allow p)"
    by (auto simp: db' allowed_codes_def replace_tenant_role_policies_def build_tenant_role_entries_def)
  ultimately show ?thesis using c by (auto simp: within_tenant_def db' replace_tenant_role_policies_def)
qed

lemma store_body_within:
  assumes "store_policy_body env store_id role p tn db = Inr (db', after)" and "enforce_ceiling env"
  shows "within_tenant tn db db'"
proof -
  have c: "set (pr_allow p) \<subseteq> tenant_admin_ceiling db (Some tn)"
    and db': "db' = replace_store_role_policies tn store_id (py_upper role)
      (build_store_role_entries tn store_id (py_upper role) (pr_allow p) (pr_deny p)) db"
    using assms ceiling_kept
    by (auto simp: store_policy_body_def policy_written_Inr Access_Policies.replace_store_role_policy_def bindr_Inr_iff Let_def)
  have "filter (\<lambda>r. srp_tenant_id r \<noteq> tn) (build_store_role_entries tn store_id (py_upper role) (pr_allow p) (pr_deny p)) = []"
    by (rule no_rows) (auto simp: build_store_role_entries_def)
  then have "policy_rows (\<lambda>t. t \<noteq> Some tn) db' = policy_rows (\<lambda>t. t \<noteq> Some tn) db"
    by (auto simp: db' policy_rows_def replace_store_role_policies_def intro!: filter_cong)
  moreover have "allowed_codes db' \<subseteq> allowed_codes db \<union> set (pr_allow p)"
    by (auto simp: db' allowed_codes_def replace_store_role_policies_def build_store_role_entries_def)
  ultimately show ?thesis using c by (auto simp: within_tenant_def db' replace_store_role_policies_def)
qed

lemma overrides_within:
  assumes "replace_user_overrides db tn user_id allow deny True = Inr (before, after, db')"
  shows "within_tenant tn db db'"
proof -
  have c: "set allow \<subseteq> tenant_admin_ceiling db (Some tn)"
    and db': "db' = replace_user_override_rows tn user_id (build_user_override_entries tn user_id allow deny) db"
    using assms ceiling_kept by (auto simp: replace_user_overrides_def bindr_Inr_iff Let_def)
  have "filter (\<lambda>r. upo_tenant_id r \<noteq> tn) (build_user_override_entries tn user_id allow deny) = []"
    by (rule no_rows) (auto simp: build_user_override_entries_def)
  then have "policy_rows (\<lambda>t. t \<noteq> Some tn) db' = policy_rows (\<lambda>t. t \<noteq> Some tn) db"
    by (auto simp: db' policy_rows_def replace_user_override_rows_def intro!: filter_cong)
  moreover have "allowed_codes db' \<subseteq> allowed_codes db \<union> set allow"
    by (auto simp: db' allowed_codes_def replace_user_override_rows_def build_user_override_entries_def)
  ultimately show ?thesis using c by (auto simp: within_tenant_def db' replace_user_override_rows_def)
qed

lemma overrides_body_within:
  assumes "user_overrides_body env user_id p tn db = Inr (db', after)" and "enforce_ceiling env"
  shows "within_tenant tn db db'"
  using assms overrides_within by (auto simp: user_overrides_body_def policy_written_Inr)

lemma patch_body_within:
  assumes "patch_overrides_body env user_id p tn db = Inr (db', after)" and "enforce_ceiling env"
  shows "within_tenant tn db db'"
  using assms overrides_within by (auto simp: patch_overrides_body_def Let_def policy_written_Inr)

lemma own_effective_tenant:
  assumes "effective_tenant td t = Inr tn" and "\<not> is_superadmin (Some (td_role td))"
  shows "td_tenant_id td = Some tn"
  using assms by (auto simp: effective_tenant_def Let_def tenant_id_or_error_def bindr_Inr_iff falsy_def split: if_splits option.splits)

lemma own_tenant_or_error: "tenant_id_or_error td = Inr tn \<Longrightarrow> td_tenant_id td = Some tn"
  by (auto simp: tenant_id_or_error_def falsy_def split: if_splits option.splits)


section \<open>An example\<close>

definition admin_token :: token_data where
  "admin_token = demo_token\<lparr>td_store_id := None, td_role := ''ADMIN''\<rparr>"

definition policy_admin :: user where
  "policy_admin = \<lparr>us_id = ''u1'', us_tenant_id = ''t1'', us_store_id = None, us_username = ''n'', us_email = ''e'',
     us_role = ''ADMIN'', us_status = ''ACTIVE'', us_must_change_password = False, us_is_active = True\<rparr>"

definition policy_env :: request_env where
  "policy_env = \<lparr>rq_token = admin_token, rq_context = require_request_context admin_token ''trace'',
     rq_directory = \<lparr>tenants = [\<lparr>tn_id = ''t1'', tn_name = ''T'', tn_status = ''active''\<rparr>], stores = [], users = [policy_admin]\<rparr>,
     rq_ac = demo_ac, rq_cache = [], rq_path = ''p'', rq_method = ''PUT'', rq_key = Some ''k'',
     rq_legacy_key = None, rq_hash = ''h'', rq_now = 0, rq_fresh = (\<lambda>i. replicate i CHR ''f'')\<rparr>"

definition policy_demo :: policy_request where
  "policy_demo = \<lparr>pr_allow = [], pr_deny = [''TRANSFER_VIEW''], pr_transaction_id = Some ''tx''\<rparr>"

abbreviation demo_policy_change :: "reply \<times> idem_table \<times> ac_db" where
  "demo_policy_change \<equiv>
     admin_replace_tenant_role_policy (\<lambda>e. []) (\<lambda>s. []) policy_env ''user'' policy_demo ([], demo_ac)"

lemma demo_policy_changed: "demo_policy_change = (fst demo_policy_change, snd demo_policy_change)"
  by simp

lemma demo_policy_denied:
  "list_tenant_role_policies (snd (snd demo_policy_change)) (Some ''t1'') ''USER''
    = [\<lparr>trp_tenant_id = Some ''t1'', trp_role_name = ''USER'', trp_permission_code = ''TRANSFER_VIEW'', trp_effect = ''deny''\<rparr>]"
  by code_simp


end
