(* ===== verification/Platform_Model.thy ===== *)
theory Platform_Model
  imports Access_Routes Stock_Intake Transfer_Model
begin

text \<open>
  The platform as its administration sees it: the tenants, stores and accounts with their columns, the
  tables of every component that hold rows of a tenant, a store or a user, and the foreign keys among
  them (\<^verbatim>\<open>db/models.py\<close>). The database refuses a statement
  that leaves a reference to a row that is gone; the code deletes what refers before what is referred to, so
  one check at the commit decides the same. The tables of the AI intake are left out.
\<close>

section \<open>Rows\<close>

record tenant_row = tenant +
  tw_created_at :: time

record store_row = store +
  sw_created_at :: time

record account = user +
  ac_hashed_password :: string
  ac_created_at :: time

record variant_settings =
  vs_tenant_id :: uuid
  vs_var1_label :: "string option"
  vs_var2_label :: "string option"
  vs_created_at :: time
  vs_updated_at :: "time option"

record policy_settings = return_policy +
  pv_tenant_id :: uuid
  pv_updated_at :: "time option"

text \<open>Of an export only what selects it.\<close>

record export_record =
  xr_id :: uuid
  xr_tenant_id :: uuid
  xr_store_id :: uuid

record audit_event =
  au_tenant_id :: uuid
  au_user_id :: "uuid option"
  au_store_id :: "uuid option"
  au_actor :: string
  au_action :: string
  au_entity_type :: string
  au_entity_id :: uuid
  au_counts :: "(string \<times> int) list"
  au_result :: string

record purge_lock =
  lk_resource_type :: string
  lk_resource_id :: uuid

record platform_db =
  pf_tenants :: "tenant_row list"
  pf_stores :: "store_row list"
  pf_accounts :: "account list"
  pf_ac :: ac_db
  pf_policies :: "policy_settings list"
  pf_variants :: "variant_settings list"
  pf_stock :: "stock_item list"
  pf_tags :: "epc_assignment list"
  pf_images :: "sku_image list"
  pf_preload_sessions :: "preload_session list"
  pf_preload_lines :: "preload_line list"
  pf_products :: "catalog_product list"
  pf_costs :: "cost_history list"
  pf_transfers :: "transfer list"
  pf_transfer_lines :: "transfer_line list"
  pf_transfer_movements :: "transfer_movement list"
  pf_sales :: "pos_sale list"
  pf_sale_lines :: "sale_line list"
  pf_payments :: "pos_payment list"
  pf_returns :: "return_event list"
  pf_cash_sessions :: "cash_session list"
  pf_cash_movements :: "cash_movement list"
  pf_day_closes :: "day_close list"
  pf_advances :: "pos_advance list"
  pf_advance_events :: "advance_event list"
  pf_exports :: "export_record list"
  pf_audit :: "audit_event list"
  pf_locks :: "purge_lock list"

text \<open>What the checks of a request read.\<close>

definition directory_of :: "platform_db \<Rightarrow> directory" where
  "directory_of db = \<lparr>tenants = map tenant.truncate (pf_tenants db), stores = map store.truncate (pf_stores db),
     users = map user.truncate (pf_accounts db)\<rparr>"

definition at_db :: "request_env \<Rightarrow> platform_db \<Rightarrow> request_env" where
  "at_db env db = env\<lparr>rq_directory := directory_of db, rq_ac := pf_ac db\<rparr>"

lemma at_db_simps [simp]:
  "rq_token (at_db env db) = rq_token env" "rq_context (at_db env db) = rq_context env"
  "rq_directory (at_db env db) = directory_of db" "rq_ac (at_db env db) = pf_ac db"
  "rq_now (at_db env db) = rq_now env" "rq_fresh (at_db env db) = rq_fresh env" "rq_cache (at_db env db) = rq_cache env"
  "rq_key (at_db env db) = rq_key env" "rq_legacy_key (at_db env db) = rq_legacy_key env"
  by (simp_all add: at_db_def)

section \<open>Foreign keys\<close>

definition refers :: "uuid option \<Rightarrow> uuid list \<Rightarrow> bool" where
  "refers x ids = (case x of None \<Rightarrow> True | Some i \<Rightarrow> i \<in> set ids)"

definition tenant_ids :: "platform_db \<Rightarrow> uuid list" where "tenant_ids db = map tn_id (pf_tenants db)"
definition store_ids :: "platform_db \<Rightarrow> uuid list" where "store_ids db = map st_id (pf_stores db)"
definition account_ids :: "platform_db \<Rightarrow> uuid list" where "account_ids db = map us_id (pf_accounts db)"

text \<open>\<^verbatim>\<open>fk_users_tenant_store\<close>: the store of a user is one of the user's tenant.\<close>

definition account_refs :: "platform_db \<Rightarrow> account \<Rightarrow> bool" where
  "account_refs db u \<longleftrightarrow> us_tenant_id u \<in> set (tenant_ids db)
    \<and> (case us_store_id u of None \<Rightarrow> True
       | Some s \<Rightarrow> (us_tenant_id u, s) \<in> set (map (\<lambda>s. (st_tenant_id s, st_id s)) (pf_stores db)))"

definition people_refs :: "platform_db \<Rightarrow> bool" where
  "people_refs db \<longleftrightarrow> list_all (\<lambda>s. st_tenant_id s \<in> set (tenant_ids db)) (pf_stores db)
    \<and> list_all (account_refs db) (pf_accounts db)"

definition policy_refs :: "platform_db \<Rightarrow> bool" where
  "policy_refs db \<longleftrightarrow> list_all (\<lambda>r. refers (rt_tenant_id r) (tenant_ids db)) (role_templates (pf_ac db))
    \<and> list_all (\<lambda>r. rtp_role_template_id r \<in> set (map rt_id (role_templates (pf_ac db)))) (role_template_permissions (pf_ac db))
    \<and> list_all (\<lambda>r. refers (trp_tenant_id r) (tenant_ids db)) (tenant_role_policies (pf_ac db))
    \<and> list_all (\<lambda>r. srp_tenant_id r \<in> set (tenant_ids db) \<and> srp_store_id r \<in> set (store_ids db)) (store_role_policies (pf_ac db))
    \<and> list_all (\<lambda>r. upo_tenant_id r \<in> set (tenant_ids db) \<and> upo_user_id r \<in> set (account_ids db)) (user_overrides (pf_ac db))
    \<and> list_all (\<lambda>r. pv_tenant_id r \<in> set (tenant_ids db)) (pf_policies db)
    \<and> list_all (\<lambda>r. vs_tenant_id r \<in> set (tenant_ids db)) (pf_variants db)"

definition stock_refs :: "platform_db \<Rightarrow> bool" where
  "stock_refs db \<longleftrightarrow> list_all (\<lambda>r. si_tenant_id r \<in> set (tenant_ids db) \<and> refers (si_store_id r) (store_ids db)
      \<and> refers (si_catalog_product_id r) (map cp_id (pf_products db))) (pf_stock db)
    \<and> list_all (\<lambda>r. ea_tenant_id r \<in> set (tenant_ids db) \<and> refers (ea_store_id r) (store_ids db)) (pf_tags db)
    \<and> list_all (\<lambda>r. im_tenant_id r \<in> set (tenant_ids db)) (pf_images db)
    \<and> list_all (\<lambda>r. ps_tenant_id r \<in> set (tenant_ids db) \<and> refers (ps_store_id r) (store_ids db)
      \<and> refers (ps_created_by_user_id r) (account_ids db)) (pf_preload_sessions db)
    \<and> list_all (\<lambda>r. pl_preload_session_id r \<in> set (map ps_id (pf_preload_sessions db)) \<and> pl_tenant_id r \<in> set (tenant_ids db)
      \<and> refers (pl_store_id r) (store_ids db) \<and> refers (pl_catalog_product_id r) (map cp_id (pf_products db))
      \<and> refers (pl_saved_stock_item_id r) (map si_id (pf_stock db))) (pf_preload_lines db)
    \<and> list_all (\<lambda>r. cp_tenant_id r \<in> set (tenant_ids db)) (pf_products db)
    \<and> list_all (\<lambda>r. ch_tenant_id r \<in> set (tenant_ids db) \<and> ch_catalog_product_id r \<in> set (map cp_id (pf_products db))
      \<and> refers (ch_preload_session_id r) (map ps_id (pf_preload_sessions db))
      \<and> refers (ch_preload_line_id r) (map pl_id (pf_preload_lines db))
      \<and> refers (ch_created_by_user_id r) (account_ids db)) (pf_costs db)"

definition transfer_refs :: "platform_db \<Rightarrow> bool" where
  "transfer_refs db \<longleftrightarrow> list_all (\<lambda>r. tr_tenant_id r \<in> set (tenant_ids db) \<and> tr_origin_store_id r \<in> set (store_ids db)
      \<and> tr_destination_store_id r \<in> set (store_ids db) \<and> refers (tr_created_by_user_id r) (account_ids db)
      \<and> refers (tr_updated_by_user_id r) (account_ids db) \<and> refers (tr_dispatched_by_user_id r) (account_ids db)
      \<and> refers (tr_canceled_by_user_id r) (account_ids db)) (pf_transfers db)
    \<and> list_all (\<lambda>r. tl_transfer_id r \<in> set (map tr_id (pf_transfers db)) \<and> tl_tenant_id r \<in> set (tenant_ids db)) (pf_transfer_lines db)
    \<and> list_all (\<lambda>r. tm_tenant_id r \<in> set (tenant_ids db) \<and> tm_transfer_id r \<in> set (map tr_id (pf_transfers db))
      \<and> tm_transfer_line_id r \<in> set (map tl_id (pf_transfer_lines db))) (pf_transfer_movements db)"

text \<open>The tables of the point of sale have no reference to tenants or stores.\<close>

definition advance_refs :: "platform_db \<Rightarrow> bool" where
  "advance_refs db \<longleftrightarrow> list_all (\<lambda>r. refers (pa_issued_cash_movement_id r) (map cm_id (pf_cash_movements db))
      \<and> refers (pa_refunded_cash_movement_id r) (map cm_id (pf_cash_movements db))
      \<and> refers (pa_consumed_sale_id r) (map sl_id (pf_sales db))
      \<and> refers (pa_created_by_user_id r) (account_ids db)) (pf_advances db)
    \<and> list_all (\<lambda>r. ae_advance_id r \<in> set (map pa_id (pf_advances db))
      \<and> refers (ae_created_by_user_id r) (account_ids db)) (pf_advance_events db)"

definition references_ok :: "platform_db \<Rightarrow> bool" where
  "references_ok db \<longleftrightarrow> people_refs db \<and> policy_refs db \<and> stock_refs db \<and> transfer_refs db \<and> advance_refs db"

section \<open>Unique constraints of the directory\<close>

definition accounts_unique :: "account list \<Rightarrow> bool" where
  "accounts_unique us \<longleftrightarrow> distinct (map us_id us) \<and> distinct (map (\<lambda>u. (us_tenant_id u, us_username u)) us)
    \<and> distinct (map (\<lambda>u. (us_tenant_id u, us_email u)) us)"

definition stores_unique :: "store_row list \<Rightarrow> bool" where
  "stores_unique ss \<longleftrightarrow> distinct (map st_id ss) \<and> distinct (map (\<lambda>s. (st_tenant_id s, st_name s)) ss)"

definition tenants_unique :: "tenant_row list \<Rightarrow> bool" where
  "tenants_unique ts \<longleftrightarrow> distinct (map tn_id ts) \<and> distinct (map tn_name ts)"

text \<open>A commit: what violates a constraint is an error nobody handles.\<close>

definition commit_platform :: "platform_db \<Rightarrow> platform_db res" where
  "commit_platform db =
    bindr (require (accounts_unique (pf_accounts db) \<and> stores_unique (pf_stores db) \<and> tenants_unique (pf_tenants db)
      \<and> references_ok db) (raise0 INTERNAL_ERROR)) (\<lambda>_. Inr db)"

definition platform_ok :: "platform_db \<Rightarrow> bool" where
  "platform_ok db \<longleftrightarrow> accounts_unique (pf_accounts db) \<and> stores_unique (pf_stores db) \<and> tenants_unique (pf_tenants db)
    \<and> references_ok db"

lemma commit_platform_Inr: "commit_platform db = Inr db' \<longleftrightarrow> db' = db \<and> platform_ok db"
  by (auto simp: commit_platform_def platform_ok_def bindr_Inr_iff require_Inr_iff)

end
