(* ===== verification/Admin_Accounts.thy ===== *)
theory Admin_Accounts
  imports Platform_Model Sql_Text
begin

text \<open>
  Accounts: the user routes of \<^verbatim>\<open>routers/admin.py\<close>, with \<^verbatim>\<open>repos/users.py\<close>. Passwords are checked and then
  hashed by a library (\<open>hash\<close>); the characters a temporary password is drawn from are the values of
  \<^verbatim>\<open>secrets.choice\<close> (\<open>choice\<close>). An \<^verbatim>\<open>HTTPException\<close> of status 404 or 409 is the catalogue's error of that
  status.
\<close>

section \<open>Passwords\<close>

definition is_alpha :: "char \<Rightarrow> bool" where
  "is_alpha c \<longleftrightarrow> 65 \<le> (of_char c :: nat) \<and> (of_char c :: nat) \<le> 90 \<or> 97 \<le> (of_char c :: nat) \<and> (of_char c :: nat) \<le> 122"

definition is_password_digit :: "char \<Rightarrow> bool" where
  "is_password_digit c \<longleftrightarrow> 48 \<le> (of_char c :: nat) \<and> (of_char c :: nat) \<le> 57"

definition validate_password :: "string \<Rightarrow> unit res" where
  "validate_password password =
    bindr (require (\<not> length password < 8) (raise0 PASSWORD_TOO_SHORT)) (\<lambda>_.
    require (list_ex is_alpha password \<and> list_ex is_password_digit password) (raise0 PASSWORD_COMPLEXITY))"

text \<open>\<^verbatim>\<open>while True\<close>: twelve characters are drawn until they make a password; \<open>None\<close> is a loop that never ends.\<close>

definition drawn_password :: "(nat \<Rightarrow> char) \<Rightarrow> nat \<Rightarrow> string" where
  "drawn_password choice k = map choice [12 * k..<12 * k + 12]"

partial_function (option) generate_from :: "(nat \<Rightarrow> char) \<Rightarrow> nat \<Rightarrow> string option" where
  "generate_from choice k = (case validate_password (drawn_password choice k) of
     Inl e \<Rightarrow> generate_from choice (Suc k) | Inr u \<Rightarrow> Some (drawn_password choice k))"

definition generate_temporary_password :: "(nat \<Rightarrow> char) \<Rightarrow> string option" where
  "generate_temporary_password choice = generate_from choice 0"

section \<open>Rows and replies\<close>

definition canonical_status :: "string \<Rightarrow> string" where
  "canonical_status v = (let n = py_upper (py_strip v) in if n \<in> {''ACTIVE'', ''SUSPENDED'', ''CANCELED''} then n else v)"

record user_item = user +
  uo_created_at :: time

definition user_item_of :: "account \<Rightarrow> user_item" where
  "user_item_of u = \<lparr>us_id = us_id u, us_tenant_id = us_tenant_id u, us_store_id = us_store_id u, us_username = us_username u,
     us_email = us_email u, us_role = us_role u, us_status = canonical_status (us_status u),
     us_must_change_password = us_must_change_password u, us_is_active = us_is_active u, uo_created_at = ac_created_at u\<rparr>"

definition account_in_tenant :: "platform_db \<Rightarrow> uuid \<Rightarrow> uuid \<Rightarrow> account option" where
  "account_in_tenant db i t = find (\<lambda>u. us_id u = i \<and> us_tenant_id u = t) (pf_accounts db)"

definition set_account :: "account \<Rightarrow> platform_db \<Rightarrow> platform_db" where
  "set_account a db = db\<lparr>pf_accounts := map (\<lambda>x. if us_id x = us_id a then a else x) (pf_accounts db)\<rparr>"

section \<open>Roles\<close>

definition effective_keys :: "request_env \<Rightarrow> string set" where
  "effective_keys env = (case build_effective_permissions_with_trace (rq_ac env) [] (rq_cache env) (rq_context env) (Some (rq_token env)) of
     (ds, tr, c) \<Rightarrow> set (map pd_key (filter pd_allowed ds)))"

text \<open>Nobody assigns a platform role, only a superadmin the role ADMIN, and nobody else a role that may do
  what he may not.\<close>

definition ensure_role_assignment_allowed :: "request_env \<Rightarrow> string \<Rightarrow> string res" where
  "ensure_role_assignment_allowed env desired =
    (let td = rq_token env; normalized = py_upper (py_strip desired) in
     bindr (require (\<not> is_superadmin (Some normalized)) (raise0 PERMISSION_DENIED)) (\<lambda>_.
     bindr (require (normalized = ''ADMIN'' \<longrightarrow> is_superadmin (Some (td_role td))) (raise0 PERMISSION_DENIED)) (\<lambda>_.
     bindr (if is_superadmin (Some (td_role td)) then Inr ()
            else let tenant = py_or (rc_tenant_id (rq_context env)) (td_tenant_id td)
              in require (allowed_permissions (rq_ac env) normalized tenant \<subseteq> effective_keys env)
                (raise1 PERMISSION_DENIED ''Role ceiling exceeded'')) (\<lambda>_.
     Inr normalized))))"

definition is_store_bound_actor :: "token_data \<Rightarrow> bool" where
  "is_store_bound_actor td \<longleftrightarrow> py_upper (td_role td) \<in> {''MANAGER'', ''USER''} \<and> \<not> falsy (td_store_id td)"

section \<open>Queries\<close>

record user_query =
  uq_tenant_id :: "string option"
  uq_store_id :: "string option"
  uq_role :: "string option"
  uq_status :: "string option"
  uq_is_active :: "bool option"
  uq_search :: "string option"
  uq_limit :: nat
  uq_offset :: nat
  uq_sort_by :: string
  uq_sort_order :: string

definition validate_sort :: "string \<Rightarrow> string list \<Rightarrow> string option res" where
  "validate_sort sort_by allowed = (case normalize_optional_str (Some sort_by) of
     None \<Rightarrow> Inr None
   | Some x \<Rightarrow> bindr (require (x \<in> set allowed) (raise1 VALIDATION_ERROR ''sort_by is not allowed'')) (\<lambda>_. Inr (Some x)))"

text \<open>The tenant of a listing: a superadmin who names none sees all.\<close>

definition listed_tenant :: "token_data \<Rightarrow> string option \<Rightarrow> uuid option res" where
  "listed_tenant td tenant_id =
    (let requested = normalize_optional_str tenant_id
     in if is_superadmin (Some (td_role td)) then Inr requested
        else bindr (tenant_id_or_error td) (\<lambda>own.
          bindr (require (requested = None \<or> requested = Some own) (raise0 CROSS_TENANT_ACCESS_DENIED)) (\<lambda>_. Inr (Some own))))"

definition user_listed :: "uuid option \<Rightarrow> uuid option \<Rightarrow> user_query \<Rightarrow> account \<Rightarrow> bool" where
  "user_listed tn sid q u \<longleftrightarrow> (tn = None \<or> tn = Some (us_tenant_id u))
    \<and> (falsy sid \<or> us_store_id u = sid)
    \<and> (case normalize_optional_str (uq_role q) of None \<Rightarrow> True | Some r \<Rightarrow> py_upper (us_role u) = py_upper r)
    \<and> (case normalize_optional_str (uq_status q) of None \<Rightarrow> True | Some s \<Rightarrow> py_upper (us_status u) = py_upper s)
    \<and> (case uq_is_active q of None \<Rightarrow> True | Some b \<Rightarrow> us_is_active u = b)
    \<and> (case normalize_optional_str (uq_search q) of None \<Rightarrow> True
       | Some x \<Rightarrow> contains_term x (us_username u) \<or> contains_term x (us_email u))"

definition list_users ::
    "(string \<Rightarrow> bool \<Rightarrow> account list \<Rightarrow> account list) \<Rightarrow> request_env \<Rightarrow> user_query \<Rightarrow> platform_db \<Rightarrow> (user_item list \<times> int) res" where
  "list_users order_by env0 q db =
    (let env = at_db env0 db; td = rq_token env in
     bindr (permitted_user env ''USER_MANAGE'') (\<lambda>_.
     bindr (listed_tenant td (uq_tenant_id q)) (\<lambda>tn.
     let bound = (if is_store_bound_actor td then td_store_id td else None);
         requested = normalize_optional_str (uq_store_id q)
     in bindr (require (falsy bound \<or> requested = None \<or> requested = bound) (raise0 STORE_SCOPE_MISMATCH)) (\<lambda>_.
     bindr (case normalize_optional_str (uq_role q) of None \<Rightarrow> Inr ()
        | Some r \<Rightarrow> require (py_upper r \<in> {''USER'', ''MANAGER'', ''ADMIN'', ''SUPERADMIN'', ''PLATFORM_ADMIN''})
            (raise1 VALIDATION_ERROR ''role is not allowed'')) (\<lambda>_.
     bindr (case normalize_optional_str (uq_status q) of None \<Rightarrow> Inr ()
        | Some s \<Rightarrow> require (py_upper s \<in> {''ACTIVE'', ''SUSPENDED'', ''CANCELED''})
            (raise1 VALIDATION_ERROR ''status is not allowed'')) (\<lambda>_.
     bindr (validate_sort (uq_sort_by q) [''created_at'', ''username'', ''email'']) (\<lambda>sort_by.
     let rows = filter (user_listed tn (py_or bound requested) q) (pf_accounts db);
         sorted = order_by (case sort_by of None \<Rightarrow> ''username'' | Some x \<Rightarrow> x) (uq_sort_order q = ''asc'') rows
     in Inr (map user_item_of (take (uq_limit q) (drop (uq_offset q) sorted)), int (length rows)))))))))"

definition get_user_item :: "request_env \<Rightarrow> string option \<Rightarrow> uuid \<Rightarrow> platform_db \<Rightarrow> user_item res" where
  "get_user_item env0 tenant_id user_id db =
    (let env = at_db env0 db in
     bindr (permitted_user env ''USER_MANAGE'') (\<lambda>_.
     bindr (effective_tenant (rq_token env) tenant_id) (\<lambda>tn.
     (case account_in_tenant db user_id tn of
        None \<Rightarrow> Inl (raise0 CROSS_TENANT_ACCESS_DENIED)
      | Some u \<Rightarrow> Inr (user_item_of u)))))"

section \<open>Creation\<close>

record user_create =
  uc_username :: string
  uc_email :: string
  uc_password :: string
  uc_role :: string
  uc_tenant_id :: "string option"
  uc_store_id :: uuid

definition create_user_before :: "request_env \<Rightarrow> user_create \<Rightarrow> platform_db \<Rightarrow> (uuid \<times> store_row) res" where
  "create_user_before env p db =
    bindr (permitted_user env ''USER_MANAGE'') (\<lambda>_.
    (case find (\<lambda>s. st_id s = uc_store_id p) (pf_stores db) of
       None \<Rightarrow> Inl (raise0 STORE_NOT_FOUND)
     | Some s \<Rightarrow>
         let requested = normalize_optional_str (uc_tenant_id p); own = normalize_optional_str (td_tenant_id (rq_token env)) in
         bindr (require (requested = None \<or> requested = Some (st_tenant_id s))
           (raise1 VALIDATION_ERROR ''tenant_id does not match store tenant'')) (\<lambda>_.
         bindr (if is_superadmin (Some (td_role (rq_token env))) then Inr ()
            else bindr (require (own \<noteq> None) (raise0 TENANT_SCOPE_REQUIRED)) (\<lambda>_.
              require (own = Some (st_tenant_id s)) (raise0 TENANT_STORE_MISMATCH))) (\<lambda>_.
         bindr (idempotency_tenant env (Some (case own of None \<Rightarrow> ''platform'' | Some t \<Rightarrow> t)) (\<lambda>_. own \<noteq> None)) (\<lambda>t.
         Inr (t, s))))))"

definition new_account :: "(string \<Rightarrow> string) \<Rightarrow> request_env \<Rightarrow> user_create \<Rightarrow> store_row \<Rightarrow> string \<Rightarrow> account" where
  "new_account hash env p s role = \<lparr>us_id = rq_fresh env 0, us_tenant_id = st_tenant_id s, us_store_id = Some (uc_store_id p),
     us_username = uc_username p, us_email = uc_email p, us_role = role, us_status = ''ACTIVE'', us_must_change_password = True,
     us_is_active = True, ac_hashed_password = hash (uc_password p), ac_created_at = rq_now env\<rparr>"

definition create_user_body ::
    "(string \<Rightarrow> string) \<Rightarrow> request_env \<Rightarrow> user_create \<Rightarrow> store_row \<Rightarrow> platform_db \<Rightarrow> (platform_db \<times> user_item) res" where
  "create_user_body hash env p s db =
    bindr (validate_password (uc_password p)) (\<lambda>_.
    bindr (ensure_role_assignment_allowed env (uc_role p)) (\<lambda>role.
    let a = new_account hash env p s role in
    bindr (commit_platform (db\<lparr>pf_accounts := pf_accounts db @ [a]\<rparr>)) (\<lambda>db'. Inr (db', user_item_of a))))"

definition create_user ::
    "(app_error \<Rightarrow> string) \<Rightarrow> (user_item \<Rightarrow> string) \<Rightarrow> (string \<Rightarrow> string) \<Rightarrow> request_env \<Rightarrow> user_create
      \<Rightarrow> idem_table \<times> platform_db \<Rightarrow> reply \<times> idem_table \<times> platform_db" where
  "create_user dump_err dump hash env p =
    guarded_endpoint env dump_err (\<lambda>db. create_user_before (at_db env db) p db)
      (\<lambda>_ s db. replying 201 dump (create_user_body hash (at_db env db) p s db))"

section \<open>Changes\<close>

record user_update =
  uu_username :: "string option"
  uu_email :: "string option"
  uu_store_id :: "string option"

definition update_user_before ::
    "request_env \<Rightarrow> string option \<Rightarrow> uuid \<Rightarrow> user_update \<Rightarrow> platform_db \<Rightarrow> (uuid \<times> account) res" where
  "update_user_before env tenant_id user_id p db =
    bindr (permitted_user env ''USER_MANAGE'') (\<lambda>_.
    bindr (effective_tenant (rq_token env) tenant_id) (\<lambda>tn.
    (case account_in_tenant db user_id tn of
       None \<Rightarrow> Inl (raise0 CROSS_TENANT_ACCESS_DENIED)
     | Some a \<Rightarrow>
         bindr (require (uu_username p \<noteq> None \<or> uu_email p \<noteq> None \<or> uu_store_id p \<noteq> None)
           (raise1 VALIDATION_ERROR ''At least one field must be provided'')) (\<lambda>_.
         bindr (require (falsy (uu_store_id p)
             \<or> list_ex (\<lambda>s. Some (st_id s) = uu_store_id p \<and> st_tenant_id s = tn) (pf_stores db))
           (raise0 TENANT_STORE_MISMATCH)) (\<lambda>_.
         bindr (idempotency_tenant env tenant_id (\<lambda>x. x = tn)) (\<lambda>t. Inr (t, a)))))))"

definition updated_account :: "user_update \<Rightarrow> account \<Rightarrow> account" where
  "updated_account p a = a\<lparr>us_username := (case uu_username p of None \<Rightarrow> us_username a | Some x \<Rightarrow> x),
     us_email := (case uu_email p of None \<Rightarrow> us_email a | Some x \<Rightarrow> x),
     us_store_id := (case uu_store_id p of None \<Rightarrow> us_store_id a | Some x \<Rightarrow> Some x)\<rparr>"

definition update_user_body :: "user_update \<Rightarrow> account \<Rightarrow> platform_db \<Rightarrow> (platform_db \<times> user_item) res" where
  "update_user_body p a db =
    bindr (commit_platform (set_account (updated_account p a) db)) (\<lambda>db'. Inr (db', user_item_of (updated_account p a)))"

definition update_user ::
    "(app_error \<Rightarrow> string) \<Rightarrow> (user_item \<Rightarrow> string) \<Rightarrow> request_env \<Rightarrow> string option \<Rightarrow> uuid \<Rightarrow> user_update
      \<Rightarrow> idem_table \<times> platform_db \<Rightarrow> reply \<times> idem_table \<times> platform_db" where
  "update_user dump_err dump env tenant_id user_id p =
    guarded_endpoint env dump_err (\<lambda>db. update_user_before (at_db env db) tenant_id user_id p db)
      (\<lambda>_ a db. replying 200 dump (update_user_body p a db))"

section \<open>Actions\<close>

record user_action_request =
  ua_action :: string
  ua_status :: "string option"
  ua_role :: "string option"
  ua_temporary_password :: "string option"
  ua_transaction_id :: "string option"

definition user_action_before ::
    "request_env \<Rightarrow> uuid \<Rightarrow> user_action_request \<Rightarrow> platform_db \<Rightarrow> (uuid \<times> account) res" where
  "user_action_before env user_id p db =
    bindr (permitted_user env ''USER_MANAGE'') (\<lambda>_.
    bindr (if is_superadmin (Some (td_role (rq_token env))) then
         (case find (\<lambda>u. us_id u = user_id) (pf_accounts db) of
            None \<Rightarrow> Inl (raise0 CROSS_TENANT_ACCESS_DENIED) | Some a \<Rightarrow> Inr (us_tenant_id a, a))
       else bindr (tenant_id_or_error (rq_token env)) (\<lambda>tn.
         (case account_in_tenant db user_id tn of
            None \<Rightarrow> Inl (raise0 CROSS_TENANT_ACCESS_DENIED)
          | Some a \<Rightarrow> bindr (if is_store_bound_actor (rq_token env)
                then enforce_user_store_scope (rq_token env) (user.truncate a) else Inr ()) (\<lambda>_. Inr (tn, a))))) (\<lambda>ta.
    bindr (require_transaction_id (ua_transaction_id p)) (\<lambda>_. Inr ta)))"

definition status_change :: "string \<Rightarrow> account \<Rightarrow> account" where
  "status_change status a = (let n = py_upper status in
     if n = ''ACTIVE'' then a\<lparr>us_status := ''ACTIVE'', us_is_active := True\<rparr>
     else if n = ''SUSPENDED'' then a\<lparr>us_status := ''SUSPENDED'', us_is_active := False\<rparr>
     else a\<lparr>us_status := ''CANCELED'', us_is_active := False\<rparr>)"

text \<open>The account after the action, and the password it was given. Drawing one that never ends answers
  nothing and changes nothing.\<close>

definition user_action_change ::
    "(string \<Rightarrow> string) \<Rightarrow> (nat \<Rightarrow> char) \<Rightarrow> request_env \<Rightarrow> user_action_request \<Rightarrow> account \<Rightarrow> (account \<times> string option) res" where
  "user_action_change hash choice env p a =
    (if ua_action p = ''set_status'' then
       (case ua_status p of
          None \<Rightarrow> Inl (raise1 VALIDATION_ERROR ''status is required for set_status'')
        | Some s \<Rightarrow> Inr (status_change s a, None))
     else if ua_action p = ''set_role'' then
       (case ua_role p of
          None \<Rightarrow> Inl (raise1 VALIDATION_ERROR ''role is required for set_role'')
        | Some r \<Rightarrow> bindr (ensure_role_assignment_allowed env r) (\<lambda>role. Inr (a\<lparr>us_role := role\<rparr>, None)))
     else if ua_action p = ''reset_password'' then
       (case (if falsy (ua_temporary_password p) then generate_temporary_password choice else ua_temporary_password p) of
          None \<Rightarrow> Inl (raise0 INTERNAL_ERROR)
        | Some t \<Rightarrow> bindr (validate_password t) (\<lambda>_.
            Inr (a\<lparr>ac_hashed_password := hash t, us_must_change_password := True\<rparr>, Some t)))
     else Inl (raise1 VALIDATION_ERROR ''Unsupported action''))"

definition user_action_body ::
    "(string \<Rightarrow> string) \<Rightarrow> (nat \<Rightarrow> char) \<Rightarrow> request_env \<Rightarrow> user_action_request \<Rightarrow> account \<Rightarrow> platform_db
      \<Rightarrow> (platform_db \<times> user_item \<times> string option) res" where
  "user_action_body hash choice env p a db =
    bindr (user_action_change hash choice env p a) (\<lambda>(a', t).
    bindr (commit_platform (set_account a' db)) (\<lambda>db'. Inr (db', user_item_of a', t)))"

definition user_actions ::
    "(app_error \<Rightarrow> string) \<Rightarrow> (user_item \<times> string option \<Rightarrow> string) \<Rightarrow> (string \<Rightarrow> string) \<Rightarrow> (nat \<Rightarrow> char) \<Rightarrow> request_env \<Rightarrow> uuid
      \<Rightarrow> user_action_request \<Rightarrow> idem_table \<times> platform_db \<Rightarrow> reply \<times> idem_table \<times> platform_db" where
  "user_actions dump_err dump hash choice env user_id p =
    guarded_endpoint env dump_err (\<lambda>db. user_action_before (at_db env db) user_id p db)
      (\<lambda>_ a db. replying 200 dump (user_action_body hash choice (at_db env db) p a db))"

section \<open>Deletion\<close>

definition did_something :: "uuid \<Rightarrow> transfer \<Rightarrow> bool" where
  "did_something uid t \<longleftrightarrow> Some uid \<in> {tr_created_by_user_id t, tr_updated_by_user_id t, tr_dispatched_by_user_id t, tr_canceled_by_user_id t}"

definition delete_user_before :: "request_env \<Rightarrow> (uuid \<times> user) res" where
  "delete_user_before env =
    bindr (require_active_user (rq_directory env) (rq_token env)) (\<lambda>u.
    bindr (require (is_superadmin (Some (td_role (rq_token env)))) (raise0 PERMISSION_DENIED)) (\<lambda>_.
    bindr (idempotency_tenant env (py_or (td_tenant_id (rq_token env)) (Some ''platform'')) (\<lambda>_. \<not> falsy (td_tenant_id (rq_token env)))) (\<lambda>t.
    Inr (t, u))))"

definition delete_user_body :: "uuid \<Rightarrow> platform_db \<Rightarrow> (platform_db \<times> unit) res" where
  "delete_user_body uid db =
    bindr (require (list_ex (\<lambda>u. us_id u = uid) (pf_accounts db)) (raise1 RESOURCE_NOT_FOUND ''User not found'')) (\<lambda>_.
    bindr (require (\<not> list_ex (did_something uid) (pf_transfers db)) (raise1 BUSINESS_CONFLICT ''Resource conflict'')) (\<lambda>_.
    bindr (commit_platform (db\<lparr>pf_ac := (pf_ac db)\<lparr>user_overrides := filter (\<lambda>r. upo_user_id r \<noteq> uid) (user_overrides (pf_ac db))\<rparr>,
        pf_accounts := filter (\<lambda>u. us_id u \<noteq> uid) (pf_accounts db)\<rparr>)) (\<lambda>db'. Inr (db', ()))))"

definition delete_user ::
    "(app_error \<Rightarrow> string) \<Rightarrow> (unit \<Rightarrow> string) \<Rightarrow> request_env \<Rightarrow> uuid
      \<Rightarrow> idem_table \<times> platform_db \<Rightarrow> reply \<times> idem_table \<times> platform_db" where
  "delete_user dump_err dump env uid =
    guarded_endpoint env dump_err (\<lambda>db. delete_user_before (at_db env db)) (\<lambda>_ u db. replying 200 dump (delete_user_body uid db))"

end
