(* ===== verification/Account_Properties.thy ===== *)
theory Account_Properties
  imports Admin_Accounts
begin

text \<open>
  What the routes of accounts do: who may give which role, what a suspension shuts out, and when the
  drawing of a password ends.
\<close>

section \<open>Passwords\<close>

lemma drawn_length: "length (drawn_password choice k) = 12"
  by (simp add: drawn_password_def)

lemma generate_from_Some:
  assumes "generate_from choice k = Some p"
  shows "\<exists>j \<ge> k. p = drawn_password choice j \<and> validate_password p = Inr ()"
proof (rule generate_from.raw_induct [where P = "\<lambda>choice k p. \<exists>j \<ge> k. p = drawn_password choice j \<and> validate_password p = Inr ()",
      OF _ assms])
  fix f choice k y
  assume ih: "\<And>choice k y. f choice k = Some y \<Longrightarrow> \<exists>j \<ge> k. y = drawn_password choice j \<and> validate_password y = Inr ()"
    and run: "(case validate_password (drawn_password choice k) of Inl e \<Rightarrow> f choice (Suc k) | Inr u \<Rightarrow> Some (drawn_password choice k)) = Some y"
  show "\<exists>j \<ge> k. y = drawn_password choice j \<and> validate_password y = Inr ()"
  proof (cases "validate_password (drawn_password choice k)")
    case (Inl e)
    then have "\<exists>j \<ge> Suc k. y = drawn_password choice j \<and> validate_password y = Inr ()" using run by (intro ih) simp
    then show ?thesis using Suc_leD by blast
  next
    case (Inr u)
    then show ?thesis using run by auto
  qed
qed

lemma generate_from_returns:
  assumes "validate_password (drawn_password choice (k + n)) = Inr ()"
  shows "\<exists>p. generate_from choice k = Some p"
  using assms
proof (induction n arbitrary: k)
  case 0
  then show ?case by (subst generate_from.simps) simp
next
  case (Suc n)
  then show ?case
    by (subst generate_from.simps) (cases "validate_password (drawn_password choice k)"; simp)
qed

text \<open>The loop that draws a temporary password ends exactly when some twelve of the characters drawn make a
  password, and what it returns is one of those drawn and is accepted.\<close>

theorem temporary_password_drawn:
  shows "(generate_temporary_password choice = None) = (\<forall>k. validate_password (drawn_password choice k) \<noteq> Inr ())
    \<and> (case generate_temporary_password choice of None \<Rightarrow> True
       | Some p \<Rightarrow> length p = 12 \<and> p \<in> range (drawn_password choice) \<and> validate_password p = Inr ())"
proof (cases "generate_temporary_password choice")
  case None
  then show ?thesis using generate_from_returns [of choice 0] by (auto simp: generate_temporary_password_def)
next
  case (Some p)
  obtain j where "p = drawn_password choice j" "validate_password p = Inr ()"
    using generate_from_Some Some unfolding generate_temporary_password_def by blast
  then show ?thesis using Some by (auto simp: drawn_length)
qed

section \<open>The routes as steps\<close>

inductive account_step :: "request_env \<Rightarrow> platform_db \<Rightarrow> platform_db \<Rightarrow> bool" where
  Created: "create_user dump_err dump hash env p w = (rep, w') \<Longrightarrow> account_step env (snd w) (snd w')"
| Updated: "update_user dump_err dump env tenant_id user_id u w = (rep, w') \<Longrightarrow> account_step env (snd w) (snd w')"
| Acted: "user_actions dump_err dump' hash choice env user_id r w = (rep, w') \<Longrightarrow> account_step env (snd w) (snd w')"
| Deleted: "delete_user dump_err dump'' env user_id w = (rep, w') \<Longrightarrow> account_step env (snd w) (snd w')"

text \<open>What a step that changes something is, request by request.\<close>

lemma account_step_cases:
  assumes "account_step env db db'"
  obtains (none) "db' = db"
  | (create) hash p t s i where "create_user_before (at_db env db) p db = Inr (t, s)"
      "create_user_body hash (at_db env db) p s db = Inr (db', i)"
  | (update) tenant_id user_id u t a i where "update_user_before (at_db env db) tenant_id user_id u db = Inr (t, a)"
      "update_user_body u a db = Inr (db', i)"
  | (act) hash choice user_id r t a i where "user_action_before (at_db env db) user_id r db = Inr (t, a)"
      "user_action_body hash choice (at_db env db) r a db = Inr (db', i)"
  | (delete) user_id t v where "delete_user_before (at_db env db) = Inr (t, v)" "delete_user_body user_id db = Inr (db', ())"
  using assms
proof cases
  case (Created dump_err dump hash p w rep w')
  from guarded_endpoint_rows [OF Created(3) [unfolded create_user_def]] show ?thesis
    using none create Created(1,2) by (auto dest!: replaying_Inr)
next
  case (Updated dump_err dump tenant_id user_id u w rep w')
  from guarded_endpoint_rows [OF Updated(3) [unfolded update_user_def]] show ?thesis
    using none update Updated(1,2) by (auto dest!: replaying_Inr)
next
  case (Acted dump_err dump' hash choice user_id r w rep w')
  from guarded_endpoint_rows [OF Acted(3) [unfolded user_actions_def]] show ?thesis
    using none act Acted(1,2) by (auto dest!: replaying_Inr)
next
  case (Deleted dump_err dump'' user_id w rep w')
  from guarded_endpoint_rows [OF Deleted(3) [unfolded delete_user_def]] show ?thesis
    using none delete Deleted(1,2) by (auto dest!: replaying_Inr)
qed

section \<open>Who may give which role\<close>

definition own_tenants :: "token_data \<Rightarrow> uuid set" where
  "own_tenants td = {t. td_tenant_id td = Some t \<or> normalize_optional_str (td_tenant_id td) = Some t}"

definition assignable :: "request_env \<Rightarrow> platform_db \<Rightarrow> string \<Rightarrow> bool" where
  "assignable env db role \<longleftrightarrow> \<not> is_superadmin (Some role) \<and> role \<noteq> ''ADMIN''
    \<and> allowed_permissions (pf_ac db) role (py_or (rc_tenant_id (rq_context env)) (td_tenant_id (rq_token env)))
        \<subseteq> effective_keys (at_db env db)"

lemma assigned_assignable:
  assumes "ensure_role_assignment_allowed (at_db env db) r = Inr role" and "\<not> is_superadmin (Some (td_role (rq_token env)))"
  shows "assignable env db role"
  using assms by (auto simp: ensure_role_assignment_allowed_def assignable_def Let_def bindr_Inr_iff require_Inr_iff)

text \<open>The accounts after one of the tenant was set or added.\<close>

definition accounts_within :: "request_env \<Rightarrow> platform_db \<Rightarrow> uuid \<Rightarrow> platform_db \<Rightarrow> bool" where
  "accounts_within env db tn db' \<longleftrightarrow>
    filter (\<lambda>a. us_tenant_id a \<noteq> tn) (pf_accounts db') = filter (\<lambda>a. us_tenant_id a \<noteq> tn) (pf_accounts db)
    \<and> db'\<lparr>pf_accounts := pf_accounts db\<rparr> = db
    \<and> us_id ` set (pf_accounts db) \<subseteq> us_id ` set (pf_accounts db')
    \<and> (\<forall>a \<in> set (pf_accounts db'). assignable env db (us_role a)
        \<or> (\<exists>b \<in> set (pf_accounts db). us_id b = us_id a \<and> us_role b = us_role a))"

lemma set_account_id_list: "map us_id (pf_accounts (set_account a db)) = map us_id (pf_accounts db)"
  by (simp add: set_account_def comp_def if_distrib cong: if_cong)

lemma set_account_ids [simp]: "us_id ` set (pf_accounts (set_account a db)) = us_id ` set (pf_accounts db)"
  using arg_cong [OF set_account_id_list, of set] by simp

lemma filter_other_accounts:
  assumes "distinct (map f xs)" and "x \<in> set xs" and "f y = f x" and "P x = False" and "P y = False"
  shows "filter P (map (\<lambda>z. if f z = f y then y else z) xs) = filter P xs"
  using assms
proof (induction xs)
  case (Cons z zs)
  then show ?case
  proof (cases "z = x")
    case True
    then have "f w \<noteq> f y" if "w \<in> set zs" for w using Cons.prems that by (metis distinct.simps(2) imageI list.set_map list.simps(9))
    then have "map (\<lambda>z. if f z = f y then y else z) zs = zs" by (simp add: map_idI)
    then show ?thesis using True Cons.prems by simp
  next
    case False
    then have "x \<in> set zs" and "f z \<noteq> f x" using Cons.prems by auto
    then show ?thesis using Cons by auto
  qed
qed simp

lemma set_account_within:
  assumes "platform_ok (set_account a' db)" and "a \<in> set (pf_accounts db)" and "us_id a' = us_id a"
    and "us_tenant_id a = tn" and "us_tenant_id a' = tn"
    and "us_role a' = us_role a \<or> assignable env db (us_role a')"
  shows "accounts_within env db tn (set_account a' db)"
proof -
  have d: "distinct (map us_id (pf_accounts db))"
    using assms(1) by (simp add: platform_ok_def accounts_unique_def set_account_id_list)
  have "filter (\<lambda>b. us_tenant_id b \<noteq> tn) (pf_accounts (set_account a' db)) = filter (\<lambda>b. us_tenant_id b \<noteq> tn) (pf_accounts db)"
    using filter_other_accounts [OF d assms(2,3)] assms(4,5) by (simp add: set_account_def)
  moreover have "assignable env db (us_role b) \<or> (\<exists>c \<in> set (pf_accounts db). us_id c = us_id b \<and> us_role c = us_role b)"
    if "b \<in> set (pf_accounts (set_account a' db))" for b
  proof (cases "b = a'")
    case True
    then show ?thesis using assms(2,3,6) by auto
  next
    case False
    then show ?thesis using that by (auto simp: set_account_def split: if_splits)
  qed
  moreover have "(set_account a' db)\<lparr>pf_accounts := pf_accounts db\<rparr> = db" by (simp add: set_account_def)
  ultimately show ?thesis by (simp add: accounts_within_def)
qed

lemma account_in_tenant_Some:
  "account_in_tenant db i t = Some a \<Longrightarrow> a \<in> set (pf_accounts db) \<and> us_tenant_id a = t"
  unfolding account_in_tenant_def by (drule find_SomeD) simp

lemma added_within:
  assumes "us_tenant_id a = tn" and "assignable env db (us_role a)"
  shows "accounts_within env db tn (db\<lparr>pf_accounts := pf_accounts db @ [a]\<rparr>)"
  using assms by (auto simp: accounts_within_def)

lemma action_change_kept:
  assumes "user_action_change hash choice (at_db env db) r a = Inr (a', t)" and "\<not> is_superadmin (Some (td_role (rq_token env)))"
  shows "us_id a' = us_id a \<and> us_tenant_id a' = us_tenant_id a \<and> (us_role a' = us_role a \<or> assignable env db (us_role a'))"
  using assms assigned_assignable [of env db]
  by (auto simp: user_action_change_def status_change_def Let_def bindr_Inr_iff split: if_splits option.splits)

text \<open>C35: A user route called by somebody who is not a superadmin changes nothing but accounts, none of another
  tenant, deletes none, and gives no role but one that is neither a platform role nor ADMIN and may
  do nothing that the caller may not.\<close>

theorem account_roles_capped:
  assumes "account_step env db db'" and "\<not> is_superadmin (Some (td_role (rq_token env)))"
  shows "db' = db \<or> (\<exists>tn \<in> own_tenants (rq_token env). accounts_within env db tn db')"
  using assms(1)
proof (cases rule: account_step_cases)
  case none
  then show ?thesis ..
next
  case (create hash p t s i)
  have "st_tenant_id s \<in> own_tenants (rq_token env)"
    using create(1) assms(2) by (auto simp: create_user_before_def Let_def bindr_Inr_iff require_Inr_iff own_tenants_def split: option.splits)
  moreover have "accounts_within env db (st_tenant_id s) db'"
    using create(2) assms(2)
    by (auto simp: create_user_body_def Let_def bindr_Inr_iff commit_platform_Inr new_account_def
        intro!: added_within intro: assigned_assignable)
  ultimately show ?thesis by blast
next
  case (update tenant_id user_id u t a i)
  obtain tn where "effective_tenant (rq_token env) tenant_id = Inr tn" and a: "account_in_tenant db user_id tn = Some a"
    using update(1) by (auto simp: update_user_before_def bindr_Inr_iff split: option.splits)
  then have "tn \<in> own_tenants (rq_token env)" using own_effective_tenant [OF _ assms(2)] by (simp add: own_tenants_def)
  moreover have "accounts_within env db tn db'"
    using update(2) account_in_tenant_Some [OF a]
    by (auto simp: update_user_body_def bindr_Inr_iff commit_platform_Inr updated_account_def intro!: set_account_within [where a = a])
  ultimately show ?thesis by blast
next
  case (act hash choice user_id r t a i)
  obtain tn where "tenant_id_or_error (rq_token env) = Inr tn" and a: "account_in_tenant db user_id tn = Some a"
    using act(1) assms(2) by (auto simp: user_action_before_def bindr_Inr_iff split: option.splits if_splits)
  then have "tn \<in> own_tenants (rq_token env)" using own_tenant_or_error by (simp add: own_tenants_def)
  moreover obtain a' tp where c: "user_action_change hash choice (at_db env db) r a = Inr (a', tp)"
      and d: "db' = set_account a' db" and ok: "platform_ok (set_account a' db)"
    using act(2) by (auto simp: user_action_body_def bindr_Inr_iff commit_platform_Inr)
  have "accounts_within env db tn db'"
    unfolding d using account_in_tenant_Some [OF a] action_change_kept [OF c assms(2)] by (intro set_account_within [OF ok, where a = a]) auto
  ultimately show ?thesis by blast
next
  case (delete user_id t v)
  then show ?thesis using assms(2) by (auto simp: delete_user_before_def bindr_Inr_iff require_Inr_iff)
qed

section \<open>Suspended accounts\<close>

definition account_ok :: "account \<Rightarrow> bool" where
  "account_ok a \<longleftrightarrow> us_status a \<in> {''ACTIVE'', ''SUSPENDED'', ''CANCELED''} \<and> (us_is_active a \<longleftrightarrow> us_status a = ''ACTIVE'')"

inductive account_run :: "platform_db \<Rightarrow> platform_db \<Rightarrow> bool" where
  Run_start: "account_run db db"
| Run_step: "account_run db db' \<Longrightarrow> account_step env db' db'' \<Longrightarrow> account_run db db''"

lemma set_account_ok:
  "list_all account_ok (pf_accounts db) \<Longrightarrow> account_ok a \<Longrightarrow> list_all account_ok (pf_accounts (set_account a db))"
  by (auto simp: set_account_def list_all_iff)

lemma action_change_ok:
  assumes "user_action_change hash choice env r a = Inr (a', t)" and "account_ok a"
  shows "account_ok a'"
  using assms by (auto simp: user_action_change_def status_change_def account_ok_def Let_def bindr_Inr_iff split: if_splits option.splits)

lemma acted_account:
  "user_action_before env uid r db = Inr (t, a) \<Longrightarrow> a \<in> set (pf_accounts db) \<and> us_id a = uid"
  by (auto simp: user_action_before_def bindr_Inr_iff account_in_tenant_def dest!: find_SomeD split: if_splits option.splits)

lemma account_step_ok:
  assumes "account_step env db db'" and "list_all account_ok (pf_accounts db)"
  shows "list_all account_ok (pf_accounts db')"
  using assms(1)
proof (cases rule: account_step_cases)
  case (create hash p t s i)
  then show ?thesis using assms(2)
    by (auto simp: create_user_body_def Let_def bindr_Inr_iff commit_platform_Inr new_account_def account_ok_def list_all_iff)
next
  case (update tenant_id user_id u t a i)
  then have "a \<in> set (pf_accounts db)"
    using account_in_tenant_Some by (auto simp: update_user_before_def bindr_Inr_iff split: option.splits)
  then have "account_ok (updated_account u a)" using assms(2) by (simp add: list_all_iff updated_account_def account_ok_def)
  then show ?thesis using update(2) set_account_ok [OF assms(2)] by (auto simp: update_user_body_def bindr_Inr_iff commit_platform_Inr)
next
  case (act hash choice user_id r t a i)
  have "account_ok a" using acted_account [OF act(1)] assms(2) by (simp add: list_all_iff)
  then show ?thesis using act(2) action_change_ok set_account_ok [OF assms(2)]
    by (fastforce simp: user_action_body_def bindr_Inr_iff commit_platform_Inr)
next
  case (delete user_id t v)
  then show ?thesis using assms(2) by (auto simp: delete_user_body_def bindr_Inr_iff commit_platform_Inr list_all_iff)
qed (use assms(2) in simp)

theorem account_status_kept:
  assumes "account_run db db'" and "list_all account_ok (pf_accounts db)"
  shows "list_all account_ok (pf_accounts db')"
  using assms by induction (auto intro: account_step_ok)

lemma active_account:
  assumes "require_active_user (directory_of db) td = Inr u"
  shows "\<exists>a \<in> set (pf_accounts db). us_id a = td_sub td \<and> us_is_active a"
proof -
  obtain x where x: "find (\<lambda>u. us_id u = td_sub td) (map user.truncate (pf_accounts db)) = Some x" "us_is_active x"
    using assms by (auto simp: require_active_user_def get_current_user_def ensure_user_can_authenticate_def directory_of_def
        evaluate_auth_eligibility_def bindr_Inr_iff Let_def split: if_splits option.splits)
  obtain a where "a \<in> set (pf_accounts db)" "x = user.truncate a" "us_id x = td_sub td" using find_SomeD [OF x(1)] by auto
  then show ?thesis using x(2) by (intro bexI [of _ a]) (simp_all add: user.defs)
qed

text \<open>An action that suspends or cancels an account shuts its user out of every route that asks for an active
  user: no token of his passes that check, whatever tenant, store or role it names.\<close>

theorem suspended_locked_out:
  assumes "user_actions dump_err dump hash choice env uid p (tb, db) = (rep, (tb', db'))" and "db' \<noteq> db"
    and "ua_action p = ''set_status''" and "ua_status p = Some s" and "py_upper s \<noteq> ''ACTIVE''" and "td_sub td = uid"
  shows "isl (require_active_user (directory_of db') td)"
proof -
  obtain t a i where "user_action_before (at_db env db) uid p db = Inr (t, a)"
      and body: "user_action_body hash choice (at_db env db) p a db = Inr (db', i)"
    using guarded_endpoint_rows [OF assms(1) [unfolded user_actions_def]] assms(2) by (auto dest!: replaying_Inr)
  then have id: "us_id a = uid" using acted_account by blast
  have db': "db' = set_account (status_change s a) db"
    using body assms(3,4) by (auto simp: user_action_body_def user_action_change_def bindr_Inr_iff commit_platform_Inr)
  have "\<not> us_is_active b" if "b \<in> set (pf_accounts db')" "us_id b = uid" for b
    using that assms(5) id unfolding db' by (auto simp: set_account_def status_change_def Let_def split: if_splits)
  then show ?thesis
    using active_account [of db' td] assms(6) by (cases "require_active_user (directory_of db') td") auto
qed

section \<open>An example\<close>

text \<open>A manager of accounts and a user of his tenant.\<close>

definition managed_account :: "uuid \<Rightarrow> string \<Rightarrow> string \<Rightarrow> account" where
  "managed_account i n role = \<lparr>us_id = i, us_tenant_id = ''t1'', us_store_id = Some ''s1'', us_username = n, us_email = n,
     us_role = role, us_status = ''ACTIVE'', us_must_change_password = False, us_is_active = True,
     ac_hashed_password = ''h'', ac_created_at = 0\<rparr>"

definition account_ac :: ac_db where
  "account_ac = \<lparr>catalog = [\<lparr>pc_id = ''p1'', pc_code = ''USER_MANAGE''\<rparr>],
     role_templates = [\<lparr>rt_id = ''r1'', rt_tenant_id = None, rt_name = ''MANAGER''\<rparr>],
     role_template_permissions = [\<lparr>rtp_role_template_id = ''r1'', rtp_permission_id = ''p1''\<rparr>],
     tenant_role_policies = [], store_role_policies = [], user_overrides = []\<rparr>"

definition account_world :: platform_db where
  "account_world = \<lparr>
     pf_tenants = [\<lparr>tn_id = ''t1'', tn_name = ''A'', tn_status = ''ACTIVE'', tw_created_at = 0\<rparr>],
     pf_stores = [\<lparr>st_id = ''s1'', st_tenant_id = ''t1'', st_name = ''S'', sw_created_at = 0\<rparr>],
     pf_accounts = [managed_account ''u1'' ''m'' ''MANAGER'', managed_account ''u2'' ''n'' ''USER''],
     pf_ac = account_ac, pf_policies = [], pf_variants = [], pf_stock = [], pf_tags = [], pf_images = [], pf_preload_sessions = [],
     pf_preload_lines = [], pf_products = [], pf_costs = [], pf_transfers = [], pf_transfer_lines = [],
     pf_transfer_movements = [], pf_sales = [], pf_sale_lines = [], pf_payments = [], pf_returns = [],
     pf_cash_sessions = [], pf_cash_movements = [], pf_day_closes = [], pf_advances = [], pf_advance_events = [],
     pf_exports = [], pf_audit = [], pf_locks = []\<rparr>"

definition manager_token :: token_data where
  "manager_token = demo_token\<lparr>td_role := ''MANAGER''\<rparr>"

definition user_token :: token_data where
  "user_token = demo_token\<lparr>td_sub := ''u2'', td_role := ''USER''\<rparr>"

definition account_env :: request_env where
  "account_env = \<lparr>rq_token = manager_token, rq_context = require_request_context manager_token ''trace'',
     rq_directory = directory_of account_world, rq_ac = account_ac, rq_cache = [], rq_path = ''p'', rq_method = ''POST'',
     rq_key = Some ''k'', rq_legacy_key = None, rq_hash = ''h'', rq_now = 0, rq_fresh = (\<lambda>i. replicate i CHR ''f'')\<rparr>"

definition promotion :: user_action_request where
  "promotion = \<lparr>ua_action = ''set_role'', ua_status = None, ua_role = Some ''manager'', ua_temporary_password = None,
     ua_transaction_id = Some ''tx''\<rparr>"

definition suspension :: user_action_request where
  "suspension = \<lparr>ua_action = ''set_status'', ua_status = Some ''suspended'', ua_role = None, ua_temporary_password = None,
     ua_transaction_id = Some ''tx''\<rparr>"

abbreviation demo_act :: "user_action_request \<Rightarrow> reply \<times> idem_table \<times> platform_db" where
  "demo_act p \<equiv> user_actions (\<lambda>e. []) (\<lambda>i. []) (\<lambda>s. s) (\<lambda>i. CHR ''c'') account_env ''u2'' p ([], account_world)"

lemma demo_acted:
  "demo_act p = (fst (demo_act p), fst (snd (demo_act p)), snd (snd (demo_act p)))"
  by simp

lemma demo_account_results:
  "map us_role (pf_accounts (snd (snd (demo_act promotion)))) = [''MANAGER'', ''MANAGER'']"
  "map us_role (pf_accounts account_world) = [''MANAGER'', ''USER'']"
  "map us_status (pf_accounts (snd (snd (demo_act suspension)))) = [''ACTIVE'', ''SUSPENDED'']"
  "map us_status (pf_accounts account_world) = [''ACTIVE'', ''ACTIVE'']"
  by code_simp+

theorem account_roles_capped_witness:
  "accounts_within account_env account_world ''t1'' (snd (snd (demo_act promotion)))
    \<and> map us_role (pf_accounts (snd (snd (demo_act promotion)))) = [''MANAGER'', ''MANAGER'']"
proof -
  have "account_step account_env account_world (snd (snd (demo_act promotion)))"
    using account_step.Acted [OF demo_acted] by simp
  moreover have "\<not> is_superadmin (Some (td_role (rq_token account_env)))" by code_simp
  moreover have "td_tenant_id (rq_token account_env) = Some ''t1''" "normalize_optional_str (Some ''t1'') = Some ''t1''" by code_simp+
  moreover have "snd (snd (demo_act promotion)) \<noteq> account_world" using demo_account_results(1,2) by force
  ultimately show ?thesis
    using account_roles_capped [of account_env account_world "snd (snd (demo_act promotion))"] demo_account_results(1)
    by (auto simp: own_tenants_def)
qed

theorem suspended_locked_out_witness:
  "isl (require_active_user (directory_of (snd (snd (demo_act suspension)))) user_token)
    \<and> \<not> isl (require_active_user (directory_of account_world) user_token)"
proof
  show "isl (require_active_user (directory_of (snd (snd (demo_act suspension)))) user_token)"
  proof (rule suspended_locked_out [OF demo_acted])
    show "snd (snd (demo_act suspension)) \<noteq> account_world" using demo_account_results(3,4) by force
    show "ua_action suspension = ''set_status''" "ua_status suspension = Some ''suspended''" by (simp_all add: suspension_def)
    show "py_upper ''suspended'' \<noteq> ''ACTIVE''" by code_simp
    show "td_sub user_token = ''u2''" by (simp add: user_token_def)
  qed
  show "\<not> isl (require_active_user (directory_of account_world) user_token)" by code_simp
qed

end
