(* ===== verification/Platform_Purge.thy ===== *)
theory Platform_Purge
  imports Platform_Model
begin

text \<open>
  Purges and wipes: \<^verbatim>\<open>services/tenant_purge.py\<close>, \<^verbatim>\<open>services/content_wipe.py\<close> and their routes of
  \<^verbatim>\<open>routers/admin.py\<close>. A purge removes a tenant, a store or a user with what hangs on it, a wipe the
  operational content only; a dry run counts. An execution that fails leaves the tables as they were;
  its audit event is not kept here. The deletion of image files is a parameter; the option
  of a wipe that also deletes the tenant's idempotency records is left out, and a count that was not asked for
  is 0.
\<close>

section \<open>Deleting from tables\<close>

type_synonym counts = "(string \<times> int) list"

definition count_where :: "('a \<Rightarrow> bool) \<Rightarrow> 'a list \<Rightarrow> int" where
  "count_where P xs = int (length (filter P xs))"

text \<open>A table under its name: how many of its rows are selected, and the database without them.\<close>

type_synonym table = "string \<times> (platform_db \<Rightarrow> int) \<times> (platform_db \<Rightarrow> platform_db)"

definition table_of ::
    "string \<Rightarrow> (platform_db \<Rightarrow> 'a list) \<Rightarrow> (('a list \<Rightarrow> 'a list) \<Rightarrow> platform_db \<Rightarrow> platform_db) \<Rightarrow> ('a \<Rightarrow> bool) \<Rightarrow> table" where
  "table_of name rows update P = (name, \<lambda>db. count_where P (rows db), update (filter (\<lambda>r. \<not> P r)))"

definition counts_of :: "table list \<Rightarrow> platform_db \<Rightarrow> counts" where
  "counts_of ts db = map (\<lambda>(name, count, delete). (name, count db)) ts"

fun delete_in_order :: "table list \<Rightarrow> platform_db \<Rightarrow> counts \<times> platform_db" where
  "delete_in_order [] db = ([], db)"
| "delete_in_order ((name, count, delete) # ts) db =
    (let (cs, db') = delete_in_order ts (delete db) in ((name, count db) # cs, db'))"

text \<open>The tables of policies.\<close>

definition upd_overrides :: "(user_permission_override list \<Rightarrow> user_permission_override list) \<Rightarrow> platform_db \<Rightarrow> platform_db" where
  "upd_overrides f db = db\<lparr>pf_ac := (pf_ac db)\<lparr>user_overrides := f (user_overrides (pf_ac db))\<rparr>\<rparr>"

definition upd_store_policies :: "(store_role_policy list \<Rightarrow> store_role_policy list) \<Rightarrow> platform_db \<Rightarrow> platform_db" where
  "upd_store_policies f db = db\<lparr>pf_ac := (pf_ac db)\<lparr>store_role_policies := f (store_role_policies (pf_ac db))\<rparr>\<rparr>"

definition upd_tenant_policies :: "(tenant_role_policy list \<Rightarrow> tenant_role_policy list) \<Rightarrow> platform_db \<Rightarrow> platform_db" where
  "upd_tenant_policies f db = db\<lparr>pf_ac := (pf_ac db)\<lparr>tenant_role_policies := f (tenant_role_policies (pf_ac db))\<rparr>\<rparr>"

section \<open>Tenants\<close>

text \<open>\<^verbatim>\<open>TENANT_PURGE_ORDER\<close> without its last entry.\<close>

definition TENANT_PURGE_ORDER :: "uuid \<Rightarrow> table list" where
  "TENANT_PURGE_ORDER tn =
    [table_of ''transfer_movements'' pf_transfer_movements pf_transfer_movements_update (\<lambda>r. tm_tenant_id r = tn),
     table_of ''transfer_lines'' pf_transfer_lines pf_transfer_lines_update (\<lambda>r. tl_tenant_id r = tn),
     table_of ''transfers'' pf_transfers pf_transfers_update (\<lambda>r. tr_tenant_id r = tn),
     table_of ''sale_lines'' pf_sale_lines pf_sale_lines_update (\<lambda>r. ln_tenant_id r = tn),
     table_of ''payments'' pf_payments pf_payments_update (\<lambda>r. pp_tenant_id r = tn),
     table_of ''returns'' pf_returns pf_returns_update (\<lambda>r. re_tenant_id r = tn),
     table_of ''sales'' pf_sales pf_sales_update (\<lambda>r. sl_tenant_id r = tn),
     table_of ''cash_movements'' pf_cash_movements pf_cash_movements_update (\<lambda>r. cm_tenant_id r = tn),
     table_of ''cash_sessions'' pf_cash_sessions pf_cash_sessions_update (\<lambda>r. cs_tenant_id r = tn),
     table_of ''cash_day_closes'' pf_day_closes pf_day_closes_update (\<lambda>r. dc_tenant_id r = tn),
     table_of ''exports'' pf_exports pf_exports_update (\<lambda>r. xr_tenant_id r = tn),
     table_of ''stock_items'' pf_stock pf_stock_update (\<lambda>r. si_tenant_id r = tn),
     table_of ''user_permission_overrides'' (\<lambda>db. user_overrides (pf_ac db)) upd_overrides (\<lambda>r. upo_tenant_id r = tn),
     table_of ''store_role_policies'' (\<lambda>db. store_role_policies (pf_ac db)) upd_store_policies (\<lambda>r. srp_tenant_id r = tn),
     table_of ''tenant_role_policies'' (\<lambda>db. tenant_role_policies (pf_ac db)) upd_tenant_policies (\<lambda>r. trp_tenant_id r = Some tn),
     table_of ''users'' pf_accounts pf_accounts_update (\<lambda>r. us_tenant_id r = tn),
     table_of ''stores'' pf_stores pf_stores_update (\<lambda>r. st_tenant_id r = tn)]"

definition tenant_counts :: "uuid \<Rightarrow> platform_db \<Rightarrow> counts" where
  "tenant_counts tn db = counts_of (TENANT_PURGE_ORDER tn) db @ [(''tenants'', 1)]"

definition delete_templates :: "uuid \<Rightarrow> ac_db \<Rightarrow> ac_db" where
  "delete_templates tn ac = (let ids = map rt_id (filter (\<lambda>t. rt_tenant_id t = Some tn) (role_templates ac))
     in ac\<lparr>role_template_permissions := filter (\<lambda>r. rtp_role_template_id r \<notin> set ids) (role_template_permissions ac),
          role_templates := filter (\<lambda>t. rt_id t \<notin> set ids) (role_templates ac)\<rparr>)"

text \<open>The audit events of the purge itself are kept.\<close>

definition purge_actions :: "string \<Rightarrow> string list" where
  "purge_actions resource = map (\<lambda>s. ''admin.'' @ resource @ ''.purge.'' @ s) [''started'', ''completed'', ''failed'']"

definition delete_audit :: "(audit_event \<Rightarrow> bool) \<Rightarrow> string \<Rightarrow> bool \<Rightarrow> platform_db \<Rightarrow> platform_db" where
  "delete_audit P resource preserve db = (if preserve then db
     else db\<lparr>pf_audit := filter (\<lambda>e. \<not> (P e \<and> au_action e \<notin> set (purge_actions resource))) (pf_audit db)\<rparr>)"

definition delete_tenant_in_order :: "uuid \<Rightarrow> bool \<Rightarrow> platform_db \<Rightarrow> counts \<times> platform_db" where
  "delete_tenant_in_order tn preserve db =
    (let (cs, db1) = delete_in_order (TENANT_PURGE_ORDER tn) db;
         db2 = db1\<lparr>pf_ac := delete_templates tn (pf_ac db1),
           pf_variants := filter (\<lambda>v. vs_tenant_id v \<noteq> tn) (pf_variants db1),
           pf_policies := filter (\<lambda>p. pv_tenant_id p \<noteq> tn) (pf_policies db1)\<rparr>;
         db3 = delete_audit (\<lambda>e. au_tenant_id e = tn) ''tenant'' preserve db2;
         (c, db4) = delete_in_order [table_of ''tenants'' pf_tenants pf_tenants_update (\<lambda>t. tn_id t = tn)] db3
     in (cs @ c, db4))"

section \<open>Stores\<close>

definition touches_store :: "uuid \<Rightarrow> transfer \<Rightarrow> bool" where
  "touches_store sid t \<longleftrightarrow> tr_origin_store_id t = sid \<or> tr_destination_store_id t = sid"

definition store_transfer_ids :: "uuid \<Rightarrow> platform_db \<Rightarrow> uuid list" where
  "store_transfer_ids sid db = map tr_id (filter (touches_store sid) (pf_transfers db))"

definition store_sale_ids :: "uuid \<Rightarrow> platform_db \<Rightarrow> uuid list" where
  "store_sale_ids sid db = map sl_id (filter (\<lambda>s. sl_store_id s = sid) (pf_sales db))"

definition store_user_ids :: "uuid \<Rightarrow> platform_db \<Rightarrow> uuid list" where
  "store_user_ids sid db = map us_id (filter (\<lambda>u. us_store_id u = Some sid) (pf_accounts db))"

text \<open>The content of a store, in the order of its deletion, given what was read before.\<close>

definition STORE_CONTENT :: "uuid \<Rightarrow> uuid list \<Rightarrow> uuid list \<Rightarrow> table list" where
  "STORE_CONTENT sid tids sids =
    [table_of ''transfer_movements'' pf_transfer_movements pf_transfer_movements_update (\<lambda>r. tm_transfer_id r \<in> set tids),
     table_of ''transfer_lines'' pf_transfer_lines pf_transfer_lines_update (\<lambda>r. tl_transfer_id r \<in> set tids),
     table_of ''transfers'' pf_transfers pf_transfers_update (\<lambda>r. tr_id r \<in> set tids),
     table_of ''payments'' pf_payments pf_payments_update (\<lambda>r. pp_sale_id r \<in> set sids),
     table_of ''sale_lines'' pf_sale_lines pf_sale_lines_update (\<lambda>r. ln_sale_id r \<in> set sids),
     table_of ''returns'' pf_returns pf_returns_update (\<lambda>r. re_store_id r = sid),
     table_of ''sales'' pf_sales pf_sales_update (\<lambda>r. sl_store_id r = sid),
     table_of ''cash_day_closes'' pf_day_closes pf_day_closes_update (\<lambda>r. dc_store_id r = sid),
     table_of ''cash_movements'' pf_cash_movements pf_cash_movements_update (\<lambda>r. cm_store_id r = sid),
     table_of ''cash_sessions'' pf_cash_sessions pf_cash_sessions_update (\<lambda>r. cs_store_id r = sid),
     table_of ''exports'' pf_exports pf_exports_update (\<lambda>r. xr_store_id r = sid)]"

definition STORE_PURGE_ORDER :: "uuid \<Rightarrow> uuid list \<Rightarrow> uuid list \<Rightarrow> table list" where
  "STORE_PURGE_ORDER sid tids sids = STORE_CONTENT sid tids sids @
    [table_of ''store_role_policies'' (\<lambda>db. store_role_policies (pf_ac db)) upd_store_policies (\<lambda>r. srp_store_id r = sid),
     table_of ''stock_items'' pf_stock pf_stock_update (\<lambda>r. si_store_id r = Some sid)]"

definition STORE_USERS :: "uuid list \<Rightarrow> table list" where
  "STORE_USERS uids =
    [table_of ''user_permission_overrides'' (\<lambda>db. user_overrides (pf_ac db)) upd_overrides (\<lambda>r. upo_user_id r \<in> set uids),
     table_of ''users'' pf_accounts pf_accounts_update (\<lambda>r. us_id r \<in> set uids)]"

definition store_counts :: "uuid \<Rightarrow> platform_db \<Rightarrow> counts" where
  "store_counts sid db = counts_of (STORE_PURGE_ORDER sid (store_transfer_ids sid db) (store_sale_ids sid db)
     @ STORE_USERS (store_user_ids sid db)) db @ [(''stores'', 1)]"

section \<open>Users\<close>

text \<open>\<^verbatim>\<open>_nullify_transfer_actor_refs_for_users\<close>: a transfer forgets who did what to it.\<close>

definition named :: "uuid list \<Rightarrow> uuid option \<Rightarrow> bool" where
  "named ids x = (case x of None \<Rightarrow> False | Some i \<Rightarrow> i \<in> set ids)"

definition forget_users :: "uuid list \<Rightarrow> transfer \<Rightarrow> transfer" where
  "forget_users ids t = t\<lparr>
     tr_created_by_user_id := (if named ids (tr_created_by_user_id t) then None else tr_created_by_user_id t),
     tr_updated_by_user_id := (if named ids (tr_updated_by_user_id t) then None else tr_updated_by_user_id t),
     tr_dispatched_by_user_id := (if named ids (tr_dispatched_by_user_id t) then None else tr_dispatched_by_user_id t),
     tr_canceled_by_user_id := (if named ids (tr_canceled_by_user_id t) then None else tr_canceled_by_user_id t)\<rparr>"

definition nullify_transfer_actor_refs :: "uuid list \<Rightarrow> platform_db \<Rightarrow> counts \<times> platform_db" where
  "nullify_transfer_actor_refs ids db =
    ([(''transfers_as_creator'', count_where (named ids \<circ> tr_created_by_user_id) (pf_transfers db)),
      (''transfers_as_editor'', count_where (named ids \<circ> tr_updated_by_user_id) (pf_transfers db)),
      (''transfers_as_dispatcher'', count_where (named ids \<circ> tr_dispatched_by_user_id) (pf_transfers db)),
      (''transfers_as_canceler'', count_where (named ids \<circ> tr_canceled_by_user_id) (pf_transfers db))],
     db\<lparr>pf_transfers := map (forget_users ids) (pf_transfers db)\<rparr>)"

definition user_counts :: "uuid \<Rightarrow> platform_db \<Rightarrow> counts" where
  "user_counts uid db =
    [(''transfers_as_creator'', count_where (\<lambda>t. tr_created_by_user_id t = Some uid) (pf_transfers db)),
     (''transfers_as_editor'', count_where (\<lambda>t. tr_updated_by_user_id t = Some uid) (pf_transfers db)),
     (''transfers_as_dispatcher'', count_where (\<lambda>t. tr_dispatched_by_user_id t = Some uid) (pf_transfers db)),
     (''transfers_as_canceler'', count_where (\<lambda>t. tr_canceled_by_user_id t = Some uid) (pf_transfers db)),
     (''user_permission_overrides'', count_where (\<lambda>r. upo_user_id r = uid) (user_overrides (pf_ac db))), (''users'', 1)]"

definition delete_user_in_order :: "uuid \<Rightarrow> bool \<Rightarrow> platform_db \<Rightarrow> counts \<times> platform_db" where
  "delete_user_in_order uid preserve db =
    (let (cs, db1) = nullify_transfer_actor_refs [uid] db;
         (co, db2) = delete_in_order [table_of ''user_permission_overrides'' (\<lambda>db. user_overrides (pf_ac db)) upd_overrides (\<lambda>r. upo_user_id r = uid)] db1;
         db3 = delete_audit (\<lambda>e. au_user_id e = Some uid) ''user'' preserve db2;
         (cu, db4) = delete_in_order [table_of ''users'' pf_accounts pf_accounts_update (\<lambda>u. us_id u = uid)] db3
     in (cs @ co @ cu, db4))"

definition delete_store_in_order :: "uuid \<Rightarrow> bool \<Rightarrow> platform_db \<Rightarrow> counts \<times> platform_db" where
  "delete_store_in_order sid preserve db =
    (let (cs, db1) = delete_in_order (STORE_PURGE_ORDER sid (store_transfer_ids sid db) (store_sale_ids sid db)) db;
         uids = store_user_ids sid db1;
         (cn, db2) = nullify_transfer_actor_refs uids db1;
         (cu, db3) = delete_in_order (STORE_USERS uids) db2;
         db4 = delete_audit (\<lambda>e. au_store_id e = Some sid) ''store'' preserve db3;
         (c, db5) = delete_in_order [table_of ''stores'' pf_stores pf_stores_update (\<lambda>s. st_id s = sid)] db4
     in (cs @ cu @ c, db5))"

section \<open>An execution\<close>

record purge_request =
  ur_confirm :: string
  ur_dry_run :: bool
  ur_preserve_audit_events :: bool

record purge_result =
  ux_dry_run :: bool
  ux_status :: string
  ux_would_delete_counts :: counts
  ux_deleted_counts :: "counts option"

definition audit_row :: "uuid \<Rightarrow> uuid option \<Rightarrow> uuid option \<Rightarrow> user \<Rightarrow> string \<Rightarrow> string \<Rightarrow> uuid \<Rightarrow> counts \<Rightarrow> audit_event" where
  "audit_row tn uid sid actor action resource rid cs =
    \<lparr>au_tenant_id = tn, au_user_id = uid, au_store_id = sid, au_actor = us_username actor, au_action = action,
     au_entity_type = resource, au_entity_id = rid, au_counts = cs, au_result = ''success''\<rparr>"

definition record_event :: "audit_event \<Rightarrow> platform_db \<Rightarrow> platform_db" where
  "record_event e db = db\<lparr>pf_audit := pf_audit db @ [e]\<rparr>"

definition acquire_lock :: "string \<Rightarrow> uuid \<Rightarrow> string \<Rightarrow> platform_db \<Rightarrow> platform_db res" where
  "acquire_lock resource rid busy db =
    (if \<lparr>lk_resource_type = resource, lk_resource_id = rid\<rparr> \<in> set (pf_locks db) then Inl (raise1 BUSINESS_CONFLICT busy)
     else Inr (db\<lparr>pf_locks := pf_locks db @ [\<lparr>lk_resource_type = resource, lk_resource_id = rid\<rparr>]\<rparr>))"

definition release_lock :: "string \<Rightarrow> uuid \<Rightarrow> platform_db \<Rightarrow> platform_db" where
  "release_lock resource rid db =
    db\<lparr>pf_locks := filter (\<lambda>l. l \<noteq> \<lparr>lk_resource_type = resource, lk_resource_id = rid\<rparr>) (pf_locks db)\<rparr>"

definition execute_resource ::
    "string \<Rightarrow> uuid \<Rightarrow> uuid \<Rightarrow> user \<Rightarrow> purge_request \<Rightarrow> (platform_db \<Rightarrow> counts) \<Rightarrow> (platform_db \<Rightarrow> counts \<times> platform_db)
      \<Rightarrow> platform_db \<Rightarrow> (platform_db \<times> purge_result) res" where
  "execute_resource resource rid tn actor p count_fn delete_fn db =
    (let would = count_fn db;
         note = (\<lambda>uid step. audit_row tn uid (us_store_id actor) actor (''admin.'' @ resource @ ''.purge.'' @ step) resource rid);
         later_id = (if resource = ''user'' \<and> us_id actor = rid then None else Some (us_id actor))
     in if ur_dry_run p then
          Inr (record_event (note (Some (us_id actor)) ''completed'' would) (record_event (note (Some (us_id actor)) ''started'' would) db),
            \<lparr>ux_dry_run = True, ux_status = ''DRY_RUN'', ux_would_delete_counts = would, ux_deleted_counts = None\<rparr>)
        else bindr (acquire_lock resource rid ''purge already in progress'' db) (\<lambda>db1.
          let (deleted, db2) = delete_fn (record_event (note (Some (us_id actor)) ''started'' would) db1)
          in bindr (commit_platform db2) (\<lambda>db3.
             Inr (release_lock resource rid (record_event (note later_id ''completed'' deleted) db3),
               \<lparr>ux_dry_run = False, ux_status = ''COMPLETED'', ux_would_delete_counts = would, ux_deleted_counts = Some deleted\<rparr>))))"

definition execute_tenant :: "uuid \<Rightarrow> user \<Rightarrow> purge_request \<Rightarrow> platform_db \<Rightarrow> (platform_db \<times> purge_result) res" where
  "execute_tenant tn actor p db =
    (if list_ex (\<lambda>t. tn_id t = tn) (pf_tenants db)
     then execute_resource ''tenant'' tn tn actor p (tenant_counts tn) (delete_tenant_in_order tn (ur_preserve_audit_events p)) db
     else Inl (raise0 TENANT_NOT_FOUND))"

definition execute_store :: "uuid \<Rightarrow> user \<Rightarrow> purge_request \<Rightarrow> platform_db \<Rightarrow> (platform_db \<times> purge_result) res" where
  "execute_store sid actor p db =
    (case find (\<lambda>s. st_id s = sid) (pf_stores db) of
       None \<Rightarrow> Inl (raise0 STORE_NOT_FOUND)
     | Some s \<Rightarrow> execute_resource ''store'' sid (st_tenant_id s) actor p (store_counts sid)
         (delete_store_in_order sid (ur_preserve_audit_events p)) db)"

definition execute_user :: "uuid \<Rightarrow> user \<Rightarrow> purge_request \<Rightarrow> platform_db \<Rightarrow> (platform_db \<times> purge_result) res" where
  "execute_user uid actor p db =
    (case find (\<lambda>u. us_id u = uid) (pf_accounts db) of
       None \<Rightarrow> Inl (raise1 RESOURCE_NOT_FOUND ''User not found'')
     | Some u \<Rightarrow> execute_resource ''user'' uid (us_tenant_id u) actor p (user_counts uid)
         (delete_user_in_order uid (ur_preserve_audit_events p)) db)"

section \<open>Wipes\<close>

record wipe_request =
  uw_confirm :: string
  uw_dry_run :: bool
  uw_preserve_audit_events :: bool
  uw_delete_audit_events :: bool
  uw_delete_spaces_objects :: bool

record wipe_result = purge_result +
  ux_deleted_spaces_objects :: int
  ux_warnings :: "string list"

definition STORE_WIPE_ORDER :: "uuid \<Rightarrow> uuid list \<Rightarrow> uuid list \<Rightarrow> table list" where
  "STORE_WIPE_ORDER sid tids sids = STORE_CONTENT sid tids sids @
    [table_of ''preload_lines'' pf_preload_lines pf_preload_lines_update (\<lambda>r. pl_store_id r = Some sid),
     table_of ''preload_sessions'' pf_preload_sessions pf_preload_sessions_update (\<lambda>r. ps_store_id r = Some sid),
     table_of ''epc_assignments'' pf_tags pf_tags_update (\<lambda>r. ea_store_id r = Some sid),
     table_of ''stock_items'' pf_stock pf_stock_update (\<lambda>r. si_store_id r = Some sid)]"

definition TENANT_WIPE_ORDER :: "uuid \<Rightarrow> table list" where
  "TENANT_WIPE_ORDER tn =
    [table_of ''transfer_movements'' pf_transfer_movements pf_transfer_movements_update (\<lambda>r. tm_tenant_id r = tn),
     table_of ''transfer_lines'' pf_transfer_lines pf_transfer_lines_update (\<lambda>r. tl_tenant_id r = tn),
     table_of ''transfers'' pf_transfers pf_transfers_update (\<lambda>r. tr_tenant_id r = tn),
     table_of ''sale_lines'' pf_sale_lines pf_sale_lines_update (\<lambda>r. ln_tenant_id r = tn),
     table_of ''payments'' pf_payments pf_payments_update (\<lambda>r. pp_tenant_id r = tn),
     table_of ''returns'' pf_returns pf_returns_update (\<lambda>r. re_tenant_id r = tn),
     table_of ''sales'' pf_sales pf_sales_update (\<lambda>r. sl_tenant_id r = tn),
     table_of ''cash_movements'' pf_cash_movements pf_cash_movements_update (\<lambda>r. cm_tenant_id r = tn),
     table_of ''cash_sessions'' pf_cash_sessions pf_cash_sessions_update (\<lambda>r. cs_tenant_id r = tn),
     table_of ''cash_day_closes'' pf_day_closes pf_day_closes_update (\<lambda>r. dc_tenant_id r = tn),
     table_of ''exports'' pf_exports pf_exports_update (\<lambda>r. xr_tenant_id r = tn),
     table_of ''sku_images'' pf_images pf_images_update (\<lambda>r. im_tenant_id r = tn),
     table_of ''preload_lines'' pf_preload_lines pf_preload_lines_update (\<lambda>r. pl_tenant_id r = tn),
     table_of ''preload_sessions'' pf_preload_sessions pf_preload_sessions_update (\<lambda>r. ps_tenant_id r = tn),
     table_of ''epc_assignments'' pf_tags pf_tags_update (\<lambda>r. ea_tenant_id r = tn),
     table_of ''stock_items'' pf_stock pf_stock_update (\<lambda>r. si_tenant_id r = tn)]"

text \<open>Audit events go only where asked for and not preserved.\<close>

definition wipe_audit :: "string \<Rightarrow> (audit_event \<Rightarrow> bool) \<Rightarrow> wipe_request \<Rightarrow> table" where
  "wipe_audit name P p = table_of name pf_audit pf_audit_update
     (\<lambda>e. uw_delete_audit_events p \<and> \<not> uw_preserve_audit_events p \<and> P e)"

definition delete_spaces_prefix :: "(string \<Rightarrow> int \<times> string list) \<Rightarrow> wipe_request \<Rightarrow> string \<Rightarrow> int \<times> string list" where
  "delete_spaces_prefix spaces p prefix = (if uw_delete_spaces_objects p then spaces prefix else (0, []))"

definition wipe_resource ::
    "string \<Rightarrow> uuid \<Rightarrow> uuid \<Rightarrow> user \<Rightarrow> wipe_request \<Rightarrow> table list \<Rightarrow> (unit \<Rightarrow> int \<times> string list)
      \<Rightarrow> platform_db \<Rightarrow> (platform_db \<times> wipe_result) res" where
  "wipe_resource resource rid tn actor p ts spaces db =
    (let counts = counts_of ts db;
         note = audit_row tn (Some (us_id actor)) (us_store_id actor) actor (''admin.'' @ resource @ ''.wipe_content.completed'') resource rid
     in if uw_dry_run p then
          Inr (record_event (note counts) db,
            \<lparr>ux_dry_run = True, ux_status = ''DRY_RUN'', ux_would_delete_counts = counts, ux_deleted_counts = None,
             ux_deleted_spaces_objects = 0, ux_warnings = []\<rparr>)
        else bindr (acquire_lock (resource @ ''_content'') rid ''wipe already in progress'' db) (\<lambda>db1.
          let (deleted, db2) = delete_in_order ts db1; (objects, warnings) = spaces ()
          in bindr (commit_platform db2) (\<lambda>db3.
             Inr (release_lock (resource @ ''_content'') rid (record_event (note deleted) db3),
               \<lparr>ux_dry_run = False, ux_status = ''COMPLETED'', ux_would_delete_counts = counts, ux_deleted_counts = Some deleted,
                ux_deleted_spaces_objects = objects, ux_warnings = warnings\<rparr>))))"

definition execute_store_wipe ::
    "(string \<Rightarrow> int \<times> string list) \<Rightarrow> uuid \<Rightarrow> user \<Rightarrow> wipe_request \<Rightarrow> platform_db \<Rightarrow> (platform_db \<times> wipe_result) res" where
  "execute_store_wipe spaces sid actor p db =
    (case find (\<lambda>s. st_id s = sid) (pf_stores db) of
       None \<Rightarrow> Inl (raise0 STORE_NOT_FOUND)
     | Some s \<Rightarrow> wipe_resource ''store'' sid (st_tenant_id s) actor p
         (STORE_WIPE_ORDER sid (store_transfer_ids sid db) (store_sale_ids sid db) @ [wipe_audit ''store_audit_events'' (\<lambda>e. au_store_id e = Some sid) p])
         (\<lambda>_. delete_spaces_prefix spaces p (''aris3/images/'' @ st_tenant_id s @ ''/'' @ sid @ ''/'')) db)"

definition execute_tenant_wipe ::
    "(string \<Rightarrow> int \<times> string list) \<Rightarrow> uuid \<Rightarrow> user \<Rightarrow> wipe_request \<Rightarrow> platform_db \<Rightarrow> (platform_db \<times> wipe_result) res" where
  "execute_tenant_wipe spaces tn actor p db =
    (if list_ex (\<lambda>t. tn_id t = tn) (pf_tenants db)
     then wipe_resource ''tenant'' tn tn actor p (TENANT_WIPE_ORDER tn @ [wipe_audit ''tenant_audit_events'' (\<lambda>e. au_tenant_id e = tn) p])
         (\<lambda>_. delete_spaces_prefix spaces p (''aris3/images/'' @ tn @ ''/'')) db
     else Inl (raise0 TENANT_NOT_FOUND))"

section \<open>The routes\<close>

definition superadmin_before :: "request_env \<Rightarrow> user res" where
  "superadmin_before env =
    bindr (require_active_user (rq_directory env) (rq_token env)) (\<lambda>u.
    bindr (require (is_superadmin (Some (td_role (rq_token env)))) (raise0 PERMISSION_DENIED)) (\<lambda>_. Inr u))"

text \<open>\<^verbatim>\<open>token_data.tenant_id or "platform"\<close>, which is no identifier.\<close>

definition token_or_platform :: "request_env \<Rightarrow> uuid res" where
  "token_or_platform env = idempotency_tenant env (py_or (td_tenant_id (rq_token env)) (Some ''platform''))
     (\<lambda>_. \<not> falsy (td_tenant_id (rq_token env)))"

definition confirmed :: "string \<Rightarrow> string \<Rightarrow> uuid \<Rightarrow> unit res" where
  "confirmed verb confirm rid = require (confirm = verb @ rid) (raise1 VALIDATION_ERROR ''confirm must match the exact value'')"

definition tenant_before :: "string \<Rightarrow> string \<Rightarrow> uuid \<Rightarrow> request_env \<Rightarrow> (uuid \<times> user) res" where
  "tenant_before verb confirm tn env =
    bindr (superadmin_before env) (\<lambda>u. bindr (confirmed verb confirm tn) (\<lambda>_. Inr (tn, u)))"

definition store_before :: "string \<Rightarrow> string \<Rightarrow> uuid \<Rightarrow> request_env \<Rightarrow> (uuid \<times> user) res" where
  "store_before verb confirm sid env =
    bindr (superadmin_before env) (\<lambda>u. bindr (confirmed verb confirm sid) (\<lambda>_.
    bindr (token_or_platform env) (\<lambda>t. Inr (t, u))))"

definition user_purge_before :: "string \<Rightarrow> uuid \<Rightarrow> request_env \<Rightarrow> (uuid \<times> user) res" where
  "user_purge_before confirm uid env =
    bindr (superadmin_before env) (\<lambda>u. bindr (confirmed ''PURGE '' confirm uid) (\<lambda>_.
    Inr (idempotency_tenant_scope (rq_token env) u, u)))"

text \<open>A reply shows the counts of a dry run, or of what was deleted, under the names of its schema.\<close>

definition TENANT_PURGE_COUNTS :: "string list" where
  "TENANT_PURGE_COUNTS = [''transfer_movements'', ''transfer_lines'', ''transfers'', ''sale_lines'', ''payments'', ''returns'',
     ''sales'', ''cash_movements'', ''cash_sessions'', ''cash_day_closes'', ''exports'', ''stock_items'',
     ''user_permission_overrides'', ''store_role_policies'', ''tenant_role_policies'', ''users'', ''stores'', ''tenants'']"

definition STORE_PURGE_COUNTS :: "string list" where
  "STORE_PURGE_COUNTS = [''transfer_movements'', ''transfer_lines'', ''users'', ''user_permission_overrides'', ''sale_lines'',
     ''payments'', ''transfers'', ''sales'', ''returns'', ''cash_sessions'', ''cash_movements'', ''cash_day_closes'',
     ''exports'', ''store_role_policies'', ''stock_items'', ''stores'']"

definition USER_PURGE_COUNTS :: "string list" where
  "USER_PURGE_COUNTS = [''user_permission_overrides'', ''transfers_as_creator'', ''transfers_as_editor'',
     ''transfers_as_dispatcher'', ''transfers_as_canceler'', ''users'']"

definition counts_payload :: "string list \<Rightarrow> counts \<Rightarrow> counts" where
  "counts_payload names cs = map (\<lambda>n. (n, dict_get cs n 0)) names"

definition purge_response :: "string list \<Rightarrow> purge_result \<Rightarrow> bool \<times> string \<times> counts option \<times> counts option" where
  "purge_response names r = (ux_dry_run r, ux_status r,
     (if ux_dry_run r then Some (counts_payload names (ux_would_delete_counts r)) else None),
     (if ux_dry_run r then None else Some (counts_payload names (case ux_deleted_counts r of None \<Rightarrow> [] | Some c \<Rightarrow> c))))"

type_synonym purge_dump = "bool \<times> string \<times> counts option \<times> counts option \<Rightarrow> string"

definition purge_tenant ::
    "(app_error \<Rightarrow> string) \<Rightarrow> purge_dump \<Rightarrow> request_env \<Rightarrow> uuid \<Rightarrow> purge_request
      \<Rightarrow> idem_table \<times> platform_db \<Rightarrow> reply \<times> idem_table \<times> platform_db" where
  "purge_tenant dump_err dump env tn p =
    guarded_endpoint env dump_err (\<lambda>db. tenant_before ''PURGE '' (ur_confirm p) tn (at_db env db))
      (\<lambda>_ u db. replying 200 (dump \<circ> purge_response TENANT_PURGE_COUNTS) (execute_tenant tn u p db))"

definition purge_store ::
    "(app_error \<Rightarrow> string) \<Rightarrow> purge_dump \<Rightarrow> request_env \<Rightarrow> uuid \<Rightarrow> purge_request
      \<Rightarrow> idem_table \<times> platform_db \<Rightarrow> reply \<times> idem_table \<times> platform_db" where
  "purge_store dump_err dump env sid p =
    guarded_endpoint env dump_err (\<lambda>db. store_before ''PURGE '' (ur_confirm p) sid (at_db env db))
      (\<lambda>_ u db. replying 200 (dump \<circ> purge_response STORE_PURGE_COUNTS) (execute_store sid u p db))"

definition purge_user ::
    "(app_error \<Rightarrow> string) \<Rightarrow> purge_dump \<Rightarrow> request_env \<Rightarrow> uuid \<Rightarrow> purge_request
      \<Rightarrow> idem_table \<times> platform_db \<Rightarrow> reply \<times> idem_table \<times> platform_db" where
  "purge_user dump_err dump env uid p =
    guarded_endpoint env dump_err (\<lambda>db. user_purge_before (ur_confirm p) uid (at_db env db))
      (\<lambda>_ u db. replying 200 (dump \<circ> purge_response USER_PURGE_COUNTS) (execute_user uid u p db))"

definition wipe_tenant_content ::
    "(app_error \<Rightarrow> string) \<Rightarrow> (wipe_result \<Rightarrow> string) \<Rightarrow> (string \<Rightarrow> int \<times> string list) \<Rightarrow> request_env \<Rightarrow> uuid \<Rightarrow> wipe_request
      \<Rightarrow> idem_table \<times> platform_db \<Rightarrow> reply \<times> idem_table \<times> platform_db" where
  "wipe_tenant_content dump_err dump spaces env tn p =
    guarded_endpoint env dump_err (\<lambda>db. tenant_before ''WIPE CONTENT '' (uw_confirm p) tn (at_db env db))
      (\<lambda>_ u db. replying 200 dump (execute_tenant_wipe spaces tn u p db))"

definition wipe_store_content ::
    "(app_error \<Rightarrow> string) \<Rightarrow> (wipe_result \<Rightarrow> string) \<Rightarrow> (string \<Rightarrow> int \<times> string list) \<Rightarrow> request_env \<Rightarrow> uuid \<Rightarrow> wipe_request
      \<Rightarrow> idem_table \<times> platform_db \<Rightarrow> reply \<times> idem_table \<times> platform_db" where
  "wipe_store_content dump_err dump spaces env sid p =
    guarded_endpoint env dump_err (\<lambda>db. store_before ''WIPE CONTENT '' (uw_confirm p) sid (at_db env db))
      (\<lambda>_ u db. replying 200 dump (execute_store_wipe spaces sid u p db))"

end
