(* ===== verification/Purge_Properties.thy ===== *)
theory Purge_Properties
  imports Platform_Purge
begin

text \<open>
  What purges and wipes do: a purge of a tenant leaves the rows of the others, and of it nothing that
  refers to it; a dry run counts what a purge deletes; and tables the purge forgets stop it.
\<close>

section \<open>Deletions\<close>

text \<open>The tables as they are without a tenant.\<close>

definition rows_of_others :: "uuid \<Rightarrow> platform_db \<Rightarrow> platform_db" where
  "rows_of_others tn db = db\<lparr>
     pf_stores := filter (\<lambda>r. st_tenant_id r \<noteq> tn) (pf_stores db),
     pf_accounts := filter (\<lambda>r. us_tenant_id r \<noteq> tn) (pf_accounts db),
     pf_ac := (pf_ac db)\<lparr>
       user_overrides := filter (\<lambda>r. upo_tenant_id r \<noteq> tn) (user_overrides (pf_ac db)),
       store_role_policies := filter (\<lambda>r. srp_tenant_id r \<noteq> tn) (store_role_policies (pf_ac db)),
       tenant_role_policies := filter (\<lambda>r. trp_tenant_id r \<noteq> Some tn) (tenant_role_policies (pf_ac db))\<rparr>,
     pf_stock := filter (\<lambda>r. si_tenant_id r \<noteq> tn) (pf_stock db),
     pf_transfers := filter (\<lambda>r. tr_tenant_id r \<noteq> tn) (pf_transfers db),
     pf_transfer_lines := filter (\<lambda>r. tl_tenant_id r \<noteq> tn) (pf_transfer_lines db),
     pf_transfer_movements := filter (\<lambda>r. tm_tenant_id r \<noteq> tn) (pf_transfer_movements db),
     pf_sales := filter (\<lambda>r. sl_tenant_id r \<noteq> tn) (pf_sales db),
     pf_sale_lines := filter (\<lambda>r. ln_tenant_id r \<noteq> tn) (pf_sale_lines db),
     pf_payments := filter (\<lambda>r. pp_tenant_id r \<noteq> tn) (pf_payments db),
     pf_returns := filter (\<lambda>r. re_tenant_id r \<noteq> tn) (pf_returns db),
     pf_cash_sessions := filter (\<lambda>r. cs_tenant_id r \<noteq> tn) (pf_cash_sessions db),
     pf_cash_movements := filter (\<lambda>r. cm_tenant_id r \<noteq> tn) (pf_cash_movements db),
     pf_day_closes := filter (\<lambda>r. dc_tenant_id r \<noteq> tn) (pf_day_closes db),
     pf_exports := filter (\<lambda>r. xr_tenant_id r \<noteq> tn) (pf_exports db)\<rparr>"

definition of_others :: "uuid \<Rightarrow> platform_db \<Rightarrow> platform_db" where
  "of_others tn db = (rows_of_others tn db)\<lparr>
     pf_tenants := filter (\<lambda>r. tn_id r \<noteq> tn) (pf_tenants db),
     pf_ac := delete_templates tn (pf_ac (rows_of_others tn db)),
     pf_policies := filter (\<lambda>r. pv_tenant_id r \<noteq> tn) (pf_policies db),
     pf_variants := filter (\<lambda>r. vs_tenant_id r \<noteq> tn) (pf_variants db)\<rparr>"

lemmas table_simps = table_of_def counts_of_def upd_overrides_def upd_store_policies_def upd_tenant_policies_def Let_def

lemma tenant_rows_deleted:
  "delete_in_order (TENANT_PURGE_ORDER tn) db = (counts_of (TENANT_PURGE_ORDER tn) db, rows_of_others tn db)"
  by (simp add: TENANT_PURGE_ORDER_def table_simps rows_of_others_def)

lemma rows_of_others_kept [simp]:
  "pf_tenants (rows_of_others tn db) = pf_tenants db" "pf_policies (rows_of_others tn db) = pf_policies db"
  "pf_variants (rows_of_others tn db) = pf_variants db" "pf_audit (rows_of_others tn db) = pf_audit db"
  "pf_locks (rows_of_others tn db) = pf_locks db"
  by (simp_all add: rows_of_others_def)

text \<open>The audit events that are left.\<close>

definition audit_left :: "(audit_event \<Rightarrow> bool) \<Rightarrow> string \<Rightarrow> bool \<Rightarrow> audit_event list \<Rightarrow> audit_event list" where
  "audit_left P resource preserve es =
    (if preserve then es else filter (\<lambda>e. \<not> (P e \<and> au_action e \<notin> set (purge_actions resource))) es)"

lemma delete_audit_eq: "delete_audit P resource preserve db = db\<lparr>pf_audit := audit_left P resource preserve (pf_audit db)\<rparr>"
  by (cases preserve) (simp_all add: delete_audit_def audit_left_def)

lemma tenants_table: "delete_in_order [table_of ''tenants'' pf_tenants pf_tenants_update (\<lambda>t. tn_id t = tn)] db
    = ([(''tenants'', count_where (\<lambda>t. tn_id t = tn) (pf_tenants db))], db\<lparr>pf_tenants := filter (\<lambda>r. tn_id r \<noteq> tn) (pf_tenants db)\<rparr>)"
  by (simp add: table_of_def)

lemma updates_in_order:
  "r\<lparr>pf_ac := a, pf_variants := v, pf_policies := p, pf_audit := u, pf_tenants := t\<rparr>
    = r\<lparr>pf_tenants := t, pf_ac := a, pf_policies := p, pf_variants := v, pf_audit := u\<rparr>"
  by (cases r) simp

lemma delete_tenant_eq:
  "delete_tenant_in_order tn preserve db = (counts_of (TENANT_PURGE_ORDER tn) db
      @ [(''tenants'', count_where (\<lambda>t. tn_id t = tn) (pf_tenants db))],
     (of_others tn db)\<lparr>pf_audit := audit_left (\<lambda>e. au_tenant_id e = tn) ''tenant'' preserve (pf_audit db)\<rparr>)"
proof -
  let ?r = "rows_of_others tn db"
  let ?db2 = "?r\<lparr>pf_ac := delete_templates tn (pf_ac ?r), pf_variants := filter (\<lambda>v. vs_tenant_id v \<noteq> tn) (pf_variants db),
    pf_policies := filter (\<lambda>p. pv_tenant_id p \<noteq> tn) (pf_policies db)\<rparr>"
  have "pf_audit ?db2 = pf_audit db" "\<And>u. pf_tenants (?db2\<lparr>pf_audit := u\<rparr>) = pf_tenants db" by simp_all
  then show ?thesis
    unfolding delete_tenant_in_order_def tenant_rows_deleted Let_def prod.case rows_of_others_kept delete_audit_eq tenants_table
      of_others_def
    by (simp only: updates_in_order prod.case)
qed

lemma only_one: "distinct ys \<Longrightarrow> set ys \<subseteq> {k} \<Longrightarrow> ys \<noteq> [] \<Longrightarrow> length ys = 1"
  by (cases ys) (auto dest: subset_singletonD)

lemma count_unique:
  assumes "distinct (map f xs)" and "\<exists>x \<in> set xs. f x = k"
  shows "count_where (\<lambda>x. f x = k) xs = 1"
proof -
  let ?ys = "filter (\<lambda>x. f x = k) xs"
  have "length (map f ?ys) = 1"
  proof (rule only_one)
    show "distinct (map f ?ys)" using assms(1) by (simp add: distinct_map_filter)
    show "set (map f ?ys) \<subseteq> {k}" by auto
    show "map f ?ys \<noteq> []" using assms(2) by (auto simp: filter_empty_conv)
  qed
  then show ?thesis by (simp add: count_where_def)
qed

lemma found_count:
  assumes "distinct (map f xs)" and "find (\<lambda>x. f x = k) xs = Some x"
  shows "count_where (\<lambda>x. f x = k) xs = 1"
  using count_unique [OF assms(1), of k] find_SomeD [OF assms(2)] by auto

lemma store_rows_deleted:
  fixes tids sids
  shows "fst (delete_in_order (STORE_PURGE_ORDER sid tids sids) db) = counts_of (STORE_PURGE_ORDER sid tids sids) db"
    "pf_accounts (snd (delete_in_order (STORE_PURGE_ORDER sid tids sids) db)) = pf_accounts db"
    "pf_stores (snd (delete_in_order (STORE_PURGE_ORDER sid tids sids) db)) = pf_stores db"
    "user_overrides (pf_ac (snd (delete_in_order (STORE_PURGE_ORDER sid tids sids) db))) = user_overrides (pf_ac db)"
  by (simp_all add: STORE_PURGE_ORDER_def STORE_CONTENT_def table_simps)

lemma store_user_counts:
  "counts_of (STORE_USERS uids) db = [(''user_permission_overrides'', count_where (\<lambda>r. upo_user_id r \<in> set uids) (user_overrides (pf_ac db))),
     (''users'', count_where (\<lambda>r. us_id r \<in> set uids) (pf_accounts db))]"
  by (simp add: STORE_USERS_def table_simps)

lemma delete_store_counts:
  assumes "distinct (map st_id (pf_stores db))" and "find (\<lambda>s. st_id s = sid) (pf_stores db) = Some s"
  shows "fst (delete_store_in_order sid preserve db) = store_counts sid db"
proof -
  have one: "count_where (\<lambda>s. st_id s = sid) (pf_stores db) = 1"
    by (rule found_count [OF assms])
  let ?p = "delete_in_order (STORE_PURGE_ORDER sid (store_transfer_ids sid db) (store_sale_ids sid db)) db"
  have uids: "store_user_ids sid (snd ?p) = store_user_ids sid db" by (simp add: store_user_ids_def store_rows_deleted)
  show ?thesis
    using one
    by (cases ?p) (use store_rows_deleted [of sid "store_transfer_ids sid db" "store_sale_ids sid db" db] uids in
      \<open>simp add: delete_store_in_order_def store_counts_def nullify_transfer_actor_refs_def delete_audit_eq STORE_USERS_def
        table_simps\<close>)
qed

lemma delete_user_counts:
  assumes "distinct (map us_id (pf_accounts db))" and "find (\<lambda>u. us_id u = uid) (pf_accounts db) = Some u"
  shows "fst (delete_user_in_order uid preserve db) = user_counts uid db"
proof -
  have one: "count_where (\<lambda>s. us_id s = uid) (pf_accounts db) = 1"
    by (rule found_count [OF assms])
  have "named [uid] x \<longleftrightarrow> x = Some uid" for x by (simp add: named_def split: option.splits)
  then show ?thesis using one
    by (simp add: delete_user_in_order_def user_counts_def nullify_transfer_actor_refs_def delete_audit_eq table_simps comp_def)
qed

section \<open>Executions\<close>

datatype purge_target = Tenant_target uuid | Store_target uuid | User_target uuid

definition execute_purge :: "purge_target \<Rightarrow> user \<Rightarrow> purge_request \<Rightarrow> platform_db \<Rightarrow> (platform_db \<times> purge_result) res" where
  "execute_purge t = (case t of Tenant_target tn \<Rightarrow> execute_tenant tn | Store_target sid \<Rightarrow> execute_store sid
     | User_target uid \<Rightarrow> execute_user uid)"

text \<open>What a purge deletes from: the tables with its lock and the event of its start.\<close>

definition started_db :: "string \<Rightarrow> uuid \<Rightarrow> audit_event \<Rightarrow> platform_db \<Rightarrow> platform_db" where
  "started_db resource rid e db = db\<lparr>pf_locks := pf_locks db @ [\<lparr>lk_resource_type = resource, lk_resource_id = rid\<rparr>],
     pf_audit := pf_audit db @ [e]\<rparr>"

definition started_event :: "string \<Rightarrow> uuid \<Rightarrow> uuid \<Rightarrow> user \<Rightarrow> counts \<Rightarrow> audit_event" where
  "started_event resource rid tn actor = audit_row tn (Some (us_id actor)) (us_store_id actor) actor
     (''admin.'' @ resource @ ''.purge.'' @ ''started'') resource rid"

definition completed_event :: "string \<Rightarrow> uuid \<Rightarrow> uuid \<Rightarrow> user \<Rightarrow> counts \<Rightarrow> audit_event" where
  "completed_event resource rid tn actor = audit_row tn (if resource = ''user'' \<and> us_id actor = rid then None else Some (us_id actor))
     (us_store_id actor) actor (''admin.'' @ resource @ ''.purge.'' @ ''completed'') resource rid"

lemma dry_run:
  assumes "execute_resource resource rid tn actor p count_fn delete_fn db = Inr (db', r)" and "ur_dry_run p"
  shows "db'\<lparr>pf_audit := pf_audit db\<rparr> = db \<and> ux_would_delete_counts r = count_fn db"
  using assms by (auto simp: execute_resource_def Let_def record_event_def)

lemma real_run:
  assumes "execute_resource resource rid tn actor p count_fn delete_fn db = Inr (db', r)" and "\<not> ur_dry_run p"
  obtains e a where "ux_deleted_counts r = Some (fst (delete_fn (started_db resource rid e db)))"
    "db' = (snd (delete_fn (started_db resource rid e db)))\<lparr>pf_audit := a,
      pf_locks := filter (\<lambda>l. l \<noteq> \<lparr>lk_resource_type = resource, lk_resource_id = rid\<rparr>)
        (pf_locks (snd (delete_fn (started_db resource rid e db))))\<rparr>"
    "\<lparr>lk_resource_type = resource, lk_resource_id = rid\<rparr> \<notin> set (pf_locks db)"
    "platform_ok (snd (delete_fn (started_db resource rid e db)))"
proof -
  let ?lock = "\<lparr>lk_resource_type = resource, lk_resource_id = rid\<rparr>"
  have lock: "?lock \<notin> set (pf_locks db)"
    using assms by (auto simp: execute_resource_def Let_def acquire_lock_def split: if_splits)
  let ?e = "started_event resource rid tn actor (count_fn db)"
  obtain cs db2 where d: "delete_fn (started_db resource rid ?e db) = (cs, db2)" by fastforce
  have run: "execute_resource resource rid tn actor p count_fn delete_fn db = bindr (commit_platform db2) (\<lambda>db3.
      Inr (release_lock resource rid (record_event (completed_event resource rid tn actor cs) db3),
        \<lparr>ux_dry_run = False, ux_status = ''COMPLETED'', ux_would_delete_counts = count_fn db, ux_deleted_counts = Some cs\<rparr>))"
    using assms(2) lock d
    by (simp add: execute_resource_def Let_def acquire_lock_def started_event_def completed_event_def started_db_def record_event_def)
  have ok: "platform_ok db2" and db': "db' = release_lock resource rid (record_event (completed_event resource rid tn actor cs) db2)"
    and r: "ux_deleted_counts r = Some cs"
    using assms(1) unfolding run by (auto simp: bindr_Inr_iff commit_platform_Inr)
  show ?thesis
    by (rule that [of ?e "pf_audit db2 @ [completed_event resource rid tn actor cs]"])
      (simp_all add: d r db' ok lock release_lock_def record_event_def)
qed

lemma started_kept [simp]:
  "pf_tenants (started_db a b e db) = pf_tenants db" "pf_stores (started_db a b e db) = pf_stores db"
  "pf_accounts (started_db a b e db) = pf_accounts db" "pf_ac (started_db a b e db) = pf_ac db"
  "pf_transfers (started_db a b e db) = pf_transfers db"
  by (simp_all add: started_db_def)

lemma counts_started [simp]:
  "tenant_counts tn (started_db a b e db) = tenant_counts tn db"
  "store_counts sid (started_db a b e db) = store_counts sid db"
  "user_counts uid (started_db a b e db) = user_counts uid db"
  by (simp_all add: tenant_counts_def TENANT_PURGE_ORDER_def store_counts_def STORE_PURGE_ORDER_def STORE_CONTENT_def STORE_USERS_def
    user_counts_def table_of_def counts_of_def started_db_def store_transfer_ids_def store_sale_ids_def store_user_ids_def)

lemma dry_exact:
  assumes "execute_resource resource rid tn actor (p\<lparr>ur_dry_run := True\<rparr>) count_fn delete_fn db = Inr (db1, r1)"
    and "execute_resource resource rid tn actor (p\<lparr>ur_dry_run := False\<rparr>) count_fn delete_fn db = Inr (db2, r2)"
    and "\<And>e. fst (delete_fn (started_db resource rid e db)) = count_fn db"
  shows "db1\<lparr>pf_audit := pf_audit db\<rparr> = db \<and> ux_deleted_counts r2 = Some (ux_would_delete_counts r1)"
proof -
  have "\<not> ur_dry_run (p\<lparr>ur_dry_run := False\<rparr>)" "ur_dry_run (p\<lparr>ur_dry_run := True\<rparr>)" by simp_all
  then show ?thesis using dry_run [OF assms(1)] real_run [OF assms(2)] assms(3) by metis
qed


section \<open>What is left\<close>

lemma of_others_started:
  "(of_others tn (started_db a b e db))\<lparr>pf_audit := x, pf_locks := l\<rparr> = (of_others tn db)\<lparr>pf_audit := x, pf_locks := l\<rparr>"
  by (cases db) (simp add: of_others_def rows_of_others_def started_db_def)

lemma of_others_kept [simp]:
  "pf_locks (of_others tn db) = pf_locks db" "pf_audit (of_others tn db) = pf_audit db"
  "pf_tags (of_others tn db) = pf_tags db" "pf_images (of_others tn db) = pf_images db"
  "pf_preload_sessions (of_others tn db) = pf_preload_sessions db" "pf_preload_lines (of_others tn db) = pf_preload_lines db"
  "pf_products (of_others tn db) = pf_products db" "pf_costs (of_others tn db) = pf_costs db"
  "pf_tenants (of_others tn db) = filter (\<lambda>r. tn_id r \<noteq> tn) (pf_tenants db)"
  by (simp_all add: of_others_def rows_of_others_def)

lemma own_lock: "l \<notin> set ls \<Longrightarrow> filter (\<lambda>x. x \<noteq> l) (ls @ [l]) = ls"
  by (simp add: filter_id_conv) auto

lemma references_same:
  "references_ok (db\<lparr>pf_audit := a, pf_locks := l\<rparr>) = references_ok db"
  by (simp add: references_ok_def people_refs_def policy_refs_def stock_refs_def transfer_refs_def advance_refs_def
    tenant_ids_def store_ids_def account_ids_def account_refs_def [abs_def] cong: option.case_cong)

lemma tenant_gone: "tn \<notin> set (tenant_ids (of_others tn db))"
  by (auto simp: tenant_ids_def)

lemma ok_same: "platform_ok (db\<lparr>pf_audit := a, pf_locks := l\<rparr>) = platform_ok db"
  by (simp add: platform_ok_def references_same)

lemma ok_started: "platform_ok ((of_others tn (started_db a b e db))\<lparr>pf_audit := x\<rparr>) = platform_ok (of_others tn db)"
proof -
  have "platform_ok ((of_others tn (started_db a b e db))\<lparr>pf_audit := x\<rparr>)
      = platform_ok ((of_others tn (started_db a b e db))\<lparr>pf_audit := x, pf_locks := []\<rparr>)"
    using ok_same [where db = "(of_others tn (started_db a b e db))\<lparr>pf_audit := x\<rparr>" and a = x and l = "[]"] by simp
  also have "\<dots> = platform_ok ((of_others tn db)\<lparr>pf_audit := x, pf_locks := []\<rparr>)" by (simp only: of_others_started)
  also have "\<dots> = platform_ok (of_others tn db)" by (rule ok_same)
  finally show ?thesis .
qed

lemma tenant_purge_runs:
  assumes "tn \<in> set (tenant_ids db)" and "\<lparr>lk_resource_type = ''tenant'', lk_resource_id = tn\<rparr> \<notin> set (pf_locks db)"
    and "\<not> ur_dry_run p" and "platform_ok (of_others tn db)"
  shows "\<exists>db' r. execute_tenant tn actor p db = Inr (db', r)"
proof -
  have ex: "list_ex (\<lambda>t. tn_id t = tn) (pf_tenants db)" using assms(1) by (auto simp: tenant_ids_def list_ex_iff)
  have s: "record_event e (db\<lparr>pf_locks := pf_locks db @ [\<lparr>lk_resource_type = ''tenant'', lk_resource_id = tn\<rparr>]\<rparr>)
      = started_db ''tenant'' tn e db" for e
    by (simp add: record_event_def started_db_def)
  have c: "commit_platform d = Inr d" if "platform_ok d" for d using that by (simp add: commit_platform_Inr)
  show ?thesis using ex assms(2,3)
    by (simp add: execute_tenant_def execute_resource_def Let_def acquire_lock_def s delete_tenant_eq c ok_started assms(4))
qed


text \<open>Tables the purge never deletes from, although their rows refer to the tenant.\<close>

definition forgotten_rows :: "uuid \<Rightarrow> platform_db \<Rightarrow> bool" where
  "forgotten_rows tn db \<longleftrightarrow> list_ex (\<lambda>r. ea_tenant_id r = tn) (pf_tags db) \<or> list_ex (\<lambda>r. im_tenant_id r = tn) (pf_images db)
    \<or> list_ex (\<lambda>r. ps_tenant_id r = tn) (pf_preload_sessions db) \<or> list_ex (\<lambda>r. pl_tenant_id r = tn) (pf_preload_lines db)
    \<or> list_ex (\<lambda>r. cp_tenant_id r = tn) (pf_products db) \<or> list_ex (\<lambda>r. ch_tenant_id r = tn) (pf_costs db)"

text \<open>A tenant with a tag, an image, a preload session, a product or a cost on record cannot be purged: the
  purge fails with an internal error and deletes nothing.\<close>

theorem tenant_purge_blocked:
  assumes "forgotten_rows tn db" and "tn \<in> set (tenant_ids db)" and "\<not> ur_dry_run p"
    and "\<lparr>lk_resource_type = ''tenant'', lk_resource_id = tn\<rparr> \<notin> set (pf_locks db)"
  shows "execute_tenant tn actor p db = Inl (raise0 INTERNAL_ERROR)"
proof -
  have ex: "list_ex (\<lambda>t. tn_id t = tn) (pf_tenants db)" using assms(2) by (auto simp: tenant_ids_def list_ex_iff)
  have gone: "tn \<notin> set (tenant_ids (of_others tn d\<lparr>pf_audit := x\<rparr>))" for d x
    using tenant_gone [of tn d] by (simp add: tenant_ids_def)
  have bad: "\<not> stock_refs (of_others tn (started_db a b e db)\<lparr>pf_audit := x\<rparr>)" for a b e x
  proof
    assume "stock_refs (of_others tn (started_db a b e db)\<lparr>pf_audit := x\<rparr>)"
    then have "\<not> forgotten_rows tn db"
      using gone [where d = "started_db a b e db" and x = x]
      by (auto simp: stock_refs_def forgotten_rows_def list_all_iff list_ex_iff started_db_def)
    then show False using assms(1) by simp
  qed
  show ?thesis
  proof (cases "execute_tenant tn actor p db")
    case (Inl er)
    then show ?thesis using ex assms(3,4) bad
      by (auto simp: execute_tenant_def execute_resource_def Let_def acquire_lock_def commit_platform_def require_def delete_tenant_eq
        split: if_splits)
  next
    case (Inr z)
    obtain db' r where z: "z = (db', r)" by fastforce
    obtain e where "platform_ok (snd (delete_tenant_in_order tn (ur_preserve_audit_events p) (started_db ''tenant'' tn e db)))"
      using Inr ex assms(3) unfolding z execute_tenant_def by (auto elim: real_run)
    then show ?thesis using bad by (simp add: platform_ok_def references_ok_def delete_tenant_eq)
  qed
qed

section \<open>An example\<close>

text \<open>Two tenants, each with a store, a user and a policy of its own.\<close>

definition demo_account :: "uuid \<Rightarrow> uuid \<Rightarrow> uuid \<Rightarrow> account" where
  "demo_account i tn sid = \<lparr>us_id = i, us_tenant_id = tn, us_store_id = Some sid, us_username = ''n'', us_email = ''e'',
     us_role = ''USER'', us_status = ''ACTIVE'', us_must_change_password = False, us_is_active = True,
     ac_hashed_password = ''h'', ac_created_at = 0\<rparr>"

definition purge_world :: platform_db where
  "purge_world = \<lparr>
     pf_tenants = [\<lparr>tn_id = ''t1'', tn_name = ''A'', tn_status = ''ACTIVE'', tw_created_at = 0\<rparr>,
       \<lparr>tn_id = ''t2'', tn_name = ''B'', tn_status = ''ACTIVE'', tw_created_at = 0\<rparr>],
     pf_stores = [\<lparr>st_id = ''s1'', st_tenant_id = ''t1'', st_name = ''S'', sw_created_at = 0\<rparr>,
       \<lparr>st_id = ''s2'', st_tenant_id = ''t2'', st_name = ''S'', sw_created_at = 0\<rparr>],
     pf_accounts = [demo_account ''u1'' ''t1'' ''s1'', demo_account ''u2'' ''t2'' ''s2''],
     pf_ac = \<lparr>catalog = [], role_templates = [\<lparr>rt_id = ''r1'', rt_tenant_id = Some ''t1'', rt_name = ''USER''\<rparr>],
       role_template_permissions = [],
       tenant_role_policies = [\<lparr>trp_tenant_id = Some ''t2'', trp_role_name = ''USER'', trp_permission_code = ''X'', trp_effect = ''deny''\<rparr>],
       store_role_policies = [],
       user_overrides = [\<lparr>upo_tenant_id = ''t1'', upo_user_id = ''u1'', upo_permission_code = ''X'', upo_effect = ''deny''\<rparr>]\<rparr>,
     pf_policies = [], pf_variants = [], pf_stock = [], pf_tags = [], pf_images = [], pf_preload_sessions = [],
     pf_preload_lines = [], pf_products = [], pf_costs = [], pf_transfers = [], pf_transfer_lines = [],
     pf_transfer_movements = [], pf_sales = [], pf_sale_lines = [], pf_payments = [], pf_returns = [],
     pf_cash_sessions = [], pf_cash_movements = [], pf_day_closes = [], pf_advances = [], pf_advance_events = [],
     pf_exports = [\<lparr>xr_id = ''x'', xr_tenant_id = ''t1'', xr_store_id = ''s1''\<rparr>], pf_audit = [], pf_locks = []\<rparr>"

definition purge_actor :: user where
  "purge_actor = \<lparr>us_id = ''u2'', us_tenant_id = ''t2'', us_store_id = None, us_username = ''root'', us_email = ''e'',
     us_role = ''SUPERADMIN'', us_status = ''ACTIVE'', us_must_change_password = False, us_is_active = True\<rparr>"

definition demo_purge :: purge_request where
  "demo_purge = \<lparr>ur_confirm = ''PURGE t1'', ur_dry_run = False, ur_preserve_audit_events = True\<rparr>"

lemma purge_world_ok: "platform_ok purge_world"
  by code_simp

lemma others_ok:
  "accounts_unique (pf_accounts (of_others ''t1'' purge_world))" "stores_unique (pf_stores (of_others ''t1'' purge_world))"
  "tenants_unique (pf_tenants (of_others ''t1'' purge_world))" "references_ok (of_others ''t1'' purge_world)"
  by code_simp+

lemma demo_purges:
  "\<not> isl (execute_purge (Tenant_target ''t1'') purge_actor demo_purge purge_world)"
  "\<not> isl (execute_purge (Tenant_target ''t1'') purge_actor (demo_purge\<lparr>ur_dry_run := True\<rparr>) purge_world)"
proof -
  have ex: "list_ex (\<lambda>t. tn_id t = ''t1'') (pf_tenants purge_world)" by code_simp
  show "\<not> isl (execute_purge (Tenant_target ''t1'') purge_actor (demo_purge\<lparr>ur_dry_run := True\<rparr>) purge_world)"
    using ex by (simp add: execute_purge_def execute_tenant_def execute_resource_def Let_def)
  have in_world: "''t1'' \<in> set (tenant_ids purge_world)" by code_simp
  have "pf_locks purge_world = []" "\<not> ur_dry_run demo_purge" by (simp_all add: purge_world_def demo_purge_def)
  then show "\<not> isl (execute_purge (Tenant_target ''t1'') purge_actor demo_purge purge_world)"
    using tenant_purge_runs [of "''t1''" purge_world demo_purge purge_actor] in_world others_ok
    by (auto simp: execute_purge_def platform_ok_def)
qed

lemma demo_purge_real: "demo_purge\<lparr>ur_dry_run := False\<rparr> = demo_purge" "\<not> ur_dry_run demo_purge"
  by (simp_all add: demo_purge_def)



definition tagged_platform :: platform_db where
  "tagged_platform = purge_world\<lparr>pf_tags := [\<lparr>ea_id = ''a'', ea_tenant_id = ''t1'', ea_store_id = None, ea_epc = ''E'', ea_item_uid = ''i'',
     ea_assigned_at = 0, ea_released_at = None, ea_active = True, ea_last_release_reason = None, ea_status = ''ASSIGNED'',
     ea_updated_at = None\<rparr>]\<rparr>"

theorem tenant_purge_blocked_witness:
  "execute_tenant ''t1'' purge_actor demo_purge tagged_platform = Inl (raise0 INTERNAL_ERROR)"
proof (rule tenant_purge_blocked)
  show "forgotten_rows ''t1'' tagged_platform" by code_simp
  show "''t1'' \<in> set (tenant_ids tagged_platform)" by code_simp
  show "\<not> ur_dry_run demo_purge" by (rule demo_purge_real)
  show "\<lparr>lk_resource_type = ''tenant'', lk_resource_id = ''t1''\<rparr> \<notin> set (pf_locks tagged_platform)" by code_simp
qed

end
