(* ===== verification/Report_Model.thy ===== *)
theory Report_Model
  imports Sale_Model Request
begin

text \<open>
  Reports: \<^verbatim>\<open>services/reports.py\<close> and \<^verbatim>\<open>routers/reports.py\<close>. The sales, refunds, costs and vouchers of a
  store between two instants, by the day of the store's time zone. A time zone is what the tz database
  says of it: the wall time of an instant, and the instant of a wall time. Texts of dates and times are
  read by \<^verbatim>\<open>fromisoformat\<close>, a parameter.
\<close>

section \<open>Time zones and ranges\<close>

record time_zone =
  tz_local :: "time \<Rightarrow> time"
  tz_utc :: "time \<Rightarrow> time"

definition utc_zone :: time_zone where "utc_zone = \<lparr>tz_local = (\<lambda>t. t), tz_utc = (\<lambda>t. t)\<rparr>"

definition UTC_ALIASES :: "string list" where "UTC_ALIASES = [''UTC'', ''Z'', ''Etc/UTC'']"

definition normalize_timezone_name :: "string option \<Rightarrow> string" where
  "normalize_timezone_name n = (let tz = py_strip (the (py_or n (Some ''UTC''))) in if tz \<in> set UTC_ALIASES then ''UTC'' else tz)"

definition resolve_timezone :: "(string \<Rightarrow> time_zone option) \<Rightarrow> string option \<Rightarrow> time_zone res" where
  "resolve_timezone zones n = (let tz = normalize_timezone_name n in
     case zones tz of Some z \<Rightarrow> Inr z
     | None \<Rightarrow> if tz = ''UTC'' then Inr utc_zone else Inl (raise1 VALIDATION_ERROR ''invalid timezone''))"

text \<open>What \<^verbatim>\<open>fromisoformat\<close> makes of a text: a wall time without a zone, or an instant; a day.\<close>

datatype iso_time = Naive time | Aware time

record iso_parser =
  datetime_fromisoformat :: "string \<Rightarrow> iso_time option"
  date_fromisoformat :: "string \<Rightarrow> int option"

definition replace_Z :: "string \<Rightarrow> string" where
  "replace_Z s = concat (map (\<lambda>c. if c = CHR ''Z'' then ''+00:00'' else [c]) s)"

definition parse_datetime_or_date :: "iso_parser \<Rightarrow> string option \<Rightarrow> time_zone \<Rightarrow> time \<Rightarrow> (time \<times> bool) res" where
  "parse_datetime_or_date ip v tz dflt =
    (if falsy v then Inr (dflt, False)
     else let n = replace_Z (the v) in
       if CHR ''T'' \<in> set n \<or> CHR '':'' \<in> set n then
         (case datetime_fromisoformat ip n of
            None \<Rightarrow> Inl (raise1 VALIDATION_ERROR ''invalid datetime'')
          | Some (Naive w) \<Rightarrow> Inr (w, False)
          | Some (Aware t) \<Rightarrow> Inr (tz_local tz t, False))
       else (case date_fromisoformat ip n of
            None \<Rightarrow> Inl (raise1 VALIDATION_ERROR ''invalid date'')
          | Some d \<Rightarrow> Inr (days d, True)))"

record report_range =
  rg_start_local :: time
  rg_end_local :: time
  rg_start_utc :: time
  rg_end_utc :: time

definition resolve_date_range :: "iso_parser \<Rightarrow> time \<Rightarrow> string option \<Rightarrow> string option \<Rightarrow> time_zone \<Rightarrow> report_range res" where
  "resolve_date_range ip now from_value to_value tz =
    (let now_local = tz_local tz now in
     bindr (parse_datetime_or_date ip from_value tz (days (date_of now_local))) (\<lambda>(s, from_is_date).
     let start_local = (if from_is_date then days (date_of s) else s) in
     bindr (parse_datetime_or_date ip to_value tz now_local) (\<lambda>(e, to_is_date).
     let end_local = (if to_is_date then e + days 1 - 1 else e) in
     bindr (require (\<not> end_local < start_local) (raise1 VALIDATION_ERROR ''to must be greater than or equal to from'')) (\<lambda>_.
     Inr \<lparr>rg_start_local = start_local, rg_end_local = end_local, rg_start_utc = tz_utc tz start_local,
       rg_end_utc = tz_utc tz end_local\<rparr>))))"

definition start_date :: "report_range \<Rightarrow> int" where "start_date r = date_of (rg_start_local r)"
definition end_date :: "report_range \<Rightarrow> int" where "end_date r = date_of (rg_end_local r)"

definition validate_date_range :: "report_range \<Rightarrow> int \<Rightarrow> unit res" where
  "validate_date_range r max_days =
    (if max_days \<le> 0 then Inr ()
     else require (\<not> end_date r - start_date r + 1 > max_days) (raise1 VALIDATION_ERROR ''date range exceeds limit''))"

definition iter_dates :: "int \<Rightarrow> int \<Rightarrow> int list" where "iter_dates s e = [s..e]"

section \<open>Queries\<close>

text \<open>Whose report it is, and what the request filters by.\<close>

record report_scope =
  sc_tenant :: uuid
  sc_store :: uuid
  sc_start_utc :: time
  sc_end_utc :: time
  sc_cashier :: "string option"
  sc_method :: "string option"

definition in_range :: "report_scope \<Rightarrow> time \<Rightarrow> bool" where
  "in_range q t \<longleftrightarrow> sc_start_utc q \<le> t \<and> t \<le> sc_end_utc q"

definition paid_with :: "report_scope \<Rightarrow> sale_db \<Rightarrow> uuid \<Rightarrow> bool" where
  "paid_with q db i \<longleftrightarrow> falsy (sc_method q)
    \<or> list_ex (\<lambda>p. pp_tenant_id p = sc_tenant q \<and> Some (method_text (pp_method p)) = sc_method q \<and> pp_sale_id p = i) (sd_payments db)"

definition finalized_sale :: "report_scope \<Rightarrow> pos_sale \<Rightarrow> bool" where
  "finalized_sale q s \<longleftrightarrow> sl_tenant_id s = sc_tenant q \<and> sl_store_id s = sc_store q
    \<and> py_upper (sl_status s) \<in> set FINALIZED_SALE_STATUSES
    \<and> (case sl_checked_out_at s of None \<Rightarrow> False | Some t \<Rightarrow> in_range q t)"

definition by_cashier :: "report_scope \<Rightarrow> pos_sale \<Rightarrow> bool" where
  "by_cashier q s \<longleftrightarrow> falsy (sc_cashier q) \<or> sl_checked_out_by_user_id s = sc_cashier q"

definition paid_sales :: "report_scope \<Rightarrow> sale_db \<Rightarrow> pos_sale list" where
  "paid_sales q db = filter (\<lambda>s. finalized_sale q s \<and> by_cashier q s \<and> paid_with q db (sl_id s)) (sd_sales db)"

definition REPORTABLE_RETURN_ACTIONS :: "string list" where
  "REPORTABLE_RETURN_ACTIONS = [''REFUND_ITEMS'', ''EXCHANGE_ITEMS'']"

definition return_events :: "report_scope \<Rightarrow> sale_db \<Rightarrow> return_event list" where
  "return_events q db = filter (\<lambda>e. re_tenant_id e = sc_tenant q \<and> re_store_id e = sc_store q
     \<and> re_action e \<in> set REPORTABLE_RETURN_ACTIONS \<and> in_range q (re_created_at e)) (sd_returns db)"

definition refund_events :: "report_scope \<Rightarrow> sale_db \<Rightarrow> return_event list" where
  "refund_events q db = filter (\<lambda>e. (falsy (sc_cashier q) \<and> falsy (sc_method q)
       \<or> list_ex (\<lambda>s. sl_id s = re_sale_id e \<and> sl_tenant_id s = sc_tenant q \<and> sl_store_id s = sc_store q \<and> by_cashier q s) (sd_sales db))
     \<and> paid_with q db (re_sale_id e)) (return_events q db)"

section \<open>Sums by day\<close>

text \<open>A \<^verbatim>\<open>defaultdict\<close> of amounts.\<close>

definition add_at :: "'k \<Rightarrow> 'v::plus \<Rightarrow> ('k \<Rightarrow> 'v) \<Rightarrow> 'k \<Rightarrow> 'v" where
  "add_at k x d = d(k := d k + x)"

definition sum_by :: "('a \<Rightarrow> 'k) \<Rightarrow> ('a \<Rightarrow> 'v::{plus,zero}) \<Rightarrow> 'a list \<Rightarrow> 'k \<Rightarrow> 'v" where
  "sum_by key amount xs = fold (\<lambda>x. add_at (key x) (amount x)) xs (\<lambda>_. 0)"

text \<open>\<^verbatim>\<open>sale_line_totals\<close>: a sale without lines has none.\<close>

definition sale_line_total :: "sale_db \<Rightarrow> uuid \<Rightarrow> money option" where
  "sale_line_total db i = (case filter (\<lambda>l. ln_sale_id l = i) (sd_lines db) of
     [] \<Rightarrow> None | ls \<Rightarrow> Some (sum_list (map ln_line_total ls)))"

definition sale_amount :: "sale_db \<Rightarrow> pos_sale \<Rightarrow> money" where
  "sale_amount db s = (case sale_line_total db (sl_id s) of None \<Rightarrow> sl_total_due s | Some x \<Rightarrow> x)"

section \<open>Costs\<close>

definition own_stock :: "report_scope \<Rightarrow> sale_db \<Rightarrow> stock_item list" where
  "own_stock q db = filter (\<lambda>r. si_tenant_id r = sc_tenant q \<and> si_store_id r = Some (sc_store q)) (sd_stock db)"

text \<open>The one cost among the rows, where there is one row.\<close>

definition only_cost :: "stock_item list \<Rightarrow> money option option" where
  "only_cost rs = (case rs of [r] \<Rightarrow> Some (si_cost_price r) | _ \<Rightarrow> None)"

definition sold_key :: "sale_line \<Rightarrow> string option \<times> string option \<times> string option" where
  "sold_key l = (py_or (ln_sku_snapshot l) (ln_sku l), py_or (ln_var1_snapshot l) (ln_var1_value l),
     py_or (ln_var2_snapshot l) (ln_var2_value l))"

definition stock_key :: "stock_item \<Rightarrow> string option \<times> string option \<times> string option" where
  "stock_key r = (si_sku r, si_var1_value r, si_var2_value r)"

datatype cost_source = Snapshot_cost | Item_uid_cost | Epc_cost | Sku_variant_cost | Missing_cost

definition unit_cost_of :: "stock_item list \<Rightarrow> sale_line \<Rightarrow> money option \<times> cost_source" where
  "unit_cost_of rows l =
    (case ln_cost_price_snapshot l of
       Some c \<Rightarrow> (Some c, Snapshot_cost)
     | None \<Rightarrow>
         let by_uid = filter (\<lambda>r. Some (si_item_uid r) = ln_item_uid l) rows;
             epc = py_or (ln_epc_at_sale l) (ln_epc l)
         in if \<not> falsy (ln_item_uid l) \<and> by_uid \<noteq> [] then (si_cost_price (last by_uid), Item_uid_cost)
            else case (if falsy epc then None else only_cost (filter (\<lambda>r. si_epc r = epc) rows)) of
              Some c \<Rightarrow> (c, Epc_cost)
            | None \<Rightarrow>
                (case (if falsy (fst (sold_key l)) then None else only_cost (filter (\<lambda>r. stock_key r = sold_key l) rows)) of
                   Some c \<Rightarrow> (c, Sku_variant_cost)
                 | None \<Rightarrow> (None, Missing_cost)))"

definition line_cost :: "stock_item list \<Rightarrow> sale_line \<Rightarrow> money" where
  "line_cost rows l = quantize2 ((case fst (unit_cost_of rows l) of None \<Rightarrow> 0 | Some c \<Rightarrow> c) * of_int (ln_qty l))"

definition costed_lines :: "report_scope \<Rightarrow> sale_db \<Rightarrow> uuid list \<Rightarrow> sale_line list" where
  "costed_lines q db ids = filter (\<lambda>l. ln_tenant_id l = sc_tenant q \<and> ln_sale_id l \<in> set ids) (sd_lines db)"

record cost_diagnostics =
  cd_missing_lines :: int
  cd_missing_qty :: int
  cd_sources :: "cost_source \<Rightarrow> int"

definition cost_diagnostics_of :: "stock_item list \<Rightarrow> sale_line list \<Rightarrow> cost_diagnostics" where
  "cost_diagnostics_of rows ls =
    (let missing = filter (\<lambda>l. fst (unit_cost_of rows l) = None) ls
     in \<lparr>cd_missing_lines = int (length missing), cd_missing_qty = sum_list (map (\<lambda>l. max (ln_qty l) 0) missing),
         cd_sources = sum_by (\<lambda>l. snd (unit_cost_of rows l)) (\<lambda>_. 1) ls\<rparr>)"

text \<open>The cost a returned line gives back: that of a piece of a line of a sale of the report.\<close>

definition reversed_cost :: "(uuid \<Rightarrow> money) \<Rightarrow> (uuid \<Rightarrow> int) \<Rightarrow> string \<times> int \<Rightarrow> money" where
  "reversed_cost cost qty item = (let (line_id, n) = item in
     if line_id = [] \<or> n \<le> 0 \<or> cost line_id \<le> 0 then 0
     else quantize2 (quantize2 (cost line_id / of_int (max (qty line_id) 1)) * of_int n))"

definition event_reversal :: "(uuid \<Rightarrow> money) \<Rightarrow> (uuid \<Rightarrow> int) \<Rightarrow> return_event \<Rightarrow> money" where
  "event_reversal cost qty e = sum_list (map (reversed_cost cost qty) (payload_returned (re_payload e)))"

definition last_entry :: "('a \<Rightarrow> 'k) \<Rightarrow> ('a \<Rightarrow> 'v::zero) \<Rightarrow> 'a list \<Rightarrow> 'k \<Rightarrow> 'v" where
  "last_entry key val xs = fold (\<lambda>x d. d(key x := val x)) xs (\<lambda>_. 0)"

record daily_sums =
  ds_sales :: "int \<Rightarrow> money"
  ds_orders :: "int \<Rightarrow> int"
  ds_refunds :: "int \<Rightarrow> money"
  ds_cogs_gross :: "int \<Rightarrow> money"
  ds_cogs_reversed :: "int \<Rightarrow> money"
  ds_diagnostics :: cost_diagnostics

definition local_date :: "time_zone \<Rightarrow> time \<Rightarrow> int" where "local_date tz t = date_of (tz_local tz t)"

definition sale_date :: "time_zone \<Rightarrow> pos_sale \<Rightarrow> int" where
  "sale_date tz s = local_date tz (case sl_checked_out_at s of None \<Rightarrow> 0 | Some t \<Rightarrow> t)"

definition daily_sales_refunds :: "report_scope \<Rightarrow> time_zone \<Rightarrow> sale_db \<Rightarrow> daily_sums" where
  "daily_sales_refunds q tz db =
    (let sales = paid_sales q db; lines = costed_lines q db (map sl_id sales); rows = own_stock q db;
         cogs_by_sale = sum_by ln_sale_id (line_cost rows) lines;
         cost = last_entry ln_id (line_cost rows) lines; qty = last_entry ln_id ln_qty lines
     in \<lparr>ds_sales = sum_by (sale_date tz) (sale_amount db) sales,
         ds_orders = sum_by (sale_date tz) (\<lambda>_. 1) sales,
         ds_refunds = sum_by (\<lambda>e. local_date tz (re_created_at e)) re_refund_total (refund_events q db),
         ds_cogs_gross = sum_by (sale_date tz) (\<lambda>s. cogs_by_sale (sl_id s)) sales,
         ds_cogs_reversed = sum_by (\<lambda>e. local_date tz (re_created_at e)) (event_reversal cost qty) (return_events q db),
         ds_diagnostics = cost_diagnostics_of rows lines\<rparr>)"

section \<open>Vouchers and tenders\<close>

record liability_sums =
  li_issued_advances :: money
  li_issued_gift_cards :: money
  li_redeemed_advances :: money
  li_redeemed_gift_cards :: money
  li_refunded_advances :: money
  li_refunded_gift_cards :: money
  li_cash :: money
  li_card :: money
  li_transfer :: money

definition no_liability :: liability_sums where
  "no_liability = \<lparr>li_issued_advances = 0, li_issued_gift_cards = 0, li_redeemed_advances = 0, li_redeemed_gift_cards = 0,
     li_refunded_advances = 0, li_refunded_gift_cards = 0, li_cash = 0, li_card = 0, li_transfer = 0\<rparr>"

definition update_at :: "int \<Rightarrow> (liability_sums \<Rightarrow> liability_sums) \<Rightarrow> (int \<Rightarrow> liability_sums) \<Rightarrow> int \<Rightarrow> liability_sums" where
  "update_at day f d = d(day := f (d day))"

fun add_tender :: "payment_method \<Rightarrow> money \<Rightarrow> liability_sums \<Rightarrow> liability_sums" where
  "add_tender CASH x l = l\<lparr>li_cash := li_cash l + x\<rparr>"
| "add_tender CARD x l = l\<lparr>li_card := li_card l + x\<rparr>"
| "add_tender TRANSFER x l = l\<lparr>li_transfer := li_transfer l + x\<rparr>"
| "add_tender ADVANCE x l = l"

definition add_issued :: "pos_advance \<Rightarrow> liability_sums \<Rightarrow> liability_sums" where
  "add_issued a l = add_tender (pa_issued_payment_method a) (pa_issued_amount a)
    (if pa_voucher_type a = GIFT_CARD then l\<lparr>li_issued_gift_cards := li_issued_gift_cards l + pa_issued_amount a\<rparr>
     else l\<lparr>li_issued_advances := li_issued_advances l + pa_issued_amount a\<rparr>)"

definition add_redeemed :: "pos_advance \<Rightarrow> liability_sums \<Rightarrow> liability_sums" where
  "add_redeemed a l =
    (if pa_voucher_type a = GIFT_CARD then l\<lparr>li_redeemed_gift_cards := li_redeemed_gift_cards l + pa_issued_amount a\<rparr>
     else l\<lparr>li_redeemed_advances := li_redeemed_advances l + pa_issued_amount a\<rparr>)"

definition add_refunded :: "pos_advance \<Rightarrow> liability_sums \<Rightarrow> liability_sums" where
  "add_refunded a l =
    (if pa_voucher_type a = GIFT_CARD then l\<lparr>li_refunded_gift_cards := li_refunded_gift_cards l + pa_issued_amount a\<rparr>
     else l\<lparr>li_refunded_advances := li_refunded_advances l + pa_issued_amount a\<rparr>)"

definition issued_in :: "report_scope \<Rightarrow> sale_db \<Rightarrow> pos_advance list" where
  "issued_in q db = filter (\<lambda>a. pa_tenant_id a = sc_tenant q \<and> pa_store_id a = sc_store q \<and> in_range q (pa_issued_at a))
     (av_advances (sd_pos db))"

definition redeemed_in :: "report_scope \<Rightarrow> sale_db \<Rightarrow> (advance_event \<times> pos_advance) list" where
  "redeemed_in q db = concat (map (\<lambda>e. map (Pair e) (filter (\<lambda>a. pa_id a = ae_advance_id e) (av_advances (sd_pos db))))
     (filter (\<lambda>e. ae_tenant_id e = sc_tenant q \<and> ae_store_id e = sc_store q \<and> ae_action e = ''CONSUMED'' \<and> in_range q (ae_created_at e))
       (av_events (sd_pos db))))"

definition refunded_in :: "report_scope \<Rightarrow> sale_db \<Rightarrow> pos_advance list" where
  "refunded_in q db = filter (\<lambda>a. pa_tenant_id a = sc_tenant q \<and> pa_store_id a = sc_store q \<and> pa_status a = REFUNDED
       \<and> (case pa_refunded_at a of None \<Rightarrow> False | Some t \<Rightarrow> in_range q t)) (av_advances (sd_pos db))"

text \<open>The payments of the finalized sales, whoever the cashier.\<close>

definition tenders_in :: "report_scope \<Rightarrow> sale_db \<Rightarrow> (pos_sale \<times> pos_payment) list" where
  "tenders_in q db = concat (map (\<lambda>p. map (\<lambda>s. (s, p)) (filter (\<lambda>s. sl_id s = pp_sale_id p \<and> finalized_sale q s) (sd_sales db)))
     (sd_payments db))"

definition daily_liability_and_tender :: "report_scope \<Rightarrow> time_zone \<Rightarrow> sale_db \<Rightarrow> int \<Rightarrow> liability_sums" where
  "daily_liability_and_tender q tz db =
    fold (\<lambda>(s, p). update_at (sale_date tz s) (add_tender (pp_method p) (pp_amount p))) (tenders_in q db)
    (fold (\<lambda>a. update_at (local_date tz (case pa_refunded_at a of None \<Rightarrow> 0 | Some t \<Rightarrow> t)) (add_refunded a)) (refunded_in q db)
    (fold (\<lambda>(e, a). update_at (local_date tz (ae_created_at e)) (add_redeemed a)) (redeemed_in q db)
    (fold (\<lambda>a. update_at (local_date tz (pa_issued_at a)) (add_issued a)) (issued_in q db) (\<lambda>_. no_liability))))"

section \<open>Rows and totals\<close>

record report_row = liability_sums +
  rw_date :: int
  rw_gross_sales :: money
  rw_refunds_total :: money
  rw_net_sales :: money
  rw_cogs_gross :: money
  rw_cogs_reversed :: money
  rw_net_cogs :: money
  rw_net_profit :: money
  rw_orders :: int
  rw_average_ticket :: money
  rw_tender_total :: money

definition average_ticket :: "money \<Rightarrow> int \<Rightarrow> money" where
  "average_ticket net n = quantize2 (if n = 0 then 0 else net / of_int n)"

definition daily_row :: "daily_sums \<Rightarrow> int \<Rightarrow> report_row" where
  "daily_row d day =
    (let net_sales = ds_sales d day - ds_refunds d day; net_cogs = ds_cogs_gross d day - ds_cogs_reversed d day
     in \<lparr>li_issued_advances = 0, li_issued_gift_cards = 0, li_redeemed_advances = 0, li_redeemed_gift_cards = 0,
         li_refunded_advances = 0, li_refunded_gift_cards = 0, li_cash = 0, li_card = 0, li_transfer = 0,
         rw_date = day, rw_gross_sales = ds_sales d day, rw_refunds_total = ds_refunds d day, rw_net_sales = net_sales,
         rw_cogs_gross = ds_cogs_gross d day, rw_cogs_reversed = ds_cogs_reversed d day, rw_net_cogs = net_cogs,
         rw_net_profit = net_sales - net_cogs, rw_orders = ds_orders d day,
         rw_average_ticket = average_ticket net_sales (ds_orders d day), rw_tender_total = 0\<rparr>)"

definition build_daily_report_rows :: "daily_sums \<Rightarrow> int \<Rightarrow> int \<Rightarrow> report_row list" where
  "build_daily_report_rows d s e = map (daily_row d) (iter_dates s e)"

definition apply_liability :: "(int \<Rightarrow> liability_sums) \<Rightarrow> report_row \<Rightarrow> report_row" where
  "apply_liability by_day r = (let l = by_day (rw_date r) in
     r\<lparr>li_issued_advances := li_issued_advances l, li_issued_gift_cards := li_issued_gift_cards l,
       li_redeemed_advances := li_redeemed_advances l, li_redeemed_gift_cards := li_redeemed_gift_cards l,
       li_refunded_advances := li_refunded_advances l, li_refunded_gift_cards := li_refunded_gift_cards l,
       li_cash := li_cash l, li_card := li_card l, li_transfer := li_transfer l,
       rw_tender_total := li_cash l + li_card l + li_transfer l\<rparr>)"

definition apply_liability_and_tender_rows :: "report_scope \<Rightarrow> time_zone \<Rightarrow> sale_db \<Rightarrow> report_row list \<Rightarrow> report_row list" where
  "apply_liability_and_tender_rows q tz db rs = map (apply_liability (daily_liability_and_tender q tz db)) rs"

text \<open>The totals are a row without a date.\<close>

definition build_report_totals :: "report_row list \<Rightarrow> report_row" where
  "build_report_totals rs =
    (let total = (\<lambda>f. sum_list (map f rs)); orders = sum_list (map rw_orders rs); net = total rw_net_sales
     in \<lparr>li_issued_advances = total li_issued_advances, li_issued_gift_cards = total li_issued_gift_cards,
         li_redeemed_advances = total li_redeemed_advances, li_redeemed_gift_cards = total li_redeemed_gift_cards,
         li_refunded_advances = total li_refunded_advances, li_refunded_gift_cards = total li_refunded_gift_cards,
         li_cash = total li_cash, li_card = total li_card, li_transfer = total li_transfer,
         rw_date = 0, rw_gross_sales = total rw_gross_sales, rw_refunds_total = total rw_refunds_total, rw_net_sales = net,
         rw_cogs_gross = total rw_cogs_gross, rw_cogs_reversed = total rw_cogs_reversed, rw_net_cogs = total rw_net_cogs,
         rw_net_profit = total rw_net_profit, rw_orders = orders, rw_average_ticket = average_ticket net orders,
         rw_tender_total = total li_cash + total li_card + total li_transfer\<rparr>)"

definition eligible_sales_count :: "report_scope \<Rightarrow> sale_db \<Rightarrow> int" where
  "eligible_sales_count q db = int (length (paid_sales q db))"

section \<open>The routes\<close>

record report_request =
  rp_store_id :: "string option"
  rp_from :: "string option"
  rp_to :: "string option"
  rp_timezone :: "string option"
  rp_cashier :: "string option"
  rp_payment_method :: "string option"

definition report_store_id :: "token_data \<Rightarrow> string option \<Rightarrow> uuid res" where
  "report_store_id td sid = (if \<not> falsy sid then Inr (the sid)
     else if \<not> falsy (td_store_id td) then Inr (the (td_store_id td)) else Inl (raise0 STORE_SCOPE_REQUIRED))"

text \<open>Before a report: the permission, the store, the range. No route of this router asks whether the user is
  still active.\<close>

definition report_before ::
    "(string \<Rightarrow> time_zone option) \<Rightarrow> iso_parser \<Rightarrow> int \<Rightarrow> request_env \<Rightarrow> report_request
      \<Rightarrow> (report_scope \<times> time_zone \<times> report_range) res" where
  "report_before zones ip max_days env p =
    bindr (require_permission (rq_ac env) [] ''REPORTS_VIEW'' (rq_context env) (rq_token env)) (\<lambda>_.
    bindr (report_store_id (rq_token env) (rp_store_id p)) (\<lambda>sid.
    bindr (enforce_store_scope (rq_token env) (Some sid) (stores (rq_directory env)) True (Some DEFAULT_BROAD_STORE_ROLES)) (\<lambda>store.
    bindr (resolve_timezone zones (rp_timezone p)) (\<lambda>tz.
    bindr (resolve_date_range ip (rq_now env) (rp_from p) (rp_to p) tz) (\<lambda>r.
    bindr (validate_date_range r max_days) (\<lambda>_.
    Inr (\<lparr>sc_tenant = st_tenant_id store, sc_store = sid, sc_start_utc = rg_start_utc r, sc_end_utc = rg_end_utc r,
      sc_cashier = rp_cashier p, sc_method = rp_payment_method p\<rparr>, tz, r)))))))"

record report =
  ro_scope :: report_scope
  ro_range :: report_range
  ro_totals :: report_row
  ro_rows :: "report_row list"
  ro_eligible :: "(uuid \<times> int) list"

definition report_rows :: "report_scope \<Rightarrow> time_zone \<Rightarrow> report_range \<Rightarrow> sale_db \<Rightarrow> report_row list" where
  "report_rows q tz r db = apply_liability_and_tender_rows q tz db
     (build_daily_report_rows (daily_sales_refunds q tz db) (start_date r) (end_date r))"

definition report_daily ::
    "(string \<Rightarrow> time_zone option) \<Rightarrow> iso_parser \<Rightarrow> int \<Rightarrow> request_env \<Rightarrow> report_request \<Rightarrow> sale_db \<Rightarrow> report res" where
  "report_daily zones ip max_days env p db =
    bindr (report_before zones ip max_days env p) (\<lambda>(q, tz, r).
    let rows = report_rows q tz r db
    in Inr \<lparr>ro_scope = q, ro_range = r, ro_totals = build_report_totals rows, ro_rows = rows,
         ro_eligible = [(sc_store q, eligible_sales_count q db)]\<rparr>)"

definition report_overview ::
    "(string \<Rightarrow> time_zone option) \<Rightarrow> iso_parser \<Rightarrow> int \<Rightarrow> request_env \<Rightarrow> report_request \<Rightarrow> sale_db \<Rightarrow> report_row res" where
  "report_overview zones ip max_days env p db = bindr (report_daily zones ip max_days env p db) (\<lambda>o'. Inr (ro_totals o'))"

definition report_calendar ::
    "(string \<Rightarrow> time_zone option) \<Rightarrow> iso_parser \<Rightarrow> int \<Rightarrow> request_env \<Rightarrow> report_request \<Rightarrow> sale_db
      \<Rightarrow> (report_row \<times> (int \<times> money \<times> money \<times> int) list) res" where
  "report_calendar zones ip max_days env p db = bindr (report_daily zones ip max_days env p db) (\<lambda>o'.
     Inr (ro_totals o', map (\<lambda>r. (rw_date r, rw_net_sales r, rw_net_profit r, rw_orders r)) (ro_rows o')))"

end
