(* ===== verification/Report_Properties.thy ===== *)
theory Report_Properties
  imports Report_Model Sale_Demo
begin

text \<open>
  What a report adds up to: every finalized sale, refund, cost and payment of the range is on the row of
  exactly one day, so the totals are the sums over the rows of the tables.
\<close>

section \<open>Sums by day\<close>

lemma fold_add_at: "fold (\<lambda>x. add_at (key x) (f x)) xs d k = d k + sum_by key f xs k" for f :: "'a \<Rightarrow> 'v::monoid_add"
proof (induction xs arbitrary: d)
  case Nil
  show ?case by (simp add: sum_by_def)
next
  case (Cons x xs)
  have "sum_by key f (x # xs) k = add_at (key x) (f x) (\<lambda>_. 0) k + sum_by key f xs k"
    using Cons.IH [of "add_at (key x) (f x) (\<lambda>_. 0)"] by (simp add: sum_by_def)
  then show ?case using Cons.IH [of "add_at (key x) (f x) d"] by (simp add: add_at_def add.assoc)
qed

lemma sum_by_Nil [simp]: "sum_by key f [] k = 0"
  by (simp add: sum_by_def)

lemma sum_by_Cons: "sum_by key f (x # xs) k = (if key x = k then f x else 0) + sum_by key f xs k" for f :: "'a \<Rightarrow> 'v::monoid_add"
  using fold_add_at [of key f "[x]" "\<lambda>_. 0" k] fold_add_at [of key f xs "add_at (key x) (f x) (\<lambda>_. 0)" k]
  by (auto simp: sum_by_def add_at_def)

lemma sum_none: "k \<notin> set D \<Longrightarrow> sum_list (map (\<lambda>d. if k = d then x else 0) D) = 0" for x :: "'v::comm_monoid_add"
  by (induction D) simp_all

lemma sum_one: "distinct D \<Longrightarrow> k \<in> set D \<Longrightarrow> sum_list (map (\<lambda>d. if k = d then x else 0) D) = x" for x :: "'v::comm_monoid_add"
proof (induction D)
  case (Cons d D)
  then show ?case by (cases "k = d") (simp_all add: sum_none)
qed simp

text \<open>The sums over days that cover the keys are the sum over the rows.\<close>

lemma sum_by_total:
  fixes f :: "'a \<Rightarrow> 'v::comm_monoid_add"
  assumes "distinct D" and "\<And>x. x \<in> set xs \<Longrightarrow> key x \<in> set D"
  shows "sum_list (map (sum_by key f xs) D) = sum_list (map f xs)"
  using assms(2)
proof (induction xs)
  case Nil
  show ?case by (simp add: sum_list_0)
next
  case (Cons x xs)
  have "sum_by key f (x # xs) = (\<lambda>k. (if key x = k then f x else 0) + sum_by key f xs k)"
    by (rule ext) (rule sum_by_Cons)
  then show ?case using Cons sum_one [OF assms(1), of "key x" "f x"] by (simp add: sum_list_addf)
qed

text \<open>Days are in order: what happens from a wall time on happens on its day or later, and likewise before it.
  It holds of every zone whose clock is never set back across midnight.\<close>

definition days_in_order :: "time_zone \<Rightarrow> bool" where
  "days_in_order tz \<longleftrightarrow> (\<forall>w t. (tz_utc tz w \<le> t \<longrightarrow> date_of w \<le> local_date tz t)
     \<and> (t \<le> tz_utc tz w \<longrightarrow> local_date tz t \<le> date_of w))"

lemma utc_days: "days_in_order utc_zone"
  by (auto simp: days_in_order_def utc_zone_def local_date_def date_of_def microseconds_per_day_def intro: zdiv_mono1)

definition scope_of :: "report_scope \<Rightarrow> time_zone \<Rightarrow> report_range \<Rightarrow> bool" where
  "scope_of q tz r \<longleftrightarrow> sc_start_utc q = tz_utc tz (rg_start_local r) \<and> sc_end_utc q = tz_utc tz (rg_end_local r)"

lemma day_in_range:
  assumes "days_in_order tz" and "scope_of q tz r" and "in_range q t"
  shows "local_date tz t \<in> set (iter_dates (start_date r) (end_date r))"
  using assms by (auto simp: days_in_order_def scope_of_def in_range_def iter_dates_def start_date_def end_date_def)

lemma sale_day:
  assumes "days_in_order tz" and "scope_of q tz r" and "finalized_sale q s"
  shows "sale_date tz s \<in> set (iter_dates (start_date r) (end_date r))"
  using day_in_range [OF assms(1,2)] assms(3) by (auto simp: finalized_sale_def sale_date_def split: option.splits)

lemma distinct_days: "distinct (iter_dates s e)"
  by (simp add: iter_dates_def)

lemma report_Inr:
  assumes "report_daily zones ip max_days env p db = Inr rep"
  obtains tz where "resolve_timezone zones (rp_timezone p) = Inr tz" "scope_of (ro_scope rep) tz (ro_range rep)"
    "ro_rows rep = report_rows (ro_scope rep) tz (ro_range rep) db" "ro_totals rep = build_report_totals (ro_rows rep)"
    "ro_eligible rep = [(sc_store (ro_scope rep), eligible_sales_count (ro_scope rep) db)]"
  using assms by (auto simp: report_daily_def report_before_def resolve_date_range_def Let_def bindr_Inr_iff scope_of_def split: prod.splits)

lemma row_simps:
  "rw_date (apply_liability by_day (daily_row d k)) = k"
  "rw_gross_sales (apply_liability by_day (daily_row d k)) = ds_sales d k"
  "rw_refunds_total (apply_liability by_day (daily_row d k)) = ds_refunds d k"
  "rw_net_sales (apply_liability by_day (daily_row d k)) = ds_sales d k - ds_refunds d k"
  "rw_cogs_gross (apply_liability by_day (daily_row d k)) = ds_cogs_gross d k"
  "rw_cogs_reversed (apply_liability by_day (daily_row d k)) = ds_cogs_reversed d k"
  "rw_net_profit (apply_liability by_day (daily_row d k)) = ds_sales d k - ds_refunds d k - (ds_cogs_gross d k - ds_cogs_reversed d k)"
  "rw_orders (apply_liability by_day (daily_row d k)) = ds_orders d k"
  by (simp_all add: apply_liability_def daily_row_def Let_def)

lemma rows_eq:
  "report_rows q tz r db = map (\<lambda>k. apply_liability (daily_liability_and_tender q tz db) (daily_row (daily_sales_refunds q tz db) k))
     (iter_dates (start_date r) (end_date r))"
  by (simp add: report_rows_def apply_liability_and_tender_rows_def build_daily_report_rows_def comp_def)

lemma totals_simps:
  "rw_gross_sales (build_report_totals rs) = sum_list (map rw_gross_sales rs)"
  "rw_refunds_total (build_report_totals rs) = sum_list (map rw_refunds_total rs)"
  "rw_cogs_gross (build_report_totals rs) = sum_list (map rw_cogs_gross rs)"
  "rw_cogs_reversed (build_report_totals rs) = sum_list (map rw_cogs_reversed rs)"
  "rw_net_profit (build_report_totals rs) = sum_list (map rw_net_profit rs)"
  "rw_orders (build_report_totals rs) = sum_list (map rw_orders rs)"
  "rw_tender_total (build_report_totals rs) = sum_list (map li_cash rs) + sum_list (map li_card rs) + sum_list (map li_transfer rs)"
  by (simp_all add: build_report_totals_def Let_def)

text \<open>The costs of the sales are the costs of their lines.\<close>

lemma costs_by_sale:
  fixes cost :: "sale_line \<Rightarrow> money"
  assumes "distinct ids" and "\<And>l. l \<in> set ls \<Longrightarrow> ln_sale_id l \<in> set ids"
  shows "sum_list (map (sum_by ln_sale_id cost ls) ids) = sum_list (map cost ls)"
  by (rule sum_by_total [OF assms])

lemma costed_sale: "l \<in> set (costed_lines q db ids) \<Longrightarrow> ln_sale_id l \<in> set ids"
  by (simp add: costed_lines_def)

text \<open>C36: A report accounts for every finalized sale and every refund of its range on exactly one of its days:
  the rows are the days of the range, the orders and amounts of the totals are those of the sales, the refunds
  and the lines sold, and the profit is what is left of the sales.\<close>

theorem report_adds_up:
  assumes "report_daily zones ip max_days env p db = Inr rep"
    and "\<And>tz. resolve_timezone zones (rp_timezone p) = Inr tz \<Longrightarrow> days_in_order tz"
    and "distinct (map sl_id (sd_sales db))"
  shows "map rw_date (ro_rows rep) = iter_dates (start_date (ro_range rep)) (end_date (ro_range rep))
    \<and> ro_eligible rep = [(sc_store (ro_scope rep), rw_orders (ro_totals rep))]
    \<and> rw_orders (ro_totals rep) = int (length (paid_sales (ro_scope rep) db))
    \<and> rw_gross_sales (ro_totals rep) = sum_list (map (sale_amount db) (paid_sales (ro_scope rep) db))
    \<and> rw_refunds_total (ro_totals rep) = sum_list (map re_refund_total (refund_events (ro_scope rep) db))
    \<and> rw_cogs_gross (ro_totals rep) = sum_list (map (line_cost (own_stock (ro_scope rep) db))
        (costed_lines (ro_scope rep) db (map sl_id (paid_sales (ro_scope rep) db))))
    \<and> rw_net_profit (ro_totals rep) = rw_gross_sales (ro_totals rep) - rw_refunds_total (ro_totals rep)
        - (rw_cogs_gross (ro_totals rep) - rw_cogs_reversed (ro_totals rep))"
proof -
  obtain tz where tz: "resolve_timezone zones (rp_timezone p) = Inr tz" and q: "scope_of (ro_scope rep) tz (ro_range rep)"
    and rows: "ro_rows rep = report_rows (ro_scope rep) tz (ro_range rep) db" and totals: "ro_totals rep = build_report_totals (ro_rows rep)"
    and count: "ro_eligible rep = [(sc_store (ro_scope rep), eligible_sales_count (ro_scope rep) db)]"
    using assms(1) by (rule report_Inr)
  define sc where "sc = ro_scope rep"
  define D where "D = iter_dates (start_date (ro_range rep)) (end_date (ro_range rep))"
  define d where "d = daily_sales_refunds sc tz db"
  define lines where "lines = costed_lines sc db (map sl_id (paid_sales sc db))"
  have order: "days_in_order tz" using assms(2) [OF tz] .
  have sale: "sale_date tz s \<in> set D" if "s \<in> set (paid_sales sc db)" for s
    using that sale_day [OF order q] by (simp add: paid_sales_def D_def sc_def)
  have event: "local_date tz (re_created_at e) \<in> set D" if "e \<in> set (return_events sc db)" for e
    using that day_in_range [OF order q] by (simp add: return_events_def D_def sc_def)
  have refund: "local_date tz (re_created_at e) \<in> set D" if "e \<in> set (refund_events sc db)" for e
    using that event by (simp add: refund_events_def)
  have dist: "distinct D" by (simp add: D_def distinct_days)
  have sums: "sum_list (map (ds_sales d) D) = sum_list (map (sale_amount db) (paid_sales sc db))"
    "sum_list (map (ds_orders d) D) = int (length (paid_sales sc db))"
    "sum_list (map (ds_refunds d) D) = sum_list (map re_refund_total (refund_events sc db))"
    using sum_by_total [OF dist sale, where f = "sale_amount db"] sum_by_total [OF dist sale, where f = "\<lambda>_. 1 :: int"]
      sum_by_total [OF dist refund, where f = re_refund_total]
    by (simp_all add: d_def daily_sales_refunds_def Let_def sum_list_triv)
  have ids: "distinct (map sl_id (paid_sales sc db))" using assms(3) by (simp add: paid_sales_def distinct_map_filter)
  have "sum_list (map (ds_cogs_gross d) D) = sum_list (map (sum_by ln_sale_id (line_cost (own_stock sc db)) lines) (map sl_id (paid_sales sc db)))"
    using sum_by_total [OF dist sale, where f = "\<lambda>s. sum_by ln_sale_id (line_cost (own_stock sc db)) lines (sl_id s)"]
    by (simp add: d_def daily_sales_refunds_def Let_def lines_def comp_def)
  also have "\<dots> = sum_list (map (line_cost (own_stock sc db)) lines)"
    unfolding lines_def by (rule costs_by_sale [OF ids costed_sale])
  finally have cogs: "sum_list (map (ds_cogs_gross d) D) = sum_list (map (line_cost (own_stock sc db)) lines)" .
  have r: "map f (ro_rows rep) = map (\<lambda>k. f (apply_liability (daily_liability_and_tender sc tz db) (daily_row d k))) D" for f :: "report_row \<Rightarrow> 'a"
    by (simp add: rows rows_eq comp_def d_def D_def sc_def)
  show ?thesis
    unfolding totals totals_simps count sc_def [symmetric] D_def [symmetric] r row_simps
    using sums cogs by (simp add: sum_list_subtractf eligible_sales_count_def lines_def r)
qed

section \<open>Vouchers and tenders\<close>

lemma fold_update_at:
  fixes g :: "liability_sums \<Rightarrow> money"
  assumes "\<And>x l. g (h x l) = g l + a x"
  shows "g (fold (\<lambda>x. update_at (key x) (h x)) xs d k) = g (d k) + sum_by key a xs k"
proof (induction xs arbitrary: d)
  case (Cons x xs)
  show ?case using Cons.IH [of "update_at (key x) (h x) d"] assms by (simp add: sum_by_Cons update_at_def)
qed simp

definition received :: "payment_method \<Rightarrow> money \<Rightarrow> money" where
  "received m x = (if m = ADVANCE then 0 else x)"

definition tender_sum :: "liability_sums \<Rightarrow> money" where
  "tender_sum l = li_cash l + li_card l + li_transfer l"

definition issued_sum :: "liability_sums \<Rightarrow> money" where
  "issued_sum l = li_issued_advances l + li_issued_gift_cards l"

definition redeemed_sum :: "liability_sums \<Rightarrow> money" where
  "redeemed_sum l = li_redeemed_advances l + li_redeemed_gift_cards l"

definition refunded_sum :: "liability_sums \<Rightarrow> money" where
  "refunded_sum l = li_refunded_advances l + li_refunded_gift_cards l"

lemmas sum_defs = tender_sum_def issued_sum_def redeemed_sum_def refunded_sum_def

lemma tender_sums:
  "tender_sum (add_tender m x l) = tender_sum l + received m x" "issued_sum (add_tender m x l) = issued_sum l + 0"
  "redeemed_sum (add_tender m x l) = redeemed_sum l + 0" "refunded_sum (add_tender m x l) = refunded_sum l + 0"
  by (cases m; simp add: sum_defs received_def)+

lemma issued_sums:
  "tender_sum (add_issued a l) = tender_sum l + received (pa_issued_payment_method a) (pa_issued_amount a)"
  "issued_sum (add_issued a l) = issued_sum l + pa_issued_amount a"
  "redeemed_sum (add_issued a l) = redeemed_sum l + 0" "refunded_sum (add_issued a l) = refunded_sum l + 0"
  by (simp_all add: add_issued_def tender_sums) (simp_all add: sum_defs)

lemma redeemed_sums:
  "tender_sum (add_redeemed a l) = tender_sum l + 0" "issued_sum (add_redeemed a l) = issued_sum l + 0"
  "redeemed_sum (add_redeemed a l) = redeemed_sum l + pa_issued_amount a" "refunded_sum (add_redeemed a l) = refunded_sum l + 0"
  by (simp_all add: add_redeemed_def sum_defs)

lemma refunded_sums:
  "tender_sum (add_refunded a l) = tender_sum l + 0" "issued_sum (add_refunded a l) = issued_sum l + 0"
  "redeemed_sum (add_refunded a l) = redeemed_sum l + 0" "refunded_sum (add_refunded a l) = refunded_sum l + pa_issued_amount a"
  by (simp_all add: add_refunded_def sum_defs)

lemmas add_sums = tender_sums issued_sums redeemed_sums refunded_sums

text \<open>The days of the four kinds of rows.\<close>

definition issue_day :: "time_zone \<Rightarrow> pos_advance \<Rightarrow> int" where "issue_day tz a = local_date tz (pa_issued_at a)"
definition redeem_day :: "time_zone \<Rightarrow> advance_event \<times> pos_advance \<Rightarrow> int" where
  "redeem_day tz x = local_date tz (ae_created_at (fst x))"
definition refund_day :: "time_zone \<Rightarrow> pos_advance \<Rightarrow> int" where
  "refund_day tz a = local_date tz (case pa_refunded_at a of None \<Rightarrow> 0 | Some t \<Rightarrow> t)"
definition tender_day :: "time_zone \<Rightarrow> pos_sale \<times> pos_payment \<Rightarrow> int" where "tender_day tz x = sale_date tz (fst x)"

lemma liability_folds:
  "daily_liability_and_tender q tz db =
    fold (\<lambda>x. update_at (tender_day tz x) (add_tender (pp_method (snd x)) (pp_amount (snd x)))) (tenders_in q db)
    (fold (\<lambda>a. update_at (refund_day tz a) (add_refunded a)) (refunded_in q db)
    (fold (\<lambda>x. update_at (redeem_day tz x) (add_redeemed (snd x))) (redeemed_in q db)
    (fold (\<lambda>a. update_at (issue_day tz a) (add_issued a)) (issued_in q db) (\<lambda>_. no_liability))))"
  by (simp add: daily_liability_and_tender_def issue_day_def redeem_day_def refund_day_def tender_day_def case_prod_beta')

lemma zero_sums [simp]: "tender_sum no_liability = 0" "issued_sum no_liability = 0" "redeemed_sum no_liability = 0"
  "refunded_sum no_liability = 0"
  by (simp_all add: no_liability_def tender_sum_def issued_sum_def redeemed_sum_def refunded_sum_def)

lemma sum_by_zero [simp]: "sum_by key (\<lambda>_. 0) xs k = (0 :: money)"
  by (induction xs) (simp_all add: sum_by_Cons)

lemmas tender_folds = fold_update_at [where g = tender_sum, OF add_sums(1)] fold_update_at [where g = tender_sum, OF add_sums(5)]
  fold_update_at [where g = tender_sum, OF add_sums(9)] fold_update_at [where g = tender_sum, OF add_sums(13)]
lemmas issued_folds = fold_update_at [where g = issued_sum, OF add_sums(2)] fold_update_at [where g = issued_sum, OF add_sums(6)]
  fold_update_at [where g = issued_sum, OF add_sums(10)] fold_update_at [where g = issued_sum, OF add_sums(14)]
lemmas redeemed_folds = fold_update_at [where g = redeemed_sum, OF add_sums(3)] fold_update_at [where g = redeemed_sum, OF add_sums(7)]
  fold_update_at [where g = redeemed_sum, OF add_sums(11)] fold_update_at [where g = redeemed_sum, OF add_sums(15)]
lemmas refunded_folds = fold_update_at [where g = refunded_sum, OF add_sums(4)] fold_update_at [where g = refunded_sum, OF add_sums(8)]
  fold_update_at [where g = refunded_sum, OF add_sums(12)] fold_update_at [where g = refunded_sum, OF add_sums(16)]

lemma day_sums:
  "tender_sum (daily_liability_and_tender q tz db k) =
    sum_by (issue_day tz) (\<lambda>a. received (pa_issued_payment_method a) (pa_issued_amount a)) (issued_in q db) k
    + sum_by (tender_day tz) (\<lambda>x. received (pp_method (snd x)) (pp_amount (snd x))) (tenders_in q db) k"
  "issued_sum (daily_liability_and_tender q tz db k) = sum_by (issue_day tz) pa_issued_amount (issued_in q db) k"
  "redeemed_sum (daily_liability_and_tender q tz db k) = sum_by (redeem_day tz) (\<lambda>x. pa_issued_amount (snd x)) (redeemed_in q db) k"
  "refunded_sum (daily_liability_and_tender q tz db k) = sum_by (refund_day tz) pa_issued_amount (refunded_in q db) k"
  unfolding liability_folds by (simp_all add: tender_folds issued_folds redeemed_folds refunded_folds)

lemma liability_days:
  assumes "days_in_order tz" and "scope_of q tz r"
  shows "a \<in> set (issued_in q db) \<Longrightarrow> issue_day tz a \<in> set (iter_dates (start_date r) (end_date r))"
    "x \<in> set (redeemed_in q db) \<Longrightarrow> redeem_day tz x \<in> set (iter_dates (start_date r) (end_date r))"
    "a \<in> set (refunded_in q db) \<Longrightarrow> refund_day tz a \<in> set (iter_dates (start_date r) (end_date r))"
    "y \<in> set (tenders_in q db) \<Longrightarrow> tender_day tz y \<in> set (iter_dates (start_date r) (end_date r))"
proof -
  note d = day_in_range [OF assms]
  show "a \<in> set (issued_in q db) \<Longrightarrow> issue_day tz a \<in> set (iter_dates (start_date r) (end_date r))"
    using d by (simp add: issued_in_def issue_day_def)
  show "x \<in> set (redeemed_in q db) \<Longrightarrow> redeem_day tz x \<in> set (iter_dates (start_date r) (end_date r))"
    using d by (auto simp: redeemed_in_def redeem_day_def)
  show "a \<in> set (refunded_in q db) \<Longrightarrow> refund_day tz a \<in> set (iter_dates (start_date r) (end_date r))"
    using d by (auto simp: refunded_in_def refund_day_def split: option.splits)
  show "y \<in> set (tenders_in q db) \<Longrightarrow> tender_day tz y \<in> set (iter_dates (start_date r) (end_date r))"
    using sale_day [OF assms] by (auto simp: tenders_in_def tender_day_def)
qed

lemma liability_rows:
  "li_issued_advances (apply_liability by_day (daily_row d k)) = li_issued_advances (by_day k)"
  "li_issued_gift_cards (apply_liability by_day (daily_row d k)) = li_issued_gift_cards (by_day k)"
  "li_redeemed_advances (apply_liability by_day (daily_row d k)) = li_redeemed_advances (by_day k)"
  "li_redeemed_gift_cards (apply_liability by_day (daily_row d k)) = li_redeemed_gift_cards (by_day k)"
  "li_refunded_advances (apply_liability by_day (daily_row d k)) = li_refunded_advances (by_day k)"
  "li_refunded_gift_cards (apply_liability by_day (daily_row d k)) = li_refunded_gift_cards (by_day k)"
  "li_cash (apply_liability by_day (daily_row d k)) = li_cash (by_day k)"
  "li_card (apply_liability by_day (daily_row d k)) = li_card (by_day k)"
  "li_transfer (apply_liability by_day (daily_row d k)) = li_transfer (by_day k)"
  by (simp_all add: apply_liability_def daily_row_def Let_def)

lemma liability_totals:
  "li_issued_advances (build_report_totals rs) = sum_list (map li_issued_advances rs)"
  "li_issued_gift_cards (build_report_totals rs) = sum_list (map li_issued_gift_cards rs)"
  "li_redeemed_advances (build_report_totals rs) = sum_list (map li_redeemed_advances rs)"
  "li_redeemed_gift_cards (build_report_totals rs) = sum_list (map li_redeemed_gift_cards rs)"
  "li_refunded_advances (build_report_totals rs) = sum_list (map li_refunded_advances rs)"
  "li_refunded_gift_cards (build_report_totals rs) = sum_list (map li_refunded_gift_cards rs)"
  by (simp_all add: build_report_totals_def Let_def)

text \<open>The totals of a report as sums over its days.\<close>

lemma liability_over_days:
  assumes "rs = report_rows q tz r db"
  shows "rw_tender_total (build_report_totals rs)
      = sum_list (map (\<lambda>k. tender_sum (daily_liability_and_tender q tz db k)) (iter_dates (start_date r) (end_date r)))"
    "li_issued_advances (build_report_totals rs) + li_issued_gift_cards (build_report_totals rs)
      = sum_list (map (\<lambda>k. issued_sum (daily_liability_and_tender q tz db k)) (iter_dates (start_date r) (end_date r)))"
    "li_redeemed_advances (build_report_totals rs) + li_redeemed_gift_cards (build_report_totals rs)
      = sum_list (map (\<lambda>k. redeemed_sum (daily_liability_and_tender q tz db k)) (iter_dates (start_date r) (end_date r)))"
    "li_refunded_advances (build_report_totals rs) + li_refunded_gift_cards (build_report_totals rs)
      = sum_list (map (\<lambda>k. refunded_sum (daily_liability_and_tender q tz db k)) (iter_dates (start_date r) (end_date r)))"
  by (simp_all add: assms rows_eq totals_simps liability_totals comp_def liability_rows sum_defs sum_list_addf)

text \<open>C37: The tenders of a report are what the vouchers issued and the finalized sales of its range were paid
  with, apart from vouchers, and its liabilities are the amounts of the vouchers issued, redeemed and
  refunded; none is lost or counted on two days.\<close>

theorem report_tenders_add_up:
  assumes "report_daily zones ip max_days env p db = Inr rep"
    and "\<And>tz. resolve_timezone zones (rp_timezone p) = Inr tz \<Longrightarrow> days_in_order tz"
  shows "rw_tender_total (ro_totals rep)
      = sum_list (map (\<lambda>a. received (pa_issued_payment_method a) (pa_issued_amount a)) (issued_in (ro_scope rep) db))
        + sum_list (map (\<lambda>x. received (pp_method (snd x)) (pp_amount (snd x))) (tenders_in (ro_scope rep) db))
    \<and> li_issued_advances (ro_totals rep) + li_issued_gift_cards (ro_totals rep)
      = sum_list (map pa_issued_amount (issued_in (ro_scope rep) db))
    \<and> li_redeemed_advances (ro_totals rep) + li_redeemed_gift_cards (ro_totals rep)
      = sum_list (map (\<lambda>x. pa_issued_amount (snd x)) (redeemed_in (ro_scope rep) db))
    \<and> li_refunded_advances (ro_totals rep) + li_refunded_gift_cards (ro_totals rep)
      = sum_list (map pa_issued_amount (refunded_in (ro_scope rep) db))"
proof -
  obtain tz where tz: "resolve_timezone zones (rp_timezone p) = Inr tz" and q: "scope_of (ro_scope rep) tz (ro_range rep)"
    and rows: "ro_rows rep = report_rows (ro_scope rep) tz (ro_range rep) db" and totals: "ro_totals rep = build_report_totals (ro_rows rep)"
    using assms(1) by (rule report_Inr)
  note dist = distinct_days [of "start_date (ro_range rep)" "end_date (ro_range rep)"]
  note days = liability_days [OF assms(2) [OF tz] q]
  show ?thesis
    unfolding totals liability_over_days [OF rows] day_sums sum_list_addf
    by (intro conjI arg_cong2 [where f = "(+)"] sum_by_total [OF dist]) (erule days)+
qed

section \<open>What returns give back\<close>

text \<open>A return gives back the cost of a piece only if the sale is in the report too: what comes back from a
  sale of before the range, or of another cashier, reverses no cost, although its refund is counted.\<close>

lemma last_entry_none: "k \<notin> key ` set xs \<Longrightarrow> last_entry key val xs k = 0"
proof -
  have "k \<notin> key ` set xs \<Longrightarrow> fold (\<lambda>x d. d(key x := val x)) xs d k = d k" for d
    by (induction xs arbitrary: d) auto
  then show "k \<notin> key ` set xs \<Longrightarrow> last_entry key val xs k = 0" by (simp add: last_entry_def)
qed

theorem older_sales_reverse_nothing:
  assumes "fst ` set (payload_returned (re_payload e)) \<inter> ln_id ` set lines = {}"
  shows "event_reversal (last_entry ln_id (line_cost rows) lines) qty e = 0"
proof -
  have "reversed_cost (last_entry ln_id (line_cost rows) lines) qty x = 0" if "x \<in> set (payload_returned (re_payload e))" for x
  proof -
    have "fst x \<notin> ln_id ` set lines" using that assms by blast
    then show ?thesis by (cases x) (simp add: reversed_cost_def last_entry_none)
  qed
  then show ?thesis by (simp add: event_reversal_def cong: map_cong)
qed

section \<open>An example\<close>

definition no_iso :: iso_parser where
  "no_iso = \<lparr>datetime_fromisoformat = (\<lambda>_. None), date_fromisoformat = (\<lambda>_. None)\<rparr>"

definition report_ac :: ac_db where
  "report_ac = cash_ac\<lparr>catalog := [\<lparr>pc_id = ''r'', pc_code = ''REPORTS_VIEW''\<rparr>],
     role_template_permissions := [\<lparr>rtp_role_template_id = ''r1'', rtp_permission_id = ''r''\<rparr>]\<rparr>"

definition report_env :: request_env where
  "report_env = (cash_env CHR ''z'' 1000)\<lparr>rq_ac := report_ac, rq_directory := \<lparr>tenants = [],
     stores = [\<lparr>st_id = ''s1'', st_tenant_id = ''t1'', st_name = ''A''\<rparr>], users = []\<rparr>\<rparr>"

definition today :: report_request where
  "today = \<lparr>rp_store_id = None, rp_from = None, rp_to = None, rp_timezone = Some ''UTC'', rp_cashier = None, rp_payment_method = None\<rparr>"

definition demo_scope :: report_scope where
  "demo_scope = \<lparr>sc_tenant = ''t1'', sc_store = ''s1'', sc_start_utc = 0, sc_end_utc = 1000, sc_cashier = None, sc_method = None\<rparr>"

definition demo_range :: report_range where
  "demo_range = \<lparr>rg_start_local = 0, rg_end_local = 1000, rg_start_utc = 0, rg_end_utc = 1000\<rparr>"

definition demo_report :: report where
  "demo_report = \<lparr>ro_scope = demo_scope, ro_range = demo_range,
     ro_totals = build_report_totals (report_rows demo_scope utc_zone demo_range paid_demo),
     ro_rows = report_rows demo_scope utc_zone demo_range paid_demo,
     ro_eligible = [(''s1'', eligible_sales_count demo_scope paid_demo)]\<rparr>"

lemma today_range:
  "require_permission (rq_ac report_env) [] ''REPORTS_VIEW'' (rq_context report_env) (rq_token report_env)
    = Inr (fst (evaluate_permission (rq_ac report_env) [] [] ''REPORTS_VIEW'' (rq_context report_env) (Some (rq_token report_env))))"
  "report_store_id (rq_token report_env) (rp_store_id today) = Inr ''s1''"
  "enforce_store_scope (rq_token report_env) (Some ''s1'') (stores (rq_directory report_env)) True (Some DEFAULT_BROAD_STORE_ROLES)
    = Inr \<lparr>st_id = ''s1'', st_tenant_id = ''t1'', st_name = ''A''\<rparr>"
  "normalize_timezone_name (rp_timezone today) = ''UTC''"
  by code_simp+

lemma today_zone: "resolve_timezone (\<lambda>_. None) (rp_timezone today) = Inr utc_zone"
  by (simp add: resolve_timezone_def today_range)

lemma today_report: "report_daily (\<lambda>_. None) no_iso 92 report_env today paid_demo = Inr demo_report"
proof -
  have "resolve_date_range no_iso (rq_now report_env) (rp_from today) (rp_to today) utc_zone = Inr demo_range"
    by (simp add: resolve_date_range_def parse_datetime_or_date_def today_def report_env_def cash_env_def utc_zone_def demo_range_def
      date_of_def days_def microseconds_per_day_def falsy_def Let_def)
  moreover have "validate_date_range demo_range 92 = Inr ()"
    by (simp add: validate_date_range_def demo_range_def start_date_def end_date_def date_of_def microseconds_per_day_def)
  ultimately have "report_before (\<lambda>_. None) no_iso 92 report_env today = Inr (demo_scope, utc_zone, demo_range)"
    by (simp add: report_before_def today_range today_zone demo_scope_def)
      (simp add: demo_range_def today_def)
  then show ?thesis by (simp add: report_daily_def demo_report_def Let_def) (simp add: demo_scope_def)
qed

lemma today_sales: "map (sale_amount paid_demo) (paid_sales demo_scope paid_demo) = [110]"
  "distinct (map sl_id (sd_sales paid_demo))"
  by code_simp+

lemma today_tenders:
  "map (\<lambda>a. received (pa_issued_payment_method a) (pa_issued_amount a)) (issued_in demo_scope paid_demo) = [40]"
  "map (\<lambda>x. received (pp_method (snd x)) (pp_amount (snd x))) (tenders_in demo_scope paid_demo) = [0, 20, 60]"
  by code_simp+

theorem report_adds_up_witness:
  "rw_orders (ro_totals demo_report) = 1 \<and> rw_gross_sales (ro_totals demo_report) = 110"
proof -
  have scope: "ro_scope demo_report = demo_scope" by (simp add: demo_report_def)
  have len: "length (paid_sales demo_scope paid_demo) = 1" using arg_cong [OF today_sales(1), of length] by simp
  show ?thesis
    using report_adds_up [OF today_report _ today_sales(2)] today_zone utc_days by (simp add: scope today_sales(1) len)
qed

theorem report_tenders_add_up_witness: "rw_tender_total (ro_totals demo_report) = 120"
proof -
  have scope: "ro_scope demo_report = demo_scope" by (simp add: demo_report_def)
  show ?thesis using report_tenders_add_up [OF today_report] today_zone utc_days by (simp add: scope today_tenders)
qed

end
