(* ===== verification/Spec2Isabelle.thy ===== *)
theory Spec2Isabelle
  imports Access_Policies Idempotency Transfer_Demo Cash_Demo Advance_Demo Sale_Properties
    Stock_Properties Stock_Query Access_Routes Account_Properties Purge_Properties
    Report_Properties
begin

text \<open>
  The core of the ARIS backend (\<^verbatim>\<open>src/app/aris3\<close>): a multi-tenant retail service in Python,
  FastAPI handlers over SQLAlchemy sessions, with permissions per tenant, store and user,
  requests that may be sent again, stock that moves between stores, and the cash of a point of
  sale.

  \<^bold>\<open>How a request runs.\<close> A handler first runs its dependencies and scope checks (\<^verbatim>\<open>core/deps.py\<close>,
  \<^verbatim>\<open>core/scope.py\<close>), which raise without leaving a trace. A mutating endpoint then starts an
  idempotency record under its key, runs its body on the rows, commits, and records the reply;
  an \<^verbatim>\<open>AppError\<close> discards the body's changes and records the failure. The model has the same
  shape: an operation maps the rows to \<open>Inr\<close> new rows and a response, or \<open>Inl\<close> an error, in
  the order of the code's checks; \<open>guarded_endpoint\<close> of \<open>Request\<close> puts the record around it.

  \<^bold>\<open>Theories, in the order of use.\<close>
    \<^item> \<open>Prelude\<close>: names of the basic types, Python idioms, dictionaries in insertion order, results
      that may be an error (\<open>bindr\<close>, \<open>require\<close>), the loop \<open>for_each\<close> with its rules.
      \<open>Py_Time\<close>: decimal text and \<^verbatim>\<open>isoformat\<close>.
    \<^item> \<open>Interfaces\<close>: the contracts between components as locales: \<open>cached_oracle\<close> (a service that
      memoises its answers; interpreted on permission evaluation in \<open>Access_Control\<close>),
      \<open>replayed_requests\<close> (an endpoint that may be sent again; interpreted in \<open>Idempotency\<close>),
      \<open>simulated_steps\<close> (code that simulates a specification; interpreted on the cash operations
      in \<open>Cash_Invariants\<close>, on vouchers in \<open>Advance_Steps\<close>, on sales in \<open>Sale_Runs\<close>).
      \<open>Orm_Session\<close> has \<open>row_edits\<close>, interpreted in the transfers and in \<open>Sale_Checkout\<close>.
    \<^item> \<open>Errors\<close>: \<^verbatim>\<open>core/error_catalog.py\<close>, \<^verbatim>\<open>AppError\<close> and its handler in \<^verbatim>\<open>core/errors.py\<close>.
    \<^item> \<open>Scope\<close>: token, context, tenants, stores and users; \<^verbatim>\<open>core/scope.py\<close>,
      \<^verbatim>\<open>services/active_state.py\<close>, the tenant and store resolution of the POS routers.
    \<^item> \<open>Access_Control\<close>, \<open>Access_Policies\<close>: \<^verbatim>\<open>services/access_control.py\<close>,
      \<^verbatim>\<open>services/access_control_policies.py\<close>, \<^verbatim>\<open>repos/access_control.py\<close>, \<^verbatim>\<open>repos/rbac.py\<close>:
      the layers of a decision, the cache passed as state, the report of effective permissions,
      policies, overrides and their ceilings. Lemmas: the cache never changes an answer, when a
      permission is granted, that the check and the report agree, what a replacement changes.
    \<^item> \<open>Idempotency\<close>: \<^verbatim>\<open>services/idempotency.py\<close>, \<^verbatim>\<open>repos/idempotency.py\<close>: one request, a retry,
      and a step relation for concurrent requests and crashes.
    \<^item> \<open>Request\<close>: what a handler knows of its request, and the shape of a guarded endpoint.
    \<^item> \<open>Stock\<close>, \<open>Orm_Session\<close>: the stock row, \<^verbatim>\<open>services/stock_rules.py\<close>, and a session of
      \<^verbatim>\<open>db/session.py\<close>, which does not flush before a query: a row changed in the request is
      still selected by its stored values.
    \<^item> \<open>Transfer_Model\<close>, \<open>Transfer_Checks\<close>, \<open>Transfer_Actions\<close>: \<^verbatim>\<open>routers/transfers.py\<close> and
      \<^verbatim>\<open>repos/transfers.py\<close>: lines and snapshots, validation against the stock, and create, update,
      dispatch, receive, report and resolve shortages, cancel, list, detail. \<open>Transfer_Ledger\<close>,
      \<open>Transfer_Steps\<close>, \<open>Transfer_Invariants\<close> and \<open>Transfer_Lifecycle\<close> show what a step does to
      the books and that the books balance in every reachable state; \<open>Transfer_Effects\<close> and
      \<open>Transfer_Places\<close> show what happens to the stock; \<open>Transfer_Demo\<close> is a run with the
      witnesses.
    \<^item> \<open>Cash_Model\<close>, \<open>Cash_Sessions\<close>, \<open>Cash_Cuts\<close>: \<^verbatim>\<open>routers/pos_cash.py\<close> and the posting function
      of \<^verbatim>\<open>routers/pos_sales.py\<close>: sessions, movements, day closes, reconciliation, cuts.
      \<open>Cash_Rollup\<close> shows what the totals mean; \<open>Cash_Ledger\<close> has the step relation of the code
      and an abstract ledger with its invariants; \<open>Cash_Invariants\<close> the simulation;
      \<open>Cash_Properties\<close> the drawer machine, the totals of a day, cuts, and the isolation of
      tenants; \<open>Cash_Demo\<close> a run, the component's properties and their witnesses.
    \<^item> \<open>Drawer\<close>: \<^verbatim>\<open>routers/pos_drawer.py\<close>. \<open>Py_Decimal\<close>, \<open>Sql_Text\<close>: rounding to cents, SQL
      \<^verbatim>\<open>LIKE\<close> and text.
    \<^item> \<open>Advance_Model\<close>, \<open>Advance_Actions\<close>: \<^verbatim>\<open>routers/pos_advances.py\<close> and
      \<^verbatim>\<open>services/pos_advances.py\<close>: vouchers that are sold, refunded, consumed or expire.
      \<open>Advance_Ledger\<close> is an abstract machine of vouchers over the cash ledger, \<open>Advance_Steps\<close> the
      step relation and the simulation, \<open>Advance_Demo\<close> a run and the properties.
    \<^item> \<open>Sale_Model\<close>, \<open>Sale_Drafts\<close>, \<open>Sale_Checkout\<close>, \<open>Sale_Returns\<close>: \<^verbatim>\<open>routers/pos_sales.py\<close>:
      drafts priced from the stock, checkout, cancellation, refunds and exchanges of items.
      \<open>Return_Service\<close>: \<^verbatim>\<open>services/pos_returns.py\<close> and its routes. \<open>Sale_Ledger\<close> is an abstract
      machine with the invariant of sales, lines, payments, vouchers and cash; \<open>Sale_Payments\<close> says
      which payments are taken and what they post; \<open>Sale_Steps\<close> and \<open>Sale_Runs\<close> have the step
      relation, in which the cash, voucher and drawer routers run beside the sales, and the
      simulation; \<open>Sale_Stock\<close> shows what a checkout does to the stock; \<open>Sale_Demo\<close> is a run,
      \<open>Sale_Properties\<close> the properties and their witnesses.
    \<^item> \<open>Stock_Intake\<close>, \<open>Stock_Actions\<close>, \<open>Catalog_Products\<close>, \<open>Stock_Preload\<close>: \<^verbatim>\<open>routers/stock.py\<close> and
      \<^verbatim>\<open>services/catalog_products.py\<close>: imports, migration to tags, write-offs and replaced tags, the
      catalogue, preload sessions, the assignment and release of tags, images, issues.
      \<open>Stock_Steps\<close> says what each operation does to the rows and tags and has the step relation,
      \<open>Stock_Invariants\<close> that the unique constraints and the references hold in every reachable
      state and that other tenants keep their rows; \<open>Stock_Demo\<close> is a run, \<open>Stock_Properties\<close> the
      properties. \<open>Stock_Query\<close> is the listing: its filters, totals, pages and availability.
    \<^item> \<open>Access_Routes\<close>: \<^verbatim>\<open>routers/access_control.py\<close> and the access control routes of
      \<^verbatim>\<open>routers/admin.py\<close>; it shows how far a request of an administrator reaches.
    \<^item> \<open>Platform_Model\<close>: the tables of all components side by side, with the foreign keys and unique
      constraints of \<^verbatim>\<open>db/models.py\<close>. \<open>Platform_Purge\<close>: \<^verbatim>\<open>services/tenant_purge.py\<close>,
      \<^verbatim>\<open>services/content_wipe.py\<close> and their routes; \<open>Purge_Properties\<close> shows what a purge leaves, that
      its dry run is exact, and which rows stop it.
    \<^item> \<open>Admin_Accounts\<close>: the user routes of \<^verbatim>\<open>routers/admin.py\<close>, passwords and roles;
      \<open>Account_Properties\<close> shows who may give which role, that a suspended user is shut out of the
      routes that ask for an active user, and when
      the drawing of a password ends.
    \<^item> \<open>Report_Model\<close>: \<^verbatim>\<open>services/reports.py\<close> and \<^verbatim>\<open>routers/reports.py\<close>: the sales, refunds, costs, tenders
      and vouchers of a store by day; \<open>Report_Properties\<close> shows that a report counts each of them once.

  \<^bold>\<open>Conventions.\<close> A table is a list of records in the order of insertion, which is the order a
  query without \<^verbatim>\<open>ORDER BY\<close> gives; \<open>find\<close> is \<^verbatim>\<open>.first()\<close>. Identifiers are strings in canonical
  form, so the code's conversions between \<^verbatim>\<open>UUID\<close> and \<^verbatim>\<open>str\<close> are identities. Amounts are exact
  rationals: the code computes with \<^verbatim>\<open>Decimal\<close> and stores floats, and the rounding of that
  conversion is not modelled. The clock is read once per request. \<^verbatim>\<open>uuid4\<close> values come from
  \<open>rq_fresh\<close>; that they are new is a hypothesis of the step relations. Row locks
  (\<^verbatim>\<open>with_for_update\<close>) make the bodies of conflicting requests run one after another, which is
  what the step relations do; the concurrency of the idempotency records, which take no lock, is
  modelled step by step. The unique constraint of a day close is decided at the commit
  (\<open>commit_day_close\<close>). Request classes hold what pydantic has already validated. Every loop runs
  over a list but one: drawing a temporary password repeats until one is good, and is a partial function.

  \<^bold>\<open>Parameters.\<close> The JSON text of replies (the \<open>dump\<close> functions) and the fingerprint of a payload
  (\<open>rq_hash\<close>) are arguments; nothing is assumed of them. The listing of stock takes the database's
  sorting (\<open>order_by\<close>), assumed to be a permutation, and the address of an image. The hash of a
  password, the characters \<^verbatim>\<open>secrets.choice\<close> gives and the deletion of image files are functions
  of which nothing is assumed. Reports take the tz database, of which it is assumed that no clock is set back
  across midnight, and \<^verbatim>\<open>fromisoformat\<close>.

  \<^bold>\<open>Not modelled.\<close> Logs and metrics, and the audit events but those of purges, which no modelled code
  reads; the decoding of
  tokens and the hashing of passwords, which are libraries; exports, the store of image
  files, the AI intake of stock (an external model reads documents), and the creation, change and
  deletion of tenants and stores and the settings. The step relation of sales allows the stock to change at any time
  (\<open>Stock\<close> in \<open>Sale_Steps\<close>), so it does not depend on how the stock router changes it. For the
  cash component alone, the sales a cut reads are rows that may change in any way;
  \<open>sales_refine_ledgers\<close> then shows that they are the published sales.
\<close>

end
